(* ===== verification/AtepPrelude.thy ===== *)
theory AtepPrelude
  imports Complex_Main "HOL-Library.AList" "HOL-Library.Char_ord"
begin

text \<open>
  What every component of the platform shares: the error values of \<open>src/src/atep/core/errors.py\<close>,
  JSON documents, database tables with unique keys, the transactional outbox of
  \<open>src/src/atep/events/outbox.py\<close> and the audit log of \<open>src/src/atep/audit/service.py\<close>, and the
  string operations of Python that the services use. Characters are code points below 256, so
  \<open>length\<close> is Python's \<open>len\<close>. A UUID is its canonical text, so \<open>str(id)\<close> is the identity.
\<close>

named_theorems table_simps \<open>lookups in tables after inserts and updates\<close>
named_theorems ok_simps \<open>what a successful result says about the branches taken\<close>

type_synonym uuid = string

section \<open>Errors\<close>

text \<open>
  One constructor per exception class a modelled service raises, with the arguments of its
  constructor. \<open>ValidationError\<close> is pydantic's, \<open>IntegrityError\<close> SQLAlchemy's (with the name of
  the violated constraint), \<open>ValueError\<close>, \<open>StopIteration\<close>, \<open>IndexError\<close>, \<open>KeyError\<close>,
  \<open>AssertionError\<close>, \<open>OverflowError\<close> and \<open>ZeroDivisionError\<close> the interpreter's.
\<close>

datatype app_error =
    DuplicateEcuIdentifier
  | EcuStateVersionConflict int
  | EcuSimulationCommandConflict
  | EcuExecutionState string
  | EcuProfileContract string
  | EcuMemoryContract string
  | EcuFaultContract string
  | EcuSignalContract string
  | DuplicateEcuSignalRoute
  | EcuScenarioExecutionConflict
  | CanNetworkAlreadyExists
  | CanNetworkVersionConflict int
  | CanFrameCommandConflict
  | CanNetworkContract string
  | CanArbitrationCommandConflict
  | CanFaultCommandConflict
  | CanNodeBusOff
  | CanFaultState string
  | MultiBusGatewayCommandConflict
  | MultiBusGatewayContract string
  | MultiBusCampaignCommandConflict
  | MultiBusCampaignContract string
  | DiagnosticCommandConflict
  | DiagnosticContract string int
  | CanDbcCatalogueAlreadyExists
  | CanSignalCodecCommandConflict
  | TestRunConflict
  | TestRunVersionConflict int
  | TestRunState string string
  | TestCaseResultVersionConflict int
  | TestCaseResultState string string
  | EnvironmentProfileConflict
  | EnvironmentProfileVersionConflict int
  | EnvironmentProfileState string string
  | TestJobConflict
  | TestJobVersionConflict int
  | TestJobState string string
  | TestDefinitionConflict
  | TestSuiteConflict
  | TestCatalogVersionConflict int
  | TestCatalogState string string
  | ModuleCapabilityRequired string
  | VehicleCommandConflict
  | VehicleCommandState
  | InvalidCommandClaim
  | ResourceNotFound string
  | ValidationError string
  | IntegrityError string
  | ValueError string
  | StopIteration
  | IndexError
  | KeyError
  | AssertionError
  | OverflowError
  | ZeroDivisionError

text \<open>The HTTP status each error is answered with; an error no handler expects is a 500.\<close>

fun error_status :: "app_error \<Rightarrow> int" where
  "error_status (ResourceNotFound _) = 404"
| "error_status (EcuProfileContract _) = 422"
| "error_status (EcuMemoryContract _) = 422"
| "error_status (EcuFaultContract _) = 422"
| "error_status (EcuSignalContract _) = 422"
| "error_status (CanNetworkContract _) = 422"
| "error_status (CanFaultState _) = 422"
| "error_status (MultiBusGatewayContract _) = 422"
| "error_status (MultiBusCampaignContract _) = 422"
| "error_status (DiagnosticContract _ _) = 422"
| "error_status (ValidationError _) = 500"
| "error_status (IntegrityError _) = 500"
| "error_status (ValueError _) = 500"
| "error_status StopIteration = 500"
| "error_status IndexError = 500"
| "error_status KeyError = 500"
| "error_status AssertionError = 500"
| "error_status OverflowError = 500"
| "error_status ZeroDivisionError = 500"
| "error_status (ModuleCapabilityRequired _) = 403"
| "error_status _ = 409"

section \<open>Results\<close>

text \<open>
  An operation returns its error or its value with the new state; on an error the transaction is
  rolled back, so no state is returned. \<open>and_then\<close> runs the rest of a handler on the value of a
  call that may raise.
\<close>

definition and_then :: "'e + 'a \<Rightarrow> ('a \<Rightarrow> 'e + 'b) \<Rightarrow> 'e + 'b" where
  "and_then r f = (case r of Inl e \<Rightarrow> Inl e | Inr x \<Rightarrow> f x)"

lemma and_then_simps [simp]: "and_then (Inl e) f = Inl e" "and_then (Inr x) f = f x"
  by (simp_all add: and_then_def)

lemma and_then_Inr [ok_simps]: "and_then r f = Inr y \<longleftrightarrow> (\<exists>x. r = Inr x \<and> f x = Inr y)"
  by (cases r) auto

lemma and_then_Inl [ok_simps]:
  "and_then r f = Inl e \<longleftrightarrow> r = Inl e \<or> (\<exists>x. r = Inr x \<and> f x = Inl e)"
  by (cases r) auto

lemma if_Inl_Inr [ok_simps]: "(if b then Inl e else r) = Inr x \<longleftrightarrow> \<not> b \<and> r = Inr x"
  by auto

definition of_option :: "'e \<Rightarrow> 'a option \<Rightarrow> 'e + 'a" where
  "of_option e x = (case x of None \<Rightarrow> Inl e | Some y \<Rightarrow> Inr y)"

lemma of_option_simps [simp]: "of_option e None = Inl e" "of_option e (Some y) = Inr y"
  by (simp_all add: of_option_def)

lemma of_option_Inr [ok_simps]: "of_option e x = Inr y \<longleftrightarrow> x = Some y"
  by (cases x) auto

lemma of_option_Inl [ok_simps]: "of_option e x = Inl e' \<longleftrightarrow> x = None \<and> e' = e"
  by (cases x) auto

text \<open>\<open>[f(x) for x in xs]\<close> where \<open>f\<close> may raise: the first error stops it.\<close>

fun map_ok :: "('a \<Rightarrow> 'e + 'b) \<Rightarrow> 'a list \<Rightarrow> 'e + 'b list" where
  "map_ok f [] = Inr []"
| "map_ok f (x # xs) = and_then (f x) (\<lambda>y. and_then (map_ok f xs) (\<lambda>ys. Inr (y # ys)))"

lemma map_ok_Inr: "map_ok f xs = Inr ys \<longleftrightarrow> list_all2 (\<lambda>x y. f x = Inr y) xs ys"
proof (induction xs arbitrary: ys)
  case Nil
  then show ?case by auto
next
  case (Cons x xs)
  then show ?case by (cases ys) (auto simp: ok_simps)
qed

lemma map_ok_length: "map_ok f xs = Inr ys \<Longrightarrow> length ys = length xs"
  by (simp add: map_ok_Inr list_all2_lengthD)

section \<open>JSON documents\<close>

text \<open>
  A dictionary is the list of its items in insertion order; \<open>{**d, **e}\<close> keeps the positions of
  \<open>d\<close>, takes the values of \<open>e\<close> and appends the new keys of \<open>e\<close>.
\<close>

datatype json =
    JNull
  | JBool bool
  | JInt int
  | JFloat rat
  | JStr string
  | JArr "json list"
  | JObj "(string \<times> json) list"

type_synonym dict = "(string \<times> json) list"

fun dict_update :: "('k \<times> 'v) list \<Rightarrow> ('k \<times> 'v) list \<Rightarrow> ('k \<times> 'v) list" where
  "dict_update d [] = d"
| "dict_update d ((k, v) # e) = dict_update (AList.update k v d) e"

lemma dict_update_lookup: "map_of (dict_update d e) = map_of d ++ map_of (rev e)"
proof (induction d e rule: dict_update.induct)
  case (1 d)
  then show ?case by simp
next
  case (2 d k v e)
  then show ?case by (simp add: update_conv' map_add_def fun_eq_iff split: option.splits)
qed

lemma dict_update_distinct: "distinct (map fst d) \<Longrightarrow> distinct (map fst (dict_update d e))"
  by (induction d e rule: dict_update.induct) (simp_all add: distinct_update)

definition jopt :: "('a \<Rightarrow> json) \<Rightarrow> 'a option \<Rightarrow> json" where
  "jopt f x = (case x of None \<Rightarrow> JNull | Some y \<Rightarrow> f y)"

section \<open>Tables\<close>

text \<open>
  A table is the list of its rows. \<open>select\<close> is \<open>session.scalar(select(T).where(p))\<close>: the first row
  of the query, or nothing. \<open>insert_row\<close> is \<open>session.add\<close> and \<open>flush\<close> under a unique constraint on
  \<open>key\<close>. \<open>update_row\<close> is the flush of a changed object.
\<close>

definition select :: "('r \<Rightarrow> bool) \<Rightarrow> 'r list \<Rightarrow> 'r option" where
  "select p rows = find p rows"

definition insert_row :: "('r \<Rightarrow> 'k) \<Rightarrow> 'r \<Rightarrow> 'r list \<Rightarrow> 'r list option" where
  "insert_row key r rows = (if key r \<in> set (map key rows) then None else Some (rows @ [r]))"

definition update_row :: "('r \<Rightarrow> 'k) \<Rightarrow> 'r \<Rightarrow> 'r list \<Rightarrow> 'r list" where
  "update_row key r rows = map (\<lambda>x. if key x = key r then r else x) rows"

text \<open>
  \<open>insert_unless clash\<close> inserts under several constraints at once; \<open>clash\<close> says which stored rows
  collide with the new one. \<open>page\<close> is \<open>limit(l).offset(o)\<close>.
\<close>

definition insert_unless :: "('r \<Rightarrow> bool) \<Rightarrow> 'r \<Rightarrow> 'r list \<Rightarrow> 'r list option" where
  "insert_unless clash r rows = (if list_ex clash rows then None else Some (rows @ [r]))"

definition page :: "nat \<Rightarrow> nat \<Rightarrow> 'r list \<Rightarrow> 'r list" where
  "page limit offset rows = take limit (drop offset rows)"

lemma page_append: "page l 0 rows @ page m l rows = page (l + m) 0 rows"
  by (simp add: page_def take_add)

lemma insert_unless_Some [table_simps]:
  "insert_unless clash r rows = Some rows' \<longleftrightarrow> (\<forall>x\<in>set rows. \<not> clash x) \<and> rows' = rows @ [r]"
  by (auto simp: insert_unless_def list_ex_iff)

lemma select_None: "select p rows = None \<longleftrightarrow> (\<forall>r\<in>set rows. \<not> p r)"
  by (auto simp: select_def find_None_iff)

lemma select_SomeD: "select p rows = Some r \<Longrightarrow> r \<in> set rows \<and> p r"
  by (auto simp: select_def find_Some_iff)

lemma select_Nil [table_simps]: "select p [] = None"
  by (simp add: select_def)

lemma select_append [table_simps]:
  "select p (xs @ ys) = (case select p xs of None \<Rightarrow> select p ys | Some r \<Rightarrow> Some r)"
  by (induction xs) (auto simp: select_def)

lemma select_one [table_simps]: "select p [r] = (if p r then Some r else None)"
  by (simp add: select_def)

lemma select_unique:
  assumes "distinct (map key rows)" and "r \<in> set rows" shows "select (\<lambda>x. key x = key r) rows = Some r"
proof (cases "select (\<lambda>x. key x = key r) rows")
  case None
  then show ?thesis using assms(2) by (auto simp: select_None)
next
  case (Some q)
  then have "q \<in> set rows" "key q = key r" using select_SomeD by force+
  then show ?thesis using Some assms by (metis distinct_map inj_onD)
qed

lemma insert_row_Some [table_simps]:
  "insert_row key r rows = Some rows' \<longleftrightarrow> key r \<notin> key ` set rows \<and> rows' = rows @ [r]"
  by (auto simp: insert_row_def)

lemma select_grows: "select p xs = Some r \<Longrightarrow> select p (xs @ ys) = Some r"
  by (simp add: select_append)

lemma select_insert_miss: "select p xs = None \<Longrightarrow> p r \<Longrightarrow> select p (xs @ [r]) = Some r"
  by (simp add: select_append select_one)

lemma insert_row_distinct:
  "insert_row key r rows = Some rows' \<Longrightarrow> distinct (map key rows) \<Longrightarrow> distinct (map key rows')"
  by (auto simp: table_simps)

lemma insert_row_after_miss:
  assumes "select p rows = None" and "\<And>x. x \<in> set rows \<Longrightarrow> key x = key r \<Longrightarrow> p x"
  shows "insert_row key r rows = Some (rows @ [r])"
proof -
  have "key r \<notin> key ` set rows" using assms unfolding select_None by (metis imageE)
  then show ?thesis by (simp add: insert_row_def)
qed

lemma update_row_keys [table_simps]: "map key (update_row key r rows) = map key rows"
  by (induction rows) (auto simp: update_row_def)

lemma update_row_length [table_simps]: "length (update_row key r rows) = length rows"
  by (simp add: update_row_def)

lemma select_update_row:
  assumes "\<And>x. x \<in> set rows \<Longrightarrow> key x = key r \<Longrightarrow> p x = p r"
  shows "select p (update_row key r rows)
    = map_option (\<lambda>x. if key x = key r then r else x) (select p rows)"
  using assms by (induction rows) (auto simp: select_def update_row_def)

lemma select_update_same:
  assumes "select p rows = Some q" "key q = key r"
    and "\<And>x. x \<in> set rows \<Longrightarrow> key x = key r \<Longrightarrow> p x = p r"
  shows "select p (update_row key r rows) = Some r"
  using select_update_row[of rows key r p] assms by simp

text \<open>Several rows in one flush: the first collision undoes all of it.\<close>

fun insert_rows :: "('r \<Rightarrow> 'k) \<Rightarrow> 'r list \<Rightarrow> 'r list \<Rightarrow> 'r list option" where
  "insert_rows key [] rows = Some rows"
| "insert_rows key (r # rs) rows =
     (case insert_row key r rows of None \<Rightarrow> None | Some rows' \<Rightarrow> insert_rows key rs rows')"

lemma insert_rows_Some: "insert_rows key rs rows = Some rows'
  \<longleftrightarrow> rows' = rows @ rs \<and> distinct (map key rs) \<and> key ` set rs \<inter> key ` set rows = {}"
proof (induction rs arbitrary: rows)
  case (Cons r rs)
  show ?case
  proof (cases "key r \<in> key ` set rows")
    case True
    then show ?thesis by (auto simp: insert_row_def)
  next
    case False
    then have "insert_rows key (r # rs) rows = insert_rows key rs (rows @ [r])"
      by (simp add: insert_row_def)
    then show ?thesis using False Cons.IH[of "rows @ [r]"] by auto
  qed
qed auto

section \<open>Least element of a sequence\<close>

text \<open>\<open>min(xs, key=f)\<close>: the first of the elements with the least key.\<close>

fun min_key :: "('a \<Rightarrow> 'k::linorder) \<Rightarrow> 'a \<Rightarrow> 'a list \<Rightarrow> 'a" where
  "min_key f x [] = x"
| "min_key f x (y # ys) = (if f y < f x then min_key f y ys else min_key f x ys)"

lemma min_key_in: "min_key f x ys \<in> insert x (set ys)"
  by (induction f x ys rule: min_key.induct) auto

lemma min_key_le_head: "f (min_key f x ys) \<le> f x"
proof (induction f x ys rule: min_key.induct)
  case (2 f x y ys)
  then show ?case by (cases "f y < f x") auto
qed simp

lemma min_key_le: "y \<in> insert x (set ys) \<Longrightarrow> f (min_key f x ys) \<le> f y"
proof (induction f x ys rule: min_key.induct)
  case (2 f x z zs)
  show ?case
  proof (cases "f z < f x")
    case True
    have "f (min_key f z zs) \<le> f z" by (rule min_key_le_head)
    then show ?thesis using 2(1)[OF True] 2(3) True by auto
  next
    case False
    have "f (min_key f x zs) \<le> f x" by (rule min_key_le_head)
    then show ?thesis using 2(2)[OF False] 2(3) False by auto
  qed
qed simp

section \<open>Outbox and audit log\<close>

record outbox_event =
  ev_type :: string
  ev_aggregate_type :: string
  ev_aggregate_id :: uuid
  ev_payload :: dict
  ev_correlation_id :: "uuid option"

record audit_record =
  au_actor_user_id :: "uuid option"
  au_action :: string
  au_resource_type :: string
  au_resource_id :: uuid
  au_outcome :: string
  au_correlation_id :: "uuid option"
  au_details :: dict

record session =
  outbox :: "outbox_event list"
  audit_log :: "audit_record list"

definition enqueue_event ::
  "string \<Rightarrow> string \<Rightarrow> uuid \<Rightarrow> dict \<Rightarrow> uuid option \<Rightarrow> 's session_scheme \<Rightarrow> 's session_scheme" where
  "enqueue_event event_type aggregate_type aggregate_id payload correlation_id s =
     s\<lparr>outbox := outbox s @ [\<lparr>ev_type = event_type, ev_aggregate_type = aggregate_type,
        ev_aggregate_id = aggregate_id, ev_payload = payload, ev_correlation_id = correlation_id\<rparr>]\<rparr>"

definition record_audit ::
  "uuid option \<Rightarrow> string \<Rightarrow> string \<Rightarrow> uuid \<Rightarrow> uuid option \<Rightarrow> dict
    \<Rightarrow> 's session_scheme \<Rightarrow> 's session_scheme" where
  "record_audit actor action resource_type resource_id correlation_id details s =
     s\<lparr>audit_log := audit_log s @ [\<lparr>au_actor_user_id = actor, au_action = action,
        au_resource_type = resource_type, au_resource_id = resource_id, au_outcome = ''success'',
        au_correlation_id = correlation_id, au_details = details\<rparr>]\<rparr>"

text \<open>
  The evidence of one state change: one outbox event and one audit record, appended together. The
  two counts are what the components' evidence theorems speak of.
\<close>

definition evidence_counts :: "'s session_scheme \<Rightarrow> nat \<times> nat" where
  "evidence_counts s = (length (outbox s), length (audit_log s))"

lemma evidence_counts_enqueue [simp]:
  "evidence_counts (enqueue_event t a i p c s) = (Suc (fst (evidence_counts s)), snd (evidence_counts s))"
  by (simp add: evidence_counts_def enqueue_event_def)

lemma evidence_counts_audit [simp]:
  "evidence_counts (record_audit u a t i c d s) = (fst (evidence_counts s), Suc (snd (evidence_counts s)))"
  by (simp add: evidence_counts_def record_audit_def)

lemma enqueue_event_more [simp]: "session.more (enqueue_event t a i p c s) = session.more s"
  by (simp add: enqueue_event_def)

lemma record_audit_more [simp]: "session.more (record_audit u a t i c d s) = session.more s"
  by (simp add: record_audit_def)

end
