(* ===== verification/AtepText.thy ===== *)
theory AtepText
  imports AtepPrelude
begin

text \<open>
  Python's text operations as the request models use them: decimal and hexadecimal formatting,
  \<open>strip\<close>, and the identifier patterns of the pydantic fields as predicates on the characters.
  \<open>strip\<close> removes the characters \<open>str.isspace\<close> accepts among the code points below 256.
\<close>

section \<open>Numbers as text\<close>

definition digit_char :: "nat \<Rightarrow> char" where
  "digit_char d = (if d < 10 then char_of (48 + d) else char_of (55 + d))"

fun nat_base :: "nat \<Rightarrow> nat \<Rightarrow> string" where
  "nat_base b n = (if b < 2 \<or> n < b then [digit_char n] else nat_base b (n div b) @ [digit_char (n mod b)])"

declare nat_base.simps [simp del]

text \<open>\<open>str(n)\<close> and \<open>f"{n:04X}"\<close>; hexadecimal digits are upper case.\<close>

definition int_str :: "int \<Rightarrow> string" where
  "int_str n = (if n < 0 then CHR ''-'' # nat_base 10 (nat (- n)) else nat_base 10 (nat n))"

definition hex_pad :: "nat \<Rightarrow> int \<Rightarrow> string" where
  "hex_pad w n =
     (let h = nat_base 16 (nat n) in replicate (w - length h) (CHR ''0'') @ h)"

text \<open>The digits determine the number: formatting is injective.\<close>

definition char_digit :: "char \<Rightarrow> nat" where
  "char_digit c = (let k = of_char c in if k < 58 then k - 48 else k - 55)"

definition read_base :: "nat \<Rightarrow> string \<Rightarrow> nat" where
  "read_base b = foldl (\<lambda>acc c. b * acc + char_digit c) 0"

lemma char_digit_char:
  assumes "d < 36" shows "char_digit (digit_char d) = d"
proof (cases "d < 10")
  case True
  then have "of_char (digit_char d) = 48 + d"
    unfolding digit_char_def by (simp only: if_True of_char_of) simp
  then show ?thesis using True by (simp add: char_digit_def)
next
  case False
  then have "of_char (digit_char d) = 55 + d"
    using assms unfolding digit_char_def by (simp only: if_False of_char_of) simp
  then show ?thesis using False by (simp add: char_digit_def)
qed

lemma nat_base_less: "n < b \<Longrightarrow> nat_base b n = [digit_char n]"
  by (subst nat_base.simps) simp

lemma nat_base_step:
  "2 \<le> b \<Longrightarrow> b \<le> n \<Longrightarrow> nat_base b n = nat_base b (n div b) @ [digit_char (n mod b)]"
  by (subst nat_base.simps) simp

lemma read_nat_base: "2 \<le> b \<Longrightarrow> b \<le> 36 \<Longrightarrow> read_base b (nat_base b n) = n"
proof (induction n rule: less_induct)
  case (less n)
  show ?case
  proof (cases "n < b")
    case True
    then show ?thesis
      using less.prems by (simp add: nat_base_less read_base_def char_digit_char)
  next
    case False
    have lt: "n div b < n" using False less.prems by (intro div_less_dividend) auto
    have "n mod b < b" using less.prems by (intro mod_less_divisor) auto
    then have "n mod b < 36" using less.prems(2) by linarith
    then have d: "char_digit (digit_char (n mod b)) = n mod b" by (rule char_digit_char)
    have "read_base b (nat_base b n) = b * read_base b (nat_base b (n div b)) + n mod b"
      using False less.prems by (simp add: nat_base_step read_base_def d)
    then show ?thesis using less.IH[OF lt less.prems] by simp
  qed
qed

lemma nat_base_inject: "2 \<le> b \<Longrightarrow> b \<le> 36 \<Longrightarrow> nat_base b m = nat_base b n \<longleftrightarrow> m = n"
  using read_nat_base by metis

lemma nat_base_digits: "2 \<le> b \<Longrightarrow> c \<in> set (nat_base b n) \<Longrightarrow> \<exists>d<b. c = digit_char d"
proof (induction n rule: less_induct)
  case (less n)
  show ?case
  proof (cases "n < b")
    case True
    then show ?thesis using less.prems by (auto simp: nat_base_less)
  next
    case False
    then have "c \<in> set (nat_base b (n div b)) \<or> c = digit_char (n mod b)" "n div b < n" "n mod b < b"
      using less.prems by (auto simp: nat_base_step)
    then show ?thesis using less by blast
  qed
qed

lemma int_str_inject: "0 \<le> m \<Longrightarrow> 0 \<le> n \<Longrightarrow> int_str m = int_str n \<longleftrightarrow> m = n"
  by (auto simp: int_str_def nat_base_inject eq_nat_nat_iff)

section \<open>Characters and patterns\<close>

definition is_lower :: "char \<Rightarrow> bool" where
  "is_lower c \<longleftrightarrow> 97 \<le> (of_char c :: nat) \<and> (of_char c :: nat) \<le> 122"

definition is_upper :: "char \<Rightarrow> bool" where
  "is_upper c \<longleftrightarrow> 65 \<le> (of_char c :: nat) \<and> (of_char c :: nat) \<le> 90"

definition is_digit :: "char \<Rightarrow> bool" where
  "is_digit c \<longleftrightarrow> 48 \<le> (of_char c :: nat) \<and> (of_char c :: nat) \<le> 57"

definition is_space :: "char \<Rightarrow> bool" where
  "is_space c \<longleftrightarrow> (let k = of_char c :: nat
     in 9 \<le> k \<and> k \<le> 13 \<or> 28 \<le> k \<and> k \<le> 32 \<or> k = 133 \<or> k = 160)"

definition strip :: "string \<Rightarrow> string" where
  "strip s = rev (dropWhile is_space (rev (dropWhile is_space s)))"

text \<open>
  \<open>^[first][rest]+$\<close>: at least two characters. \<open>^[first][rest]*$\<close>: at least one.
\<close>

definition matches_plus :: "(char \<Rightarrow> bool) \<Rightarrow> (char \<Rightarrow> bool) \<Rightarrow> string \<Rightarrow> bool" where
  "matches_plus first rest s = (case s of c # d # t \<Rightarrow> first c \<and> list_all rest (d # t) | _ \<Rightarrow> False)"

definition matches_star :: "(char \<Rightarrow> bool) \<Rightarrow> (char \<Rightarrow> bool) \<Rightarrow> string \<Rightarrow> bool" where
  "matches_star first rest s = (case s of c # t \<Rightarrow> first c \<and> list_all rest t | [] \<Rightarrow> False)"

definition len_between :: "nat \<Rightarrow> nat \<Rightarrow> 'a list \<Rightarrow> bool" where
  "len_between lo hi s \<longleftrightarrow> lo \<le> length s \<and> length s \<le> hi"

definition int_between :: "int \<Rightarrow> int \<Rightarrow> int \<Rightarrow> bool" where
  "int_between lo hi n \<longleftrightarrow> lo \<le> n \<and> n \<le> hi"

text \<open>\<open>min_length=2, max_length=80, pattern=^[a-z][a-z0-9_-]+$\<close>, the identifiers of the CAN models.\<close>

definition slug_ok :: "string \<Rightarrow> bool" where
  "slug_ok s \<longleftrightarrow> len_between 2 80 s
     \<and> matches_plus is_lower (\<lambda>c. is_lower c \<or> is_digit c \<or> c \<in> {CHR ''_'', CHR ''-''}) s"

text \<open>\<open>min_length=8, pattern=^[A-Za-z0-9][A-Za-z0-9._:-]+$\<close>, with the length bound as an argument.\<close>

definition command_id_ok :: "nat \<Rightarrow> string \<Rightarrow> bool" where
  "command_id_ok hi s \<longleftrightarrow> len_between 8 hi s
     \<and> matches_plus (\<lambda>c. is_lower c \<or> is_upper c \<or> is_digit c)
         (\<lambda>c. is_lower c \<or> is_upper c \<or> is_digit c \<or> c \<in> {CHR ''.'', CHR ''_'', CHR '':'', CHR ''-''}) s"

text \<open>\<open>^[A-Za-z][A-Za-z0-9_]*$\<close>, the names of DBC signals.\<close>

definition signal_name_ok :: "string \<Rightarrow> bool" where
  "signal_name_ok s \<longleftrightarrow> len_between 1 80 s
     \<and> matches_star (\<lambda>c. is_lower c \<or> is_upper c)
         (\<lambda>c. is_lower c \<or> is_upper c \<or> is_digit c \<or> c = CHR ''_'') s"

definition bytes_ok :: "int list \<Rightarrow> bool" where
  "bytes_ok value \<longleftrightarrow> \<not> list_ex (\<lambda>item. item < 0 \<or> item > 255) value"

lemma bytes_ok_iff: "bytes_ok value \<longleftrightarrow> (\<forall>b\<in>set value. 0 \<le> b \<and> b < 256)"
  by (force simp: bytes_ok_def list_ex_iff)

section \<open>Case folding\<close>

text \<open>
  \<open>casefold\<close> and \<open>upper\<close> on code points below 256. The sharp s becomes two letters. The two
  characters whose image is outside the range (the micro sign, and \<open>y\<close> with diaeresis for
  \<open>upper\<close>) stay themselves: no pattern below accepts them or their image.
\<close>

definition casefold_char :: "char \<Rightarrow> string" where
  "casefold_char c = (let k = of_char c :: nat in
     if is_upper c \<or> 192 \<le> k \<and> k \<le> 222 \<and> k \<noteq> 215 then [char_of (k + 32)]
     else if k = 223 then ''ss'' else [c])"

definition casefold :: "string \<Rightarrow> string" where
  "casefold s = concat (map casefold_char s)"

definition upper_char :: "char \<Rightarrow> string" where
  "upper_char c = (let k = of_char c :: nat in
     if is_lower c \<or> 224 \<le> k \<and> k \<le> 254 \<and> k \<noteq> 247 then [char_of (k - 32)]
     else if k = 223 then ''SS'' else [c])"

definition upper :: "string \<Rightarrow> string" where
  "upper s = concat (map upper_char s)"

text \<open>
  The text operations leave a string alone whose characters they leave alone; so a name that
  matched its pattern once is kept by every later validation of the same document.
\<close>

lemma strip_id: "list_all (\<lambda>c. \<not> is_space c) s \<Longrightarrow> strip s = s"
proof -
  have drop: "dropWhile is_space t = t" if "\<forall>c\<in>set t. \<not> is_space c" for t
    using that by (cases t) auto
  assume "list_all (\<lambda>c. \<not> is_space c) s"
  then show ?thesis by (simp add: strip_def drop list_all_iff)
qed

lemma casefold_id: "list_all (\<lambda>c. casefold_char c = [c]) s \<Longrightarrow> casefold s = s"
  by (induction s) (auto simp: casefold_def)

lemma upper_id: "list_all (\<lambda>c. upper_char c = [c]) s \<Longrightarrow> upper s = s"
  by (induction s) (auto simp: upper_def)

definition lower_name_char :: "char \<Rightarrow> bool" where
  "lower_name_char c \<longleftrightarrow> is_lower c \<or> is_digit c \<or> c = CHR ''_'' \<or> c = CHR ''-''"

lemma lower_name_char_code:
  "lower_name_char c \<Longrightarrow> 97 \<le> (of_char c :: nat) \<and> of_char c \<le> (122 :: nat)
     \<or> 48 \<le> (of_char c :: nat) \<and> of_char c \<le> (57 :: nat) \<or> (of_char c :: nat) = 95 \<or> (of_char c :: nat) = 45"
  by (auto simp: lower_name_char_def is_lower_def is_digit_def)

lemma lower_name_char_fixed:
  assumes "lower_name_char c" shows "casefold_char c = [c]" and "\<not> is_space c"
  using lower_name_char_code[OF assms]
  by (auto simp: casefold_char_def is_space_def is_upper_def Let_def)

lemma lower_name_stable: "list_all lower_name_char s \<Longrightarrow> casefold (strip s) = s"
  by (simp add: strip_id casefold_id list_all_iff lower_name_char_fixed)

definition upper_name_char :: "char \<Rightarrow> bool" where
  "upper_name_char c \<longleftrightarrow> is_upper c \<or> is_digit c \<or> c = CHR ''_''"

lemma upper_name_char_fixed:
  assumes "upper_name_char c" shows "upper_char c = [c]" and "\<not> is_space c"
proof -
  have "65 \<le> (of_char c :: nat) \<and> of_char c \<le> (90 :: nat)
     \<or> 48 \<le> (of_char c :: nat) \<and> of_char c \<le> (57 :: nat) \<or> (of_char c :: nat) = 95"
    using assms by (auto simp: upper_name_char_def is_upper_def is_digit_def)
  then show "upper_char c = [c]" "\<not> is_space c"
    by (auto simp: upper_char_def is_space_def is_lower_def Let_def)
qed

lemma upper_name_stable: "list_all upper_name_char s \<Longrightarrow> upper (strip s) = s"
  by (simp add: strip_id upper_id list_all_iff upper_name_char_fixed)

end
