(* ===== verification/CanSchemas.thy ===== *)
theory CanSchemas
  imports AtepText
begin

text \<open>
  The request and document models of \<open>src/src/atep/can_network/schemas.py\<close>: one record per pydantic
  model, one datatype per \<open>StrEnum\<close>, and for each model the predicate its field constraints and
  validators make. A validator that raises is a function into \<open>app_error\<close> with the branches in
  the order of the code; \<open>X_ok\<close> says that pydantic accepts the document.
\<close>

section \<open>Enumerations\<close>

datatype CanFrameFormat = STANDARD | EXTENDED
datatype CanFrameProtocol = CLASSIC | FD
datatype CanNodeRole = PARTICIPANT | GATEWAY | MONITOR
datatype CanNodeErrorMode = ERROR_ACTIVE | ERROR_PASSIVE | BUS_OFF
datatype CanFaultType = TRANSMISSION_ERROR | RECEPTION_ERROR | FRAME_LOSS
datatype VehicleBusProtocol = CAN | LIN | ETHERNET
datatype LinChecksumModel = LIN_CLASSIC | LIN_ENHANCED
datatype MultiBusCampaignFault = NO_FAULT | CAMPAIGN_FRAME_LOSS | GATEWAY_UNAVAILABLE
datatype CanDbcByteOrder = INTEL | MOTOROLA

fun frame_format_value :: "CanFrameFormat \<Rightarrow> string" where
  "frame_format_value STANDARD = ''standard''"
| "frame_format_value EXTENDED = ''extended''"

fun frame_protocol_value :: "CanFrameProtocol \<Rightarrow> string" where
  "frame_protocol_value CLASSIC = ''classic''"
| "frame_protocol_value FD = ''fd''"

fun error_mode_value :: "CanNodeErrorMode \<Rightarrow> string" where
  "error_mode_value ERROR_ACTIVE = ''error_active''"
| "error_mode_value ERROR_PASSIVE = ''error_passive''"
| "error_mode_value BUS_OFF = ''bus_off''"

fun fault_type_value :: "CanFaultType \<Rightarrow> string" where
  "fault_type_value TRANSMISSION_ERROR = ''transmission_error''"
| "fault_type_value RECEPTION_ERROR = ''reception_error''"
| "fault_type_value FRAME_LOSS = ''frame_loss''"

fun protocol_value :: "VehicleBusProtocol \<Rightarrow> string" where
  "protocol_value CAN = ''can''"
| "protocol_value LIN = ''lin''"
| "protocol_value ETHERNET = ''ethernet''"

fun campaign_fault_value :: "MultiBusCampaignFault \<Rightarrow> string" where
  "campaign_fault_value NO_FAULT = ''none''"
| "campaign_fault_value CAMPAIGN_FRAME_LOSS = ''frame_loss''"
| "campaign_fault_value GATEWAY_UNAVAILABLE = ''gateway_unavailable''"

definition CAN_FD_PAYLOAD_LENGTHS :: "int set" where
  "CAN_FD_PAYLOAD_LENGTHS = {0, 1, 2, 3, 4, 5, 6, 7, 8, 12, 16, 20, 24, 32, 48, 64}"

section \<open>The CAN network\<close>

record can_node_error_state =
  transmit_error_count :: int
  receive_error_count :: int
  error_mode :: CanNodeErrorMode

definition can_node_error_state_ok :: "can_node_error_state \<Rightarrow> bool" where
  "can_node_error_state_ok s \<longleftrightarrow>
     int_between 0 256 (transmit_error_count s) \<and> int_between 0 255 (receive_error_count s)"

record can_node =
  cn_ecu_id :: uuid
  cn_role :: CanNodeRole

record can_frame_contract =
  fc_identifier :: string
  fc_frame_id :: int
  fc_frame_format :: CanFrameFormat
  fc_protocol :: CanFrameProtocol
  fc_dlc :: int
  fc_bitrate_switch :: bool
  fc_producer_node_id :: uuid
  fc_consumer_node_ids :: "uuid list"

definition validate_contract :: "can_frame_contract \<Rightarrow> app_error + can_frame_contract" where
  "validate_contract c =
     (if fc_frame_format c = STANDARD \<and> fc_frame_id c > 0x7FF
        then Inl (ValueError ''standard CAN frame_id must be at most 0x7FF'')
      else if fc_protocol c = CLASSIC \<and> fc_dlc c > 8
        then Inl (ValueError ''classic CAN frame DLC must be at most 8'')
      else if fc_protocol c = CLASSIC \<and> fc_bitrate_switch c
        then Inl (ValueError ''bitrate switching is available only for CAN FD frames'')
      else if fc_protocol c = FD \<and> fc_dlc c \<notin> CAN_FD_PAYLOAD_LENGTHS
        then Inl (ValueError ''CAN FD payload length must use an ISO-defined DLC size'')
      else if fc_producer_node_id c \<in> set (fc_consumer_node_ids c)
        then Inl (ValueError ''producer cannot also be a consumer'')
      else if \<not> distinct (fc_consumer_node_ids c)
        then Inl (ValueError ''consumer node identifiers must be unique'')
      else Inr c)"

definition can_frame_contract_ok :: "can_frame_contract \<Rightarrow> bool" where
  "can_frame_contract_ok c \<longleftrightarrow>
     slug_ok (fc_identifier c) \<and> int_between 0 0x1FFFFFFF (fc_frame_id c) \<and> int_between 0 64 (fc_dlc c)
     \<and> len_between 0 63 (fc_consumer_node_ids c) \<and> validate_contract c = Inr c"

record can_network_create =
  nc_identifier :: string
  nc_display_name :: string
  nc_bitrate_kbps :: int
  nc_can_fd_enabled :: bool
  nc_data_bitrate_kbps :: "int option"
  nc_nodes :: "can_node list"
  nc_frame_contracts :: "can_frame_contract list"

text \<open>The loop over the contracts at the end of \<open>validate_topology\<close>.\<close>

fun check_contracts :: "uuid set \<Rightarrow> bool \<Rightarrow> can_frame_contract list \<Rightarrow> app_error option" where
  "check_contracts known fd [] = None"
| "check_contracts known fd (c # cs) =
     (if fc_protocol c = FD \<and> \<not> fd
        then Some (ValueError ''CAN FD frame contracts require a CAN FD-enabled network'')
      else if fc_producer_node_id c \<notin> known \<or> \<not> set (fc_consumer_node_ids c) \<subseteq> known
        then Some (ValueError ''CAN frame contracts may reference only declared nodes'')
      else check_contracts known fd cs)"

definition validate_topology :: "can_network_create \<Rightarrow> app_error + can_network_create" where
  "validate_topology c =
     (if nc_can_fd_enabled c \<and> nc_data_bitrate_kbps c = None
        then Inl (ValueError ''CAN FD networks require a data bitrate'')
      else if nc_can_fd_enabled c \<and> the (nc_data_bitrate_kbps c) < nc_bitrate_kbps c
        then Inl (ValueError ''CAN FD data bitrate must be at least the nominal bitrate'')
      else if \<not> nc_can_fd_enabled c \<and> nc_data_bitrate_kbps c \<noteq> None
        then Inl (ValueError ''classic CAN networks cannot define a data bitrate'')
      else if \<not> distinct (map cn_ecu_id (nc_nodes c))
        then Inl (ValueError ''CAN node ECU identifiers must be unique'')
      else if \<not> distinct (map fc_identifier (nc_frame_contracts c))
        then Inl (ValueError ''CAN frame contract identifiers must be unique'')
      else if \<not> distinct (map (\<lambda>f. (fc_frame_format f, fc_frame_id f)) (nc_frame_contracts c))
        then Inl (ValueError ''CAN frame identifiers must be unique per format'')
      else case check_contracts (set (map cn_ecu_id (nc_nodes c))) (nc_can_fd_enabled c)
                  (nc_frame_contracts c) of
             Some e \<Rightarrow> Inl e
           | None \<Rightarrow> Inr c)"

definition can_network_create_ok :: "can_network_create \<Rightarrow> bool" where
  "can_network_create_ok c \<longleftrightarrow>
     slug_ok (nc_identifier c) \<and> len_between 2 120 (nc_display_name c)
     \<and> int_between 10 1000 (nc_bitrate_kbps c)
     \<and> (case nc_data_bitrate_kbps c of None \<Rightarrow> True | Some b \<Rightarrow> int_between 10 8000 b)
     \<and> len_between 1 64 (nc_nodes c) \<and> len_between 0 256 (nc_frame_contracts c)
     \<and> list_all can_frame_contract_ok (nc_frame_contracts c) \<and> validate_topology c = Inr c"

record can_frame_submit_command =
  sc_command_id :: string
  sc_expected_version :: int
  sc_contract_id :: string
  sc_producer_node_id :: uuid
  sc_payload :: "int list"
  sc_advance_time_us :: int

definition can_frame_submit_command_ok :: "can_frame_submit_command \<Rightarrow> bool" where
  "can_frame_submit_command_ok c \<longleftrightarrow>
     command_id_ok 64 (sc_command_id c) \<and> sc_expected_version c \<ge> 1 \<and> slug_ok (sc_contract_id c)
     \<and> len_between 0 64 (sc_payload c) \<and> bytes_ok (sc_payload c)
     \<and> int_between 0 10000000 (sc_advance_time_us c)"

record can_fault_injection_command =
  fi_command_id :: string
  fi_expected_version :: int
  fi_contract_id :: string
  fi_target_node_id :: uuid
  fi_fault_type :: CanFaultType
  fi_occurrences :: int
  fi_advance_time_us :: int

definition can_fault_injection_command_ok :: "can_fault_injection_command \<Rightarrow> bool" where
  "can_fault_injection_command_ok c \<longleftrightarrow>
     command_id_ok 64 (fi_command_id c) \<and> fi_expected_version c \<ge> 1 \<and> slug_ok (fi_contract_id c)
     \<and> int_between 1 32 (fi_occurrences c) \<and> int_between 0 10000000 (fi_advance_time_us c)"

record can_bus_recovery_command =
  br_command_id :: string
  br_expected_version :: int
  br_target_node_id :: uuid
  br_recessive_sequences :: int

definition can_bus_recovery_command_ok :: "can_bus_recovery_command \<Rightarrow> bool" where
  "can_bus_recovery_command_ok c \<longleftrightarrow>
     command_id_ok 64 (br_command_id c) \<and> br_expected_version c \<ge> 1
     \<and> int_between 128 1024 (br_recessive_sequences c)"

section \<open>Arbitration\<close>

record can_arbitration_contender =
  ct_contract_id :: string
  ct_producer_node_id :: uuid
  ct_payload :: "int list"
  ct_ready_offset_us :: int

record can_arbitration_command =
  ac_command_id :: string
  ac_expected_version :: int
  ac_contenders :: "can_arbitration_contender list"

definition can_arbitration_contender_ok :: "can_arbitration_contender \<Rightarrow> bool" where
  "can_arbitration_contender_ok c \<longleftrightarrow>
     slug_ok (ct_contract_id c) \<and> len_between 0 64 (ct_payload c) \<and> bytes_ok (ct_payload c)
     \<and> int_between 0 10000000 (ct_ready_offset_us c)"

definition can_arbitration_command_ok :: "can_arbitration_command \<Rightarrow> bool" where
  "can_arbitration_command_ok c \<longleftrightarrow>
     command_id_ok 40 (ac_command_id c) \<and> ac_expected_version c \<ge> 1
     \<and> len_between 1 64 (ac_contenders c) \<and> list_all can_arbitration_contender_ok (ac_contenders c)
     \<and> distinct (map ct_contract_id (ac_contenders c))"

record can_delivery_evidence =
  de_consumer_node_id :: uuid
  de_received_at_us :: int
  de_latency_us :: int

record can_arbitrated_frame =
  af_rank :: int
  af_sequence :: int
  af_contract_id :: string
  af_frame_id :: int
  af_frame_format :: CanFrameFormat
  af_protocol :: CanFrameProtocol
  af_bitrate_switch :: bool
  af_producer_node_id :: uuid
  af_dlc :: int
  af_bit_count :: int
  af_nominal_bit_count :: int
  af_data_bit_count :: int
  af_nominal_phase_duration_us :: int
  af_data_phase_duration_us :: int
  af_ready_at_us :: int
  af_started_at_us :: int
  af_completed_at_us :: int
  af_duration_us :: int
  af_deliveries :: "can_delivery_evidence list"

record can_bus_utilization =
  ut_window_start_us :: int
  ut_window_end_us :: int
  ut_window_duration_us :: int
  ut_occupied_us :: int
  ut_idle_us :: int
  ut_utilization_percent :: rat
  ut_maximum_latency_us :: int

section \<open>LIN, Ethernet and gateway routes\<close>

record lin_frame_contract =
  lf_identifier :: string
  lf_frame_id :: int
  lf_publisher_node_id :: uuid
  lf_subscriber_node_ids :: "uuid list"
  lf_payload_length :: int
  lf_checksum_model :: LinChecksumModel

definition validate_nodes :: "lin_frame_contract \<Rightarrow> app_error + lin_frame_contract" where
  "validate_nodes f =
     (if lf_publisher_node_id f \<in> set (lf_subscriber_node_ids f)
        then Inl (ValueError ''LIN publisher cannot also be a subscriber'')
      else if \<not> distinct (lf_subscriber_node_ids f)
        then Inl (ValueError ''LIN subscriber identifiers must be unique'')
      else Inr f)"

definition lin_frame_contract_ok :: "lin_frame_contract \<Rightarrow> bool" where
  "lin_frame_contract_ok f \<longleftrightarrow>
     slug_ok (lf_identifier f) \<and> int_between 0 63 (lf_frame_id f)
     \<and> len_between 1 15 (lf_subscriber_node_ids f) \<and> int_between 1 8 (lf_payload_length f)
     \<and> validate_nodes f = Inr f"

record lin_channel_contract =
  lc_identifier :: string
  lc_bitrate_kbps :: int
  lc_master_node_id :: uuid
  lc_frames :: "lin_frame_contract list"

definition lin_channel_contract_ok :: "lin_channel_contract \<Rightarrow> bool" where
  "lin_channel_contract_ok c \<longleftrightarrow>
     slug_ok (lc_identifier c) \<and> int_between 1 20 (lc_bitrate_kbps c)
     \<and> len_between 1 64 (lc_frames c) \<and> list_all lin_frame_contract_ok (lc_frames c)"

record ethernet_message_contract =
  em_identifier :: string
  em_ether_type :: int
  em_source_node_id :: uuid
  em_destination_node_ids :: "uuid list"
  em_payload_length :: int
  em_vlan_id :: "int option"

definition ethernet_message_contract_ok :: "ethernet_message_contract \<Rightarrow> bool" where
  "ethernet_message_contract_ok m \<longleftrightarrow>
     slug_ok (em_identifier m) \<and> int_between 0x0600 0xFFFF (em_ether_type m)
     \<and> len_between 1 63 (em_destination_node_ids m) \<and> int_between 1 1500 (em_payload_length m)
     \<and> (case em_vlan_id m of None \<Rightarrow> True | Some v \<Rightarrow> int_between 1 4094 v)"

record ethernet_segment_contract =
  es_identifier :: string
  es_speed_mbps :: int
  es_messages :: "ethernet_message_contract list"

definition ethernet_segment_contract_ok :: "ethernet_segment_contract \<Rightarrow> bool" where
  "ethernet_segment_contract_ok s \<longleftrightarrow>
     slug_ok (es_identifier s) \<and> int_between 100 1000 (es_speed_mbps s)
     \<and> (es_speed_mbps s = 100 \<or> es_speed_mbps s = 1000)
     \<and> len_between 1 256 (es_messages s) \<and> list_all ethernet_message_contract_ok (es_messages s)"

record gateway_route_contract =
  gr_identifier :: string
  gr_gateway_node_id :: uuid
  gr_source_protocol :: VehicleBusProtocol
  gr_source_contract_id :: string
  gr_destination_protocol :: VehicleBusProtocol
  gr_destination_contract_id :: string

definition validate_protocols :: "gateway_route_contract \<Rightarrow> app_error + gateway_route_contract" where
  "validate_protocols r =
     (if gr_source_protocol r = gr_destination_protocol r
        then Inl (ValueError ''gateway routes must connect different bus protocols'')
      else Inr r)"

definition gateway_route_contract_ok :: "gateway_route_contract \<Rightarrow> bool" where
  "gateway_route_contract_ok r \<longleftrightarrow>
     slug_ok (gr_identifier r) \<and> len_between 2 80 (gr_source_contract_id r)
     \<and> len_between 2 80 (gr_destination_contract_id r) \<and> validate_protocols r = Inr r"

record multibus_configuration_command =
  mc_command_id :: string
  mc_expected_version :: int
  mc_lin_channels :: "lin_channel_contract list"
  mc_ethernet_segments :: "ethernet_segment_contract list"
  mc_gateway_routes :: "gateway_route_contract list"

definition multibus_configuration_command_ok :: "multibus_configuration_command \<Rightarrow> bool" where
  "multibus_configuration_command_ok c \<longleftrightarrow>
     command_id_ok 64 (mc_command_id c) \<and> mc_expected_version c \<ge> 1
     \<and> len_between 0 8 (mc_lin_channels c) \<and> list_all lin_channel_contract_ok (mc_lin_channels c)
     \<and> len_between 0 8 (mc_ethernet_segments c)
     \<and> list_all ethernet_segment_contract_ok (mc_ethernet_segments c)
     \<and> len_between 1 128 (mc_gateway_routes c) \<and> list_all gateway_route_contract_ok (mc_gateway_routes c)"

record gateway_route_command =
  rc_command_id :: string
  rc_expected_version :: int
  rc_route_id :: string
  rc_payload :: "int list"
  rc_advance_time_us :: int

definition gateway_route_command_ok :: "gateway_route_command \<Rightarrow> bool" where
  "gateway_route_command_ok c \<longleftrightarrow>
     command_id_ok 64 (rc_command_id c) \<and> rc_expected_version c \<ge> 1 \<and> slug_ok (rc_route_id c)
     \<and> len_between 1 1500 (rc_payload c) \<and> bytes_ok (rc_payload c)
     \<and> int_between 0 10000000 (rc_advance_time_us c)"

record multibus_campaign_step =
  ms_identifier :: string
  ms_route_id :: string
  ms_payload :: "int list"
  ms_advance_time_us :: int
  ms_latency_budget_us :: "int option"
  ms_fault :: MultiBusCampaignFault

definition multibus_campaign_step_ok :: "multibus_campaign_step \<Rightarrow> bool" where
  "multibus_campaign_step_ok s \<longleftrightarrow>
     slug_ok (ms_identifier s) \<and> slug_ok (ms_route_id s) \<and> len_between 1 1500 (ms_payload s)
     \<and> bytes_ok (ms_payload s) \<and> int_between 0 10000000 (ms_advance_time_us s)
     \<and> (case ms_latency_budget_us s of None \<Rightarrow> True | Some b \<Rightarrow> int_between 1 60000000 b)"

record multibus_campaign_command =
  mp_command_id :: string
  mp_expected_version :: int
  mp_steps :: "multibus_campaign_step list"

definition multibus_campaign_command_ok :: "multibus_campaign_command \<Rightarrow> bool" where
  "multibus_campaign_command_ok c \<longleftrightarrow>
     command_id_ok 64 (mp_command_id c) \<and> mp_expected_version c \<ge> 1 \<and> len_between 1 64 (mp_steps c)
     \<and> list_all multibus_campaign_step_ok (mp_steps c) \<and> distinct (map ms_identifier (mp_steps c))"

section \<open>DBC catalogues and the signal codec\<close>

text \<open>
  A \<open>Decimal\<close> is a coefficient and a decimal exponent; two spellings of a number (\<open>1.0\<close>, \<open>1.00\<close>)
  are different requests and equal numbers.
\<close>

datatype decimal = Dec int int

fun dec_value :: "decimal \<Rightarrow> rat" where
  "dec_value (Dec c e) = of_int c * 10 powi e"

record can_dbc_signal =
  sg_identifier :: string
  sg_start_bit :: int
  sg_bit_length :: int
  sg_byte_order :: CanDbcByteOrder
  sg_signed :: bool
  sg_factor :: rat
  sg_offset :: rat
  sg_minimum :: "rat option"
  sg_maximum :: "rat option"
  sg_unit :: string

definition validate_physical_range :: "can_dbc_signal \<Rightarrow> app_error + can_dbc_signal" where
  "validate_physical_range s =
     (case (sg_minimum s, sg_maximum s) of
        (Some lo, Some hi) \<Rightarrow>
          if lo > hi
            then Inl (ValueError ''signal minimum must be less than or equal to maximum'')
          else Inr s
      | _ \<Rightarrow> Inr s)"

definition can_dbc_signal_ok :: "can_dbc_signal \<Rightarrow> bool" where
  "can_dbc_signal_ok s \<longleftrightarrow>
     signal_name_ok (sg_identifier s) \<and> int_between 0 511 (sg_start_bit s)
     \<and> int_between 1 512 (sg_bit_length s) \<and> sg_factor s > 0 \<and> len_between 0 32 (sg_unit s)
     \<and> validate_physical_range s = Inr s"

record can_dbc_message =
  dm_contract_id :: string
  dm_signals :: "can_dbc_signal list"

definition can_dbc_message_ok :: "can_dbc_message \<Rightarrow> bool" where
  "can_dbc_message_ok m \<longleftrightarrow>
     slug_ok (dm_contract_id m) \<and> len_between 1 64 (dm_signals m)
     \<and> list_all can_dbc_signal_ok (dm_signals m) \<and> distinct (map sg_identifier (dm_signals m))"

record can_dbc_catalogue_create =
  dc_expected_version :: int
  dc_identifier :: string
  dc_display_name :: string
  dc_revision :: string
  dc_messages :: "can_dbc_message list"

definition can_dbc_catalogue_create_ok :: "can_dbc_catalogue_create \<Rightarrow> bool" where
  "can_dbc_catalogue_create_ok c \<longleftrightarrow>
     dc_expected_version c \<ge> 1 \<and> slug_ok (dc_identifier c) \<and> len_between 2 120 (dc_display_name c)
     \<and> len_between 1 40 (dc_revision c) \<and> len_between 1 256 (dc_messages c)
     \<and> list_all can_dbc_message_ok (dc_messages c) \<and> distinct (map dm_contract_id (dc_messages c))"

record can_signal_encode_command =
  se_command_id :: string
  se_contract_id :: string
  se_values :: "(string \<times> decimal) list"

record can_signal_decode_command =
  sd_command_id :: string
  sd_contract_id :: string
  sd_payload :: "int list"

definition can_signal_encode_command_ok :: "can_signal_encode_command \<Rightarrow> bool" where
  "can_signal_encode_command_ok c \<longleftrightarrow>
     command_id_ok 64 (se_command_id c) \<and> slug_ok (se_contract_id c)
     \<and> distinct (map fst (se_values c)) \<and> len_between 1 64 (se_values c)"

definition can_signal_decode_command_ok :: "can_signal_decode_command \<Rightarrow> bool" where
  "can_signal_decode_command_ok c \<longleftrightarrow>
     command_id_ok 64 (sd_command_id c) \<and> slug_ok (sd_contract_id c)
     \<and> len_between 0 64 (sd_payload c) \<and> bytes_ok (sd_payload c)"

end
