(* ===== verification/Numerics.thy ===== *)
theory Numerics imports Complex_Main "HOL-Library.Log_Nat" begin

text \<open>
  The numbers of the Python programs: binary64 floats and 28-digit decimals as rationals rounded
  to a fixed number of significant digits, and the integer idioms (rounding up a quotient,
  rounding a float to decimal places) that the services build from them. A float is the rational
  it denotes; infinities, NaN, the sign of zero and subnormal numbers are not represented, and no
  value of the modelled services is one.
\<close>

section \<open>Round half to even\<close>

definition round_half_even :: "rat \<Rightarrow> int" where
  "round_half_even x =
     (let f = \<lfloor>x\<rfloor>; d = x - of_int f
      in if d < 1/2 then f else if 1/2 < d then f + 1 else if even f then f else f + 1)"

lemma round_half_even_of_int [simp]: "round_half_even (of_int n) = n"
  by (simp add: round_half_even_def)

lemma round_half_even_error: "\<bar>of_int (round_half_even x) - x\<bar> \<le> 1/2"
proof -
  obtain f where f: "\<lfloor>x\<rfloor> = f" and lo: "of_int f \<le> x" and hi: "x \<le> of_int f + 1"
    by (metis floor_correct less_imp_le of_int_1 of_int_add)
  show ?thesis
    unfolding round_half_even_def Let_def f using lo hi by (auto simp: abs_if)
qed

lemma round_half_even_le_int:
  assumes "x \<le> of_int n" shows "round_half_even x \<le> n"
proof -
  have "of_int (round_half_even x) \<le> x + 1/2"
    using round_half_even_error[of x] by linarith
  then have "(of_int (round_half_even x) :: rat) < of_int (n + 1)"
    using assms by simp
  then show ?thesis by linarith
qed

lemma round_half_even_ge_int:
  assumes "of_int n \<le> x" shows "n \<le> round_half_even x"
proof -
  have "x - 1/2 \<le> of_int (round_half_even x)"
    using round_half_even_error[of x] by linarith
  then have "(of_int (n - 1) :: rat) < of_int (round_half_even x)"
    using assms by simp
  then show ?thesis by linarith
qed

section \<open>Rounding to significant digits\<close>

text \<open>
  \<open>expo b x\<close> is the exponent of the leading base-\<open>b\<close> digit of a positive \<open>x\<close>; the digit counts of
  numerator and denominator leave two candidates.
\<close>

definition expo :: "nat \<Rightarrow> rat \<Rightarrow> int" where
  "expo b x =
     (let (p, q) = quotient_of x;
          e = int (floorlog b (nat p)) - int (floorlog b (nat q))
      in if of_nat b powi e \<le> x then e else e - 1)"

definition round_sig :: "nat \<Rightarrow> nat \<Rightarrow> rat \<Rightarrow> rat" where
  "round_sig b digits x =
     (if x = 0 then 0
      else let u = of_nat b powi (expo b \<bar>x\<bar> - (int digits - 1))
           in of_int (round_half_even (x / u)) * u)"

text \<open>A binary64 operation is the exact one rounded to 53 bits; a decimal one, to 28 digits.\<close>

definition fl :: "rat \<Rightarrow> rat" where
  "fl = round_sig 2 53"

definition dec28 :: "rat \<Rightarrow> rat" where
  "dec28 = round_sig 10 28"

lemma floorlog_rat_bounds:
  assumes "2 \<le> b" "0 < n"
  shows "(of_nat b :: rat) powi (int (floorlog b n) - 1) \<le> of_nat n"
    and "of_nat n < (of_nat b :: rat) powi int (floorlog b n)"
proof -
  have k: "0 < floorlog b n"
    using assms by (simp add: floorlog_def)
  have "b ^ (floorlog b n - 1) \<le> n \<and> n < b ^ floorlog b n"
    using floorlog_bounds[of n b] assms by simp
  then have lo: "(of_nat (b ^ (floorlog b n - 1)) :: rat) \<le> of_nat n"
    and hi: "of_nat n < (of_nat (b ^ floorlog b n) :: rat)"
    by (simp_all only: of_nat_le_iff of_nat_less_iff)
  have e: "int (floorlog b n) - 1 = int (floorlog b n - 1)"
    using k by simp
  show "(of_nat b :: rat) powi (int (floorlog b n) - 1) \<le> of_nat n"
    unfolding e using lo by (simp add: power_int_of_nat)
  show "of_nat n < (of_nat b :: rat) powi int (floorlog b n)"
    using hi by (simp add: power_int_of_nat)
qed

lemma expo_bounds:
  assumes b: "2 \<le> b" and x: "0 < x"
  shows "of_nat b powi expo b x \<le> x" and "x < of_nat b powi (expo b x + 1)"
proof -
  obtain p q where pq: "quotient_of x = (p, q)" by (cases "quotient_of x")
  have xq: "x = of_int p / of_int q" and q: "0 < q"
    using quotient_of_div[OF pq] quotient_of_denom_pos[OF pq] by auto
  have p: "0 < p" using x q unfolding xq by (simp add: zero_less_divide_iff)
  define P Q where "P = int (floorlog b (nat p))" and "Q = int (floorlog b (nat q))"
  have B: "(0::rat) < of_nat b" using b by simp
  have lop: "of_nat b powi (P - 1) \<le> (of_int p :: rat)" and hip: "of_int p < (of_nat b :: rat) powi P"
    using floorlog_rat_bounds[of b "nat p"] b p by (simp_all add: P_def)
  have loq: "of_nat b powi (Q - 1) \<le> (of_int q :: rat)" and hiq: "of_int q < (of_nat b :: rat) powi Q"
    using floorlog_rat_bounds[of b "nat q"] b q by (simp_all add: Q_def)
  have pos: "0 < (of_nat b :: rat) powi k" for k using B by simp
  have "of_nat b powi (P - 1) / of_nat b powi Q \<le> x"
    unfolding xq using lop hiq p q pos by (intro frac_le) (auto intro: less_imp_le)
  then have lo: "of_nat b powi (P - Q - 1) \<le> x"
    using B by (simp add: power_int_diff [symmetric] algebra_simps)
  have "x < of_nat b powi P / of_nat b powi (Q - 1)"
    unfolding xq using hip loq p pos by (intro frac_less) (auto intro: less_imp_le)
  then have hi: "x < of_nat b powi (P - Q + 1)"
    using B by (simp add: power_int_diff power_int_add algebra_simps)
  have ex: "expo b x = (if of_nat b powi (P - Q) \<le> x then P - Q else P - Q - 1)"
    by (simp add: expo_def pq P_def Q_def Let_def)
  show "of_nat b powi expo b x \<le> x" "x < of_nat b powi (expo b x + 1)"
    using lo hi unfolding ex by auto
qed

lemma expo_unique:
  assumes b: "2 \<le> b" and x: "0 < x" and "x < of_nat b powi k"
  shows "expo b x < k"
proof (rule ccontr)
  assume "\<not> expo b x < k"
  then have "(of_nat b :: rat) powi k \<le> of_nat b powi expo b x"
    using b by (intro power_int_increasing) auto
  with expo_bounds(1)[OF b x] assms(3) show False by simp
qed

text \<open>The ulp of a nonzero value, and the three facts every rounding argument uses.\<close>

definition ulp :: "nat \<Rightarrow> nat \<Rightarrow> rat \<Rightarrow> rat" where
  "ulp b digits x = of_nat b powi (expo b \<bar>x\<bar> - (int digits - 1))"

lemma ulp_pos: "2 \<le> b \<Longrightarrow> 0 < ulp b d x"
  by (simp add: ulp_def zero_less_power_int)

lemma round_sig_ulp:
  "x \<noteq> 0 \<Longrightarrow> round_sig b d x = of_int (round_half_even (x / ulp b d x)) * ulp b d x"
  by (simp add: round_sig_def ulp_def Let_def)

lemma round_sig_abs_error:
  assumes "2 \<le> b" "x \<noteq> 0" shows "\<bar>round_sig b d x - x\<bar> \<le> ulp b d x / 2"
proof -
  have u: "0 < ulp b d x" using assms by (simp add: ulp_pos)
  have "round_sig b d x - x = (of_int (round_half_even (x / ulp b d x)) - x / ulp b d x) * ulp b d x"
    using u assms by (simp add: round_sig_ulp algebra_simps)
  then have "\<bar>round_sig b d x - x\<bar>
      = \<bar>of_int (round_half_even (x / ulp b d x)) - x / ulp b d x\<bar> * ulp b d x"
    using u by (simp add: abs_mult)
  also have "\<dots> \<le> 1 / 2 * ulp b d x"
    using u round_half_even_error by (intro mult_right_mono) auto
  finally show ?thesis by simp
qed

lemma ulp_le_relative:
  assumes "2 \<le> b" "x \<noteq> 0" shows "ulp b d x \<le> \<bar>x\<bar> * of_nat b powi (1 - int d)"
proof -
  have "ulp b d x = of_nat b powi expo b \<bar>x\<bar> * of_nat b powi (1 - int d)"
    unfolding ulp_def using assms
    by (subst power_int_add [symmetric]) (auto simp: algebra_simps)
  also have "\<dots> \<le> \<bar>x\<bar> * of_nat b powi (1 - int d)"
    using expo_bounds(1)[of b "\<bar>x\<bar>"] assms by (intro mult_right_mono) auto
  finally show ?thesis .
qed

lemma round_half_even_minus: "round_half_even (- x) = - round_half_even x"
proof -
  obtain f where f: "\<lfloor>x\<rfloor> = f" and lo: "of_int f \<le> x" and hi: "x < of_int f + 1"
    by (metis floor_correct of_int_1 of_int_add)
  show ?thesis
  proof (cases "x = of_int f")
    case True
    then show ?thesis by (metis of_int_minus round_half_even_of_int)
  next
    case False
    then have g: "\<lfloor>- x\<rfloor> = - f - 1"
      using lo hi by (intro floor_unique) auto
    show ?thesis
      unfolding round_half_even_def Let_def f g by auto
  qed
qed

lemma round_sig_minus: "round_sig b d (- x) = - round_sig b d x"
proof -
  have "(- x) / u = - (x / u)" for u :: rat by simp
  then show ?thesis
    by (simp only: round_sig_def abs_minus_cancel Let_def round_half_even_minus) simp
qed

text \<open>
  A number with at most \<open>d\<close> digits is \<open>representable\<close>; rounding never crosses one. This is the
  monotonicity that bounds on rounded results need.
\<close>

definition representable :: "nat \<Rightarrow> nat \<Rightarrow> rat \<Rightarrow> bool" where
  "representable b d n \<longleftrightarrow> (\<exists>m k. n = of_int m * of_nat b powi k \<and> \<bar>m\<bar> \<le> int b ^ d)"

lemma representable_int: "\<bar>m\<bar> \<le> int b ^ d \<Longrightarrow> representable b d (of_int m)"
  unfolding representable_def by (rule exI[of _ m], rule exI[of _ 0]) simp

lemma representable_minus: "representable b d (- n) \<longleftrightarrow> representable b d n"
  unfolding representable_def
  by (metis (no_types, opaque_lifting) abs_minus_cancel minus_minus mult_minus_left of_int_minus)

lemma representable_multiple:
  assumes b: "2 \<le> b" and "representable b d n"
  obtains j where "n = of_int j * of_nat b powi (e - (int d - 1))" | "\<bar>n\<bar> \<le> of_nat b powi e"
proof -
  from assms(2) obtain m k where n: "n = of_int m * of_nat b powi k" and m: "\<bar>m\<bar> \<le> int b ^ d"
    unfolding representable_def by blast
  have B: "(0::rat) < of_nat b" using b by simp
  show thesis
  proof (cases "e - (int d - 1) \<le> k")
    case True
    then have "(of_nat b :: rat) powi k
        = of_int (int b ^ nat (k - (e - (int d - 1)))) * of_nat b powi (e - (int d - 1))"
      using B by (simp flip: power_int_of_nat power_int_add)
    then have "n = of_int (m * int b ^ nat (k - (e - (int d - 1)))) * of_nat b powi (e - (int d - 1))"
      unfolding n by simp
    then show thesis by (rule that(1))
  next
    case False
    have "\<bar>n\<bar> = of_int \<bar>m\<bar> * of_nat b powi k"
      using B by (simp add: n abs_mult)
    also have "\<dots> \<le> of_int (int b ^ d) * of_nat b powi k"
      using m B by (intro mult_right_mono, simp only: of_int_le_iff) (simp add: zero_le_power_int)
    also have "\<dots> = of_nat b powi (int d + k)"
      using B by (simp add: power_int_add)
    also have "\<dots> \<le> of_nat b powi e"
      using False b by (intro power_int_increasing) auto
    finally show thesis by (rule that(2))
  qed
qed

lemma round_sig_le_multiple:
  assumes "2 \<le> b" "x \<noteq> 0" "x \<le> of_int j * ulp b d x"
  shows "round_sig b d x \<le> of_int j * ulp b d x"
proof -
  have u: "0 < ulp b d x" using assms by (simp add: ulp_pos)
  then have "round_half_even (x / ulp b d x) \<le> j"
    using assms(3) by (intro round_half_even_le_int) (simp add: pos_divide_le_eq)
  then have "(of_int (round_half_even (x / ulp b d x)) :: rat) \<le> of_int j"
    by (simp only: of_int_le_iff)
  then show ?thesis
    using u assms(2) by (simp add: round_sig_ulp)
qed

lemma power_expo_multiple:
  assumes "2 \<le> b" "1 \<le> d"
  shows "of_nat b powi expo b \<bar>x\<bar> = of_int (int b ^ (d - 1)) * ulp b d x"
  using assms by (simp add: ulp_def flip: power_int_of_nat power_int_add)

lemma round_sig_le:
  assumes b: "2 \<le> b" and d: "1 \<le> d" and xn: "x \<le> n" and n: "representable b d n"
  shows "round_sig b d x \<le> n"
proof (cases "x = 0")
  case True
  then show ?thesis using xn by (simp add: round_sig_def)
next
  case x: False
  let ?p = "of_nat b powi expo b \<bar>x\<bar> :: rat"
  have p: "?p \<le> \<bar>x\<bar>" using expo_bounds(1)[OF b] x by simp
  from b n show ?thesis
  proof (cases rule: representable_multiple[where e = "expo b \<bar>x\<bar>"])
    case (1 j)
    then show ?thesis
      using round_sig_le_multiple[OF b x, of j d] xn by (simp add: ulp_def)
  next
    case 2
    show ?thesis
    proof (cases "0 < x")
      case True
      then have "n = ?p" using 2 p xn by simp
      then show ?thesis
        using round_sig_le_multiple[OF b x, of "int b ^ (d - 1)" d] xn power_expo_multiple[OF b d, of x]
        by simp
    next
      case False
      then have "x \<le> - ?p" using x p by simp
      then have "round_sig b d x \<le> - ?p"
        using round_sig_le_multiple[OF b x, of "- (int b ^ (d - 1))" d] power_expo_multiple[OF b d, of x]
        by simp
      then show ?thesis using 2 by (simp add: abs_le_iff)
    qed
  qed
qed

lemma round_sig_ge:
  assumes "2 \<le> b" "1 \<le> d" "n \<le> x" "representable b d n"
  shows "n \<le> round_sig b d x"
  using round_sig_le[of b d "- x" "- n"] assms by (simp add: round_sig_minus representable_minus)

lemma round_sig_exact:
  assumes "2 \<le> b" "1 \<le> d" "representable b d n" shows "round_sig b d n = n"
  using round_sig_le[OF assms(1,2) order_refl assms(3)] round_sig_ge[OF assms(1,2) order_refl assms(3)]
  by simp

lemma round_sig_nonneg: "2 \<le> b \<Longrightarrow> 1 \<le> d \<Longrightarrow> 0 \<le> x \<Longrightarrow> 0 \<le> round_sig b d x"
  using round_sig_ge[of b d 0 x] representable_int[of 0 b d] by simp

text \<open>Evaluation at a concrete number: name the exponent and the nearest integer.\<close>

lemma expo_eqI:
  assumes b: "2 \<le> b" and "of_nat b powi e \<le> x" "x < of_nat b powi (e + 1)"
  shows "expo b x = e"
proof -
  have x: "0 < x" using assms by (meson less_le_trans of_nat_0_less_iff pos2 zero_less_power_int)
  have "expo b x < e + 1" using expo_unique[OF b x assms(3)] .
  moreover have "e < expo b x + 1"
  proof (rule ccontr)
    assume "\<not> e < expo b x + 1"
    then have "(of_nat b :: rat) powi (expo b x + 1) \<le> of_nat b powi e"
      using b by (intro power_int_increasing) auto
    with expo_bounds(2)[OF b x] assms(2) show False by simp
  qed
  ultimately show ?thesis by simp
qed

lemma round_half_even_eqI:
  assumes "of_int n - 1/2 < x" "x < of_int n + 1/2" shows "round_half_even x = n"
proof -
  have "\<bar>of_int (round_half_even x) - (of_int n :: rat)\<bar> < 1"
    using round_half_even_error[of x] assms by linarith
  then have "\<bar>of_int (round_half_even x - n) :: rat\<bar> < 1" by simp
  then show ?thesis by linarith
qed

section \<open>Binary64 facts\<close>

lemma fl_of_int: "\<bar>n\<bar> \<le> 2 ^ 53 \<Longrightarrow> fl (of_int n) = of_int n"
  unfolding fl_def by (intro round_sig_exact representable_int) auto

lemma fl_le_of_int: "x \<le> of_int n \<Longrightarrow> \<bar>n\<bar> \<le> 2 ^ 53 \<Longrightarrow> fl x \<le> of_int n"
  unfolding fl_def by (intro round_sig_le representable_int) auto

lemma fl_nonneg: "0 \<le> x \<Longrightarrow> 0 \<le> fl x"
  unfolding fl_def by (rule round_sig_nonneg) auto

lemma fl_relative_error: "\<bar>fl x - x\<bar> \<le> \<bar>x\<bar> / 2 ^ 53"
proof (cases "x = 0")
  case True
  then show ?thesis by (simp add: fl_def round_sig_def)
next
  case False
  have "\<bar>fl x - x\<bar> \<le> ulp 2 53 x / 2"
    unfolding fl_def using False by (intro round_sig_abs_error) auto
  also have "\<dots> \<le> \<bar>x\<bar> * 2 powi (1 - int 53) / 2"
    using ulp_le_relative[of 2 x 53] False by simp
  also have "(2::rat) powi (1 - int 53) = 2 / 2 ^ 53"
    by (simp add: power_int_minus)
  finally show ?thesis by simp
qed

section \<open>Python idioms on integers and floats\<close>

text \<open>\<open>a / b\<close> on integers is correctly rounded; \<open>ceil\<close> of a float is exact.\<close>

definition py_truediv :: "int \<Rightarrow> int \<Rightarrow> rat" where
  "py_truediv a b = fl (of_int a / of_int b)"

definition py_ceil :: "rat \<Rightarrow> int" where
  "py_ceil x = \<lceil>x\<rceil>"

text \<open>\<open>round(x, k)\<close> rounds the exact value half to even at \<open>k\<close> decimals, then to binary64.\<close>

definition py_round :: "rat \<Rightarrow> nat \<Rightarrow> rat" where
  "py_round x k = fl (of_int (round_half_even (x * 10 ^ k)) / 10 ^ k)"

text \<open>The integer quotient rounded up, which the float idiom computes below \<open>2\<^sup>5\<^sup>3\<close>.\<close>

definition ceil_div :: "int \<Rightarrow> int \<Rightarrow> int" where
  "ceil_div a b = - ((- a) div b)"

lemma ceil_div_bounds:
  assumes "0 < b" shows "a \<le> ceil_div a b * b" and "(ceil_div a b - 1) * b < a"
proof -
  obtain q r where q: "(- a) div b = q" and eq: "q * b + r = - a" and r: "0 \<le> r" "r < b"
    using assms by (metis div_mult_mod_eq pos_mod_bound pos_mod_sign)
  then show "a \<le> ceil_div a b * b" "(ceil_div a b - 1) * b < a"
    unfolding ceil_div_def q using eq r by (simp_all add: algebra_simps)
qed

lemma ceil_div_nonneg: "0 < b \<Longrightarrow> 0 \<le> a \<Longrightarrow> 0 \<le> ceil_div a b"
  by (simp add: ceil_div_def div_nonpos_pos_le0)

lemma ceil_div_pos: "0 < b \<Longrightarrow> 0 < a \<Longrightarrow> 0 < ceil_div a b"
  by (simp add: ceil_div_def div_neg_pos_less0)

lemma ceil_div_le: "0 < b \<Longrightarrow> 0 \<le> a \<Longrightarrow> ceil_div a b \<le> a"
  using ceil_div_bounds(2)[of b a] by (smt (verit) mult_le_cancel_left1 ceil_div_nonneg mult.commute)

text \<open>
  Rounding the quotient to binary64 before rounding it up does not change the answer: a quotient
  that is not whole is at least \<open>1/b\<close> away from the integers around it, and the rounding moves
  it by less than that.
\<close>

lemma py_ceil_truediv:
  assumes a: "0 \<le> a" "a < 2 ^ 53" and b: "0 < b"
  shows "py_ceil (py_truediv a b) = ceil_div a b"
proof -
  let ?x = "of_int a / of_int b :: rat" and ?n = "ceil_div a b"
  have B: "(0::rat) < of_int b" and A: "(0::rat) \<le> of_int a"
    using a b by (simp_all only: of_int_0_less_iff of_int_0_le_iff)
  have small: "?x / 2 ^ 53 < 1 / of_int b"
  proof -
    have "(of_int a :: rat) < of_int (2 ^ 53)" using a(2) by (simp only: of_int_less_iff)
    then show ?thesis using B by (simp add: field_simps)
  qed
  have err: "fl ?x \<le> ?x + ?x / 2 ^ 53" "?x - ?x / 2 ^ 53 \<le> fl ?x"
    using fl_relative_error[of ?x] A B by (simp_all add: abs_le_iff algebra_simps)
  have n1: "(of_int ?n - 1) + 1 / of_int b \<le> ?x"
  proof -
    have "(?n - 1) * b + 1 \<le> a" using ceil_div_bounds(2)[OF b, of a] by simp
    then have "(of_int ((?n - 1) * b + 1) :: rat) \<le> of_int a" by (simp only: of_int_le_iff)
    then have "(of_int ((?n - 1) * b + 1) :: rat) / of_int b \<le> ?x"
      using B by (intro divide_right_mono) auto
    then show ?thesis using B by (simp add: add_divide_distrib)
  qed
  have hi: "fl ?x \<le> of_int ?n"
  proof (rule fl_le_of_int)
    have "(of_int a :: rat) \<le> of_int (?n * b)"
      using ceil_div_bounds(1)[OF b, of a] by (simp only: of_int_le_iff)
    then show "?x \<le> of_int ?n" using B by (simp add: field_simps)
    show "\<bar>?n\<bar> \<le> 2 ^ 53"
      using ceil_div_le[OF b a(1)] ceil_div_nonneg[OF b a(1)] a(2) by simp
  qed
  have lo: "of_int ?n - 1 < fl ?x"
    using n1 err(2) small by linarith
  show ?thesis
    unfolding py_ceil_def py_truediv_def using hi lo by (intro ceiling_unique) auto
qed

end
