(* ===== verification/EcuSchemas.thy ===== *)
theory EcuSchemas
  imports AtepText Numerics
begin

text \<open>
  The documents of \<open>src/src/atep/ecus/schemas.py\<close>: the state of an electronic control unit (memory,
  regions, faults, signals, cyclic tasks, behaviour counters) with the validators that normalise
  and check it. \<open>X_validate\<close> is \<open>X.model_validate\<close>: it returns the normalised document or the
  first error. A \<open>ValueError\<close> raised by a validator reaches the caller as a pydantic error whose
  message starts with \<open>Value error, \<close>; the message of a violated field bound is the field's name.
\<close>

section \<open>Enumerations\<close>

datatype EcuType = MOTOR | BATTERY | DOOR | ABS | ADAS | CLIMATE | ECU_GATEWAY | LIGHTING | BODY
datatype EcuOperationalState = OFFLINE | BOOTING | RUNNING | DEGRADED | FAULT | SHUTDOWN
datatype EcuFaultSeverity = INFO | WARNING | CRITICAL
datatype EcuFaultStatus = PENDING | CONFIRMED | HEALED
datatype EcuSignalDirection = PRODUCED | CONSUMED
datatype EcuSignalDataType = BOOLEAN | INTEGER | DECIMAL
datatype EcuMemoryRegionKind = VOLATILE | NON_VOLATILE
datatype EcuResetMode = SOFT | HARD | POWER_CYCLE

fun ecu_type_value :: "EcuType \<Rightarrow> string" where
  "ecu_type_value MOTOR = ''motor''"
| "ecu_type_value BATTERY = ''battery''"
| "ecu_type_value DOOR = ''door''"
| "ecu_type_value ABS = ''abs''"
| "ecu_type_value ADAS = ''adas''"
| "ecu_type_value CLIMATE = ''climate''"
| "ecu_type_value ECU_GATEWAY = ''gateway''"
| "ecu_type_value LIGHTING = ''lighting''"
| "ecu_type_value BODY = ''body''"

fun operational_state_value :: "EcuOperationalState \<Rightarrow> string" where
  "operational_state_value OFFLINE = ''offline''"
| "operational_state_value BOOTING = ''booting''"
| "operational_state_value RUNNING = ''running''"
| "operational_state_value DEGRADED = ''degraded''"
| "operational_state_value FAULT = ''fault''"
| "operational_state_value SHUTDOWN = ''shutdown''"

fun severity_value :: "EcuFaultSeverity \<Rightarrow> string" where
  "severity_value INFO = ''info''"
| "severity_value WARNING = ''warning''"
| "severity_value CRITICAL = ''critical''"

fun fault_status_value :: "EcuFaultStatus \<Rightarrow> string" where
  "fault_status_value PENDING = ''pending''"
| "fault_status_value CONFIRMED = ''confirmed''"
| "fault_status_value HEALED = ''healed''"

fun direction_value :: "EcuSignalDirection \<Rightarrow> string" where
  "direction_value PRODUCED = ''produced''"
| "direction_value CONSUMED = ''consumed''"

fun data_type_value :: "EcuSignalDataType \<Rightarrow> string" where
  "data_type_value BOOLEAN = ''boolean''"
| "data_type_value INTEGER = ''integer''"
| "data_type_value DECIMAL = ''decimal''"

fun region_kind_value :: "EcuMemoryRegionKind \<Rightarrow> string" where
  "region_kind_value VOLATILE = ''volatile''"
| "region_kind_value NON_VOLATILE = ''non_volatile''"

fun reset_mode_value :: "EcuResetMode \<Rightarrow> string" where
  "reset_mode_value SOFT = ''soft''"
| "reset_mode_value HARD = ''hard''"
| "reset_mode_value POWER_CYCLE = ''power_cycle''"

section \<open>Validation errors\<close>

definition value_error :: "string \<Rightarrow> app_error" where
  "value_error message = ValidationError (''Value error, '' @ message)"

definition check :: "bool \<Rightarrow> app_error \<Rightarrow> app_error + unit" where
  "check ok e = (if ok then Inr () else Inl e)"

lemma check_Inr [ok_simps]: "check ok e = Inr u \<longleftrightarrow> ok"
  by (simp add: check_def)

lemma check_Inl [ok_simps]: "check ok e = Inl e' \<longleftrightarrow> \<not> ok \<and> e' = e"
  by (auto simp: check_def)

section \<open>Names\<close>

text \<open>
  \<open>TASK_ID_PATTERN\<close> (also of signals and memory regions), \<open>ECU_IDENTIFIER_PATTERN\<close>,
  \<open>FAULT_CODE_PATTERN\<close>, \<open>COMMAND_ID_PATTERN\<close>.
\<close>

definition task_id_match :: "string \<Rightarrow> bool" where
  "task_id_match s \<longleftrightarrow> len_between 3 40 s
     \<and> matches_plus is_lower (\<lambda>c. is_lower c \<or> is_digit c \<or> c = CHR ''_'') s"

definition ecu_identifier_match :: "string \<Rightarrow> bool" where
  "ecu_identifier_match s \<longleftrightarrow> len_between 3 80 s
     \<and> matches_plus (\<lambda>c. is_lower c \<or> is_digit c) (\<lambda>c. is_lower c \<or> is_digit c \<or> c = CHR ''-'') s"

definition fault_code_match :: "string \<Rightarrow> bool" where
  "fault_code_match s \<longleftrightarrow> len_between 3 32 s
     \<and> matches_plus is_upper (\<lambda>c. is_upper c \<or> is_digit c \<or> c = CHR ''_'') s"

definition command_id_match :: "string \<Rightarrow> bool" where
  "command_id_match s \<longleftrightarrow> len_between 8 64 s
     \<and> matches_plus (\<lambda>c. is_lower c \<or> is_upper c \<or> is_digit c)
         (\<lambda>c. is_lower c \<or> is_upper c \<or> is_digit c \<or> c = CHR ''_'' \<or> c = CHR ''-'') s"

definition validate_task_id :: "string \<Rightarrow> app_error + string" where
  "validate_task_id s = (let normalized = casefold (strip s) in
     if \<not> task_id_match normalized
       then Inl (value_error ''task IDs must use lowercase letters, numbers, and underscores'')
     else Inr normalized)"

definition validate_signal_name :: "string \<Rightarrow> app_error + string" where
  "validate_signal_name s = (let normalized = casefold (strip s) in
     if \<not> task_id_match normalized
       then Inl (value_error ''signal names must use lowercase canonical names'')
     else Inr normalized)"

definition validate_region_name :: "string \<Rightarrow> app_error + string" where
  "validate_region_name s = (let normalized = casefold (strip s) in
     if \<not> task_id_match normalized
       then Inl (value_error ''memory-region names must use lowercase canonical names'')
     else Inr normalized)"

definition validate_code :: "string \<Rightarrow> app_error + string" where
  "validate_code s = (let normalized = upper (strip s) in
     if \<not> fault_code_match normalized
       then Inl (value_error ''fault codes must use uppercase letters, numbers, and underscores'')
     else Inr normalized)"

definition validate_identifier :: "string \<Rightarrow> app_error + string" where
  "validate_identifier s = (let normalized = casefold (strip s) in
     if \<not> ecu_identifier_match normalized
       then Inl (value_error ''ECU identifiers must use lowercase letters, numbers, and hyphens'')
     else Inr normalized)"

definition validate_command_id :: "string \<Rightarrow> app_error + string" where
  "validate_command_id s = (let normalized = strip s in
     if \<not> command_id_match normalized
       then Inl (value_error ''command IDs must be URL-safe and contain 8 to 64 characters'')
     else Inr normalized)"

lemma matches_plus_all:
  "matches_plus f g s \<Longrightarrow> (\<And>c. f c \<Longrightarrow> h c) \<Longrightarrow> (\<And>c. g c \<Longrightarrow> h c) \<Longrightarrow> list_all h s"
  by (auto simp: matches_plus_def list_all_iff split: list.splits)

lemma task_id_match_chars: "task_id_match s \<Longrightarrow> list_all lower_name_char s"
  unfolding task_id_match_def by (auto elim!: matches_plus_all simp: lower_name_char_def)

lemma fault_code_match_chars: "fault_code_match s \<Longrightarrow> list_all upper_name_char s"
  unfolding fault_code_match_def by (auto elim!: matches_plus_all simp: upper_name_char_def)

lemma task_id_match_stable: "task_id_match s \<Longrightarrow> casefold (strip s) = s"
  by (simp add: task_id_match_chars lower_name_stable)

lemma fault_code_match_stable: "fault_code_match s \<Longrightarrow> upper (strip s) = s"
  by (simp add: fault_code_match_chars upper_name_stable)

section \<open>Signals\<close>

text \<open>\<open>StrictBool | StrictInt | StrictFloat\<close>: the value keeps the type it was sent with.\<close>

datatype signal_value = SBool bool | SInt int | SFloat rat

record ecu_signal =
  sig_name :: string
  sig_direction :: EcuSignalDirection
  sig_data_type :: EcuSignalDataType
  sig_unit :: string
  sig_minimum :: "rat option"
  sig_maximum :: "rat option"
  sig_cycle_time_ms :: "int option"
  sig_value :: signal_value
  sig_updated_at_ms :: int

fun value_has_type :: "EcuSignalDataType \<Rightarrow> signal_value \<Rightarrow> bool" where
  "value_has_type BOOLEAN v = (case v of SBool _ \<Rightarrow> True | _ \<Rightarrow> False)"
| "value_has_type INTEGER v = (case v of SInt _ \<Rightarrow> True | _ \<Rightarrow> False)"
| "value_has_type DECIMAL v = (case v of SInt _ \<Rightarrow> True | SFloat _ \<Rightarrow> True | SBool _ \<Rightarrow> False)"

text \<open>\<open>float(value)\<close>.\<close>

fun to_float :: "signal_value \<Rightarrow> rat" where
  "to_float (SBool b) = (if b then 1 else 0)"
| "to_float (SInt n) = fl (of_int n)"
| "to_float (SFloat x) = x"

definition validate_value_and_bounds :: "ecu_signal \<Rightarrow> app_error + ecu_signal" where
  "validate_value_and_bounds s =
     (if (case (sig_minimum s, sig_maximum s) of (Some lo, Some hi) \<Rightarrow> lo > hi | _ \<Rightarrow> False)
        then Inl (value_error ''signal minimum must not exceed maximum'')
      else if \<not> value_has_type (sig_data_type s) (sig_value s)
        then Inl (value_error ''signal value does not match its declared data type'')
      else if sig_data_type s = BOOLEAN then Inr s
      else let numeric = to_float (sig_value s) in
        if (case sig_minimum s of Some lo \<Rightarrow> numeric < lo | None \<Rightarrow> False)
          then Inl (value_error ''signal value is below its minimum'')
        else if (case sig_maximum s of Some hi \<Rightarrow> numeric > hi | None \<Rightarrow> False)
          then Inl (value_error ''signal value is above its maximum'')
        else Inr s)"

definition signal_fields_ok :: "ecu_signal \<Rightarrow> bool" where
  "signal_fields_ok s \<longleftrightarrow>
     len_between 3 40 (sig_name s) \<and> len_between 0 20 (sig_unit s) \<and> sig_updated_at_ms s \<ge> 0
     \<and> (case sig_cycle_time_ms s of None \<Rightarrow> True | Some t \<Rightarrow> int_between 1 60000 t)"

definition signal_validate :: "ecu_signal \<Rightarrow> app_error + ecu_signal" where
  "signal_validate s =
     and_then (check (signal_fields_ok s) (ValidationError ''signal'')) (\<lambda>_.
     and_then (validate_signal_name (sig_name s)) (\<lambda>name.
     validate_value_and_bounds (s\<lparr>sig_name := name, sig_unit := strip (sig_unit s)\<rparr>)))"

section \<open>Memory\<close>

record ecu_cell =
  cell_address :: int
  cell_value :: int

definition cell_validate :: "ecu_cell \<Rightarrow> app_error + ecu_cell" where
  "cell_validate c =
     (if int_between 0 65535 (cell_address c) \<and> int_between 0 255 (cell_value c) then Inr c
      else Inl (ValidationError ''memory''))"

record ecu_region =
  mr_name :: string
  mr_kind :: EcuMemoryRegionKind
  mr_start_address :: int
  mr_size :: int
  mr_reset_value :: int

definition region_validate :: "ecu_region \<Rightarrow> app_error + ecu_region" where
  "region_validate r =
     and_then (check (len_between 3 40 (mr_name r) \<and> int_between 0 65535 (mr_start_address r)
        \<and> int_between 1 65536 (mr_size r) \<and> int_between 0 255 (mr_reset_value r))
        (ValidationError ''memory_regions'')) (\<lambda>_.
     and_then (validate_region_name (mr_name r)) (\<lambda>name.
     if mr_start_address r + mr_size r > 65536
       then Inl (value_error ''memory region exceeds the 16-bit address space'')
     else Inr (r\<lparr>mr_name := name\<rparr>)))"

definition in_region :: "ecu_region \<Rightarrow> int \<Rightarrow> bool" where
  "in_region r a \<longleftrightarrow> mr_start_address r \<le> a \<and> a < mr_start_address r + mr_size r"

section \<open>Cyclic tasks\<close>

record ecu_task =
  tk_task_id :: string
  tk_period_ms :: int
  tk_offset_ms :: int

definition task_validate :: "ecu_task \<Rightarrow> app_error + ecu_task" where
  "task_validate t =
     and_then (check (len_between 3 40 (tk_task_id t) \<and> int_between 1 60000 (tk_period_ms t)
        \<and> int_between 0 59999 (tk_offset_ms t)) (ValidationError ''cyclic_tasks'')) (\<lambda>_.
     and_then (validate_task_id (tk_task_id t)) (\<lambda>name.
     if tk_offset_ms t \<ge> tk_period_ms t
       then Inl (value_error ''task offset must be smaller than its period'')
     else Inr (t\<lparr>tk_task_id := name\<rparr>)))"

section \<open>Faults\<close>

record ecu_fault =
  ft_code :: string
  ft_severity :: EcuFaultSeverity
  ft_status :: EcuFaultStatus
  ft_description :: string
  ft_active :: bool
  ft_latched :: bool
  ft_occurrence_count :: int
  ft_healing_count :: int
  ft_confirmation_threshold :: int
  ft_healing_threshold :: int
  ft_first_seen_ms :: int
  ft_last_seen_ms :: int
  ft_confirmed_at_ms :: "int option"
  ft_healed_at_ms :: "int option"

definition fault_fields_ok :: "ecu_fault \<Rightarrow> bool" where
  "fault_fields_ok f \<longleftrightarrow>
     len_between 3 32 (ft_code f) \<and> len_between 0 200 (ft_description f)
     \<and> int_between 0 1000000 (ft_occurrence_count f) \<and> int_between 0 1000000 (ft_healing_count f)
     \<and> int_between 1 100 (ft_confirmation_threshold f) \<and> int_between 1 100 (ft_healing_threshold f)
     \<and> ft_first_seen_ms f \<ge> 0 \<and> ft_last_seen_ms f \<ge> 0
     \<and> (case ft_confirmed_at_ms f of None \<Rightarrow> True | Some t \<Rightarrow> t \<ge> 0)
     \<and> (case ft_healed_at_ms f of None \<Rightarrow> True | Some t \<Rightarrow> t \<ge> 0)"

text \<open>The after-validator also fills in the confirmation time of a confirmed fault.\<close>

definition keep_lifecycle_consistent :: "ecu_fault \<Rightarrow> app_error + ecu_fault" where
  "keep_lifecycle_consistent f =
     (if ft_last_seen_ms f < ft_first_seen_ms f
        then Inl (value_error ''fault last-seen time must not precede first-seen time'')
      else if ft_status f = PENDING \<and> ft_occurrence_count f \<ge> ft_confirmation_threshold f
        then Inl (value_error ''a fault meeting its confirmation threshold must be confirmed'')
      else let f' = (if ft_status f = CONFIRMED \<and> ft_confirmed_at_ms f = None
                     then f\<lparr>ft_confirmed_at_ms := Some (ft_last_seen_ms f)\<rparr> else f) in
        if ft_status f' = HEALED \<and> (ft_active f' \<or> ft_healed_at_ms f' = None)
          then Inl (value_error ''a healed fault must be inactive and record healed-at logical time'')
        else if ft_latched f' \<and> ft_status f' = HEALED
          then Inl (value_error ''a latched fault requires explicit clearing before healing'')
        else Inr f')"

definition fault_validate :: "ecu_fault \<Rightarrow> app_error + ecu_fault" where
  "fault_validate f =
     and_then (check (fault_fields_ok f) (ValidationError ''faults'')) (\<lambda>_.
     and_then (validate_code (ft_code f)) (\<lambda>code.
     keep_lifecycle_consistent (f\<lparr>ft_code := code, ft_description := strip (ft_description f)\<rparr>)))"

section \<open>The ECU state\<close>

datatype behavior_value = BInt int | BBool bool | BStr string

record ecu_state_payload =
  sp_operational_state :: EcuOperationalState
  sp_memory :: "ecu_cell list"
  sp_memory_regions :: "ecu_region list"
  sp_faults :: "ecu_fault list"
  sp_signals :: "ecu_signal list"
  sp_cyclic_tasks :: "ecu_task list"
  sp_behavior_state :: "(string \<times> behavior_value) list"

text \<open>\<open>bound_behavior_state\<close>: the loop over the items of the dictionary.\<close>

fun bound_behavior_state :: "(string \<times> behavior_value) list \<Rightarrow> app_error + unit" where
  "bound_behavior_state [] = Inr ()"
| "bound_behavior_state ((key, item) # rest) =
     (if \<not> task_id_match key
        then Inl (value_error ''behavior-state keys must use lowercase canonical names'')
      else if (case item of BInt n \<Rightarrow> \<bar>n\<bar> > 9007199254740991 | _ \<Rightarrow> False)
        then Inl (value_error ''behavior-state integers must remain JSON-safe'')
      else if (case item of BStr t \<Rightarrow> length t > 120 | _ \<Rightarrow> False)
        then Inl (value_error ''behavior-state strings must not exceed 120 characters'')
      else bound_behavior_state rest)"

fun consecutive_disjoint :: "ecu_region list \<Rightarrow> bool" where
  "consecutive_disjoint (previous # current # rest) =
     (mr_start_address previous + mr_size previous \<le> mr_start_address current
      \<and> consecutive_disjoint (current # rest))"
| "consecutive_disjoint _ = True"

definition matching_regions :: "ecu_region list \<Rightarrow> int \<Rightarrow> ecu_region list" where
  "matching_regions regions a = filter (\<lambda>r. in_region r a) regions"

definition confirmed_critical :: "ecu_fault \<Rightarrow> bool" where
  "confirmed_critical f \<longleftrightarrow> ft_severity f = CRITICAL \<and> ft_status f = CONFIRMED"

definition require_consistent_state :: "ecu_state_payload \<Rightarrow> app_error + ecu_state_payload" where
  "require_consistent_state p =
     (if \<not> distinct (map cell_address (sp_memory p))
        then Inl (value_error ''ECU memory addresses must be unique'')
      else if \<not> distinct (map mr_name (sp_memory_regions p))
        then Inl (value_error ''ECU memory-region names must be unique'')
      else if \<not> consecutive_disjoint (sort_key mr_start_address (sp_memory_regions p))
        then Inl (value_error ''ECU memory regions must not overlap'')
      else if sp_memory_regions p \<noteq> []
          \<and> list_ex (\<lambda>c. length (matching_regions (sp_memory_regions p) (cell_address c)) \<noteq> 1) (sp_memory p)
        then Inl (value_error ''every ECU memory cell must belong to one memory region'')
      else if \<not> distinct (map ft_code (sp_faults p))
        then Inl (value_error ''ECU fault codes must be unique'')
      else if \<not> distinct (map (\<lambda>s. (sig_direction s, sig_name s)) (sp_signals p))
        then Inl (value_error ''ECU signal names must be unique per direction'')
      else if \<not> distinct (map tk_task_id (sp_cyclic_tasks p))
        then Inl (value_error ''ECU cyclic task IDs must be unique'')
      else if list_ex confirmed_critical (sp_faults p) \<and> sp_operational_state p \<noteq> FAULT
        then Inl (value_error ''a confirmed critical fault requires the ECU fault state'')
      else Inr p)"

definition state_validate :: "ecu_state_payload \<Rightarrow> app_error + ecu_state_payload" where
  "state_validate p =
     and_then (check (len_between 0 256 (sp_memory p) \<and> len_between 0 16 (sp_memory_regions p)
        \<and> len_between 0 64 (sp_faults p) \<and> len_between 0 64 (sp_signals p)
        \<and> len_between 0 32 (sp_cyclic_tasks p) \<and> len_between 0 32 (sp_behavior_state p))
        (ValidationError ''state'')) (\<lambda>_.
     and_then (map_ok cell_validate (sp_memory p)) (\<lambda>memory.
     and_then (map_ok region_validate (sp_memory_regions p)) (\<lambda>regions.
     and_then (map_ok fault_validate (sp_faults p)) (\<lambda>faults.
     and_then (map_ok signal_validate (sp_signals p)) (\<lambda>signals.
     and_then (map_ok task_validate (sp_cyclic_tasks p)) (\<lambda>tasks.
     and_then (bound_behavior_state (sp_behavior_state p)) (\<lambda>_.
     require_consistent_state (p\<lparr>sp_memory := memory, sp_memory_regions := regions,
       sp_faults := faults, sp_signals := signals, sp_cyclic_tasks := tasks\<rparr>))))))))"

section \<open>JSON forms\<close>

definition cell_json :: "ecu_cell \<Rightarrow> json" where
  "cell_json c = JObj [(''address'', JInt (cell_address c)), (''value'', JInt (cell_value c))]"

definition region_json :: "ecu_region \<Rightarrow> json" where
  "region_json r = JObj [(''name'', JStr (mr_name r)), (''kind'', JStr (region_kind_value (mr_kind r))),
     (''start_address'', JInt (mr_start_address r)), (''size'', JInt (mr_size r)),
     (''reset_value'', JInt (mr_reset_value r))]"

definition fault_json :: "ecu_fault \<Rightarrow> json" where
  "fault_json f = JObj [(''code'', JStr (ft_code f)), (''severity'', JStr (severity_value (ft_severity f))),
     (''status'', JStr (fault_status_value (ft_status f))), (''description'', JStr (ft_description f)),
     (''active'', JBool (ft_active f)), (''latched'', JBool (ft_latched f)),
     (''occurrence_count'', JInt (ft_occurrence_count f)), (''healing_count'', JInt (ft_healing_count f)),
     (''confirmation_threshold'', JInt (ft_confirmation_threshold f)),
     (''healing_threshold'', JInt (ft_healing_threshold f)),
     (''first_seen_ms'', JInt (ft_first_seen_ms f)), (''last_seen_ms'', JInt (ft_last_seen_ms f)),
     (''confirmed_at_ms'', jopt JInt (ft_confirmed_at_ms f)), (''healed_at_ms'', jopt JInt (ft_healed_at_ms f))]"

fun signal_value_json :: "signal_value \<Rightarrow> json" where
  "signal_value_json (SBool b) = JBool b"
| "signal_value_json (SInt n) = JInt n"
| "signal_value_json (SFloat x) = JFloat x"

definition signal_json :: "ecu_signal \<Rightarrow> json" where
  "signal_json s = JObj [(''name'', JStr (sig_name s)), (''direction'', JStr (direction_value (sig_direction s))),
     (''data_type'', JStr (data_type_value (sig_data_type s))), (''unit'', JStr (sig_unit s)),
     (''minimum'', jopt JFloat (sig_minimum s)), (''maximum'', jopt JFloat (sig_maximum s)),
     (''cycle_time_ms'', jopt JInt (sig_cycle_time_ms s)), (''value'', signal_value_json (sig_value s)),
     (''updated_at_ms'', JInt (sig_updated_at_ms s))]"

definition task_json :: "ecu_task \<Rightarrow> json" where
  "task_json t = JObj [(''task_id'', JStr (tk_task_id t)), (''period_ms'', JInt (tk_period_ms t)),
     (''offset_ms'', JInt (tk_offset_ms t))]"

fun behavior_value_json :: "behavior_value \<Rightarrow> json" where
  "behavior_value_json (BInt n) = JInt n"
| "behavior_value_json (BBool b) = JBool b"
| "behavior_value_json (BStr s) = JStr s"

definition behavior_json :: "(string \<times> behavior_value) list \<Rightarrow> json" where
  "behavior_json d = JObj (map (\<lambda>(k, v). (k, behavior_value_json v)) d)"

definition state_json :: "ecu_state_payload \<Rightarrow> json" where
  "state_json p = JObj [(''operational_state'', JStr (operational_state_value (sp_operational_state p))),
     (''memory'', JArr (map cell_json (sp_memory p))),
     (''memory_regions'', JArr (map region_json (sp_memory_regions p))),
     (''faults'', JArr (map fault_json (sp_faults p))), (''signals'', JArr (map signal_json (sp_signals p))),
     (''cyclic_tasks'', JArr (map task_json (sp_cyclic_tasks p))),
     (''behavior_state'', behavior_json (sp_behavior_state p))]"

end
