(* ===== verification/EcuModels.thy ===== *)
theory EcuModels
  imports EcuSchemas
begin

text \<open>
  The commands of the ECU simulation (\<open>src/src/atep/ecus/schemas.py\<close>) and the rows it stores
  (\<open>src/src/atep/ecus/models.py\<close>). The request column of an execution holds the dumped command,
  which determines the command; here it is the command itself. \<open>env\<close> is what a request handler is
  given beside the command: the acting user, the correlation identifier, and the identifier the
  database gives to the row it inserts.
\<close>

record vehicle =
  veh_id :: uuid
  veh_identifier :: string

record env =
  env_actor :: uuid
  env_correlation :: "uuid option"
  env_new_id :: uuid

section \<open>Commands\<close>

record ecu_create = ecu_state_payload +
  cr_identifier :: string
  cr_display_name :: string
  cr_ecu_type :: EcuType

record ecu_advance_command =
  ad_command_id :: string
  ad_expected_version :: int
  ad_duration_ms :: int

definition ecu_advance_command_ok :: "ecu_advance_command \<Rightarrow> bool" where
  "ecu_advance_command_ok c \<longleftrightarrow> validate_command_id (ad_command_id c) = Inr (ad_command_id c)
     \<and> ad_expected_version c \<ge> 1 \<and> int_between 1 600000 (ad_duration_ms c)"

record ecu_reset_command =
  rs_command_id :: string
  rs_expected_version :: int
  rs_mode :: EcuResetMode

record ecu_memory_corruption_command =
  mm_command_id :: string
  mm_expected_version :: int
  mm_seed :: int
  mm_bit_flips :: int
  mm_region_names :: "string list"

definition ecu_memory_corruption_command_ok :: "ecu_memory_corruption_command \<Rightarrow> bool" where
  "ecu_memory_corruption_command_ok c \<longleftrightarrow> validate_command_id (mm_command_id c) = Inr (mm_command_id c)
     \<and> mm_expected_version c \<ge> 1 \<and> int_between 0 2147483647 (mm_seed c)
     \<and> int_between 1 32 (mm_bit_flips c) \<and> len_between 0 16 (mm_region_names c)"

record ecu_fault_observation_command =
  fo_command_id :: string
  fo_expected_version :: int
  fo_code :: string
  fo_severity :: EcuFaultSeverity
  fo_detected :: bool
  fo_description :: string
  fo_confirmation_threshold :: int
  fo_healing_threshold :: int
  fo_latched :: bool

definition ecu_fault_observation_command_ok :: "ecu_fault_observation_command \<Rightarrow> bool" where
  "ecu_fault_observation_command_ok c \<longleftrightarrow> validate_command_id (fo_command_id c) = Inr (fo_command_id c)
     \<and> fo_expected_version c \<ge> 1 \<and> validate_code (fo_code c) = Inr (fo_code c)
     \<and> len_between 0 200 (fo_description c) \<and> strip (fo_description c) = fo_description c
     \<and> int_between 1 100 (fo_confirmation_threshold c) \<and> int_between 1 100 (fo_healing_threshold c)"

record ecu_fault_clear_command =
  cl_command_id :: string
  cl_expected_version :: int

record ecu_signal_publish_command =
  pb_command_id :: string
  pb_expected_version :: int
  pb_value :: signal_value

record ecu_signal_route_create =
  rt_identifier :: string
  rt_source_ecu_id :: string
  rt_source_signal :: string
  rt_target_ecu_id :: string
  rt_target_signal :: string
  rt_enabled :: bool

record ecu_signal_route_transfer_command =
  tr_command_id :: string
  tr_expected_source_version :: int
  tr_expected_target_version :: int

record ecu_state_replace = ecu_state_payload +
  rp_expected_version :: int
  rp_signals_given :: bool

record ecu_snapshot_create =
  ss_name :: string

text \<open>
  Scenarios: \<open>rp_signals_given\<close> above says whether \<open>signals\<close> is in the fields the client set; the
  optional fields of an action are those its kind does not require.
\<close>

datatype EcuScenarioActionKind = ADVANCE_TIME | OBSERVE_FAULT | CORRUPT_MEMORY | PUBLISH_SIGNAL | TRANSFER_SIGNAL

fun action_kind_value :: "EcuScenarioActionKind \<Rightarrow> string" where
  "action_kind_value ADVANCE_TIME = ''advance_time''"
| "action_kind_value OBSERVE_FAULT = ''observe_fault''"
| "action_kind_value CORRUPT_MEMORY = ''corrupt_memory''"
| "action_kind_value PUBLISH_SIGNAL = ''publish_signal''"
| "action_kind_value TRANSFER_SIGNAL = ''transfer_signal''"

record ecu_scenario_action =
  sa_kind :: EcuScenarioActionKind
  sa_ecu_id :: "string option"
  sa_gateway_ecu_id :: "string option"
  sa_duration_ms :: "int option"
  sa_signal_name :: "string option"
  sa_value :: "signal_value option"
  sa_route_id :: "string option"
  sa_fault_code :: "string option"
  sa_severity :: "EcuFaultSeverity option"
  sa_detected :: "bool option"
  sa_description :: string
  sa_confirmation_threshold :: int
  sa_healing_threshold :: int
  sa_latched :: bool
  sa_bit_flips :: "int option"
  sa_region_names :: "string list"

text \<open>\<open>require_kind_fields\<close>: the fields its kind requires that an action lacks, in the order of the table.\<close>

definition missing_fields :: "ecu_scenario_action \<Rightarrow> string list" where
  "missing_fields a = map fst (filter (\<lambda>(_, absent). absent)
     (case sa_kind a of
        ADVANCE_TIME \<Rightarrow> [(''ecu_id'', sa_ecu_id a = None), (''duration_ms'', sa_duration_ms a = None)]
      | OBSERVE_FAULT \<Rightarrow> [(''ecu_id'', sa_ecu_id a = None), (''fault_code'', sa_fault_code a = None),
          (''severity'', sa_severity a = None), (''detected'', sa_detected a = None)]
      | CORRUPT_MEMORY \<Rightarrow> [(''ecu_id'', sa_ecu_id a = None), (''bit_flips'', sa_bit_flips a = None)]
      | PUBLISH_SIGNAL \<Rightarrow> [(''ecu_id'', sa_ecu_id a = None), (''signal_name'', sa_signal_name a = None),
          (''value'', sa_value a = None)]
      | TRANSFER_SIGNAL \<Rightarrow> [(''gateway_ecu_id'', sa_gateway_ecu_id a = None), (''route_id'', sa_route_id a = None)]))"

definition opt_all :: "('a \<Rightarrow> bool) \<Rightarrow> 'a option \<Rightarrow> bool" where
  "opt_all p x = (case x of None \<Rightarrow> True | Some y \<Rightarrow> p y)"

definition ecu_scenario_action_ok :: "ecu_scenario_action \<Rightarrow> bool" where
  "ecu_scenario_action_ok a \<longleftrightarrow> missing_fields a = []
     \<and> opt_all (\<lambda>i. validate_identifier i = Inr i) (sa_ecu_id a)
     \<and> opt_all (\<lambda>i. validate_identifier i = Inr i) (sa_gateway_ecu_id a)
     \<and> opt_all (\<lambda>i. validate_identifier i = Inr i) (sa_route_id a)
     \<and> opt_all (\<lambda>i. validate_signal_name i = Inr i) (sa_signal_name a)
     \<and> opt_all (\<lambda>i. validate_code i = Inr i) (sa_fault_code a)
     \<and> opt_all (int_between 1 600000) (sa_duration_ms a) \<and> opt_all (int_between 1 32) (sa_bit_flips a)
     \<and> len_between 0 200 (sa_description a) \<and> int_between 1 100 (sa_confirmation_threshold a)
     \<and> int_between 1 100 (sa_healing_threshold a) \<and> len_between 0 16 (sa_region_names a)"

record ecu_scenario_execute_command =
  xc_execution_id :: string
  xc_iterations :: int
  xc_base_seed :: int
  xc_actions :: "ecu_scenario_action list"

definition bound_ecu_scope :: "ecu_scenario_execute_command \<Rightarrow> bool" where
  "bound_ecu_scope c \<longleftrightarrow> card (\<Union>a\<in>set (xc_actions c). set_option (sa_ecu_id a) \<union> set_option (sa_gateway_ecu_id a)) \<le> 16"

definition ecu_scenario_execute_command_ok :: "ecu_scenario_execute_command \<Rightarrow> bool" where
  "ecu_scenario_execute_command_ok c \<longleftrightarrow> validate_command_id (xc_execution_id c) = Inr (xc_execution_id c)
     \<and> len_between 8 40 (xc_execution_id c) \<and> int_between 1 8 (xc_iterations c)
     \<and> int_between 0 2147483647 (xc_base_seed c) \<and> len_between 1 32 (xc_actions c)
     \<and> list_all ecu_scenario_action_ok (xc_actions c)
     \<and> bound_ecu_scope c"

record ecu_scenario_resource_metrics =
  mt_ecu_count :: int
  mt_memory_cell_count :: int
  mt_signal_count :: int
  mt_active_fault_count :: int
  mt_route_count :: int
  mt_aggregate_version :: int

record ecu_scenario_clock_diagnostic =
  ck_ecu_id :: string
  ck_simulation_time_ms :: int
  ck_lag_from_max_ms :: int

record ecu_scenario_timing_diagnostics =
  td_minimum_time_ms :: int
  td_maximum_time_ms :: int
  td_clock_skew_ms :: int
  td_synchronized :: bool
  td_ecus :: "ecu_scenario_clock_diagnostic list"

record ecu_scenario_action_result =
  ar_iteration :: int
  ar_action_index :: int
  ar_kind :: EcuScenarioActionKind
  ar_ecu_id :: string
  ar_state_version :: int
  ar_simulation_time_ms :: int
  ar_outcome :: string

section \<open>Rows\<close>

record electronic_control_unit =
  ecu_id :: uuid
  ecu_vehicle_id :: uuid
  ecu_identifier :: string
  ecu_display_name :: string
  ecu_type :: EcuType
  ecu_operational_state :: EcuOperationalState
  ecu_memory :: "ecu_cell list"
  ecu_memory_regions :: "ecu_region list"
  ecu_faults :: "ecu_fault list"
  ecu_signals :: "ecu_signal list"
  ecu_cyclic_tasks :: "ecu_task list"
  ecu_profile_version :: string
  ecu_behavior_state :: "(string \<times> behavior_value) list"
  ecu_version :: int
  ecu_simulation_time_ms :: int
  ecu_boot_count :: int

text \<open>The dumped request of a simulation command, with the extra keys the handlers add to it.\<close>

datatype ecu_request =
    AdvanceRequest ecu_advance_command
  | ResetRequest ecu_reset_command
  | CorruptionRequest ecu_memory_corruption_command
  | ObservationRequest ecu_fault_observation_command
  | ClearRequest ecu_fault_clear_command string
  | PublishRequest ecu_signal_publish_command string
  | TransferRequest ecu_signal_route_transfer_command uuid string

record ecu_task_run_summary =
  run_task_id :: string
  run_execution_count :: int
  run_first_due_ms :: "int option"
  run_last_due_ms :: "int option"

record ecu_memory_change =
  ch_address :: int
  ch_previous_value :: int
  ch_value :: int
  ch_bit :: int

text \<open>The result column: one constructor per kind of command, with the keys of its dictionary.\<close>

datatype ecu_result =
    AdvanceResult int "ecu_task_run_summary list" string "(string \<times> behavior_value) list"
  | ResetResult EcuResetMode int int bool int int bool
  | CorruptionResult int int "ecu_memory_change list"
  | FaultResult string ecu_fault
  | SignalResult ecu_signal
  | TransferResult uuid string string string ecu_signal ecu_signal

record ecu_simulation_command =
  ec_ecu_id :: uuid
  ec_command_id :: string
  ec_kind :: string
  ec_request :: ecu_request
  ec_result :: ecu_result
  ec_previous_version :: int
  ec_state_version :: int
  ec_previous_time_ms :: int
  ec_simulation_time_ms :: int
  ec_requested_by_user_id :: uuid

record ecu_memory_snapshot =
  sn_id :: uuid
  sn_ecu_id :: uuid
  sn_name :: string
  sn_memory :: "ecu_cell list"
  sn_state_version :: int
  sn_simulation_time_ms :: int
  sn_checksum_sha256 :: string
  sn_created_by_user_id :: uuid

record ecu_signal_route =
  sr_id :: uuid
  sr_gateway_ecu_id :: uuid
  sr_identifier :: string
  sr_source_ecu_id :: uuid
  sr_source_signal :: string
  sr_target_ecu_id :: uuid
  sr_target_signal :: string
  sr_enabled :: bool

text \<open>The result column of a scenario, with its four keys.\<close>

record ecu_scenario_result =
  xr_resources_before :: ecu_scenario_resource_metrics
  xr_resources_after :: ecu_scenario_resource_metrics
  xr_timing :: ecu_scenario_timing_diagnostics
  xr_actions :: "ecu_scenario_action_result list"

record ecu_scenario_execution =
  xs_id :: uuid
  xs_vehicle_id :: uuid
  xs_execution_id :: string
  xs_request_hash :: string
  xs_request :: ecu_scenario_execute_command
  xs_result :: ecu_scenario_result
  xs_iteration_count :: int
  xs_requested_by_user_id :: uuid

section \<open>The store\<close>

record ecu_store = session +
  ecus :: "electronic_control_unit list"
  ecu_commands :: "ecu_simulation_command list"
  ecu_snapshots :: "ecu_memory_snapshot list"
  ecu_routes :: "ecu_signal_route list"
  ecu_scenarios :: "ecu_scenario_execution list"

text \<open>\<open>uq_ecu_vehicle_identifier\<close>, \<open>uq_ecu_sim_command\<close>, \<open>uq_ecu_signal_route_identifier\<close> and
  \<open>uq_ecu_scenario_execution\<close>.\<close>

definition ecu_key :: "electronic_control_unit \<Rightarrow> uuid \<times> string" where
  "ecu_key e = (ecu_vehicle_id e, ecu_identifier e)"

definition command_key :: "ecu_simulation_command \<Rightarrow> uuid \<times> string" where
  "command_key c = (ec_ecu_id c, ec_command_id c)"

definition route_key :: "ecu_signal_route \<Rightarrow> uuid \<times> string" where
  "route_key r = (sr_gateway_ecu_id r, sr_identifier r)"

definition scenario_key :: "ecu_scenario_execution \<Rightarrow> uuid \<times> string" where
  "scenario_key x = (xs_vehicle_id x, xs_execution_id x)"

text \<open>The database constraints: primary keys and unique keys.\<close>

definition ecu_store_ok :: "'a ecu_store_scheme \<Rightarrow> bool" where
  "ecu_store_ok s \<longleftrightarrow> distinct (map ecu_id (ecus s)) \<and> distinct (map ecu_key (ecus s))
     \<and> distinct (map command_key (ecu_commands s)) \<and> distinct (map route_key (ecu_routes s))
     \<and> distinct (map scenario_key (ecu_scenarios s))"

definition add_event_audit ::
  "env \<Rightarrow> string \<Rightarrow> string \<Rightarrow> uuid \<Rightarrow> dict \<Rightarrow> string \<Rightarrow> dict \<Rightarrow> 's session_scheme \<Rightarrow> 's session_scheme" where
  "add_event_audit e event_type resource_type resource_id payload action details s =
     record_audit (Some (env_actor e)) action resource_type resource_id (env_correlation e) details
       (enqueue_event event_type resource_type resource_id payload (env_correlation e) s)"

text \<open>Every handler ends with one event and one audit record, of the same resource.\<close>

lemma evidence_counts_both [simp]:
  "evidence_counts (add_event_audit e t rt i p a d s)
     = (Suc (fst (evidence_counts s)), Suc (snd (evidence_counts s)))"
  by (simp add: add_event_audit_def)

lemma add_event_audit_fields [simp]:
  fixes s :: "'a ecu_store_scheme"
  shows "ecus (add_event_audit e t rt i p a d s) = ecus s"
    and "ecu_commands (add_event_audit e t rt i p a d s) = ecu_commands s"
    and "ecu_snapshots (add_event_audit e t rt i p a d s) = ecu_snapshots s"
    and "ecu_routes (add_event_audit e t rt i p a d s) = ecu_routes s"
    and "ecu_scenarios (add_event_audit e t rt i p a d s) = ecu_scenarios s"
    and "ecu_store.more (add_event_audit e t rt i p a d s) = ecu_store.more s"
  by (simp_all add: add_event_audit_def record_audit_def enqueue_event_def)

end
