(* ===== verification/Replay.thy ===== *)
theory Replay
  imports AtepPrelude
begin

text \<open>
  The contract every command handler of the simulation services keeps: a command carries an
  identifier chosen by the client; the first use runs it and stores its request with its
  execution, a repeated use with the same request returns the stored execution and changes
  nothing, and a use with another request is refused. \<open>idempotent\<close> states it of any handler over
  any store; \<open>versioned\<close> adds optimistic concurrency: a first use must name the current version
  and advances it by one.
\<close>

locale idempotent =
  fixes run :: "'e \<Rightarrow> 'c \<Rightarrow> 's \<Rightarrow> app_error + ('row \<times> 'n \<times> bool) \<times> 's"
    and ok :: "'s \<Rightarrow> bool"
    and stored :: "'c \<Rightarrow> 's \<Rightarrow> 'row option"
    and same_request :: "'c \<Rightarrow> 'row \<Rightarrow> bool"
    and conflict :: app_error
    and grows :: "'s \<Rightarrow> 's \<Rightarrow> bool"
  assumes replay_hit: "stored c s = Some r \<Longrightarrow> same_request c r \<Longrightarrow> \<exists>n. run e c s = Inr ((r, n, True), s)"
    and conflict_hit: "stored c s = Some r \<Longrightarrow> \<not> same_request c r \<Longrightarrow> run e c s = Inl conflict"
    and first_use: "ok s \<Longrightarrow> stored c s = None \<Longrightarrow> run e c s = Inr ((r, n, d), s')
      \<Longrightarrow> \<not> d \<and> stored c s' = Some r \<and> same_request c r"
    and ok_run: "ok s \<Longrightarrow> run e c s = Inr (x, s') \<Longrightarrow> ok s'"
    and run_grows: "ok s \<Longrightarrow> run e c s = Inr (x, s') \<Longrightarrow> grows s s'"
    and keeps: "grows s s' \<Longrightarrow> stored c s = Some r \<Longrightarrow> stored c s' = Some r"
begin

lemma ok_stored:
  assumes "ok s" "run e c s = Inr ((r, n, d), s')"
  shows "stored c s' = Some r \<and> same_request c r"
proof (cases "stored c s")
  case None
  then show ?thesis using first_use assms by blast
next
  case (Some q)
  then show ?thesis using replay_hit[OF Some, of e] conflict_hit[OF Some, of e] assms by fastforce
qed

text \<open>Running a command again, by whoever and whenever, returns the same execution unchanged.\<close>

lemma replay:
  assumes "ok s" "run e c s = Inr ((r, n, d), s')"
  shows "\<exists>n'. run e' c s' = Inr ((r, n', True), s')"
  using ok_stored[OF assms] replay_hit by blast

lemma duplicate_unchanged:
  assumes "ok s" "run e c s = Inr ((r, n, True), s')"
  shows "s' = s"
proof (cases "stored c s")
  case None
  then show ?thesis using first_use assms by blast
next
  case (Some q)
  then show ?thesis using replay_hit[OF Some, of e] conflict_hit[OF Some, of e] assms by fastforce
qed

text \<open>
  Whatever the store grows by in between, through this handler or another, a retry still finds the
  execution of the first use, and another request under the same identifier is still refused.
\<close>

lemma replay_later:
  assumes "ok s" "run e c s = Inr ((r, n, d), s')" "grows s' t"
  shows "\<exists>n'. run e' c t = Inr ((r, n', True), t)"
  using ok_stored[OF assms(1,2)] replay_hit keeps assms(3) by blast

lemma conflict_later:
  assumes "ok s" "run e c s = Inr ((r, n, d), s')" "grows s' t"
    and "stored c' t = stored c t" and "\<not> same_request c' r"
  shows "run e' c' t = Inl conflict"
  using ok_stored[OF assms(1,2)] assms(3-5) conflict_hit keeps by metis

end

locale versioned = idempotent run ok stored same_request conflict grows
  for run :: "'e \<Rightarrow> 'c \<Rightarrow> 's \<Rightarrow> app_error + ('row \<times> 'n \<times> bool) \<times> 's"
    and ok :: "'s \<Rightarrow> bool"
    and stored :: "'c \<Rightarrow> 's \<Rightarrow> 'row option"
    and same_request :: "'c \<Rightarrow> 'row \<Rightarrow> bool"
    and conflict :: app_error
    and grows :: "'s \<Rightarrow> 's \<Rightarrow> bool" +
  fixes version :: "'c \<Rightarrow> 's \<Rightarrow> int option"
    and expected :: "'c \<Rightarrow> int"
    and stale :: "int \<Rightarrow> app_error"
  assumes stale_refused:
      "stored c s = None \<Longrightarrow> version c s = Some v \<Longrightarrow> expected c \<noteq> v \<Longrightarrow> run e c s = Inl (stale v)"
    and bumps: "ok s \<Longrightarrow> stored c s = None \<Longrightarrow> run e c s = Inr (x, s')
      \<Longrightarrow> version c s = Some (expected c) \<and> version c s' = Some (expected c + 1)"
begin

text \<open>Of two commands prepared against the same version only the first succeeds: no lost update.\<close>

lemma second_writer_refused:
  assumes "ok s" "stored c s = None" "run e c s = Inr (x, s')"
    and "version c' s' = version c s'" "stored c' s' = None" "expected c' = expected c"
  shows "run e' c' s' = Inl (stale (expected c + 1))"
  using stale_refused[OF assms(5)] bumps[OF assms(1-3)] assms(4,6) by simp

text \<open>A command that took effect named the version the target had, and left the next one.\<close>

lemma effective:
  assumes "ok s" "run e c s = Inr ((r, n, False), s')"
  shows "version c s = Some (expected c) \<and> version c s' = Some (expected c + 1)"
proof (cases "stored c s")
  case None
  then show ?thesis using bumps[OF assms(1) None assms(2)] by simp
next
  case (Some q)
  then show ?thesis using replay_hit[OF Some, of e] conflict_hit[OF Some, of e] assms by fastforce
qed

lemma version_step:
  assumes "ok s" "run e c s = Inr ((r, n, d), s')" "version c s = Some v"
  shows "version c s' = Some (if d then v else v + 1)"
proof (cases "stored c s")
  case None
  then show ?thesis using first_use[OF assms(1) None assms(2)] bumps[OF assms(1) None assms(2)] assms(3) by simp
next
  case (Some q)
  then show ?thesis using replay_hit[OF Some, of e] conflict_hit[OF Some, of e] assms by fastforce
qed

end

end
