(* ===== verification/CanModels.thy ===== *)
theory CanModels
  imports CanSchemas EcuModels Replay
begin

text \<open>
  The rows of \<open>src/src/atep/can_network/models.py\<close>, the store the CAN handlers run on, and what all
  of them share: finding the network of a vehicle, finding a frame contract, storing the changed
  network, and the error counters of \<open>src/src/atep/can_network/error_state.py\<close>. The JSON columns
  hold dumped models, which validate back to themselves: they are the models here.
\<close>

section \<open>Rows\<close>

record can_network =
  net_id :: uuid
  net_vehicle_id :: uuid
  net_identifier :: string
  net_display_name :: string
  net_bitrate_kbps :: int
  net_can_fd_enabled :: bool
  net_data_bitrate_kbps :: "int option"
  net_nodes :: "can_node list"
  net_frame_contracts :: "can_frame_contract list"
  net_error_states :: "(uuid \<times> can_node_error_state) list"
  net_lin_channels :: "lin_channel_contract list"
  net_ethernet_segments :: "ethernet_segment_contract list"
  net_gateway_routes :: "gateway_route_contract list"
  net_version :: int
  net_simulation_time_us :: int
  net_next_sequence :: int

text \<open>
  A transmission is requested by a submitted frame or recorded by an arbitration, whose request
  document names the arbitration and the ready time.
\<close>

datatype transmission_request = SubmitRequest can_frame_submit_command | ArbitrationRequest string int

record can_frame_transmission =
  tx_network_id :: uuid
  tx_command_id :: string
  tx_contract_id :: string
  tx_producer_node_id :: uuid
  tx_frame_id :: int
  tx_frame_format :: CanFrameFormat
  tx_protocol :: CanFrameProtocol
  tx_bitrate_switch :: bool
  tx_request :: transmission_request
  tx_payload :: "int list"
  tx_sequence :: int
  tx_transmission_time_us :: int
  tx_previous_version :: int
  tx_network_version :: int
  tx_requested_by_user_id :: uuid

datatype fault_request = InjectRequest can_fault_injection_command | RecoverRequest can_bus_recovery_command

record can_fault_execution =
  fx_network_id :: uuid
  fx_command_id :: string
  fx_operation :: string
  fx_target_node_id :: uuid
  fx_request :: fault_request
  fx_result :: dict
  fx_previous_version :: int
  fx_network_version :: int
  fx_requested_by_user_id :: uuid

datatype gateway_request = ConfigureRequest multibus_configuration_command | RouteRequest gateway_route_command

record multibus_gateway_execution =
  gx_network_id :: uuid
  gx_command_id :: string
  gx_operation :: string
  gx_route_id :: "string option"
  gx_request :: gateway_request
  gx_result :: dict
  gx_previous_version :: int
  gx_network_version :: int
  gx_requested_by_user_id :: uuid

record campaign_trace =
  tc_step :: int
  tc_step_id :: string
  tc_route_id :: string
  tc_source_protocol :: VehicleBusProtocol
  tc_destination_protocol :: VehicleBusProtocol
  tc_payload_length :: int
  tc_fault :: MultiBusCampaignFault
  tc_outcome :: string
  tc_failure_reason :: "string option"
  tc_budget_exceeded :: bool
  tc_sequence :: "int option"
  tc_started_at_us :: int
  tc_completed_at_us :: int
  tc_duration_us :: int
  tc_timing :: dict

record campaign_result =
  cp_status :: string
  cp_step_count :: int
  cp_delivered_count :: int
  cp_failed_count :: int
  cp_budget_violation_count :: int
  cp_protocol_counts :: "(VehicleBusProtocol \<times> int) list"
  cp_started_at_us :: int
  cp_completed_at_us :: int
  cp_window_us :: int
  cp_occupied_us :: int
  cp_idle_us :: int
  cp_utilization_percent :: rat
  cp_maximum_latency_us :: int
  cp_p95_latency_us :: int
  cp_traces :: "campaign_trace list"

record multibus_campaign_execution =
  mx_network_id :: uuid
  mx_command_id :: string
  mx_request_fingerprint :: string
  mx_request_summary :: json
  mx_status :: string
  mx_result :: campaign_result
  mx_previous_version :: int
  mx_network_version :: int
  mx_requested_by_user_id :: uuid

record can_arbitration_execution =
  ax_network_id :: uuid
  ax_command_id :: string
  ax_request :: can_arbitration_command
  ax_result :: "can_arbitrated_frame list \<times> can_bus_utilization"
  ax_contender_count :: int
  ax_previous_version :: int
  ax_network_version :: int
  ax_requested_by_user_id :: uuid

record can_dbc_catalogue =
  cat_network_id :: uuid
  cat_identifier :: string
  cat_display_name :: string
  cat_revision :: string
  cat_messages :: "can_dbc_message list"
  cat_network_version :: int
  cat_created_by_user_id :: uuid

text \<open>
  The request of a codec execution is the dumped command and the operation. Two dictionaries of
  values are equal when they have the same items, in any order.
\<close>

datatype codec_request =
    EncodeRequest string string "(string \<times> decimal) set"
  | DecodeRequest can_signal_decode_command

record codec_result =
  cd_payload :: "int list"
  cd_raw_values :: "(string \<times> int) list"
  cd_physical_values :: "(string \<times> rat) list"

record can_signal_codec_execution =
  sx_network_id :: uuid
  sx_command_id :: string
  sx_operation :: string
  sx_contract_id :: string
  sx_request :: codec_request
  sx_result :: codec_result
  sx_requested_by_user_id :: uuid

record can_store = ecu_store +
  networks :: "can_network list"
  transmissions :: "can_frame_transmission list"
  fault_executions :: "can_fault_execution list"
  gateway_executions :: "multibus_gateway_execution list"
  campaign_executions :: "multibus_campaign_execution list"
  arbitrations :: "can_arbitration_execution list"
  catalogues :: "can_dbc_catalogue list"
  codec_executions :: "can_signal_codec_execution list"

text \<open>The unique constraints: one network per vehicle, one execution per command of a network.\<close>

definition tx_key :: "can_frame_transmission \<Rightarrow> uuid \<times> string" where
  "tx_key r = (tx_network_id r, tx_command_id r)"

definition fx_key :: "can_fault_execution \<Rightarrow> uuid \<times> string" where
  "fx_key r = (fx_network_id r, fx_command_id r)"

definition gx_key :: "multibus_gateway_execution \<Rightarrow> uuid \<times> string" where
  "gx_key r = (gx_network_id r, gx_command_id r)"

definition mx_key :: "multibus_campaign_execution \<Rightarrow> uuid \<times> string" where
  "mx_key r = (mx_network_id r, mx_command_id r)"

definition ax_key :: "can_arbitration_execution \<Rightarrow> uuid \<times> string" where
  "ax_key r = (ax_network_id r, ax_command_id r)"

definition sx_key :: "can_signal_codec_execution \<Rightarrow> uuid \<times> string" where
  "sx_key r = (sx_network_id r, sx_command_id r)"

section \<open>The network of a vehicle\<close>

definition vehicle_network :: "vehicle \<Rightarrow> 'a can_store_scheme \<Rightarrow> can_network option" where
  "vehicle_network v s = select (\<lambda>n. net_vehicle_id n = veh_id v) (networks s)"

definition require_can_network :: "vehicle \<Rightarrow> 'a can_store_scheme \<Rightarrow> app_error + can_network" where
  "require_can_network v s = of_option (ResourceNotFound ''can_network'') (vehicle_network v s)"

fun find_contract :: "can_frame_contract list \<Rightarrow> string \<Rightarrow> app_error + can_frame_contract" where
  "find_contract [] identifier = Inl (CanNetworkContract ''frame contract does not exist'')"
| "find_contract (contract # rest) identifier =
     (if fc_identifier contract = identifier then Inr contract else find_contract rest identifier)"

definition contract_of :: "can_network \<Rightarrow> string \<Rightarrow> app_error + can_frame_contract" where
  "contract_of n identifier = find_contract (net_frame_contracts n) identifier"

lemma find_contract_Inr:
  "find_contract cs i = Inr c \<Longrightarrow> c \<in> set cs \<and> fc_identifier c = i"
  by (induction cs i rule: find_contract.induct) (auto split: if_splits)

lemma find_contract_cases: "find_contract cs i = Inl e
  \<longleftrightarrow> i \<notin> fc_identifier ` set cs \<and> e = CanNetworkContract ''frame contract does not exist''"
  by (induction cs i rule: find_contract.induct) (auto split: if_splits)

text \<open>The flush of the changed network row.\<close>

definition save_network :: "can_network \<Rightarrow> 'a can_store_scheme \<Rightarrow> 'a can_store_scheme" where
  "save_network n s = s\<lparr>networks := update_row net_id n (networks s)\<rparr>"

section \<open>Error counters\<close>

definition derive_error_mode :: "int \<Rightarrow> int \<Rightarrow> CanNodeErrorMode" where
  "derive_error_mode tec rec =
     (if tec \<ge> 256 then BUS_OFF
      else if tec \<ge> 128 \<or> rec \<ge> 128 then ERROR_PASSIVE
      else ERROR_ACTIVE)"

definition node_error_state :: "can_network \<Rightarrow> uuid \<Rightarrow> can_node_error_state" where
  "node_error_state n node =
     (let (tec, rec) = (case map_of (net_error_states n) node of
                          None \<Rightarrow> (0, 0)
                        | Some value \<Rightarrow> (transmit_error_count value, receive_error_count value))
      in \<lparr>transmit_error_count = tec, receive_error_count = rec, error_mode = derive_error_mode tec rec\<rparr>)"

definition set_node_error_state ::
  "can_network \<Rightarrow> uuid \<Rightarrow> int \<Rightarrow> int \<Rightarrow> can_node_error_state \<times> can_network" where
  "set_node_error_state n node tec rec =
     (let state = \<lparr>transmit_error_count = min tec 256, receive_error_count = min rec 255,
                   error_mode = derive_error_mode tec rec\<rparr>
      in (state, n\<lparr>net_error_states := AList.update node state (net_error_states n)\<rparr>))"

definition is_bus_off :: "can_network \<Rightarrow> uuid \<Rightarrow> bool" where
  "is_bus_off n node \<longleftrightarrow> error_mode (node_error_state n node) = BUS_OFF"

lemma set_node_error_state_network [simp]:
  "net_id (snd (set_node_error_state n node tec rec)) = net_id n"
  "net_vehicle_id (snd (set_node_error_state n node tec rec)) = net_vehicle_id n"
  "net_version (snd (set_node_error_state n node tec rec)) = net_version n"
  "net_simulation_time_us (snd (set_node_error_state n node tec rec)) = net_simulation_time_us n"
  "net_next_sequence (snd (set_node_error_state n node tec rec)) = net_next_sequence n"
  "net_frame_contracts (snd (set_node_error_state n node tec rec)) = net_frame_contracts n"
  "net_bitrate_kbps (snd (set_node_error_state n node tec rec)) = net_bitrate_kbps n"
  "net_identifier (snd (set_node_error_state n node tec rec)) = net_identifier n"
  by (simp_all add: set_node_error_state_def Let_def)

lemma node_error_state_set_same:
  "node_error_state (snd (set_node_error_state n node tec rec)) node
     = fst (set_node_error_state n node tec rec)"
  by (simp add: set_node_error_state_def node_error_state_def derive_error_mode_def update_conv' Let_def)

lemma node_error_state_set_other:
  "other \<noteq> node \<Longrightarrow>
     node_error_state (snd (set_node_error_state n node tec rec)) other = node_error_state n other"
  by (simp add: set_node_error_state_def node_error_state_def update_conv' Let_def)

text \<open>The counters are clamped without changing the mode they stand for.\<close>

lemma derive_error_mode_clamped: "derive_error_mode (min tec 256) (min rec 255) = derive_error_mode tec rec"
  by (auto simp: derive_error_mode_def)

section \<open>Saving and finding\<close>

text \<open>
  The store invariant of the network table: primary keys and the owners are distinct. Under it, the
  saved network is the one the next request of the vehicle finds.
\<close>

definition networks_ok :: "'a can_store_scheme \<Rightarrow> bool" where
  "networks_ok s \<longleftrightarrow> distinct (map net_id (networks s)) \<and> distinct (map net_vehicle_id (networks s))"

lemma vehicle_network_in: "vehicle_network v s = Some n \<Longrightarrow> n \<in> set (networks s) \<and> net_vehicle_id n = veh_id v"
  unfolding vehicle_network_def by (rule select_SomeD)

lemma vehicle_network_save:
  assumes "vehicle_network v s = Some n" and "net_id m = net_id n" "net_vehicle_id m = net_vehicle_id n"
    and "networks_ok s"
  shows "vehicle_network v (save_network m s) = Some m"
proof -
  have n: "n \<in> set (networks s)" "net_vehicle_id n = veh_id v"
    using vehicle_network_in[OF assms(1)] by auto
  have same: "x = n" if "x \<in> set (networks s)" "net_id x = net_id n" for x
    using assms(4) that n(1) by (auto simp: networks_ok_def distinct_map inj_on_def)
  have "select (\<lambda>x. net_vehicle_id x = veh_id v) (update_row net_id m (networks s)) = Some m"
    using assms(1-3) n(2) same unfolding vehicle_network_def
    by (intro select_update_same[where q = n]) auto
  then show ?thesis by (simp add: vehicle_network_def save_network_def)
qed

lemma vehicle_network_save_id:
  assumes "vehicle_network v s = Some k" and "n \<in> set (networks s)" "net_id m = net_id n"
    and "net_vehicle_id m = net_vehicle_id n" "networks_ok s"
  shows "\<exists>k'. vehicle_network v (save_network m s) = Some k' \<and> net_id k' = net_id k"
proof -
  have same: "x = n" if "x \<in> set (networks s)" "net_id x = net_id m" for x
    using assms that by (auto simp: networks_ok_def distinct_map inj_on_def)
  have "vehicle_network v (save_network m s)
      = map_option (\<lambda>x. if net_id x = net_id m then m else x) (vehicle_network v s)"
    unfolding vehicle_network_def save_network_def using assms(4) same
    by (simp add: select_update_row)
  then show ?thesis using assms(1) by auto
qed

lemma networks_ok_save:
  assumes "networks_ok s" "n \<in> set (networks s)" "net_id m = net_id n" "net_vehicle_id m = net_vehicle_id n"
  shows "networks_ok (save_network m s)"
proof -
  have "map net_vehicle_id (update_row net_id m (networks s)) = map net_vehicle_id (networks s)"
    using assms by (auto simp: update_row_def networks_ok_def distinct_map inj_on_def)
  then show ?thesis
    using assms(1) by (simp add: networks_ok_def save_network_def update_row_keys)
qed

section \<open>Committing a change of a network\<close>

text \<open>
  Every handler ends alike: it flushes the changed network and its execution row, and writes one
  event and one audit record about the network with the same evidence.
\<close>

definition commit_network ::
  "env \<Rightarrow> string \<Rightarrow> string \<Rightarrow> dict \<Rightarrow> can_network \<Rightarrow> 'a can_store_scheme \<Rightarrow> 'a can_store_scheme" where
  "commit_network e event_type action evidence n s =
     add_event_audit e event_type ''can_network'' (net_id n) evidence action evidence (save_network n s)"

lemma add_event_audit_can [simp]:
  fixes s :: "'a can_store_scheme"
  shows "networks (add_event_audit e t rt i p a d s) = networks s"
    and "transmissions (add_event_audit e t rt i p a d s) = transmissions s"
    and "fault_executions (add_event_audit e t rt i p a d s) = fault_executions s"
    and "gateway_executions (add_event_audit e t rt i p a d s) = gateway_executions s"
    and "campaign_executions (add_event_audit e t rt i p a d s) = campaign_executions s"
    and "arbitrations (add_event_audit e t rt i p a d s) = arbitrations s"
    and "catalogues (add_event_audit e t rt i p a d s) = catalogues s"
    and "codec_executions (add_event_audit e t rt i p a d s) = codec_executions s"
  by (simp_all add: add_event_audit_def record_audit_def enqueue_event_def)

lemma commit_network_tables [simp]:
  "networks (commit_network e t a p n s) = update_row net_id n (networks s)"
  "transmissions (commit_network e t a p n s) = transmissions s"
  "fault_executions (commit_network e t a p n s) = fault_executions s"
  "gateway_executions (commit_network e t a p n s) = gateway_executions s"
  "campaign_executions (commit_network e t a p n s) = campaign_executions s"
  "arbitrations (commit_network e t a p n s) = arbitrations s"
  "catalogues (commit_network e t a p n s) = catalogues s"
  "codec_executions (commit_network e t a p n s) = codec_executions s"
  "ecus (commit_network e t a p n s) = ecus s"
  by (simp_all add: commit_network_def save_network_def)

lemma evidence_counts_commit [simp]:
  "evidence_counts (commit_network e t a p n s)
     = (Suc (fst (evidence_counts s)), Suc (snd (evidence_counts s)))"
  by (simp add: commit_network_def save_network_def) (simp add: evidence_counts_def)

text \<open>
  \<open>can_grows s s'\<close>: nothing a later request could look up was removed or changed. Every vehicle
  keeps its network, whose version never decreases, and every execution table was appended to.
\<close>

definition can_grows :: "'a can_store_scheme \<Rightarrow> 'a can_store_scheme \<Rightarrow> bool" where
  "can_grows s s' \<longleftrightarrow>
     (\<forall>v n. vehicle_network v s = Some n \<longrightarrow>
        (\<exists>n'. vehicle_network v s' = Some n' \<and> net_id n' = net_id n \<and> net_version n \<le> net_version n'))
     \<and> (\<exists>xs. transmissions s' = transmissions s @ xs)
     \<and> (\<exists>xs. fault_executions s' = fault_executions s @ xs)
     \<and> (\<exists>xs. gateway_executions s' = gateway_executions s @ xs)
     \<and> (\<exists>xs. campaign_executions s' = campaign_executions s @ xs)
     \<and> (\<exists>xs. arbitrations s' = arbitrations s @ xs)
     \<and> (\<exists>xs. catalogues s' = catalogues s @ xs)
     \<and> (\<exists>xs. codec_executions s' = codec_executions s @ xs)"

lemma can_grows_refl [simp]: "can_grows s s"
  unfolding can_grows_def by simp

lemma can_grows_trans: "can_grows s t \<Longrightarrow> can_grows t u \<Longrightarrow> can_grows s u"
  unfolding can_grows_def by (fastforce intro: order_trans)

text \<open>What every handler's commit does to the network table and to the tables around it.\<close>

lemma commit_networks_ok:
  assumes "networks_ok s" "vehicle_network v s = Some n" "net_id m = net_id n" "net_vehicle_id m = net_vehicle_id n"
    and "networks t = networks s"
  shows "networks_ok (commit_network e et ac p m t)"
  using networks_ok_save[OF assms(1) _ assms(3,4)] vehicle_network_in[OF assms(2)] assms(5)
  by (simp add: networks_ok_def save_network_def)

lemma commit_vehicle_network:
  assumes "networks_ok s" "vehicle_network v s = Some n" "net_id m = net_id n" "net_vehicle_id m = net_vehicle_id n"
    and "networks t = networks s"
  shows "vehicle_network v (commit_network e et ac p m t) = Some m"
  using vehicle_network_save[OF assms(2,3,4,1)] assms(5)
  by (simp add: vehicle_network_def save_network_def)

lemma commit_grows:
  assumes "networks_ok s" "vehicle_network v s = Some n" "net_id m = net_id n" "net_vehicle_id m = net_vehicle_id n"
    and "net_version n \<le> net_version m" "networks t = networks s"
    and "\<exists>xs. transmissions t = transmissions s @ xs" "\<exists>xs. fault_executions t = fault_executions s @ xs"
    and "\<exists>xs. gateway_executions t = gateway_executions s @ xs"
    and "\<exists>xs. campaign_executions t = campaign_executions s @ xs"
    and "\<exists>xs. arbitrations t = arbitrations s @ xs" "\<exists>xs. catalogues t = catalogues s @ xs"
    and "\<exists>xs. codec_executions t = codec_executions s @ xs"
  shows "can_grows s (commit_network e et ac p m t)"
proof -
  have n: "n \<in> set (networks s)" using vehicle_network_in[OF assms(2)] by simp
  have "\<exists>k'. vehicle_network w (commit_network e et ac p m t) = Some k' \<and> net_id k' = net_id k
      \<and> net_version k \<le> net_version k'" if k: "vehicle_network w s = Some k" for w k
  proof -
    have same: "x = n" if "x \<in> set (networks s)" "net_id x = net_id m" for x
      using assms(1,3) n that by (auto simp: networks_ok_def distinct_map inj_on_def)
    have "vehicle_network w (commit_network e et ac p m t)
        = map_option (\<lambda>x. if net_id x = net_id m then m else x) (vehicle_network w s)"
      unfolding vehicle_network_def using assms(4,6) same by (simp add: select_update_row)
    then show ?thesis
      using k same vehicle_network_in[OF k] assms(5) by auto
  qed
  then show ?thesis using assms(7-) unfolding can_grows_def by simp
qed

section \<open>Executions of a network\<close>

text \<open>
  \<open>select(X).where(X.network_id == network.id, X.command_id == command_id)\<close>, and the same for the
  network of a vehicle.
\<close>

definition find_execution :: "('r \<Rightarrow> uuid \<times> string) \<Rightarrow> can_network \<Rightarrow> string \<Rightarrow> 'r list \<Rightarrow> 'r option" where
  "find_execution key n command_id rows = select (\<lambda>r. key r = (net_id n, command_id)) rows"

definition vehicle_execution ::
  "('r \<Rightarrow> uuid \<times> string) \<Rightarrow> ('a can_store_scheme \<Rightarrow> 'r list) \<Rightarrow> vehicle \<Rightarrow> string
    \<Rightarrow> 'a can_store_scheme \<Rightarrow> 'r option" where
  "vehicle_execution key table v command_id s =
     (case vehicle_network v s of None \<Rightarrow> None | Some n \<Rightarrow> find_execution key n command_id (table s))"

definition can_version :: "vehicle \<Rightarrow> 'a can_store_scheme \<Rightarrow> int option" where
  "can_version v s = map_option net_version (vehicle_network v s)"

lemma find_execution_id: "net_id m = net_id n \<Longrightarrow> find_execution key m i rows = find_execution key n i rows"
  by (simp add: find_execution_def)

text \<open>After a miss the row can be inserted: the unique constraint of the table cannot fail.\<close>

lemma insert_after_miss:
  assumes "find_execution key n i rows = None" "key r = (net_id n, i)"
  shows "insert_row key r rows = Some (rows @ [r])"
  by (rule insert_row_after_miss[OF assms(1)[unfolded find_execution_def]]) (simp add: assms(2))

lemma vehicle_execution_grows:
  assumes "can_grows s s'" "\<exists>xs. table s' = table s @ xs" "vehicle_execution key table v i s = Some r"
  shows "vehicle_execution key table v i s' = Some r"
proof -
  obtain n where n: "vehicle_network v s = Some n" "find_execution key n i (table s) = Some r"
    using assms(3) by (auto simp: vehicle_execution_def split: option.splits)
  obtain n' where n': "vehicle_network v s' = Some n'" "net_id n' = net_id n"
    using assms(1) n(1) unfolding can_grows_def by blast
  show ?thesis
    using assms(2) n n' by (auto simp: vehicle_execution_def find_execution_def select_grows)
qed

lemma vehicle_execution_commit:
  assumes "networks_ok s" "vehicle_network v s = Some n" "net_id m = net_id n" "net_vehicle_id m = net_vehicle_id n"
    and "networks t = networks s" "find_execution key n i (table s) = None" "key r = (net_id n, i)"
    and "table (commit_network e et ac p m t) = table s @ [r]"
  shows "vehicle_execution key table v i (commit_network e et ac p m t) = Some r"
  using commit_vehicle_network[OF assms(1-5)] assms(3,6-8)
  by (simp add: vehicle_execution_def find_execution_def select_insert_miss)

lemma vehicle_execution_None:
  "vehicle_network v s = Some n \<Longrightarrow> vehicle_execution key table v i s = find_execution key n i (table s)"
  by (simp add: vehicle_execution_def)

lemma can_grows_tables:
  assumes "can_grows s s'"
  shows "\<exists>xs. transmissions s' = transmissions s @ xs" "\<exists>xs. fault_executions s' = fault_executions s @ xs"
    "\<exists>xs. gateway_executions s' = gateway_executions s @ xs"
    "\<exists>xs. campaign_executions s' = campaign_executions s @ xs"
    "\<exists>xs. arbitrations s' = arbitrations s @ xs" "\<exists>xs. catalogues s' = catalogues s @ xs"
    "\<exists>xs. codec_executions s' = codec_executions s @ xs"
  using assms unfolding can_grows_def by auto

end
