(* ===== verification/CanHandler.thy ===== *)
theory CanHandler
  imports CanModels
begin

text \<open>
  The contract of a CAN command handler, proved once. \<open>committed\<close> is the shape of every successful
  first use: the network of the vehicle is replaced by one with the same identity, the execution row
  is appended to its table, the other tables only grow, and one event and one audit record are
  written. A handler that answers stored commands from its table and otherwise commits is
  idempotent; one that also checks the expected version and increments it is versioned.
\<close>

definition appended :: "'a can_store_scheme \<Rightarrow> 'a can_store_scheme \<Rightarrow> bool" where
  "appended s t \<longleftrightarrow> networks t = networks s
     \<and> (\<exists>xs. transmissions t = transmissions s @ xs) \<and> (\<exists>xs. fault_executions t = fault_executions s @ xs)
     \<and> (\<exists>xs. gateway_executions t = gateway_executions s @ xs)
     \<and> (\<exists>xs. campaign_executions t = campaign_executions s @ xs)
     \<and> (\<exists>xs. arbitrations t = arbitrations s @ xs) \<and> (\<exists>xs. catalogues t = catalogues s @ xs)
     \<and> (\<exists>xs. codec_executions t = codec_executions s @ xs) \<and> evidence_counts t = evidence_counts s"

definition committed ::
  "int \<Rightarrow> ('r \<Rightarrow> uuid \<times> string) \<Rightarrow> ('a can_store_scheme \<Rightarrow> 'r list) \<Rightarrow> vehicle \<Rightarrow> string
    \<Rightarrow> can_network \<Rightarrow> 'a can_store_scheme \<Rightarrow> 'r \<Rightarrow> can_network \<Rightarrow> 'a can_store_scheme \<Rightarrow> bool" where
  "committed bump key table v command_id n s r n' s' \<longleftrightarrow>
     vehicle_network v s = Some n \<and> find_execution key n command_id (table s) = None
     \<and> key r = (net_id n, command_id) \<and> net_id n' = net_id n \<and> net_vehicle_id n' = net_vehicle_id n
     \<and> net_version n' = net_version n + bump \<and> table s' = table s @ [r]
     \<and> (\<exists>e event_type action evidence t.
          s' = commit_network e event_type action evidence n' t \<and> appended s t)"

text \<open>The tables one handler or another appends to.\<close>

lemma appended_tables [simp]:
  "appended s (s\<lparr>transmissions := transmissions s @ xs\<rparr>)"
  "appended s (s\<lparr>fault_executions := fault_executions s @ fs\<rparr>)"
  "appended s (s\<lparr>gateway_executions := gateway_executions s @ gs\<rparr>)"
  "appended s (s\<lparr>campaign_executions := campaign_executions s @ ms\<rparr>)"
  "appended s (s\<lparr>arbitrations := arbitrations s @ arbs, transmissions := transmissions s @ xs\<rparr>)"
  "appended s (s\<lparr>catalogues := catalogues s @ cats\<rparr>)"
  "appended s (s\<lparr>codec_executions := codec_executions s @ cs\<rparr>)"
  by (simp_all add: appended_def evidence_counts_def)

lemma committed_facts:
  assumes "networks_ok s" "committed bump key table v i n s r n' s'"
  shows "networks_ok s'" "vehicle_network v s' = Some n'" "vehicle_execution key table v i s' = Some r"
    and "evidence_counts s' = (Suc (fst (evidence_counts s)), Suc (snd (evidence_counts s)))"
    and "0 \<le> bump \<Longrightarrow> can_grows s s'"
proof -
  obtain e et ac p t where s': "s' = commit_network e et ac p n' t" and t: "appended s t"
    using assms(2) unfolding committed_def by blast
  have n: "vehicle_network v s = Some n" "net_id n' = net_id n" "net_vehicle_id n' = net_vehicle_id n"
    and tab: "table s' = table s @ [r]" "find_execution key n i (table s) = None" "key r = (net_id n, i)"
    and ver: "net_version n' = net_version n + bump"
    using assms(2) by (simp_all add: committed_def)
  have nets: "networks t = networks s" using t by (simp add: appended_def)
  show "networks_ok s'" unfolding s' by (rule commit_networks_ok[OF assms(1) n nets])
  show "vehicle_network v s' = Some n'" unfolding s' by (rule commit_vehicle_network[OF assms(1) n nets])
  show "vehicle_execution key table v i s' = Some r"
    using vehicle_execution_commit[OF assms(1) n nets, where key = key and i = i and table = table and r = r]
      tab unfolding s' by blast
  show "evidence_counts s' = (Suc (fst (evidence_counts s)), Suc (snd (evidence_counts s)))"
    using t unfolding s' by (simp add: appended_def)
  show "can_grows s s'" if "0 \<le> bump"
    unfolding s' using t ver that by (intro commit_grows[OF assms(1) n]) (auto simp: appended_def)
qed

section \<open>Handlers\<close>

locale can_handler =
  fixes run :: "env \<Rightarrow> vehicle \<times> 'c \<Rightarrow> 'a can_store_scheme
      \<Rightarrow> app_error + ('r \<times> can_network \<times> bool) \<times> 'a can_store_scheme"
    and key :: "'r \<Rightarrow> uuid \<times> string"
    and table :: "'a can_store_scheme \<Rightarrow> 'r list"
    and command_id :: "'c \<Rightarrow> string"
    and same :: "'c \<Rightarrow> 'r \<Rightarrow> bool"
    and conflict :: app_error
    and bump :: int
  assumes bump: "0 \<le> bump"
    and table_grows: "can_grows s s' \<Longrightarrow> \<exists>xs. table s' = table s @ xs"
    and hit: "vehicle_network v s = Some n \<Longrightarrow> find_execution key n (command_id c) (table s) = Some r
      \<Longrightarrow> run e (v, c) s = (if same c r then Inr ((r, n, True), s) else Inl conflict)"
    and fresh: "vehicle_network v s = Some n \<Longrightarrow> find_execution key n (command_id c) (table s) = None
      \<Longrightarrow> run e (v, c) s = Inr ((r, n', d), s')
      \<Longrightarrow> \<not> d \<and> same c r \<and> committed bump key table v (command_id c) n s r n' s'"
    and no_network: "vehicle_network v s = None \<Longrightarrow> run e (v, c) s = Inl (ResourceNotFound ''can_network'')"
begin

lemma cases_run:
  assumes "run e (v, c) s = Inr ((r, n', d), s')"
  obtains (replayed) "vehicle_execution key table v (command_id c) s = Some r" "same c r" d "s' = s"
      "vehicle_network v s = Some n'"
  | (first) n where "vehicle_execution key table v (command_id c) s = None" "\<not> d" "same c r"
      "committed bump key table v (command_id c) n s r n' s'"
proof (cases "vehicle_network v s")
  case None
  then show ?thesis using no_network assms by (metis Inl_Inr_False)
next
  case n: (Some n)
  show ?thesis
  proof (cases "find_execution key n (command_id c) (table s)")
    case None
    then show ?thesis using fresh[OF n None assms] first n vehicle_execution_None by metis
  next
    case (Some q)
    then show ?thesis
      using hit[OF n Some, of e] assms n replayed vehicle_execution_None[OF n, of key table]
      by (auto split: if_splits)
  qed
qed

text \<open>One event and one audit record for a first use, none for a replay.\<close>

lemma evidence_once:
  assumes "networks_ok s" "run e (v, c) s = Inr ((r, n', d), s')"
  shows "evidence_counts s' = (if d then evidence_counts s
    else (Suc (fst (evidence_counts s)), Suc (snd (evidence_counts s))))"
  using assms(2) by (cases rule: cases_run) (use committed_facts(4)[OF assms(1)] in auto)

end

sublocale can_handler \<subseteq> idempotent run networks_ok "\<lambda>(v, c). vehicle_execution key table v (command_id c)"
  "\<lambda>(v, c). same c" conflict can_grows
proof (unfold_locales, goal_cases)
  case (1 c s r e)
  then show ?case
    using hit[of "fst c" s _ "snd c" r e] by (auto simp: vehicle_execution_def split: option.splits prod.splits)
next
  case (2 c s r e)
  then show ?case
    using hit[of "fst c" s _ "snd c" r e] by (auto simp: vehicle_execution_def split: option.splits prod.splits)
next
  case (3 s c e r n d s')
  obtain v k where c: "c = (v, k)" by fastforce
  with 3(3) have "run e (v, k) s = Inr ((r, n, d), s')" by simp
  then show ?case
    by (cases rule: cases_run) (use 3 c committed_facts(3)[OF 3(1)] in auto)
next
  case (4 s e c x s')
  obtain v k r n d where c: "c = (v, k)" "x = (r, n, d)" by (metis prod_cases3 surj_pair)
  with 4(2) have "run e (v, k) s = Inr ((r, n, d), s')" by simp
  then show ?case
    by (cases rule: cases_run) (use 4 c committed_facts(1)[OF 4(1)] in auto)
next
  case (5 s e c x s')
  obtain v k r n d where c: "c = (v, k)" "x = (r, n, d)" by (metis prod_cases3 surj_pair)
  with 5(2) have "run e (v, k) s = Inr ((r, n, d), s')" by simp
  then show ?case
    by (cases rule: cases_run) (use 5 c committed_facts(5)[OF 5(1) _ bump] in auto)
next
  case (6 s s' c r)
  then show ?case
    using vehicle_execution_grows[OF 6(1) table_grows[OF 6(1)]] by (auto split: prod.splits)
qed

text \<open>Handlers under optimistic concurrency.\<close>

locale can_versioned_handler = can_handler run key table command_id same conflict "1 :: int"
  for run :: "env \<Rightarrow> vehicle \<times> 'c \<Rightarrow> 'a can_store_scheme
      \<Rightarrow> app_error + ('r \<times> can_network \<times> bool) \<times> 'a can_store_scheme"
    and key :: "'r \<Rightarrow> uuid \<times> string"
    and table :: "'a can_store_scheme \<Rightarrow> 'r list"
    and command_id :: "'c \<Rightarrow> string"
    and same :: "'c \<Rightarrow> 'r \<Rightarrow> bool"
    and conflict :: app_error +
  fixes expected :: "'c \<Rightarrow> int"
  assumes stale: "vehicle_network v s = Some n \<Longrightarrow> find_execution key n (command_id c) (table s) = None
      \<Longrightarrow> expected c \<noteq> net_version n \<Longrightarrow> run e (v, c) s = Inl (CanNetworkVersionConflict (net_version n))"

sublocale can_versioned_handler \<subseteq> versioned run networks_ok
  "\<lambda>(v, c). vehicle_execution key table v (command_id c)" "\<lambda>(v, c). same c" conflict can_grows
  "\<lambda>(v, c). can_version v" "\<lambda>(v, c). expected c" CanNetworkVersionConflict
proof (unfold_locales, goal_cases)
  case (1 c s x e)
  then show ?case
    using stale[of "fst c" s _ "snd c" e]
    by (auto simp: vehicle_execution_def can_version_def split: option.splits prod.splits)
next
  case (2 s c e x s')
  obtain v k r n d where c: "c = (v, k)" "x = (r, n, d)" by (metis prod_cases3 surj_pair)
  with 2(3) have "run e (v, k) s = Inr ((r, n, d), s')" by simp
  then show ?case
  proof (cases rule: cases_run)
    case replayed
    then show ?thesis using 2 c by simp
  next
    case (first m)
    then have m: "vehicle_network v s = Some m" "find_execution key m (command_id k) (table s) = None"
      "net_version n = net_version m + 1"
      by (auto simp: committed_def)
    then have "expected k = net_version m"
      using stale[of v s m k e] 2(3) c by auto
    then show ?thesis
      using m committed_facts(2)[OF 2(1) first(4)] c by (simp add: can_version_def)
  qed
qed

end
