(* ===== verification/CanCore.thy ===== *)
theory CanCore
  imports CanHandler
begin

text \<open>
  Creating a network and submitting frames: \<open>src/src/atep/can_network/service.py\<close>.
\<close>

section \<open>Creating the network of a vehicle\<close>

definition create_evidence :: "vehicle \<Rightarrow> can_network \<Rightarrow> dict" where
  "create_evidence v n = [
     (''vehicle_id'', JStr (veh_identifier v)), (''network_id'', JStr (net_identifier n)),
     (''node_count'', JInt (int (length (net_nodes n)))),
     (''frame_contract_count'', JInt (int (length (net_frame_contracts n)))),
     (''bitrate_kbps'', JInt (net_bitrate_kbps n)), (''can_fd_enabled'', JBool (net_can_fd_enabled n)),
     (''data_bitrate_kbps'', jopt JInt (net_data_bitrate_kbps n)), (''version'', JInt (net_version n))]"

definition create_can_network ::
  "env \<Rightarrow> vehicle \<Rightarrow> can_network_create \<Rightarrow> 'a can_store_scheme
    \<Rightarrow> app_error + can_network \<times> 'a can_store_scheme" where
  "create_can_network e v c s =
     (if vehicle_network v s \<noteq> None then Inl CanNetworkAlreadyExists
      else let declared = set (map cn_ecu_id (nc_nodes c));
               found = set (map ecu_id (filter (\<lambda>u. ecu_vehicle_id u = veh_id v \<and> ecu_id u \<in> declared) (ecus s)))
      in if found \<noteq> declared
        then Inl (CanNetworkContract ''every CAN node must reference an ECU in the vehicle'')
      else let n = \<lparr>net_id = env_new_id e, net_vehicle_id = veh_id v, net_identifier = nc_identifier c,
                    net_display_name = strip (nc_display_name c), net_bitrate_kbps = nc_bitrate_kbps c,
                    net_can_fd_enabled = nc_can_fd_enabled c, net_data_bitrate_kbps = nc_data_bitrate_kbps c,
                    net_nodes = nc_nodes c, net_frame_contracts = nc_frame_contracts c,
                    net_error_states = [], net_lin_channels = [], net_ethernet_segments = [],
                    net_gateway_routes = [], net_version = 1, net_simulation_time_us = 0,
                    net_next_sequence = 1\<rparr>
      in case insert_unless (\<lambda>x. net_id x = net_id n \<or> net_vehicle_id x = net_vehicle_id n) n (networks s) of
           None \<Rightarrow> Inl CanNetworkAlreadyExists
         | Some rows \<Rightarrow>
             Inr (n, add_event_audit e ''atep.can.network.created.v1'' ''can_network'' (net_id n)
                       (create_evidence v n) ''can.network_created'' (create_evidence v n)
                       (s\<lparr>networks := rows\<rparr>)))"

section \<open>Submitting a frame\<close>

definition submit_evidence :: "vehicle \<Rightarrow> can_network \<Rightarrow> can_frame_contract \<Rightarrow> can_frame_transmission \<Rightarrow> dict" where
  "submit_evidence v n contract tx = [
     (''vehicle_id'', JStr (veh_identifier v)), (''network_id'', JStr (net_identifier n)),
     (''contract_id'', JStr (fc_identifier contract)), (''frame_id'', JInt (fc_frame_id contract)),
     (''frame_format'', JStr (frame_format_value (fc_frame_format contract))),
     (''protocol'', JStr (frame_protocol_value (fc_protocol contract))),
     (''bitrate_switch'', JBool (fc_bitrate_switch contract)), (''dlc'', JInt (fc_dlc contract)),
     (''sequence'', JInt (tx_sequence tx)), (''transmission_time_us'', JInt (tx_transmission_time_us tx)),
     (''previous_version'', JInt (tx_previous_version tx)), (''network_version'', JInt (net_version n))]"

definition submit_can_frame ::
  "env \<Rightarrow> vehicle \<times> can_frame_submit_command \<Rightarrow> 'a can_store_scheme
    \<Rightarrow> app_error + (can_frame_transmission \<times> can_network \<times> bool) \<times> 'a can_store_scheme" where
  "submit_can_frame e = (\<lambda>(v, c) s.
     and_then (require_can_network v s) (\<lambda>n.
     case find_execution tx_key n (sc_command_id c) (transmissions s) of
       Some existing \<Rightarrow>
         if tx_request existing = SubmitRequest c then Inr ((existing, n, True), s)
         else Inl CanFrameCommandConflict
     | None \<Rightarrow>
     if sc_expected_version c \<noteq> net_version n then Inl (CanNetworkVersionConflict (net_version n))
     else and_then (contract_of n (sc_contract_id c)) (\<lambda>contract.
     if sc_producer_node_id c \<noteq> fc_producer_node_id contract
       then Inl (CanNetworkContract ''only the declared producer may submit this frame'')
     else if is_bus_off n (sc_producer_node_id c) then Inl CanNodeBusOff
     else if int (length (sc_payload c)) \<noteq> fc_dlc contract
       then Inl (CanNetworkContract ''payload length must equal the frame contract DLC'')
     else let transmission_time = net_simulation_time_us n + sc_advance_time_us c;
              tx = \<lparr>tx_network_id = net_id n, tx_command_id = sc_command_id c,
                    tx_contract_id = fc_identifier contract, tx_producer_node_id = sc_producer_node_id c,
                    tx_frame_id = fc_frame_id contract, tx_frame_format = fc_frame_format contract,
                    tx_protocol = fc_protocol contract, tx_bitrate_switch = fc_bitrate_switch contract,
                    tx_request = SubmitRequest c, tx_payload = sc_payload c,
                    tx_sequence = net_next_sequence n, tx_transmission_time_us = transmission_time,
                    tx_previous_version = net_version n, tx_network_version = net_version n + 1,
                    tx_requested_by_user_id = env_actor e\<rparr>;
              n' = n\<lparr>net_simulation_time_us := transmission_time,
                     net_next_sequence := net_next_sequence n + 1, net_version := net_version n + 1\<rparr>
     in and_then (of_option (IntegrityError ''uq_can_frame_transmission_command'')
                    (insert_row tx_key tx (transmissions s))) (\<lambda>rows.
        Inr ((tx, n', False),
          commit_network e ''atep.can.frame.submitted.v1'' ''can.frame_submitted''
            (submit_evidence v n' contract tx) n' (s\<lparr>transmissions := rows\<rparr>))))))"

text \<open>\<open>list_transmissions\<close>: the newest sequence numbers first.\<close>

definition list_transmissions ::
  "can_network \<Rightarrow> nat \<Rightarrow> nat \<Rightarrow> 'a can_store_scheme \<Rightarrow> can_frame_transmission list \<times> int" where
  "list_transmissions n limit offset s =
     (let rows = filter (\<lambda>r. tx_network_id r = net_id n) (transmissions s)
      in (page limit offset (sort_key (\<lambda>r. - tx_sequence r) rows), int (length rows)))"

section \<open>What a submission does\<close>

text \<open>The changed network of a submission.\<close>

definition after_frame :: "can_network \<Rightarrow> can_frame_submit_command \<Rightarrow> can_network" where
  "after_frame n c = n\<lparr>net_simulation_time_us := net_simulation_time_us n + sc_advance_time_us c,
     net_next_sequence := net_next_sequence n + 1, net_version := net_version n + 1\<rparr>"

text \<open>A first use succeeds exactly when every check passes, and then appends the transmission.\<close>

lemma submit_first:
  assumes "vehicle_network v s = Some n" "find_execution tx_key n (sc_command_id c) (transmissions s) = None"
    and "submit_can_frame e (v, c) s = Inr ((tx, n', dup), s')"
  shows "\<exists>contract. sc_expected_version c = net_version n \<and> contract_of n (sc_contract_id c) = Inr contract
      \<and> sc_producer_node_id c = fc_producer_node_id contract \<and> \<not> is_bus_off n (sc_producer_node_id c)
      \<and> int (length (sc_payload c)) = fc_dlc contract \<and> tx_frame_id tx = fc_frame_id contract"
    and "tx_key tx = (net_id n, sc_command_id c)" "tx_request tx = SubmitRequest c" "tx_payload tx = sc_payload c"
    and "tx_producer_node_id tx = sc_producer_node_id c" "tx_sequence tx = net_next_sequence n"
    and "tx_transmission_time_us tx = net_simulation_time_us n + sc_advance_time_us c"
    and "n' = after_frame n c" "\<not> dup"
    and "\<exists>p. s' = commit_network e ''atep.can.frame.submitted.v1'' ''can.frame_submitted'' p n'
           (s\<lparr>transmissions := transmissions s @ [tx]\<rparr>)"
  using assms
  by (auto simp: submit_can_frame_def require_can_network_def Let_def ok_simps table_simps tx_key_def
      after_frame_def split: if_splits)

lemma submit_committed:
  assumes "vehicle_network v s = Some n" "find_execution tx_key n (sc_command_id c) (transmissions s) = None"
    and "submit_can_frame e (v, c) s = Inr ((tx, n', dup), s')"
  shows "committed 1 tx_key transmissions v (sc_command_id c) n s tx n' s'"
  using submit_first(2,8,10)[OF assms] assms(1,2)
  by (auto simp: committed_def after_frame_def intro!: exI appended_tables)

interpretation frames: can_versioned_handler submit_can_frame tx_key transmissions sc_command_id
  "\<lambda>c r. tx_request r = SubmitRequest c" CanFrameCommandConflict sc_expected_version
proof (unfold_locales, goal_cases)
  case (2 s s')
  then show ?case by (rule can_grows_tables)
next
  case (4 v s n c e r n' d s')
  then show ?case using submit_first(3,9)[OF 4] submit_committed[OF 4] by simp
qed (auto simp: submit_can_frame_def require_can_network_def)

section \<open>Creation facts\<close>

lemma create_can_network_ok:
  assumes "create_can_network e v c s = Inr (n, s')"
  shows "vehicle_network v s = None" "net_vehicle_id n = veh_id v" "net_id n = env_new_id e"
    and "net_id n \<notin> net_id ` set (networks s)" "net_version n = 1"
    and "networks s' = networks s @ [n]" "net_frame_contracts n = nc_frame_contracts c"
    and "set (map cn_ecu_id (nc_nodes c)) \<subseteq> ecu_id ` {u \<in> set (ecus s). ecu_vehicle_id u = veh_id v}"
proof -
  let ?d = "set (map cn_ecu_id (nc_nodes c))"
  have found: "set (map ecu_id (filter (\<lambda>u. ecu_vehicle_id u = veh_id v \<and> ecu_id u \<in> ?d) (ecus s))) = ?d"
    using assms by (auto simp: create_can_network_def Let_def split: if_splits)
  then show "?d \<subseteq> ecu_id ` {u \<in> set (ecus s). ecu_vehicle_id u = veh_id v}" by fastforce
qed (use assms in \<open>auto simp: create_can_network_def Let_def table_simps split: if_splits option.splits\<close>)

lemma create_networks_ok:
  assumes "networks_ok s" "create_can_network e v c s = Inr (n, s')"
  shows "networks_ok s'" "vehicle_network v s' = Some n" "can_grows s s'"
proof -
  note f = create_can_network_ok[OF assms(2)]
  have other: "\<forall>x\<in>set (networks s). net_vehicle_id x \<noteq> veh_id v"
    using f(1) by (simp add: vehicle_network_def select_None)
  show "networks_ok s'"
    using assms(1) f(2,4,6) other by (auto simp: networks_ok_def)
  show "vehicle_network v s' = Some n"
    using f(1,2,6) by (simp add: vehicle_network_def select_insert_miss)
  have s': "s' = add_event_audit e ''atep.can.network.created.v1'' ''can_network'' (net_id n)
      (create_evidence v n) ''can.network_created'' (create_evidence v n) (s\<lparr>networks := networks s @ [n]\<rparr>)"
    using assms(2) by (auto simp: create_can_network_def Let_def table_simps split: if_splits option.splits)
  show "can_grows s s'"
    unfolding can_grows_def s' by (auto simp: vehicle_network_def select_append)
qed

end
