(* ===== verification/CanFaults.thy ===== *)
theory CanFaults
  imports CanHandler Numerics
begin

text \<open>
  Fault injection and bus-off recovery: \<open>src/src/atep/can_network/fault_service.py\<close>. Error and
  recovery sequences occupy the bus for their number of bits; the duration in microseconds is the
  float quotient rounded up.
\<close>

definition duration_us :: "int \<Rightarrow> int \<Rightarrow> int" where
  "duration_us bits bitrate_kbps = py_ceil (py_truediv (bits * 1000) bitrate_kbps)"

lemma duration_us_ceil_div:
  assumes "0 \<le> bits" "bits \<le> 10 ^ 12" "0 < bitrate"
  shows "duration_us bits bitrate = ceil_div (bits * 1000) bitrate"
  unfolding duration_us_def using assms by (intro py_ceil_truediv) auto

definition error_state_json :: "can_node_error_state \<Rightarrow> json" where
  "error_state_json st = JObj [(''transmit_error_count'', JInt (transmit_error_count st)),
     (''receive_error_count'', JInt (receive_error_count st)), (''state'', JStr (error_mode_value (error_mode st)))]"

section \<open>Injecting a fault\<close>

definition check_target :: "can_fault_injection_command \<Rightarrow> can_frame_contract \<Rightarrow> app_error option" where
  "check_target c contract =
     (if fi_fault_type c = TRANSMISSION_ERROR
      then (if fi_target_node_id c \<noteq> fc_producer_node_id contract
            then Some (CanNetworkContract ''a transmission fault must target the declared producer'')
            else None)
      else if fi_target_node_id c \<notin> set (fc_consumer_node_ids contract)
        then Some (CanNetworkContract ''a reception fault or frame loss must target a declared consumer'')
      else None)"

text \<open>
  The counters after the fault, with the numbers of error frames and lost frames: a transmit error
  costs eight points, a receive error one, a lost frame none.
\<close>

definition fault_effect :: "can_fault_injection_command \<Rightarrow> can_node_error_state \<Rightarrow> int \<times> int \<times> int \<times> int" where
  "fault_effect c before =
     (let tec = transmit_error_count before; rec = receive_error_count before in
      case fi_fault_type c of
        TRANSMISSION_ERROR \<Rightarrow> (tec + 8 * fi_occurrences c, rec, fi_occurrences c, 0)
      | RECEPTION_ERROR \<Rightarrow> (tec, rec + fi_occurrences c, fi_occurrences c, 0)
      | FRAME_LOSS \<Rightarrow> (tec, rec, 0, fi_occurrences c))"

definition inject_result ::
  "can_fault_injection_command \<Rightarrow> can_frame_contract \<Rightarrow> int \<Rightarrow> int \<Rightarrow> int
    \<Rightarrow> can_node_error_state \<Rightarrow> can_node_error_state \<Rightarrow> dict" where
  "inject_result c contract error_frames lost_frames elapsed before after = [
     (''fault_type'', JStr (fault_type_value (fi_fault_type c))), (''contract_id'', JStr (fc_identifier contract)),
     (''occurrences'', JInt (fi_occurrences c)), (''error_frames'', JInt error_frames),
     (''lost_frames'', JInt lost_frames), (''elapsed_us'', JInt elapsed),
     (''before'', error_state_json before), (''after'', error_state_json after)]"

definition inject_evidence ::
  "vehicle \<Rightarrow> can_network \<Rightarrow> can_fault_injection_command \<Rightarrow> can_node_error_state \<Rightarrow> int \<Rightarrow> int \<Rightarrow> int \<Rightarrow> dict" where
  "inject_evidence v n c after error_frames lost_frames previous_version = [
     (''vehicle_id'', JStr (veh_identifier v)), (''network_id'', JStr (net_identifier n)),
     (''command_id'', JStr (fi_command_id c)), (''target_node_id'', JStr (fi_target_node_id c)),
     (''fault_type'', JStr (fault_type_value (fi_fault_type c))),
     (''error_state'', JStr (error_mode_value (error_mode after))), (''error_frames'', JInt error_frames),
     (''lost_frames'', JInt lost_frames), (''previous_version'', JInt previous_version),
     (''network_version'', JInt (net_version n))]"

definition inject_fault ::
  "env \<Rightarrow> vehicle \<times> can_fault_injection_command \<Rightarrow> 'a can_store_scheme
    \<Rightarrow> app_error + (can_fault_execution \<times> can_network \<times> bool) \<times> 'a can_store_scheme" where
  "inject_fault e = (\<lambda>(v, c) s.
     and_then (require_can_network v s) (\<lambda>n.
     case find_execution fx_key n (fi_command_id c) (fault_executions s) of
       Some item \<Rightarrow>
         if fx_request item \<noteq> InjectRequest c then Inl CanFaultCommandConflict
         else Inr ((item, n, True), s)
     | None \<Rightarrow>
     if fi_expected_version c \<noteq> net_version n then Inl (CanNetworkVersionConflict (net_version n))
     else and_then (contract_of n (fi_contract_id c)) (\<lambda>contract.
     case check_target c contract of Some err \<Rightarrow> Inl err | None \<Rightarrow>
     let before = node_error_state n (fi_target_node_id c);
         (tec, rec, error_frames, lost_frames) = fault_effect c before;
         (after, n1) = set_node_error_state n (fi_target_node_id c) tec rec;
         elapsed = fi_advance_time_us c + duration_us (14 * error_frames) (net_bitrate_kbps n);
         n' = n1\<lparr>net_version := net_version n + 1,
                 net_simulation_time_us := net_simulation_time_us n + elapsed\<rparr>;
         execution = \<lparr>fx_network_id = net_id n, fx_command_id = fi_command_id c, fx_operation = ''inject'',
           fx_target_node_id = fi_target_node_id c, fx_request = InjectRequest c,
           fx_result = inject_result c contract error_frames lost_frames elapsed before after,
           fx_previous_version = net_version n, fx_network_version = net_version n + 1,
           fx_requested_by_user_id = env_actor e\<rparr>
     in and_then (of_option (IntegrityError ''uq_can_fault_command'')
                    (insert_row fx_key execution (fault_executions s))) (\<lambda>rows.
        Inr ((execution, n', False),
          commit_network e ''atep.can.fault.injected.v1'' ''can.fault_injected''
            (inject_evidence v n' c after error_frames lost_frames (net_version n)) n'
            (s\<lparr>fault_executions := rows\<rparr>))))))"

section \<open>Recovering a node\<close>

definition recover_result ::
  "can_bus_recovery_command \<Rightarrow> int \<Rightarrow> can_node_error_state \<Rightarrow> can_node_error_state \<Rightarrow> dict" where
  "recover_result c elapsed before after = [
     (''recessive_sequences'', JInt (br_recessive_sequences c)), (''elapsed_us'', JInt elapsed),
     (''before'', error_state_json before), (''after'', error_state_json after)]"

definition recover_evidence :: "vehicle \<Rightarrow> can_network \<Rightarrow> can_bus_recovery_command \<Rightarrow> int \<Rightarrow> int \<Rightarrow> dict" where
  "recover_evidence v n c elapsed previous_version = [
     (''vehicle_id'', JStr (veh_identifier v)), (''network_id'', JStr (net_identifier n)),
     (''command_id'', JStr (br_command_id c)), (''target_node_id'', JStr (br_target_node_id c)),
     (''recessive_sequences'', JInt (br_recessive_sequences c)), (''elapsed_us'', JInt elapsed),
     (''previous_version'', JInt previous_version), (''network_version'', JInt (net_version n))]"

definition recover_node ::
  "env \<Rightarrow> vehicle \<times> can_bus_recovery_command \<Rightarrow> 'a can_store_scheme
    \<Rightarrow> app_error + (can_fault_execution \<times> can_network \<times> bool) \<times> 'a can_store_scheme" where
  "recover_node e = (\<lambda>(v, c) s.
     and_then (require_can_network v s) (\<lambda>n.
     case find_execution fx_key n (br_command_id c) (fault_executions s) of
       Some item \<Rightarrow>
         if fx_request item \<noteq> RecoverRequest c then Inl CanFaultCommandConflict
         else Inr ((item, n, True), s)
     | None \<Rightarrow>
     if br_expected_version c \<noteq> net_version n then Inl (CanNetworkVersionConflict (net_version n))
     else let before = node_error_state n (br_target_node_id c) in
     if error_mode before \<noteq> BUS_OFF then Inl (CanFaultState ''only a bus-off node can be recovered'')
     else let (after, n1) = set_node_error_state n (br_target_node_id c) 0 0;
         elapsed = duration_us (br_recessive_sequences c * 11) (net_bitrate_kbps n);
         n' = n1\<lparr>net_version := net_version n + 1,
                 net_simulation_time_us := net_simulation_time_us n + elapsed\<rparr>;
         execution = \<lparr>fx_network_id = net_id n, fx_command_id = br_command_id c, fx_operation = ''recover'',
           fx_target_node_id = br_target_node_id c, fx_request = RecoverRequest c,
           fx_result = recover_result c elapsed before after,
           fx_previous_version = net_version n, fx_network_version = net_version n + 1,
           fx_requested_by_user_id = env_actor e\<rparr>
     in and_then (of_option (IntegrityError ''uq_can_fault_command'')
                    (insert_row fx_key execution (fault_executions s))) (\<lambda>rows.
        Inr ((execution, n', False),
          commit_network e ''atep.can.bus.recovered.v1'' ''can.bus_recovered''
            (recover_evidence v n' c elapsed (net_version n)) n' (s\<lparr>fault_executions := rows\<rparr>)))))"

text \<open>\<open>list_fault_executions\<close> and \<open>require_fault_execution\<close>; later rows are newer.\<close>

definition list_fault_executions ::
  "can_network \<Rightarrow> nat \<Rightarrow> nat \<Rightarrow> 'a can_store_scheme \<Rightarrow> can_fault_execution list \<times> int" where
  "list_fault_executions n limit offset s =
     (let rows = filter (\<lambda>r. fx_network_id r = net_id n) (fault_executions s)
      in (page limit offset (rev rows), int (length rows)))"

definition require_fault_execution ::
  "can_network \<Rightarrow> string \<Rightarrow> 'a can_store_scheme \<Rightarrow> app_error + can_fault_execution" where
  "require_fault_execution n i s =
     of_option (ResourceNotFound ''can_fault_execution'') (find_execution fx_key n i (fault_executions s))"

section \<open>The command contract\<close>

text \<open>The network after a successful first use, and the counters it leaves.\<close>

definition injected_counts :: "can_network \<Rightarrow> can_fault_injection_command \<Rightarrow> int \<times> int" where
  "injected_counts n c = (let (tec, rec, _) = fault_effect c (node_error_state n (fi_target_node_id c)) in (tec, rec))"

lemma inject_first:
  assumes "vehicle_network v s = Some n" "find_execution fx_key n (fi_command_id c) (fault_executions s) = None"
    and "inject_fault e (v, c) s = Inr ((r, n', d), s')"
  shows "\<not> d" "fx_request r = InjectRequest c" "fx_key r = (net_id n, fi_command_id c)"
    and "fi_expected_version c = net_version n" "net_version n' = net_version n + 1"
    and "net_id n' = net_id n" "net_vehicle_id n' = net_vehicle_id n" "net_next_sequence n' = net_next_sequence n"
    and "net_error_states n' = net_error_states (snd (set_node_error_state n (fi_target_node_id c)
           (fst (injected_counts n c)) (snd (injected_counts n c))))"
    and "net_simulation_time_us n' = net_simulation_time_us n + (fi_advance_time_us c
           + duration_us (14 * (if fi_fault_type c = FRAME_LOSS then 0 else fi_occurrences c)) (net_bitrate_kbps n))"
    and "\<exists>p. s' = commit_network e ''atep.can.fault.injected.v1'' ''can.fault_injected'' p n'
           (s\<lparr>fault_executions := fault_executions s @ [r]\<rparr>)"
  using assms
  by (auto simp: inject_fault_def require_can_network_def Let_def ok_simps table_simps fx_key_def
      fault_effect_def injected_counts_def split_def split: if_splits option.splits CanFaultType.splits)

lemma recover_first:
  assumes "vehicle_network v s = Some n" "find_execution fx_key n (br_command_id c) (fault_executions s) = None"
    and "recover_node e (v, c) s = Inr ((r, n', d), s')"
  shows "\<not> d" "fx_request r = RecoverRequest c" "fx_key r = (net_id n, br_command_id c)"
    and "br_expected_version c = net_version n" "net_version n' = net_version n + 1"
    and "net_id n' = net_id n" "net_vehicle_id n' = net_vehicle_id n" "net_next_sequence n' = net_next_sequence n"
    and "is_bus_off n (br_target_node_id c)"
    and "net_error_states n' = net_error_states (snd (set_node_error_state n (br_target_node_id c) 0 0))"
    and "net_simulation_time_us n' = net_simulation_time_us n
           + duration_us (br_recessive_sequences c * 11) (net_bitrate_kbps n)"
    and "\<exists>p. s' = commit_network e ''atep.can.bus.recovered.v1'' ''can.bus_recovered'' p n'
           (s\<lparr>fault_executions := fault_executions s @ [r]\<rparr>)"
  using assms
  by (auto simp: recover_node_def require_can_network_def Let_def ok_simps table_simps fx_key_def
      is_bus_off_def split_def split: if_splits)

text \<open>What neither of them touches.\<close>

lemma inject_unchanged:
  assumes "vehicle_network v s = Some n" "find_execution fx_key n (fi_command_id c) (fault_executions s) = None"
    and "inject_fault e (v, c) s = Inr ((r, n', d), s')"
  shows "net_nodes n' = net_nodes n" "net_frame_contracts n' = net_frame_contracts n"
    "net_lin_channels n' = net_lin_channels n" "net_ethernet_segments n' = net_ethernet_segments n"
    "net_gateway_routes n' = net_gateway_routes n" "net_bitrate_kbps n' = net_bitrate_kbps n"
    "net_data_bitrate_kbps n' = net_data_bitrate_kbps n" "net_can_fd_enabled n' = net_can_fd_enabled n"
  using assms
  by (auto simp: inject_fault_def require_can_network_def Let_def ok_simps set_node_error_state_def split_def
      split: if_splits option.splits)

lemma recover_unchanged:
  assumes "vehicle_network v s = Some n" "find_execution fx_key n (br_command_id c) (fault_executions s) = None"
    and "recover_node e (v, c) s = Inr ((r, n', d), s')"
  shows "net_nodes n' = net_nodes n" "net_frame_contracts n' = net_frame_contracts n"
    "net_lin_channels n' = net_lin_channels n" "net_ethernet_segments n' = net_ethernet_segments n"
    "net_gateway_routes n' = net_gateway_routes n" "net_bitrate_kbps n' = net_bitrate_kbps n"
    "net_data_bitrate_kbps n' = net_data_bitrate_kbps n" "net_can_fd_enabled n' = net_can_fd_enabled n"
  using assms
  by (auto simp: recover_node_def require_can_network_def Let_def ok_simps set_node_error_state_def split_def
      split: if_splits)

lemma inject_committed:
  assumes "vehicle_network v s = Some n" "find_execution fx_key n (fi_command_id c) (fault_executions s) = None"
    and "inject_fault e (v, c) s = Inr ((r, n', d), s')"
  shows "committed 1 fx_key fault_executions v (fi_command_id c) n s r n' s'"
  using inject_first(3,5-7,11)[OF assms] assms(1,2)
  by (auto simp: committed_def intro!: exI appended_tables)

lemma recover_committed:
  assumes "vehicle_network v s = Some n" "find_execution fx_key n (br_command_id c) (fault_executions s) = None"
    and "recover_node e (v, c) s = Inr ((r, n', d), s')"
  shows "committed 1 fx_key fault_executions v (br_command_id c) n s r n' s'"
  using recover_first(3,5-7,12)[OF assms] assms(1,2)
  by (auto simp: committed_def intro!: exI appended_tables)

interpretation injections: can_versioned_handler inject_fault fx_key fault_executions fi_command_id
  "\<lambda>c r. fx_request r = InjectRequest c" CanFaultCommandConflict fi_expected_version
proof (unfold_locales, goal_cases)
  case (2 s s')
  then show ?case by (rule can_grows_tables)
next
  case (4 v s n c e r n' d s')
  then show ?case using inject_first(1,2)[OF 4] inject_committed[OF 4] by simp
qed (auto simp: inject_fault_def require_can_network_def)

interpretation recoveries: can_versioned_handler recover_node fx_key fault_executions br_command_id
  "\<lambda>c r. fx_request r = RecoverRequest c" CanFaultCommandConflict br_expected_version
proof (unfold_locales, goal_cases)
  case (2 s s')
  then show ?case by (rule can_grows_tables)
next
  case (4 v s n c e r n' d s')
  then show ?case using recover_first(1,2)[OF 4] recover_committed[OF 4] by simp
qed (auto simp: recover_node_def require_can_network_def)

end
