(* ===== verification/CanArbitration.thy ===== *)
theory CanArbitration
  imports CanCore CanFaults "HOL-Library.List_Lexorder" "HOL-Library.Product_Lexorder"
begin

text \<open>
  Frame timing and deterministic arbitration: \<open>src/src/atep/can_network/arbitration_service.py\<close>.
  The loop keeps its accumulators (\<open>clock\<close>, \<open>occupied_us\<close>, \<open>frames\<close>); it ends because every
  round removes the winner from the pending contenders. Strings are compared by code points, and
  the priority is the tuple of the code.
\<close>

section \<open>Frame timing\<close>

record timing_breakdown =
  tm_bit_count :: int
  tm_nominal_bit_count :: int
  tm_data_bit_count :: int
  tm_nominal_phase_duration_us :: int
  tm_data_phase_duration_us :: int

definition timing_duration_us :: "timing_breakdown \<Rightarrow> int" where
  "timing_duration_us t = tm_nominal_phase_duration_us t + tm_data_phase_duration_us t"

definition frame_timing :: "can_frame_contract \<Rightarrow> can_network \<Rightarrow> timing_breakdown" where
  "frame_timing c n =
     (if fc_protocol c = CLASSIC then
        let bit_count = (if fc_frame_format c = STANDARD then 47 else 67) + 8 * fc_dlc c in
        \<lparr>tm_bit_count = bit_count, tm_nominal_bit_count = bit_count, tm_data_bit_count = 0,
         tm_nominal_phase_duration_us = duration_us bit_count (net_bitrate_kbps n),
         tm_data_phase_duration_us = 0\<rparr>
      else
        let nominal_bit_count = (if fc_frame_format c = STANDARD then 32 else 52);
            crc_bits = (if fc_dlc c \<le> 16 then 17 else 21);
            data_bit_count = 8 * fc_dlc c + crc_bits;
            data_bitrate = (case net_data_bitrate_kbps n of
                              Some b \<Rightarrow> if fc_bitrate_switch c then b else net_bitrate_kbps n
                            | None \<Rightarrow> net_bitrate_kbps n) in
        \<lparr>tm_bit_count = nominal_bit_count + data_bit_count, tm_nominal_bit_count = nominal_bit_count,
         tm_data_bit_count = data_bit_count,
         tm_nominal_phase_duration_us = duration_us nominal_bit_count (net_bitrate_kbps n),
         tm_data_phase_duration_us = duration_us data_bit_count data_bitrate\<rparr>)"

section \<open>Contenders\<close>

record resolved_contender =
  rc_contract :: can_frame_contract
  rc_producer_node_id :: uuid
  rc_payload_bytes :: "int list"
  rc_ready_at_us :: int

definition resolve_contender :: "can_network \<Rightarrow> can_arbitration_contender \<Rightarrow> app_error + resolved_contender" where
  "resolve_contender n k =
     and_then (contract_of n (ct_contract_id k)) (\<lambda>contract.
     if ct_producer_node_id k \<noteq> fc_producer_node_id contract
       then Inl (CanNetworkContract ''only the declared producer may contend for a frame'')
     else if is_bus_off n (ct_producer_node_id k) then Inl CanNodeBusOff
     else if int (length (ct_payload k)) \<noteq> fc_dlc contract
       then Inl (CanNetworkContract ''payload length must equal the frame contract DLC'')
     else Inr \<lparr>rc_contract = contract, rc_producer_node_id = ct_producer_node_id k,
               rc_payload_bytes = ct_payload k,
               rc_ready_at_us = net_simulation_time_us n + ct_ready_offset_us k\<rparr>)"

definition resolve_contenders :: "can_network \<Rightarrow> can_arbitration_command \<Rightarrow> app_error + resolved_contender list" where
  "resolve_contenders n c = map_ok (resolve_contender n) (ac_contenders c)"

section \<open>The arbitration loop\<close>

text \<open>The sort key \<open>(frame_id, is extended, identifier)\<close>; \<open>False\<close> sorts before \<open>True\<close>.\<close>

definition contract_priority :: "can_frame_contract \<Rightarrow> int \<times> bool \<times> string" where
  "contract_priority c = (fc_frame_id c, fc_frame_format c = EXTENDED, fc_identifier c)"

definition priority :: "resolved_contender \<Rightarrow> int \<times> bool \<times> string" where
  "priority w = contract_priority (rc_contract w)"

definition ready_items :: "resolved_contender list \<Rightarrow> int \<Rightarrow> resolved_contender list" where
  "ready_items pending clock = filter (\<lambda>w. rc_ready_at_us w \<le> clock) pending"

text \<open>The clock at which the next frame starts: now, or when the first contender becomes ready.\<close>

definition start_clock :: "resolved_contender list \<Rightarrow> int \<Rightarrow> int" where
  "start_clock pending clock =
     (if ready_items pending clock = [] then Min (rc_ready_at_us ` set pending) else clock)"

definition winner :: "resolved_contender list \<Rightarrow> int \<Rightarrow> resolved_contender" where
  "winner pending clock =
     (let ready = ready_items pending (start_clock pending clock) in min_key priority (hd ready) (tl ready))"

definition arbitrated_frame :: "can_network \<Rightarrow> resolved_contender \<Rightarrow> int \<Rightarrow> int \<Rightarrow> can_arbitrated_frame" where
  "arbitrated_frame n w clock count =
     (let contract = rc_contract w; t = frame_timing contract n; completed = clock + timing_duration_us t in
      \<lparr>af_rank = count + 1, af_sequence = net_next_sequence n + count,
       af_contract_id = fc_identifier contract, af_frame_id = fc_frame_id contract,
       af_frame_format = fc_frame_format contract, af_protocol = fc_protocol contract,
       af_bitrate_switch = fc_bitrate_switch contract, af_producer_node_id = rc_producer_node_id w,
       af_dlc = fc_dlc contract, af_bit_count = tm_bit_count t,
       af_nominal_bit_count = tm_nominal_bit_count t, af_data_bit_count = tm_data_bit_count t,
       af_nominal_phase_duration_us = tm_nominal_phase_duration_us t,
       af_data_phase_duration_us = tm_data_phase_duration_us t,
       af_ready_at_us = rc_ready_at_us w, af_started_at_us = clock, af_completed_at_us = completed,
       af_duration_us = timing_duration_us t,
       af_deliveries = map (\<lambda>consumer. \<lparr>de_consumer_node_id = consumer, de_received_at_us = completed,
           de_latency_us = completed - rc_ready_at_us w\<rparr>) (fc_consumer_node_ids contract)\<rparr>)"

lemma start_clock_ready:
  assumes "pending \<noteq> []" shows "ready_items pending (start_clock pending clock) \<noteq> []"
proof (cases "ready_items pending clock = []")
  case True
  have "Min (rc_ready_at_us ` set pending) \<in> rc_ready_at_us ` set pending"
    using assms by (intro Min_in) auto
  then obtain w where "w \<in> set pending" "rc_ready_at_us w = Min (rc_ready_at_us ` set pending)" by auto
  then show ?thesis using True by (force simp: ready_items_def start_clock_def filter_empty_conv)
qed (simp add: start_clock_def)

lemma winner_in_ready:
  assumes "pending \<noteq> []" shows "winner pending clock \<in> set (ready_items pending (start_clock pending clock))"
proof -
  obtain x xs where r: "ready_items pending (start_clock pending clock) = x # xs"
    using start_clock_ready[OF assms, of clock] by (cases "ready_items pending (start_clock pending clock)") auto
  then show ?thesis using min_key_in[of priority x xs] by (simp add: winner_def)
qed

lemma winner_in: "pending \<noteq> [] \<Longrightarrow> winner pending clock \<in> set pending"
  using winner_in_ready by (fastforce simp: ready_items_def)

lemma winner_ready: "pending \<noteq> [] \<Longrightarrow> rc_ready_at_us (winner pending clock) \<le> start_clock pending clock"
  using winner_in_ready by (fastforce simp: ready_items_def)

lemma winner_least:
  assumes "w \<in> set pending" "rc_ready_at_us w \<le> start_clock pending clock"
  shows "priority (winner pending clock) \<le> priority w"
proof -
  have w: "w \<in> set (ready_items pending (start_clock pending clock))"
    using assms by (simp add: ready_items_def)
  then obtain x xs where r: "ready_items pending (start_clock pending clock) = x # xs"
    by (cases "ready_items pending (start_clock pending clock)") auto
  then show ?thesis using min_key_le[of w x xs priority] w by (simp add: winner_def)
qed

lemma clock_le_start: "pending \<noteq> [] \<Longrightarrow> clock \<le> start_clock pending clock"
  by (auto simp: start_clock_def ready_items_def filter_empty_conv not_le less_imp_le)

function arbitrate_loop ::
  "can_network \<Rightarrow> resolved_contender list \<Rightarrow> int \<Rightarrow> int \<Rightarrow> can_arbitrated_frame list
    \<Rightarrow> can_arbitrated_frame list \<times> int \<times> int" where
  "arbitrate_loop n pending clock occupied frames =
     (if pending = [] then (frames, clock, occupied)
      else let start = start_clock pending clock; w = winner pending clock;
               frame = arbitrated_frame n w start (int (length frames))
           in arbitrate_loop n (remove1 w pending) (af_completed_at_us frame)
                (occupied + af_duration_us frame) (frames @ [frame]))"
  by pat_completeness auto
termination
  by (relation "measure (\<lambda>(n, pending, clock, occupied, frames). length pending)")
     (auto simp: length_remove1 winner_in)

declare arbitrate_loop.simps [simp del]

definition utilization_percent :: "int \<Rightarrow> int \<Rightarrow> rat" where
  "utilization_percent occupied window = py_round (fl (py_truediv occupied window * 100)) 4"

definition arbitrate ::
  "can_network \<Rightarrow> resolved_contender list \<Rightarrow> can_arbitrated_frame list \<times> can_bus_utilization" where
  "arbitrate n contenders =
     (let (frames, clock, occupied) = arbitrate_loop n contenders (net_simulation_time_us n) 0 [];
          window = clock - net_simulation_time_us n
      in (frames,
          \<lparr>ut_window_start_us = net_simulation_time_us n, ut_window_end_us = clock,
           ut_window_duration_us = window, ut_occupied_us = occupied, ut_idle_us = window - occupied,
           ut_utilization_percent = utilization_percent occupied window,
           ut_maximum_latency_us = Max (set (map (\<lambda>f. af_completed_at_us f - af_ready_at_us f) frames))\<rparr>))"

end
