(* ===== verification/CanSchedule.thy ===== *)
theory CanSchedule
  imports CanArbitration "HOL-Library.Multiset"
begin

text \<open>
  The abstract bus: what non-destructive bitwise arbitration promises, independent of the order in
  which the contenders are listed. \<open>bus_schedule\<close> lets any pending contender go next that is ready
  and beats every other ready one, at the earliest time somebody is ready. The loop of the code
  refines it, and everything a client may rely on is derived from it by rule induction.
\<close>

inductive bus_schedule ::
  "can_network \<Rightarrow> resolved_contender multiset \<Rightarrow> int \<Rightarrow> int \<Rightarrow> resolved_contender list
    \<Rightarrow> can_arbitrated_frame list \<Rightarrow> int \<Rightarrow> bool" for n where
  Idle: "bus_schedule n {#} clock k [] [] clock"
| Transmit: "\<lbrakk>w \<in># pending; rc_ready_at_us w \<le> start; clock \<le> start;
     start = clock \<or> (\<forall>x\<in>#pending. start \<le> rc_ready_at_us x);
     \<forall>x\<in>#pending. rc_ready_at_us x \<le> start \<longrightarrow> priority w \<le> priority x;
     f = arbitrated_frame n w start k;
     bus_schedule n (pending - {#w#}) (af_completed_at_us f) (k + 1) ws fs finish\<rbrakk>
   \<Longrightarrow> bus_schedule n pending clock k (w # ws) (f # fs) finish"

inductive_cases bus_schedule_Nil: "bus_schedule n pending clock k ws [] finish"
inductive_cases bus_schedule_Cons: "bus_schedule n pending clock k (w # ws) fs finish"
inductive_cases bus_schedule_empty: "bus_schedule n {#} clock k ws fs finish"

lemma start_clock_earliest:
  "start_clock pending clock = clock \<or> (\<forall>x\<in>set pending. start_clock pending clock \<le> rc_ready_at_us x)"
  by (auto simp: start_clock_def)

text \<open>The loop appends a schedule of its pending contenders and adds up their durations.\<close>

lemma arbitrate_loop_refines:
  assumes "arbitrate_loop n pending clock occupied frames = (frames', finish, occupied')"
  shows "\<exists>ws new. bus_schedule n (mset pending) clock (int (length frames)) ws new finish
    \<and> frames' = frames @ new \<and> occupied' = occupied + sum_list (map af_duration_us new)"
  using assms
proof (induction n pending clock occupied frames rule: arbitrate_loop.induct)
  case (1 n pending clock occupied frames)
  show ?case
  proof (cases "pending = []")
    case True
    then show ?thesis using 1(2) by (auto simp: arbitrate_loop.simps intro: Idle)
  next
    case False
    let ?start = "start_clock pending clock" and ?w = "winner pending clock"
    let ?f = "arbitrated_frame n ?w ?start (int (length frames))"
    have run: "arbitrate_loop n (remove1 ?w pending) (af_completed_at_us ?f)
        (occupied + af_duration_us ?f) (frames @ [?f]) = (frames', finish, occupied')"
      using 1(2) False by (subst (asm) arbitrate_loop.simps) (simp add: Let_def)
    obtain ws new where rest:
      "bus_schedule n (mset (remove1 ?w pending)) (af_completed_at_us ?f) (int (length frames) + 1) ws new finish"
      "frames' = frames @ ?f # new" "occupied' = occupied + af_duration_us ?f + sum_list (map af_duration_us new)"
      using 1(1)[OF False refl refl refl run] by (auto simp: add.commute)
    have "bus_schedule n (mset pending) clock (int (length frames)) (?w # ws) (?f # new) finish"
    proof (rule Transmit[where start = ?start])
      show "?start = clock \<or> (\<forall>x\<in>#mset pending. ?start \<le> rc_ready_at_us x)"
        using start_clock_earliest[of pending clock] by simp
    qed (use rest(1) False in \<open>simp_all add: winner_in winner_ready winner_least clock_le_start\<close>)
    then show ?thesis using rest(2,3) by fastforce
  qed
qed

section \<open>Consequences\<close>

lemma schedule_contenders: "bus_schedule n pending clock k ws fs finish \<Longrightarrow> mset ws = pending"
  by (induction rule: bus_schedule.induct) auto

text \<open>Frame \<open>i\<close> is the frame of the \<open>i\<close>-th contender on the bus, with consecutive numbers.\<close>

definition frame_from :: "can_network \<Rightarrow> resolved_contender \<Rightarrow> can_arbitrated_frame \<Rightarrow> bool" where
  "frame_from n w f \<longleftrightarrow> (\<exists>start k. f = arbitrated_frame n w start k) \<and> rc_ready_at_us w \<le> af_started_at_us f"

lemma schedule_frames: "bus_schedule n pending clock k ws fs finish \<Longrightarrow> list_all2 (frame_from n) ws fs"
  by (induction rule: bus_schedule.induct) (auto simp: frame_from_def arbitrated_frame_def Let_def)

lemma schedule_numbers:
  "bus_schedule n pending clock k ws fs finish \<Longrightarrow>
     map af_rank fs = map (\<lambda>i. k + 1 + int i) [0..<length fs]
     \<and> map af_sequence fs = map (\<lambda>i. net_next_sequence n + k + int i) [0..<length fs]"
proof (induction rule: bus_schedule.induct)
  case (Transmit w pending start clock f k ws fs finish)
  have "map g [0..<Suc m] = g 0 # map (\<lambda>i. g (Suc i)) [0..<m]" for g :: "nat \<Rightarrow> int" and m
    by (simp only: upt_conv_Cons zero_less_Suc list.map map_Suc_upt [symmetric] map_map comp_def)
  then show ?case
    using Transmit by (simp add: arbitrated_frame_def Let_def algebra_simps del: upt_Suc)
qed simp

definition frame_priority :: "can_arbitrated_frame \<Rightarrow> int \<times> bool \<times> string" where
  "frame_priority f = (af_frame_id f, af_frame_format f = EXTENDED, af_contract_id f)"

lemma frame_from_facts:
  assumes "frame_from n w f"
  shows "frame_priority f = priority w" "af_ready_at_us f = rc_ready_at_us w"
    "af_contract_id f = fc_identifier (rc_contract w)" "af_completed_at_us f = af_started_at_us f + af_duration_us f"
    "af_ready_at_us f \<le> af_started_at_us f" "af_duration_us f = timing_duration_us (frame_timing (rc_contract w) n)"
    "af_producer_node_id f = rc_producer_node_id w"
  using assms by (auto simp: frame_from_def arbitrated_frame_def frame_priority_def priority_def
      contract_priority_def Let_def)

lemma schedule_frame_of:
  assumes "bus_schedule n pending clock k ws fs finish" "f \<in> set fs"
  obtains w where "w \<in># pending" "frame_from n w f"
proof -
  obtain i where i: "i < length fs" "f = fs ! i" using assms(2) by (auto simp: in_set_conv_nth)
  have all: "list_all2 (frame_from n) ws fs" using schedule_frames[OF assms(1)] .
  then have "ws ! i \<in> set ws" "frame_from n (ws ! i) f"
    using i by (auto simp: list_all2_conv_all_nth)
  then show thesis using that schedule_contenders[OF assms(1)] by auto
qed

text \<open>Durations are positive when the bit rates are; then time only moves forward.\<close>

lemma schedule_clock:
  assumes "bus_schedule n pending clock k ws fs finish"
    and "\<And>w. w \<in># pending \<Longrightarrow> 0 \<le> timing_duration_us (frame_timing (rc_contract w) n)"
  shows "\<forall>f\<in>set fs. clock \<le> af_started_at_us f \<and> af_completed_at_us f \<le> finish"
    and "clock + sum_list (map af_duration_us fs) \<le> finish"
  using assms
proof (induction rule: bus_schedule.induct)
  case (Transmit w pending start clock f k ws fs finish)
  case 1
  have "start + timing_duration_us (frame_timing (rc_contract w) n) = af_completed_at_us f"
    and st: "af_started_at_us f = start"
    using Transmit(6) by (simp_all add: arbitrated_frame_def Let_def)
  then have c: "clock \<le> af_completed_at_us f" using Transmit(1,3) 1 by fastforce
  have dur: "0 \<le> timing_duration_us (frame_timing (rc_contract x) n)" if "x \<in># pending - {#w#}" for x
    using 1 that by (meson in_diffD)
  have "af_completed_at_us f \<le> finish"
    using Transmit(8,9) dur sum_list_nonneg[of "map af_duration_us fs"] Transmit(7)
    by (smt (verit) in_set_conv_nth length_map nth_map schedule_frame_of frame_from_facts(6) nth_mem)
  then show ?case using Transmit(8) dur c st Transmit(3) by fastforce
next
  case (Transmit w pending start clock f k ws fs finish)
  case 2
  have "af_completed_at_us f = start + af_duration_us f"
    using Transmit(6) by (simp add: arbitrated_frame_def Let_def)
  moreover have dur: "0 \<le> timing_duration_us (frame_timing (rc_contract x) n)" if "x \<in># pending - {#w#}" for x
    using 2 that by (meson in_diffD)
  ultimately show ?case using Transmit(9) Transmit(3) by fastforce
qed auto

text \<open>
  The bus carries one frame at a time, a frame that was ready never loses against a lower priority,
  and the bus only idles while nobody who still has to send is ready.
\<close>

definition no_overlap :: "can_arbitrated_frame list \<Rightarrow> bool" where
  "no_overlap = sorted_wrt (\<lambda>f g. af_completed_at_us f \<le> af_started_at_us g)"

definition no_inversion :: "can_arbitrated_frame list \<Rightarrow> bool" where
  "no_inversion = sorted_wrt (\<lambda>f g. af_ready_at_us g \<le> af_started_at_us f \<longrightarrow> frame_priority f \<le> frame_priority g)"

fun work_conserving :: "int \<Rightarrow> can_arbitrated_frame list \<Rightarrow> bool" where
  "work_conserving clock [] = True"
| "work_conserving clock (f # fs) =
     ((af_started_at_us f = clock \<or> (\<forall>g\<in>set (f # fs). af_started_at_us f \<le> af_ready_at_us g))
      \<and> work_conserving (af_completed_at_us f) fs)"

lemma schedule_no_overlap:
  assumes "bus_schedule n pending clock k ws fs finish"
    and "\<And>w. w \<in># pending \<Longrightarrow> 0 \<le> timing_duration_us (frame_timing (rc_contract w) n)"
  shows "no_overlap fs"
  using assms
proof (induction rule: bus_schedule.induct)
  case (Transmit w pending start clock f k ws fs finish)
  have dur: "0 \<le> timing_duration_us (frame_timing (rc_contract x) n)" if "x \<in># pending - {#w#}" for x
    using Transmit(9) that by (meson in_diffD)
  show ?case
    using schedule_clock(1)[OF Transmit(7) dur] Transmit(8)[OF dur] by (simp add: no_overlap_def)
qed (simp add: no_overlap_def)

lemma schedule_no_inversion:
  "bus_schedule n pending clock k ws fs finish \<Longrightarrow> no_inversion fs"
proof (induction rule: bus_schedule.induct)
  case (Transmit w pending start clock f k ws fs finish)
  have f: "frame_priority f = priority w" "af_started_at_us f = start"
    using Transmit(6) by (simp_all add: arbitrated_frame_def frame_priority_def priority_def
        contract_priority_def Let_def)
  have "frame_priority f \<le> frame_priority g" if g: "g \<in> set fs" "af_ready_at_us g \<le> start" for g
  proof -
    obtain x where "x \<in># pending - {#w#}" "frame_from n x g"
      by (rule schedule_frame_of[OF Transmit(7) g(1)])
    then show ?thesis
      using Transmit(5) g(2) f(1) frame_from_facts(1,2)[of n x g] by (metis in_diffD)
  qed
  then show ?case using Transmit(8) f(2) by (simp add: no_inversion_def)
qed (simp add: no_inversion_def)

lemma schedule_work_conserving:
  "bus_schedule n pending clock k ws fs finish \<Longrightarrow> work_conserving clock fs"
proof (induction rule: bus_schedule.induct)
  case (Transmit w pending start clock f k ws fs finish)
  have f: "af_started_at_us f = start" "af_ready_at_us f = rc_ready_at_us w"
    using Transmit(6) by (simp_all add: arbitrated_frame_def Let_def)
  have "start \<le> af_ready_at_us g" if g: "g \<in> set fs" "start \<noteq> clock" for g
  proof -
    obtain x where "x \<in># pending - {#w#}" "frame_from n x g"
      by (rule schedule_frame_of[OF Transmit(7) g(1)])
    then show ?thesis
      using Transmit(4) g(2) frame_from_facts(2)[of n x g] by (metis in_diffD)
  qed
  then show ?case using Transmit(1,4,8) f by auto
qed simp

text \<open>
  Contenders with distinct contracts have distinct priorities, so the schedule is determined by the
  set of contenders: the order of the list a client sends is irrelevant.
\<close>

lemma priority_inject:
  "inj_on (\<lambda>w. fc_identifier (rc_contract w)) A \<Longrightarrow> inj_on priority A"
  by (auto simp: inj_on_def priority_def contract_priority_def)

lemma schedule_deterministic:
  assumes "bus_schedule n pending clock k ws fs finish" "bus_schedule n pending clock k ws' fs' finish'"
    and "inj_on priority (set_mset pending)"
  shows "ws' = ws \<and> fs' = fs \<and> finish' = finish"
  using assms
proof (induction arbitrary: ws' fs' finish' rule: bus_schedule.induct)
  case (Idle clock k)
  then show ?case by (auto elim: bus_schedule_empty)
next
  case (Transmit w pending start clock f k ws fs finish)
  have ne: "ws' \<noteq> []" using schedule_contenders[OF Transmit(9)] Transmit(1) by auto
  then obtain w' vs where ws': "ws' = w' # vs" by (cases ws') auto
  from Transmit(9) obtain start' gs where other:
    "w' \<in># pending" "rc_ready_at_us w' \<le> start'" "clock \<le> start'"
    "start' = clock \<or> (\<forall>x\<in>#pending. start' \<le> rc_ready_at_us x)"
    "\<forall>x\<in>#pending. rc_ready_at_us x \<le> start' \<longrightarrow> priority w' \<le> priority x"
    "fs' = arbitrated_frame n w' start' k # gs"
    "bus_schedule n (pending - {#w'#}) (af_completed_at_us (arbitrated_frame n w' start' k)) (k + 1) vs gs finish'"
    unfolding ws' by (rule bus_schedule_Cons) blast
  have start: "start' = start"
    using other(1-4) Transmit(1-4) by (metis dual_order.antisym order_trans)
  have "priority w = priority w'"
    using other(1,2,5) Transmit(1,2,5) start by (meson order_antisym)
  then have w: "w' = w" using Transmit(10) other(1) Transmit(1) by (auto simp: inj_on_def)
  have inj: "inj_on priority (set_mset (pending - {#w#}))"
    using Transmit(10) by (meson in_diffD inj_on_subset subsetI)
  show ?case
    using Transmit(8)[OF _ inj] other(6,7) ws' w start Transmit(6) by auto
qed

section \<open>The result of an arbitration\<close>

lemma arbitrate_schedule:
  assumes "arbitrate n contenders = (frames, u)"
  shows "\<exists>ws. bus_schedule n (mset contenders) (net_simulation_time_us n) 0 ws frames (ut_window_end_us u)"
    and "ut_occupied_us u = sum_list (map af_duration_us frames)"
    and "ut_window_start_us u = net_simulation_time_us n"
    and "ut_window_duration_us u = ut_window_end_us u - ut_window_start_us u"
    and "ut_idle_us u = ut_window_duration_us u - ut_occupied_us u"
    and "ut_utilization_percent u = utilization_percent (ut_occupied_us u) (ut_window_duration_us u)"
    and "ut_maximum_latency_us u = Max (set (map (\<lambda>f. af_completed_at_us f - af_ready_at_us f) frames))"
proof -
  obtain fs clock occ where loop: "arbitrate_loop n contenders (net_simulation_time_us n) 0 [] = (fs, clock, occ)"
    by (metis prod_cases3)
  have u: "frames = fs" "ut_window_end_us u = clock" "ut_occupied_us u = occ"
    "ut_window_start_us u = net_simulation_time_us n" "ut_window_duration_us u = clock - net_simulation_time_us n"
    "ut_idle_us u = clock - net_simulation_time_us n - occ"
    "ut_utilization_percent u = utilization_percent occ (clock - net_simulation_time_us n)"
    "ut_maximum_latency_us u = Max (set (map (\<lambda>f. af_completed_at_us f - af_ready_at_us f) frames))"
    using assms loop by (auto simp: arbitrate_def Let_def)
  show "\<exists>ws. bus_schedule n (mset contenders) (net_simulation_time_us n) 0 ws frames (ut_window_end_us u)"
    "ut_occupied_us u = sum_list (map af_duration_us frames)"
    using arbitrate_loop_refines[OF loop] u by auto
qed (use assms in \<open>auto simp: arbitrate_def Let_def split: prod.splits\<close>)

text \<open>Occupied and idle time fill the window, and the bus is never more than fully used.\<close>

lemma utilization_percent_bounds:
  assumes "0 \<le> occupied" "occupied \<le> window"
  shows "0 \<le> utilization_percent occupied window" "utilization_percent occupied window \<le> 100"
proof -
  have q: "0 \<le> (of_int occupied / of_int window :: rat)" "of_int occupied / of_int window \<le> (of_int 1 :: rat)"
    using assms by (auto simp: divide_le_eq_1)
  have t: "0 \<le> py_truediv occupied window" "py_truediv occupied window \<le> 1"
    using fl_nonneg[OF q(1)] fl_le_of_int[OF q(2)] by (simp_all add: py_truediv_def)
  then have p: "0 \<le> fl (py_truediv occupied window * 100)" "fl (py_truediv occupied window * 100) \<le> 100"
    using fl_le_of_int[of "py_truediv occupied window * 100" 100] by (simp_all add: fl_nonneg)
  have r: "0 \<le> round_half_even (fl (py_truediv occupied window * 100) * 10 ^ 4)"
    "round_half_even (fl (py_truediv occupied window * 100) * 10 ^ 4) \<le> 1000000"
    using round_half_even_ge_int[of 0 "fl (py_truediv occupied window * 100) * 10 ^ 4"]
      round_half_even_le_int[of "fl (py_truediv occupied window * 100) * 10 ^ 4" 1000000] p by simp_all
  then show "0 \<le> utilization_percent occupied window" "utilization_percent occupied window \<le> 100"
    using fl_le_of_int[of "of_int (round_half_even (fl (py_truediv occupied window * 100) * 10 ^ 4)) / 10 ^ 4" 100]
    by (simp_all add: utilization_percent_def py_round_def fl_nonneg)
qed

end
