(* ===== verification/CanArbiter.thy ===== *)
theory CanArbiter
  imports CanSchedule
begin

text \<open>
  The arbitration handler of \<open>src/src/atep/can_network/arbitration_service.py\<close>: it resolves the
  contenders, runs the loop, advances the network to the end of the window and records one
  transmission per frame, under a command identifier made from the arbitration's.
\<close>

definition frame_order :: "can_arbitrated_frame list \<Rightarrow> resolved_contender \<Rightarrow> app_error + int" where
  "frame_order frames w =
     (case find (\<lambda>f. af_contract_id f = fc_identifier (rc_contract w)) frames of
        Some f \<Rightarrow> Inr (af_rank f)
      | None \<Rightarrow> Inl StopIteration)"

text \<open>\<open>sorted(contenders, key=...)\<close>: the keys are computed first, and may raise.\<close>

definition ordered_contenders ::
  "can_arbitrated_frame list \<Rightarrow> resolved_contender list \<Rightarrow> app_error + resolved_contender list" where
  "ordered_contenders frames ws =
     and_then (map_ok (frame_order frames) ws) (\<lambda>keys. Inr (map snd (sort_key fst (zip keys ws))))"

definition arbitration_command_id :: "string \<Rightarrow> int \<Rightarrow> string" where
  "arbitration_command_id command_id rank = ''arb:'' @ command_id @ '':'' @ int_str rank"

definition arbitration_transmission ::
  "env \<Rightarrow> can_network \<Rightarrow> can_arbitration_command \<Rightarrow> can_arbitrated_frame \<times> resolved_contender
    \<Rightarrow> can_frame_transmission" where
  "arbitration_transmission e n c = (\<lambda>(f, w).
     \<lparr>tx_network_id = net_id n, tx_command_id = arbitration_command_id (ac_command_id c) (af_rank f),
      tx_contract_id = af_contract_id f, tx_producer_node_id = af_producer_node_id f,
      tx_frame_id = af_frame_id f, tx_frame_format = af_frame_format f, tx_protocol = af_protocol f,
      tx_bitrate_switch = af_bitrate_switch f,
      tx_request = ArbitrationRequest (ac_command_id c) (af_ready_at_us f),
      tx_payload = rc_payload_bytes w, tx_sequence = af_sequence f,
      tx_transmission_time_us = af_completed_at_us f, tx_previous_version = net_version n,
      tx_network_version = net_version n + 1, tx_requested_by_user_id = env_actor e\<rparr>)"

definition arbitration_evidence ::
  "vehicle \<Rightarrow> can_network \<Rightarrow> can_arbitration_command \<Rightarrow> nat \<Rightarrow> can_arbitrated_frame list \<Rightarrow> can_bus_utilization
    \<Rightarrow> int \<Rightarrow> dict" where
  "arbitration_evidence v n c contender_count frames u previous_version = [
     (''vehicle_id'', JStr (veh_identifier v)), (''network_id'', JStr (net_identifier n)),
     (''command_id'', JStr (ac_command_id c)), (''contender_count'', JInt (int contender_count)),
     (''window_duration_us'', JInt (ut_window_duration_us u)), (''occupied_us'', JInt (ut_occupied_us u)),
     (''utilization_percent'', JFloat (ut_utilization_percent u)),
     (''maximum_latency_us'', JInt (ut_maximum_latency_us u)),
     (''fd_frame_count'', JInt (int (length (filter (\<lambda>f. af_protocol f = FD) frames)))),
     (''bitrate_switched_frame_count'', JInt (int (length (filter af_bitrate_switch frames)))),
     (''previous_version'', JInt previous_version), (''network_version'', JInt (net_version n))]"

definition execute_arbitration ::
  "env \<Rightarrow> vehicle \<times> can_arbitration_command \<Rightarrow> 'a can_store_scheme
    \<Rightarrow> app_error + (can_arbitration_execution \<times> can_network \<times> bool) \<times> 'a can_store_scheme" where
  "execute_arbitration e = (\<lambda>(v, c) s.
     and_then (require_can_network v s) (\<lambda>n.
     case find_execution ax_key n (ac_command_id c) (arbitrations s) of
       Some existing \<Rightarrow>
         if ax_request existing = c then Inr ((existing, n, True), s)
         else Inl CanArbitrationCommandConflict
     | None \<Rightarrow>
     if ac_expected_version c \<noteq> net_version n then Inl (CanNetworkVersionConflict (net_version n))
     else and_then (resolve_contenders n c) (\<lambda>contenders.
     let (frames, u) = arbitrate n contenders;
         n' = n\<lparr>net_version := net_version n + 1,
                net_next_sequence := net_next_sequence n + int (length frames),
                net_simulation_time_us := ut_window_end_us u\<rparr>;
         execution = \<lparr>ax_network_id = net_id n, ax_command_id = ac_command_id c, ax_request = c,
           ax_result = (frames, u), ax_contender_count = int (length contenders),
           ax_previous_version = net_version n, ax_network_version = net_version n + 1,
           ax_requested_by_user_id = env_actor e\<rparr>
     in and_then (ordered_contenders frames contenders) (\<lambda>ordered.
     if length frames \<noteq> length ordered then Inl (ValueError ''zip() arguments have different lengths'')
     else and_then (of_option (IntegrityError ''uq_can_arbitration_command'')
                      (insert_row ax_key execution (arbitrations s))) (\<lambda>rows.
     and_then (of_option (IntegrityError ''uq_can_frame_transmission_command'')
                 (insert_rows tx_key (map (arbitration_transmission e n c) (zip frames ordered))
                    (transmissions s))) (\<lambda>txs.
        Inr ((execution, n', False),
          commit_network e ''atep.can.arbitration.completed.v1'' ''can.arbitration_executed''
            (arbitration_evidence v n' c (length contenders) frames u (net_version n)) n'
            (s\<lparr>arbitrations := rows, transmissions := txs\<rparr>))))))))"

definition list_arbitrations ::
  "can_network \<Rightarrow> nat \<Rightarrow> nat \<Rightarrow> 'a can_store_scheme \<Rightarrow> can_arbitration_execution list \<times> int" where
  "list_arbitrations n limit offset s =
     (let rows = filter (\<lambda>r. ax_network_id r = net_id n) (arbitrations s)
      in (page limit offset (rev rows), int (length rows)))"

definition require_arbitration ::
  "can_network \<Rightarrow> string \<Rightarrow> 'a can_store_scheme \<Rightarrow> app_error + can_arbitration_execution" where
  "require_arbitration n i s =
     of_option (ResourceNotFound ''can_arbitration'') (find_execution ax_key n i (arbitrations s))"

section \<open>The command contract\<close>

definition after_arbitration :: "can_network \<Rightarrow> can_arbitrated_frame list \<Rightarrow> can_bus_utilization \<Rightarrow> can_network" where
  "after_arbitration n frames u = n\<lparr>net_version := net_version n + 1,
     net_next_sequence := net_next_sequence n + int (length frames), net_simulation_time_us := ut_window_end_us u\<rparr>"

lemma arbitration_first:
  assumes "vehicle_network v s = Some n" "find_execution ax_key n (ac_command_id c) (arbitrations s) = None"
    and "execute_arbitration e (v, c) s = Inr ((r, n', d), s')"
  obtains contenders frames u ordered p where "ac_expected_version c = net_version n"
    "resolve_contenders n c = Inr contenders" "arbitrate n contenders = (frames, u)"
    "ax_result r = (frames, u)" "ax_request r = c" "ax_key r = (net_id n, ac_command_id c)" "\<not> d"
    "ordered_contenders frames contenders = Inr ordered" "length ordered = length frames"
    "n' = after_arbitration n frames u"
    "s' = commit_network e ''atep.can.arbitration.completed.v1'' ''can.arbitration_executed'' p n'
        (s\<lparr>arbitrations := arbitrations s @ [r], transmissions := transmissions s
           @ map (arbitration_transmission e n c) (zip frames ordered)\<rparr>)"
proof -
  obtain contenders where ver: "ac_expected_version c = net_version n"
    and res: "resolve_contenders n c = Inr contenders"
    using assms by (auto simp: execute_arbitration_def require_can_network_def ok_simps split: if_splits)
  obtain frames u where arb: "arbitrate n contenders = (frames, u)" by fastforce
  obtain ordered where ord: "ordered_contenders frames contenders = Inr ordered"
    using assms arb res by (auto simp: execute_arbitration_def require_can_network_def ok_simps Let_def split: if_splits)
  have len: "length frames = length ordered"
    using assms arb res ver ord
    by (cases "length frames = length ordered") (simp_all add: execute_arbitration_def require_can_network_def Let_def)
  show thesis
    using assms(3)
    apply (simp add: execute_arbitration_def require_can_network_def assms(1,2) ver res arb ord len Let_def
        and_then_Inr of_option_Inr insert_row_Some insert_rows_Some)
    apply (elim conjE)
    apply (rule that[where p = "arbitration_evidence v n' c (length contenders) frames u (net_version n)",
          OF ver res arb _ _ _ _ ord len[symmetric]])
    by (auto simp: ax_key_def after_arbitration_def len)
qed

lemma arbitration_committed:
  assumes "vehicle_network v s = Some n" "find_execution ax_key n (ac_command_id c) (arbitrations s) = None"
    and "execute_arbitration e (v, c) s = Inr ((r, n', d), s')"
  shows "committed 1 ax_key arbitrations v (ac_command_id c) n s r n' s' \<and> \<not> d \<and> ax_request r = c"
proof (rule arbitration_first[OF assms])
  fix contenders frames u ordered p
  assume f: "ax_request r = c" "ax_key r = (net_id n, ac_command_id c)" "\<not> d" "n' = after_arbitration n frames u"
    and s': "s' = commit_network e ''atep.can.arbitration.completed.v1'' ''can.arbitration_executed'' p n'
        (s\<lparr>arbitrations := arbitrations s @ [r], transmissions := transmissions s
           @ map (arbitration_transmission e n c) (zip frames ordered)\<rparr>)"
  have "arbitrations s' = arbitrations s @ [r]" unfolding s' by simp
  moreover have "\<exists>e et ac ev t. s' = commit_network e et ac ev n' t \<and> appended s t"
    unfolding s' by (rule exI)+ (rule conjI[OF refl appended_tables(5)])
  moreover have "net_id n' = net_id n" "net_vehicle_id n' = net_vehicle_id n" "net_version n' = net_version n + 1"
    unfolding f(4) by (simp_all add: after_arbitration_def)
  ultimately show ?thesis
    using assms(1,2) f(1-3) unfolding committed_def by blast
qed

interpretation arbiter: can_versioned_handler execute_arbitration ax_key arbitrations ac_command_id
  "\<lambda>c r. ax_request r = c" CanArbitrationCommandConflict ac_expected_version
proof (unfold_locales, goal_cases)
  case (2 s s')
  then show ?case by (rule can_grows_tables)
next
  case (4 v s n c e r n' d s')
  then show ?case using arbitration_committed[OF 4] by simp
qed (auto simp: execute_arbitration_def require_can_network_def)

end
