(* ===== verification/CanDbc.thy ===== *)
theory CanDbc
  imports CanHandler Numerics "HOL-Library.Word"
begin

unbundle bit_operations_syntax

text \<open>
  The DBC signal codec of \<open>src/src/atep/can_network/dbc_service.py\<close>: bit positions of Intel and
  Motorola signals, validation of a message against its frame, and the conversion between physical
  values, raw integers and payload bytes. Decimals follow the default context of 28 digits.
  Positions are natural numbers, as the schema makes the start bit non-negative. Reading or writing
  past the payload is Python's \<open>IndexError\<close>.
\<close>

section \<open>Bit positions\<close>

definition bit_length :: "can_dbc_signal \<Rightarrow> nat" where
  "bit_length s = nat (sg_bit_length s)"

definition motorola_next :: "nat \<Rightarrow> nat" where
  "motorola_next current = (if current mod 8 = 0 then current + 15 else current - 1)"

fun motorola_positions :: "nat \<Rightarrow> nat \<Rightarrow> nat list" where
  "motorola_positions current 0 = [current]"
| "motorola_positions current (Suc k) = current # motorola_positions (motorola_next current) k"

definition dbc_bit_positions :: "can_dbc_signal \<Rightarrow> nat list" where
  "dbc_bit_positions s =
     (if sg_byte_order s = INTEL then map (\<lambda>index. nat (sg_start_bit s) + index) [0..<bit_length s]
      else motorola_positions (nat (sg_start_bit s)) (bit_length s - 1))"

section \<open>Validating a message\<close>

fun validate_signals :: "nat set \<Rightarrow> nat \<Rightarrow> can_dbc_signal list \<Rightarrow> app_error + unit" where
  "validate_signals occupied dlc [] = Inr ()"
| "validate_signals occupied dlc (s # rest) =
     (let positions = dbc_bit_positions s in
      if Max (set positions) \<ge> dlc * 8
        then Inl (CanNetworkContract (''DBC signal '' @ sg_identifier s @ '' exceeds the contracted DLC''))
      else if occupied \<inter> set positions \<noteq> {}
        then Inl (CanNetworkContract ''DBC signals may not overlap within a message'')
      else validate_signals (occupied \<union> set positions) dlc rest)"

definition validate_message :: "can_dbc_message \<Rightarrow> int \<Rightarrow> app_error + unit" where
  "validate_message m dlc = validate_signals {} (nat dlc) (dm_signals m)"

fun find_message :: "can_dbc_message list \<Rightarrow> string \<Rightarrow> app_error + can_dbc_message" where
  "find_message [] contract_id = Inl (CanNetworkContract ''DBC message does not exist for the frame contract'')"
| "find_message (m # rest) contract_id =
     (if dm_contract_id m = contract_id then Inr m else find_message rest contract_id)"

section \<open>Physical and raw values\<close>

definition raw_bounds :: "can_dbc_signal \<Rightarrow> int \<times> int" where
  "raw_bounds s =
     (if sg_signed s then (- (2 ^ (bit_length s - 1)), 2 ^ (bit_length s - 1) - 1)
      else (0, 2 ^ bit_length s - 1))"

definition physical_to_raw :: "can_dbc_signal \<Rightarrow> rat \<Rightarrow> app_error + int" where
  "physical_to_raw s physical =
     (if (case sg_minimum s of Some lo \<Rightarrow> physical < lo | None \<Rightarrow> False)
        then Inl (CanNetworkContract (''signal '' @ sg_identifier s @ '' is below its minimum''))
      else if (case sg_maximum s of Some hi \<Rightarrow> physical > hi | None \<Rightarrow> False)
        then Inl (CanNetworkContract (''signal '' @ sg_identifier s @ '' is above its maximum''))
      else let raw_decimal = dec28 (dec28 (physical - sg_offset s) / sg_factor s);
               raw = round_half_even raw_decimal in
      if raw_decimal \<noteq> of_int raw
        then Inl (CanNetworkContract (''signal '' @ sg_identifier s @ '' is not exactly representable''))
      else if raw < fst (raw_bounds s) \<or> raw > snd (raw_bounds s)
        then Inl (CanNetworkContract (''signal '' @ sg_identifier s @ '' exceeds its raw range''))
      else Inr raw)"

definition raw_to_physical :: "can_dbc_signal \<Rightarrow> int \<Rightarrow> rat" where
  "raw_to_physical s raw = dec28 (dec28 (of_int raw * sg_factor s) + sg_offset s)"

section \<open>Payload bits\<close>

text \<open>The bit of the raw value that position number \<open>index\<close> carries.\<close>

definition raw_index :: "can_dbc_signal \<Rightarrow> nat \<Rightarrow> nat" where
  "raw_index s index = (if sg_byte_order s = INTEL then index else bit_length s - 1 - index)"

fun write_positions :: "can_dbc_signal \<Rightarrow> int \<Rightarrow> nat \<Rightarrow> nat list \<Rightarrow> int list \<Rightarrow> app_error + int list" where
  "write_positions s encoded index [] payload = Inr payload"
| "write_positions s encoded index (position # rest) payload =
     (if bit encoded (raw_index s index) then
        if position div 8 < length payload
          then write_positions s encoded (index + 1) rest
                 (payload[position div 8 := (payload ! (position div 8)) OR 2 ^ (position mod 8)])
        else Inl IndexError
      else write_positions s encoded (index + 1) rest payload)"

definition write_raw :: "int list \<Rightarrow> can_dbc_signal \<Rightarrow> int \<Rightarrow> app_error + int list" where
  "write_raw payload s raw =
     write_positions s (raw AND (2 ^ bit_length s - 1)) 0 (dbc_bit_positions s) payload"

fun read_positions :: "can_dbc_signal \<Rightarrow> int list \<Rightarrow> nat \<Rightarrow> nat list \<Rightarrow> int \<Rightarrow> app_error + int" where
  "read_positions s payload index [] encoded = Inr encoded"
| "read_positions s payload index (position # rest) encoded =
     (if position div 8 < length payload
      then read_positions s payload (index + 1) rest
             (if bit (payload ! (position div 8)) (position mod 8)
              then encoded OR 2 ^ raw_index s index else encoded)
      else Inl IndexError)"

definition read_raw :: "int list \<Rightarrow> can_dbc_signal \<Rightarrow> app_error + int" where
  "read_raw payload s =
     and_then (read_positions s payload 0 (dbc_bit_positions s) 0) (\<lambda>encoded.
     if sg_signed s \<and> bit encoded (bit_length s - 1) then Inr (encoded - 2 ^ bit_length s)
     else Inr encoded)"

section \<open>Messages\<close>

fun encode_signals_loop ::
  "can_dbc_signal list \<Rightarrow> (string \<times> decimal) list \<Rightarrow> codec_result \<Rightarrow> app_error + codec_result" where
  "encode_signals_loop [] values acc = Inr acc"
| "encode_signals_loop (s # rest) values acc =
     (let physical = dec_value (the (map_of values (sg_identifier s))) in
      and_then (physical_to_raw s physical) (\<lambda>raw.
      and_then (write_raw (cd_payload acc) s raw) (\<lambda>payload.
      encode_signals_loop rest values
        \<lparr>cd_payload = payload, cd_raw_values = AList.update (sg_identifier s) raw (cd_raw_values acc),
         cd_physical_values = AList.update (sg_identifier s) physical (cd_physical_values acc)\<rparr>)))"

definition encode_message :: "can_dbc_message \<Rightarrow> int \<Rightarrow> (string \<times> decimal) list \<Rightarrow> app_error + codec_result" where
  "encode_message m dlc values =
     (if set (map fst values) \<noteq> set (map sg_identifier (dm_signals m))
        then Inl (CanNetworkContract ''encode values must exactly match declared DBC signals'')
      else encode_signals_loop (dm_signals m) values
             \<lparr>cd_payload = replicate (nat dlc) 0, cd_raw_values = [], cd_physical_values = []\<rparr>)"

fun decode_signals_loop :: "can_dbc_signal list \<Rightarrow> codec_result \<Rightarrow> app_error + codec_result" where
  "decode_signals_loop [] acc = Inr acc"
| "decode_signals_loop (s # rest) acc =
     and_then (read_raw (cd_payload acc) s) (\<lambda>raw.
     decode_signals_loop rest (acc\<lparr>cd_raw_values := AList.update (sg_identifier s) raw (cd_raw_values acc),
       cd_physical_values := AList.update (sg_identifier s) (raw_to_physical s raw) (cd_physical_values acc)\<rparr>))"

definition decode_message :: "can_dbc_message \<Rightarrow> int list \<Rightarrow> app_error + codec_result" where
  "decode_message m payload =
     decode_signals_loop (dm_signals m) \<lparr>cd_payload = payload, cd_raw_values = [], cd_physical_values = []\<rparr>"

section \<open>Positions are linear\<close>

text \<open>
  Numbering each byte from its other end turns Motorola's sawtooth into consecutive positions.
\<close>

definition flip_in_byte :: "nat \<Rightarrow> nat" where
  "flip_in_byte p = 8 * (p div 8) + (7 - p mod 8)"

lemma flip_in_byte_parts:
  assumes "m < 8" shows "flip_in_byte (8 * d + m) = 8 * d + (7 - m)"
  using assms by (simp add: flip_in_byte_def)

lemma byte_parts:
  obtains d m where "p = 8 * d + m" "m < (8 :: nat)"
  by (metis mod_less_divisor mult_div_mod_eq zero_less_numeral)

lemma flip_flip [simp]: "flip_in_byte (flip_in_byte p) = p"
proof (rule byte_parts[of p])
  fix d m assume p: "p = 8 * d + m" "m < 8"
  then have "flip_in_byte p = 8 * d + (7 - m)" by (simp only: flip_in_byte_parts)
  then show ?thesis using p flip_in_byte_parts[of "7 - m" d] by simp
qed

lemma flip_motorola_next: "flip_in_byte (motorola_next p) = flip_in_byte p + 1"
proof (rule byte_parts[of p])
  fix d m assume p: "p = 8 * d + m" "m < 8"
  show ?thesis
  proof (cases "m = 0")
    case True
    then have "motorola_next p = 8 * (d + 1) + 7" using p by (simp add: motorola_next_def)
    then show ?thesis using True p flip_in_byte_parts[of 7 "d + 1"] flip_in_byte_parts[of 0 d] by simp
  next
    case False
    then have "motorola_next p = 8 * d + (m - 1)" using p by (simp add: motorola_next_def)
    then show ?thesis using False p flip_in_byte_parts[of "m - 1" d] flip_in_byte_parts[of m d] by simp
  qed
qed

lemma motorola_positions_linear:
  "motorola_positions p k = map (\<lambda>i. flip_in_byte (flip_in_byte p + i)) [0..<Suc k]"
proof (induction k arbitrary: p)
  case (Suc k)
  have "map g [0..<Suc (Suc k)] = g 0 # map (\<lambda>i. g (Suc i)) [0..<Suc k]" for g :: "nat \<Rightarrow> nat"
    by (simp only: upt_conv_Cons zero_less_Suc list.map map_Suc_upt [symmetric] map_map comp_def)
  then show ?case using Suc[of "motorola_next p"] by (simp add: flip_motorola_next del: upt_Suc)
qed simp

lemma positions_length: "0 < bit_length s \<Longrightarrow> length (dbc_bit_positions s) = bit_length s"
  by (simp add: dbc_bit_positions_def motorola_positions_linear del: upt_Suc)

lemma inj_flip_add: "inj_on (\<lambda>i. flip_in_byte (a + i)) A"
  by (rule inj_onI) (metis add_left_cancel flip_flip)

lemma positions_distinct: "distinct (dbc_bit_positions s)"
  by (simp add: dbc_bit_positions_def motorola_positions_linear distinct_map inj_flip_add del: upt_Suc)

section \<open>Writing and reading bits\<close>

definition payload_bit :: "int list \<Rightarrow> nat \<Rightarrow> bool" where
  "payload_bit payload q \<longleftrightarrow> q div 8 < length payload \<and> bit (payload ! (q div 8)) (q mod 8)"

lemma payload_bit_set:
  assumes "p div 8 < length payload"
  shows "payload_bit (payload[p div 8 := (payload ! (p div 8)) OR 2 ^ (p mod 8)]) q
    \<longleftrightarrow> payload_bit payload q \<or> q = p"
proof -
  have eq: "q = p \<longleftrightarrow> q div 8 = p div 8 \<and> q mod 8 = p mod 8" by (metis div_mult_mod_eq)
  show ?thesis
    using assms unfolding payload_bit_def eq by (cases "q div 8 = p div 8") (auto simp: bit_or_iff bit_exp_iff)
qed

lemma write_positions_spec:
  assumes "\<forall>q\<in>set ps. q div 8 < length payload"
  shows "\<exists>p'. write_positions s enc k ps payload = Inr p' \<and> length p' = length payload
    \<and> (\<forall>q. payload_bit p' q \<longleftrightarrow> payload_bit payload q
          \<or> (\<exists>i<length ps. ps ! i = q \<and> bit enc (raw_index s (k + i))))"
  using assms
proof (induction ps arbitrary: k payload)
  case (Cons p ps)
  show ?case
  proof (cases "bit enc (raw_index s k)")
    case True
    let ?p = "payload[p div 8 := (payload ! (p div 8)) OR 2 ^ (p mod 8)]"
    obtain p' where p': "write_positions s enc (k + 1) ps ?p = Inr p'" "length p' = length payload"
      "\<forall>q. payload_bit p' q \<longleftrightarrow> payload_bit ?p q \<or> (\<exists>i<length ps. ps ! i = q \<and> bit enc (raw_index s (k + 1 + i)))"
      using Cons.IH[of ?p "k + 1"] Cons.prems by auto
    have "\<forall>q. payload_bit p' q \<longleftrightarrow> payload_bit payload q
        \<or> (\<exists>i<length (p # ps). (p # ps) ! i = q \<and> bit enc (raw_index s (k + i)))"
      using p'(3) True Cons.prems by (auto simp: Ex_less_Suc2 payload_bit_set)
    then show ?thesis using p' True Cons.prems by simp
  next
    case False
    obtain p' where p': "write_positions s enc (k + 1) ps payload = Inr p'" "length p' = length payload"
      "\<forall>q. payload_bit p' q \<longleftrightarrow> payload_bit payload q \<or> (\<exists>i<length ps. ps ! i = q \<and> bit enc (raw_index s (k + 1 + i)))"
      using Cons.IH[of payload "k + 1"] Cons.prems by auto
    then show ?thesis using False by (auto simp: Ex_less_Suc2)
  qed
qed simp

lemma read_positions_spec:
  assumes "\<forall>q\<in>set ps. q div 8 < length payload"
  shows "\<exists>r. read_positions s payload k ps acc = Inr r
    \<and> (\<forall>j. bit r j \<longleftrightarrow> bit acc j \<or> (\<exists>i<length ps. payload_bit payload (ps ! i) \<and> raw_index s (k + i) = j))"
  using assms
proof (induction ps arbitrary: k acc)
  case (Cons p ps)
  let ?acc = "if bit (payload ! (p div 8)) (p mod 8) then acc OR 2 ^ raw_index s k else acc"
  obtain r where r: "read_positions s payload (k + 1) ps ?acc = Inr r"
    "\<forall>j. bit r j \<longleftrightarrow> bit ?acc j \<or> (\<exists>i<length ps. payload_bit payload (ps ! i) \<and> raw_index s (k + 1 + i) = j)"
    using Cons.IH[of "k + 1" ?acc] Cons.prems by auto
  have "bit ?acc j \<longleftrightarrow> bit acc j \<or> payload_bit payload p \<and> raw_index s k = j" for j
    using Cons.prems by (auto simp: payload_bit_def bit_or_iff bit_exp_iff)
  then show ?case
    using r Cons.prems by (auto simp: Ex_less_Suc2)
qed simp

section \<open>The codec on one signal\<close>

lemma raw_index_inj: "i < bit_length s \<Longrightarrow> j < bit_length s \<Longrightarrow> raw_index s i = raw_index s j \<longleftrightarrow> i = j"
  by (auto simp: raw_index_def)

lemma raw_index_surj: "j < bit_length s \<Longrightarrow> \<exists>i<bit_length s. raw_index s i = j"
proof (cases "sg_byte_order s = INTEL")
  case False
  assume "j < bit_length s"
  then show ?thesis using False by (intro exI[of _ "bit_length s - 1 - j"]) (auto simp: raw_index_def)
qed (auto simp: raw_index_def)

lemma raw_index_less: "i < bit_length s \<Longrightarrow> raw_index s i < bit_length s"
  by (auto simp: raw_index_def)

text \<open>The bits of a signal's raw value in a payload.\<close>

definition carries :: "int list \<Rightarrow> can_dbc_signal \<Rightarrow> int \<Rightarrow> bool" where
  "carries payload s raw \<longleftrightarrow>
     (\<forall>i<bit_length s. payload_bit payload (dbc_bit_positions s ! i) \<longleftrightarrow> bit raw (raw_index s i))"

definition in_payload :: "can_dbc_signal \<Rightarrow> nat \<Rightarrow> bool" where
  "in_payload s len \<longleftrightarrow> (\<forall>q\<in>set (dbc_bit_positions s). q < 8 * len)"

lemma in_payload_index: "in_payload s (length payload) \<Longrightarrow> \<forall>q\<in>set (dbc_bit_positions s). q div 8 < length payload"
  by (auto simp: in_payload_def less_mult_imp_div_less mult.commute)

lemma mask_low_bits: "(raw :: int) AND (2 ^ m - 1) = take_bit m raw"
  by (simp add: take_bit_eq_mask mask_eq_exp_minus_1)

lemma write_raw_spec:
  assumes "0 < bit_length s" "in_payload s (length payload)"
    and clear: "\<forall>q\<in>set (dbc_bit_positions s). \<not> payload_bit payload q"
  shows "\<exists>p'. write_raw payload s raw = Inr p' \<and> length p' = length payload \<and> carries p' s raw
    \<and> (\<forall>q. q \<notin> set (dbc_bit_positions s) \<longrightarrow> payload_bit p' q = payload_bit payload q)"
proof -
  let ?ps = "dbc_bit_positions s" and ?enc = "take_bit (bit_length s) raw"
  obtain p' where p': "write_positions s ?enc 0 ?ps payload = Inr p'" "length p' = length payload"
    "\<forall>q. payload_bit p' q \<longleftrightarrow> payload_bit payload q
          \<or> (\<exists>i<length ?ps. ?ps ! i = q \<and> bit ?enc (raw_index s (0 + i)))"
    using write_positions_spec[OF in_payload_index[OF assms(2)]] by blast
  have "payload_bit p' (?ps ! i) \<longleftrightarrow> bit raw (raw_index s i)" if "i < bit_length s" for i
  proof -
    have i: "i < length ?ps" using that positions_length[OF assms(1)] by simp
    have "(\<exists>j<length ?ps. ?ps ! j = ?ps ! i \<and> bit ?enc (raw_index s (0 + j))) \<longleftrightarrow> bit ?enc (raw_index s i)"
      using i positions_distinct[of s] by (auto simp: nth_eq_iff_index_eq)
    then show ?thesis
      using p'(3) clear i raw_index_less[OF that] by (auto simp: bit_take_bit_iff)
  qed
  moreover have "payload_bit p' q = payload_bit payload q" if "q \<notin> set ?ps" for q
    using p'(3) that by (metis nth_mem)
  ultimately show ?thesis
    using p'(1,2) by (auto simp: write_raw_def mask_low_bits carries_def)
qed

lemma in_raw_bounds_signed:
  assumes "0 < m" "- (2 ^ (m - 1)) \<le> raw" "raw \<le> 2 ^ (m - 1) - (1 :: int)"
  shows "(if bit raw (m - 1) then take_bit m raw - 2 ^ m else take_bit m raw) = raw"
proof -
  obtain k where m: "m = Suc k" using assms(1) by (cases m) auto
  have "signed_take_bit k raw = raw"
    using assms m by (intro signed_take_bit_int_eq_self) auto
  then show ?thesis
    unfolding m using signed_take_bit_eq_take_bit_minus[of k raw] by (auto simp: bit_take_bit_iff)
qed

lemma read_raw_spec:
  assumes "0 < bit_length s" "in_payload s (length payload)" "carries payload s raw"
    and "fst (raw_bounds s) \<le> raw" "raw \<le> snd (raw_bounds s)"
  shows "read_raw payload s = Inr raw"
proof -
  let ?ps = "dbc_bit_positions s" and ?m = "bit_length s"
  obtain r where r: "read_positions s payload 0 ?ps 0 = Inr r"
    "\<forall>j. bit r j \<longleftrightarrow> bit (0 :: int) j \<or> (\<exists>i<length ?ps. payload_bit payload (?ps ! i) \<and> raw_index s (0 + i) = j)"
    using read_positions_spec[OF in_payload_index[OF assms(2)]] by blast
  have len: "length ?ps = ?m" by (rule positions_length[OF assms(1)])
  have "r = take_bit ?m raw"
  proof (rule bit_eqI)
    fix j
    show "bit r j \<longleftrightarrow> bit (take_bit ?m raw) j"
      using r(2) assms(3) len raw_index_surj[of j s] raw_index_less[of _ s]
      by (auto simp: carries_def bit_take_bit_iff)
  qed
  moreover have "take_bit ?m raw = raw" if "\<not> sg_signed s"
    using that assms(4,5) by (intro take_bit_int_eq_self) (auto simp: raw_bounds_def)
  moreover have "(if bit raw (?m - 1) then take_bit ?m raw - 2 ^ ?m else take_bit ?m raw) = raw" if "sg_signed s"
    using that assms(1,4,5) by (intro in_raw_bounds_signed) (auto simp: raw_bounds_def)
  ultimately show ?thesis
    using r(1) assms(1) by (cases "sg_signed s") (auto simp: read_raw_def bit_take_bit_iff split: if_splits)
qed

section \<open>The codec on a message\<close>

text \<open>What \<open>validate_message\<close> guarantees: every signal fits, and no two share a bit.\<close>

definition signals_disjoint :: "can_dbc_signal list \<Rightarrow> bool" where
  "signals_disjoint = sorted_wrt (\<lambda>s t. set (dbc_bit_positions s) \<inter> set (dbc_bit_positions t) = {})"

lemma validate_signals_ok:
  assumes "validate_signals occupied dlc ss = Inr ()" "\<forall>s\<in>set ss. 0 < bit_length s"
  shows "(\<forall>s\<in>set ss. in_payload s dlc \<and> set (dbc_bit_positions s) \<inter> occupied = {}) \<and> signals_disjoint ss"
  using assms
proof (induction occupied dlc ss rule: validate_signals.induct)
  case (2 occupied dlc s rest)
  let ?ps = "set (dbc_bit_positions s)"
  have cond: "\<not> dlc * 8 \<le> Max ?ps" "occupied \<inter> ?ps = {}" "validate_signals (occupied \<union> ?ps) dlc rest = Inr ()"
    using 2(2) by (auto simp: Let_def split: if_splits)
  have "?ps \<noteq> {}" using 2(3) positions_length[of s] by auto
  then have "\<forall>q\<in>?ps. q < dlc * 8" using cond(1) Max_ge[of ?ps] by (fastforce simp: not_le)
  then have "in_payload s dlc" by (simp add: in_payload_def mult.commute)
  moreover have "(\<forall>t\<in>set rest. in_payload t dlc \<and> set (dbc_bit_positions t) \<inter> (occupied \<union> ?ps) = {})
      \<and> signals_disjoint rest"
    using 2(1)[OF refl _ _ cond(3)] cond 2(3) by simp
  ultimately show ?case using cond(2) by (auto simp: signals_disjoint_def)
qed (simp add: signals_disjoint_def)

lemma physical_to_raw_bounds:
  "physical_to_raw s x = Inr raw \<Longrightarrow> fst (raw_bounds s) \<le> raw \<and> raw \<le> snd (raw_bounds s)"
  by (auto simp: physical_to_raw_def Let_def split: if_splits option.splits)

lemma carries_cong:
  assumes "\<forall>q\<in>set (dbc_bit_positions s). payload_bit p' q = payload_bit p q" "0 < bit_length s"
  shows "carries p' s raw = carries p s raw"
  using assms positions_length[OF assms(2)] by (simp add: carries_def)

text \<open>
  The loop leaves a payload that carries the raw value of every signal it went through, and does
  not touch the bits of other signals.
\<close>

lemma encode_loop_spec:
  assumes "encode_signals_loop ss values acc = Inr out"
    and "\<forall>s\<in>set ss. 0 < bit_length s \<and> in_payload s (length (cd_payload acc))
           \<and> (\<forall>q\<in>set (dbc_bit_positions s). \<not> payload_bit (cd_payload acc) q)"
    and "signals_disjoint ss" "distinct (map sg_identifier ss)"
  shows "length (cd_payload out) = length (cd_payload acc)
    \<and> (\<forall>q. (\<forall>s\<in>set ss. q \<notin> set (dbc_bit_positions s)) \<longrightarrow> payload_bit (cd_payload out) q = payload_bit (cd_payload acc) q)
    \<and> (\<forall>s\<in>set ss. \<exists>raw. physical_to_raw s (dec_value (the (map_of values (sg_identifier s)))) = Inr raw
          \<and> map_of (cd_raw_values out) (sg_identifier s) = Some raw \<and> carries (cd_payload out) s raw)
    \<and> (\<forall>i. i \<notin> sg_identifier ` set ss \<longrightarrow> map_of (cd_raw_values out) i = map_of (cd_raw_values acc) i)"
  using assms
proof (induction ss "values" acc rule: encode_signals_loop.induct)
  case (2 s rest given acc)
  let ?x = "dec_value (the (map_of given (sg_identifier s)))"
  obtain raw p' where raw: "physical_to_raw s ?x = Inr raw" and w: "write_raw (cd_payload acc) s raw = Inr p'"
    using 2(2) by (auto simp: Let_def ok_simps)
  let ?acc = "\<lparr>cd_payload = p', cd_raw_values = AList.update (sg_identifier s) raw (cd_raw_values acc),
     cd_physical_values = AList.update (sg_identifier s) ?x (cd_physical_values acc)\<rparr>"
  have run: "encode_signals_loop rest given ?acc = Inr out" using 2(2) raw w by simp
  have s: "0 < bit_length s" "in_payload s (length (cd_payload acc))"
    "\<forall>q\<in>set (dbc_bit_positions s). \<not> payload_bit (cd_payload acc) q"
    using 2(3) by auto
  have p': "length p' = length (cd_payload acc)" "carries p' s raw"
    "\<forall>q. q \<notin> set (dbc_bit_positions s) \<longrightarrow> payload_bit p' q = payload_bit (cd_payload acc) q"
    using write_raw_spec[OF s, of raw] w by auto
  have disj: "\<forall>t\<in>set rest. set (dbc_bit_positions s) \<inter> set (dbc_bit_positions t) = {}" "signals_disjoint rest"
    using 2(4) by (simp_all add: signals_disjoint_def)
  have prem: "\<forall>t\<in>set rest. 0 < bit_length t \<and> in_payload t (length p')
      \<and> (\<forall>q\<in>set (dbc_bit_positions t). \<not> payload_bit p' q)"
    using 2(3) p'(1,3) disj(1) by (simp add: disjoint_iff) blast
  have ih: "length (cd_payload out) = length p'"
    "\<forall>q. (\<forall>t\<in>set rest. q \<notin> set (dbc_bit_positions t)) \<longrightarrow> payload_bit (cd_payload out) q = payload_bit p' q"
    "\<forall>t\<in>set rest. \<exists>raw. physical_to_raw t (dec_value (the (map_of given (sg_identifier t)))) = Inr raw
          \<and> map_of (cd_raw_values out) (sg_identifier t) = Some raw \<and> carries (cd_payload out) t raw"
    "\<forall>i. i \<notin> sg_identifier ` set rest \<longrightarrow> map_of (cd_raw_values out) i = map_of (cd_raw_values ?acc) i"
    using 2(1)[OF refl run _ disj(2)] prem 2(5) by simp_all
  have "carries (cd_payload out) s raw"
    using carries_cong[OF _ s(1), of "cd_payload out" p'] ih(2) disj(1) p'(2) by blast
  moreover have "map_of (cd_raw_values out) (sg_identifier s) = Some raw"
    using ih(4) 2(5) by (simp add: update_conv')
  moreover have "\<forall>i. i \<notin> sg_identifier ` set (s # rest) \<longrightarrow> map_of (cd_raw_values out) i = map_of (cd_raw_values acc) i"
    using ih(4) by (simp add: update_conv')
  ultimately show ?case using ih p' raw by (intro conjI ballI allI impI) auto
qed auto

lemma decode_loop_spec:
  assumes "\<forall>s\<in>set ss. read_raw (cd_payload acc) s = Inr (raw_of s)" "distinct (map sg_identifier ss)"
  shows "\<exists>out. decode_signals_loop ss acc = Inr out \<and> cd_payload out = cd_payload acc
    \<and> (\<forall>s\<in>set ss. map_of (cd_raw_values out) (sg_identifier s) = Some (raw_of s)
         \<and> map_of (cd_physical_values out) (sg_identifier s) = Some (raw_to_physical s (raw_of s)))
    \<and> (\<forall>i. i \<notin> sg_identifier ` set ss \<longrightarrow> map_of (cd_raw_values out) i = map_of (cd_raw_values acc) i
         \<and> map_of (cd_physical_values out) i = map_of (cd_physical_values acc) i)"
  using assms
proof (induction ss arbitrary: acc)
  case (Cons s rest)
  let ?acc = "acc\<lparr>cd_raw_values := AList.update (sg_identifier s) (raw_of s) (cd_raw_values acc),
       cd_physical_values := AList.update (sg_identifier s) (raw_to_physical s (raw_of s)) (cd_physical_values acc)\<rparr>"
  obtain out where out: "decode_signals_loop rest ?acc = Inr out" "cd_payload out = cd_payload ?acc"
    "\<forall>s\<in>set rest. map_of (cd_raw_values out) (sg_identifier s) = Some (raw_of s)
         \<and> map_of (cd_physical_values out) (sg_identifier s) = Some (raw_to_physical s (raw_of s))"
    "\<forall>i. i \<notin> sg_identifier ` set rest \<longrightarrow> map_of (cd_raw_values out) i = map_of (cd_raw_values ?acc) i
         \<and> map_of (cd_physical_values out) i = map_of (cd_physical_values ?acc) i"
    using Cons.IH[of ?acc] Cons.prems by auto
  have "decode_signals_loop (s # rest) acc = Inr out" using out(1) Cons.prems(1) by simp
  then show ?case using out(2-4) Cons.prems(2) by (auto simp: update_conv' fun_upd_apply split: if_splits)
qed simp

end
