(* ===== verification/CanCodec.thy ===== *)
theory CanCodec
  imports CanDbc
begin

text \<open>
  Storing a DBC catalogue and running the codec on a stored message: the handlers of
  \<open>src/src/atep/can_network/dbc_service.py\<close>. A codec execution neither needs nor changes the version
  of the network, but it is idempotent like every command.
\<close>

section \<open>The catalogue\<close>

definition network_catalogue :: "can_network \<Rightarrow> 'a can_store_scheme \<Rightarrow> can_dbc_catalogue option" where
  "network_catalogue n s = select (\<lambda>k. cat_network_id k = net_id n) (catalogues s)"

definition require_dbc_catalogue :: "can_network \<Rightarrow> 'a can_store_scheme \<Rightarrow> app_error + can_dbc_catalogue" where
  "require_dbc_catalogue n s = of_option (ResourceNotFound ''can_dbc_catalogue'') (network_catalogue n s)"

text \<open>The loop over the messages of a new catalogue.\<close>

fun check_messages :: "can_network \<Rightarrow> can_dbc_message list \<Rightarrow> app_error + unit" where
  "check_messages n [] = Inr ()"
| "check_messages n (m # rest) =
     and_then (contract_of n (dm_contract_id m)) (\<lambda>contract.
     and_then (validate_message m (fc_dlc contract)) (\<lambda>_. check_messages n rest))"

definition catalogue_evidence :: "vehicle \<Rightarrow> can_network \<Rightarrow> can_dbc_catalogue \<Rightarrow> dict" where
  "catalogue_evidence v n k = [
     (''vehicle_id'', JStr (veh_identifier v)), (''network_id'', JStr (net_identifier n)),
     (''catalogue_id'', JStr (cat_identifier k)), (''revision'', JStr (cat_revision k)),
     (''message_count'', JInt (int (length (cat_messages k)))),
     (''signal_count'', JInt (int (sum_list (map (\<lambda>m. length (dm_signals m)) (cat_messages k))))),
     (''network_version'', JInt (net_version n))]"

definition create_dbc_catalogue ::
  "env \<Rightarrow> vehicle \<Rightarrow> can_dbc_catalogue_create \<Rightarrow> 'a can_store_scheme
    \<Rightarrow> app_error + (can_dbc_catalogue \<times> can_network) \<times> 'a can_store_scheme" where
  "create_dbc_catalogue e v c s =
     and_then (require_can_network v s) (\<lambda>n.
     if network_catalogue n s \<noteq> None then Inl CanDbcCatalogueAlreadyExists
     else if dc_expected_version c \<noteq> net_version n then Inl (CanNetworkVersionConflict (net_version n))
     else and_then (check_messages n (dc_messages c)) (\<lambda>_.
     let n' = n\<lparr>net_version := net_version n + 1\<rparr>;
         k = \<lparr>cat_network_id = net_id n, cat_identifier = dc_identifier c,
              cat_display_name = strip (dc_display_name c), cat_revision = strip (dc_revision c),
              cat_messages = dc_messages c, cat_network_version = net_version n + 1,
              cat_created_by_user_id = env_actor e\<rparr>
     in and_then (of_option (IntegrityError ''can_dbc_catalogues_network_id'')
                    (insert_row cat_network_id k (catalogues s))) (\<lambda>rows.
        Inr ((k, n'), commit_network e ''atep.can.dbc.catalogue.created.v1'' ''can.dbc_catalogue_created''
               (catalogue_evidence v n' k) n' (s\<lparr>catalogues := rows\<rparr>)))))"

section \<open>Encoding and decoding\<close>

definition codec_evidence ::
  "vehicle \<Rightarrow> can_network \<Rightarrow> string \<Rightarrow> string \<Rightarrow> string \<Rightarrow> codec_result \<Rightarrow> dict" where
  "codec_evidence v n command_id operation contract_id r = [
     (''vehicle_id'', JStr (veh_identifier v)), (''network_id'', JStr (net_identifier n)),
     (''command_id'', JStr command_id), (''operation'', JStr operation), (''contract_id'', JStr contract_id),
     (''signal_count'', JInt (int (length (cd_raw_values r)))), (''dlc'', JInt (int (length (cd_payload r))))]"

definition record_codec ::
  "env \<Rightarrow> vehicle \<Rightarrow> can_network \<Rightarrow> string \<Rightarrow> string \<Rightarrow> string \<Rightarrow> codec_request \<Rightarrow> codec_result
    \<Rightarrow> 'a can_store_scheme \<Rightarrow> app_error + can_signal_codec_execution \<times> 'a can_store_scheme" where
  "record_codec e v n command_id operation contract_id request result s =
     (let execution = \<lparr>sx_network_id = net_id n, sx_command_id = command_id, sx_operation = operation,
            sx_contract_id = contract_id, sx_request = request, sx_result = result,
            sx_requested_by_user_id = env_actor e\<rparr>
      in and_then (of_option (IntegrityError ''uq_can_signal_codec_command'')
                     (insert_row sx_key execution (codec_executions s))) (\<lambda>rows.
         Inr (execution, commit_network e ''atep.can.signal.codec.completed.v1'' (''can.signal_'' @ operation)
                (codec_evidence v n command_id operation contract_id result) n
                (s\<lparr>codec_executions := rows\<rparr>))))"

definition encode_request :: "can_signal_encode_command \<Rightarrow> codec_request" where
  "encode_request c = EncodeRequest (se_command_id c) (se_contract_id c) (set (se_values c))"

definition encode_signals ::
  "env \<Rightarrow> vehicle \<times> can_signal_encode_command \<Rightarrow> 'a can_store_scheme
    \<Rightarrow> app_error + (can_signal_codec_execution \<times> can_network \<times> bool) \<times> 'a can_store_scheme" where
  "encode_signals e = (\<lambda>(v, c) s.
     and_then (require_can_network v s) (\<lambda>n.
     case find_execution sx_key n (se_command_id c) (codec_executions s) of
       Some existing \<Rightarrow>
         if sx_request existing \<noteq> encode_request c then Inl CanSignalCodecCommandConflict
         else Inr ((existing, n, True), s)
     | None \<Rightarrow>
     and_then (require_dbc_catalogue n s) (\<lambda>k.
     and_then (find_message (cat_messages k) (se_contract_id c)) (\<lambda>m.
     and_then (contract_of n (se_contract_id c)) (\<lambda>contract.
     and_then (encode_message m (fc_dlc contract) (se_values c)) (\<lambda>result.
     and_then (record_codec e v n (se_command_id c) ''encode'' (se_contract_id c) (encode_request c) result s)
       (\<lambda>(execution, s'). Inr ((execution, n, False), s'))))))))"

definition decode_signals ::
  "env \<Rightarrow> vehicle \<times> can_signal_decode_command \<Rightarrow> 'a can_store_scheme
    \<Rightarrow> app_error + (can_signal_codec_execution \<times> can_network \<times> bool) \<times> 'a can_store_scheme" where
  "decode_signals e = (\<lambda>(v, c) s.
     and_then (require_can_network v s) (\<lambda>n.
     case find_execution sx_key n (sd_command_id c) (codec_executions s) of
       Some existing \<Rightarrow>
         if sx_request existing \<noteq> DecodeRequest c then Inl CanSignalCodecCommandConflict
         else Inr ((existing, n, True), s)
     | None \<Rightarrow>
     and_then (require_dbc_catalogue n s) (\<lambda>k.
     and_then (find_message (cat_messages k) (sd_contract_id c)) (\<lambda>m.
     and_then (contract_of n (sd_contract_id c)) (\<lambda>contract.
     if int (length (sd_payload c)) \<noteq> fc_dlc contract
       then Inl (CanNetworkContract ''payload length must equal the frame contract DLC'')
     else and_then (decode_message m (sd_payload c)) (\<lambda>result.
     and_then (record_codec e v n (sd_command_id c) ''decode'' (sd_contract_id c) (DecodeRequest c) result s)
       (\<lambda>(execution, s'). Inr ((execution, n, False), s'))))))))"

definition list_codec_executions ::
  "can_network \<Rightarrow> nat \<Rightarrow> nat \<Rightarrow> 'a can_store_scheme \<Rightarrow> can_signal_codec_execution list \<times> int" where
  "list_codec_executions n limit offset s =
     (let rows = filter (\<lambda>r. sx_network_id r = net_id n) (codec_executions s)
      in (page limit offset (rev rows), int (length rows)))"

definition require_codec_execution ::
  "can_network \<Rightarrow> string \<Rightarrow> 'a can_store_scheme \<Rightarrow> app_error + can_signal_codec_execution" where
  "require_codec_execution n i s =
     of_option (ResourceNotFound ''can_signal_codec_execution'') (find_execution sx_key n i (codec_executions s))"

section \<open>The command contract\<close>

lemma record_codec_ok:
  assumes "record_codec e v n i operation contract_id request result s = Inr (x, s')"
  shows "sx_key x = (net_id n, i)" "sx_request x = request" "sx_result x = result"
    "\<exists>p. s' = commit_network e ''atep.can.signal.codec.completed.v1'' (''can.signal_'' @ operation) p n
        (s\<lparr>codec_executions := codec_executions s @ [x]\<rparr>)"
  using assms by (auto simp: record_codec_def Let_def ok_simps table_simps sx_key_def)

lemma codec_committed:
  assumes "vehicle_network v s = Some n" "find_execution sx_key n i (codec_executions s) = None"
    and "record_codec e v n i operation contract_id request result s = Inr (x, s')"
  shows "committed 0 sx_key codec_executions v i n s x n s'"
proof -
  obtain p where s': "s' = commit_network e ''atep.can.signal.codec.completed.v1'' (''can.signal_'' @ operation) p n
        (s\<lparr>codec_executions := codec_executions s @ [x]\<rparr>)"
    using record_codec_ok(4)[OF assms(3)] by blast
  have "\<exists>e et ac ev t. s' = commit_network e et ac ev n t \<and> appended s t"
    unfolding s' by (rule exI)+ (rule conjI[OF refl appended_tables(7)])
  moreover have "codec_executions s' = codec_executions s @ [x]" unfolding s' by simp
  ultimately show ?thesis
    using assms(1,2) record_codec_ok(1)[OF assms(3)] unfolding committed_def by auto
qed

lemma encode_first:
  assumes "vehicle_network v s = Some n" "find_execution sx_key n (se_command_id c) (codec_executions s) = None"
    and "encode_signals e (v, c) s = Inr ((r, n', d), s')"
  shows "\<exists>k m contract result. network_catalogue n s = Some k
      \<and> find_message (cat_messages k) (se_contract_id c) = Inr m \<and> contract_of n (se_contract_id c) = Inr contract
      \<and> encode_message m (fc_dlc contract) (se_values c) = Inr result \<and> n' = n \<and> \<not> d
      \<and> record_codec e v n (se_command_id c) ''encode'' (se_contract_id c) (encode_request c) result s = Inr (r, s')"
  using assms by (fastforce simp: encode_signals_def require_can_network_def require_dbc_catalogue_def ok_simps)

lemma decode_first:
  assumes "vehicle_network v s = Some n" "find_execution sx_key n (sd_command_id c) (codec_executions s) = None"
    and "decode_signals e (v, c) s = Inr ((r, n', d), s')"
  shows "\<exists>k m contract result. network_catalogue n s = Some k
      \<and> find_message (cat_messages k) (sd_contract_id c) = Inr m \<and> contract_of n (sd_contract_id c) = Inr contract
      \<and> int (length (sd_payload c)) = fc_dlc contract
      \<and> decode_message m (sd_payload c) = Inr result \<and> n' = n \<and> \<not> d
      \<and> record_codec e v n (sd_command_id c) ''decode'' (sd_contract_id c) (DecodeRequest c) result s = Inr (r, s')"
  using assms
  by (fastforce simp: decode_signals_def require_can_network_def require_dbc_catalogue_def ok_simps split: if_splits)

interpretation encodings: can_handler encode_signals sx_key codec_executions se_command_id
  "\<lambda>c r. sx_request r = encode_request c" CanSignalCodecCommandConflict 0
proof (unfold_locales, goal_cases)
  case (2 s s')
  then show ?case by (rule can_grows_tables)
next
  case (4 v s n c e r n' d s')
  then show ?case using encode_first[OF 4] codec_committed[OF 4(1,2)] record_codec_ok(2) by fast
qed (auto simp: encode_signals_def require_can_network_def)

interpretation decodings: can_handler decode_signals sx_key codec_executions sd_command_id
  "\<lambda>c r. sx_request r = DecodeRequest c" CanSignalCodecCommandConflict 0
proof (unfold_locales, goal_cases)
  case (2 s s')
  then show ?case by (rule can_grows_tables)
next
  case (4 v s n c e r n' d s')
  then show ?case using decode_first[OF 4] codec_committed[OF 4(1,2)] record_codec_ok(2) by fast
qed (auto simp: decode_signals_def require_can_network_def)

section \<open>The catalogue is valid for its network\<close>

lemma check_messages_ok:
  "check_messages n ms = Inr () \<Longrightarrow> m \<in> set ms \<Longrightarrow>
     \<exists>contract. contract_of n (dm_contract_id m) = Inr contract \<and> validate_message m (fc_dlc contract) = Inr ()"
  by (induction n ms rule: check_messages.induct) (auto simp: ok_simps)

lemma create_catalogue_ok:
  assumes "create_dbc_catalogue e v c s = Inr ((k, n'), s')"
  shows "\<exists>n p. vehicle_network v s = Some n \<and> network_catalogue n s = None \<and> dc_expected_version c = net_version n
    \<and> check_messages n (dc_messages c) = Inr () \<and> n' = n\<lparr>net_version := net_version n + 1\<rparr>
    \<and> cat_network_id k = net_id n \<and> cat_messages k = dc_messages c
    \<and> s' = commit_network e ''atep.can.dbc.catalogue.created.v1'' ''can.dbc_catalogue_created'' p n'
             (s\<lparr>catalogues := catalogues s @ [k]\<rparr>)"
  using assms
  by (auto simp: create_dbc_catalogue_def require_can_network_def Let_def ok_simps table_simps split: if_splits)

end
