(* ===== verification/JsonText.thy ===== *)
theory JsonText
  imports AtepText Numerics "HOL-Library.Word" "HOL-Library.List_Lexorder" "HOL-Library.Char_ord"
begin

unbundle bit_operations_syntax

text \<open>
  Canonical JSON and SHA-256, which the services use for request fingerprints and checksums:
  \<open>json.dumps(x, sort_keys=True, separators=(",", ":"))\<close> and \<open>hashlib.sha256\<close>, with the shortest
  round-trip decimal that \<open>repr\<close> prints for a float.
\<close>

section \<open>Floats as text\<close>

definition shortest_digits :: "rat \<Rightarrow> nat" where
  "shortest_digits x =
     (case find (\<lambda>n. fl (round_sig 10 n x) = x) [1..<17] of Some n \<Rightarrow> n | None \<Rightarrow> 17)"

definition positive_repr :: "rat \<Rightarrow> string" where
  "positive_repr x =
     (let n = shortest_digits x; d = round_sig 10 n x; e = expo 10 d;
          digits = nat_base 10 (nat \<lfloor>d * 10 powi (int n - 1 - e)\<rfloor>)
      in if e < - 4 \<or> 16 \<le> e then
           hd digits # (if n = 1 then [] else CHR ''.'' # tl digits) @ ''e''
             @ (if e < 0 then ''-'' else ''+'') @ (let t = nat_base 10 (nat \<bar>e\<bar>) in if length t < 2 then CHR ''0'' # t else t)
         else if e < 0 then ''0.'' @ replicate (nat (- e - 1)) (CHR ''0'') @ digits
         else if int n - 1 \<le> e then digits @ replicate (nat (e - (int n - 1))) (CHR ''0'') @ ''.0''
         else take (nat e + 1) digits @ CHR ''.'' # drop (nat e + 1) digits)"

definition float_repr :: "rat \<Rightarrow> string" where
  "float_repr x = (if x = 0 then ''0.0'' else if x < 0 then CHR ''-'' # positive_repr (- x) else positive_repr x)"

section \<open>Canonical JSON\<close>

definition hex_lower :: "nat \<Rightarrow> nat \<Rightarrow> string" where
  "hex_lower w n = map (\<lambda>c. if is_upper c then char_of (of_char c + 32 :: nat) else c) (hex_pad w (int n))"

definition json_char :: "char \<Rightarrow> string" where
  "json_char c = (let k = of_char c :: nat in
     if k = 34 then [char_of (92 :: nat), c] else if k = 92 then [c, c]
     else if k = 8 then char_of (92 :: nat) # ''b'' else if k = 12 then char_of (92 :: nat) # ''f''
     else if k = 10 then char_of (92 :: nat) # ''n'' else if k = 13 then char_of (92 :: nat) # ''r''
     else if k = 9 then char_of (92 :: nat) # ''t''
     else if k < 32 \<or> 126 < k then char_of (92 :: nat) # CHR ''u'' # hex_lower 4 k else [c])"

definition json_string :: "string \<Rightarrow> string" where
  "json_string s = char_of (34 :: nat) # concat (map json_char s) @ [char_of (34 :: nat)]"

fun comma_join :: "string list \<Rightarrow> string" where
  "comma_join [] = ''''"
| "comma_join [s] = s"
| "comma_join (s # t # rest) = s @ CHR '','' # comma_join (t # rest)"

function json_dumps :: "json \<Rightarrow> string" where
  "json_dumps JNull = ''null''"
| "json_dumps (JBool b) = (if b then ''true'' else ''false'')"
| "json_dumps (JInt n) = int_str n"
| "json_dumps (JFloat x) = float_repr x"
| "json_dumps (JStr s) = json_string s"
| "json_dumps (JArr xs) = CHR ''['' # comma_join (map json_dumps xs) @ '']''"
| "json_dumps (JObj d) = CHR ''{''
     # comma_join (map (\<lambda>(k, v). json_string k @ CHR '':'' # json_dumps v) (sort_key fst d)) @ ''}''"
  by pat_completeness auto
termination
  by (relation "measure size") (auto simp: size_list_estimation' less_Suc_eq_le intro!: size_list_estimation')

section \<open>SHA-256\<close>

text \<open>The standard constants, in decimal.\<close>

definition initial_hash :: "32 word list" where
  "initial_hash = [
     1779033703, 3144134277, 1013904242, 2773480762, 1359893119, 2600822924, 528734635, 1541459225]"

definition round_constants :: "32 word list" where
  "round_constants = [
     1116352408, 1899447441, 3049323471, 3921009573, 961987163, 1508970993, 2453635748, 2870763221,
     3624381080, 310598401, 607225278, 1426881987, 1925078388, 2162078206, 2614888103, 3248222580,
     3835390401, 4022224774, 264347078, 604807628, 770255983, 1249150122, 1555081692, 1996064986,
     2554220882, 2821834349, 2952996808, 3210313671, 3336571891, 3584528711, 113926993, 338241895,
     666307205, 773529912, 1294757372, 1396182291, 1695183700, 1986661051, 2177026350, 2456956037,
     2730485921, 2820302411, 3259730800, 3345764771, 3516065817, 3600352804, 4094571909, 275423344,
     430227734, 506948616, 659060556, 883997877, 958139571, 1322822218, 1537002063, 1747873779,
     1955562222, 2024104815, 2227730452, 2361852424, 2428436474, 2756734187, 3204031479, 3329325298]"

definition rotr :: "nat \<Rightarrow> 32 word \<Rightarrow> 32 word" where
  "rotr k x = drop_bit k x OR push_bit (32 - k) x"

definition big_sigma0 :: "32 word \<Rightarrow> 32 word" where
  "big_sigma0 x = rotr 2 x XOR rotr 13 x XOR rotr 22 x"

definition big_sigma1 :: "32 word \<Rightarrow> 32 word" where
  "big_sigma1 x = rotr 6 x XOR rotr 11 x XOR rotr 25 x"

definition small_sigma0 :: "32 word \<Rightarrow> 32 word" where
  "small_sigma0 x = rotr 7 x XOR rotr 18 x XOR drop_bit 3 x"

definition small_sigma1 :: "32 word \<Rightarrow> 32 word" where
  "small_sigma1 x = rotr 17 x XOR rotr 19 x XOR drop_bit 10 x"

text \<open>The message schedule: the last sixteen words give the next one.\<close>

fun schedule_words :: "nat \<Rightarrow> 32 word list \<Rightarrow> 32 word list" where
  "schedule_words 0 ws = []"
| "schedule_words (Suc k) ws =
     hd ws # schedule_words k (tl ws @ [small_sigma1 (ws ! 14) + ws ! 9 + small_sigma0 (ws ! 1) + hd ws])"

fun compress_round :: "32 word list \<Rightarrow> 32 word \<times> 32 word \<Rightarrow> 32 word list" where
  "compress_round [a, b, c, d, e, f, g, h] (k, w) =
     (let t1 = h + big_sigma1 e + ((e AND f) XOR (NOT e AND g)) + k + w;
          t2 = big_sigma0 a + ((a AND b) XOR (a AND c) XOR (b AND c))
      in [t1 + t2, a, b, c, d + t1, e, f, g])"
| "compress_round hash _ = hash"

definition compress :: "32 word list \<Rightarrow> 32 word list \<Rightarrow> 32 word list" where
  "compress hash block =
     map2 (+) hash (foldl compress_round hash (zip round_constants (schedule_words 64 block)))"

definition bytes_word :: "nat list \<Rightarrow> 32 word" where
  "bytes_word bs = foldl (\<lambda>acc b. push_bit 8 acc OR of_nat b) 0 bs"

definition word_bytes :: "32 word \<Rightarrow> nat list" where
  "word_bytes w = map (\<lambda>k. unat (drop_bit k w AND 255)) [24, 16, 8, 0]"

fun chunks :: "nat \<Rightarrow> nat \<Rightarrow> 'b list \<Rightarrow> 'b list list" where
  "chunks 0 k xs = []"
| "chunks (Suc count) k xs = take k xs # chunks count k (drop k xs)"

definition pad_message :: "nat list \<Rightarrow> nat list" where
  "pad_message bs = (let n = length bs in
     bs @ [128] @ replicate ((119 - n mod 64) mod 64) 0
        @ map (\<lambda>k. (n * 8) div 2 ^ k mod 256) [56, 48, 40, 32, 24, 16, 8, 0])"

definition sha256_digest :: "nat list \<Rightarrow> nat list" where
  "sha256_digest bs = (let m = pad_message bs in
     concat (map word_bytes (foldl (\<lambda>h block. compress h (map bytes_word (chunks 16 4 block)))
       initial_hash (chunks (length m div 64) 64 m))))"

definition hexdigest :: "nat list \<Rightarrow> string" where
  "hexdigest bs = concat (map (hex_lower 2) bs)"

definition encode_text :: "string \<Rightarrow> nat list" where
  "encode_text s = map of_char s"

text \<open>\<open>sha256(text.encode()).hexdigest()\<close>; the texts hashed here are ASCII.\<close>

definition sha256_hex :: "string \<Rightarrow> string" where
  "sha256_hex s = hexdigest (sha256_digest (encode_text s))"

end
