(* ===== verification/CanMultibus.thy ===== *)
theory CanMultibus
  imports CanArbitration JsonText
begin

text \<open>
  LIN and Ethernet transports, gateway routes and their execution:
  \<open>src/src/atep/can_network/multibus_service.py\<close>.
\<close>

section \<open>Validating a configuration\<close>

text \<open>Dictionaries built from a sequence of items: the last item of a key wins.\<close>

definition node_roles :: "can_network \<Rightarrow> uuid \<Rightarrow> CanNodeRole option" where
  "node_roles n = map_of (rev (map (\<lambda>k. (cn_ecu_id k, cn_role k)) (net_nodes n)))"

definition lin_items :: "multibus_configuration_command \<Rightarrow> (lin_frame_contract \<times> int) list" where
  "lin_items c = concat (map (\<lambda>ch. map (\<lambda>f. (f, lc_bitrate_kbps ch)) (lc_frames ch)) (mc_lin_channels c))"

definition ethernet_items :: "multibus_configuration_command \<Rightarrow> (ethernet_message_contract \<times> int) list" where
  "ethernet_items c = concat (map (\<lambda>sg. map (\<lambda>m. (m, es_speed_mbps sg)) (es_messages sg)) (mc_ethernet_segments c))"

definition lin_contracts :: "multibus_configuration_command \<Rightarrow> string \<Rightarrow> (lin_frame_contract \<times> int) option" where
  "lin_contracts c = map_of (rev (map (\<lambda>x. (lf_identifier (fst x), x)) (lin_items c)))"

definition ethernet_contracts ::
  "multibus_configuration_command \<Rightarrow> string \<Rightarrow> (ethernet_message_contract \<times> int) option" where
  "ethernet_contracts c = map_of (rev (map (\<lambda>x. (em_identifier (fst x), x)) (ethernet_items c)))"

definition payload_length ::
  "can_network \<Rightarrow> VehicleBusProtocol \<Rightarrow> string \<Rightarrow> (string \<Rightarrow> (lin_frame_contract \<times> int) option)
    \<Rightarrow> (string \<Rightarrow> (ethernet_message_contract \<times> int) option) \<Rightarrow> app_error + int" where
  "payload_length n protocol identifier lin ethernet =
     (case protocol of
        CAN \<Rightarrow> and_then (contract_of n identifier) (\<lambda>c. Inr (fc_dlc c))
      | LIN \<Rightarrow> (case lin identifier of
                  Some (f, _) \<Rightarrow> Inr (lf_payload_length f)
                | None \<Rightarrow> Inl (MultiBusGatewayContract (protocol_value LIN @ '' contract does not exist'')))
      | ETHERNET \<Rightarrow> (case ethernet identifier of
                  Some (m, _) \<Rightarrow> Inr (em_payload_length m)
                | None \<Rightarrow> Inl (MultiBusGatewayContract (protocol_value ETHERNET @ '' contract does not exist''))))"

fun check_routes ::
  "can_network \<Rightarrow> multibus_configuration_command \<Rightarrow> gateway_route_contract list \<Rightarrow> app_error + unit" where
  "check_routes n c [] = Inr ()"
| "check_routes n c (r # rest) =
     (if node_roles n (gr_gateway_node_id r) \<noteq> Some GATEWAY
        then Inl (MultiBusGatewayContract ''gateway route node must have gateway role'')
      else and_then (payload_length n (gr_source_protocol r) (gr_source_contract_id r)
                       (lin_contracts c) (ethernet_contracts c)) (\<lambda>source_length.
           and_then (payload_length n (gr_destination_protocol r) (gr_destination_contract_id r)
                       (lin_contracts c) (ethernet_contracts c)) (\<lambda>destination_length.
           if source_length \<noteq> destination_length
             then Inl (MultiBusGatewayContract
               ''transparent routes require equal source and destination payload lengths'')
           else check_routes n c rest)))"

definition lin_referenced :: "lin_channel_contract \<Rightarrow> uuid set" where
  "lin_referenced ch = insert (lc_master_node_id ch)
     (\<Union>f\<in>set (lc_frames ch). insert (lf_publisher_node_id f) (set (lf_subscriber_node_ids f)))"

definition ethernet_referenced :: "ethernet_segment_contract \<Rightarrow> uuid set" where
  "ethernet_referenced sg =
     (\<Union>m\<in>set (es_messages sg). insert (em_source_node_id m) (set (em_destination_node_ids m)))"

definition validate_configuration :: "can_network \<Rightarrow> multibus_configuration_command \<Rightarrow> app_error + unit" where
  "validate_configuration n c =
     (let known = set (map cn_ecu_id (net_nodes n));
          lin_ids = map (\<lambda>x. lf_identifier (fst x)) (lin_items c);
          ethernet_ids = map (\<lambda>x. em_identifier (fst x)) (ethernet_items c) in
      if \<not> distinct lin_ids \<or> \<not> distinct ethernet_ids
        then Inl (MultiBusGatewayContract ''transport contract identifiers must be unique'')
      else if list_ex (\<lambda>ch. \<not> lin_referenced ch \<subseteq> known) (mc_lin_channels c)
        then Inl (MultiBusGatewayContract ''LIN contracts may reference only CAN nodes'')
      else if list_ex (\<lambda>sg. \<not> ethernet_referenced sg \<subseteq> known) (mc_ethernet_segments c)
        then Inl (MultiBusGatewayContract ''Ethernet contracts may reference only CAN nodes'')
      else if \<not> distinct (map gr_identifier (mc_gateway_routes c))
        then Inl (MultiBusGatewayContract ''gateway route identifiers must be unique'')
      else check_routes n c (mc_gateway_routes c))"

section \<open>Configuring\<close>

definition configure_result :: "multibus_configuration_command \<Rightarrow> dict" where
  "configure_result c = [
     (''lin_channel_count'', JInt (int (length (mc_lin_channels c)))),
     (''lin_frame_count'', JInt (int (sum_list (map (\<lambda>ch. length (lc_frames ch)) (mc_lin_channels c))))),
     (''ethernet_segment_count'', JInt (int (length (mc_ethernet_segments c)))),
     (''ethernet_message_count'', JInt (int (sum_list (map (\<lambda>sg. length (es_messages sg)) (mc_ethernet_segments c))))),
     (''gateway_route_count'', JInt (int (length (mc_gateway_routes c))))]"

definition gateway_evidence ::
  "vehicle \<Rightarrow> can_network \<Rightarrow> string \<Rightarrow> dict \<Rightarrow> dict \<Rightarrow> int \<Rightarrow> dict" where
  "gateway_evidence v n command_id route result previous_version =
     dict_update ([(''vehicle_id'', JStr (veh_identifier v)), (''network_id'', JStr (net_identifier n)),
       (''command_id'', JStr command_id)] @ route)
       (result @ [(''previous_version'', JInt previous_version), (''network_version'', JInt (net_version n))])"

definition configured_network :: "can_network \<Rightarrow> multibus_configuration_command \<Rightarrow> can_network" where
  "configured_network n c = n\<lparr>net_lin_channels := mc_lin_channels c, net_ethernet_segments := mc_ethernet_segments c,
     net_gateway_routes := mc_gateway_routes c, net_version := net_version n + 1\<rparr>"

definition configure_multibus ::
  "env \<Rightarrow> vehicle \<times> multibus_configuration_command \<Rightarrow> 'a can_store_scheme
    \<Rightarrow> app_error + (multibus_gateway_execution \<times> can_network \<times> bool) \<times> 'a can_store_scheme" where
  "configure_multibus e = (\<lambda>(v, c) s.
     and_then (require_can_network v s) (\<lambda>n.
     case find_execution gx_key n (mc_command_id c) (gateway_executions s) of
       Some item \<Rightarrow>
         if gx_request item \<noteq> ConfigureRequest c then Inl MultiBusGatewayCommandConflict
         else Inr ((item, n, True), s)
     | None \<Rightarrow>
     if mc_expected_version c \<noteq> net_version n then Inl (CanNetworkVersionConflict (net_version n))
     else and_then (validate_configuration n c) (\<lambda>_.
     let n' = configured_network n c;
         execution = \<lparr>gx_network_id = net_id n, gx_command_id = mc_command_id c, gx_operation = ''configure'',
           gx_route_id = None, gx_request = ConfigureRequest c, gx_result = configure_result c,
           gx_previous_version = net_version n, gx_network_version = net_version n + 1,
           gx_requested_by_user_id = env_actor e\<rparr>
     in and_then (of_option (IntegrityError ''uq_multibus_gateway_command'')
                    (insert_row gx_key execution (gateway_executions s))) (\<lambda>rows.
        Inr ((execution, n', False),
          commit_network e ''atep.vehicle.multibus.configured.v1'' ''vehicle.multibus_configured''
            (gateway_evidence v n' (mc_command_id c) [] (configure_result c) (net_version n)) n'
            (s\<lparr>gateway_executions := rows\<rparr>))))))"

section \<open>Stored routes\<close>

fun find_route :: "gateway_route_contract list \<Rightarrow> string \<Rightarrow> app_error + gateway_route_contract" where
  "find_route [] route_id = Inl (MultiBusGatewayContract ''gateway route does not exist'')"
| "find_route (r # rest) route_id = (if gr_identifier r = route_id then Inr r else find_route rest route_id)"

definition stored_route :: "can_network \<Rightarrow> string \<Rightarrow> app_error + gateway_route_contract" where
  "stored_route n route_id = find_route (net_gateway_routes n) route_id"

definition missing_destination :: "app_error + 'b" where
  "missing_destination = Inl (MultiBusGatewayContract ''route destination contract does not exist'')"

definition lin_destination :: "lin_frame_contract \<times> int \<Rightarrow> int \<times> int \<times> dict" where
  "lin_destination = (\<lambda>(frame, bitrate). let bits = 43 + 10 * lf_payload_length frame in
     (lf_payload_length frame, py_ceil (py_truediv (bits * 1000) bitrate),
      [(''bit_count'', JInt bits), (''bitrate_kbps'', JInt bitrate)]))"

definition ethernet_destination :: "ethernet_message_contract \<times> int \<Rightarrow> int \<times> int \<times> dict" where
  "ethernet_destination = (\<lambda>(message, speed). let bits = (38 + em_payload_length message) * 8 in
     (em_payload_length message, py_ceil (py_truediv bits speed),
      [(''bit_count'', JInt bits), (''speed_mbps'', JInt speed)]))"

text \<open>The nested loops over channels and frames: the first frame with the identifier.\<close>

definition stored_destination :: "can_network \<Rightarrow> gateway_route_contract \<Rightarrow> app_error + int \<times> int \<times> dict" where
  "stored_destination n r =
     (case gr_destination_protocol r of
        CAN \<Rightarrow> and_then (contract_of n (gr_destination_contract_id r)) (\<lambda>contract.
                 let t = frame_timing contract n in
                 Inr (fc_dlc contract, timing_duration_us t,
                      [(''bit_count'', JInt (tm_bit_count t)), (''bitrate_kbps'', JInt (net_bitrate_kbps n))]))
      | LIN \<Rightarrow> (case find (\<lambda>x. lf_identifier (fst x) = gr_destination_contract_id r)
                       (concat (map (\<lambda>ch. map (\<lambda>f. (f, lc_bitrate_kbps ch)) (lc_frames ch)) (net_lin_channels n))) of
                  Some x \<Rightarrow> Inr (lin_destination x)
                | None \<Rightarrow> missing_destination)
      | ETHERNET \<Rightarrow> (case find (\<lambda>x. em_identifier (fst x) = gr_destination_contract_id r)
                       (concat (map (\<lambda>sg. map (\<lambda>m. (m, es_speed_mbps sg)) (es_messages sg)) (net_ethernet_segments n))) of
                  Some x \<Rightarrow> Inr (ethernet_destination x)
                | None \<Rightarrow> missing_destination))"

section \<open>Executing a route\<close>

definition route_result ::
  "can_network \<Rightarrow> gateway_route_contract \<Rightarrow> int \<Rightarrow> int \<Rightarrow> int \<Rightarrow> dict \<Rightarrow> dict" where
  "route_result n r length_bytes started duration timing =
     dict_update [(''sequence'', JInt (net_next_sequence n)),
       (''source_protocol'', JStr (protocol_value (gr_source_protocol r))),
       (''source_contract_id'', JStr (gr_source_contract_id r)),
       (''destination_protocol'', JStr (protocol_value (gr_destination_protocol r))),
       (''destination_contract_id'', JStr (gr_destination_contract_id r)),
       (''gateway_node_id'', JStr (gr_gateway_node_id r)), (''payload_length'', JInt length_bytes),
       (''started_at_us'', JInt started), (''completed_at_us'', JInt (started + duration)),
       (''duration_us'', JInt duration)] timing"

definition execute_gateway_route ::
  "env \<Rightarrow> vehicle \<times> gateway_route_command \<Rightarrow> 'a can_store_scheme
    \<Rightarrow> app_error + (multibus_gateway_execution \<times> can_network \<times> bool) \<times> 'a can_store_scheme" where
  "execute_gateway_route e = (\<lambda>(v, c) s.
     and_then (require_can_network v s) (\<lambda>n.
     case find_execution gx_key n (rc_command_id c) (gateway_executions s) of
       Some item \<Rightarrow>
         if gx_request item \<noteq> RouteRequest c then Inl MultiBusGatewayCommandConflict
         else Inr ((item, n, True), s)
     | None \<Rightarrow>
     if rc_expected_version c \<noteq> net_version n then Inl (CanNetworkVersionConflict (net_version n))
     else and_then (stored_route n (rc_route_id c)) (\<lambda>r.
     and_then (stored_destination n r) (\<lambda>(length_bytes, duration, timing).
     if int (length (rc_payload c)) \<noteq> length_bytes
       then Inl (MultiBusGatewayContract ''payload length must equal the routed contract'')
     else
     let started = net_simulation_time_us n + rc_advance_time_us c;
         n' = n\<lparr>net_simulation_time_us := started + duration,
                net_next_sequence := net_next_sequence n + 1, net_version := net_version n + 1\<rparr>;
         result = route_result n r length_bytes started duration timing;
         execution = \<lparr>gx_network_id = net_id n, gx_command_id = rc_command_id c, gx_operation = ''route'',
           gx_route_id = Some (gr_identifier r), gx_request = RouteRequest c, gx_result = result,
           gx_previous_version = net_version n, gx_network_version = net_version n + 1,
           gx_requested_by_user_id = env_actor e\<rparr>
     in and_then (of_option (IntegrityError ''uq_multibus_gateway_command'')
                    (insert_row gx_key execution (gateway_executions s))) (\<lambda>rows.
        Inr ((execution, n', False),
          commit_network e ''atep.vehicle.gateway.routed.v1'' ''vehicle.gateway_routed''
            (gateway_evidence v n' (rc_command_id c) [(''route_id'', JStr (gr_identifier r))] result
               (net_version n)) n'
            (s\<lparr>gateway_executions := rows\<rparr>)))))))"

definition list_gateway_executions ::
  "can_network \<Rightarrow> nat \<Rightarrow> nat \<Rightarrow> 'a can_store_scheme \<Rightarrow> multibus_gateway_execution list \<times> int" where
  "list_gateway_executions n limit offset s =
     (let rows = filter (\<lambda>r. gx_network_id r = net_id n) (gateway_executions s)
      in (page limit offset (rev rows), int (length rows)))"

definition require_gateway_execution ::
  "can_network \<Rightarrow> string \<Rightarrow> 'a can_store_scheme \<Rightarrow> app_error + multibus_gateway_execution" where
  "require_gateway_execution n i s =
     of_option (ResourceNotFound ''multibus_gateway_execution'') (find_execution gx_key n i (gateway_executions s))"

section \<open>The command contract\<close>

lemma configure_first:
  assumes "vehicle_network v s = Some n" "find_execution gx_key n (mc_command_id c) (gateway_executions s) = None"
    and "configure_multibus e (v, c) s = Inr ((r, n', d), s')"
  shows "\<not> d" "gx_request r = ConfigureRequest c" "gx_key r = (net_id n, mc_command_id c)"
    and "mc_expected_version c = net_version n" "validate_configuration n c = Inr ()"
    and "n' = configured_network n c"
    and "\<exists>p. s' = commit_network e ''atep.vehicle.multibus.configured.v1'' ''vehicle.multibus_configured'' p n'
           (s\<lparr>gateway_executions := gateway_executions s @ [r]\<rparr>)"
  using assms
  by (auto simp: configure_multibus_def require_can_network_def Let_def ok_simps table_simps gx_key_def
      split: if_splits)

lemma route_first:
  assumes "vehicle_network v s = Some n" "find_execution gx_key n (rc_command_id c) (gateway_executions s) = None"
    and "execute_gateway_route e (v, c) s = Inr ((x, n', d), s')"
  shows "\<not> d" "gx_request x = RouteRequest c" "gx_key x = (net_id n, rc_command_id c)"
    and "rc_expected_version c = net_version n"
    and "\<exists>r len dur timing. stored_route n (rc_route_id c) = Inr r \<and> stored_destination n r = Inr (len, dur, timing)
      \<and> int (length (rc_payload c)) = len
      \<and> n' = n\<lparr>net_simulation_time_us := net_simulation_time_us n + rc_advance_time_us c + dur,
               net_next_sequence := net_next_sequence n + 1, net_version := net_version n + 1\<rparr>"
    and "\<exists>p. s' = commit_network e ''atep.vehicle.gateway.routed.v1'' ''vehicle.gateway_routed'' p n'
           (s\<lparr>gateway_executions := gateway_executions s @ [x]\<rparr>)"
  using assms
  by (auto simp: execute_gateway_route_def require_can_network_def Let_def ok_simps table_simps gx_key_def
      split: if_splits)

lemma configure_committed:
  assumes "vehicle_network v s = Some n" "find_execution gx_key n (mc_command_id c) (gateway_executions s) = None"
    and "configure_multibus e (v, c) s = Inr ((r, n', d), s')"
  shows "committed 1 gx_key gateway_executions v (mc_command_id c) n s r n' s'"
  using configure_first(3,6,7)[OF assms] assms(1,2)
  by (auto simp: committed_def configured_network_def intro!: exI appended_tables)

lemma route_committed:
  assumes "vehicle_network v s = Some n" "find_execution gx_key n (rc_command_id c) (gateway_executions s) = None"
    and "execute_gateway_route e (v, c) s = Inr ((x, n', d), s')"
  shows "committed 1 gx_key gateway_executions v (rc_command_id c) n s x n' s'"
  using route_first(3,5,6)[OF assms] assms(1,2)
  by (auto simp: committed_def intro!: exI appended_tables)

interpretation configurations: can_versioned_handler configure_multibus gx_key gateway_executions mc_command_id
  "\<lambda>c r. gx_request r = ConfigureRequest c" MultiBusGatewayCommandConflict mc_expected_version
proof (unfold_locales, goal_cases)
  case (2 s s')
  then show ?case by (rule can_grows_tables)
next
  case (4 v s n c e r n' d s')
  then show ?case using configure_first(1,2)[OF 4] configure_committed[OF 4] by simp
qed (auto simp: configure_multibus_def require_can_network_def)

interpretation routings: can_versioned_handler execute_gateway_route gx_key gateway_executions rc_command_id
  "\<lambda>c r. gx_request r = RouteRequest c" MultiBusGatewayCommandConflict rc_expected_version
proof (unfold_locales, goal_cases)
  case (2 s s')
  then show ?case by (rule can_grows_tables)
next
  case (4 v s n c e r n' d s')
  then show ?case using route_first(1,2)[OF 4] route_committed[OF 4] by simp
qed (auto simp: execute_gateway_route_def require_can_network_def)

section \<open>Configured routes resolve\<close>

text \<open>With distinct keys the dictionary and the search in the stored lists agree.\<close>

lemma map_of_rev_find:
  "distinct (map k xs) \<Longrightarrow> map_of (rev (map (\<lambda>x. (k x, x)) xs)) i = find (\<lambda>x. k x = i) xs"
proof (induction xs)
  case (Cons x xs)
  have "map_of (rev (map (\<lambda>x. (k x, x)) xs)) (k x) = None"
    using Cons.prems by (force simp: map_of_eq_None_iff)
  then show ?case using Cons by (auto simp: map_add_def split: option.splits)
qed simp

definition destination_length :: "can_network \<Rightarrow> gateway_route_contract \<Rightarrow> app_error + int" where
  "destination_length n r = and_then (stored_destination n r) (\<lambda>(len, _). Inr len)"

lemma destination_length_configured:
  assumes "distinct (map (\<lambda>x. lf_identifier (fst x)) (lin_items c))"
    and "distinct (map (\<lambda>x. em_identifier (fst x)) (ethernet_items c))"
    and "payload_length n (gr_destination_protocol r) (gr_destination_contract_id r)
           (lin_contracts c) (ethernet_contracts c) = Inr len"
  shows "destination_length (configured_network n c) r = Inr len"
  using assms(3) map_of_rev_find[OF assms(1)] map_of_rev_find[OF assms(2)]
  by (auto simp: destination_length_def stored_destination_def payload_length_def configured_network_def
      contract_of_def lin_contracts_def ethernet_contracts_def lin_items_def ethernet_items_def
      lin_destination_def ethernet_destination_def Let_def ok_simps
      split: VehicleBusProtocol.splits option.splits)

lemma check_routes_ok:
  assumes "check_routes n c rs = Inr ()" "r \<in> set rs"
  shows "node_roles n (gr_gateway_node_id r) = Some GATEWAY"
    and "\<exists>len. payload_length n (gr_source_protocol r) (gr_source_contract_id r)
           (lin_contracts c) (ethernet_contracts c) = Inr len
      \<and> payload_length n (gr_destination_protocol r) (gr_destination_contract_id r)
           (lin_contracts c) (ethernet_contracts c) = Inr len"
  using assms by (induction n c rs rule: check_routes.induct) (auto simp: ok_simps split: if_splits)

definition routes_resolve :: "can_network \<Rightarrow> bool" where
  "routes_resolve n \<longleftrightarrow> (\<forall>r\<in>set (net_gateway_routes n).
     node_roles n (gr_gateway_node_id r) = Some GATEWAY \<and> (\<exists>len. destination_length n r = Inr len))"

lemma validate_configuration_ok:
  assumes "validate_configuration n c = Inr ()"
  shows "routes_resolve (configured_network n c)"
proof -
  have d: "distinct (map (\<lambda>x. lf_identifier (fst x)) (lin_items c))"
    "distinct (map (\<lambda>x. em_identifier (fst x)) (ethernet_items c))"
    and rs: "check_routes n c (mc_gateway_routes c) = Inr ()"
    using assms by (auto simp: validate_configuration_def Let_def split: if_splits)
  have "node_roles (configured_network n c) = node_roles n"
    by (simp add: node_roles_def configured_network_def)
  then show ?thesis
    using check_routes_ok[OF rs] destination_length_configured[OF d]
    by (fastforce simp: routes_resolve_def configured_network_def)
qed

lemma find_route_Inr: "find_route rs i = Inr r \<Longrightarrow> r \<in> set rs \<and> gr_identifier r = i"
  by (induction rs i rule: find_route.induct) (auto split: if_splits)

lemma find_route_total: "i \<in> gr_identifier ` set rs \<Longrightarrow> \<exists>r. find_route rs i = Inr r"
  by (induction rs i rule: find_route.induct) auto

end
