(* ===== verification/CanCampaign.thy ===== *)
theory CanCampaign
  imports CanMultibus
begin

text \<open>
  Multi-bus campaigns: \<open>execute_multibus_campaign\<close> of
  \<open>src/src/atep/can_network/multibus_service.py\<close>. The steps are resolved before anything changes;
  the loop then advances the simulated time and counts outcomes in local variables, which are the
  fields of \<open>campaign_state\<close>.
\<close>

section \<open>Fingerprint and summary\<close>

definition step_json :: "multibus_campaign_step \<Rightarrow> json" where
  "step_json st = JObj [(''identifier'', JStr (ms_identifier st)), (''route_id'', JStr (ms_route_id st)),
     (''payload'', JArr (map JInt (ms_payload st))), (''advance_time_us'', JInt (ms_advance_time_us st)),
     (''latency_budget_us'', jopt JInt (ms_latency_budget_us st)),
     (''fault'', JStr (campaign_fault_value (ms_fault st)))]"

definition campaign_json :: "multibus_campaign_command \<Rightarrow> json" where
  "campaign_json c = JObj [(''command_id'', JStr (mp_command_id c)),
     (''expected_version'', JInt (mp_expected_version c)), (''steps'', JArr (map step_json (mp_steps c)))]"

definition campaign_fingerprint :: "multibus_campaign_command \<Rightarrow> string" where
  "campaign_fingerprint c = sha256_hex (json_dumps (campaign_json c))"

definition campaign_summary :: "multibus_campaign_command \<Rightarrow> json" where
  "campaign_summary c = JObj [(''expected_version'', JInt (mp_expected_version c)),
     (''steps'', JArr (map (\<lambda>st. JObj [(''identifier'', JStr (ms_identifier st)),
        (''route_id'', JStr (ms_route_id st)), (''payload_length'', JInt (int (length (ms_payload st)))),
        (''advance_time_us'', JInt (ms_advance_time_us st)),
        (''latency_budget_us'', jopt JInt (ms_latency_budget_us st)),
        (''fault'', JStr (campaign_fault_value (ms_fault st)))]) (mp_steps c)))]"

section \<open>The ninety-fifth percentile\<close>

definition percentile_95 :: "int list \<Rightarrow> int" where
  "percentile_95 latencies =
     (if latencies = [] then 0
      else let ordered = sort latencies in
        ordered ! nat (py_ceil (fl (of_int (int (length ordered)) * fl (95/100))) - 1))"

section \<open>Resolving the steps\<close>

type_synonym prepared = "gateway_route_contract \<times> int \<times> int \<times> dict"

text \<open>\<open>except MultiBusGatewayContractError\<close>: only that error is replaced.\<close>

definition as_campaign_error :: "string \<Rightarrow> app_error + 'b \<Rightarrow> app_error + 'b" where
  "as_campaign_error step_id r =
     (case r of
        Inl (MultiBusGatewayContract _) \<Rightarrow>
          Inl (MultiBusCampaignContract (''step '' @ step_id @ '' references an invalid gateway route''))
      | _ \<Rightarrow> r)"

definition prepare_step :: "can_network \<Rightarrow> multibus_campaign_step \<Rightarrow> app_error + prepared" where
  "prepare_step n st =
     and_then (as_campaign_error (ms_identifier st)
        (and_then (stored_route n (ms_route_id st)) (\<lambda>r.
         and_then (stored_destination n r) (\<lambda>(len, dur, timing). Inr (r, len, dur, timing)))))
       (\<lambda>(r, len, dur, timing).
        if int (length (ms_payload st)) \<noteq> len
          then Inl (MultiBusCampaignContract
            (''step '' @ ms_identifier st @ '' payload length must equal its routed contract''))
        else Inr (r, len, dur, timing))"

section \<open>The loop\<close>

record campaign_state =
  cs_next_sequence :: int
  cs_simulation_time_us :: int
  cs_traces :: "campaign_trace list"
  cs_latencies :: "int list"
  cs_protocol_counts :: "(VehicleBusProtocol \<times> int) list"
  cs_occupied_us :: int
  cs_idle_us :: int
  cs_delivered :: int
  cs_failed :: int
  cs_violations :: int

definition campaign_step :: "int \<Rightarrow> multibus_campaign_step \<times> prepared \<Rightarrow> campaign_state \<Rightarrow> campaign_state" where
  "campaign_step index = (\<lambda>(st, (r, len, route_duration, timing)) x.
     (let idle = cs_idle_us x + ms_advance_time_us st;
          started = cs_simulation_time_us x + ms_advance_time_us st;
          counts = AList.update (gr_destination_protocol r)
            (the (map_of (cs_protocol_counts x) (gr_destination_protocol r)) + 1) (cs_protocol_counts x);
          unavailable = ms_fault st = GATEWAY_UNAVAILABLE;
          lost = ms_fault st = CAMPAIGN_FRAME_LOSS;
          sequence = (if unavailable then None else Some (cs_next_sequence x));
          duration = (if unavailable then 0 else route_duration);
          completed = started + duration;
          exceeded = (case ms_latency_budget_us st of None \<Rightarrow> False | Some b \<Rightarrow> duration > b);
          outcome = (if unavailable \<or> lost then ''failed''
                     else if exceeded then ''performance_violation'' else ''delivered'');
          trace = \<lparr>tc_step = index, tc_step_id = ms_identifier st, tc_route_id = gr_identifier r,
            tc_source_protocol = gr_source_protocol r, tc_destination_protocol = gr_destination_protocol r,
            tc_payload_length = len, tc_fault = ms_fault st, tc_outcome = outcome,
            tc_failure_reason = (if unavailable \<or> lost then Some (campaign_fault_value (ms_fault st)) else None),
            tc_budget_exceeded = exceeded, tc_sequence = sequence, tc_started_at_us = started,
            tc_completed_at_us = completed, tc_duration_us = duration,
            tc_timing = (if unavailable then [] else timing)\<rparr>
      in \<lparr>cs_next_sequence = (if unavailable then cs_next_sequence x else cs_next_sequence x + 1),
          cs_simulation_time_us = completed, cs_traces = cs_traces x @ [trace],
          cs_latencies = (if unavailable then cs_latencies x else cs_latencies x @ [duration]),
          cs_protocol_counts = counts, cs_occupied_us = cs_occupied_us x + duration, cs_idle_us = idle,
          cs_delivered = cs_delivered x + (if unavailable \<or> lost then 0 else 1),
          cs_failed = cs_failed x + (if unavailable \<or> lost then 1 else 0),
          cs_violations = cs_violations x + (if exceeded then 1 else 0)\<rparr>))"

fun campaign_loop :: "int \<Rightarrow> (multibus_campaign_step \<times> prepared) list \<Rightarrow> campaign_state \<Rightarrow> campaign_state" where
  "campaign_loop index [] x = x"
| "campaign_loop index (step # rest) x = campaign_loop (index + 1) rest (campaign_step index step x)"

definition initial_campaign_state :: "can_network \<Rightarrow> campaign_state" where
  "initial_campaign_state n =
     \<lparr>cs_next_sequence = net_next_sequence n, cs_simulation_time_us = net_simulation_time_us n,
      cs_traces = [], cs_latencies = [], cs_protocol_counts = [(CAN, 0), (LIN, 0), (ETHERNET, 0)],
      cs_occupied_us = 0, cs_idle_us = 0, cs_delivered = 0, cs_failed = 0, cs_violations = 0\<rparr>"

definition campaign_status :: "campaign_state \<Rightarrow> string" where
  "campaign_status x =
     (if cs_failed x \<noteq> 0 then ''failed''
      else if cs_violations x \<noteq> 0 then ''performance_degraded'' else ''passed'')"

definition campaign_utilization :: "int \<Rightarrow> int \<Rightarrow> rat" where
  "campaign_utilization occupied window =
     (if window \<noteq> 0 then py_round (py_truediv (occupied * 100) window) 6 else 0)"

definition campaign_result_of :: "can_network \<Rightarrow> multibus_campaign_command \<Rightarrow> campaign_state \<Rightarrow> campaign_result" where
  "campaign_result_of n c x =
     (let window = cs_simulation_time_us x - net_simulation_time_us n in
      \<lparr>cp_status = campaign_status x, cp_step_count = int (length (mp_steps c)),
       cp_delivered_count = cs_delivered x, cp_failed_count = cs_failed x,
       cp_budget_violation_count = cs_violations x, cp_protocol_counts = cs_protocol_counts x,
       cp_started_at_us = net_simulation_time_us n, cp_completed_at_us = cs_simulation_time_us x,
       cp_window_us = window, cp_occupied_us = cs_occupied_us x, cp_idle_us = cs_idle_us x,
       cp_utilization_percent = campaign_utilization (cs_occupied_us x) window,
       cp_maximum_latency_us = (if cs_latencies x = [] then 0 else Max (set (cs_latencies x))),
       cp_p95_latency_us = percentile_95 (cs_latencies x), cp_traces = cs_traces x\<rparr>)"

definition campaign_evidence :: "vehicle \<Rightarrow> can_network \<Rightarrow> multibus_campaign_command \<Rightarrow> campaign_result \<Rightarrow> int \<Rightarrow> dict" where
  "campaign_evidence v n c r previous_version = [
     (''vehicle_id'', JStr (veh_identifier v)), (''network_id'', JStr (net_identifier n)),
     (''command_id'', JStr (mp_command_id c)), (''status'', JStr (cp_status r)),
     (''step_count'', JInt (cp_step_count r)), (''delivered_count'', JInt (cp_delivered_count r)),
     (''failed_count'', JInt (cp_failed_count r)),
     (''budget_violation_count'', JInt (cp_budget_violation_count r)),
     (''window_us'', JInt (cp_window_us r)), (''occupied_us'', JInt (cp_occupied_us r)),
     (''utilization_percent'', JFloat (cp_utilization_percent r)),
     (''maximum_latency_us'', JInt (cp_maximum_latency_us r)),
     (''previous_version'', JInt previous_version), (''network_version'', JInt (net_version n))]"

section \<open>The handler\<close>

definition execute_multibus_campaign ::
  "env \<Rightarrow> vehicle \<times> multibus_campaign_command \<Rightarrow> 'a can_store_scheme
    \<Rightarrow> app_error + (multibus_campaign_execution \<times> can_network \<times> bool) \<times> 'a can_store_scheme" where
  "execute_multibus_campaign e = (\<lambda>(v, c) s.
     and_then (require_can_network v s) (\<lambda>n.
     case find_execution mx_key n (mp_command_id c) (campaign_executions s) of
       Some item \<Rightarrow>
         if mx_request_fingerprint item \<noteq> campaign_fingerprint c then Inl MultiBusCampaignCommandConflict
         else Inr ((item, n, True), s)
     | None \<Rightarrow>
     if mp_expected_version c \<noteq> net_version n then Inl (CanNetworkVersionConflict (net_version n))
     else and_then (map_ok (prepare_step n) (mp_steps c)) (\<lambda>prepared.
     let x = campaign_loop 1 (zip (mp_steps c) prepared) (initial_campaign_state n);
         n' = n\<lparr>net_simulation_time_us := cs_simulation_time_us x,
                net_next_sequence := cs_next_sequence x, net_version := net_version n + 1\<rparr>;
         result = campaign_result_of n c x;
         execution = \<lparr>mx_network_id = net_id n, mx_command_id = mp_command_id c,
           mx_request_fingerprint = campaign_fingerprint c, mx_request_summary = campaign_summary c,
           mx_status = campaign_status x, mx_result = result,
           mx_previous_version = net_version n, mx_network_version = net_version n + 1,
           mx_requested_by_user_id = env_actor e\<rparr>
     in and_then (of_option (IntegrityError ''uq_multibus_campaign_command'')
                    (insert_row mx_key execution (campaign_executions s))) (\<lambda>rows.
        Inr ((execution, n', False),
          commit_network e ''atep.vehicle.multibus.campaign.completed.v1'' ''vehicle.multibus_campaign_completed''
            (campaign_evidence v n' c result (net_version n)) n' (s\<lparr>campaign_executions := rows\<rparr>))))))"

definition list_campaign_executions ::
  "can_network \<Rightarrow> nat \<Rightarrow> nat \<Rightarrow> 'a can_store_scheme \<Rightarrow> multibus_campaign_execution list \<times> int" where
  "list_campaign_executions n limit offset s =
     (let rows = filter (\<lambda>r. mx_network_id r = net_id n) (campaign_executions s)
      in (page limit offset (rev rows), int (length rows)))"

definition require_campaign_execution ::
  "can_network \<Rightarrow> string \<Rightarrow> 'a can_store_scheme \<Rightarrow> app_error + multibus_campaign_execution" where
  "require_campaign_execution n i s =
     of_option (ResourceNotFound ''multibus_campaign_execution'') (find_execution mx_key n i (campaign_executions s))"

section \<open>The command contract\<close>

lemma campaign_first:
  assumes "vehicle_network v s = Some n" "find_execution mx_key n (mp_command_id c) (campaign_executions s) = None"
    and "execute_multibus_campaign e (v, c) s = Inr ((r, n', d), s')"
  obtains prepared x p where "\<not> d" "mx_request_fingerprint r = campaign_fingerprint c"
    "mx_key r = (net_id n, mp_command_id c)" "mp_expected_version c = net_version n"
    "map_ok (prepare_step n) (mp_steps c) = Inr prepared"
    "x = campaign_loop 1 (zip (mp_steps c) prepared) (initial_campaign_state n)"
    "n' = n\<lparr>net_simulation_time_us := cs_simulation_time_us x,
            net_next_sequence := cs_next_sequence x, net_version := net_version n + 1\<rparr>"
    "mx_result r = campaign_result_of n c x" "mx_status r = campaign_status x"
    "s' = commit_network e ''atep.vehicle.multibus.campaign.completed.v1'' ''vehicle.multibus_campaign_completed''
            p n' (s\<lparr>campaign_executions := campaign_executions s @ [r]\<rparr>)"
proof -
  obtain prepared where prepared: "map_ok (prepare_step n) (mp_steps c) = Inr prepared"
    and ver: "mp_expected_version c = net_version n"
    using assms by (auto simp: execute_multibus_campaign_def require_can_network_def ok_simps split: if_splits)
  show thesis
    using assms(3)
    apply (simp add: execute_multibus_campaign_def require_can_network_def assms(1,2) ver prepared Let_def
        and_then_Inr of_option_Inr insert_row_Some)
    apply (elim conjE)
    apply (rule that[where p = "campaign_evidence v n' c (mx_result r) (net_version n)", OF _ _ _ ver prepared refl])
    by (auto simp: mx_key_def)
qed

lemma campaign_committed:
  assumes "vehicle_network v s = Some n" "find_execution mx_key n (mp_command_id c) (campaign_executions s) = None"
    and "execute_multibus_campaign e (v, c) s = Inr ((r, n', d), s')"
  shows "committed 1 mx_key campaign_executions v (mp_command_id c) n s r n' s' \<and> \<not> d
    \<and> mx_request_fingerprint r = campaign_fingerprint c"
  by (rule campaign_first[OF assms])
     (use assms(1,2) in \<open>auto simp: committed_def intro!: exI appended_tables\<close>)

interpretation campaigns: can_versioned_handler execute_multibus_campaign mx_key campaign_executions mp_command_id
  "\<lambda>c r. mx_request_fingerprint r = campaign_fingerprint c" MultiBusCampaignCommandConflict mp_expected_version
proof (unfold_locales, goal_cases)
  case (2 s s')
  then show ?case by (rule can_grows_tables)
next
  case (4 v s n c e r n' d s')
  then show ?case using campaign_committed[OF 4] by simp
qed (auto simp: execute_multibus_campaign_def require_can_network_def)

end
