(* ===== verification/CanInvariants.thy ===== *)
theory CanInvariants
  imports CanArbiter CanCodec CanCampaign
begin

text \<open>
  The invariant of a stored network: what creation establishes and every handler keeps. From it
  follow the facts about time: durations are non-negative, frames take time, and the float
  computation of a duration is the exact quotient rounded up.
\<close>

definition error_states_ok :: "can_network \<Rightarrow> bool" where
  "error_states_ok n \<longleftrightarrow> (\<forall>(node, st)\<in>set (net_error_states n). can_node_error_state_ok st
     \<and> error_mode st = derive_error_mode (transmit_error_count st) (receive_error_count st))"

definition bitrates_ok :: "can_network \<Rightarrow> bool" where
  "bitrates_ok n \<longleftrightarrow> int_between 10 1000 (net_bitrate_kbps n)
     \<and> (case net_data_bitrate_kbps n of None \<Rightarrow> \<not> net_can_fd_enabled n
        | Some b \<Rightarrow> net_can_fd_enabled n \<and> net_bitrate_kbps n \<le> b \<and> b \<le> 8000)"

definition transports_ok :: "can_network \<Rightarrow> bool" where
  "transports_ok n \<longleftrightarrow> list_all lin_channel_contract_ok (net_lin_channels n)
     \<and> list_all ethernet_segment_contract_ok (net_ethernet_segments n) \<and> routes_resolve n"

definition contracts_ok :: "can_network \<Rightarrow> bool" where
  "contracts_ok n \<longleftrightarrow> list_all can_frame_contract_ok (net_frame_contracts n)
     \<and> distinct (map fc_identifier (net_frame_contracts n))
     \<and> distinct (map (\<lambda>f. (fc_frame_format f, fc_frame_id f)) (net_frame_contracts n))"

definition network_ok :: "can_network \<Rightarrow> bool" where
  "network_ok n \<longleftrightarrow> bitrates_ok n \<and> contracts_ok n \<and> error_states_ok n \<and> transports_ok n
     \<and> 1 \<le> net_version n \<and> 0 \<le> net_simulation_time_us n \<and> 1 \<le> net_next_sequence n"

section \<open>Durations\<close>

lemma duration_us_bounds:
  assumes "0 < bits" "bits \<le> 10 ^ 12" "0 < bitrate"
  shows "0 < duration_us bits bitrate"
  using assms by (simp add: duration_us_ceil_div ceil_div_pos)

lemma duration_us_nonneg: "0 \<le> bits \<Longrightarrow> bits \<le> 10 ^ 12 \<Longrightarrow> 0 < bitrate \<Longrightarrow> 0 \<le> duration_us bits bitrate"
  by (simp add: duration_us_ceil_div ceil_div_nonneg)

lemma bitrates_pos:
  assumes "bitrates_ok n"
  shows "0 < net_bitrate_kbps n" "net_data_bitrate_kbps n = Some b \<Longrightarrow> 0 < b \<and> net_bitrate_kbps n \<le> b"
  using assms by (auto simp: bitrates_ok_def int_between_def)

lemma contract_dlc: "can_frame_contract_ok c \<Longrightarrow> 0 \<le> fc_dlc c \<and> fc_dlc c \<le> 64"
  by (simp add: can_frame_contract_ok_def int_between_def)

lemma frame_timing_pos:
  assumes "bitrates_ok n" "0 \<le> fc_dlc c" "fc_dlc c \<le> 64"
  shows "0 < timing_duration_us (frame_timing c n)"
proof -
  have pos: "0 < duration_us bits r" if "32 \<le> bits" "bits \<le> 1000" "0 < r" for bits r
    using that by (intro duration_us_bounds) auto
  have nn: "0 \<le> duration_us bits r" if "0 \<le> bits" "bits \<le> 1000" "0 < r" for bits r
    using that by (intro duration_us_nonneg) auto
  show ?thesis
  proof (cases "fc_protocol c")
    case CLASSIC
    then show ?thesis
      using assms bitrates_pos(1)[OF assms(1)]
      by (auto simp: frame_timing_def timing_duration_us_def Let_def intro!: pos)
  next
    case FD
    then show ?thesis
      using assms bitrates_pos[OF assms(1)]
      by (auto simp: frame_timing_def timing_duration_us_def Let_def split: option.splits
          intro!: add_pos_nonneg pos nn)
  qed
qed

lemma contract_of_in: "contract_of n i = Inr c \<Longrightarrow> c \<in> set (net_frame_contracts n) \<and> fc_identifier c = i"
  unfolding contract_of_def by (rule find_contract_Inr)

lemma contract_of_ok: "contracts_ok n \<Longrightarrow> contract_of n i = Inr c \<Longrightarrow> can_frame_contract_ok c"
  using contract_of_in by (fastforce simp: contracts_ok_def list_all_iff)

lemma ceil_truediv_nonneg: "0 \<le> a \<Longrightarrow> a < 2 ^ 53 \<Longrightarrow> 0 < b \<Longrightarrow> 0 \<le> py_ceil (py_truediv a b)"
  by (simp add: py_ceil_truediv ceil_div_nonneg)

lemma find_item:
  "find (\<lambda>x. k (fst x) = i) (concat (map (\<lambda>ch. map (\<lambda>f. (f, r ch)) (fs ch)) chs)) = Some x
    \<Longrightarrow> \<exists>ch\<in>set chs. fst x \<in> set (fs ch) \<and> snd x = r ch"
  by (fastforce simp: find_Some_iff in_set_conv_nth[symmetric] dest!: nth_mem)

lemma stored_destination_nonneg:
  assumes "bitrates_ok n" "contracts_ok n" "list_all lin_channel_contract_ok (net_lin_channels n)"
    and "list_all ethernet_segment_contract_ok (net_ethernet_segments n)"
    and "stored_destination n r = Inr (len, dur, timing)"
  shows "0 \<le> dur"
proof (cases "gr_destination_protocol r")
  case CAN
  then obtain c where "contract_of n (gr_destination_contract_id r) = Inr c" "dur = timing_duration_us (frame_timing c n)"
    using assms(5) by (auto simp: stored_destination_def Let_def ok_simps)
  then show ?thesis
    using frame_timing_pos[OF assms(1)] contract_dlc contract_of_ok[OF assms(2)] by (meson less_imp_le)
next
  case LIN
  then obtain x where x: "find (\<lambda>x. lf_identifier (fst x) = gr_destination_contract_id r)
      (concat (map (\<lambda>ch. map (\<lambda>f. (f, lc_bitrate_kbps ch)) (lc_frames ch)) (net_lin_channels n))) = Some x"
    "lin_destination x = (len, dur, timing)"
    using assms(5) by (auto simp: stored_destination_def missing_destination_def split: option.splits)
  obtain ch where ch: "ch \<in> set (net_lin_channels n)" "fst x \<in> set (lc_frames ch)" "snd x = lc_bitrate_kbps ch"
    using find_item[OF x(1)] by blast
  then have "lin_frame_contract_ok (fst x)" "1 \<le> snd x"
    using assms(3) by (auto simp: list_all_iff lin_channel_contract_ok_def int_between_def)
  then show ?thesis
    using x(2) by (auto simp: lin_destination_def Let_def lin_frame_contract_ok_def int_between_def
        intro!: ceil_truediv_nonneg split: prod.splits)
next
  case ETHERNET
  then obtain x where x: "find (\<lambda>x. em_identifier (fst x) = gr_destination_contract_id r)
      (concat (map (\<lambda>sg. map (\<lambda>m. (m, es_speed_mbps sg)) (es_messages sg)) (net_ethernet_segments n))) = Some x"
    "ethernet_destination x = (len, dur, timing)"
    using assms(5) by (auto simp: stored_destination_def missing_destination_def split: option.splits)
  obtain sg where sg: "sg \<in> set (net_ethernet_segments n)" "fst x \<in> set (es_messages sg)" "snd x = es_speed_mbps sg"
    using find_item[OF x(1)] by blast
  then have "ethernet_message_contract_ok (fst x)" "1 \<le> snd x"
    using assms(4) by (auto simp: list_all_iff ethernet_segment_contract_ok_def int_between_def)
  then show ?thesis
    using x(2) by (auto simp: ethernet_destination_def Let_def ethernet_message_contract_ok_def int_between_def
        intro!: ceil_truediv_nonneg split: prod.splits)
qed

section \<open>Campaign accounting\<close>

text \<open>The running totals of a campaign: what one step adds, summed over the steps taken.\<close>

definition campaign_totals :: "int \<Rightarrow> int \<Rightarrow> nat \<Rightarrow> campaign_state \<Rightarrow> bool" where
  "campaign_totals start_us start_seq steps x \<longleftrightarrow>
     cs_delivered x + cs_failed x = int steps \<and> 0 \<le> cs_delivered x \<and> 0 \<le> cs_failed x
     \<and> 0 \<le> cs_violations x \<and> cs_violations x \<le> int steps
     \<and> cs_simulation_time_us x = start_us + cs_occupied_us x + cs_idle_us x
     \<and> 0 \<le> cs_occupied_us x \<and> 0 \<le> cs_idle_us x \<and> cs_occupied_us x = sum_list (cs_latencies x)
     \<and> (\<forall>l\<in>set (cs_latencies x). 0 \<le> l)
     \<and> cs_next_sequence x = start_seq + int (length (cs_latencies x))
     \<and> length (cs_traces x) = steps \<and> length (cs_latencies x) \<le> steps"

lemma campaign_step_totals:
  assumes "campaign_totals start seq k x" "0 \<le> ms_advance_time_us st" "0 \<le> dur"
  shows "campaign_totals start seq (Suc k) (campaign_step i (st, (r, len, dur, timing)) x)"
  using assms unfolding campaign_totals_def campaign_step_def Let_def by auto

lemma campaign_loop_totals:
  assumes "campaign_totals start seq k x"
    and "\<forall>(st, (r, len, dur, timing))\<in>set steps. 0 \<le> ms_advance_time_us st \<and> 0 \<le> dur"
  shows "campaign_totals start seq (k + length steps) (campaign_loop i steps x)"
  using assms
proof (induction i steps x arbitrary: k rule: campaign_loop.induct)
  case (2 i step rest x)
  obtain st r len dur timing where step: "step = (st, (r, len, dur, timing))" by (metis prod_cases5)
  have "campaign_totals start seq (Suc k) (campaign_step i step x)"
    using 2(2,3) unfolding step by (intro campaign_step_totals) auto
  then show ?case using 2(1)[of "Suc k"] 2(3) by simp
qed simp

lemma prepare_step_dest:
  "prepare_step n st = Inr (r, len, dur, timing) \<Longrightarrow>
     stored_route n (ms_route_id st) = Inr r \<and> stored_destination n r = Inr (len, dur, timing)
     \<and> int (length (ms_payload st)) = len"
  by (auto simp: prepare_step_def as_campaign_error_def ok_simps split: sum.splits app_error.splits if_splits)

lemma prepared_nonneg:
  assumes "network_ok n" "map_ok (prepare_step n) sts = Inr prepared"
    and "\<forall>st\<in>set sts. 0 \<le> ms_advance_time_us st"
  shows "\<forall>(st, (r, len, dur, timing))\<in>set (zip sts prepared). 0 \<le> ms_advance_time_us st \<and> 0 \<le> dur"
proof clarify
  fix st r len dur timing
  assume "(st, (r, len, dur, timing)) \<in> set (zip sts prepared)"
  then obtain i where i: "i < length sts" "i < length prepared" "sts ! i = st" "prepared ! i = (r, len, dur, timing)"
    by (auto simp: in_set_zip)
  have "prepare_step n st = Inr (r, len, dur, timing)"
    using assms(2) i unfolding map_ok_Inr by (auto simp: list_all2_conv_all_nth)
  then have "stored_destination n r = Inr (len, dur, timing)" using prepare_step_dest by blast
  then have "0 \<le> dur"
    using assms(1) stored_destination_nonneg by (auto simp: network_ok_def transports_ok_def)
  then show "0 \<le> ms_advance_time_us st \<and> 0 \<le> dur" using assms(3) i nth_mem by fastforce
qed

lemma campaign_run_totals:
  assumes "network_ok n" "map_ok (prepare_step n) sts = Inr prepared"
    and "\<forall>st\<in>set sts. 0 \<le> ms_advance_time_us st"
  shows "campaign_totals (net_simulation_time_us n) (net_next_sequence n) (length sts)
           (campaign_loop 1 (zip sts prepared) (initial_campaign_state n))"
proof -
  have "campaign_totals (net_simulation_time_us n) (net_next_sequence n) 0 (initial_campaign_state n)"
    by (simp add: campaign_totals_def initial_campaign_state_def)
  then show ?thesis
    using campaign_loop_totals[OF _ prepared_nonneg[OF assms], of _ _ 0] map_ok_length[OF assms(2)] by simp
qed

section \<open>Arbitration windows\<close>

lemma resolve_contender_ok:
  assumes "contracts_ok n" "resolve_contender n k = Inr w"
  shows "can_frame_contract_ok (rc_contract w)" "fc_identifier (rc_contract w) = ct_contract_id k"
    "rc_producer_node_id w = ct_producer_node_id k" "fc_producer_node_id (rc_contract w) = ct_producer_node_id k"
    "\<not> is_bus_off n (ct_producer_node_id k)" "rc_payload_bytes w = ct_payload k"
    "int (length (ct_payload k)) = fc_dlc (rc_contract w)"
    "rc_ready_at_us w = net_simulation_time_us n + ct_ready_offset_us k"
  using assms contract_of_ok[OF assms(1)] contract_of_in
  by (auto simp: resolve_contender_def ok_simps split: if_splits)

lemma resolved_contenders:
  assumes "contracts_ok n" "resolve_contenders n c = Inr ws"
  shows "map (\<lambda>w. fc_identifier (rc_contract w)) ws = map ct_contract_id (ac_contenders c)"
    and "\<forall>w\<in>set ws. can_frame_contract_ok (rc_contract w)"
    and "\<forall>w\<in>set ws. \<not> is_bus_off n (rc_producer_node_id w)"
proof -
  have all: "list_all2 (\<lambda>k w. resolve_contender n k = Inr w) (ac_contenders c) ws"
    using assms(2) by (simp add: resolve_contenders_def map_ok_Inr)
  then show "map (\<lambda>w. fc_identifier (rc_contract w)) ws = map ct_contract_id (ac_contenders c)"
    using resolve_contender_ok(2)[OF assms(1)] by (induction rule: list_all2_induct) auto
  show "\<forall>w\<in>set ws. can_frame_contract_ok (rc_contract w)"
    "\<forall>w\<in>set ws. \<not> is_bus_off n (rc_producer_node_id w)"
    using all resolve_contender_ok[OF assms(1)]
    by (fastforce simp: list_all2_conv_all_nth in_set_conv_nth)+
qed

lemma contender_duration:
  assumes "network_ok n" "\<forall>w\<in>set ws. can_frame_contract_ok (rc_contract w)" "w \<in># mset ws"
  shows "0 < timing_duration_us (frame_timing (rc_contract w) n)"
  using assms contract_dlc by (intro frame_timing_pos) (auto simp: network_ok_def)

lemma arbitrate_window:
  assumes "network_ok n" "\<forall>w\<in>set ws. can_frame_contract_ok (rc_contract w)" "arbitrate n ws = (frames, u)"
  shows "ut_window_start_us u = net_simulation_time_us n" "0 \<le> ut_occupied_us u"
    "ut_window_start_us u + ut_occupied_us u \<le> ut_window_end_us u"
    "ut_occupied_us u + ut_idle_us u = ut_window_duration_us u" "0 \<le> ut_idle_us u"
    "\<forall>f\<in>set frames. 0 < af_duration_us f \<and> af_completed_at_us f \<le> ut_window_end_us u"
proof -
  note r = arbitrate_schedule[OF assms(3)]
  obtain order where sched: "bus_schedule n (mset ws) (net_simulation_time_us n) 0 order frames (ut_window_end_us u)"
    using r(1) by blast
  have d: "0 \<le> timing_duration_us (frame_timing (rc_contract w) n)" if "w \<in># mset ws" for w
    using contender_duration[OF assms(1,2) that] by simp
  have pos: "\<forall>f\<in>set frames. 0 < af_duration_us f"
    using schedule_frame_of[OF sched] frame_from_facts(6) contender_duration[OF assms(1,2)] by metis
  then show "0 \<le> ut_occupied_us u" unfolding r(2) by (intro sum_list_nonneg) (auto simp: less_imp_le)
  show "ut_window_start_us u = net_simulation_time_us n" by (rule r(3))
  show w: "ut_window_start_us u + ut_occupied_us u \<le> ut_window_end_us u"
    using schedule_clock(2)[OF sched d] r(2,3) by simp
  show "ut_occupied_us u + ut_idle_us u = ut_window_duration_us u" "0 \<le> ut_idle_us u"
    using r(4,5) w by simp_all
  show "\<forall>f\<in>set frames. 0 < af_duration_us f \<and> af_completed_at_us f \<le> ut_window_end_us u"
    using pos schedule_clock(1)[OF sched d] by blast
qed

end
