(* ===== verification/CanSystem.thy ===== *)
theory CanSystem
  imports CanInvariants
begin

text \<open>
  The CAN simulation as one system: the commands of all handlers, the dispatch the router
  (\<open>src/src/atep/can_network/router.py\<close>) makes on validated requests, the step relation of successful
  requests, and the invariant every reachable store has.
\<close>

section \<open>Commands\<close>

datatype can_command =
    Submit can_frame_submit_command
  | Inject can_fault_injection_command
  | Recover can_bus_recovery_command
  | Arbitrate can_arbitration_command
  | Configure multibus_configuration_command
  | Route gateway_route_command
  | Campaign multibus_campaign_command
  | Encode can_signal_encode_command
  | Decode can_signal_decode_command

datatype can_execution =
    FrameRow can_frame_transmission
  | FaultRow can_fault_execution
  | ArbitrationRow can_arbitration_execution
  | GatewayRow multibus_gateway_execution
  | CampaignRow multibus_campaign_execution
  | CodecRow can_signal_codec_execution

fun can_command_ok :: "can_command \<Rightarrow> bool" where
  "can_command_ok (Submit c) = can_frame_submit_command_ok c"
| "can_command_ok (Inject c) = can_fault_injection_command_ok c"
| "can_command_ok (Recover c) = can_bus_recovery_command_ok c"
| "can_command_ok (Arbitrate c) = can_arbitration_command_ok c"
| "can_command_ok (Configure c) = multibus_configuration_command_ok c"
| "can_command_ok (Route c) = gateway_route_command_ok c"
| "can_command_ok (Campaign c) = multibus_campaign_command_ok c"
| "can_command_ok (Encode c) = can_signal_encode_command_ok c"
| "can_command_ok (Decode c) = can_signal_decode_command_ok c"

definition lift_row :: "('r \<Rightarrow> can_execution) \<Rightarrow> app_error + ('r \<times> 'n \<times> bool) \<times> 's
    \<Rightarrow> app_error + (can_execution \<times> bool) \<times> 's" where
  "lift_row f r = (case r of Inl e \<Rightarrow> Inl e | Inr ((x, _, d), s) \<Rightarrow> Inr ((f x, d), s))"

fun run_command :: "env \<Rightarrow> vehicle \<Rightarrow> can_command \<Rightarrow> 'a can_store_scheme
    \<Rightarrow> app_error + (can_execution \<times> bool) \<times> 'a can_store_scheme" where
  "run_command e v (Submit c) s = lift_row FrameRow (submit_can_frame e (v, c) s)"
| "run_command e v (Inject c) s = lift_row FaultRow (inject_fault e (v, c) s)"
| "run_command e v (Recover c) s = lift_row FaultRow (recover_node e (v, c) s)"
| "run_command e v (Arbitrate c) s = lift_row ArbitrationRow (execute_arbitration e (v, c) s)"
| "run_command e v (Configure c) s = lift_row GatewayRow (configure_multibus e (v, c) s)"
| "run_command e v (Route c) s = lift_row GatewayRow (execute_gateway_route e (v, c) s)"
| "run_command e v (Campaign c) s = lift_row CampaignRow (execute_multibus_campaign e (v, c) s)"
| "run_command e v (Encode c) s = lift_row CodecRow (encode_signals e (v, c) s)"
| "run_command e v (Decode c) s = lift_row CodecRow (decode_signals e (v, c) s)"

lemma lift_row_Inr: "lift_row f r = Inr ((x, d), s) \<longleftrightarrow> (\<exists>y n. r = Inr ((y, n, d), s) \<and> x = f y)"
  by (auto simp: lift_row_def split: sum.splits)

section \<open>Steps\<close>

inductive can_step :: "'a can_store_scheme \<Rightarrow> 'a can_store_scheme \<Rightarrow> bool" where
  Create: "can_network_create_ok c \<Longrightarrow> create_can_network e v c s = Inr (n, s') \<Longrightarrow> can_step s s'"
| Catalogue: "can_dbc_catalogue_create_ok k \<Longrightarrow> create_dbc_catalogue e v k s = Inr (r, s') \<Longrightarrow> can_step s s'"
| Command: "can_command_ok c \<Longrightarrow> run_command e v c s = Inr ((x, d), s') \<Longrightarrow> can_step s s'"

inductive_cases can_stepE: "can_step s s'"

abbreviation can_steps :: "'a can_store_scheme \<Rightarrow> 'a can_store_scheme \<Rightarrow> bool" where
  "can_steps \<equiv> can_step\<^sup>*\<^sup>*"

lemma run_command_grows:
  assumes "networks_ok s" "run_command e v c s = Inr ((x, d), s')"
  shows "networks_ok s' \<and> can_grows s s'"
  using assms
  by (cases c)
     (auto simp: lift_row_Inr
       dest: frames.ok_run frames.run_grows injections.ok_run injections.run_grows recoveries.ok_run
         recoveries.run_grows arbiter.ok_run arbiter.run_grows configurations.ok_run configurations.run_grows
         routings.ok_run routings.run_grows campaigns.ok_run campaigns.run_grows encodings.ok_run
         encodings.run_grows decodings.ok_run decodings.run_grows)

lemma create_catalogue_grows:
  assumes "networks_ok s" "create_dbc_catalogue e v k s = Inr (r, s')"
  shows "networks_ok s' \<and> can_grows s s'"
proof -
  obtain cat n' where r: "r = (cat, n')" by fastforce
  obtain n p where c: "vehicle_network v s = Some n" "n' = n\<lparr>net_version := net_version n + 1\<rparr>"
    "s' = commit_network e ''atep.can.dbc.catalogue.created.v1'' ''can.dbc_catalogue_created'' p n'
             (s\<lparr>catalogues := catalogues s @ [cat]\<rparr>)"
    using create_catalogue_ok assms(2) unfolding r by blast
  show ?thesis
    unfolding c(3)
    by (intro conjI commit_networks_ok[OF assms(1) c(1)] commit_grows[OF assms(1) c(1)]) (simp_all add: c(2))
qed

lemma can_step_grows:
  assumes "networks_ok s" "can_step s s'" shows "networks_ok s' \<and> can_grows s s'"
  using assms(2)
proof cases
  case (Create c e v n)
  then show ?thesis using create_networks_ok[OF assms(1)] by blast
next
  case (Catalogue k e v r)
  then show ?thesis using create_catalogue_grows[OF assms(1)] by blast
next
  case (Command c e v x d)
  then show ?thesis using run_command_grows[OF assms(1)] by blast
qed

lemma can_steps_grow: "can_steps s s' \<Longrightarrow> networks_ok s \<Longrightarrow> networks_ok s' \<and> can_grows s s'"
  by (induction rule: rtranclp_induct) (auto dest: can_step_grows intro: can_grows_trans)

end
