(* ===== verification/CanReach.thy ===== *)
theory CanReach
  imports CanSystem
begin

text \<open>
  The invariant of every reachable CAN store: each network satisfies \<open>network_ok\<close>, the recorded
  sequence numbers of a network are distinct and below its counter, and every catalogue is valid
  for the frames of its network.
\<close>

section \<open>Keeping a network well formed\<close>

lemma transports_ok_cong:
  assumes "net_nodes m = net_nodes n" "net_frame_contracts m = net_frame_contracts n"
    "net_lin_channels m = net_lin_channels n" "net_ethernet_segments m = net_ethernet_segments n"
    "net_gateway_routes m = net_gateway_routes n" "net_bitrate_kbps m = net_bitrate_kbps n"
    "net_data_bitrate_kbps m = net_data_bitrate_kbps n"
  shows "transports_ok m = transports_ok n"
proof -
  have timing: "frame_timing c m = frame_timing c n" for c
    unfolding frame_timing_def assms(6,7) ..
  have "stored_destination m r = stored_destination n r" for r
    unfolding stored_destination_def contract_of_def timing assms(2,3,4,6) ..
  then show ?thesis
    using assms by (simp add: transports_ok_def routes_resolve_def destination_length_def node_roles_def)
qed

text \<open>Changing the clock, the sequence counter, the version and valid error states keeps the invariant.\<close>

lemma network_ok_change:
  assumes "network_ok n" "net_nodes m = net_nodes n" "net_frame_contracts m = net_frame_contracts n"
    "net_lin_channels m = net_lin_channels n" "net_ethernet_segments m = net_ethernet_segments n"
    "net_gateway_routes m = net_gateway_routes n" "net_bitrate_kbps m = net_bitrate_kbps n"
    "net_data_bitrate_kbps m = net_data_bitrate_kbps n" "net_can_fd_enabled m = net_can_fd_enabled n"
    and "error_states_ok m" "net_version n \<le> net_version m"
    and "net_simulation_time_us n \<le> net_simulation_time_us m" "net_next_sequence n \<le> net_next_sequence m"
  shows "network_ok m"
  using assms transports_ok_cong[OF assms(2-8)]
  by (auto simp: network_ok_def bitrates_ok_def contracts_ok_def split: option.splits)

lemma error_states_ok_update:
  assumes "error_states_ok n" "0 \<le> tec" "0 \<le> rec"
    and "net_error_states m = net_error_states (snd (set_node_error_state n node tec rec))"
  shows "error_states_ok m"
proof -
  have "set (AList.update node st xs) \<subseteq> insert (node, st) (set xs)" for node and st :: can_node_error_state and xs
    by (induction xs) auto
  then show ?thesis
    using assms derive_error_mode_clamped[of tec rec]
    by (fastforce simp: error_states_ok_def set_node_error_state_def can_node_error_state_ok_def int_between_def
        Let_def)
qed

lemma node_error_state_ok:
  assumes "error_states_ok n"
  shows "0 \<le> transmit_error_count (node_error_state n node)" "0 \<le> receive_error_count (node_error_state n node)"
    "transmit_error_count (node_error_state n node) \<le> 256" "receive_error_count (node_error_state n node) \<le> 255"
proof -
  have "\<forall>st. map_of (net_error_states n) node = Some st \<longrightarrow> can_node_error_state_ok st"
    using assms map_of_SomeD by (fastforce simp: error_states_ok_def)
  then show "0 \<le> transmit_error_count (node_error_state n node)" "0 \<le> receive_error_count (node_error_state n node)"
    "transmit_error_count (node_error_state n node) \<le> 256" "receive_error_count (node_error_state n node) \<le> 255"
    by (auto simp: node_error_state_def can_node_error_state_ok_def int_between_def Let_def split: option.splits)
qed

lemma injected_counts_nonneg:
  assumes "error_states_ok n" "can_fault_injection_command_ok c"
  shows "0 \<le> fst (injected_counts n c)" "0 \<le> snd (injected_counts n c)"
  using assms node_error_state_ok(1,2)[OF assms(1), of "fi_target_node_id c"]
  by (auto simp: injected_counts_def fault_effect_def Let_def can_fault_injection_command_ok_def int_between_def
      split: CanFaultType.splits)

section \<open>The store invariant\<close>

definition sequence_key :: "can_frame_transmission \<Rightarrow> uuid \<times> int" where
  "sequence_key t = (tx_network_id t, tx_sequence t)"

definition can_inv :: "'a can_store_scheme \<Rightarrow> bool" where
  "can_inv s \<longleftrightarrow> networks_ok s \<and> (\<forall>n\<in>set (networks s). network_ok n)
     \<and> distinct (map sequence_key (transmissions s))
     \<and> (\<forall>t\<in>set (transmissions s). \<exists>n\<in>set (networks s). net_id n = tx_network_id t \<and> tx_sequence t < net_next_sequence n)
     \<and> (\<forall>k\<in>set (catalogues s). \<exists>n\<in>set (networks s). net_id n = cat_network_id k \<and> check_messages n (cat_messages k) = Inr ())"

text \<open>What a commit must satisfy to keep it.\<close>

lemma check_messages_cong:
  "net_frame_contracts m = net_frame_contracts n \<Longrightarrow> check_messages m ms = check_messages n ms"
  by (induction ms) (simp_all add: contract_of_def)

lemma can_inv_commit:
  assumes inv: "can_inv s" and v: "vehicle_network v s = Some n"
    and ids: "net_id m = net_id n" "net_vehicle_id m = net_vehicle_id n"
    and m: "network_ok m" "net_frame_contracts m = net_frame_contracts n" "net_next_sequence n \<le> net_next_sequence m"
    and t: "networks t = networks s" "transmissions t = transmissions s @ txs" "catalogues t = catalogues s @ cats"
    and txs: "distinct (map tx_sequence txs)" "\<forall>x\<in>set txs. tx_network_id x = net_id n
       \<and> net_next_sequence n \<le> tx_sequence x \<and> tx_sequence x < net_next_sequence m"
    and cats: "\<forall>k\<in>set cats. cat_network_id k = net_id n \<and> check_messages n (cat_messages k) = Inr ()"
  shows "can_inv (commit_network e et ac p m t)"
proof -
  have nin: "n \<in> set (networks s)" using vehicle_network_in[OF v] by simp
  have ok: "networks_ok s" using inv by (simp add: can_inv_def)
  let ?nets = "update_row net_id m (networks s)"
  have row: "(if net_id k = net_id m then m else k) \<in> set ?nets" if "k \<in> set (networks s)" for k
    using that by (auto simp: update_row_def)
  have same: "k = n" if "k \<in> set (networks s)" "net_id k = net_id m" for k
    using ok nin that ids(1) by (auto simp: networks_ok_def distinct_map inj_on_def)
  have nets: "\<forall>k\<in>set ?nets. network_ok k"
    using inv m(1) by (auto simp: update_row_def can_inv_def)
  have old: "\<exists>k\<in>set ?nets. net_id k = i \<and> q < net_next_sequence k \<and> check_messages k ms = check_messages k0 ms"
    if "k0 \<in> set (networks s)" "net_id k0 = i" "q < net_next_sequence k0" for k0 i q ms
    using row[OF that(1)] same[OF that(1)] that m(2,3) ids(1) check_messages_cong[OF m(2)]
    by (cases "net_id k0 = net_id m") (auto intro!: bexI)
  have seqs: "distinct (map sequence_key (transmissions s @ txs))"
  proof -
    have lt: "tx_sequence x < net_next_sequence n" if "x \<in> set (transmissions s)" "tx_network_id x = net_id n" for x
      using inv that same ids(1) unfolding can_inv_def by metis
    have "distinct (map sequence_key txs)"
      using txs(1) by (auto simp: distinct_map inj_on_def sequence_key_def)
    moreover have "sequence_key x \<noteq> sequence_key y" if "x \<in> set (transmissions s)" "y \<in> set txs" for x y
      using lt[OF that(1)] txs(2) that(2) by (force simp: sequence_key_def)
    then have "sequence_key ` set (transmissions s) \<inter> sequence_key ` set txs = {}" by blast
    ultimately show ?thesis using inv by (simp add: can_inv_def)
  qed
  have mrow: "m \<in> set ?nets" using row[OF nin] ids(1) by simp
  have alltx: "\<exists>k\<in>set ?nets. net_id k = tx_network_id x \<and> tx_sequence x < net_next_sequence k"
    if "x \<in> set (transmissions s @ txs)" for x
  proof (cases "x \<in> set txs")
    case True
    then show ?thesis using txs(2) mrow ids(1) by auto
  next
    case False
    then obtain k0 where "k0 \<in> set (networks s)" "net_id k0 = tx_network_id x" "tx_sequence x < net_next_sequence k0"
      using inv \<open>x \<in> _\<close> unfolding can_inv_def by auto
    then show ?thesis using old by blast
  qed
  have allcat: "\<exists>k\<in>set ?nets. net_id k = cat_network_id x \<and> check_messages k (cat_messages x) = Inr ()"
    if "x \<in> set (catalogues s @ cats)" for x
  proof (cases "x \<in> set cats")
    case True
    then show ?thesis using cats mrow ids(1) check_messages_cong[OF m(2)] by auto
  next
    case False
    then obtain k0 where "k0 \<in> set (networks s)" "net_id k0 = cat_network_id x" "check_messages k0 (cat_messages x) = Inr ()"
      using inv \<open>x \<in> _\<close> unfolding can_inv_def by auto
    then show ?thesis using old[of k0 "cat_network_id x" "net_next_sequence k0 - 1" "cat_messages x"] by auto
  qed
  show ?thesis
    using commit_networks_ok[OF ok v ids t(1)] nets seqs alltx allcat
    unfolding can_inv_def by (simp add: t)
qed

section \<open>Every handler keeps it\<close>

lemma vehicle_network_ok: "can_inv s \<Longrightarrow> vehicle_network v s = Some n \<Longrightarrow> network_ok n"
  using vehicle_network_in by (fastforce simp: can_inv_def)

lemma submit_inv:
  assumes "can_inv s" "can_frame_submit_command_ok c" "submit_can_frame e (v, c) s = Inr ((tx, n', d), s')"
  shows "can_inv s'"
  using assms(3)
proof (cases rule: frames.cases_run)
  case (first n)
  then have n: "vehicle_network v s = Some n" "find_execution tx_key n (sc_command_id c) (transmissions s) = None"
    by (auto simp: committed_def)
  note f = submit_first[OF n assms(3)]
  obtain p where s': "s' = commit_network e ''atep.can.frame.submitted.v1'' ''can.frame_submitted'' p n'
           (s\<lparr>transmissions := transmissions s @ [tx]\<rparr>)" using f(10) by blast
  have ok: "network_ok n" by (rule vehicle_network_ok[OF assms(1) n(1)])
  have "network_ok n'"
    unfolding f(8) after_frame_def
    by (rule network_ok_change[OF ok])
       (use ok assms(2) in \<open>simp_all add: network_ok_def error_states_ok_def can_frame_submit_command_ok_def int_between_def\<close>)
  then show ?thesis
    unfolding s'
    by (intro can_inv_commit[OF assms(1) n(1), where txs = "[tx]" and cats = "[]"])
       (use f in \<open>simp_all add: after_frame_def tx_key_def\<close>)
qed (use assms(1) in simp)

lemma inject_inv:
  assumes "can_inv s" "can_fault_injection_command_ok c" "inject_fault e (v, c) s = Inr ((r, n', d), s')"
  shows "can_inv s'"
  using assms(3)
proof (cases rule: injections.cases_run)
  case (first n)
  then have n: "vehicle_network v s = Some n" "find_execution fx_key n (fi_command_id c) (fault_executions s) = None"
    by (auto simp: committed_def)
  note f = inject_first[OF n assms(3)]
  obtain p where s': "s' = commit_network e ''atep.can.fault.injected.v1'' ''can.fault_injected'' p n'
           (s\<lparr>fault_executions := fault_executions s @ [r]\<rparr>)" using f(11) by blast
  have ok: "network_ok n" by (rule vehicle_network_ok[OF assms(1) n(1)])
  have es: "error_states_ok n" "bitrates_ok n" using ok by (simp_all add: network_ok_def)
  have "error_states_ok n'"
    by (rule error_states_ok_update[OF es(1) injected_counts_nonneg[OF es(1) assms(2)] f(9)])
  moreover have "net_nodes n' = net_nodes n" "net_frame_contracts n' = net_frame_contracts n"
    "net_lin_channels n' = net_lin_channels n" "net_ethernet_segments n' = net_ethernet_segments n"
    "net_gateway_routes n' = net_gateway_routes n" "net_bitrate_kbps n' = net_bitrate_kbps n"
    "net_data_bitrate_kbps n' = net_data_bitrate_kbps n" "net_can_fd_enabled n' = net_can_fd_enabled n"
    using inject_unchanged[OF n assms(3)] by simp_all
  moreover have "net_simulation_time_us n \<le> net_simulation_time_us n'"
    using assms(2) bitrates_pos(1)[OF es(2)] unfolding f(10)
    by (auto simp: can_fault_injection_command_ok_def int_between_def intro!: add_nonneg_nonneg duration_us_nonneg)
  ultimately have "network_ok n'"
    using f(5,8) by (intro network_ok_change[OF ok]) simp_all
  then show ?thesis
    unfolding s'
    by (intro can_inv_commit[OF assms(1) n(1), where txs = "[]" and cats = "[]"])
       (use f inject_unchanged[OF n assms(3)] in simp_all)
qed (use assms(1) in simp)

lemma recover_inv:
  assumes "can_inv s" "can_bus_recovery_command_ok c" "recover_node e (v, c) s = Inr ((r, n', d), s')"
  shows "can_inv s'"
  using assms(3)
proof (cases rule: recoveries.cases_run)
  case (first n)
  then have n: "vehicle_network v s = Some n" "find_execution fx_key n (br_command_id c) (fault_executions s) = None"
    by (auto simp: committed_def)
  note f = recover_first[OF n assms(3)]
  obtain p where s': "s' = commit_network e ''atep.can.bus.recovered.v1'' ''can.bus_recovered'' p n'
           (s\<lparr>fault_executions := fault_executions s @ [r]\<rparr>)" using f(12) by blast
  have ok: "network_ok n" by (rule vehicle_network_ok[OF assms(1) n(1)])
  have es: "error_states_ok n" "bitrates_ok n" using ok by (simp_all add: network_ok_def)
  have "error_states_ok n'" by (rule error_states_ok_update[OF es(1) order_refl order_refl f(10)])
  moreover have "net_simulation_time_us n \<le> net_simulation_time_us n'"
    using assms(2) bitrates_pos(1)[OF es(2)] unfolding f(11)
    by (auto simp: can_bus_recovery_command_ok_def int_between_def intro!: duration_us_nonneg)
  ultimately have "network_ok n'"
    using f(5,8) recover_unchanged[OF n assms(3)] by (intro network_ok_change[OF ok]) simp_all
  then show ?thesis
    unfolding s'
    by (intro can_inv_commit[OF assms(1) n(1), where txs = "[]" and cats = "[]"])
       (use f recover_unchanged[OF n assms(3)] in simp_all)
qed (use assms(1) in simp)

lemma arbitration_inv:
  assumes "can_inv s" "can_arbitration_command_ok c" "execute_arbitration e (v, c) s = Inr ((r, n', d), s')"
  shows "can_inv s'"
  using assms(3)
proof (cases rule: arbiter.cases_run)
  case (first n)
  then have n: "vehicle_network v s = Some n" "find_execution ax_key n (ac_command_id c) (arbitrations s) = None"
    by (auto simp: committed_def)
  have ok: "network_ok n" by (rule vehicle_network_ok[OF assms(1) n(1)])
  show ?thesis
  proof (rule arbitration_first[OF n assms(3)])
    fix ws frames u ordered p
    assume res: "resolve_contenders n c = Inr ws" and arb: "arbitrate n ws = (frames, u)"
      and len: "length ordered = length frames" and n': "n' = after_arbitration n frames u"
      and s': "s' = commit_network e ''atep.can.arbitration.completed.v1'' ''can.arbitration_executed'' p n'
        (s\<lparr>arbitrations := arbitrations s @ [r], transmissions := transmissions s
           @ map (arbitration_transmission e n c) (zip frames ordered)\<rparr>)"
    have contracts: "contracts_ok n" using ok by (simp add: network_ok_def)
    have wok: "\<forall>w\<in>set ws. can_frame_contract_ok (rc_contract w)" by (rule resolved_contenders(2)[OF contracts res])
    note w = arbitrate_window[OF ok wok arb]
    obtain order where sched: "bus_schedule n (mset ws) (net_simulation_time_us n) 0 order frames (ut_window_end_us u)"
      using arbitrate_schedule(1)[OF arb] by blast
    have seqs: "map af_sequence frames = map (\<lambda>i. net_next_sequence n + int i) [0..<length frames]"
      using schedule_numbers[OF sched] by simp
    let ?txs = "map (arbitration_transmission e n c) (zip frames ordered)"
    have "map tx_sequence ?txs = map (af_sequence \<circ> fst) (zip frames ordered)"
      by (auto simp: arbitration_transmission_def)
    also have "\<dots> = map af_sequence frames" by (simp flip: map_map add: len)
    finally have txs: "map tx_sequence ?txs = map (\<lambda>i. net_next_sequence n + int i) [0..<length frames]"
      using seqs by simp
    have dist: "distinct (map tx_sequence ?txs)" unfolding txs by (simp add: distinct_map inj_on_def)
    have bound: "tx_network_id x = net_id n \<and> net_next_sequence n \<le> tx_sequence x
        \<and> tx_sequence x < net_next_sequence n'" if "x \<in> set ?txs" for x
    proof -
      have "tx_sequence x \<in> set (map tx_sequence ?txs)" using that by (metis image_eqI set_map)
      then show ?thesis using that unfolding txs n'
        by (auto simp: arbitration_transmission_def after_arbitration_def)
    qed
    have net: "network_ok n'"
      unfolding n' after_arbitration_def
      by (rule network_ok_change[OF ok]) (use ok w in \<open>simp_all add: network_ok_def error_states_ok_def\<close>)
    show ?thesis
      unfolding s'
    proof (rule can_inv_commit[OF assms(1) n(1) _ _ net, where txs = ?txs and cats = "[]"])
      show "distinct (map tx_sequence ?txs)" by (rule dist)
      show "\<forall>x\<in>set ?txs. tx_network_id x = net_id n \<and> net_next_sequence n \<le> tx_sequence x
          \<and> tx_sequence x < net_next_sequence n'" using bound by blast
    qed (simp_all add: n' after_arbitration_def)
  qed
qed (use assms(1) in simp)

lemma configure_inv:
  assumes "can_inv s" "multibus_configuration_command_ok c" "configure_multibus e (v, c) s = Inr ((r, n', d), s')"
  shows "can_inv s'"
  using assms(3)
proof (cases rule: configurations.cases_run)
  case (first n)
  then have n: "vehicle_network v s = Some n" "find_execution gx_key n (mc_command_id c) (gateway_executions s) = None"
    by (auto simp: committed_def)
  note f = configure_first[OF n assms(3)]
  obtain p where s': "s' = commit_network e ''atep.vehicle.multibus.configured.v1'' ''vehicle.multibus_configured'' p n'
           (s\<lparr>gateway_executions := gateway_executions s @ [r]\<rparr>)" using f(7) by blast
  have ok: "network_ok n" by (rule vehicle_network_ok[OF assms(1) n(1)])
  have "network_ok n'"
    using ok validate_configuration_ok[OF f(5)] assms(2) unfolding f(6)
    by (auto simp: network_ok_def configured_network_def transports_ok_def multibus_configuration_command_ok_def
        bitrates_ok_def contracts_ok_def error_states_ok_def split: option.splits)
  then show ?thesis
    unfolding s'
    by (intro can_inv_commit[OF assms(1) n(1), where txs = "[]" and cats = "[]"])
       (use f in \<open>simp_all add: configured_network_def\<close>)
qed (use assms(1) in simp)

lemma route_inv:
  assumes "can_inv s" "gateway_route_command_ok c" "execute_gateway_route e (v, c) s = Inr ((x, n', d), s')"
  shows "can_inv s'"
  using assms(3)
proof (cases rule: routings.cases_run)
  case (first n)
  then have n: "vehicle_network v s = Some n" "find_execution gx_key n (rc_command_id c) (gateway_executions s) = None"
    by (auto simp: committed_def)
  note f = route_first[OF n assms(3)]
  obtain p where s': "s' = commit_network e ''atep.vehicle.gateway.routed.v1'' ''vehicle.gateway_routed'' p n'
           (s\<lparr>gateway_executions := gateway_executions s @ [x]\<rparr>)" using f(6) by blast
  obtain r len dur timing where n': "stored_destination n r = Inr (len, dur, timing)"
    "n' = n\<lparr>net_simulation_time_us := net_simulation_time_us n + rc_advance_time_us c + dur,
            net_next_sequence := net_next_sequence n + 1, net_version := net_version n + 1\<rparr>"
    using f(5) by blast
  have ok: "network_ok n" by (rule vehicle_network_ok[OF assms(1) n(1)])
  have "0 \<le> dur"
    using ok n'(1) stored_destination_nonneg by (auto simp: network_ok_def transports_ok_def)
  then have "network_ok n'"
    unfolding n'(2)
    by (intro network_ok_change[OF ok])
       (use ok assms(2) in \<open>simp_all add: network_ok_def error_states_ok_def gateway_route_command_ok_def int_between_def\<close>)
  then show ?thesis
    unfolding s'
    by (intro can_inv_commit[OF assms(1) n(1), where txs = "[]" and cats = "[]"])
       (simp_all add: n'(2))
qed (use assms(1) in simp)

lemma campaign_inv:
  assumes "can_inv s" "multibus_campaign_command_ok c" "execute_multibus_campaign e (v, c) s = Inr ((r, n', d), s')"
  shows "can_inv s'"
  using assms(3)
proof (cases rule: campaigns.cases_run)
  case (first n)
  then have n: "vehicle_network v s = Some n" "find_execution mx_key n (mp_command_id c) (campaign_executions s) = None"
    by (auto simp: committed_def)
  have ok: "network_ok n" by (rule vehicle_network_ok[OF assms(1) n(1)])
  show ?thesis
  proof (rule campaign_first[OF n assms(3)])
    fix prepared x p
    assume prep: "map_ok (prepare_step n) (mp_steps c) = Inr prepared"
      and x: "x = campaign_loop 1 (zip (mp_steps c) prepared) (initial_campaign_state n)"
      and n': "n' = n\<lparr>net_simulation_time_us := cs_simulation_time_us x,
            net_next_sequence := cs_next_sequence x, net_version := net_version n + 1\<rparr>"
      and s': "s' = commit_network e ''atep.vehicle.multibus.campaign.completed.v1''
        ''vehicle.multibus_campaign_completed'' p n' (s\<lparr>campaign_executions := campaign_executions s @ [r]\<rparr>)"
    have "\<forall>st\<in>set (mp_steps c). 0 \<le> ms_advance_time_us st"
      using assms(2) by (auto simp: multibus_campaign_command_ok_def multibus_campaign_step_ok_def
          list_all_iff int_between_def)
    then have tot: "campaign_totals (net_simulation_time_us n) (net_next_sequence n) (length (mp_steps c)) x"
      unfolding x by (rule campaign_run_totals[OF ok prep])
    then have "network_ok n'"
      unfolding n'
      by (intro network_ok_change[OF ok])
         (use ok in \<open>simp_all add: network_ok_def error_states_ok_def campaign_totals_def\<close>)
    then show ?thesis
      unfolding s'
      by (intro can_inv_commit[OF assms(1) n(1), where txs = "[]" and cats = "[]"])
         (use tot in \<open>simp_all add: n' campaign_totals_def\<close>)
  qed
qed (use assms(1) in simp)

lemma codec_inv:
  assumes "can_inv s" "vehicle_network v s = Some n"
    and "record_codec e v n i operation contract_id request result s = Inr (x, s')"
  shows "can_inv s'"
proof -
  obtain p where s': "s' = commit_network e ''atep.can.signal.codec.completed.v1'' (''can.signal_'' @ operation) p n
        (s\<lparr>codec_executions := codec_executions s @ [x]\<rparr>)"
    using record_codec_ok(4)[OF assms(3)] by blast
  show ?thesis
    unfolding s'
    by (intro can_inv_commit[OF assms(1,2), where txs = "[]" and cats = "[]"])
       (use vehicle_network_ok[OF assms(1,2)] in simp_all)
qed

lemma encode_inv:
  assumes "can_inv s" "encode_signals e (v, c) s = Inr ((r, n', d), s')" shows "can_inv s'"
  using assms(2)
proof (cases rule: encodings.cases_run)
  case (first n)
  then have n: "vehicle_network v s = Some n" "find_execution sx_key n (se_command_id c) (codec_executions s) = None"
    by (auto simp: committed_def)
  show ?thesis using encode_first[OF n assms(2)] codec_inv[OF assms(1) n(1)] by blast
qed (use assms(1) in simp)

lemma decode_inv:
  assumes "can_inv s" "decode_signals e (v, c) s = Inr ((r, n', d), s')" shows "can_inv s'"
  using assms(2)
proof (cases rule: decodings.cases_run)
  case (first n)
  then have n: "vehicle_network v s = Some n" "find_execution sx_key n (sd_command_id c) (codec_executions s) = None"
    by (auto simp: committed_def)
  show ?thesis using decode_first[OF n assms(2)] codec_inv[OF assms(1) n(1)] by blast
qed (use assms(1) in simp)

lemma catalogue_inv:
  assumes "can_inv s" "create_dbc_catalogue e v c s = Inr ((k, n'), s')" shows "can_inv s'"
proof -
  obtain n p where f: "vehicle_network v s = Some n" "check_messages n (dc_messages c) = Inr ()"
    "n' = n\<lparr>net_version := net_version n + 1\<rparr>" "cat_network_id k = net_id n" "cat_messages k = dc_messages c"
    and s': "s' = commit_network e ''atep.can.dbc.catalogue.created.v1'' ''can.dbc_catalogue_created'' p n'
             (s\<lparr>catalogues := catalogues s @ [k]\<rparr>)"
    using create_catalogue_ok[OF assms(2)] by blast
  have ok: "network_ok n" by (rule vehicle_network_ok[OF assms(1) f(1)])
  have "network_ok n'"
    unfolding f(3) by (rule network_ok_change[OF ok]) (use ok in \<open>simp_all add: network_ok_def error_states_ok_def\<close>)
  then show ?thesis
    unfolding s'
    by (intro can_inv_commit[OF assms(1) f(1), where txs = "[]" and cats = "[k]"]) (simp_all add: f)
qed

lemma create_inv:
  assumes "can_inv s" "can_network_create_ok c" "create_can_network e v c s = Inr (n, s')" shows "can_inv s'"
proof -
  have s': "networks s' = networks s @ [n]" "transmissions s' = transmissions s" "catalogues s' = catalogues s"
    and n: "n = \<lparr>net_id = env_new_id e, net_vehicle_id = veh_id v, net_identifier = nc_identifier c,
                    net_display_name = strip (nc_display_name c), net_bitrate_kbps = nc_bitrate_kbps c,
                    net_can_fd_enabled = nc_can_fd_enabled c, net_data_bitrate_kbps = nc_data_bitrate_kbps c,
                    net_nodes = nc_nodes c, net_frame_contracts = nc_frame_contracts c,
                    net_error_states = [], net_lin_channels = [], net_ethernet_segments = [],
                    net_gateway_routes = [], net_version = 1, net_simulation_time_us = 0,
                    net_next_sequence = 1\<rparr>"
    using assms(3) by (auto simp: create_can_network_def Let_def table_simps split: if_splits option.splits)
  have "network_ok n"
    using assms(2) unfolding n
    by (auto simp: network_ok_def can_network_create_ok_def validate_topology_def bitrates_ok_def contracts_ok_def
        error_states_ok_def transports_ok_def routes_resolve_def int_between_def
        split: if_splits option.splits)
  then show ?thesis
    using assms(1) create_networks_ok(1)[OF _ assms(3)] unfolding can_inv_def s' by auto
qed

section \<open>Reachable stores\<close>

lemma can_step_inv: "can_step s s' \<Longrightarrow> can_inv s \<Longrightarrow> can_inv s'"
proof (induction rule: can_step.induct)
  case (Command c e v s x d s')
  then show ?case
    by (cases c) (auto simp: lift_row_Inr intro: submit_inv inject_inv recover_inv arbitration_inv configure_inv
        route_inv campaign_inv encode_inv decode_inv)
next
  case (Catalogue k e v s r s')
  then show ?case by (cases r) (auto intro: catalogue_inv)
qed (auto intro: create_inv)

lemma can_steps_inv: "can_steps s s' \<Longrightarrow> can_inv s \<Longrightarrow> can_inv s'"
  by (induction rule: rtranclp_induct) (auto intro: can_step_inv)

definition empty_can_store :: can_store where
  "empty_can_store = \<lparr>outbox = [], audit_log = [], ecus = [], ecu_commands = [], ecu_snapshots = [],
     ecu_routes = [], ecu_scenarios = [], networks = [], transmissions = [], fault_executions = [], gateway_executions = [],
     campaign_executions = [], arbitrations = [], catalogues = [], codec_executions = []\<rparr>"

lemma empty_can_inv: "networks s = [] \<Longrightarrow> transmissions s = [] \<Longrightarrow> catalogues s = [] \<Longrightarrow> can_inv s"
  by (simp add: can_inv_def networks_ok_def)

end
