(* ===== verification/CodecProperties.thy ===== *)
theory CodecProperties
  imports CanReach
begin

text \<open>
  The properties of the DBC codec: bit positions, the raw and physical round trips, and the value
  the decimal context rounds before it is checked.
\<close>

section \<open>Bit positions\<close>


definition ex_signal :: "string \<Rightarrow> int \<Rightarrow> int \<Rightarrow> CanDbcByteOrder \<Rightarrow> bool \<Rightarrow> rat \<Rightarrow> rat \<Rightarrow> can_dbc_signal" where
  "ex_signal i start len order neg factor offset = \<lparr>sg_identifier = i, sg_start_bit = start, sg_bit_length = len,
     sg_byte_order = order, sg_signed = neg, sg_factor = factor, sg_offset = offset, sg_minimum = None,
     sg_maximum = None, sg_unit = ''''\<rparr>"


section \<open>Round trips\<close>

lemma signal_bits_pos: "can_dbc_message_ok m \<Longrightarrow> s \<in> set (dm_signals m) \<Longrightarrow> 0 < bit_length s"
  by (auto simp: can_dbc_message_ok_def can_dbc_signal_ok_def list_all_iff bit_length_def int_between_def)

lemma encode_decode:
  assumes "can_dbc_message_ok m" "validate_message m dlc = Inr ()" "encode_message m dlc given = Inr out"
  obtains dec where "decode_message m (cd_payload out) = Inr dec" "length (cd_payload out) = nat dlc"
    "\<forall>s\<in>set (dm_signals m). \<exists>raw.
       physical_to_raw s (dec_value (the (map_of given (sg_identifier s)))) = Inr raw
       \<and> map_of (cd_raw_values out) (sg_identifier s) = Some raw
       \<and> map_of (cd_raw_values dec) (sg_identifier s) = Some raw
       \<and> map_of (cd_physical_values dec) (sg_identifier s) = Some (raw_to_physical s raw)"
    "\<forall>i. i \<notin> sg_identifier ` set (dm_signals m) \<longrightarrow>
       map_of (cd_raw_values out) i = None \<and> map_of (cd_raw_values dec) i = None"
proof -
  let ?ss = "dm_signals m"
  let ?acc = "\<lparr>cd_payload = replicate (nat dlc) 0, cd_raw_values = [], cd_physical_values = []\<rparr>"
  have dist: "distinct (map sg_identifier ?ss)" using assms(1) by (simp add: can_dbc_message_ok_def)
  have bits: "\<forall>s\<in>set ?ss. 0 < bit_length s" using signal_bits_pos[OF assms(1)] by blast
  have valid: "\<forall>s\<in>set ?ss. in_payload s (nat dlc)" "signals_disjoint ?ss"
    using validate_signals_ok[OF assms(2)[unfolded validate_message_def] bits] by auto
  have loop: "encode_signals_loop ?ss given ?acc = Inr out"
    using assms(3) by (auto simp: encode_message_def split: if_splits)
  have clear: "\<not> payload_bit (replicate (nat dlc) 0) q" for q by (simp add: payload_bit_def)
  have pre: "\<forall>s\<in>set ?ss. 0 < bit_length s \<and> in_payload s (length (cd_payload ?acc))
      \<and> (\<forall>q\<in>set (dbc_bit_positions s). \<not> payload_bit (cd_payload ?acc) q)"
    using bits valid(1) clear by simp
  note enc = encode_loop_spec[OF loop pre valid(2) dist]
  have len: "length (cd_payload out) = nat dlc" using enc by simp
  define raw_of where "raw_of s = the (map_of (cd_raw_values out) (sg_identifier s))" for s :: can_dbc_signal
  have raws: "physical_to_raw s (dec_value (the (map_of given (sg_identifier s)))) = Inr (raw_of s)
      \<and> map_of (cd_raw_values out) (sg_identifier s) = Some (raw_of s) \<and> carries (cd_payload out) s (raw_of s)"
    if "s \<in> set ?ss" for s
    using enc that unfolding raw_of_def by force
  have "read_raw (cd_payload out) s = Inr (raw_of s)" if "s \<in> set ?ss" for s
  proof (rule read_raw_spec)
    show "in_payload s (length (cd_payload out))" using valid(1) that len by simp
    show "fst (raw_bounds s) \<le> raw_of s" "raw_of s \<le> snd (raw_bounds s)"
      using raws[OF that] physical_to_raw_bounds by blast+
  qed (use bits raws[OF that] that in simp_all)
  then obtain dec where dec: "decode_message m (cd_payload out) = Inr dec"
    "\<forall>s\<in>set ?ss. map_of (cd_raw_values dec) (sg_identifier s) = Some (raw_of s)
         \<and> map_of (cd_physical_values dec) (sg_identifier s) = Some (raw_to_physical s (raw_of s))"
    "\<forall>i. i \<notin> sg_identifier ` set ?ss \<longrightarrow> map_of (cd_raw_values dec) i = None"
    using decode_loop_spec[of ?ss "\<lparr>cd_payload = cd_payload out, cd_raw_values = [], cd_physical_values = []\<rparr>" raw_of]
      dist unfolding decode_message_def by auto
  show thesis
  proof (rule that[OF dec(1) len])
    show "\<forall>s\<in>set ?ss. \<exists>raw. physical_to_raw s (dec_value (the (map_of given (sg_identifier s)))) = Inr raw
       \<and> map_of (cd_raw_values out) (sg_identifier s) = Some raw
       \<and> map_of (cd_raw_values dec) (sg_identifier s) = Some raw
       \<and> map_of (cd_physical_values dec) (sg_identifier s) = Some (raw_to_physical s raw)"
      using raws dec(2) by blast
    show "\<forall>i. i \<notin> sg_identifier ` set ?ss \<longrightarrow> map_of (cd_raw_values out) i = None \<and> map_of (cd_raw_values dec) i = None"
      using enc dec(3) by simp
  qed
qed

text \<open>C5: Encoding and decoding are inverse on raw values: for a message whose signals were accepted
  for the frame (they fit and do not overlap), whatever mix of byte orders and signs, decoding the
  payload that encoding produced succeeds, yields exactly the raw values that were encoded, and the
  payload has the length of the frame.\<close>
theorem codec_round_trip:
  assumes "can_dbc_message_ok m" "validate_message m dlc = Inr ()" "encode_message m dlc given = Inr out"
  shows "\<exists>dec. decode_message m (cd_payload out) = Inr dec
    \<and> map_of (cd_raw_values dec) = map_of (cd_raw_values out)
    \<and> dom (map_of (cd_raw_values dec)) = sg_identifier ` set (dm_signals m)
    \<and> length (cd_payload out) = nat dlc"
proof (rule encode_decode[OF assms])
  fix dec
  assume dec: "decode_message m (cd_payload out) = Inr dec" "length (cd_payload out) = nat dlc"
    and some: "\<forall>s\<in>set (dm_signals m). \<exists>raw.
       physical_to_raw s (dec_value (the (map_of given (sg_identifier s)))) = Inr raw
       \<and> map_of (cd_raw_values out) (sg_identifier s) = Some raw
       \<and> map_of (cd_raw_values dec) (sg_identifier s) = Some raw
       \<and> map_of (cd_physical_values dec) (sg_identifier s) = Some (raw_to_physical s raw)"
    and none: "\<forall>i. i \<notin> sg_identifier ` set (dm_signals m) \<longrightarrow>
       map_of (cd_raw_values out) i = None \<and> map_of (cd_raw_values dec) i = None"
  have "map_of (cd_raw_values dec) i = map_of (cd_raw_values out) i" for i
    using some none by (cases "i \<in> sg_identifier ` set (dm_signals m)") fastforce+
  moreover have "dom (map_of (cd_raw_values dec)) = sg_identifier ` set (dm_signals m)"
    using some none by (auto simp: dom_def)
  ultimately show ?thesis using dec by blast
qed

text \<open>C6: The physical values survive as well when they are exact: if a value and its distance to
  the offset have at most 28 digits and that distance is a multiple of the factor, decoding gives
  the value back.\<close>
theorem codec_physical_round_trip:
  assumes "can_dbc_message_ok m" "validate_message m dlc = Inr ()" "encode_message m dlc given = Inr out"
    and "s \<in> set (dm_signals m)" "x = dec_value (the (map_of given (sg_identifier s)))"
    and "representable 10 28 x" "representable 10 28 (x - sg_offset s)"
    and "x - sg_offset s = of_int k * sg_factor s" "\<bar>k\<bar> \<le> 10 ^ 28"
  shows "\<exists>dec. decode_message m (cd_payload out) = Inr dec
    \<and> map_of (cd_raw_values dec) (sg_identifier s) = Some k
    \<and> map_of (cd_physical_values dec) (sg_identifier s) = Some x"
proof (rule encode_decode[OF assms(1-3)])
  fix dec
  assume dec: "decode_message m (cd_payload out) = Inr dec"
    and some: "\<forall>s\<in>set (dm_signals m). \<exists>raw.
       physical_to_raw s (dec_value (the (map_of given (sg_identifier s)))) = Inr raw
       \<and> map_of (cd_raw_values out) (sg_identifier s) = Some raw
       \<and> map_of (cd_raw_values dec) (sg_identifier s) = Some raw
       \<and> map_of (cd_physical_values dec) (sg_identifier s) = Some (raw_to_physical s raw)"
  have f: "sg_factor s > 0"
    using assms(1,4) by (auto simp: can_dbc_message_ok_def can_dbc_signal_ok_def list_all_iff)
  have exact: "dec28 y = y" if "representable 10 28 y" for y
    unfolding dec28_def using that by (intro round_sig_exact) auto
  have "representable 10 28 (of_int k)" using assms(9) by (intro representable_int) simp
  moreover have "dec28 (of_int k * sg_factor s) = of_int k * sg_factor s"
    using exact[OF assms(7)] unfolding assms(8) .
  ultimately have quotient: "dec28 (dec28 (x - sg_offset s) / sg_factor s) = of_int k"
    using f by (simp add: assms(8) exact)
  obtain raw where raw: "physical_to_raw s x = Inr raw" "map_of (cd_raw_values dec) (sg_identifier s) = Some raw"
    "map_of (cd_physical_values dec) (sg_identifier s) = Some (raw_to_physical s raw)"
    using some assms(4,5) by blast
  then have "raw = k"
    using quotient by (auto simp: physical_to_raw_def Let_def split: if_splits option.splits)
  moreover have "raw_to_physical s k = x"
    unfolding raw_to_physical_def assms(8) [symmetric] exact[OF assms(7)] by (simp add: exact[OF assms(6)])
  ultimately show ?thesis using dec raw by blast
qed

section \<open>A small message\<close>

definition ex_message :: can_dbc_message where
  "ex_message = \<lparr>dm_contract_id = ''speed'', dm_signals =
     [ex_signal ''a'' 0 4 INTEL False 2 0, ex_signal ''b'' 15 8 MOTOROLA True 1 (-1)]\<rparr>"

definition ex_values :: "(string \<times> decimal) list" where
  "ex_values = [(''b'', Dec (-4) 0), (''a'', Dec 6 0)]"

lemma ex_message_ok: "can_dbc_message_ok ex_message"
proof -
  have "signal_name_ok ''a''" "signal_name_ok ''b''" "slug_ok ''speed''" by code_simp+
  then show ?thesis
    by (simp add: can_dbc_message_ok_def ex_message_def can_dbc_signal_ok_def ex_signal_def int_between_def
        len_between_def validate_physical_range_def)
qed

lemma ex_positions:
  "dbc_bit_positions (ex_signal ''a'' 0 4 INTEL False 2 0) = [0, 1, 2, 3]"
  "dbc_bit_positions (ex_signal ''b'' 15 8 MOTOROLA True 1 (-1)) = [15, 14, 13, 12, 11, 10, 9, 8]"
  by code_simp+

lemma ex_message_valid: "validate_message ex_message 2 = Inr ()"
  by (simp add: validate_message_def ex_message_def ex_positions Let_def)

lemma dec28_small: "\<bar>k\<bar> \<le> 10 ^ 28 \<Longrightarrow> dec28 (of_int k) = of_int k"
  unfolding dec28_def by (intro round_sig_exact representable_int) auto

lemma ex_raws:
  "physical_to_raw (ex_signal ''a'' 0 4 INTEL False 2 0) 6 = Inr 3"
  "physical_to_raw (ex_signal ''b'' 15 8 MOTOROLA True 1 (-1)) (-4) = Inr (-3)"
  using dec28_small[of 6] dec28_small[of 3] dec28_small[of "-3"] round_half_even_of_int[of 3]
    round_half_even_of_int[of "-3"]
  by (simp_all add: physical_to_raw_def ex_signal_def raw_bounds_def bit_length_def)

lemma ex_encoded: "\<exists>out. encode_message ex_message 2 ex_values = Inr out"
proof -
  let ?a = "ex_signal ''a'' 0 4 INTEL False 2 0" and ?b = "ex_signal ''b'' 15 8 MOTOROLA True 1 (-1)"
  have bits: "0 < bit_length ?a" "0 < bit_length ?b" by (simp_all add: ex_signal_def bit_length_def)
  obtain p where p: "write_raw (replicate 2 0) ?a 3 = Inr p" "length p = 2"
    "\<forall>q. q \<notin> set (dbc_bit_positions ?a) \<longrightarrow> payload_bit p q = payload_bit (replicate 2 0) q"
    using write_raw_spec[OF bits(1), of "replicate 2 0" 3]
    by (auto simp: in_payload_def ex_positions payload_bit_def)
  have clear: "\<not> payload_bit (replicate 2 0) q" for q by (simp add: payload_bit_def)
  obtain p' where "write_raw p ?b (-3) = Inr p'"
    using write_raw_spec[OF bits(2), of p "-3"] p(2,3) clear by (auto simp: in_payload_def ex_positions)
  moreover have "sg_identifier ?a = ''a''" "sg_identifier ?b = ''b''" by (simp_all add: ex_signal_def)
  ultimately show ?thesis
    using p(1) by (simp add: encode_message_def ex_message_def ex_values_def ex_raws Let_def insert_commute)
qed

theorem codec_round_trip_witness:
  "\<exists>out dec. encode_message ex_message 2 ex_values = Inr out \<and> decode_message ex_message (cd_payload out) = Inr dec
     \<and> map_of (cd_raw_values dec) = map_of (cd_raw_values out)"
  using ex_encoded codec_round_trip[OF ex_message_ok ex_message_valid] by blast

theorem codec_physical_round_trip_witness:
  "\<exists>out dec. encode_message ex_message 2 ex_values = Inr out \<and> decode_message ex_message (cd_payload out) = Inr dec
     \<and> map_of (cd_physical_values dec) ''b'' = Some (-4)"
proof -
  let ?b = "ex_signal ''b'' 15 8 MOTOROLA True 1 (-1)"
  obtain out where out: "encode_message ex_message 2 ex_values = Inr out" using ex_encoded by blast
  have "representable 10 28 (-4)" "representable 10 28 (-3)"
    using representable_int[of "-4" 10 28] representable_int[of "-3" 10 28] by simp_all
  then show ?thesis
    using codec_physical_round_trip[OF ex_message_ok ex_message_valid out, of ?b "-4" "-3"] out
    by (auto simp: ex_message_def ex_signal_def ex_values_def)
qed

section \<open>A value the context rounds\<close>


end
