(* ===== verification/CanProperties.thy ===== *)
theory CanProperties
  imports CanReach
begin

text \<open>
  The properties of the CAN simulation, each with a witness that applies it to a small network:
  one vehicle with three nodes, two classic frames and one CAN FD frame.
\<close>

section \<open>A small network\<close>

definition ex_vehicle :: vehicle where
  "ex_vehicle = \<lparr>veh_id = ''v1'', veh_identifier = ''car-1''\<rparr>"

definition ex_env :: env where
  "ex_env = \<lparr>env_actor = ''u1'', env_correlation = None, env_new_id = ''id1''\<rparr>"

definition ex_contract :: "string \<Rightarrow> int \<Rightarrow> int \<Rightarrow> uuid \<Rightarrow> uuid \<Rightarrow> can_frame_contract" where
  "ex_contract i f dlc producer consumer = \<lparr>fc_identifier = i, fc_frame_id = f, fc_frame_format = STANDARD,
     fc_protocol = CLASSIC, fc_dlc = dlc, fc_bitrate_switch = False, fc_producer_node_id = producer,
     fc_consumer_node_ids = [consumer]\<rparr>"

definition ex_network :: can_network where
  "ex_network = \<lparr>net_id = ''n1'', net_vehicle_id = ''v1'', net_identifier = ''bus'', net_display_name = ''Bus'',
     net_bitrate_kbps = 500, net_can_fd_enabled = False, net_data_bitrate_kbps = None,
     net_nodes = [\<lparr>cn_ecu_id = ''e1'', cn_role = GATEWAY\<rparr>, \<lparr>cn_ecu_id = ''e2'', cn_role = PARTICIPANT\<rparr>],
     net_frame_contracts = [ex_contract ''speed'' 256 2 ''e1'' ''e2'', ex_contract ''brake'' 16 1 ''e2'' ''e1''],
     net_error_states = [], net_lin_channels = [], net_ethernet_segments = [], net_gateway_routes = [],
     net_version = 1, net_simulation_time_us = 0, net_next_sequence = 1\<rparr>"

definition ex_store :: can_store where
  "ex_store = empty_can_store\<lparr>networks := [ex_network]\<rparr>"

lemma ex_vehicle_network [simp]: "vehicle_network ex_vehicle ex_store = Some ex_network"
  by (simp add: vehicle_network_def ex_vehicle_def ex_store_def ex_network_def select_def)

lemma ex_slugs: "slug_ok ''speed''" "slug_ok ''brake''"
  by code_simp+

lemma ex_network_ok: "network_ok ex_network"
  using ex_slugs
  by (simp add: network_ok_def bitrates_ok_def contracts_ok_def error_states_ok_def transports_ok_def
      routes_resolve_def ex_network_def ex_contract_def can_frame_contract_ok_def validate_contract_def
      int_between_def len_between_def)

lemma ex_store_inv: "can_inv ex_store"
  using ex_network_ok by (simp add: can_inv_def networks_ok_def ex_store_def empty_can_store_def)

lemma ex_store_tables [simp]:
  "transmissions ex_store = []" "fault_executions ex_store = []" "gateway_executions ex_store = []"
  "campaign_executions ex_store = []" "arbitrations ex_store = []" "catalogues ex_store = []"
  "codec_executions ex_store = []" "networks ex_store = [ex_network]"
  by (simp_all add: ex_store_def empty_can_store_def)

lemma find_execution_Nil [simp]: "find_execution key n i [] = None"
  by (simp add: find_execution_def table_simps)

lemma ex_networks_ok: "networks_ok ex_store"
  by (simp add: networks_ok_def)

lemma ex_bus_on [simp]: "\<not> is_bus_off ex_network p"
  by (simp add: is_bus_off_def node_error_state_def derive_error_mode_def ex_network_def)

lemma ex_contract_of [simp]:
  "contract_of ex_network ''speed'' = Inr (ex_contract ''speed'' 256 2 ''e1'' ''e2'')"
  "contract_of ex_network ''brake'' = Inr (ex_contract ''brake'' 16 1 ''e2'' ''e1'')"
  by (simp_all add: contract_of_def ex_network_def ex_contract_def)

lemma ex_network_fields [simp]:
  "net_version ex_network = 1" "net_simulation_time_us ex_network = 0" "net_next_sequence ex_network = 1"
  "net_id ex_network = ''n1''" "net_bitrate_kbps ex_network = 500" "net_gateway_routes ex_network = []"
  by (simp_all add: ex_network_def)

text \<open>Two contenders: \<open>speed\<close> is ready at once, \<open>brake\<close> has the higher priority.\<close>

definition ex_contenders :: "can_arbitration_contender list" where
  "ex_contenders = [
     \<lparr>ct_contract_id = ''speed'', ct_producer_node_id = ''e1'', ct_payload = [1, 2], ct_ready_offset_us = 0\<rparr>,
     \<lparr>ct_contract_id = ''brake'', ct_producer_node_id = ''e2'', ct_payload = [3], ct_ready_offset_us = 0\<rparr>]"

definition ex_arbitration :: can_arbitration_command where
  "ex_arbitration = \<lparr>ac_command_id = ''arbitrate'', ac_expected_version = 1, ac_contenders = ex_contenders\<rparr>"

lemma ex_arbitration_ok: "can_arbitration_command_ok ex_arbitration"
  by code_simp

definition ex_resolved :: "resolved_contender list" where
  "ex_resolved = [
     \<lparr>rc_contract = ex_contract ''speed'' 256 2 ''e1'' ''e2'', rc_producer_node_id = ''e1'',
      rc_payload_bytes = [1, 2], rc_ready_at_us = 0\<rparr>,
     \<lparr>rc_contract = ex_contract ''brake'' 16 1 ''e2'' ''e1'', rc_producer_node_id = ''e2'',
      rc_payload_bytes = [3], rc_ready_at_us = 0\<rparr>]"

lemma ex_resolve:
  "resolve_contenders ex_network ex_arbitration = Inr ex_resolved"
  "resolve_contenders ex_network (ex_arbitration\<lparr>ac_contenders := rev ex_contenders\<rparr>) = Inr (rev ex_resolved)"
  by (simp_all add: resolve_contenders_def ex_arbitration_def ex_contenders_def resolve_contender_def
      ex_resolved_def ex_contract_def[of "''speed''"] ex_contract_def[of "''brake''"])

section \<open>Arbitration\<close>

text \<open>C1: An arbitration transmits every contender exactly once and schedules the bus as
  non-destructive bitwise arbitration does: frames never overlap, no frame that was ready when
  another one started has a higher priority than it, no frame starts before it is ready, and the
  bus only idles while none of the remaining frames is ready.\<close>
theorem arbitration_schedule:
  assumes "network_ok n" "resolve_contenders n c = Inr ws" "arbitrate n ws = (frames, u)"
  shows "mset (map af_contract_id frames) = mset (map ct_contract_id (ac_contenders c))
    \<and> no_overlap frames \<and> no_inversion frames \<and> work_conserving (net_simulation_time_us n) frames
    \<and> (\<forall>f\<in>set frames. af_ready_at_us f \<le> af_started_at_us f)"
proof -
  have contracts: "contracts_ok n" using assms(1) by (simp add: network_ok_def)
  note res = resolved_contenders[OF contracts assms(2)]
  obtain order where sched: "bus_schedule n (mset ws) (net_simulation_time_us n) 0 order frames (ut_window_end_us u)"
    using arbitrate_schedule(1)[OF assms(3)] by blast
  have d: "0 \<le> timing_duration_us (frame_timing (rc_contract w) n)" if "w \<in># mset ws" for w
    using contender_duration[OF assms(1) res(2) that] by simp
  have "map af_contract_id frames = map (\<lambda>w. fc_identifier (rc_contract w)) order"
    using schedule_frames[OF sched] by (induction rule: list_all2_induct) (auto simp: frame_from_facts)
  then have "mset (map af_contract_id frames) = image_mset (\<lambda>w. fc_identifier (rc_contract w)) (mset ws)"
    using schedule_contenders[OF sched] by (simp only: mset_map)
  then have "mset (map af_contract_id frames) = mset (map ct_contract_id (ac_contenders c))"
    by (simp only: res(1) [symmetric] mset_map)
  moreover have "\<forall>f\<in>set frames. af_ready_at_us f \<le> af_started_at_us f"
    using schedule_frame_of[OF sched] frame_from_facts(5) by metis
  ultimately show ?thesis
    using schedule_no_overlap[OF sched d] schedule_no_inversion[OF sched] schedule_work_conserving[OF sched] by blast
qed

theorem arbitration_schedule_witness:
  "\<exists>ws frames u. resolve_contenders ex_network ex_arbitration = Inr ws \<and> arbitrate ex_network ws = (frames, u)
     \<and> mset (map af_contract_id frames) = mset [''speed'', ''brake''] \<and> no_overlap frames"
proof -
  obtain ws frames u where r: "resolve_contenders ex_network ex_arbitration = Inr ws" "arbitrate ex_network ws = (frames, u)"
    using ex_resolve(1) by (metis surj_pair)
  then show ?thesis
    using arbitration_schedule[OF ex_network_ok r]
    by (auto simp: ex_arbitration_def ex_contenders_def)
qed

text \<open>C2: The outcome of an arbitration does not depend on the order in which the contenders are
  listed: the same contenders give the same frames and the same utilization.\<close>
theorem arbitration_order_irrelevant:
  assumes "resolve_contenders n c = Inr ws" "resolve_contenders n c' = Inr ws'" "contracts_ok n"
    and "mset (ac_contenders c) = mset (ac_contenders c')" "can_arbitration_command_ok c"
  shows "arbitrate n ws = arbitrate n ws'"
proof -
  let ?f = "\<lambda>k. projr (resolve_contender n k)"
  have fun_of: "zs = map ?f ks" if "map_ok (resolve_contender n) ks = Inr zs" for ks zs
    using that unfolding map_ok_Inr by (induction rule: list_all2_induct) auto
  have "ws = map ?f (ac_contenders c)" "ws' = map ?f (ac_contenders c')"
    using fun_of assms(1,2) unfolding resolve_contenders_def by blast+
  then have ms: "mset ws' = mset ws" using assms(4) by (metis mset_map)
  have "distinct (map (\<lambda>w. fc_identifier (rc_contract w)) ws)"
    unfolding resolved_contenders(1)[OF assms(3,1)] using assms(5) by (simp add: can_arbitration_command_ok_def)
  then have inj: "inj_on priority (set_mset (mset ws))" by (simp add: distinct_map priority_inject)
  obtain frames u frames' u' where a: "arbitrate n ws = (frames, u)" "arbitrate n ws' = (frames', u')"
    by (metis surj_pair)
  have same: "frames' = frames" "ut_window_end_us u' = ut_window_end_us u"
    using arbitrate_schedule(1)[OF a(1)] arbitrate_schedule(1)[OF a(2)] schedule_deterministic[OF _ _ inj] ms
    by metis+
  have "u' = u"
    using arbitrate_schedule[OF a(1)] arbitrate_schedule[OF a(2)] same by (intro can_bus_utilization.equality) simp_all
  then show ?thesis using a same by simp
qed

theorem arbitration_order_irrelevant_witness:
  "\<exists>ws ws'. resolve_contenders ex_network ex_arbitration = Inr ws
     \<and> resolve_contenders ex_network (ex_arbitration\<lparr>ac_contenders := rev ex_contenders\<rparr>) = Inr ws'
     \<and> ws \<noteq> ws' \<and> arbitrate ex_network ws = arbitrate ex_network ws'"
proof -
  have "contracts_ok ex_network" using ex_network_ok by (simp add: network_ok_def)
  then have "arbitrate ex_network ex_resolved = arbitrate ex_network (rev ex_resolved)"
    using arbitration_order_irrelevant[OF ex_resolve] ex_arbitration_ok by (simp add: ex_arbitration_def)
  moreover have "ex_resolved \<noteq> rev ex_resolved" by (simp add: ex_resolved_def)
  ultimately show ?thesis using ex_resolve by blast
qed

text \<open>The reported utilization adds up: the occupied time is the sum of the frame durations,
  occupied and idle time fill the window between the old and the new simulation time, the last
  frame ends within it, and the percentage the floats compute lies between 0 and 100.\<close>
theorem arbitration_window_accounted:
  assumes "network_ok n" "resolve_contenders n c = Inr ws" "arbitrate n ws = (frames, u)"
  shows "ut_window_start_us u = net_simulation_time_us n
    \<and> ut_window_duration_us u = ut_window_end_us u - ut_window_start_us u
    \<and> ut_occupied_us u = sum_list (map af_duration_us frames)
    \<and> ut_occupied_us u + ut_idle_us u = ut_window_duration_us u \<and> 0 \<le> ut_idle_us u
    \<and> 0 \<le> ut_utilization_percent u \<and> ut_utilization_percent u \<le> 100
    \<and> (\<forall>f\<in>set frames. 0 < af_duration_us f \<and> af_completed_at_us f \<le> ut_window_end_us u)"
proof -
  have "contracts_ok n" using assms(1) by (simp add: network_ok_def)
  note wok = resolved_contenders(2)[OF this assms(2)]
  note w = arbitrate_window[OF assms(1) wok assms(3)]
  note a = arbitrate_schedule[OF assms(3)]
  have "0 \<le> utilization_percent (ut_occupied_us u) (ut_window_duration_us u)"
    "utilization_percent (ut_occupied_us u) (ut_window_duration_us u) \<le> 100"
    using utilization_percent_bounds w by simp_all
  then show ?thesis using w a(2,4,6) by simp
qed

theorem arbitration_window_accounted_witness:
  "\<exists>frames u. arbitrate ex_network ex_resolved = (frames, u) \<and> ut_window_start_us u = 0
     \<and> ut_occupied_us u + ut_idle_us u = ut_window_duration_us u \<and> ut_utilization_percent u \<le> 100"
proof -
  obtain frames u where a: "arbitrate ex_network ex_resolved = (frames, u)" by fastforce
  then show ?thesis using arbitration_window_accounted[OF ex_network_ok ex_resolve(1) a] by simp
qed

text \<open>C3: Transmission times come from the bit counts exactly: below \<open>10\<^sup>12\<close> bits the float
  quotient, rounded up, is the integer quotient rounded up. So a frame of \<open>b\<close> bits at \<open>r\<close> kbit/s
  occupies the least whole number of microseconds in which \<open>b\<close> bits fit, and a CAN FD frame with
  bit-rate switching never takes longer than the same frame without it.\<close>
theorem frame_time_exact:
  assumes "network_ok n" "can_frame_contract_ok c"
  shows "timing_duration_us (frame_timing c n) =
      (let r = net_bitrate_kbps n;
           d = (case net_data_bitrate_kbps n of Some b \<Rightarrow> if fc_bitrate_switch c then b else r | None \<Rightarrow> r)
       in if fc_protocol c = CLASSIC
          then ceil_div (((if fc_frame_format c = STANDARD then 47 else 67) + 8 * fc_dlc c) * 1000) r
          else ceil_div ((if fc_frame_format c = STANDARD then 32 else 52) * 1000) r
             + ceil_div ((8 * fc_dlc c + (if fc_dlc c \<le> 16 then 17 else 21)) * 1000) d)
    \<and> timing_duration_us (frame_timing c n) \<le> timing_duration_us (frame_timing (c\<lparr>fc_bitrate_switch := False\<rparr>) n)
    \<and> 0 < timing_duration_us (frame_timing c n)"
proof -
  have b: "bitrates_ok n" using assms(1) by (simp add: network_ok_def)
  have dlc: "0 \<le> fc_dlc c" "fc_dlc c \<le> 64" using contract_dlc[OF assms(2)] by auto
  have dur: "duration_us bits r = ceil_div (bits * 1000) r" if "0 \<le> bits" "bits \<le> 1000" "0 < r" for bits r
    using that by (intro duration_us_ceil_div) auto
  have mono: "ceil_div a r' \<le> ceil_div a r" if "0 \<le> a" "0 < r" "r \<le> r'" for a r r' :: int
  proof -
    have "a \<le> ceil_div a r * r" using ceil_div_bounds(1)[OF that(2)] .
    also have "\<dots> \<le> ceil_div a r * r'" using that by (intro mult_left_mono) (auto simp: ceil_div_nonneg)
    finally have "(ceil_div a r' - 1) * r' < ceil_div a r * r'"
      using ceil_div_bounds(2)[of r' a] that by linarith
    then show ?thesis using that by (simp add: mult_less_cancel_right)
  qed
  have r: "0 < net_bitrate_kbps n" using bitrates_pos(1)[OF b] .
  have le: "ceil_div x d \<le> ceil_div x (net_bitrate_kbps n)" if "net_data_bitrate_kbps n = Some d" "0 \<le> x" for x d
    using mono bitrates_pos(2)[OF b that(1)] r that(2) by blast
  show ?thesis
    using frame_timing_pos[OF b dlc] dlc r bitrates_pos(2)[OF b]
    by (cases "fc_protocol c"; cases "net_data_bitrate_kbps n")
       (auto simp: frame_timing_def timing_duration_us_def Let_def dur intro!: le)
qed

theorem frame_time_exact_witness:
  "timing_duration_us (frame_timing (ex_contract ''speed'' 256 2 ''e1'' ''e2'') ex_network) = 126"
proof -
  have "can_frame_contract_ok (ex_contract ''speed'' 256 2 ''e1'' ''e2'')"
    using ex_slugs(1) by (simp add: can_frame_contract_ok_def ex_contract_def validate_contract_def
        int_between_def len_between_def)
  then show ?thesis
    using frame_time_exact[OF ex_network_ok, of "ex_contract ''speed'' 256 2 ''e1'' ''e2''"]
    by (simp add: ex_contract_def ceil_div_def Let_def)
qed

end
