(* ===== verification/EcuProfiles.thy ===== *)
theory EcuProfiles
  imports EcuModels
begin

text \<open>
  The behaviour profiles of the control units: \<open>src/src/atep/ecus/profiles.py\<close>. A profile fixes the
  cyclic tasks a unit may run, the counters and flags of its behaviour state, and which counter a
  run of each task increments.
\<close>

record ecu_behavior_profile =
  pf_ecu_type :: EcuType
  pf_profile_version :: string
  pf_description :: string
  pf_tasks :: "ecu_task list"
  pf_initial_state :: "(string \<times> behavior_value) list"
  pf_state_effects :: "(string \<times> string) list"

definition profile ::
  "EcuType \<Rightarrow> string \<Rightarrow> (string \<times> int \<times> int \<times> string) list \<Rightarrow> (string \<times> behavior_value) list
    \<Rightarrow> ecu_behavior_profile" where
  "profile t description tasks initial = \<lparr>pf_ecu_type = t, pf_profile_version = ''1.0.0'',
     pf_description = description,
     pf_tasks = map (\<lambda>(i, p, q, _). \<lparr>tk_task_id = i, tk_period_ms = p, tk_offset_ms = q\<rparr>) tasks,
     pf_initial_state = initial, pf_state_effects = map (\<lambda>(i, _, _, f). (i, f)) tasks\<rparr>"

definition motor_profile :: ecu_behavior_profile where
  "motor_profile = profile MOTOR ''Electric motor torque and thermal control baseline.''
     [(''torque_control'', 10, 0, ''increments torque_control_cycles''),
      (''motor_thermal'', 100, 20, ''increments thermal_samples'')]
     [(''torque_control_cycles'', BInt 0), (''thermal_samples'', BInt 0), (''inverter_enabled'', BBool False)]"

definition battery_profile :: ecu_behavior_profile where
  "battery_profile = profile BATTERY ''Battery cell monitoring and state-estimation baseline.''
     [(''cell_monitor'', 100, 0, ''increments cell_samples''),
      (''soc_estimation'', 1000, 100, ''increments soc_estimation_cycles'')]
     [(''cell_samples'', BInt 0), (''soc_estimation_cycles'', BInt 0), (''contactors_closed'', BBool False)]"

definition body_profile :: ecu_behavior_profile where
  "body_profile = profile BODY ''Body actuator and occupant-state coordination baseline.''
     [(''body_control'', 50, 0, ''increments body_control_cycles''),
      (''occupant_monitor'', 250, 25, ''increments occupant_samples'')]
     [(''body_control_cycles'', BInt 0), (''occupant_samples'', BInt 0), (''cabin_awake'', BBool False)]"

definition gateway_profile :: ecu_behavior_profile where
  "gateway_profile = profile ECU_GATEWAY ''Protocol-independent routing and network-health baseline.''
     [(''route_scheduler'', 5, 0, ''increments routing_cycles''),
      (''network_health'', 100, 10, ''increments network_health_samples'')]
     [(''routing_cycles'', BInt 0), (''network_health_samples'', BInt 0), (''routing_enabled'', BBool False)]"

definition abs_profile :: ecu_behavior_profile where
  "abs_profile = profile ABS ''Safety-controller wheel regulation and supervision baseline.''
     [(''wheel_control'', 10, 0, ''increments wheel_control_cycles''),
      (''safety_monitor'', 100, 5, ''increments safety_checks'')]
     [(''wheel_control_cycles'', BInt 0), (''safety_checks'', BInt 0), (''intervention_active'', BBool False)]"

text \<open>Units without a profile of their own run the body baseline under their own type.\<close>

fun behavior_profile :: "EcuType \<Rightarrow> ecu_behavior_profile" where
  "behavior_profile MOTOR = motor_profile"
| "behavior_profile BATTERY = battery_profile"
| "behavior_profile BODY = body_profile"
| "behavior_profile ECU_GATEWAY = gateway_profile"
| "behavior_profile ABS = abs_profile"
| "behavior_profile t = body_profile\<lparr>pf_ecu_type := t,
     pf_description := ecu_type_value t @ '' controller coordination baseline.''\<rparr>"

definition behavior_profiles :: "ecu_behavior_profile list" where
  "behavior_profiles = map behavior_profile [MOTOR, BATTERY, DOOR, ABS, ADAS, CLIMATE, ECU_GATEWAY, LIGHTING, BODY]"

section \<open>Transitions\<close>

definition removeprefix :: "string \<Rightarrow> string \<Rightarrow> string" where
  "removeprefix p s = (if take (length p) s = p then drop (length p) s else s)"

lemma removeprefix_append [simp]: "removeprefix p (p @ s) = s"
  by (simp add: removeprefix_def)

text \<open>\<open>execute_profile_transitions\<close>: the loop over the runs, with the updated state threaded through.\<close>

fun execute_profile_transitions ::
  "ecu_behavior_profile \<Rightarrow> (string \<times> behavior_value) list \<Rightarrow> ecu_task_run_summary list
    \<Rightarrow> app_error + (string \<times> behavior_value) list" where
  "execute_profile_transitions p updated [] = Inr updated"
| "execute_profile_transitions p updated (run # runs) =
     (case map_of (pf_state_effects p) (run_task_id run) of
        None \<Rightarrow> execute_profile_transitions p updated runs
      | Some effect \<Rightarrow>
          if run_execution_count run = 0 then execute_profile_transitions p updated runs
          else let state_key = removeprefix ''increments '' effect in
            (case (case map_of updated state_key of None \<Rightarrow> BInt 0 | Some x \<Rightarrow> x) of
               BInt n \<Rightarrow> execute_profile_transitions p
                 (AList.update state_key (BInt (n + run_execution_count run)) updated) runs
             | _ \<Rightarrow> Inl (ValueError (''profile counter '' @ state_key @ '' must be an integer''))))"

end
