(* ===== verification/EcuHandler.thy ===== *)
theory EcuHandler
  imports EcuProfiles Replay
begin

text \<open>
  What the ECU handlers of \<open>src/src/atep/ecus/service.py\<close> share: the lookups of a unit and of a
  stored command, the evidence dictionaries, the row a command leaves behind, and the contract of
  a command handler (\<open>ecu_handler\<close>) with its consequences.
\<close>

section \<open>Lookups and evidence\<close>

definition find_ecu :: "vehicle \<Rightarrow> string \<Rightarrow> 'a ecu_store_scheme \<Rightarrow> electronic_control_unit option" where
  "find_ecu v i s = select (\<lambda>u. ecu_vehicle_id u = veh_id v \<and> ecu_identifier u = i) (ecus s)"

definition require_ecu :: "vehicle \<Rightarrow> string \<Rightarrow> 'a ecu_store_scheme \<Rightarrow> app_error + electronic_control_unit" where
  "require_ecu v i s = of_option (ResourceNotFound ''ecu'') (find_ecu v i s)"

definition existing_simulation_command ::
  "electronic_control_unit \<Rightarrow> string \<Rightarrow> 'a ecu_store_scheme \<Rightarrow> ecu_simulation_command option" where
  "existing_simulation_command u i s = select (\<lambda>r. ec_ecu_id r = ecu_id u \<and> ec_command_id r = i) (ecu_commands s)"

definition ecu_evidence :: "electronic_control_unit \<Rightarrow> vehicle \<Rightarrow> dict" where
  "ecu_evidence u v = [(''ecu_id'', JStr (ecu_id u)), (''ecu_identifier'', JStr (ecu_identifier u)),
     (''vehicle_id'', JStr (veh_identifier v)), (''ecu_type'', JStr (ecu_type_value (ecu_type u))),
     (''profile_version'', JStr (ecu_profile_version u))]"

definition simulation_evidence ::
  "ecu_simulation_command \<Rightarrow> electronic_control_unit \<Rightarrow> vehicle \<Rightarrow> dict" where
  "simulation_evidence r u v = ecu_evidence u v @ [(''command_id'', JStr (ec_command_id r)),
     (''previous_version'', JInt (ec_previous_version r)), (''version'', JInt (ec_state_version r)),
     (''previous_time_ms'', JInt (ec_previous_time_ms r)), (''simulation_time_ms'', JInt (ec_simulation_time_ms r))]"

definition save_ecu :: "electronic_control_unit \<Rightarrow> 'a ecu_store_scheme \<Rightarrow> 'a ecu_store_scheme" where
  "save_ecu u s = s\<lparr>ecus := update_row ecu_id u (ecus s)\<rparr>"

text \<open>
  The end of every command handler: the execution is inserted under \<open>uq_ecu_sim_command\<close> together
  with the changed unit, then one event and one audit record are written.
\<close>

definition record_command ::
  "env \<Rightarrow> string \<Rightarrow> string \<Rightarrow> uuid \<Rightarrow> dict \<Rightarrow> string \<Rightarrow> dict \<Rightarrow> electronic_control_unit \<Rightarrow> ecu_simulation_command
    \<Rightarrow> 'a ecu_store_scheme \<Rightarrow> app_error + (ecu_simulation_command \<times> bool) \<times> 'a ecu_store_scheme" where
  "record_command e event_type resource_type resource_id payload action details u r s =
     and_then (of_option (IntegrityError ''uq_ecu_sim_command'') (insert_row command_key r (ecu_commands s))) (\<lambda>rows.
       Inr ((r, False), add_event_audit e event_type resource_type resource_id payload action details
         (save_ecu u (s\<lparr>ecu_commands := rows\<rparr>))))"

section \<open>Stores that only grow\<close>

text \<open>The same unit at a later point of its life.\<close>

definition same_unit :: "electronic_control_unit \<Rightarrow> electronic_control_unit \<Rightarrow> bool" where
  "same_unit u u' \<longleftrightarrow> ecu_id u' = ecu_id u \<and> ecu_vehicle_id u' = ecu_vehicle_id u
     \<and> ecu_identifier u' = ecu_identifier u \<and> ecu_type u' = ecu_type u
     \<and> ecu_profile_version u' = ecu_profile_version u \<and> ecu_version u \<le> ecu_version u'"

definition extends :: "'r list \<Rightarrow> 'r list \<Rightarrow> bool" where
  "extends xs ys \<longleftrightarrow> (\<exists>zs. ys = xs @ zs)"

lemma extends_refl [simp]: "extends xs xs" "extends xs (xs @ ys)"
  by (auto simp: extends_def)

lemma extends_trans: "extends xs ys \<Longrightarrow> extends ys zs \<Longrightarrow> extends xs zs"
  by (auto simp: extends_def)

definition units_grow :: "electronic_control_unit list \<Rightarrow> electronic_control_unit list \<Rightarrow> bool" where
  "units_grow us us' \<longleftrightarrow> (\<exists>f xs. us' = map f us @ xs \<and> (\<forall>u\<in>set us. same_unit u (f u)))"

definition ecu_grows :: "'a ecu_store_scheme \<Rightarrow> 'a ecu_store_scheme \<Rightarrow> bool" where
  "ecu_grows s s' \<longleftrightarrow> units_grow (ecus s) (ecus s') \<and> extends (ecu_commands s) (ecu_commands s')
     \<and> extends (ecu_snapshots s) (ecu_snapshots s') \<and> extends (ecu_routes s) (ecu_routes s')
     \<and> extends (ecu_scenarios s) (ecu_scenarios s')"

lemma same_unit_refl [simp]: "same_unit u u"
  by (simp add: same_unit_def)

lemma same_unit_trans: "same_unit u u' \<Longrightarrow> same_unit u' u'' \<Longrightarrow> same_unit u u''"
  by (auto simp: same_unit_def)

lemma units_grow_append [simp]: "units_grow us (us @ xs)"
proof -
  have "us @ xs = map id us @ xs \<and> (\<forall>u\<in>set us. same_unit u (id u))" by simp
  then show ?thesis unfolding units_grow_def by blast
qed

lemma units_grow_refl [simp]: "units_grow us us"
  using units_grow_append[of us "[]"] by simp

lemma units_grow_trans:
  assumes "units_grow us us'" "units_grow us' us''" shows "units_grow us us''"
proof -
  obtain f xs g ys where f: "us' = map f us @ xs" "\<forall>u\<in>set us. same_unit u (f u)"
    and g: "us'' = map g us' @ ys" "\<forall>u\<in>set us'. same_unit u (g u)"
    using assms unfolding units_grow_def by blast
  have "us'' = map (g \<circ> f) us @ (map g xs @ ys)" using f(1) g(1) by simp
  moreover have "\<forall>u\<in>set us. same_unit u ((g \<circ> f) u)"
    using f g(2) by (auto intro: same_unit_trans)
  ultimately show ?thesis unfolding units_grow_def by blast
qed

lemma unit_unique: "distinct (map ecu_id us) \<Longrightarrow> u \<in> set us \<Longrightarrow> x \<in> set us \<Longrightarrow> ecu_id x = ecu_id u \<Longrightarrow> x = u"
  by (auto simp: distinct_map dest: inj_onD)

lemma units_grow_update:
  assumes "u \<in> set us" "same_unit u u'" "distinct (map ecu_id us)"
  shows "units_grow us (update_row ecu_id u' us)"
proof -
  let ?f = "\<lambda>x. if ecu_id x = ecu_id u' then u' else x"
  have "same_unit x (?f x)" if "x \<in> set us" for x
  proof (cases "ecu_id x = ecu_id u'")
    case True
    then have "x = u" using unit_unique[OF assms(3,1) that] assms(2) by (simp add: same_unit_def)
    then show ?thesis using True assms(2) by simp
  qed simp
  then show ?thesis unfolding units_grow_def update_row_def
    by (intro exI[of _ ?f] exI[of _ "[]"]) simp
qed

lemma ecu_grows_refl [simp]: "ecu_grows s s"
  by (simp add: ecu_grows_def)

lemma ecu_grows_trans: "ecu_grows s t \<Longrightarrow> ecu_grows t u \<Longrightarrow> ecu_grows s u"
  by (auto simp: ecu_grows_def intro: units_grow_trans extends_trans)

lemma select_units_grow:
  assumes "units_grow us us'" "select p us = Some u" "\<And>x y. same_unit x y \<Longrightarrow> p y = p x"
  shows "\<exists>u'. select p us' = Some u' \<and> same_unit u u'"
proof -
  obtain f xs where f: "us' = map f us @ xs" "\<forall>u\<in>set us. same_unit u (f u)"
    using assms(1) unfolding units_grow_def by blast
  have "select p (map f us) = map_option f (select p us)"
    using f(2) assms(3) by (induction us) (auto simp: select_def)
  then have "select p us' = Some (f u)" using f(1) assms(2) by (simp add: select_append)
  moreover have "u \<in> set us" using select_SomeD[OF assms(2)] by simp
  ultimately show ?thesis using f(2) by blast
qed

lemma find_ecu_grows:
  "ecu_grows s s' \<Longrightarrow> find_ecu v i s = Some u \<Longrightarrow> \<exists>u'. find_ecu v i s' = Some u' \<and> same_unit u u'"
  unfolding find_ecu_def ecu_grows_def by (rule select_units_grow) (auto simp: same_unit_def)

lemma find_ecu_row: "find_ecu v i s = Some u \<Longrightarrow> u \<in> set (ecus s) \<and> ecu_vehicle_id u = veh_id v \<and> ecu_identifier u = i"
  unfolding find_ecu_def by (auto dest!: select_SomeD)

lemma select_units_update:
  assumes "distinct (map ecu_id us)" "select p us = Some u" "same_unit u u'" "p u' = p u"
  shows "select p (update_row ecu_id u' us) = Some u'"
proof (rule select_update_same[OF assms(2)])
  have u: "u \<in> set us" using select_SomeD[OF assms(2)] by simp
  show "ecu_id u = ecu_id u'" using assms(3) by (simp add: same_unit_def)
  then show "p x = p u'" if "x \<in> set us" "ecu_id x = ecu_id u'" for x
    using unit_unique[OF assms(1) u that(1)] that(2) assms(4) by simp
qed

lemma find_ecu_update:
  assumes "ecu_store_ok s" "find_ecu v i s = Some u" "same_unit u u'" "ecus s' = update_row ecu_id u' (ecus s)"
  shows "find_ecu v i s' = Some u'"
  using assms unfolding find_ecu_def ecu_store_ok_def assms(4)
  by (intro select_units_update) (auto simp: same_unit_def)

section \<open>What a first use commits\<close>

text \<open>The same store with one event and one audit record more.\<close>

definition audited :: "'s session_scheme \<Rightarrow> 's session_scheme \<Rightarrow> bool" where
  "audited s s' \<longleftrightarrow> (\<exists>e t rt i p a d. s' = add_event_audit e t rt i p a d s)"

lemma auditedI [simp, intro]: "audited s (add_event_audit e t rt i p a d s)"
  unfolding audited_def by blast

lemma audited_fields:
  fixes s :: "'a ecu_store_scheme"
  assumes "audited s s'"
  shows "ecus s' = ecus s" "ecu_commands s' = ecu_commands s" "ecu_snapshots s' = ecu_snapshots s"
    and "ecu_routes s' = ecu_routes s" "ecu_scenarios s' = ecu_scenarios s" "ecu_store.more s' = ecu_store.more s"
  using assms by (auto simp: audited_def)

lemma audited_counts:
  "audited s s' \<Longrightarrow> evidence_counts s' = (Suc (fst (evidence_counts s)), Suc (snd (evidence_counts s)))"
  by (auto simp: audited_def)

definition ecu_recorded ::
  "electronic_control_unit \<Rightarrow> ecu_simulation_command \<Rightarrow> 'a ecu_store_scheme \<Rightarrow> 'a ecu_store_scheme \<Rightarrow> bool" where
  "ecu_recorded u' r s s' \<longleftrightarrow> command_key r \<notin> command_key ` set (ecu_commands s)
     \<and> audited (save_ecu u' (s\<lparr>ecu_commands := ecu_commands s @ [r]\<rparr>)) s'"

definition ecu_committed ::
  "string \<Rightarrow> electronic_control_unit \<Rightarrow> 'a ecu_store_scheme \<Rightarrow> ecu_simulation_command \<Rightarrow> electronic_control_unit
    \<Rightarrow> 'a ecu_store_scheme \<Rightarrow> bool" where
  "ecu_committed i u s r u' s' \<longleftrightarrow> same_unit u u' \<and> ecu_version u' = ecu_version u + 1
     \<and> command_key r = (ecu_id u, i) \<and> ec_previous_version r = ecu_version u \<and> ec_state_version r = ecu_version u'
     \<and> ec_previous_time_ms r = ecu_simulation_time_ms u \<and> ec_simulation_time_ms r = ecu_simulation_time_ms u'
     \<and> ecu_recorded u' r s s'"

lemma record_command_Inr:
  "record_command e t rt j p a d u' r s = Inr ((q, dup), s') \<Longrightarrow> q = r \<and> \<not> dup \<and> ecu_recorded u' r s s'"
  by (auto simp: ecu_recorded_def record_command_def ok_simps table_simps)

lemma ecu_committed_tables:
  assumes "ecu_committed i u s r u' s'"
  shows "ecus s' = update_row ecu_id u' (ecus s)" "ecu_commands s' = ecu_commands s @ [r]"
    and "ecu_snapshots s' = ecu_snapshots s" "ecu_routes s' = ecu_routes s" "ecu_scenarios s' = ecu_scenarios s"
    and "evidence_counts s' = (Suc (fst (evidence_counts s)), Suc (snd (evidence_counts s)))"
    and "ecu_store.more s' = ecu_store.more s"
proof -
  let ?t = "save_ecu u' (s\<lparr>ecu_commands := ecu_commands s @ [r]\<rparr>)"
  have a: "audited ?t s'" using assms by (simp add: ecu_committed_def ecu_recorded_def)
  show "ecus s' = update_row ecu_id u' (ecus s)" "ecu_commands s' = ecu_commands s @ [r]"
    "ecu_snapshots s' = ecu_snapshots s" "ecu_routes s' = ecu_routes s" "ecu_scenarios s' = ecu_scenarios s"
    "ecu_store.more s' = ecu_store.more s"
    using audited_fields[OF a] by (simp_all add: save_ecu_def)
  have "evidence_counts ?t = evidence_counts s" by (simp add: save_ecu_def evidence_counts_def)
  then show "evidence_counts s' = (Suc (fst (evidence_counts s)), Suc (snd (evidence_counts s)))"
    using audited_counts[OF a] by simp
qed

lemma ecu_key_update:
  assumes "distinct (map ecu_id us)" "u \<in> set us" "same_unit u u'"
  shows "map ecu_key (update_row ecu_id u' us) = map ecu_key us"
proof -
  have "ecu_key (if ecu_id x = ecu_id u' then u' else x) = ecu_key x" if "x \<in> set us" for x
    using unit_unique[OF assms(1,2) that] assms(3) by (auto simp: same_unit_def ecu_key_def)
  then show ?thesis by (simp add: update_row_def)
qed

lemma ecu_committed_ok:
  assumes "ecu_store_ok s" "ecu_committed i u s r u' s'" "u \<in> set (ecus s)"
  shows "ecu_store_ok s'" "ecu_grows s s'" "existing_simulation_command u i s = None \<Longrightarrow> existing_simulation_command u i s' = Some r"
proof -
  note t = ecu_committed_tables[OF assms(2)]
  have s: "same_unit u u'" and k: "command_key r \<notin> command_key ` set (ecu_commands s)" "command_key r = (ecu_id u, i)"
    using assms(2) unfolding ecu_committed_def ecu_recorded_def by blast+
  have d: "distinct (map ecu_id (ecus s))" using assms(1) by (simp add: ecu_store_ok_def)
  show "ecu_store_ok s'"
    using assms(1) k(1) unfolding ecu_store_ok_def t(1-5) ecu_key_update[OF d assms(3) s]
    by (simp add: update_row_keys)
  show "ecu_grows s s'" using units_grow_update[OF assms(3) s d] by (simp add: ecu_grows_def t)
  show "existing_simulation_command u i s' = Some r" if "existing_simulation_command u i s = None"
    using that k(2) by (simp add: existing_simulation_command_def t(2) select_insert_miss command_key_def)
qed

section \<open>The contract of a command handler\<close>

definition stored_command ::
  "('c \<Rightarrow> 'a ecu_store_scheme \<Rightarrow> electronic_control_unit option) \<Rightarrow> ('c \<Rightarrow> string) \<Rightarrow> 'c
    \<Rightarrow> 'a ecu_store_scheme \<Rightarrow> ecu_simulation_command option" where
  "stored_command target command_id c s =
     (case target c s of None \<Rightarrow> None | Some u \<Rightarrow> existing_simulation_command u (command_id c) s)"

text \<open>The ECU handlers return no unit; \<open>lift_run\<close> gives them the shape of \<^const>\<open>idempotent\<close>.\<close>

definition lift_run ::
  "('e \<Rightarrow> 'c \<Rightarrow> 's \<Rightarrow> app_error + ('r \<times> bool) \<times> 's) \<Rightarrow> 'e \<Rightarrow> 'c \<Rightarrow> 's \<Rightarrow> app_error + ('r \<times> unit \<times> bool) \<times> 's" where
  "lift_run run e c s = and_then (run e c s) (\<lambda>((r, d), s'). Inr ((r, (), d), s'))"

lemma lift_run_Inr: "lift_run run e c s = Inr ((r, n, d), s') \<longleftrightarrow> run e c s = Inr ((r, d), s')"
  by (auto simp: lift_run_def ok_simps)

lemma lift_run_Inl: "lift_run run e c s = Inl x \<longleftrightarrow> run e c s = Inl x"
  by (auto simp: lift_run_def ok_simps)

locale ecu_handler =
  fixes run :: "env \<Rightarrow> 'c \<Rightarrow> 'a ecu_store_scheme \<Rightarrow> app_error + (ecu_simulation_command \<times> bool) \<times> 'a ecu_store_scheme"
    and target :: "'c \<Rightarrow> 'a ecu_store_scheme \<Rightarrow> electronic_control_unit option"
    and command_id :: "'c \<Rightarrow> string"
    and same :: "'c \<Rightarrow> ecu_simulation_command \<Rightarrow> bool"
  assumes target_row: "target c s = Some u \<Longrightarrow> u \<in> set (ecus s)"
    and target_grows: "ecu_grows s s' \<Longrightarrow> target c s = Some u \<Longrightarrow> \<exists>u'. target c s' = Some u' \<and> same_unit u u'"
    and target_update: "ecu_store_ok s \<Longrightarrow> target c s = Some u \<Longrightarrow> same_unit u u'
      \<Longrightarrow> ecus s' = update_row ecu_id u' (ecus s) \<Longrightarrow> target c s' = Some u'"
    and hit: "target c s = Some u \<Longrightarrow> existing_simulation_command u (command_id c) s = Some r
      \<Longrightarrow> run e c s = (if same c r then Inr ((r, True), s) else Inl EcuSimulationCommandConflict)"
    and fresh: "target c s = Some u \<Longrightarrow> existing_simulation_command u (command_id c) s = None
      \<Longrightarrow> run e c s = Inr ((r, d), s')
      \<Longrightarrow> \<not> d \<and> same c r \<and> (\<exists>u'. ecu_committed (command_id c) u s r u' s')"
    and no_target: "target c s = None \<Longrightarrow> \<exists>x. run e c s = Inl x"
begin

lemma cases_run:
  assumes "run e c s = Inr ((r, d), s')"
  obtains (replayed) u where "target c s = Some u" "existing_simulation_command u (command_id c) s = Some r"
      "same c r" "d" "s' = s"
  | (first) u u' where "target c s = Some u" "existing_simulation_command u (command_id c) s = None"
      "\<not> d" "same c r" "ecu_committed (command_id c) u s r u' s'"
proof -
  obtain u where u: "target c s = Some u" using no_target[of c s e] assms by (cases "target c s") auto
  show thesis
  proof (cases "existing_simulation_command u (command_id c) s")
    case None
    then show thesis using fresh[OF u None assms] first u by blast
  next
    case (Some q)
    then show thesis using hit[OF u Some, of e] assms replayed u by (auto split: if_splits)
  qed
qed

text \<open>One event and one audit record for a first use, none for a replay.\<close>

lemma evidence_once:
  assumes "run e c s = Inr ((r, d), s')"
  shows "evidence_counts s' = (if d then evidence_counts s
    else (Suc (fst (evidence_counts s)), Suc (snd (evidence_counts s))))"
  using assms by (cases rule: cases_run) (use ecu_committed_tables(6) in auto)

lemma scenarios_kept: "run e c s = Inr ((r, d), s') \<Longrightarrow> ecu_scenarios s' = ecu_scenarios s"
  by (erule cases_run) (auto dest: ecu_committed_tables(5))

text \<open>A first use moves the version of its unit by one, records both versions, and changes no other unit.\<close>

lemma version_recorded:
  assumes "ecu_store_ok s" "run e c s = Inr ((r, False), s')"
  obtains u u' where "target c s = Some u" "target c s' = Some u'" "ecu_version u' = ecu_version u + 1"
    "ec_previous_version r = ecu_version u" "ec_state_version r = ecu_version u'"
    "\<forall>x\<in>set (ecus s). ecu_id x \<noteq> ecu_id u \<longrightarrow> x \<in> set (ecus s')"
  using assms(2)
proof (cases rule: cases_run)
  case (first u u')
  note c = first(5)[unfolded ecu_committed_def]
  have e: "ecus s' = update_row ecu_id u' (ecus s)" using ecu_committed_tables(1)[OF first(5)] .
  have "x \<in> set (ecus s')" if "x \<in> set (ecus s)" "ecu_id x \<noteq> ecu_id u" for x
    using that c unfolding e update_row_def by (auto simp: same_unit_def image_iff intro!: bexI[of _ x])
  then show thesis using that first(1) target_update[OF assms(1) first(1) _ e] c by blast
qed simp

end

sublocale ecu_handler \<subseteq> idempotent "lift_run run" ecu_store_ok "stored_command target command_id" same
  EcuSimulationCommandConflict ecu_grows
proof (unfold_locales, goal_cases)
  case (1 c s r e)
  then show ?case
    using hit[of c s _ r e] by (auto simp: stored_command_def lift_run_Inr split: option.splits)
next
  case (2 c s r e)
  then show ?case
    using hit[of c s _ r e] by (auto simp: stored_command_def lift_run_Inl split: option.splits)
next
  case (3 s c e r n d s')
  have "run e c s = Inr ((r, d), s')" using 3(3) by (simp add: lift_run_Inr)
  then show ?case
  proof (cases rule: cases_run)
    case (first u u')
    note ok = ecu_committed_ok[OF 3(1) first(5) target_row[OF first(1)]]
    have same: "same_unit u u'" using first(5) by (simp add: ecu_committed_def)
    have "target c s' = Some u'"
      using target_update[OF 3(1) first(1) same ecu_committed_tables(1)[OF first(5)]] .
    moreover have "existing_simulation_command u' (command_id c) s' = Some r"
      using ok(3)[OF first(2)] same by (simp add: existing_simulation_command_def same_unit_def)
    ultimately show ?thesis using first by (simp add: stored_command_def)
  qed (use 3 in \<open>simp add: stored_command_def\<close>)
next
  case (4 s e c x s')
  obtain r n d where x: "x = (r, n, d)" by (metis prod_cases3)
  with 4(2) have "run e c s = Inr ((r, d), s')" by (simp add: lift_run_Inr)
  then show ?case
    by (cases rule: cases_run) (use 4 ecu_committed_ok(1)[OF 4(1) _ target_row] in blast)+
next
  case (5 s e c x s')
  obtain r n d where x: "x = (r, n, d)" by (metis prod_cases3)
  with 5(2) have "run e c s = Inr ((r, d), s')" by (simp add: lift_run_Inr)
  then show ?case
    by (cases rule: cases_run) (use 5 ecu_committed_ok(2)[OF 5(1) _ target_row] ecu_grows_refl in blast)+
next
  case (6 s s' c r)
  then obtain u where u: "target c s = Some u" "existing_simulation_command u (command_id c) s = Some r"
    by (auto simp: stored_command_def split: option.splits)
  obtain u' where u': "target c s' = Some u'" "ecu_id u' = ecu_id u"
    using target_grows[OF 6(1) u(1)] by (auto simp: same_unit_def)
  obtain zs where "ecu_commands s' = ecu_commands s @ zs" using 6(1) by (auto simp: ecu_grows_def extends_def)
  then show ?case
    using u(2) u' by (simp add: stored_command_def existing_simulation_command_def select_grows)
qed

text \<open>The same facts without \<^const>\<open>lift_run\<close>.\<close>

context ecu_handler
begin

lemma run_ok:
  assumes "ecu_store_ok s" "run e c s = Inr ((r, d), s')"
  shows "ecu_store_ok s' \<and> ecu_grows s s'"
proof -
  have "lift_run run e c s = Inr ((r, (), d), s')" using assms(2) by (simp add: lift_run_Inr)
  then show ?thesis using ok_run[OF assms(1)] run_grows[OF assms(1)] by blast
qed

lemma run_replay_later:
  assumes "ecu_store_ok s" "run e c s = Inr ((r, d), s')" "ecu_grows s' t"
  shows "run e' c t = Inr ((r, True), t)"
proof -
  have "lift_run run e c s = Inr ((r, (), d), s')" using assms(2) by (simp add: lift_run_Inr)
  from replay_later[OF assms(1) this assms(3)] show ?thesis by (auto simp: lift_run_Inr)
qed

end

text \<open>Handlers of one unit, under optimistic concurrency.\<close>

locale ecu_versioned_handler = ecu_handler run target command_id same
  for run :: "env \<Rightarrow> 'c \<Rightarrow> 'a ecu_store_scheme \<Rightarrow> app_error + (ecu_simulation_command \<times> bool) \<times> 'a ecu_store_scheme"
    and target :: "'c \<Rightarrow> 'a ecu_store_scheme \<Rightarrow> electronic_control_unit option"
    and command_id :: "'c \<Rightarrow> string"
    and same :: "'c \<Rightarrow> ecu_simulation_command \<Rightarrow> bool" +
  fixes expected :: "'c \<Rightarrow> int"
  assumes stale: "target c s = Some u \<Longrightarrow> existing_simulation_command u (command_id c) s = None
      \<Longrightarrow> expected c \<noteq> ecu_version u \<Longrightarrow> run e c s = Inl (EcuStateVersionConflict (ecu_version u))"

sublocale ecu_versioned_handler \<subseteq> versioned "lift_run run" ecu_store_ok "stored_command target command_id" same
  EcuSimulationCommandConflict ecu_grows "\<lambda>c s. map_option ecu_version (target c s)" expected EcuStateVersionConflict
proof (unfold_locales, goal_cases)
  case (1 c s v e)
  then show ?case
    using stale[of c s _ e] by (auto simp: stored_command_def lift_run_Inl split: option.splits)
next
  case (2 s c e x s')
  obtain r n d where x: "x = (r, n, d)" by (metis prod_cases3)
  with 2(3) have run: "run e c s = Inr ((r, d), s')" by (simp add: lift_run_Inr)
  then show ?case
  proof (cases rule: cases_run)
    case (replayed u)
    then show ?thesis using 2(2) by (simp add: stored_command_def)
  next
    case (first u u')
    have "expected c = ecu_version u" using stale[OF first(1,2), of e] run by auto
    moreover have "target c s' = Some u'"
      using target_update[OF 2(1) first(1) _ ecu_committed_tables(1)[OF first(5)]] first(5)
      by (simp add: ecu_committed_def)
    ultimately show ?thesis using first by (simp add: ecu_committed_def)
  qed
qed

section \<open>Handlers of one unit of a vehicle\<close>

definition unit_target :: "vehicle \<times> string \<times> 'c \<Rightarrow> 'a ecu_store_scheme \<Rightarrow> electronic_control_unit option" where
  "unit_target = (\<lambda>(v, i, c). find_ecu v i)"

lemma unit_target_simp [simp]: "unit_target (v, i, c) s = find_ecu v i s"
  by (simp add: unit_target_def)

locale unit_handler =
  fixes run :: "env \<Rightarrow> vehicle \<times> string \<times> 'c \<Rightarrow> 'a ecu_store_scheme
      \<Rightarrow> app_error + (ecu_simulation_command \<times> bool) \<times> 'a ecu_store_scheme"
    and command_id :: "'c \<Rightarrow> string"
    and same :: "'c \<Rightarrow> ecu_simulation_command \<Rightarrow> bool"
    and expected :: "'c \<Rightarrow> int"
  assumes unit_hit: "find_ecu v i s = Some u \<Longrightarrow> existing_simulation_command u (command_id c) s = Some r
      \<Longrightarrow> run e (v, i, c) s = (if same c r then Inr ((r, True), s) else Inl EcuSimulationCommandConflict)"
    and unit_fresh: "find_ecu v i s = Some u \<Longrightarrow> existing_simulation_command u (command_id c) s = None
      \<Longrightarrow> run e (v, i, c) s = Inr ((r, d), s')
      \<Longrightarrow> \<not> d \<and> same c r \<and> (\<exists>u'. ecu_committed (command_id c) u s r u' s')"
    and unit_stale: "find_ecu v i s = Some u \<Longrightarrow> existing_simulation_command u (command_id c) s = None
      \<Longrightarrow> expected c \<noteq> ecu_version u \<Longrightarrow> run e (v, i, c) s = Inl (EcuStateVersionConflict (ecu_version u))"
    and unit_missing: "find_ecu v i s = None \<Longrightarrow> run e (v, i, c) s = Inl (ResourceNotFound ''ecu'')"

sublocale unit_handler \<subseteq> ecu_versioned_handler run unit_target "\<lambda>(v, i, c). command_id c"
  "\<lambda>(v, i, c). same c" "\<lambda>(v, i, c). expected c"
proof (unfold_locales, goal_cases)
  case (1 c s u)
  then show ?case by (cases c) (auto dest: find_ecu_row)
next
  case (2 s s' c u)
  then show ?case by (cases c) (auto dest: find_ecu_grows)
next
  case (3 s c u u' s')
  then show ?case by (cases c) (auto intro: find_ecu_update)
next
  case (4 c s u r e)
  then show ?case by (cases c) (auto dest: unit_hit)
next
  case (5 c s u e r d s')
  then show ?case by (cases c) (auto dest: unit_fresh)
next
  case (6 c s e)
  then show ?case by (cases c) (auto dest: unit_missing)
next
  case (7 c s u e)
  then show ?case by (cases c) (auto dest: unit_stale)
qed

end
