(* ===== verification/EcuState.thy ===== *)
theory EcuState
  imports EcuHandler JsonText
begin

text \<open>
  Creating, listing and replacing the state of control units: the first part of
  \<open>src/src/atep/ecus/service.py\<close>, with the helpers \<open>ecu_state_payload\<close>, \<open>_profile_state\<close> and
  \<open>_memory_state\<close>.
\<close>

section \<open>The stored state\<close>

definition state_of :: "electronic_control_unit \<Rightarrow> ecu_state_payload" where
  "state_of u = \<lparr>sp_operational_state = ecu_operational_state u, sp_memory = ecu_memory u,
     sp_memory_regions = ecu_memory_regions u, sp_faults = ecu_faults u, sp_signals = ecu_signals u,
     sp_cyclic_tasks = ecu_cyclic_tasks u, sp_behavior_state = ecu_behavior_state u\<rparr>"

text \<open>\<open>ecu_state_payload\<close>: the stored columns, validated again.\<close>

definition stored_state_payload :: "electronic_control_unit \<Rightarrow> app_error + ecu_state_payload" where
  "stored_state_payload u = state_validate (state_of u)"

definition default_region :: ecu_region where
  "default_region = \<lparr>mr_name = ''legacy_nvm'', mr_kind = NON_VOLATILE, mr_start_address = 0, mr_size = 65536,
     mr_reset_value = 0\<rparr>"

text \<open>\<open>sorted(names)[0]\<close>.\<close>

definition first_name :: "string list \<Rightarrow> string" where
  "first_name names = hd (sort names)"

text \<open>\<open>_profile_state\<close>: the tasks must be those of the profile, with its schedule.\<close>

fun check_tasks :: "ecu_task list \<Rightarrow> ecu_task list \<Rightarrow> app_error + unit" where
  "check_tasks supported [] = Inr ()"
| "check_tasks supported (t # ts) =
     (case find (\<lambda>x. tk_task_id x = tk_task_id t) supported of
        None \<Rightarrow> Inl (EcuProfileContract (''unsupported task: '' @ tk_task_id t))
      | Some expected \<Rightarrow>
          if tk_period_ms t \<noteq> tk_period_ms expected \<or> tk_offset_ms t \<noteq> tk_offset_ms expected
            then Inl (EcuProfileContract (''task schedule differs from profile: '' @ tk_task_id t))
          else check_tasks supported ts)"

definition profile_state :: "ecu_state_payload \<Rightarrow> EcuType \<Rightarrow> bool \<Rightarrow> app_error + ecu_state_payload" where
  "profile_state state t use_profile_defaults =
     (let p = behavior_profile t;
          tasks = (if use_profile_defaults then pf_tasks p else sp_cyclic_tasks state);
          unknown_state = filter (\<lambda>k. k \<notin> fst ` set (pf_initial_state p)) (map fst (sp_behavior_state state))
      in and_then (check_tasks (pf_tasks p) tasks) (\<lambda>_.
         if unknown_state \<noteq> []
           then Inl (EcuProfileContract (''unsupported behavior state: '' @ first_name unknown_state))
         else Inr (state\<lparr>sp_cyclic_tasks := tasks,
           sp_behavior_state := dict_update (pf_initial_state p) (sp_behavior_state state)\<rparr>)))"

definition memory_state :: "ecu_state_payload \<Rightarrow> bool \<Rightarrow> app_error + ecu_state_payload" where
  "memory_state state use_default_region =
     state_validate (if use_default_region then state\<lparr>sp_memory_regions := [default_region]\<rparr> else state)"

section \<open>Equality of states\<close>

text \<open>
  Python compares booleans, integers and floats by value (\<open>True == 1 == 1.0\<close>) and dictionaries
  without regard to order, so \<open>requested == current\<close> is coarser than equality of the records.
\<close>

fun signal_number :: "signal_value \<Rightarrow> rat" where
  "signal_number (SBool b) = (if b then 1 else 0)"
| "signal_number (SInt n) = of_int n"
| "signal_number (SFloat x) = x"

definition signal_value_eq :: "signal_value \<Rightarrow> signal_value \<Rightarrow> bool" where
  "signal_value_eq a b \<longleftrightarrow> signal_number a = signal_number b"

definition signal_eq :: "ecu_signal \<Rightarrow> ecu_signal \<Rightarrow> bool" where
  "signal_eq a b \<longleftrightarrow> a\<lparr>sig_value := sig_value b\<rparr> = b \<and> signal_value_eq (sig_value a) (sig_value b)"

fun behavior_value_eq :: "behavior_value \<Rightarrow> behavior_value \<Rightarrow> bool" where
  "behavior_value_eq (BStr s) (BStr t) = (s = t)"
| "behavior_value_eq (BStr s) _ = False"
| "behavior_value_eq _ (BStr t) = False"
| "behavior_value_eq (BInt n) (BInt m) = (n = m)"
| "behavior_value_eq (BBool b) (BBool c) = (b = c)"
| "behavior_value_eq (BInt n) (BBool b) = (n = (if b then 1 else 0))"
| "behavior_value_eq (BBool b) (BInt n) = (n = (if b then 1 else 0))"

definition behavior_eq :: "(string \<times> behavior_value) list \<Rightarrow> (string \<times> behavior_value) list \<Rightarrow> bool" where
  "behavior_eq d e \<longleftrightarrow> fst ` set d = fst ` set e
     \<and> list_all (\<lambda>k. rel_option behavior_value_eq (map_of d k) (map_of e k)) (map fst d)"

definition state_eq :: "ecu_state_payload \<Rightarrow> ecu_state_payload \<Rightarrow> bool" where
  "state_eq p q \<longleftrightarrow> sp_operational_state p = sp_operational_state q \<and> sp_memory p = sp_memory q
     \<and> sp_memory_regions p = sp_memory_regions q \<and> sp_faults p = sp_faults q
     \<and> list_all2 signal_eq (sp_signals p) (sp_signals q) \<and> sp_cyclic_tasks p = sp_cyclic_tasks q
     \<and> behavior_eq (sp_behavior_state p) (sp_behavior_state q)"

section \<open>Creation\<close>

definition create_ecu ::
  "env \<Rightarrow> vehicle \<Rightarrow> ecu_create \<Rightarrow> 'a ecu_store_scheme
    \<Rightarrow> app_error + electronic_control_unit \<times> 'a ecu_store_scheme" where
  "create_ecu e v c s =
     (if find_ecu v (cr_identifier c) s \<noteq> None then Inl DuplicateEcuIdentifier
      else and_then (state_validate (ecu_state_payload.truncate c)) (\<lambda>requested_state.
           and_then (profile_state requested_state (cr_ecu_type c) (sp_cyclic_tasks requested_state = [])) (\<lambda>state.
           and_then (memory_state state (sp_memory_regions state = [])) (\<lambda>state.
           let u = \<lparr>ecu_id = env_new_id e, ecu_vehicle_id = veh_id v, ecu_identifier = cr_identifier c,
                    ecu_display_name = cr_display_name c, ecu_type = cr_ecu_type c,
                    ecu_operational_state = sp_operational_state state, ecu_memory = sp_memory state,
                    ecu_memory_regions = sp_memory_regions state, ecu_faults = sp_faults state,
                    ecu_signals = sp_signals state, ecu_cyclic_tasks = sp_cyclic_tasks state,
                    ecu_profile_version = pf_profile_version (behavior_profile (cr_ecu_type c)),
                    ecu_behavior_state = sp_behavior_state state, ecu_version = 1,
                    ecu_simulation_time_ms = 0, ecu_boot_count = 0\<rparr>
           in case insert_unless (\<lambda>x. ecu_id x = ecu_id u \<or> ecu_key x = ecu_key u) u (ecus s) of
                None \<Rightarrow> Inl DuplicateEcuIdentifier
              | Some rows \<Rightarrow> Inr (u, add_event_audit e ''atep.ecu.created.v1'' ''ecu'' (ecu_id u)
                  (ecu_evidence u v @ [(''state'', state_json state)]) ''ecu.created'' (ecu_evidence u v)
                  (s\<lparr>ecus := rows\<rparr>))))))"

text \<open>\<open>list_ecus\<close>: by identifier, optionally of one type.\<close>

definition list_ecus ::
  "vehicle \<Rightarrow> nat \<Rightarrow> nat \<Rightarrow> EcuType option \<Rightarrow> 'a ecu_store_scheme \<Rightarrow> electronic_control_unit list \<times> int" where
  "list_ecus v limit offset t s =
     (let rows = filter (\<lambda>u. ecu_vehicle_id u = veh_id v \<and> (case t of None \<Rightarrow> True | Some x \<Rightarrow> ecu_type u = x)) (ecus s)
      in (page limit offset (sort_key ecu_identifier rows), int (length rows)))"

section \<open>Replacing the state\<close>

text \<open>
  The requested state after the defaults: \<open>signals\<close> and \<open>memory_regions\<close> of the stored state where
  the client left them out.
\<close>

definition requested_state ::
  "electronic_control_unit \<Rightarrow> ecu_state_replace \<Rightarrow> app_error + ecu_state_payload \<times> ecu_state_payload" where
  "requested_state u c =
     and_then (state_validate (ecu_state_payload.truncate c)) (\<lambda>requested.
     and_then (profile_state requested (ecu_type u) False) (\<lambda>requested.
     and_then (stored_state_payload u) (\<lambda>current.
     let requested = (if sp_memory_regions requested = []
                      then requested\<lparr>sp_memory_regions := sp_memory_regions current\<rparr> else requested);
         requested = (if \<not> rp_signals_given c then requested\<lparr>sp_signals := sp_signals current\<rparr> else requested)
     in and_then (memory_state requested False) (\<lambda>requested. Inr (requested, current)))))"

definition with_state :: "electronic_control_unit \<Rightarrow> ecu_state_payload \<Rightarrow> electronic_control_unit" where
  "with_state u p = u\<lparr>ecu_operational_state := sp_operational_state p, ecu_memory := sp_memory p,
     ecu_memory_regions := sp_memory_regions p, ecu_faults := sp_faults p, ecu_signals := sp_signals p,
     ecu_cyclic_tasks := sp_cyclic_tasks p, ecu_behavior_state := sp_behavior_state p\<rparr>"

definition replace_evidence :: "electronic_control_unit \<Rightarrow> int \<Rightarrow> vehicle \<Rightarrow> dict" where
  "replace_evidence u previous v = ecu_evidence u v @ [(''previous_version'', JInt previous),
     (''version'', JInt (ecu_version u)),
     (''operational_state'', JStr (operational_state_value (ecu_operational_state u))),
     (''memory_cell_count'', JInt (int (length (ecu_memory u)))),
     (''fault_count'', JInt (int (length (ecu_faults u)))),
     (''cyclic_task_count'', JInt (int (length (ecu_cyclic_tasks u))))]"

definition replace_ecu_state ::
  "env \<Rightarrow> vehicle \<Rightarrow> string \<Rightarrow> ecu_state_replace \<Rightarrow> 'a ecu_store_scheme
    \<Rightarrow> app_error + (electronic_control_unit \<times> bool) \<times> 'a ecu_store_scheme" where
  "replace_ecu_state e v i c s =
     and_then (require_ecu v i s) (\<lambda>locked.
     and_then (requested_state locked c) (\<lambda>(requested, current).
     if rp_expected_version c \<noteq> ecu_version locked then
       if rp_expected_version c = ecu_version locked - 1 \<and> state_eq requested current then Inr ((locked, True), s)
       else Inl (EcuStateVersionConflict (ecu_version locked))
     else if state_eq requested current then Inr ((locked, True), s)
     else let u = (with_state locked requested)\<lparr>ecu_version := ecu_version locked + 1\<rparr>;
              evidence = replace_evidence u (ecu_version locked) v
          in Inr ((u, False), add_event_audit e ''atep.ecu.state.updated.v1'' ''ecu'' (ecu_id u)
               (evidence @ [(''state'', state_json requested)]) ''ecu.state_updated'' evidence (save_ecu u s))))"

end
