(* ===== verification/EcuClock.thy ===== *)
theory EcuClock
  imports EcuState
begin

text \<open>
  Advancing the simulation time of a control unit and resetting it: \<open>execute_ecu_advance\<close> and
  \<open>execute_ecu_reset\<close> of \<open>src/src/atep/ecus/service.py\<close>.
\<close>

section \<open>Cyclic tasks\<close>

definition first_schedule :: "int \<Rightarrow> int \<Rightarrow> int" where
  "first_schedule period offset = (if offset > 0 then offset else period)"

definition executions_at_or_before :: "int \<Rightarrow> int \<Rightarrow> int \<Rightarrow> int" where
  "executions_at_or_before period offset t =
     (if t < first_schedule period offset then 0 else (t - first_schedule period offset) div period + 1)"

definition task_run_summary :: "string \<Rightarrow> int \<Rightarrow> int \<Rightarrow> int \<Rightarrow> int \<Rightarrow> ecu_task_run_summary" where
  "task_run_summary i period offset start_ms end_ms =
     (let previous_count = executions_at_or_before period offset start_ms;
          total_count = executions_at_or_before period offset end_ms;
          execution_count = total_count - previous_count
      in if execution_count = 0
         then \<lparr>run_task_id = i, run_execution_count = 0, run_first_due_ms = None, run_last_due_ms = None\<rparr>
         else \<lparr>run_task_id = i, run_execution_count = execution_count,
               run_first_due_ms = Some (first_schedule period offset + previous_count * period),
               run_last_due_ms = Some (first_schedule period offset + (total_count - 1) * period)\<rparr>)"

definition task_runs :: "ecu_task list \<Rightarrow> int \<Rightarrow> int \<Rightarrow> ecu_task_run_summary list" where
  "task_runs tasks start_ms end_ms =
     map (\<lambda>t. task_run_summary (tk_task_id t) (tk_period_ms t) (tk_offset_ms t) start_ms end_ms)
       (sort_key tk_task_id tasks)"

definition task_run_json :: "ecu_task_run_summary \<Rightarrow> json" where
  "task_run_json r = JObj [(''task_id'', JStr (run_task_id r)), (''execution_count'', JInt (run_execution_count r)),
     (''first_due_ms'', jopt JInt (run_first_due_ms r)), (''last_due_ms'', jopt JInt (run_last_due_ms r))]"

section \<open>Advancing time\<close>

definition advance_result :: "ecu_advance_command \<Rightarrow> ecu_task_run_summary list \<Rightarrow> string \<Rightarrow> (string \<times> behavior_value) list \<Rightarrow> dict" where
  "advance_result c summaries version b = [(''duration_ms'', JInt (ad_duration_ms c)),
     (''task_runs'', JArr (map task_run_json summaries)), (''profile_version'', JStr version),
     (''behavior_state'', behavior_json b)]"

definition advance_details :: "ecu_advance_command \<Rightarrow> ecu_task_run_summary list \<Rightarrow> string \<Rightarrow> dict" where
  "advance_details c summaries version = [(''duration_ms'', JInt (ad_duration_ms c)),
     (''task_count'', JInt (int (length summaries))),
     (''execution_count'', JInt (sum_list (map run_execution_count summaries))),
     (''profile_version'', JStr version)]"

definition execute_ecu_advance ::
  "env \<Rightarrow> vehicle \<times> string \<times> ecu_advance_command \<Rightarrow> 'a ecu_store_scheme
    \<Rightarrow> app_error + (ecu_simulation_command \<times> bool) \<times> 'a ecu_store_scheme" where
  "execute_ecu_advance e = (\<lambda>(v, i, c) s.
     and_then (require_ecu v i s) (\<lambda>locked.
     case existing_simulation_command locked (ad_command_id c) s of
       Some existing \<Rightarrow>
         if ec_kind existing = ''advance'' \<and> ec_request existing = AdvanceRequest c then Inr ((existing, True), s)
         else Inl EcuSimulationCommandConflict
     | None \<Rightarrow>
     if ad_expected_version c \<noteq> ecu_version locked then Inl (EcuStateVersionConflict (ecu_version locked))
     else if ecu_operational_state locked \<notin> {RUNNING, DEGRADED}
       then Inl (EcuExecutionState (operational_state_value (ecu_operational_state locked)))
     else let simulation_time = ecu_simulation_time_ms locked + ad_duration_ms c in
     and_then (stored_state_payload locked) (\<lambda>state.
     let summaries = task_runs (sp_cyclic_tasks state) (ecu_simulation_time_ms locked) simulation_time in
     and_then (execute_profile_transitions (behavior_profile (ecu_type locked)) (ecu_behavior_state locked) summaries) (\<lambda>b.
     let u = locked\<lparr>ecu_behavior_state := b, ecu_simulation_time_ms := simulation_time,
                    ecu_version := ecu_version locked + 1\<rparr>;
         r = \<lparr>ec_ecu_id = ecu_id locked, ec_command_id = ad_command_id c, ec_kind = ''advance'',
              ec_request = AdvanceRequest c,
              ec_result = AdvanceResult (ad_duration_ms c) summaries (ecu_profile_version locked) b,
              ec_previous_version = ecu_version locked, ec_state_version = ecu_version u,
              ec_previous_time_ms = ecu_simulation_time_ms locked, ec_simulation_time_ms = simulation_time,
              ec_requested_by_user_id = env_actor e\<rparr>;
         evidence = simulation_evidence r u v
     in record_command e ''atep.ecu.simulation.advanced.v1'' ''ecu'' (ecu_id u)
          (dict_update evidence (advance_result c summaries (ecu_profile_version u) b))
          ''ecu.simulation_advanced'' (dict_update evidence (advance_details c summaries (ecu_profile_version u))) u r s))))"

section \<open>Resetting\<close>

fun reset_duration_ms :: "EcuResetMode \<Rightarrow> int" where
  "reset_duration_ms SOFT = 10"
| "reset_duration_ms HARD = 100"
| "reset_duration_ms POWER_CYCLE = 500"

text \<open>
  One cell of the loop: its new value, and whether it was reset or counts as preserved. The region
  is the first that contains the address; \<open>next\<close> without a match is \<open>StopIteration\<close>.
\<close>

definition reset_cell ::
  "EcuResetMode \<Rightarrow> ecu_region list \<Rightarrow> ecu_cell \<Rightarrow> app_error + ecu_cell \<times> int \<times> int" where
  "reset_cell mode regions c =
     (case find (\<lambda>r. in_region r (cell_address c)) regions of
        None \<Rightarrow> Inl StopIteration
      | Some r \<Rightarrow>
          if mr_kind r = NON_VOLATILE then Inr (c, 0, 1)
          else if mode \<noteq> SOFT \<and> cell_value c \<noteq> mr_reset_value r
            then Inr (c\<lparr>cell_value := mr_reset_value r\<rparr>, 1, 0)
          else Inr (c, 0, 0))"

definition reset_memory ::
  "EcuResetMode \<Rightarrow> ecu_region list \<Rightarrow> ecu_cell list \<Rightarrow> app_error + ecu_cell list \<times> int \<times> int" where
  "reset_memory mode regions cells =
     and_then (map_ok (reset_cell mode regions) cells) (\<lambda>out.
       Inr (map fst out, sum_list (map (\<lambda>x. fst (snd x)) out), sum_list (map (\<lambda>x. snd (snd x)) out)))"

definition regions_or_default :: "ecu_region list \<Rightarrow> app_error + ecu_region list" where
  "regions_or_default regions =
     and_then (map_ok region_validate regions) (\<lambda>rs. Inr (if rs = [] then [default_region] else rs))"

definition reset_result :: "EcuResetMode \<Rightarrow> int \<Rightarrow> int \<Rightarrow> int \<Rightarrow> dict" where
  "reset_result mode boots cleared preserved = [(''mode'', JStr (reset_mode_value mode)),
     (''reset_duration_ms'', JInt (reset_duration_ms mode)), (''boot_count'', JInt boots),
     (''memory_preserved'', JBool (cleared = 0)), (''volatile_cells_reset'', JInt cleared),
     (''non_volatile_cells_preserved'', JInt preserved), (''faults_preserved'', JBool True)]"

definition execute_ecu_reset ::
  "env \<Rightarrow> vehicle \<times> string \<times> ecu_reset_command \<Rightarrow> 'a ecu_store_scheme
    \<Rightarrow> app_error + (ecu_simulation_command \<times> bool) \<times> 'a ecu_store_scheme" where
  "execute_ecu_reset e = (\<lambda>(v, i, c) s.
     and_then (require_ecu v i s) (\<lambda>locked.
     case existing_simulation_command locked (rs_command_id c) s of
       Some existing \<Rightarrow>
         if ec_kind existing = ''reset'' \<and> ec_request existing = ResetRequest c then Inr ((existing, True), s)
         else Inl EcuSimulationCommandConflict
     | None \<Rightarrow>
     if rs_expected_version c \<noteq> ecu_version locked then Inl (EcuStateVersionConflict (ecu_version locked))
     else and_then (stored_state_payload locked) (\<lambda>state.
     and_then (regions_or_default (ecu_memory_regions locked)) (\<lambda>regions.
     and_then (reset_memory (rs_mode c) regions (ecu_memory locked)) (\<lambda>(memory, cleared, preserved).
     let u = locked\<lparr>ecu_operational_state := (if list_ex confirmed_critical (sp_faults state) then FAULT else OFFLINE),
                    ecu_memory := memory,
                    ecu_simulation_time_ms := ecu_simulation_time_ms locked + reset_duration_ms (rs_mode c),
                    ecu_boot_count := ecu_boot_count locked + 1, ecu_version := ecu_version locked + 1\<rparr>;
         r = \<lparr>ec_ecu_id = ecu_id locked, ec_command_id = rs_command_id c, ec_kind = ''reset'',
              ec_request = ResetRequest c,
              ec_result = ResetResult (rs_mode c) (reset_duration_ms (rs_mode c)) (ecu_boot_count u)
                            (cleared = 0) cleared preserved True,
              ec_previous_version = ecu_version locked, ec_state_version = ecu_version u,
              ec_previous_time_ms = ecu_simulation_time_ms locked,
              ec_simulation_time_ms = ecu_simulation_time_ms u, ec_requested_by_user_id = env_actor e\<rparr>;
         result = reset_result (rs_mode c) (ecu_boot_count u) cleared preserved;
         evidence = simulation_evidence r u v @ result
     in record_command e ''atep.ecu.reset.completed.v1'' ''ecu'' (ecu_id u) evidence
          ''ecu.reset_completed'' evidence u r s)))))"

section \<open>The handlers keep the contract\<close>

text \<open>What a first use of \<open>advance\<close> checks and changes.\<close>

lemma advance_first:
  assumes "find_ecu v i s = Some u" "existing_simulation_command u (ad_command_id c) s = None"
    and "execute_ecu_advance e (v, i, c) s = Inr ((r, d), s')"
  shows "ad_expected_version c = ecu_version u" "ecu_operational_state u \<in> {RUNNING, DEGRADED}" "\<not> d"
    and "ec_kind r = ''advance''" "ec_request r = AdvanceRequest c"
    and "\<exists>state b. stored_state_payload u = Inr state
      \<and> execute_profile_transitions (behavior_profile (ecu_type u)) (ecu_behavior_state u)
          (task_runs (sp_cyclic_tasks state) (ecu_simulation_time_ms u) (ecu_simulation_time_ms u + ad_duration_ms c)) = Inr b
      \<and> ec_result r = AdvanceResult (ad_duration_ms c)
          (task_runs (sp_cyclic_tasks state) (ecu_simulation_time_ms u) (ecu_simulation_time_ms u + ad_duration_ms c))
          (ecu_profile_version u) b
      \<and> ecu_committed (ad_command_id c) u s r
          (u\<lparr>ecu_behavior_state := b, ecu_simulation_time_ms := ecu_simulation_time_ms u + ad_duration_ms c,
             ecu_version := ecu_version u + 1\<rparr>) s'"
  using assms
  by (auto simp: execute_ecu_advance_def require_ecu_def ecu_committed_def same_unit_def command_key_def ok_simps
      Let_def split: if_splits dest!: record_command_Inr)

lemma reset_first:
  assumes "find_ecu v i s = Some u" "existing_simulation_command u (rs_command_id c) s = None"
    and "execute_ecu_reset e (v, i, c) s = Inr ((r, d), s')"
  shows "rs_expected_version c = ecu_version u" "\<not> d" "ec_kind r = ''reset''" "ec_request r = ResetRequest c"
    and "\<exists>state regions memory cleared preserved. stored_state_payload u = Inr state
      \<and> regions_or_default (ecu_memory_regions u) = Inr regions
      \<and> reset_memory (rs_mode c) regions (ecu_memory u) = Inr (memory, cleared, preserved)
      \<and> ec_result r = ResetResult (rs_mode c) (reset_duration_ms (rs_mode c)) (ecu_boot_count u + 1)
          (cleared = 0) cleared preserved True
      \<and> ecu_committed (rs_command_id c) u s r
          (u\<lparr>ecu_operational_state := (if list_ex confirmed_critical (sp_faults state) then FAULT else OFFLINE),
             ecu_memory := memory, ecu_simulation_time_ms := ecu_simulation_time_ms u + reset_duration_ms (rs_mode c),
             ecu_boot_count := ecu_boot_count u + 1, ecu_version := ecu_version u + 1\<rparr>) s'"
  using assms
  by (auto simp: execute_ecu_reset_def require_ecu_def ecu_committed_def same_unit_def command_key_def ok_simps
      Let_def split: if_splits dest!: record_command_Inr)

interpretation advances: unit_handler execute_ecu_advance ad_command_id
  "\<lambda>c r. ec_kind r = ''advance'' \<and> ec_request r = AdvanceRequest c" ad_expected_version
proof (unfold_locales, goal_cases)
  case (2 v i s u c e r d s')
  then show ?case using advance_first[OF 2] by blast
qed (auto simp: execute_ecu_advance_def require_ecu_def)

interpretation resets: unit_handler execute_ecu_reset rs_command_id
  "\<lambda>c r. ec_kind r = ''reset'' \<and> ec_request r = ResetRequest c" rs_expected_version
proof (unfold_locales, goal_cases)
  case (2 v i s u c e r d s')
  then show ?case using reset_first[OF 2] by blast
qed (auto simp: execute_ecu_reset_def require_ecu_def)

end
