(* ===== verification/EcuMemory.thy ===== *)
theory EcuMemory
  imports EcuClock
begin

unbundle bit_operations_syntax

text \<open>
  Memory snapshots, their restoration, and the seeded corruption of memory cells:
  \<open>create_memory_snapshot\<close>, \<open>restore_memory_snapshot\<close> and \<open>corrupt_ecu_memory\<close> of
  \<open>src/src/atep/ecus/service.py\<close>.
\<close>

section \<open>Snapshots\<close>

definition memory_checksum :: "ecu_cell list \<Rightarrow> string" where
  "memory_checksum cells = sha256_hex (json_dumps (JArr (map cell_json cells)))"

definition canonical_memory :: "ecu_cell list \<Rightarrow> ecu_cell list" where
  "canonical_memory cells = sort_key cell_address cells"

definition snapshot_evidence :: "electronic_control_unit \<Rightarrow> ecu_memory_snapshot \<Rightarrow> vehicle \<Rightarrow> dict" where
  "snapshot_evidence u n v = ecu_evidence u v @ [(''snapshot_id'', JStr (sn_id n)), (''snapshot_name'', JStr (sn_name n)),
     (''state_version'', JInt (sn_state_version n)), (''memory_cell_count'', JInt (int (length (sn_memory n)))),
     (''checksum_sha256'', JStr (sn_checksum_sha256 n))]"

definition create_memory_snapshot ::
  "env \<Rightarrow> vehicle \<Rightarrow> string \<Rightarrow> ecu_snapshot_create \<Rightarrow> 'a ecu_store_scheme
    \<Rightarrow> app_error + ecu_memory_snapshot \<times> 'a ecu_store_scheme" where
  "create_memory_snapshot e v i c s =
     and_then (require_ecu v i s) (\<lambda>locked.
     let memory = canonical_memory (ecu_memory locked);
         n = \<lparr>sn_id = env_new_id e, sn_ecu_id = ecu_id locked, sn_name = ss_name c, sn_memory = memory,
              sn_state_version = ecu_version locked, sn_simulation_time_ms = ecu_simulation_time_ms locked,
              sn_checksum_sha256 = memory_checksum memory, sn_created_by_user_id = env_actor e\<rparr>;
         evidence = snapshot_evidence locked n v
     in and_then (of_option (IntegrityError ''pk_ecu_memory_snapshots'') (insert_row sn_id n (ecu_snapshots s))) (\<lambda>rows.
        Inr (n, add_event_audit e ''atep.ecu.memory.snapshot.created.v1'' ''ecu'' (ecu_id locked) evidence
          ''ecu.memory_snapshot_created'' evidence (s\<lparr>ecu_snapshots := rows\<rparr>))))"

text \<open>\<open>list_memory_snapshots\<close>: the newest first; rows are stored in the order of their creation.\<close>

definition list_memory_snapshots ::
  "electronic_control_unit \<Rightarrow> nat \<Rightarrow> nat \<Rightarrow> 'a ecu_store_scheme \<Rightarrow> ecu_memory_snapshot list \<times> int" where
  "list_memory_snapshots u limit offset s =
     (let rows = filter (\<lambda>n. sn_ecu_id n = ecu_id u) (ecu_snapshots s)
      in (page limit offset (rev rows), int (length rows)))"

definition require_memory_snapshot ::
  "electronic_control_unit \<Rightarrow> uuid \<Rightarrow> 'a ecu_store_scheme \<Rightarrow> app_error + ecu_memory_snapshot" where
  "require_memory_snapshot u j s = of_option (ResourceNotFound ''ecu memory snapshot'')
     (select (\<lambda>n. sn_ecu_id n = ecu_id u \<and> sn_id n = j) (ecu_snapshots s))"

definition restore_evidence :: "electronic_control_unit \<Rightarrow> int \<Rightarrow> ecu_memory_snapshot \<Rightarrow> vehicle \<Rightarrow> dict" where
  "restore_evidence u previous n v = ecu_evidence u v @ [(''snapshot_id'', JStr (sn_id n)),
     (''previous_version'', JInt previous), (''version'', JInt (ecu_version u)),
     (''memory_cell_count'', JInt (int (length (ecu_memory u)))), (''checksum_sha256'', JStr (sn_checksum_sha256 n))]"

definition restore_memory_snapshot ::
  "env \<Rightarrow> vehicle \<Rightarrow> string \<Rightarrow> ecu_memory_snapshot \<Rightarrow> int \<Rightarrow> 'a ecu_store_scheme
    \<Rightarrow> app_error + electronic_control_unit \<times> 'a ecu_store_scheme" where
  "restore_memory_snapshot e v i n expected_version s =
     and_then (require_ecu v i s) (\<lambda>locked.
     if expected_version \<noteq> ecu_version locked then Inl (EcuStateVersionConflict (ecu_version locked))
     else and_then (stored_state_payload locked) (\<lambda>state.
     and_then (state_validate (state\<lparr>sp_memory := sn_memory n\<rparr>)) (\<lambda>_.
     let u = locked\<lparr>ecu_memory := sn_memory n, ecu_version := ecu_version locked + 1\<rparr>;
         evidence = restore_evidence u (ecu_version locked) n v
     in Inr (u, add_event_audit e ''atep.ecu.memory.snapshot.restored.v1'' ''ecu'' (ecu_id u) evidence
          ''ecu.memory_snapshot_restored'' evidence (save_ecu u s)))))"

section \<open>Corruption\<close>

text \<open>
  The draw of one flip: \<open>sha256(f"{seed}:{index}")\<close>, whose first four bytes, big-endian, choose the
  cell and whose fifth byte chooses the bit.
\<close>

definition flip_draw :: "int \<Rightarrow> int \<Rightarrow> nat \<times> nat" where
  "flip_draw seed index =
     (let digest = sha256_digest (encode_text (int_str seed @ '':'' @ int_str index))
      in (foldl (\<lambda>acc b. acc * 256 + b) 0 (take 4 digest), digest ! 4 mod 8))"

definition memory_by_address :: "ecu_cell list \<Rightarrow> (int \<times> ecu_cell) list" where
  "memory_by_address cells = foldl (\<lambda>d c. AList.update (cell_address c) c d) [] cells"

fun corruption_loop ::
  "(int \<Rightarrow> nat \<times> nat) \<Rightarrow> ecu_cell list \<Rightarrow> int list \<Rightarrow> (int \<times> ecu_cell) list \<Rightarrow> ecu_memory_change list
    \<Rightarrow> app_error + (int \<times> ecu_cell) list \<times> ecu_memory_change list" where
  "corruption_loop draw candidates [] memory changes = Inr (memory, changes)"
| "corruption_loop draw candidates (index # rest) memory changes =
     (let candidate = candidates ! (fst (draw index) mod length candidates);
          address = cell_address candidate; bit = snd (draw index)
      in case map_of memory address of
           None \<Rightarrow> Inl KeyError
         | Some target \<Rightarrow>
             let value = cell_value target XOR push_bit bit 1
             in corruption_loop draw candidates rest
                  (AList.update address (target\<lparr>cell_value := value\<rparr>) memory)
                  (changes @ [\<lparr>ch_address = address, ch_previous_value = cell_value target, ch_value = value,
                               ch_bit = int bit\<rparr>]))"

definition corruption_candidates :: "ecu_region list \<Rightarrow> string set \<Rightarrow> ecu_cell list \<Rightarrow> ecu_cell list" where
  "corruption_candidates regions names cells =
     sort_key cell_address (filter (\<lambda>c. list_ex (\<lambda>r. mr_name r \<in> names \<and> in_region r (cell_address c)) regions) cells)"

definition change_json :: "ecu_memory_change \<Rightarrow> json" where
  "change_json c = JObj [(''address'', JInt (ch_address c)), (''previous_value'', JInt (ch_previous_value c)),
     (''value'', JInt (ch_value c)), (''bit'', JInt (ch_bit c))]"

definition corruption_result :: "ecu_memory_corruption_command \<Rightarrow> ecu_memory_change list \<Rightarrow> dict" where
  "corruption_result c changes = [(''seed'', JInt (mm_seed c)), (''requested_bit_flips'', JInt (mm_bit_flips c)),
     (''changes'', JArr (map change_json changes))]"

text \<open>The memory after the flips, or the reason why there is nothing to flip.\<close>

definition corrupted_memory ::
  "electronic_control_unit \<Rightarrow> ecu_memory_corruption_command \<Rightarrow> app_error + ecu_cell list \<times> ecu_memory_change list" where
  "corrupted_memory u c =
     and_then (regions_or_default (ecu_memory_regions u)) (\<lambda>regions.
     let known_names = set (map mr_name regions);
         unknown_names = filter (\<lambda>x. x \<notin> known_names) (mm_region_names c);
         selected_names = (if mm_region_names c = [] then known_names else set (mm_region_names c));
         candidates = corruption_candidates regions selected_names (ecu_memory u)
     in if unknown_names \<noteq> [] then Inl (EcuMemoryContract (''unknown region: '' @ first_name unknown_names))
        else if candidates = [] then Inl (EcuMemoryContract ''no initialized cells in selected regions'')
        else and_then (corruption_loop (flip_draw (mm_seed c)) candidates [0..mm_bit_flips c - 1]
                         (memory_by_address (ecu_memory u)) [])
               (\<lambda>(memory, changes). Inr (map snd memory, changes)))"

definition corrupt_ecu_memory ::
  "env \<Rightarrow> vehicle \<times> string \<times> ecu_memory_corruption_command \<Rightarrow> 'a ecu_store_scheme
    \<Rightarrow> app_error + (ecu_simulation_command \<times> bool) \<times> 'a ecu_store_scheme" where
  "corrupt_ecu_memory e = (\<lambda>(v, i, c) s.
     and_then (require_ecu v i s) (\<lambda>locked.
     case existing_simulation_command locked (mm_command_id c) s of
       Some existing \<Rightarrow>
         if ec_kind existing = ''memory_corruption'' \<and> ec_request existing = CorruptionRequest c
           then Inr ((existing, True), s)
         else Inl EcuSimulationCommandConflict
     | None \<Rightarrow>
     if mm_expected_version c \<noteq> ecu_version locked then Inl (EcuStateVersionConflict (ecu_version locked))
     else and_then (corrupted_memory locked c) (\<lambda>(memory, changes).
     let u = locked\<lparr>ecu_memory := memory, ecu_version := ecu_version locked + 1\<rparr>;
         r = \<lparr>ec_ecu_id = ecu_id locked, ec_command_id = mm_command_id c, ec_kind = ''memory_corruption'',
              ec_request = CorruptionRequest c, ec_result = CorruptionResult (mm_seed c) (mm_bit_flips c) changes,
              ec_previous_version = ecu_version locked, ec_state_version = ecu_version u,
              ec_previous_time_ms = ecu_simulation_time_ms locked,
              ec_simulation_time_ms = ecu_simulation_time_ms locked, ec_requested_by_user_id = env_actor e\<rparr>;
         evidence = simulation_evidence r u v
     in record_command e ''atep.ecu.memory.corrupted.v1'' ''ecu'' (ecu_id u)
          (evidence @ corruption_result c changes) ''ecu.memory_corrupted''
          (evidence @ [(''seed'', JInt (mm_seed c)), (''bit_flips'', JInt (mm_bit_flips c))]) u r s)))"

lemma corrupt_first:
  assumes "find_ecu v i s = Some u" "existing_simulation_command u (mm_command_id c) s = None"
    and "corrupt_ecu_memory e (v, i, c) s = Inr ((r, d), s')"
  shows "mm_expected_version c = ecu_version u" "\<not> d" "ec_kind r = ''memory_corruption''"
    and "ec_request r = CorruptionRequest c"
    and "\<exists>memory changes. corrupted_memory u c = Inr (memory, changes)
      \<and> ec_result r = CorruptionResult (mm_seed c) (mm_bit_flips c) changes
      \<and> ecu_committed (mm_command_id c) u s r (u\<lparr>ecu_memory := memory, ecu_version := ecu_version u + 1\<rparr>) s'"
  using assms
  by (auto simp: corrupt_ecu_memory_def require_ecu_def ecu_committed_def same_unit_def command_key_def ok_simps
      Let_def split: if_splits dest!: record_command_Inr)

interpretation corruptions: unit_handler corrupt_ecu_memory mm_command_id
  "\<lambda>c r. ec_kind r = ''memory_corruption'' \<and> ec_request r = CorruptionRequest c" mm_expected_version
proof (unfold_locales, goal_cases)
  case (2 v i s u c e r d s')
  then show ?case using corrupt_first[OF 2] by blast
qed (auto simp: corrupt_ecu_memory_def require_ecu_def)

end
