(* ===== verification/EcuFaults.thy ===== *)
theory EcuFaults
  imports EcuState
begin

text \<open>
  The fault lifecycle: \<open>observe_ecu_fault\<close>, \<open>clear_ecu_fault\<close> and \<open>dtc_candidates\<close> of
  \<open>src/src/atep/ecus/service.py\<close>. A fault is pending until it was detected often enough, confirmed
  from then on, and healed after enough observations of its absence; a confirmed latched fault
  heals only by clearing.
\<close>

section \<open>Transitions\<close>

definition find_fault :: "string \<Rightarrow> ecu_fault list \<Rightarrow> ecu_fault option" where
  "find_fault code faults = find (\<lambda>f. ft_code f = code) faults"

definition replace_fault :: "ecu_fault \<Rightarrow> ecu_fault list \<Rightarrow> ecu_fault list" where
  "replace_fault f faults = map (\<lambda>x. if ft_code x = ft_code f then f else x) faults"

text \<open>A new occurrence of an unknown or healed fault, built through the validated model.\<close>

definition new_fault :: "int \<Rightarrow> ecu_fault_observation_command \<Rightarrow> app_error + string \<times> ecu_fault" where
  "new_fault now c =
     (let confirmed = (1 \<ge> fo_confirmation_threshold c) in
      and_then (fault_validate \<lparr>ft_code = fo_code c, ft_severity = fo_severity c,
          ft_status = (if confirmed then CONFIRMED else PENDING), ft_description = fo_description c, ft_active = True,
          ft_latched = fo_latched c, ft_occurrence_count = 1, ft_healing_count = 0,
          ft_confirmation_threshold = fo_confirmation_threshold c, ft_healing_threshold = fo_healing_threshold c,
          ft_first_seen_ms = now, ft_last_seen_ms = now,
          ft_confirmed_at_ms = (if confirmed then Some now else None), ft_healed_at_ms = None\<rparr>)
        (\<lambda>f. Inr (if confirmed then ''confirmed'' else ''pending'', f)))"

definition detected_fault :: "int \<Rightarrow> ecu_fault \<Rightarrow> string \<times> ecu_fault" where
  "detected_fault now f =
     (let count = ft_occurrence_count f + 1;
          confirmed = (ft_status f = CONFIRMED \<or> count \<ge> ft_confirmation_threshold f);
          transition = (if confirmed \<and> ft_status f \<noteq> CONFIRMED then ''confirmed'' else ''detected'')
      in (transition, f\<lparr>ft_status := (if confirmed then CONFIRMED else PENDING), ft_active := True,
           ft_occurrence_count := count, ft_healing_count := 0, ft_last_seen_ms := now,
           ft_confirmed_at_ms := (if transition = ''confirmed'' then Some now else ft_confirmed_at_ms f),
           ft_healed_at_ms := None\<rparr>))"

definition absent_fault :: "int \<Rightarrow> ecu_fault \<Rightarrow> string \<times> ecu_fault" where
  "absent_fault now f =
     (let count = ft_healing_count f + 1;
          may_heal = (\<not> (ft_latched f \<and> ft_status f = CONFIRMED));
          healed = (may_heal \<and> count \<ge> ft_healing_threshold f)
      in ((if healed then ''healed'' else if \<not> may_heal then ''latched'' else ''healing''),
          f\<lparr>ft_status := (if healed then HEALED else ft_status f), ft_active := \<not> healed,
            ft_occurrence_count := (if ft_status f = PENDING then 0 else ft_occurrence_count f),
            ft_healing_count := count, ft_healed_at_ms := (if healed then Some now else None)\<rparr>))"

text \<open>The transition an observation makes, the fault after it, and the new list of faults.\<close>

definition observed ::
  "int \<Rightarrow> ecu_fault_observation_command \<Rightarrow> ecu_fault list \<Rightarrow> app_error + string \<times> ecu_fault \<times> ecu_fault list" where
  "observed now c faults =
     (case find_fault (fo_code c) faults of
        None \<Rightarrow>
          if \<not> fo_detected c then Inl (EcuFaultContract ''cannot heal an unknown fault'')
          else and_then (new_fault now c) (\<lambda>(t, f).
            Inr (t, f, filter (\<lambda>x. ft_code x \<noteq> fo_code c) faults @ [f]))
      | Some current \<Rightarrow>
          if ft_status current = HEALED then
            if \<not> fo_detected c then Inl (EcuFaultContract ''a healed fault requires a new detection'')
            else and_then (new_fault now c) (\<lambda>(t, f).
              Inr (t, f, filter (\<lambda>x. ft_code x \<noteq> fo_code c) faults @ [f]))
          else if (ft_severity current, ft_confirmation_threshold current, ft_healing_threshold current, ft_latched current)
              \<noteq> (fo_severity c, fo_confirmation_threshold c, fo_healing_threshold c, fo_latched c)
            then Inl (EcuFaultContract ''active fault policy cannot be changed'')
          else let (t, f) = (if fo_detected c then detected_fault now current else absent_fault now current)
            in Inr (t, f, replace_fault f faults))"

definition operational_state_after :: "EcuOperationalState \<Rightarrow> ecu_fault list \<Rightarrow> EcuOperationalState" where
  "operational_state_after st faults =
     (if list_ex (\<lambda>f. ft_active f \<and> ft_severity f = CRITICAL \<and> ft_status f = CONFIRMED) faults then FAULT
      else if st = FAULT then DEGRADED else st)"

section \<open>Handlers\<close>

definition fault_evidence :: "ecu_simulation_command \<Rightarrow> electronic_control_unit \<Rightarrow> vehicle \<Rightarrow> string \<Rightarrow> ecu_fault \<Rightarrow> dict" where
  "fault_evidence r u v transition f = simulation_evidence r u v @ [(''fault_code'', JStr (ft_code f)),
     (''transition'', JStr transition), (''status'', JStr (fault_status_value (ft_status f))),
     (''active'', JBool (ft_active f)), (''occurrence_count'', JInt (ft_occurrence_count f)),
     (''healing_count'', JInt (ft_healing_count f))]"

definition commit_fault ::
  "env \<Rightarrow> vehicle \<Rightarrow> electronic_control_unit \<Rightarrow> string \<Rightarrow> string \<Rightarrow> ecu_request \<Rightarrow> string \<times> ecu_fault \<times> ecu_fault list
    \<Rightarrow> 'a ecu_store_scheme \<Rightarrow> app_error + (ecu_simulation_command \<times> bool) \<times> 'a ecu_store_scheme" where
  "commit_fault e v locked i kind request = (\<lambda>(transition, f, faults) s.
     let u = locked\<lparr>ecu_faults := faults,
                    ecu_operational_state := operational_state_after (ecu_operational_state locked) faults,
                    ecu_version := ecu_version locked + 1\<rparr>;
         r = \<lparr>ec_ecu_id = ecu_id locked, ec_command_id = i, ec_kind = kind, ec_request = request,
              ec_result = FaultResult transition f,
              ec_previous_version = ecu_version locked, ec_state_version = ecu_version u,
              ec_previous_time_ms = ecu_simulation_time_ms locked,
              ec_simulation_time_ms = ecu_simulation_time_ms locked, ec_requested_by_user_id = env_actor e\<rparr>;
         evidence = fault_evidence r u v transition f
     in record_command e ''atep.ecu.fault.lifecycle.changed.v1'' ''ecu'' (ecu_id u) evidence
          ''ecu.fault_lifecycle_changed'' evidence u r s)"

definition observe_ecu_fault ::
  "env \<Rightarrow> vehicle \<times> string \<times> ecu_fault_observation_command \<Rightarrow> 'a ecu_store_scheme
    \<Rightarrow> app_error + (ecu_simulation_command \<times> bool) \<times> 'a ecu_store_scheme" where
  "observe_ecu_fault e = (\<lambda>(v, i, c) s.
     and_then (require_ecu v i s) (\<lambda>locked.
     case existing_simulation_command locked (fo_command_id c) s of
       Some existing \<Rightarrow>
         if ec_kind existing = ''fault_observation'' \<and> ec_request existing = ObservationRequest c
           then Inr ((existing, True), s)
         else Inl EcuSimulationCommandConflict
     | None \<Rightarrow>
     if fo_expected_version c \<noteq> ecu_version locked then Inl (EcuStateVersionConflict (ecu_version locked))
     else and_then (map_ok fault_validate (ecu_faults locked)) (\<lambda>faults.
     and_then (observed (ecu_simulation_time_ms locked) c faults) (\<lambda>out.
     commit_fault e v locked (fo_command_id c) ''fault_observation'' (ObservationRequest c) out s))))"

definition cleared_fault :: "int \<Rightarrow> ecu_fault \<Rightarrow> ecu_fault" where
  "cleared_fault now f = f\<lparr>ft_status := HEALED, ft_active := False, ft_latched := False, ft_healed_at_ms := Some now\<rparr>"

definition clear_ecu_fault ::
  "env \<Rightarrow> vehicle \<times> string \<times> string \<times> ecu_fault_clear_command \<Rightarrow> 'a ecu_store_scheme
    \<Rightarrow> app_error + (ecu_simulation_command \<times> bool) \<times> 'a ecu_store_scheme" where
  "clear_ecu_fault e = (\<lambda>(v, i, code, c) s.
     and_then (require_ecu v i s) (\<lambda>locked.
     case existing_simulation_command locked (cl_command_id c) s of
       Some existing \<Rightarrow>
         if ec_kind existing = ''fault_clear'' \<and> ec_request existing = ClearRequest c code
           then Inr ((existing, True), s)
         else Inl EcuSimulationCommandConflict
     | None \<Rightarrow>
     if cl_expected_version c \<noteq> ecu_version locked then Inl (EcuStateVersionConflict (ecu_version locked))
     else and_then (map_ok fault_validate (ecu_faults locked)) (\<lambda>faults.
     case find_fault code faults of
       None \<Rightarrow> Inl (EcuFaultContract ''cannot clear an unknown fault'')
     | Some current \<Rightarrow>
         if ft_status current = HEALED then Inl (EcuFaultContract ''fault is already healed'')
         else let f = cleared_fault (ecu_simulation_time_ms locked) current
           in commit_fault e v locked (cl_command_id c) ''fault_clear'' (ClearRequest c code)
                (''cleared'', f, replace_fault f faults) s)))"

record ecu_dtc_candidate =
  dc_source_fault_code :: string
  dc_severity :: EcuFaultSeverity
  dc_status :: EcuFaultStatus
  dc_test_failed :: bool
  dc_pending_dtc :: bool
  dc_confirmed_dtc :: bool
  dc_warning_indicator_requested :: bool
  dc_occurrence_count :: int
  dc_first_seen_ms :: int
  dc_last_seen_ms :: int
  dc_confirmed_at_ms :: "int option"

definition dtc_candidate :: "ecu_fault \<Rightarrow> ecu_dtc_candidate" where
  "dtc_candidate f = \<lparr>dc_source_fault_code = ft_code f, dc_severity = ft_severity f, dc_status = ft_status f,
     dc_test_failed = ft_active f, dc_pending_dtc = (ft_status f \<in> {PENDING, CONFIRMED}),
     dc_confirmed_dtc = (ft_status f = CONFIRMED),
     dc_warning_indicator_requested = (ft_active f \<and> ft_severity f = CRITICAL),
     dc_occurrence_count = ft_occurrence_count f, dc_first_seen_ms = ft_first_seen_ms f,
     dc_last_seen_ms = ft_last_seen_ms f, dc_confirmed_at_ms = ft_confirmed_at_ms f\<rparr>"

definition dtc_candidates :: "electronic_control_unit \<Rightarrow> app_error + ecu_dtc_candidate list" where
  "dtc_candidates u = and_then (map_ok fault_validate (ecu_faults u)) (\<lambda>faults.
     Inr (map dtc_candidate (sort_key ft_code faults)))"

section \<open>The handlers keep the contract\<close>

lemma commit_fault_Inr:
  assumes "commit_fault e v u i kind request out s = Inr ((r, d), s')"
  shows "\<not> d" "ec_kind r = kind" "ec_request r = request" "ec_result r = FaultResult (fst out) (fst (snd out))"
    and "ecu_committed i u s r (u\<lparr>ecu_faults := snd (snd out),
          ecu_operational_state := operational_state_after (ecu_operational_state u) (snd (snd out)),
          ecu_version := ecu_version u + 1\<rparr>) s'"
  using assms
  by (auto simp: commit_fault_def Let_def ecu_committed_def same_unit_def command_key_def split: prod.splits
      dest!: record_command_Inr)

lemma commit_fault_keeps:
  assumes "commit_fault e v u i kind request out s = Inr ((r, d), s')"
  shows "\<not> d \<and> ec_kind r = kind \<and> ec_request r = request \<and> (\<exists>u'. ecu_committed i u s r u' s')"
  using commit_fault_Inr[OF assms] by blast

lemma observe_first:
  assumes "find_ecu v i s = Some u" "existing_simulation_command u (fo_command_id c) s = None"
    and "observe_ecu_fault e (v, i, c) s = Inr ((r, d), s')"
  obtains faults t f faults' where "fo_expected_version c = ecu_version u"
    "map_ok fault_validate (ecu_faults u) = Inr faults"
    "observed (ecu_simulation_time_ms u) c faults = Inr (t, f, faults')"
    "commit_fault e v u (fo_command_id c) ''fault_observation'' (ObservationRequest c) (t, f, faults') s = Inr ((r, d), s')"
  using assms by (auto simp: observe_ecu_fault_def require_ecu_def ok_simps split: if_splits)

lemma clear_first:
  assumes "find_ecu v i s = Some u" "existing_simulation_command u (cl_command_id c) s = None"
    and "clear_ecu_fault e (v, i, code, c) s = Inr ((r, d), s')"
  obtains faults current where "cl_expected_version c = ecu_version u"
    "map_ok fault_validate (ecu_faults u) = Inr faults" "find_fault code faults = Some current"
    "ft_status current \<noteq> HEALED"
    "commit_fault e v u (cl_command_id c) ''fault_clear'' (ClearRequest c code)
       (''cleared'', cleared_fault (ecu_simulation_time_ms u) current,
        replace_fault (cleared_fault (ecu_simulation_time_ms u) current) faults) s = Inr ((r, d), s')"
  using assms by (auto simp: clear_ecu_fault_def require_ecu_def ok_simps Let_def split: if_splits option.splits)

interpretation observations: unit_handler observe_ecu_fault fo_command_id
  "\<lambda>c r. ec_kind r = ''fault_observation'' \<and> ec_request r = ObservationRequest c" fo_expected_version
proof (unfold_locales, goal_cases)
  case (2 v i s u c e r d s')
  show ?case by (rule observe_first[OF 2]) (drule commit_fault_keeps, simp)
qed (auto simp: observe_ecu_fault_def require_ecu_def)

interpretation clearings: unit_handler clear_ecu_fault "\<lambda>(code, c). cl_command_id c"
  "\<lambda>(code, c) r. ec_kind r = ''fault_clear'' \<and> ec_request r = ClearRequest c code" "\<lambda>(code, c). cl_expected_version c"
proof (unfold_locales, goal_cases)
  case (2 v i s u c e r d s')
  obtain code k where c: "c = (code, k)" by fastforce
  show ?case
    unfolding c by (rule clear_first[of v i s u k e code r d s']) (use 2 c in \<open>auto dest: commit_fault_keeps\<close>)
qed (auto simp: clear_ecu_fault_def require_ecu_def split: if_splits)

end
