(* ===== verification/EcuRouting.thy ===== *)
theory EcuRouting
  imports EcuState
begin

text \<open>
  Publishing signals and routing them between control units: \<open>publish_ecu_signal\<close>,
  \<open>create_signal_route\<close> and \<open>transfer_signal_route\<close> of \<open>src/src/atep/ecus/service.py\<close>.
\<close>

section \<open>Signals of a unit\<close>

definition is_signal :: "EcuSignalDirection \<Rightarrow> string \<Rightarrow> ecu_signal \<Rightarrow> bool" where
  "is_signal d name s \<longleftrightarrow> sig_direction s = d \<and> sig_name s = name"

definition require_signal ::
  "electronic_control_unit \<Rightarrow> string \<Rightarrow> EcuSignalDirection \<Rightarrow> app_error + ecu_signal" where
  "require_signal u name d =
     (case find (is_signal d name) (ecu_signals u) of
        None \<Rightarrow> Inl (EcuSignalContract (''unknown '' @ direction_value d @ '' signal: '' @ name))
      | Some s \<Rightarrow> signal_validate s)"

text \<open>\<open>_signal_with_value\<close>: a refused value is a contract error with the reason of the validator.\<close>

definition signal_with_value :: "ecu_signal \<Rightarrow> signal_value \<Rightarrow> int \<Rightarrow> app_error + ecu_signal" where
  "signal_with_value s value time_ms =
     (case signal_validate (s\<lparr>sig_value := value, sig_updated_at_ms := time_ms\<rparr>) of
        Inl (ValidationError reason) \<Rightarrow> Inl (EcuSignalContract reason)
      | r \<Rightarrow> r)"

section \<open>Publishing\<close>

text \<open>The stored request of a publication, compared as Python compares the dumped values.\<close>

fun same_publish :: "ecu_signal_publish_command \<Rightarrow> string \<Rightarrow> ecu_request \<Rightarrow> bool" where
  "same_publish c name (PublishRequest c' name') \<longleftrightarrow> name' = name \<and> pb_command_id c' = pb_command_id c
     \<and> pb_expected_version c' = pb_expected_version c \<and> signal_value_eq (pb_value c') (pb_value c)"
| "same_publish c name _ \<longleftrightarrow> False"

definition publish_evidence :: "ecu_simulation_command \<Rightarrow> electronic_control_unit \<Rightarrow> vehicle \<Rightarrow> ecu_signal \<Rightarrow> dict" where
  "publish_evidence r u v sg = simulation_evidence r u v @ [(''signal_name'', JStr (sig_name sg)),
     (''direction'', JStr (direction_value (sig_direction sg))), (''data_type'', JStr (data_type_value (sig_data_type sg))),
     (''updated_at_ms'', JInt (sig_updated_at_ms sg))]"

definition publish_ecu_signal ::
  "env \<Rightarrow> vehicle \<times> string \<times> string \<times> ecu_signal_publish_command \<Rightarrow> 'a ecu_store_scheme
    \<Rightarrow> app_error + (ecu_simulation_command \<times> bool) \<times> 'a ecu_store_scheme" where
  "publish_ecu_signal e = (\<lambda>(v, i, name, c) s.
     and_then (require_ecu v i s) (\<lambda>locked.
     case existing_simulation_command locked (pb_command_id c) s of
       Some existing \<Rightarrow>
         if ec_kind existing = ''signal_publish'' \<and> same_publish c name (ec_request existing)
           then Inr ((existing, True), s)
         else Inl EcuSimulationCommandConflict
     | None \<Rightarrow>
     if pb_expected_version c \<noteq> ecu_version locked then Inl (EcuStateVersionConflict (ecu_version locked))
     else and_then (map_ok signal_validate (ecu_signals locked)) (\<lambda>signals.
     case find (is_signal PRODUCED name) signals of
       None \<Rightarrow> Inl (EcuSignalContract ''unknown produced signal'')
     | Some current \<Rightarrow>
     and_then (signal_with_value current (pb_value c) (ecu_simulation_time_ms locked)) (\<lambda>updated.
     let u = locked\<lparr>ecu_signals := map (\<lambda>x. if is_signal PRODUCED name x then updated else x) signals,
                    ecu_version := ecu_version locked + 1\<rparr>;
         r = \<lparr>ec_ecu_id = ecu_id locked, ec_command_id = pb_command_id c, ec_kind = ''signal_publish'',
              ec_request = PublishRequest c name, ec_result = SignalResult updated,
              ec_previous_version = ecu_version locked, ec_state_version = ecu_version u,
              ec_previous_time_ms = ecu_simulation_time_ms locked,
              ec_simulation_time_ms = ecu_simulation_time_ms locked, ec_requested_by_user_id = env_actor e\<rparr>;
         evidence = publish_evidence r u v updated
     in record_command e ''atep.ecu.signal.published.v1'' ''ecu'' (ecu_id u) evidence
          ''ecu.signal_published'' evidence u r s))))"

section \<open>Routes\<close>

definition route_evidence ::
  "electronic_control_unit \<Rightarrow> vehicle \<Rightarrow> ecu_signal_route \<Rightarrow> electronic_control_unit \<Rightarrow> electronic_control_unit \<Rightarrow> dict" where
  "route_evidence gateway v rt source target = ecu_evidence gateway v @ [(''route_id'', JStr (sr_id rt)),
     (''route_identifier'', JStr (sr_identifier rt)), (''source_ecu_id'', JStr (ecu_identifier source)),
     (''source_signal'', JStr (sr_source_signal rt)), (''target_ecu_id'', JStr (ecu_identifier target)),
     (''target_signal'', JStr (sr_target_signal rt)), (''enabled'', JBool (sr_enabled rt))]"

definition create_signal_route ::
  "env \<Rightarrow> vehicle \<Rightarrow> electronic_control_unit \<Rightarrow> ecu_signal_route_create \<Rightarrow> 'a ecu_store_scheme
    \<Rightarrow> app_error + ecu_signal_route \<times> 'a ecu_store_scheme" where
  "create_signal_route e v gateway c s =
     (if ecu_type gateway \<noteq> ECU_GATEWAY
        then Inl (EcuSignalContract ''signal routes must be owned by a gateway ECU'')
      else if rt_source_ecu_id c = rt_target_ecu_id c
        then Inl (EcuSignalContract ''source and target ECUs must differ'')
      else if select (\<lambda>r. sr_gateway_ecu_id r = ecu_id gateway \<and> sr_identifier r = rt_identifier c) (ecu_routes s) \<noteq> None
        then Inl DuplicateEcuSignalRoute
      else and_then (require_ecu v (rt_source_ecu_id c) s) (\<lambda>source.
           and_then (require_ecu v (rt_target_ecu_id c) s) (\<lambda>target.
           and_then (require_signal source (rt_source_signal c) PRODUCED) (\<lambda>source_signal.
           and_then (require_signal target (rt_target_signal c) CONSUMED) (\<lambda>target_signal.
           if sig_data_type source_signal \<noteq> sig_data_type target_signal
             then Inl (EcuSignalContract ''route signal data types must match'')
           else if sig_unit source_signal \<noteq> sig_unit target_signal
             then Inl (EcuSignalContract ''route signal units must match'')
           else let rt = \<lparr>sr_id = env_new_id e, sr_gateway_ecu_id = ecu_id gateway, sr_identifier = rt_identifier c,
                          sr_source_ecu_id = ecu_id source, sr_source_signal = sig_name source_signal,
                          sr_target_ecu_id = ecu_id target, sr_target_signal = sig_name target_signal,
                          sr_enabled = rt_enabled c\<rparr>;
                    evidence = route_evidence gateway v rt source target
           in case insert_unless (\<lambda>x. sr_id x = sr_id rt \<or> route_key x = route_key rt) rt (ecu_routes s) of
                None \<Rightarrow> Inl DuplicateEcuSignalRoute
              | Some rows \<Rightarrow> Inr (rt, add_event_audit e ''atep.ecu.signal.route.created.v1'' ''ecu_signal_route'' (sr_id rt)
                  evidence ''ecu.signal_route_created'' evidence (s\<lparr>ecu_routes := rows\<rparr>)))))))"

definition list_signal_routes ::
  "electronic_control_unit \<Rightarrow> nat \<Rightarrow> nat \<Rightarrow> 'a ecu_store_scheme \<Rightarrow> ecu_signal_route list \<times> int" where
  "list_signal_routes gateway limit offset s =
     (let rows = filter (\<lambda>r. sr_gateway_ecu_id r = ecu_id gateway) (ecu_routes s)
      in (page limit offset (sort_key sr_identifier rows), int (length rows)))"

definition require_signal_route ::
  "electronic_control_unit \<Rightarrow> uuid \<Rightarrow> 'a ecu_store_scheme \<Rightarrow> app_error + ecu_signal_route" where
  "require_signal_route gateway j s = of_option (ResourceNotFound ''ecu signal route'')
     (select (\<lambda>r. sr_gateway_ecu_id r = ecu_id gateway \<and> sr_id r = j) (ecu_routes s))"

section \<open>Transfers\<close>

definition ecu_by_id :: "uuid \<Rightarrow> 'a ecu_store_scheme \<Rightarrow> electronic_control_unit option" where
  "ecu_by_id j s = select (\<lambda>u. ecu_id u = j) (ecus s)"

definition transfer_evidence ::
  "ecu_simulation_command \<Rightarrow> vehicle \<Rightarrow> electronic_control_unit \<Rightarrow> ecu_signal_route \<Rightarrow> electronic_control_unit
    \<Rightarrow> string \<Rightarrow> electronic_control_unit \<Rightarrow> string \<Rightarrow> dict" where
  "transfer_evidence r v gateway rt source source_signal target target_signal =
     [(''command_id'', JStr (ec_command_id r)), (''vehicle_id'', JStr (veh_identifier v)),
      (''gateway_ecu_id'', JStr (ecu_identifier gateway)), (''route_id'', JStr (sr_id rt)),
      (''source_ecu_id'', JStr (ecu_identifier source)), (''source_signal'', JStr source_signal),
      (''source_version'', JInt (ecu_version source)), (''target_ecu_id'', JStr (ecu_identifier target)),
      (''target_signal'', JStr target_signal), (''previous_target_version'', JInt (ec_previous_version r)),
      (''target_version'', JInt (ecu_version target))]"

definition transfer_signal_route ::
  "env \<Rightarrow> vehicle \<times> electronic_control_unit \<times> ecu_signal_route \<times> ecu_signal_route_transfer_command
    \<Rightarrow> 'a ecu_store_scheme \<Rightarrow> app_error + (ecu_simulation_command \<times> bool \<times> electronic_control_unit
      \<times> electronic_control_unit) \<times> 'a ecu_store_scheme" where
  "transfer_signal_route e = (\<lambda>(v, gateway, rt, c) s.
     if \<not> sr_enabled rt then Inl (EcuSignalContract ''signal route is disabled'')
     else case (ecu_by_id (sr_source_ecu_id rt) s, ecu_by_id (sr_target_ecu_id rt) s) of
       (Some source, Some target) \<Rightarrow>
         (let request = TransferRequest c (sr_id rt) (ecu_identifier gateway) in
          case existing_simulation_command target (tr_command_id c) s of
            Some existing \<Rightarrow>
              if ec_kind existing = ''signal_route_transfer'' \<and> ec_request existing = request
                then Inr ((existing, True, source, target), s)
              else Inl EcuSimulationCommandConflict
          | None \<Rightarrow>
          if tr_expected_source_version c \<noteq> ecu_version source then Inl (EcuStateVersionConflict (ecu_version source))
          else if tr_expected_target_version c \<noteq> ecu_version target
            then Inl (EcuStateVersionConflict (ecu_version target))
          else and_then (require_signal source (sr_source_signal rt) PRODUCED) (\<lambda>source_signal.
          and_then (require_signal target (sr_target_signal rt) CONSUMED) (\<lambda>target_signal.
          and_then (signal_with_value target_signal (sig_value source_signal) (ecu_simulation_time_ms target)) (\<lambda>updated.
          and_then (map_ok signal_validate (ecu_signals target)) (\<lambda>target_signals.
          let u = target\<lparr>ecu_signals := map (\<lambda>x. if is_signal CONSUMED (sr_target_signal rt) x then updated else x) target_signals,
                         ecu_version := ecu_version target + 1\<rparr>;
              r = \<lparr>ec_ecu_id = ecu_id target, ec_command_id = tr_command_id c, ec_kind = ''signal_route_transfer'',
                   ec_request = request,
                   ec_result = TransferResult (sr_id rt) (ecu_identifier gateway) (ecu_identifier source)
                     (ecu_identifier target) source_signal updated,
                   ec_previous_version = ecu_version target, ec_state_version = ecu_version u,
                   ec_previous_time_ms = ecu_simulation_time_ms target,
                   ec_simulation_time_ms = ecu_simulation_time_ms target, ec_requested_by_user_id = env_actor e\<rparr>;
              evidence = transfer_evidence r v gateway rt source (sig_name source_signal) u (sig_name updated)
          in and_then (record_command e ''atep.ecu.signal.routed.v1'' ''ecu_signal_route'' (sr_id rt) evidence
               ''ecu.signal_routed'' evidence u r s) (\<lambda>((r, d), s'). Inr ((r, d, source, u), s')))))))
     | _ \<Rightarrow> Inl (ResourceNotFound ''route ECU''))"

section \<open>The handlers keep the contract\<close>

lemma publish_first:
  assumes "find_ecu v i s = Some u" "existing_simulation_command u (pb_command_id c) s = None"
    and "publish_ecu_signal e (v, i, name, c) s = Inr ((r, d), s')"
  shows "pb_expected_version c = ecu_version u" "\<not> d" "ec_kind r = ''signal_publish''"
    and "ec_request r = PublishRequest c name"
    and "\<exists>signals current updated. map_ok signal_validate (ecu_signals u) = Inr signals
      \<and> find (is_signal PRODUCED name) signals = Some current
      \<and> signal_with_value current (pb_value c) (ecu_simulation_time_ms u) = Inr updated
      \<and> ec_result r = SignalResult updated
      \<and> ecu_committed (pb_command_id c) u s r
          (u\<lparr>ecu_signals := map (\<lambda>x. if is_signal PRODUCED name x then updated else x) signals,
             ecu_version := ecu_version u + 1\<rparr>) s'"
  using assms
  by (auto simp: publish_ecu_signal_def require_ecu_def ecu_committed_def same_unit_def command_key_def ok_simps
      Let_def split: if_splits option.splits dest!: record_command_Inr)

interpretation publications: unit_handler publish_ecu_signal "\<lambda>(name, c). pb_command_id c"
  "\<lambda>(name, c) r. ec_kind r = ''signal_publish'' \<and> same_publish c name (ec_request r)"
  "\<lambda>(name, c). pb_expected_version c"
proof (unfold_locales, goal_cases)
  case (2 v i s u c e r d s')
  obtain name k where c: "c = (name, k)" by fastforce
  show ?case
    unfolding c using publish_first[of v i s u k e name r d s'] 2[unfolded c] by (auto simp: signal_value_eq_def)
qed (auto simp: publish_ecu_signal_def require_ecu_def split: if_splits)

text \<open>A transfer is a command of its target unit.\<close>

definition transfer_target ::
  "vehicle \<times> electronic_control_unit \<times> ecu_signal_route \<times> 'c \<Rightarrow> 'a ecu_store_scheme \<Rightarrow> electronic_control_unit option" where
  "transfer_target = (\<lambda>(v, gateway, rt, c) s.
     if sr_enabled rt \<and> ecu_by_id (sr_source_ecu_id rt) s \<noteq> None then ecu_by_id (sr_target_ecu_id rt) s else None)"

definition transfer_run ::
  "env \<Rightarrow> vehicle \<times> electronic_control_unit \<times> ecu_signal_route \<times> ecu_signal_route_transfer_command
    \<Rightarrow> 'a ecu_store_scheme \<Rightarrow> app_error + (ecu_simulation_command \<times> bool) \<times> 'a ecu_store_scheme" where
  "transfer_run e c s = and_then (transfer_signal_route e c s) (\<lambda>((r, d, _, _), s'). Inr ((r, d), s'))"

lemma transfer_first:
  assumes "ecu_by_id (sr_source_ecu_id rt) s = Some source" "ecu_by_id (sr_target_ecu_id rt) s = Some target"
    and "existing_simulation_command target (tr_command_id c) s = None"
    and "transfer_signal_route e (v, gateway, rt, c) s = Inr ((r, d, source', u), s')"
  shows "sr_enabled rt" "tr_expected_source_version c = ecu_version source"
    and "tr_expected_target_version c = ecu_version target" "\<not> d" "ec_kind r = ''signal_route_transfer''"
    and "ec_request r = TransferRequest c (sr_id rt) (ecu_identifier gateway)"
    and "\<exists>source_signal target_signal updated signals. require_signal source (sr_source_signal rt) PRODUCED = Inr source_signal
      \<and> require_signal target (sr_target_signal rt) CONSUMED = Inr target_signal
      \<and> signal_with_value target_signal (sig_value source_signal) (ecu_simulation_time_ms target) = Inr updated
      \<and> map_ok signal_validate (ecu_signals target) = Inr signals
      \<and> u = target\<lparr>ecu_signals := map (\<lambda>x. if is_signal CONSUMED (sr_target_signal rt) x then updated else x) signals,
              ecu_version := ecu_version target + 1\<rparr>
      \<and> ecu_committed (tr_command_id c) target s r u s'"
  using assms
  by (auto simp: transfer_signal_route_def ecu_committed_def same_unit_def command_key_def ok_simps
      Let_def split: if_splits option.splits dest!: record_command_Inr)

lemma ecu_by_id_row: "ecu_by_id j s = Some u \<Longrightarrow> u \<in> set (ecus s) \<and> ecu_id u = j"
  unfolding ecu_by_id_def by (auto dest!: select_SomeD)

lemma ecu_by_id_grows:
  "ecu_grows s s' \<Longrightarrow> ecu_by_id j s = Some u \<Longrightarrow> \<exists>u'. ecu_by_id j s' = Some u' \<and> same_unit u u'"
  unfolding ecu_by_id_def ecu_grows_def by (rule select_units_grow) (auto simp: same_unit_def)

lemma ecu_by_id_update:
  assumes "ecu_store_ok s" "ecu_by_id j s = Some u" "same_unit u u'" "ecus s' = update_row ecu_id u' (ecus s)"
  shows "ecu_by_id j s' = Some u'"
  using assms unfolding ecu_by_id_def ecu_store_ok_def assms(4)
  by (intro select_units_update) (auto simp: same_unit_def)

lemma ecu_by_id_update_some:
  assumes "ecu_by_id j s = Some x" "ecus s' = update_row ecu_id u' (ecus s)"
  shows "ecu_by_id j s' \<noteq> None"
proof -
  have x: "x \<in> set (ecus s)" "ecu_id x = j" using ecu_by_id_row[OF assms(1)] by auto
  let ?y = "if ecu_id x = ecu_id u' then u' else x"
  have "?y \<in> set (ecus s')" "ecu_id ?y = j" using x unfolding assms(2) update_row_def by auto
  then show ?thesis unfolding ecu_by_id_def select_None by blast
qed

interpretation transfers: ecu_handler transfer_run transfer_target "\<lambda>(v, gateway, rt, c). tr_command_id c"
  "\<lambda>(v, gateway, rt, c) r. ec_kind r = ''signal_route_transfer''
     \<and> ec_request r = TransferRequest c (sr_id rt) (ecu_identifier gateway)"
proof (unfold_locales, goal_cases)
  case (1 c s u)
  then show ?case by (auto simp: transfer_target_def split: prod.splits if_splits dest: ecu_by_id_row)
next
  case (2 s s' c u)
  then show ?case
    using ecu_by_id_grows[OF 2(1)] by (fastforce simp: transfer_target_def split: prod.splits if_splits)
next
  case (3 s c u u' s')
  then show ?case
    using ecu_by_id_update[OF 3(1) _ 3(3,4)] ecu_by_id_update_some[OF _ 3(4)]
    by (fastforce simp: transfer_target_def split: prod.splits if_splits)
next
  case (5 c s u e r d s')
  obtain v g rt k where c: "c = (v, g, rt, k)" by (metis prod_cases4)
  obtain source where t: "ecu_by_id (sr_source_ecu_id rt) s = Some source" "ecu_by_id (sr_target_ecu_id rt) s = Some u"
    using 5(1) unfolding c transfer_target_def by (auto split: if_splits)
  obtain q w where run: "transfer_signal_route e (v, g, rt, k) s = Inr ((r, d, q, w), s')"
    using 5(3) unfolding c transfer_run_def by (auto simp: ok_simps)
  show ?case using transfer_first[OF t _ run] 5(2) unfolding c by auto
qed (auto simp: transfer_target_def transfer_run_def transfer_signal_route_def Let_def split: if_splits option.splits)

end
