(* ===== verification/EcuScenario.thy ===== *)
theory EcuScenario
  imports EcuMemory EcuFaults EcuRouting
begin

text \<open>
  Scenarios: \<open>src/src/atep/ecus/scenario_service.py\<close>. A scenario runs its actions in order, several
  times, in one transaction; each action is one command of the ECU service under a command
  identifier derived from the scenario. The row of the vehicle that the service locks first is the
  \<^typ>\<open>vehicle\<close> the handler is given.
\<close>

section \<open>Fingerprint\<close>

definition action_json :: "ecu_scenario_action \<Rightarrow> json" where
  "action_json a = JObj [(''kind'', JStr (action_kind_value (sa_kind a))), (''ecu_id'', jopt JStr (sa_ecu_id a)),
     (''gateway_ecu_id'', jopt JStr (sa_gateway_ecu_id a)), (''duration_ms'', jopt JInt (sa_duration_ms a)),
     (''signal_name'', jopt JStr (sa_signal_name a)), (''value'', jopt signal_value_json (sa_value a)),
     (''route_id'', jopt JStr (sa_route_id a)), (''fault_code'', jopt JStr (sa_fault_code a)),
     (''severity'', jopt (\<lambda>x. JStr (severity_value x)) (sa_severity a)), (''detected'', jopt JBool (sa_detected a)),
     (''description'', JStr (sa_description a)), (''confirmation_threshold'', JInt (sa_confirmation_threshold a)),
     (''healing_threshold'', JInt (sa_healing_threshold a)), (''latched'', JBool (sa_latched a)),
     (''bit_flips'', jopt JInt (sa_bit_flips a)), (''region_names'', JArr (map JStr (sa_region_names a)))]"

definition request_hash :: "ecu_scenario_execute_command \<Rightarrow> string" where
  "request_hash c = sha256_hex (json_dumps (JObj [(''execution_id'', JStr (xc_execution_id c)),
     (''iterations'', JInt (xc_iterations c)), (''base_seed'', JInt (xc_base_seed c)),
     (''actions'', JArr (map action_json (xc_actions c)))]))"

section \<open>Measurements\<close>

definition vehicle_ecus :: "vehicle \<Rightarrow> 'a ecu_store_scheme \<Rightarrow> electronic_control_unit list" where
  "vehicle_ecus v s = sort_key ecu_identifier (filter (\<lambda>u. ecu_vehicle_id u = veh_id v) (ecus s))"

definition resource_metrics :: "vehicle \<Rightarrow> 'a ecu_store_scheme \<Rightarrow> ecu_scenario_resource_metrics" where
  "resource_metrics v s =
     (let us = vehicle_ecus v s; ids = ecu_id ` set us
      in \<lparr>mt_ecu_count = int (length us), mt_memory_cell_count = sum_list (map (\<lambda>u. int (length (ecu_memory u))) us),
          mt_signal_count = sum_list (map (\<lambda>u. int (length (ecu_signals u))) us),
          mt_active_fault_count = sum_list (map (\<lambda>u. int (length (filter ft_active (ecu_faults u)))) us),
          mt_route_count = int (length (filter (\<lambda>r. sr_gateway_ecu_id r \<in> ids) (ecu_routes s))),
          mt_aggregate_version = sum_list (map ecu_version us)\<rparr>)"

definition timing_diagnostics :: "vehicle \<Rightarrow> 'a ecu_store_scheme \<Rightarrow> ecu_scenario_timing_diagnostics" where
  "timing_diagnostics v s =
     (case vehicle_ecus v s of
        [] \<Rightarrow> \<lparr>td_minimum_time_ms = 0, td_maximum_time_ms = 0, td_clock_skew_ms = 0, td_synchronized = True, td_ecus = []\<rparr>
      | u # us \<Rightarrow>
          let maximum = foldl max (ecu_simulation_time_ms u) (map ecu_simulation_time_ms us);
              minimum = foldl min (ecu_simulation_time_ms u) (map ecu_simulation_time_ms us)
          in \<lparr>td_minimum_time_ms = minimum, td_maximum_time_ms = maximum, td_clock_skew_ms = maximum - minimum,
              td_synchronized = (maximum = minimum),
              td_ecus = map (\<lambda>x. \<lparr>ck_ecu_id = ecu_identifier x, ck_simulation_time_ms = ecu_simulation_time_ms x,
                 ck_lag_from_max_ms = maximum - ecu_simulation_time_ms x\<rparr>) (take 16 (u # us))\<rparr>)"

section \<open>Actions\<close>

definition scenario_command_id :: "string \<Rightarrow> int \<Rightarrow> int \<Rightarrow> string" where
  "scenario_command_id i iteration index = ''scn-'' @ i @ ''-'' @ int_str iteration @ ''-'' @ int_str index"

definition campaign_seed :: "int \<Rightarrow> int \<Rightarrow> int \<Rightarrow> int" where
  "campaign_seed base iteration index =
     (let digest = sha256_digest (encode_text (int_str base @ '':'' @ int_str iteration @ '':'' @ int_str index))
      in int (foldl (\<lambda>acc b. acc * 256 + b) 0 (take 4 digest)) mod 2147483648)"

definition require_route_by_identifier ::
  "electronic_control_unit \<Rightarrow> string \<Rightarrow> 'a ecu_store_scheme \<Rightarrow> app_error + ecu_signal_route" where
  "require_route_by_identifier gateway i s = of_option (ResourceNotFound ''ecu signal route'')
     (select (\<lambda>r. sr_gateway_ecu_id r = ecu_id gateway \<and> sr_identifier r = i) (ecu_routes s))"

text \<open>\<open>assert x is not None\<close>.\<close>

definition required :: "'a option \<Rightarrow> app_error + 'a" where
  "required x = of_option AssertionError x"

text \<open>The unit, version, time and outcome an action reports.\<close>

type_synonym action_report = "string \<times> int \<times> int \<times> string"

definition report :: "string \<Rightarrow> ecu_simulation_command \<Rightarrow> string \<Rightarrow> action_report" where
  "report i r outcome = (i, ec_state_version r, ec_simulation_time_ms r, outcome)"

definition fault_transition :: "ecu_simulation_command \<Rightarrow> string" where
  "fault_transition r = (case ec_result r of FaultResult t f \<Rightarrow> t | _ \<Rightarrow> '''')"

definition run_action ::
  "env \<Rightarrow> vehicle \<Rightarrow> ecu_scenario_action \<Rightarrow> string \<Rightarrow> int \<Rightarrow> string \<Rightarrow> electronic_control_unit \<Rightarrow> 'a ecu_store_scheme
    \<Rightarrow> app_error + action_report \<times> 'a ecu_store_scheme" where
  "run_action e v a i seed target ecu s =
     (case sa_kind a of
        ADVANCE_TIME \<Rightarrow>
          and_then (required (sa_duration_ms a)) (\<lambda>duration.
          and_then (execute_ecu_advance e (v, ecu_identifier ecu, \<lparr>ad_command_id = i,
             ad_expected_version = ecu_version ecu, ad_duration_ms = duration\<rparr>) s) (\<lambda>((r, _), s').
          Inr (report target r ''advanced'', s')))
      | OBSERVE_FAULT \<Rightarrow>
          and_then (required (sa_fault_code a)) (\<lambda>code. and_then (required (sa_severity a)) (\<lambda>severity.
          and_then (required (sa_detected a)) (\<lambda>detected. and_then (validate_code code) (\<lambda>code.
          and_then (observe_ecu_fault e (v, ecu_identifier ecu, \<lparr>fo_command_id = i,
             fo_expected_version = ecu_version ecu, fo_code = code, fo_severity = severity, fo_detected = detected,
             fo_description = strip (sa_description a), fo_confirmation_threshold = sa_confirmation_threshold a,
             fo_healing_threshold = sa_healing_threshold a, fo_latched = sa_latched a\<rparr>) s) (\<lambda>((r, _), s').
          Inr (report target r (fault_transition r), s'))))))
      | CORRUPT_MEMORY \<Rightarrow>
          and_then (required (sa_bit_flips a)) (\<lambda>flips.
          and_then (corrupt_ecu_memory e (v, ecu_identifier ecu, \<lparr>mm_command_id = i,
             mm_expected_version = ecu_version ecu, mm_seed = seed, mm_bit_flips = flips,
             mm_region_names = sa_region_names a\<rparr>) s) (\<lambda>((r, _), s').
          Inr (report target r ''corrupted'', s')))
      | PUBLISH_SIGNAL \<Rightarrow>
          and_then (required (sa_signal_name a)) (\<lambda>name. and_then (required (sa_value a)) (\<lambda>value.
          and_then (publish_ecu_signal e (v, ecu_identifier ecu, name, \<lparr>pb_command_id = i,
             pb_expected_version = ecu_version ecu, pb_value = value\<rparr>) s) (\<lambda>((r, _), s').
          Inr (report target r ''published'', s'))))
      | TRANSFER_SIGNAL \<Rightarrow>
          and_then (required (sa_route_id a)) (\<lambda>route_id.
          and_then (require_route_by_identifier ecu route_id s) (\<lambda>rt.
          case (ecu_by_id (sr_source_ecu_id rt) s, ecu_by_id (sr_target_ecu_id rt) s) of
            (Some source, Some destination) \<Rightarrow>
              and_then (transfer_signal_route e (v, ecu, rt, \<lparr>tr_command_id = i,
                 tr_expected_source_version = ecu_version source,
                 tr_expected_target_version = ecu_version destination\<rparr>) s) (\<lambda>((r, _, _, u), s').
              Inr ((ecu_identifier u, ec_state_version r, ecu_simulation_time_ms u, ''transferred''), s'))
          | _ \<Rightarrow> Inl (ResourceNotFound ''ecu''))))"

definition execute_action ::
  "env \<Rightarrow> vehicle \<Rightarrow> string \<Rightarrow> int \<Rightarrow> int \<times> int \<times> ecu_scenario_action \<Rightarrow> 'a ecu_store_scheme
    \<Rightarrow> app_error + ecu_scenario_action_result \<times> 'a ecu_store_scheme" where
  "execute_action e v execution_id base_seed = (\<lambda>(iteration, index, a) s.
     and_then (required (case sa_ecu_id a of Some i \<Rightarrow> Some i | None \<Rightarrow> sa_gateway_ecu_id a)) (\<lambda>target.
     and_then (require_ecu v target s) (\<lambda>ecu.
     and_then (validate_command_id (scenario_command_id execution_id iteration index)) (\<lambda>i.
     and_then (run_action e v a i (campaign_seed base_seed iteration index) target ecu s)
       (\<lambda>((target, version, time, outcome), s').
     Inr (\<lparr>ar_iteration = iteration, ar_action_index = index, ar_kind = sa_kind a, ar_ecu_id = target,
           ar_state_version = version, ar_simulation_time_ms = time, ar_outcome = outcome\<rparr>, s'))))))"

text \<open>The two nested loops, in the order they run.\<close>

definition scenario_plan :: "ecu_scenario_execute_command \<Rightarrow> (int \<times> int \<times> ecu_scenario_action) list" where
  "scenario_plan c = concat (map (\<lambda>iteration. map (\<lambda>(k, a). (iteration, int k, a)) (enumerate 1 (xc_actions c)))
     [1..xc_iterations c])"

fun scenario_loop ::
  "env \<Rightarrow> vehicle \<Rightarrow> string \<Rightarrow> int \<Rightarrow> (int \<times> int \<times> ecu_scenario_action) list \<Rightarrow> ecu_scenario_action_result list
    \<Rightarrow> 'a ecu_store_scheme \<Rightarrow> app_error + ecu_scenario_action_result list \<times> 'a ecu_store_scheme" where
  "scenario_loop e v i seed [] results s = Inr (results, s)"
| "scenario_loop e v i seed (step # rest) results s =
     and_then (execute_action e v i seed step s) (\<lambda>(result, s').
       scenario_loop e v i seed rest (results @ [result]) s')"

section \<open>Executing a scenario\<close>

definition find_scenario :: "vehicle \<Rightarrow> string \<Rightarrow> 'a ecu_store_scheme \<Rightarrow> ecu_scenario_execution option" where
  "find_scenario v i s = select (\<lambda>x. xs_vehicle_id x = veh_id v \<and> xs_execution_id x = i) (ecu_scenarios s)"

definition scenario_evidence :: "vehicle \<Rightarrow> ecu_scenario_execution \<Rightarrow> dict" where
  "scenario_evidence v x = [(''vehicle_id'', JStr (veh_identifier v)), (''scenario_execution_id'', JStr (xs_id x)),
     (''execution_id'', JStr (xs_execution_id x)), (''iteration_count'', JInt (xs_iteration_count x)),
     (''action_count'', JInt (int (length (xr_actions (xs_result x))))),
     (''ecu_count'', JInt (mt_ecu_count (xr_resources_after (xs_result x)))),
     (''clock_skew_ms'', JInt (td_clock_skew_ms (xr_timing (xs_result x)))),
     (''synchronized'', JBool (td_synchronized (xr_timing (xs_result x))))]"

definition execute_scenario ::
  "env \<Rightarrow> vehicle \<times> ecu_scenario_execute_command \<Rightarrow> 'a ecu_store_scheme
    \<Rightarrow> app_error + (ecu_scenario_execution \<times> bool) \<times> 'a ecu_store_scheme" where
  "execute_scenario e = (\<lambda>(v, c) s.
     case find_scenario v (xc_execution_id c) s of
       Some existing \<Rightarrow>
         if xs_request_hash existing = request_hash c then Inr ((existing, True), s)
         else Inl EcuScenarioExecutionConflict
     | None \<Rightarrow>
     and_then (scenario_loop e v (xc_execution_id c) (xc_base_seed c) (scenario_plan c) [] s) (\<lambda>(results, s').
     let x = \<lparr>xs_id = env_new_id e, xs_vehicle_id = veh_id v, xs_execution_id = xc_execution_id c,
              xs_request_hash = request_hash c, xs_request = c,
              xs_result = \<lparr>xr_resources_before = resource_metrics v s, xr_resources_after = resource_metrics v s',
                           xr_timing = timing_diagnostics v s', xr_actions = results\<rparr>,
              xs_iteration_count = xc_iterations c, xs_requested_by_user_id = env_actor e\<rparr>
     in and_then (of_option (IntegrityError ''uq_ecu_scenario_execution'') (insert_row scenario_key x (ecu_scenarios s'))) (\<lambda>rows.
        Inr ((x, False), add_event_audit e ''atep.ecu.scenario.completed.v1'' ''ecu_scenario'' (xs_id x)
          (scenario_evidence v x) ''ecu.scenario_completed'' (scenario_evidence v x) (s'\<lparr>ecu_scenarios := rows\<rparr>)))))"

definition require_scenario_execution ::
  "vehicle \<Rightarrow> string \<Rightarrow> 'a ecu_store_scheme \<Rightarrow> app_error + ecu_scenario_execution" where
  "require_scenario_execution v i s = of_option (ResourceNotFound ''ecu scenario execution'') (find_scenario v i s)"

definition list_scenario_executions ::
  "vehicle \<Rightarrow> nat \<Rightarrow> nat \<Rightarrow> 'a ecu_store_scheme \<Rightarrow> ecu_scenario_execution list \<times> int" where
  "list_scenario_executions v limit offset s =
     (let rows = filter (\<lambda>x. xs_vehicle_id x = veh_id v) (ecu_scenarios s)
      in (page limit offset (rev rows), int (length rows)))"

section \<open>A scenario is one replayable command\<close>

lemma run_action_ok:
  assumes "ecu_store_ok s" "run_action e v a i seed target u s = Inr (x, s')"
  shows "ecu_store_ok s' \<and> ecu_grows s s' \<and> ecu_scenarios s' = ecu_scenarios s"
proof (cases "sa_kind a")
  case ADVANCE_TIME
  then show ?thesis
    using assms(2) advances.run_ok[OF assms(1)] advances.scenarios_kept by (fastforce simp: run_action_def ok_simps)
next
  case OBSERVE_FAULT
  then show ?thesis
    using assms(2) observations.run_ok[OF assms(1)] observations.scenarios_kept
    by (fastforce simp: run_action_def ok_simps)
next
  case CORRUPT_MEMORY
  then show ?thesis
    using assms(2) corruptions.run_ok[OF assms(1)] corruptions.scenarios_kept
    by (fastforce simp: run_action_def ok_simps)
next
  case PUBLISH_SIGNAL
  then show ?thesis
    using assms(2) publications.run_ok[OF assms(1)] publications.scenarios_kept
    by (fastforce simp: run_action_def ok_simps)
next
  case TRANSFER_SIGNAL
  then obtain c r d w q where "transfer_signal_route e c s = Inr ((r, d, w, q), s')"
    using assms(2) unfolding run_action_def
    by (simp add: ok_simps split: option.splits) blast
  then have "transfer_run e c s = Inr ((r, d), s')" by (simp add: transfer_run_def)
  then show ?thesis using transfers.run_ok[OF assms(1)] transfers.scenarios_kept by blast
qed

lemma execute_action_ok:
  assumes "ecu_store_ok s" "execute_action e v i seed step s = Inr (x, s')"
  shows "ecu_store_ok s' \<and> ecu_grows s s' \<and> ecu_scenarios s' = ecu_scenarios s"
  using assms run_action_ok[OF assms(1)] by (fastforce simp: execute_action_def ok_simps split: prod.splits)

lemma scenario_loop_ok:
  "ecu_store_ok s \<Longrightarrow> scenario_loop e v i seed plan results s = Inr (results', s')
    \<Longrightarrow> ecu_store_ok s' \<and> ecu_grows s s' \<and> ecu_scenarios s' = ecu_scenarios s
      \<and> length results' = length results + length plan"
proof (induction e v i seed plan results s rule: scenario_loop.induct)
  case (2 e v i seed step rest results s)
  then obtain x t where x: "execute_action e v i seed step s = Inr (x, t)"
    and rest: "scenario_loop e v i seed rest (results @ [x]) t = Inr (results', s')"
    by (auto simp: ok_simps)
  note t = execute_action_ok[OF 2(2) x]
  then show ?case using 2(1)[OF _ rest] ecu_grows_trans[of s t s'] by auto
qed simp

lemma execute_scenario_first:
  assumes "ecu_store_ok s" "find_scenario v (xc_execution_id c) s = None"
    and "execute_scenario e (v, c) s = Inr ((x, d), s')"
  shows "\<not> d" "ecu_store_ok s'" "ecu_grows s s'" "find_scenario v (xc_execution_id c) s' = Some x"
    and "xs_request_hash x = request_hash c" "length (xr_actions (xs_result x)) = length (scenario_plan c)"
proof -
  obtain results t rows where loop: "scenario_loop e v (xc_execution_id c) (xc_base_seed c) (scenario_plan c) [] s = Inr (results, t)"
    and rows: "scenario_key x \<notin> scenario_key ` set (ecu_scenarios t)" "rows = ecu_scenarios t @ [x]"
    and x: "xs_vehicle_id x = veh_id v" "xs_execution_id x = xc_execution_id c" "xs_request_hash x = request_hash c"
      "xr_actions (xs_result x) = results" "\<not> d"
    and s': "s' = add_event_audit e ''atep.ecu.scenario.completed.v1'' ''ecu_scenario'' (xs_id x)
          (scenario_evidence v x) ''ecu.scenario_completed'' (scenario_evidence v x) (t\<lparr>ecu_scenarios := rows\<rparr>)"
    using assms(2,3) by (auto simp: execute_scenario_def ok_simps table_simps Let_def split: prod.splits)
  note t = scenario_loop_ok[OF assms(1) loop]
  show "\<not> d" "xs_request_hash x = request_hash c" using x by simp_all
  show "length (xr_actions (xs_result x)) = length (scenario_plan c)" using t x by simp
  show "ecu_store_ok s'" using t rows unfolding s' ecu_store_ok_def by (auto simp del: distinct_map)
  have "ecu_grows t s'" using rows(2) unfolding s' ecu_grows_def by simp
  then show "ecu_grows s s'" using t ecu_grows_trans by blast
  show "find_scenario v (xc_execution_id c) s' = Some x"
    using assms(2) t rows(2) x(1,2) by (simp add: s' find_scenario_def select_insert_miss)
qed

interpretation scenarios: idempotent "lift_run execute_scenario" ecu_store_ok
  "\<lambda>(v, c). find_scenario v (xc_execution_id c)" "\<lambda>(v, c) x. xs_request_hash x = request_hash c"
  EcuScenarioExecutionConflict ecu_grows
proof (unfold_locales, goal_cases)
  case (3 s c e r n d s')
  obtain v k where c: "c = (v, k)" by fastforce
  show ?case
    using 3 execute_scenario_first(1,4,5)[OF 3(1), of v k e r d s'] by (simp add: c lift_run_Inr)
next
  case (4 s e c x s')
  obtain v k r n d where c: "c = (v, k)" "x = (r, n, d)" by (metis prod_cases3 surj_pair)
  show ?case
    using 4 execute_scenario_first(2)[OF 4(1), of v k e r d s'] unfolding c
    by (cases "find_scenario v (xc_execution_id k) s") (auto simp: lift_run_Inr execute_scenario_def split: if_splits)
next
  case (5 s e c x s')
  obtain v k r n d where c: "c = (v, k)" "x = (r, n, d)" by (metis prod_cases3 surj_pair)
  show ?case
    using 5 execute_scenario_first(3)[OF 5(1), of v k e r d s'] unfolding c
    by (cases "find_scenario v (xc_execution_id k) s") (auto simp: lift_run_Inr execute_scenario_def split: if_splits)
next
  case (6 s s' c r)
  then show ?case
    by (auto simp: find_scenario_def ecu_grows_def extends_def select_grows split: prod.splits)
qed (auto simp: execute_scenario_def lift_run_Inr lift_run_Inl split: prod.splits)

end
