(* ===== verification/EcuValid.thy ===== *)
theory EcuValid
  imports EcuScenario
begin

text \<open>
  Validation is stable: what a validator returned passes it again unchanged. The services write
  validated models to JSON columns and validate the columns on every read, so this is what keeps a
  stored state readable. \<open>unit_valid\<close> says that a unit is readable.
\<close>

section \<open>Stripping\<close>

lemma dropWhile_fixed: "xs = [] \<or> \<not> p (hd xs) \<Longrightarrow> dropWhile p xs = xs"
  by (cases xs) auto

lemma dropWhile_head: "dropWhile p xs = [] \<or> \<not> p (hd (dropWhile p xs))"
  by (induction xs) auto

lemma strip_strip [simp]: "strip (strip s) = strip s"
proof -
  let ?a = "dropWhile is_space s"
  let ?b = "dropWhile is_space (rev ?a)"
  have "rev ?b = [] \<or> \<not> is_space (hd (rev ?b))"
  proof (cases "?b = []")
    case False
    obtain xs where xs: "rev ?a = xs @ ?b" by (metis takeWhile_dropWhile_id)
    then have "?a = rev ?b @ rev xs" by (metis rev_append rev_rev_ident)
    then have "hd ?a = hd (rev ?b)" "?a \<noteq> []"
      using False by (metis hd_append2 rev_is_Nil_conv, metis append_is_Nil_conv rev_is_Nil_conv)
    then show ?thesis using dropWhile_head[of is_space s] by metis
  qed simp
  then have "dropWhile is_space (rev ?b) = rev ?b" by (rule dropWhile_fixed)
  moreover have "dropWhile is_space ?b = ?b" by (rule dropWhile_fixed) (rule dropWhile_head)
  ultimately show ?thesis by (simp add: strip_def)
qed

lemma length_dropWhile: "length (dropWhile p xs) \<le> length xs"
  by (induction xs) auto

lemma length_strip: "length (strip s) \<le> length s"
  unfolding strip_def by (metis length_dropWhile le_trans length_rev)

section \<open>Validators are stable\<close>

lemma validate_names_stable:
  "validate_task_id s = Inr t \<Longrightarrow> validate_task_id t = Inr t \<and> len_between 3 40 t"
  "validate_signal_name s = Inr t \<Longrightarrow> validate_signal_name t = Inr t \<and> len_between 3 40 t"
  "validate_region_name s = Inr t \<Longrightarrow> validate_region_name t = Inr t \<and> len_between 3 40 t"
  by (auto simp: validate_task_id_def validate_signal_name_def validate_region_name_def Let_def
      task_id_match_stable split: if_splits) (simp_all add: task_id_match_def)

lemma validate_code_stable: "validate_code s = Inr t \<Longrightarrow> validate_code t = Inr t \<and> len_between 3 32 t"
  by (auto simp: validate_code_def Let_def fault_code_match_stable split: if_splits) (simp add: fault_code_match_def)

lemma cell_validate_stable: "cell_validate c = Inr d \<Longrightarrow> d = c \<and> cell_validate c = Inr c"
  by (auto simp: cell_validate_def split: if_splits)

lemma region_validate_stable: "region_validate r = Inr r' \<Longrightarrow> region_validate r' = Inr r'"
  using validate_names_stable(3)[of "mr_name r"]
  by (auto simp: region_validate_def ok_simps split: if_splits)

lemma task_validate_stable: "task_validate t = Inr t' \<Longrightarrow> task_validate t' = Inr t'"
  using validate_names_stable(1)[of "tk_task_id t"]
  by (auto simp: task_validate_def ok_simps split: if_splits)

lemma signal_validate_stable: "signal_validate s = Inr s' \<Longrightarrow> signal_validate s' = Inr s'"
proof -
  assume "signal_validate s = Inr s'"
  then obtain name where f: "signal_fields_ok s" "validate_signal_name (sig_name s) = Inr name"
    and v: "validate_value_and_bounds (s\<lparr>sig_name := name, sig_unit := strip (sig_unit s)\<rparr>) = Inr s'"
    by (auto simp: signal_validate_def ok_simps)
  then have s': "s' = s\<lparr>sig_name := name, sig_unit := strip (sig_unit s)\<rparr>"
    by (auto simp: validate_value_and_bounds_def Let_def split: if_splits)
  have "signal_fields_ok s'"
    using f validate_names_stable(2)[OF f(2)] length_strip[of "sig_unit s"] unfolding s'
    by (auto simp: signal_fields_ok_def len_between_def)
  then show ?thesis
    using v validate_names_stable(2)[OF f(2)] unfolding s' by (simp add: signal_validate_def ok_simps check_def)
qed

lemma lifecycle_fields:
  assumes "keep_lifecycle_consistent f = Inr g"
  shows "g = f \<or> ft_status f = CONFIRMED \<and> g = f\<lparr>ft_confirmed_at_ms := Some (ft_last_seen_ms f)\<rparr>"
    and "ft_first_seen_ms f \<le> ft_last_seen_ms f"
    and "ft_status f = PENDING \<Longrightarrow> ft_occurrence_count f < ft_confirmation_threshold f"
    and "ft_status f = HEALED \<Longrightarrow> \<not> ft_active f \<and> ft_healed_at_ms f \<noteq> None \<and> \<not> ft_latched f"
  using assms by (simp_all add: keep_lifecycle_consistent_def Let_def split: if_splits)

lemma lifecycle_stable:
  assumes "keep_lifecycle_consistent f = Inr g" shows "keep_lifecycle_consistent g = Inr g"
  using lifecycle_fields(1)[OF assms]
proof
  assume "g = f"
  then show ?thesis using assms by simp
next
  assume "ft_status f = CONFIRMED \<and> g = f\<lparr>ft_confirmed_at_ms := Some (ft_last_seen_ms f)\<rparr>"
  then show ?thesis using lifecycle_fields(2)[OF assms] by (simp add: keep_lifecycle_consistent_def)
qed

lemma fault_validate_stable: "fault_validate f = Inr g \<Longrightarrow> fault_validate g = Inr g"
proof -
  assume "fault_validate f = Inr g"
  then obtain code where f: "fault_fields_ok f" "validate_code (ft_code f) = Inr code"
    and k: "keep_lifecycle_consistent (f\<lparr>ft_code := code, ft_description := strip (ft_description f)\<rparr>) = Inr g"
    by (auto simp: fault_validate_def ok_simps)
  have g: "ft_code g = code" "ft_description g = strip (ft_description f)"
    and ok: "fault_fields_ok g"
    using lifecycle_fields(1)[OF k] f validate_code_stable[OF f(2)] length_strip[of "ft_description f"]
    by (auto simp: fault_fields_ok_def len_between_def)
  have same: "g\<lparr>ft_code := code, ft_description := strip (ft_description f)\<rparr> = g" using g by (cases g) simp
  have "fault_validate g = keep_lifecycle_consistent (g\<lparr>ft_code := code, ft_description := strip (ft_description f)\<rparr>)"
    unfolding fault_validate_def using ok validate_code_stable[OF f(2)] g by (simp add: check_def)
  then show ?thesis unfolding same lifecycle_stable[OF k] .
qed

lemma map_ok_fixed: "map_ok f xs = Inr xs \<longleftrightarrow> (\<forall>x\<in>set xs. f x = Inr x)"
  by (simp add: map_ok_Inr list_all2_same)

lemma map_ok_stable:
  assumes "map_ok f xs = Inr ys" "\<And>x y. f x = Inr y \<Longrightarrow> f y = Inr y"
  shows "map_ok f ys = Inr ys"
proof -
  have "\<forall>y\<in>set ys. \<exists>x. f x = Inr y"
    using assms(1) unfolding map_ok_Inr by (induction rule: list_all2_induct) auto
  then show ?thesis using assms(2) unfolding map_ok_fixed by blast
qed

text \<open>What a valid state satisfies, by field.\<close>

definition state_bounds :: "ecu_state_payload \<Rightarrow> bool" where
  "state_bounds p \<longleftrightarrow> length (sp_memory p) \<le> 256 \<and> length (sp_memory_regions p) \<le> 16 \<and> length (sp_faults p) \<le> 64
     \<and> length (sp_signals p) \<le> 64 \<and> length (sp_cyclic_tasks p) \<le> 32 \<and> length (sp_behavior_state p) \<le> 32"

definition state_valid :: "ecu_state_payload \<Rightarrow> bool" where
  "state_valid p \<longleftrightarrow> state_bounds p \<and> (\<forall>c\<in>set (sp_memory p). cell_validate c = Inr c)
     \<and> (\<forall>r\<in>set (sp_memory_regions p). region_validate r = Inr r) \<and> (\<forall>f\<in>set (sp_faults p). fault_validate f = Inr f)
     \<and> (\<forall>s\<in>set (sp_signals p). signal_validate s = Inr s) \<and> (\<forall>t\<in>set (sp_cyclic_tasks p). task_validate t = Inr t)
     \<and> bound_behavior_state (sp_behavior_state p) = Inr () \<and> require_consistent_state p = Inr p"

lemma require_consistent_same: "require_consistent_state p = Inr q \<Longrightarrow> q = p"
  by (auto simp: require_consistent_state_def split: if_splits)

lemma state_validate_fixed: "state_validate p = Inr p \<longleftrightarrow> state_valid p"
proof
  assume "state_validate p = Inr p"
  then obtain m r f s t where "state_bounds p" "map_ok cell_validate (sp_memory p) = Inr m"
      "map_ok region_validate (sp_memory_regions p) = Inr r" "map_ok fault_validate (sp_faults p) = Inr f"
      "map_ok signal_validate (sp_signals p) = Inr s" "map_ok task_validate (sp_cyclic_tasks p) = Inr t"
      "bound_behavior_state (sp_behavior_state p) = Inr ()"
      and c: "require_consistent_state (p\<lparr>sp_memory := m, sp_memory_regions := r, sp_faults := f, sp_signals := s,
        sp_cyclic_tasks := t\<rparr>) = Inr p"
    by (auto simp: state_validate_def ok_simps state_bounds_def len_between_def)
  moreover have p: "p\<lparr>sp_memory := m, sp_memory_regions := r, sp_faults := f, sp_signals := s, sp_cyclic_tasks := t\<rparr> = p"
    using require_consistent_same[OF c] by simp
  moreover have "m = sp_memory p" "r = sp_memory_regions p" "f = sp_faults p" "s = sp_signals p" "t = sp_cyclic_tasks p"
    using arg_cong[OF p, of sp_memory] arg_cong[OF p, of sp_memory_regions] arg_cong[OF p, of sp_faults]
      arg_cong[OF p, of sp_signals] arg_cong[OF p, of sp_cyclic_tasks] by simp_all
  ultimately show "state_valid p" using c unfolding state_valid_def by (simp add: map_ok_fixed)
next
  assume v: "state_valid p"
  then have "map_ok cell_validate (sp_memory p) = Inr (sp_memory p)"
      "map_ok region_validate (sp_memory_regions p) = Inr (sp_memory_regions p)"
      "map_ok fault_validate (sp_faults p) = Inr (sp_faults p)"
      "map_ok signal_validate (sp_signals p) = Inr (sp_signals p)"
      "map_ok task_validate (sp_cyclic_tasks p) = Inr (sp_cyclic_tasks p)"
    by (simp_all add: map_ok_fixed state_valid_def)
  then show "state_validate p = Inr p"
    using v by (simp add: state_validate_def state_valid_def state_bounds_def len_between_def check_def)
qed

lemma state_validate_valid:
  assumes "state_validate p = Inr q" shows "state_valid q"
proof -
  obtain m r f s t where b: "state_bounds p" and m: "map_ok cell_validate (sp_memory p) = Inr m"
      "map_ok region_validate (sp_memory_regions p) = Inr r" "map_ok fault_validate (sp_faults p) = Inr f"
      "map_ok signal_validate (sp_signals p) = Inr s" "map_ok task_validate (sp_cyclic_tasks p) = Inr t"
      and h: "bound_behavior_state (sp_behavior_state p) = Inr ()"
      and c: "require_consistent_state (p\<lparr>sp_memory := m, sp_memory_regions := r, sp_faults := f, sp_signals := s,
        sp_cyclic_tasks := t\<rparr>) = Inr q"
    using assms by (auto simp: state_validate_def ok_simps state_bounds_def len_between_def)
  have q: "q = p\<lparr>sp_memory := m, sp_memory_regions := r, sp_faults := f, sp_signals := s, sp_cyclic_tasks := t\<rparr>"
    using require_consistent_same[OF c] .
  have "map_ok cell_validate m = Inr m" "map_ok region_validate r = Inr r" "map_ok fault_validate f = Inr f"
    "map_ok signal_validate s = Inr s" "map_ok task_validate t = Inr t"
    using map_ok_stable[OF m(1)] cell_validate_stable map_ok_stable[OF m(2)] region_validate_stable
      map_ok_stable[OF m(3)] fault_validate_stable map_ok_stable[OF m(4)] signal_validate_stable
      map_ok_stable[OF m(5)] task_validate_stable by blast+
  then show ?thesis
    using b h c m[THEN map_ok_length] unfolding state_valid_def q by (simp add: map_ok_fixed state_bounds_def)
qed

definition unit_valid :: "electronic_control_unit \<Rightarrow> bool" where
  "unit_valid u \<longleftrightarrow> state_valid (state_of u)"

lemma unit_valid_payload: "unit_valid u \<Longrightarrow> stored_state_payload u = Inr (state_of u)"
  by (simp add: unit_valid_def stored_state_payload_def state_validate_fixed)

end
