(* ===== verification/EcuSystem.thy ===== *)
theory EcuSystem
  imports EcuValid
begin

text \<open>
  The ECU simulation as a transition system: a step is one successful request of a client. Requests
  that fail leave the store alone and are not steps. The requests are composed as
  \<open>src/src/atep/ecus/router.py\<close> composes them, and carry commands that passed their schema.
\<close>

section \<open>Commands\<close>

datatype ecu_command =
    AdvanceUnit string ecu_advance_command
  | ResetUnit string ecu_reset_command
  | CorruptUnit string ecu_memory_corruption_command
  | ObserveFault string ecu_fault_observation_command
  | ClearFault string string ecu_fault_clear_command
  | PublishSignal string string ecu_signal_publish_command
  | TransferSignal string uuid ecu_signal_route_transfer_command

fun ecu_command_ok :: "ecu_command \<Rightarrow> bool" where
  "ecu_command_ok (AdvanceUnit i c) = ecu_advance_command_ok c"
| "ecu_command_ok (CorruptUnit i c) = ecu_memory_corruption_command_ok c"
| "ecu_command_ok (ObserveFault i c) = ecu_fault_observation_command_ok c"
| "ecu_command_ok _ = True"

definition transfer_request ::
  "env \<Rightarrow> vehicle \<Rightarrow> string \<Rightarrow> uuid \<Rightarrow> ecu_signal_route_transfer_command \<Rightarrow> 'a ecu_store_scheme
    \<Rightarrow> app_error + (ecu_simulation_command \<times> bool) \<times> 'a ecu_store_scheme" where
  "transfer_request e v i j c s = and_then (require_ecu v i s) (\<lambda>gateway.
     and_then (require_signal_route gateway j s) (\<lambda>rt. transfer_run e (v, gateway, rt, c) s))"

fun run_ecu_command ::
  "env \<Rightarrow> vehicle \<Rightarrow> ecu_command \<Rightarrow> 'a ecu_store_scheme
    \<Rightarrow> app_error + (ecu_simulation_command \<times> bool) \<times> 'a ecu_store_scheme" where
  "run_ecu_command e v (AdvanceUnit i c) = execute_ecu_advance e (v, i, c)"
| "run_ecu_command e v (ResetUnit i c) = execute_ecu_reset e (v, i, c)"
| "run_ecu_command e v (CorruptUnit i c) = corrupt_ecu_memory e (v, i, c)"
| "run_ecu_command e v (ObserveFault i c) = observe_ecu_fault e (v, i, c)"
| "run_ecu_command e v (ClearFault i code c) = clear_ecu_fault e (v, i, code, c)"
| "run_ecu_command e v (PublishSignal i name c) = publish_ecu_signal e (v, i, name, c)"
| "run_ecu_command e v (TransferSignal i j c) = transfer_request e v i j c"

inductive ecu_step :: "'a ecu_store_scheme \<Rightarrow> 'a ecu_store_scheme \<Rightarrow> bool" where
  command: "run_ecu_command e v c s = Inr (x, s') \<Longrightarrow> ecu_command_ok c \<Longrightarrow> ecu_step s s'"
| create: "create_ecu e v c s = Inr (u, s') \<Longrightarrow> ecu_step s s'"
| replace: "replace_ecu_state e v i c s = Inr ((u, d), s') \<Longrightarrow> ecu_step s s'"
| snapshot: "create_memory_snapshot e v i c s = Inr (n, s') \<Longrightarrow> ecu_step s s'"
| restore: "find_ecu v i s = Some u \<Longrightarrow> require_memory_snapshot u j s = Inr n
    \<Longrightarrow> restore_memory_snapshot e v i n expected_version s = Inr (u', s') \<Longrightarrow> ecu_step s s'"
| route: "find_ecu v i s = Some u \<Longrightarrow> create_signal_route e v u c s = Inr (rt, s') \<Longrightarrow> ecu_step s s'"
| scenario: "execute_scenario e (v, c) s = Inr ((x, d), s') \<Longrightarrow> ecu_scenario_execute_command_ok c \<Longrightarrow> ecu_step s s'"

abbreviation ecu_steps :: "'a ecu_store_scheme \<Rightarrow> 'a ecu_store_scheme \<Rightarrow> bool" where
  "ecu_steps \<equiv> ecu_step\<^sup>*\<^sup>*"

section \<open>How a unit moves\<close>

text \<open>A unit is either untouched or has a higher version, and its clock and boot counter never go back.\<close>

definition unit_moves :: "electronic_control_unit \<Rightarrow> electronic_control_unit \<Rightarrow> bool" where
  "unit_moves u u' \<longleftrightarrow> ecu_id u' = ecu_id u \<and> (u' = u \<or> ecu_version u < ecu_version u'
     \<and> ecu_simulation_time_ms u \<le> ecu_simulation_time_ms u' \<and> ecu_boot_count u \<le> ecu_boot_count u')"

definition units_move :: "electronic_control_unit list \<Rightarrow> electronic_control_unit list \<Rightarrow> bool" where
  "units_move us us' \<longleftrightarrow> (\<forall>u\<in>set us. \<exists>u'\<in>set us'. unit_moves u u')"

lemma unit_moves_refl [simp]: "unit_moves u u"
  by (simp add: unit_moves_def)

lemma unit_moves_trans: "unit_moves u v \<Longrightarrow> unit_moves v w \<Longrightarrow> unit_moves u w"
  by (auto simp: unit_moves_def)

lemma units_move_refl [simp]: "units_move us us" "units_move us (us @ xs)"
  by (force simp: units_move_def)+

lemma units_move_trans: "units_move us vs \<Longrightarrow> units_move vs ws \<Longrightarrow> units_move us ws"
  unfolding units_move_def by (meson unit_moves_trans)

lemma units_move_update:
  assumes "distinct (map ecu_id us)" "u \<in> set us" "unit_moves u u'"
  shows "units_move us (update_row ecu_id u' us)"
  unfolding units_move_def
proof
  fix x assume x: "x \<in> set us"
  let ?y = "if ecu_id x = ecu_id u' then u' else x"
  have "?y \<in> set (update_row ecu_id u' us)" using x by (auto simp: update_row_def)
  moreover have "unit_moves x ?y"
    using unit_unique[OF assms(1,2) x] assms(3) by (auto simp: unit_moves_def)
  ultimately show "\<exists>u'\<in>set (update_row ecu_id u' us). unit_moves x u'" by blast
qed

lemma committed_moves:
  assumes "ecu_store_ok s" "ecu_committed i u s r u' s'" "u \<in> set (ecus s)"
    and "ecu_simulation_time_ms u \<le> ecu_simulation_time_ms u'" "ecu_boot_count u \<le> ecu_boot_count u'"
  shows "units_move (ecus s) (ecus s')"
  unfolding ecu_committed_tables(1)[OF assms(2)]
  using assms by (intro units_move_update) (auto simp: ecu_store_ok_def unit_moves_def ecu_committed_def same_unit_def)

end
