(* ===== verification/EcuReach.thy ===== *)
theory EcuReach
  imports EcuSystem
begin

text \<open>
  What every reachable store satisfies: the database constraints hold, nothing a later request looks
  up is lost, and a unit whose version is unchanged is unchanged.
\<close>

section \<open>Commands\<close>

lemma transfer_request_run:
  assumes "transfer_request e v i j c s = Inr ((r, d), s')"
  obtains gateway rt where "find_ecu v i s = Some gateway" "require_signal_route gateway j s = Inr rt"
    "transfer_run e (v, gateway, rt, c) s = Inr ((r, d), s')"
  using assms by (auto simp: transfer_request_def require_ecu_def ok_simps)

lemma command_ok:
  assumes "ecu_store_ok s" "run_ecu_command e v c s = Inr ((r, d), s')"
  shows "ecu_store_ok s' \<and> ecu_grows s s' \<and> ecu_scenarios s' = ecu_scenarios s"
proof (cases c)
  case (AdvanceUnit i c)
  then show ?thesis using assms advances.run_ok advances.scenarios_kept by (metis run_ecu_command.simps(1))
next
  case (ResetUnit i c)
  then show ?thesis using assms resets.run_ok resets.scenarios_kept by (metis run_ecu_command.simps(2))
next
  case (CorruptUnit i c)
  then show ?thesis using assms corruptions.run_ok corruptions.scenarios_kept by (metis run_ecu_command.simps(3))
next
  case (ObserveFault i c)
  then show ?thesis using assms observations.run_ok observations.scenarios_kept by (metis run_ecu_command.simps(4))
next
  case (ClearFault i code c)
  then show ?thesis using assms clearings.run_ok clearings.scenarios_kept by (metis run_ecu_command.simps(5))
next
  case (PublishSignal i name c)
  then show ?thesis using assms publications.run_ok publications.scenarios_kept by (metis run_ecu_command.simps(6))
next
  case (TransferSignal i j c)
  with assms(2) have "transfer_request e v i j c s = Inr ((r, d), s')" by simp
  then show ?thesis
    by (rule transfer_request_run) (use transfers.run_ok[OF assms(1)] transfers.scenarios_kept in blast)
qed

lemma advance_moves:
  assumes "ecu_store_ok s" "execute_ecu_advance e (v, i, c) s = Inr ((r, d), s')" "0 \<le> ad_duration_ms c"
  shows "units_move (ecus s) (ecus s')"
  using assms(2)
proof (cases rule: advances.cases_run)
  case (first u u')
  then obtain b where "ecu_committed (ad_command_id c) u s r
      (u\<lparr>ecu_behavior_state := b, ecu_simulation_time_ms := ecu_simulation_time_ms u + ad_duration_ms c,
         ecu_version := ecu_version u + 1\<rparr>) s'"
    using advance_first(6)[of v i s u c e r d s'] assms(2) by auto
  then show ?thesis
    by (rule committed_moves[OF assms(1)]) (use first assms(3) find_ecu_row in auto)
qed simp

lemma reset_moves:
  assumes "ecu_store_ok s" "execute_ecu_reset e (v, i, c) s = Inr ((r, d), s')"
  shows "units_move (ecus s) (ecus s')"
  using assms(2)
proof (cases rule: resets.cases_run)
  case (first u u')
  have "0 \<le> reset_duration_ms (rs_mode c)" by (cases "rs_mode c") simp_all
  moreover obtain st m where "ecu_committed (rs_command_id c) u s r
      (u\<lparr>ecu_operational_state := st, ecu_memory := m,
         ecu_simulation_time_ms := ecu_simulation_time_ms u + reset_duration_ms (rs_mode c),
         ecu_boot_count := ecu_boot_count u + 1, ecu_version := ecu_version u + 1\<rparr>) s'"
    using reset_first(5)[of v i s u c e r d s'] assms(2) first by auto
  ultimately show ?thesis
    by (intro committed_moves[OF assms(1)]) (use first find_ecu_row in auto)
qed simp

lemma corrupt_moves:
  assumes "ecu_store_ok s" "corrupt_ecu_memory e (v, i, c) s = Inr ((r, d), s')"
  shows "units_move (ecus s) (ecus s')"
  using assms(2)
proof (cases rule: corruptions.cases_run)
  case (first u u')
  then obtain m where "ecu_committed (mm_command_id c) u s r (u\<lparr>ecu_memory := m, ecu_version := ecu_version u + 1\<rparr>) s'"
    using corrupt_first(5)[of v i s u c e r d s'] assms(2) by auto
  then show ?thesis
    by (rule committed_moves[OF assms(1)]) (use first find_ecu_row in auto)
qed simp

lemma commit_fault_moves:
  assumes "ecu_store_ok s" "u \<in> set (ecus s)" "commit_fault e v u i kind request out s = Inr ((r, d), s')"
  shows "units_move (ecus s) (ecus s')"
  by (rule committed_moves[OF assms(1) commit_fault_Inr(5)[OF assms(3)] assms(2)]) simp_all

lemma observe_moves:
  assumes "ecu_store_ok s" "observe_ecu_fault e (v, i, c) s = Inr ((r, d), s')"
  shows "units_move (ecus s) (ecus s')"
  using assms(2)
proof (cases rule: observations.cases_run)
  case (first u u')
  then have u: "find_ecu v i s = Some u" "existing_simulation_command u (fo_command_id c) s = None" by simp_all
  show ?thesis
    by (rule observe_first[OF u assms(2)]) (use commit_fault_moves[OF assms(1)] find_ecu_row[OF u(1)] in blast)
qed simp

lemma clear_moves:
  assumes "ecu_store_ok s" "clear_ecu_fault e (v, i, code, c) s = Inr ((r, d), s')"
  shows "units_move (ecus s) (ecus s')"
  using assms(2)
proof (cases rule: clearings.cases_run)
  case (first u u')
  then have u: "find_ecu v i s = Some u" "existing_simulation_command u (cl_command_id c) s = None" by simp_all
  show ?thesis
    by (rule clear_first[OF u assms(2)]) (use commit_fault_moves[OF assms(1)] find_ecu_row[OF u(1)] in blast)
qed simp

lemma publish_moves:
  assumes "ecu_store_ok s" "publish_ecu_signal e (v, i, name, c) s = Inr ((r, d), s')"
  shows "units_move (ecus s) (ecus s')"
  using assms(2)
proof (cases rule: publications.cases_run)
  case (first u u')
  then obtain sgs where "ecu_committed (pb_command_id c) u s r (u\<lparr>ecu_signals := sgs, ecu_version := ecu_version u + 1\<rparr>) s'"
    using publish_first(5)[of v i s u c e name r d s'] assms(2) by auto
  then show ?thesis
    by (rule committed_moves[OF assms(1)]) (use first find_ecu_row in auto)
qed simp

lemma transfer_moves:
  assumes "ecu_store_ok s" "transfer_run e (v, g, rt, c) s = Inr ((r, d), s')"
  shows "units_move (ecus s) (ecus s')"
  using assms(2)
proof (cases rule: transfers.cases_run)
  case (first u u')
  obtain source where t: "ecu_by_id (sr_source_ecu_id rt) s = Some source" "ecu_by_id (sr_target_ecu_id rt) s = Some u"
    using first(1) by (auto simp: transfer_target_def split: if_splits)
  obtain q w where run: "transfer_signal_route e (v, g, rt, c) s = Inr ((r, d, q, w), s')"
    using assms(2) by (auto simp: transfer_run_def ok_simps)
  obtain sgs where "ecu_committed (tr_command_id c) u s r (u\<lparr>ecu_signals := sgs, ecu_version := ecu_version u + 1\<rparr>) s'"
    using transfer_first(7)[OF t _ run] first(2) by auto
  then show ?thesis
    by (rule committed_moves[OF assms(1)]) (use t ecu_by_id_row in auto)
qed simp

lemma command_moves:
  assumes "ecu_store_ok s" "run_ecu_command e v c s = Inr ((r, d), s')" "ecu_command_ok c"
  shows "units_move (ecus s) (ecus s')"
proof (cases c)
  case (TransferSignal i j c)
  with assms(2) have "transfer_request e v i j c s = Inr ((r, d), s')" by simp
  then show ?thesis by (rule transfer_request_run) (rule transfer_moves[OF assms(1)])
qed (use assms in \<open>auto simp: ecu_advance_command_ok_def int_between_def intro: advance_moves reset_moves corrupt_moves
       observe_moves clear_moves publish_moves\<close>)

section \<open>The other requests\<close>

text \<open>What a request leaves behind: the constraints hold, and the store only moved on.\<close>

definition moved_on :: "'a ecu_store_scheme \<Rightarrow> 'a ecu_store_scheme \<Rightarrow> bool" where
  "moved_on s s' \<longleftrightarrow> ecu_store_ok s' \<and> ecu_grows s s' \<and> units_move (ecus s) (ecus s')"

lemma moved_on_refl: "ecu_store_ok s \<Longrightarrow> moved_on s s"
  by (simp add: moved_on_def)

lemma moved_on_trans: "moved_on s t \<Longrightarrow> moved_on t u \<Longrightarrow> moved_on s u"
  unfolding moved_on_def by (blast intro: ecu_grows_trans units_move_trans)

lemma create_moved:
  assumes "ecu_store_ok s" "create_ecu e v c s = Inr (u, s')"
  shows "moved_on s s'"
proof -
  have "ecu_id u \<notin> ecu_id ` set (ecus s) \<and> ecu_key u \<notin> ecu_key ` set (ecus s)
      \<and> audited (s\<lparr>ecus := ecus s @ [u]\<rparr>) s'"
    using assms(2) by (auto simp: create_ecu_def Let_def ok_simps table_simps split: if_splits option.splits)
  then show ?thesis
    using assms(1) audited_fields[of "s\<lparr>ecus := ecus s @ [u]\<rparr>" s']
    by (simp add: moved_on_def ecu_store_ok_def ecu_grows_def)
qed

lemma saved_moved:
  assumes "ecu_store_ok s" "u \<in> set (ecus s)" "same_unit u u'" "ecu_version u' = ecu_version u + 1"
    and "ecu_simulation_time_ms u' = ecu_simulation_time_ms u" "ecu_boot_count u' = ecu_boot_count u"
    and "audited (save_ecu u' s) s'"
  shows "moved_on s s'"
proof -
  have d: "distinct (map ecu_id (ecus s))" using assms(1) by (simp add: ecu_store_ok_def)
  note rest = audited_fields(2-5)[OF assms(7)]
  have e: "ecus s' = update_row ecu_id u' (ecus s)" using audited_fields(1)[OF assms(7)] by (simp add: save_ecu_def)
  have k: "map ecu_key (ecus s') = map ecu_key (ecus s)" unfolding e by (rule ecu_key_update[OF d assms(2,3)])
  have m: "unit_moves u u'" using assms(3-6) by (simp add: unit_moves_def same_unit_def)
  have "ecu_store_ok s'"
    using assms(1) unfolding ecu_store_ok_def k rest unfolding e by (simp add: update_row_keys save_ecu_def)
  then show ?thesis
    using units_grow_update[OF assms(2,3) d] units_move_update[OF d assms(2) m]
    unfolding moved_on_def ecu_grows_def rest e by (simp add: save_ecu_def)
qed

lemma replace_facts:
  assumes "replace_ecu_state e v i c s = Inr ((u, d), s')"
  obtains (unchanged) "s' = s" "d"
  | (changed) locked requested current where "find_ecu v i s = Some locked" "\<not> d"
      "requested_state locked c = Inr (requested, current)" "rp_expected_version c = ecu_version locked"
      "\<not> state_eq requested current"
      "u = (with_state locked requested)\<lparr>ecu_version := ecu_version locked + 1\<rparr>" "audited (save_ecu u s) s'"
proof -
  obtain locked requested current where l: "find_ecu v i s = Some locked"
    and r: "requested_state locked c = Inr (requested, current)"
    using assms by (auto simp: replace_ecu_state_def require_ecu_def ok_simps)
  show thesis
  proof (cases "d")
    case True
    then show thesis
      using assms l r unchanged by (simp add: replace_ecu_state_def require_ecu_def Let_def split: if_splits)
  next
    case False
    then have "rp_expected_version c = ecu_version locked \<and> \<not> state_eq requested current
        \<and> u = (with_state locked requested)\<lparr>ecu_version := ecu_version locked + 1\<rparr> \<and> audited (save_ecu u s) s'"
      using assms l r by (auto simp: replace_ecu_state_def require_ecu_def Let_def split: if_splits)
    then show thesis using changed[OF l False r] by blast
  qed
qed

lemma replace_moved:
  assumes "ecu_store_ok s" "replace_ecu_state e v i c s = Inr ((u, d), s')"
  shows "moved_on s s'"
  using assms(2)
proof (cases rule: replace_facts)
  case unchanged
  then show ?thesis using moved_on_refl assms(1) by simp
next
  case (changed locked requested current)
  then show ?thesis
    using find_ecu_row[OF changed(1)] by (intro saved_moved[OF assms(1) _ _ _ _ _ changed(7), of locked])
      (auto simp: same_unit_def with_state_def)
qed

lemma snapshot_moved:
  assumes "ecu_store_ok s" "create_memory_snapshot e v i c s = Inr (n, s')"
  shows "moved_on s s'"
  using assms by (auto simp: create_memory_snapshot_def Let_def ok_simps table_simps moved_on_def ecu_store_ok_def ecu_grows_def)

lemma restore_facts:
  assumes "find_ecu v i s = Some u" "restore_memory_snapshot e v i n k s = Inr (u', s')"
  shows "k = ecu_version u" "u' = u\<lparr>ecu_memory := sn_memory n, ecu_version := ecu_version u + 1\<rparr>"
    and "\<exists>state q. stored_state_payload u = Inr state \<and> state_validate (state\<lparr>sp_memory := sn_memory n\<rparr>) = Inr q"
    and "audited (save_ecu u' s) s'"
  using assms by (auto simp: restore_memory_snapshot_def require_ecu_def ok_simps Let_def split: if_splits)

lemma restore_moved:
  assumes "ecu_store_ok s" "find_ecu v i s = Some u" "restore_memory_snapshot e v i n k s = Inr (u', s')"
  shows "moved_on s s'"
  using find_ecu_row[OF assms(2)] restore_facts(2)[OF assms(2,3)]
  by (intro saved_moved[OF assms(1) _ _ _ _ _ restore_facts(4)[OF assms(2,3)], of u]) (auto simp: same_unit_def)

lemma route_moved:
  assumes "ecu_store_ok s" "create_signal_route e v g c s = Inr (rt, s')"
  shows "moved_on s s'"
proof -
  have "route_key rt \<notin> route_key ` set (ecu_routes s) \<and> audited (s\<lparr>ecu_routes := ecu_routes s @ [rt]\<rparr>) s'"
    using assms(2) by (auto simp: create_signal_route_def Let_def ok_simps table_simps split: if_splits option.splits)
  then show ?thesis
    using assms(1) audited_fields[of "s\<lparr>ecu_routes := ecu_routes s @ [rt]\<rparr>" s']
    by (simp add: moved_on_def ecu_store_ok_def ecu_grows_def)
qed

lemma run_action_moves:
  assumes "ecu_store_ok s" "run_action e v a i seed target u s = Inr (x, s')" "ecu_scenario_action_ok a"
  shows "moved_on s s'"
proof -
  have ok: "ecu_store_ok s'" "ecu_grows s s'" using run_action_ok[OF assms(1,2)] by simp_all
  have "units_move (ecus s) (ecus s')"
  proof (cases "sa_kind a")
    case ADVANCE_TIME
    then obtain d c r b where "sa_duration_ms a = Some d" "ad_duration_ms c = d"
        "execute_ecu_advance e (v, ecu_identifier u, c) s = Inr ((r, b), s')"
      using assms(2) by (clarsimp simp: run_action_def required_def ok_simps) (metis ecu_advance_command.select_convs(3))
    then show ?thesis
      using assms(3) advance_moves[OF assms(1)] by (auto simp: ecu_scenario_action_ok_def opt_all_def int_between_def)
  next
    case OBSERVE_FAULT
    then show ?thesis using assms(2) observe_moves[OF assms(1)] by (fastforce simp: run_action_def ok_simps)
  next
    case CORRUPT_MEMORY
    then show ?thesis using assms(2) corrupt_moves[OF assms(1)] by (fastforce simp: run_action_def ok_simps)
  next
    case PUBLISH_SIGNAL
    then show ?thesis using assms(2) publish_moves[OF assms(1)] by (fastforce simp: run_action_def ok_simps)
  next
    case TRANSFER_SIGNAL
    then obtain v g rt c r d w q where "transfer_signal_route e (v, g, rt, c) s = Inr ((r, d, w, q), s')"
      using assms(2) unfolding run_action_def by (simp add: ok_simps split: option.splits) blast
    then have "transfer_run e (v, g, rt, c) s = Inr ((r, d), s')" by (simp add: transfer_run_def)
    then show ?thesis by (rule transfer_moves[OF assms(1)])
  qed
  then show ?thesis using ok by (simp add: moved_on_def)
qed

lemma scenario_loop_moves:
  "ecu_store_ok s \<Longrightarrow> scenario_loop e v i seed plan results s = Inr (results', s')
    \<Longrightarrow> \<forall>(k, j, a)\<in>set plan. ecu_scenario_action_ok a \<Longrightarrow> moved_on s s'"
proof (induction e v i seed plan results s rule: scenario_loop.induct)
  case (2 e v i seed step rest results s)
  then obtain x t where x: "execute_action e v i seed step s = Inr (x, t)"
    and rest: "scenario_loop e v i seed rest (results @ [x]) t = Inr (results', s')"
    by (auto simp: ok_simps)
  obtain k j a where step: "step = (k, j, a)" by (metis prod_cases3)
  have "moved_on s t"
    using x run_action_moves[OF 2(2)] 2(4) unfolding step by (fastforce simp: execute_action_def ok_simps split: prod.splits)
  then show ?case using 2(1)[OF _ rest] 2(4) moved_on_trans[of s t s'] by (auto simp: moved_on_def)
qed (simp add: moved_on_refl)

lemma plan_actions: "(k, j, a) \<in> set (scenario_plan c) \<Longrightarrow> a \<in> set (xc_actions c)"
  by (auto simp: scenario_plan_def in_set_enumerate_eq)

lemma scenario_moved:
  assumes "ecu_store_ok s" "execute_scenario e (v, c) s = Inr ((x, d), s')" "ecu_scenario_execute_command_ok c"
  shows "moved_on s s'"
proof (cases "find_scenario v (xc_execution_id c) s")
  case None
  obtain results t where loop: "scenario_loop e v (xc_execution_id c) (xc_base_seed c) (scenario_plan c) [] s = Inr (results, t)"
    and s': "audited (t\<lparr>ecu_scenarios := ecu_scenarios t @ [x]\<rparr>) s'"
    using assms(2) None by (auto simp: execute_scenario_def ok_simps table_simps Let_def split: prod.splits)
  have "\<forall>(k, j, a)\<in>set (scenario_plan c). ecu_scenario_action_ok a"
    using assms(3) plan_actions by (fastforce simp: ecu_scenario_execute_command_ok_def list_all_iff)
  then have "moved_on s t" by (rule scenario_loop_moves[OF assms(1) loop])
  then show ?thesis
    using execute_scenario_first(2,3)[OF assms(1) None assms(2)] audited_fields(1)[OF s'] by (simp add: moved_on_def)
next
  case (Some y)
  then show ?thesis using assms(1,2) moved_on_refl by (auto simp: execute_scenario_def split: if_splits)
qed

section \<open>Reachable stores\<close>

lemma ecu_step_moved: "ecu_step s s' \<Longrightarrow> ecu_store_ok s \<Longrightarrow> moved_on s s'"
proof (induction rule: ecu_step.induct)
  case (command e v c s x s')
  obtain r d where x: "x = (r, d)" by fastforce
  show ?case
    using command_ok[OF command(3) command(1)[unfolded x]] command_moves[OF command(3) command(1)[unfolded x] command(2)]
    by (simp add: moved_on_def)
qed (auto intro: create_moved replace_moved snapshot_moved restore_moved route_moved scenario_moved)

lemma ecu_steps_moved: "ecu_steps s s' \<Longrightarrow> ecu_store_ok s \<Longrightarrow> moved_on s s'"
proof (induction rule: rtranclp_induct)
  case (step t u)
  then show ?case using ecu_step_moved[OF step(2)] moved_on_trans[of s t u] by (simp add: moved_on_def)
qed (simp add: moved_on_refl)

definition empty_ecu_store :: "ecu_store" where
  "empty_ecu_store = \<lparr>outbox = [], audit_log = [], ecus = [], ecu_commands = [], ecu_snapshots = [], ecu_routes = [],
     ecu_scenarios = []\<rparr>"

lemma empty_ecu_store_ok: "ecu_store_ok empty_ecu_store"
  by (simp add: ecu_store_ok_def empty_ecu_store_def)

end
