(* ===== verification/EcuTime.thy ===== *)
theory EcuTime
  imports EcuReach
begin

text \<open>
  The arithmetic of cyclic tasks. A task with period \<open>p\<close> and offset \<open>q\<close> is due at the positive
  instants congruent to \<open>q\<close> modulo \<open>p\<close>; the run summaries of the service are counts, minima and
  maxima of these instants, so they add up when an interval is split.
\<close>

section \<open>Due instants\<close>

lemma less_mult_iff_div_less:
  fixes x k p :: int
  assumes "0 < p" shows "x < k * p \<longleftrightarrow> x div p < k"
proof
  assume "x < k * p"
  moreover have "x div p * p \<le> x" using assms by (simp add: div_mult_mod_eq minus_mod_eq_div_mult [symmetric])
  ultimately have "x div p * p < k * p" by linarith
  then show "x div p < k" using assms by (simp add: mult_less_cancel_right)
next
  assume "x div p < k"
  then have "(x div p + 1) * p \<le> k * p" using assms by (intro mult_right_mono) auto
  moreover have "x < (x div p + 1) * p"
    using div_mult_mod_eq[of x p] pos_mod_bound[OF assms, of x] by (simp only: distrib_right)
  ultimately show "x < k * p" by linarith
qed

definition due_instants :: "int \<Rightarrow> int \<Rightarrow> int \<Rightarrow> int \<Rightarrow> int set" where
  "due_instants p q a b = {t. a < t \<and> t \<le> b \<and> t mod p = q}"

lemma executions_div:
  assumes "0 < p" "0 \<le> q" "q < p" "0 \<le> t"
  shows "executions_at_or_before p q t = (t - q) div p + (if q > 0 then 1 else 0)"
proof (cases "q > 0")
  case True
  show ?thesis
  proof (cases "t < q")
    case less: True
    have "t - q = p * (- 1) + (t - q + p)" by simp
    then have "(t - q) div p = -1" by (rule int_div_pos_eq) (use assms less in auto)
    then show ?thesis using True less by (simp add: executions_at_or_before_def first_schedule_def)
  qed (use True in \<open>simp add: executions_at_or_before_def first_schedule_def\<close>)
next
  case False
  then have q: "q = 0" using assms by simp
  show ?thesis
  proof (cases "t < p")
    case True
    then show ?thesis using assms q by (simp add: executions_at_or_before_def first_schedule_def)
  next
    case False
    have "((t - p) + p) div p = (t - p) div p + 1" using assms by (intro div_add_self2) simp
    then have "(t - p) div p = t div p - 1" by simp
    then show ?thesis using False q by (simp add: executions_at_or_before_def first_schedule_def)
  qed
qed

lemma due_image:
  assumes "0 < p" "0 \<le> q" "q < p"
  shows "due_instants p q a b = (\<lambda>k. q + k * p) ` {(a - q) div p + 1 .. (b - q) div p}"
proof -
  have up: "a < q + k * p \<longleftrightarrow> (a - q) div p + 1 \<le> k" for k a
  proof -
    have "a < q + k * p \<longleftrightarrow> a - q < k * p" by linarith
    also have "\<dots> \<longleftrightarrow> (a - q) div p < k" using less_mult_iff_div_less[OF assms(1)] .
    finally show ?thesis by linarith
  qed
  have le: "q + k * p \<le> b \<longleftrightarrow> k \<le> (b - q) div p" for k
    using up[of b k] by linarith
  have "t mod p = q \<longleftrightarrow> (\<exists>k. t = q + k * p)" for t
  proof
    assume "t mod p = q"
    then have "t = q + (t div p) * p" using mod_div_mult_eq[of t p] by simp
    then show "\<exists>k. t = q + k * p" by blast
  qed (use assms in \<open>auto simp: mod_pos_pos_trivial\<close>)
  then show ?thesis unfolding due_instants_def using up le by (auto simp: image_iff)
qed

lemma due_card:
  assumes "0 < p" "0 \<le> q" "q < p" "a \<le> b"
  shows "int (card (due_instants p q a b)) = (b - q) div p - (a - q) div p"
proof -
  have "inj_on (\<lambda>k. q + k * p) A" for A using assms(1) by (auto intro: inj_onI)
  then have "card (due_instants p q a b) = card {(a - q) div p + 1 .. (b - q) div p}"
    unfolding due_image[OF assms(1-3)] by (rule card_image)
  moreover have "(a - q) div p \<le> (b - q) div p" using assms by (intro zdiv_mono1) auto
  ultimately show ?thesis by simp
qed

lemma image_Min_Max:
  fixes lo hi p q :: int
  assumes "0 < p" "lo \<le> hi"
  shows "Min ((\<lambda>k. q + k * p) ` {lo..hi}) = q + lo * p" "Max ((\<lambda>k. q + k * p) ` {lo..hi}) = q + hi * p"
proof -
  have m: "x * p \<le> y * p" if "x \<le> y" for x y using that assms(1) by (simp add: mult_right_mono)
  show "Min ((\<lambda>k. q + k * p) ` {lo..hi}) = q + lo * p"
    using assms(2) m by (intro Min_eqI) auto
  show "Max ((\<lambda>k. q + k * p) ` {lo..hi}) = q + hi * p"
    using assms(2) m by (intro Max_eqI) auto
qed

lemma task_run_exact:
  fixes i :: string
  assumes "0 < p" "0 \<le> q" "q < p" "0 \<le> a" "a \<le> b"
    and due_def: "due = due_instants p q a b" and r_def: "r = task_run_summary i p q a b"
  shows "run_task_id r = i" "run_execution_count r = int (card due)"
    and "run_first_due_ms r = (if due = {} then None else Some (Min due))"
    and "run_last_due_ms r = (if due = {} then None else Some (Max due))"
proof -
  let ?lo = "(a - q) div p" and ?hi = "(b - q) div p"
  have le: "?lo \<le> ?hi" using assms by (intro zdiv_mono1) auto
  have card: "int (card due) = ?hi - ?lo" unfolding due_def by (rule due_card) (use assms in auto)
  have im: "due = (\<lambda>k. q + k * p) ` {?lo + 1 .. ?hi}" unfolding due_def by (rule due_image) (use assms in auto)
  have empty: "due = {} \<longleftrightarrow> ?hi = ?lo" unfolding im using le by auto
  note ex = executions_div[OF assms(1-3)]
  have first: "first_schedule p q + (?lo + (if q > 0 then 1 else 0)) * p = q + (?lo + 1) * p"
    "first_schedule p q + (?hi + (if q > 0 then 1 else 0) - 1) * p = q + ?hi * p"
    using assms by (auto simp: first_schedule_def algebra_simps)
  show "run_task_id r = i" by (simp add: r_def task_run_summary_def Let_def)
  show "run_execution_count r = int (card due)"
    unfolding card r_def task_run_summary_def using ex assms by (simp add: Let_def)
  show "run_first_due_ms r = (if due = {} then None else Some (Min due))"
  proof (cases "?hi = ?lo")
    case False
    then have "Min due = q + (?lo + 1) * p" unfolding im using le assms(1) by (intro image_Min_Max) auto
    then show ?thesis using False empty first ex assms unfolding r_def task_run_summary_def by (simp add: Let_def)
  qed (use empty ex assms in \<open>simp add: r_def task_run_summary_def Let_def\<close>)
  show "run_last_due_ms r = (if due = {} then None else Some (Max due))"
  proof (cases "?hi = ?lo")
    case False
    then have "Max due = q + ?hi * p" unfolding im using le assms(1) by (intro image_Min_Max) auto
    then show ?thesis using False empty first ex assms unfolding r_def task_run_summary_def by (simp add: Let_def)
  qed (use empty ex assms in \<open>simp add: r_def task_run_summary_def Let_def\<close>)
qed

lemma run_count_split:
  assumes "0 < p" "0 \<le> q" "q < p" "0 \<le> a" "a \<le> b" "b \<le> c"
  shows "run_execution_count (task_run_summary i p q a c)
    = run_execution_count (task_run_summary i p q a b) + run_execution_count (task_run_summary i p q b c)"
  using task_run_exact(2)[OF assms(1-3) _ _ refl refl] due_card[OF assms(1-3)] assms by simp

section \<open>Profile transitions\<close>

text \<open>
  The counter a run increments, and by how much a list of runs increments each counter.
\<close>

definition effect_key :: "ecu_behavior_profile \<Rightarrow> string \<Rightarrow> string option" where
  "effect_key p i = map_option (removeprefix ''increments '') (map_of (pf_state_effects p) i)"

definition increment :: "ecu_behavior_profile \<Rightarrow> ecu_task_run_summary list \<Rightarrow> string \<Rightarrow> int" where
  "increment p runs k = sum_list (map run_execution_count (filter (\<lambda>r. effect_key p (run_task_id r) = Some k) runs))"

definition counter :: "behavior_value option \<Rightarrow> int" where
  "counter x = (case x of Some (BInt n) \<Rightarrow> n | _ \<Rightarrow> 0)"

definition is_counter :: "behavior_value option \<Rightarrow> bool" where
  "is_counter x \<longleftrightarrow> (case x of None \<Rightarrow> True | Some (BInt n) \<Rightarrow> True | _ \<Rightarrow> False)"

definition counted :: "(string \<rightharpoonup> behavior_value) \<Rightarrow> (string \<Rightarrow> int) \<Rightarrow> string \<rightharpoonup> behavior_value" where
  "counted d inc k = (if inc k = 0 then d k else Some (BInt (counter (d k) + inc k)))"

lemma increment_simps:
  "increment p [] k = 0"
  "increment p (r # rs) k = (if effect_key p (run_task_id r) = Some k then run_execution_count r else 0) + increment p rs k"
  by (simp_all add: increment_def)

lemma increment_nonneg: "\<forall>r\<in>set rs. 0 \<le> run_execution_count r \<Longrightarrow> 0 \<le> increment p rs k"
  unfolding increment_def by (intro sum_list_nonneg) auto

lemma transition_cons:
  "execute_profile_transitions p d (r # rs) =
     (case effect_key p (run_task_id r) of
        None \<Rightarrow> execute_profile_transitions p d rs
      | Some k \<Rightarrow> if run_execution_count r = 0 then execute_profile_transitions p d rs
          else if is_counter (map_of d k)
            then execute_profile_transitions p (AList.update k (BInt (counter (map_of d k) + run_execution_count r)) d) rs
          else Inl (ValueError (''profile counter '' @ k @ '' must be an integer'')))"
  by (auto simp: effect_key_def is_counter_def counter_def Let_def split: option.splits behavior_value.splits)

text \<open>The transitions succeed iff every counter that is incremented is an integer, and then add the counts.\<close>

lemma transitions_spec:
  "\<forall>r\<in>set rs. 0 \<le> run_execution_count r \<Longrightarrow>
    (if \<forall>k. 0 < increment p rs k \<longrightarrow> is_counter (map_of d k)
     then \<exists>d'. execute_profile_transitions p d rs = Inr d' \<and> map_of d' = counted (map_of d) (increment p rs)
     else \<exists>x. execute_profile_transitions p d rs = Inl x)"
proof (induction rs arbitrary: d)
  case Nil
  then show ?case by (simp add: increment_simps counted_def fun_eq_iff)
next
  case (Cons r rs)
  have nonneg: "0 \<le> increment p rs k" for k using increment_nonneg[of rs p k] Cons.prems by simp
  show ?case
  proof (cases "effect_key p (run_task_id r) = None \<or> run_execution_count r = 0")
    case True
    then have "execute_profile_transitions p d (r # rs) = execute_profile_transitions p d rs"
      unfolding transition_cons by (auto split: option.splits)
    moreover have "increment p (r # rs) = increment p rs" using True by (auto simp: increment_simps fun_eq_iff)
    ultimately show ?thesis using Cons by simp
  next
    case False
    then obtain k where k: "effect_key p (run_task_id r) = Some k" and pos: "0 < run_execution_count r"
      using Cons.prems by fastforce
    have inc: "increment p (r # rs) = (\<lambda>j. (if j = k then run_execution_count r else 0) + increment p rs j)"
      using k by (auto simp: increment_simps fun_eq_iff)
    let ?d = "AList.update k (BInt (counter (map_of d k) + run_execution_count r)) d"
    have md: "map_of ?d = (map_of d)(k \<mapsto> BInt (counter (map_of d k) + run_execution_count r))"
      by (simp add: update_conv')
    show ?thesis
    proof (cases "is_counter (map_of d k)")
      case ok: True
      have run: "execute_profile_transitions p d (r # rs) = execute_profile_transitions p ?d rs"
        unfolding transition_cons using k pos ok by simp
      have all: "(\<forall>j. 0 < increment p (r # rs) j \<longrightarrow> is_counter (map_of d j))
          \<longleftrightarrow> (\<forall>j. 0 < increment p rs j \<longrightarrow> is_counter (map_of ?d j))"
        unfolding inc md using ok by (auto simp: is_counter_def)
      have c: "counted (map_of d) (increment p (r # rs)) = counted (map_of ?d) (increment p rs)"
        unfolding md inc using pos nonneg[of k] by (auto simp: counted_def counter_def fun_eq_iff)
      show ?thesis unfolding run all c using Cons.IH[of ?d] Cons.prems by simp
    next
      case False
      then have no: "\<not> (\<forall>j. 0 < increment p (r # rs) j \<longrightarrow> is_counter (map_of d j))"
        unfolding inc using pos nonneg[of k] by (intro notI) (metis add_pos_nonneg)
      have "\<exists>x. execute_profile_transitions p d (r # rs) = Inl x"
        unfolding transition_cons using k pos False by simp
      then show ?thesis unfolding if_not_P[OF no] .
    qed
  qed
qed

text \<open>Transitions over two lists of runs, against one list with their sums.\<close>

lemma transitions_add:
  assumes "\<forall>r\<in>set rs. 0 \<le> run_execution_count r" "\<forall>r\<in>set rs'. 0 \<le> run_execution_count r"
    and "\<forall>r\<in>set rt. 0 \<le> run_execution_count r" "increment p rt = (\<lambda>k. increment p rs k + increment p rs' k)"
    and "execute_profile_transitions p d rs = Inr d1" "execute_profile_transitions p d1 rs' = Inr d2"
  shows "\<exists>d3. execute_profile_transitions p d rt = Inr d3 \<and> map_of d3 = map_of d2"
proof -
  have n: "0 \<le> increment p rs k" "0 \<le> increment p rs' k" for k
    using increment_nonneg assms(1,2) by blast+
  have 1: "\<forall>k. 0 < increment p rs k \<longrightarrow> is_counter (map_of d k)" "map_of d1 = counted (map_of d) (increment p rs)"
    using transitions_spec[OF assms(1), of p d] assms(5) by (auto split: if_splits)
  have 2: "\<forall>k. 0 < increment p rs' k \<longrightarrow> is_counter (map_of d1 k)" "map_of d2 = counted (map_of d1) (increment p rs')"
    using transitions_spec[OF assms(2), of p d1] assms(6) by (auto split: if_splits)
  have "is_counter (map_of d k)" if "0 < increment p rt k" for k
  proof (cases "increment p rs k = 0")
    case True
    then have "0 < increment p rs' k" using that assms(4) by simp
    then have "is_counter (map_of d1 k)" using 2(1) by blast
    then show ?thesis using True 1(2) by (simp add: counted_def)
  qed (use 1(1) n(1)[of k] in simp)
  moreover have "counted (map_of d) (increment p rt) = map_of d2"
    unfolding 2(2) 1(2) assms(4) using n by (auto simp: counted_def counter_def fun_eq_iff add_nonneg_eq_0_iff)
  ultimately show ?thesis using transitions_spec[OF assms(3), of p d] by auto
qed

section \<open>Splitting an interval\<close>

definition tasks_ok :: "ecu_task list \<Rightarrow> bool" where
  "tasks_ok ts \<longleftrightarrow> (\<forall>t\<in>set ts. 0 < tk_period_ms t \<and> 0 \<le> tk_offset_ms t \<and> tk_offset_ms t < tk_period_ms t)"

lemma runs_nonneg:
  assumes "tasks_ok ts" "0 \<le> a" "a \<le> b"
  shows "\<forall>r\<in>set (task_runs ts a b). 0 \<le> run_execution_count r"
  using assms task_run_exact(2)[OF _ _ _ assms(2,3) refl refl] by (auto simp: task_runs_def tasks_ok_def)

lemma runs_split:
  assumes "tasks_ok ts" "0 \<le> a" "a \<le> b" "b \<le> c"
  shows "increment p (task_runs ts a c) = (\<lambda>k. increment p (task_runs ts a b) k + increment p (task_runs ts b c) k)"
proof
  fix k
  have id: "run_task_id (task_run_summary i q o' x y) = i" for i q o' x y
    by (simp add: task_run_summary_def Let_def)
  have "increment p (map (\<lambda>t. task_run_summary (tk_task_id t) (tk_period_ms t) (tk_offset_ms t) a c) us) k
      = increment p (map (\<lambda>t. task_run_summary (tk_task_id t) (tk_period_ms t) (tk_offset_ms t) a b) us) k
        + increment p (map (\<lambda>t. task_run_summary (tk_task_id t) (tk_period_ms t) (tk_offset_ms t) b c) us) k"
    if "tasks_ok us" for us
    using that by (induction us) (auto simp: increment_simps id tasks_ok_def run_count_split[OF _ _ _ assms(2-4)])
  moreover have "tasks_ok (sort_key tk_task_id ts)" using assms(1) by (simp add: tasks_ok_def)
  ultimately show "increment p (task_runs ts a c) k = increment p (task_runs ts a b) k + increment p (task_runs ts b c) k"
    unfolding task_runs_def by blast
qed

end
