(* ===== verification/EcuMemoryFacts.thy ===== *)
theory EcuMemoryFacts
  imports EcuTime
begin

unbundle bit_operations_syntax

text \<open>
  What resets, snapshots and corruptions do to the memory of a unit.
\<close>

section \<open>Commands that succeed\<close>

lemma no_command_key:
  "existing_simulation_command u i s = None \<Longrightarrow> command_key r = (ecu_id u, i)
    \<Longrightarrow> insert_row command_key r (ecu_commands s) = Some (ecu_commands s @ [r])"
  by (rule insert_row_after_miss[of "\<lambda>x. ec_ecu_id x = ecu_id u \<and> ec_command_id x = i"])
    (auto simp: existing_simulation_command_def command_key_def)

lemma record_command_ok:
  assumes "existing_simulation_command u i s = None" "command_key r = (ecu_id u, i)"
  shows "\<exists>s'. record_command e t rt j p a d u' r s = Inr ((r, False), s')"
  using no_command_key[OF assms] by (simp add: record_command_def)

lemma recorded_some:
  "existing_simulation_command u i s = None \<Longrightarrow> command_key r = (ecu_id u, i)
    \<Longrightarrow> \<exists>q s'. record_command e t rt j p a d u' r s = Inr ((q, False), s')"
  using record_command_ok by blast

lemma committed_unit:
  assumes "ecu_store_ok s" "find_ecu v i s = Some u" "ecu_committed k u s r u' s'"
  shows "find_ecu v i s' = Some u'"
  using assms(3) by (intro find_ecu_update[OF assms(1,2) _ ecu_committed_tables(1)[OF assms(3)]]) (simp add: ecu_committed_def)

lemma committed_fresh:
  "ecu_committed k u s r u' s' \<Longrightarrow> existing_simulation_command u i s = None \<Longrightarrow> i \<noteq> k
    \<Longrightarrow> existing_simulation_command u' i s' = None"
  by (simp add: existing_simulation_command_def ecu_committed_tables(2) select_append select_one)
    (auto simp: ecu_committed_def same_unit_def command_key_def select_def)

section \<open>Regions\<close>

lemma in_default_region: "0 \<le> a \<Longrightarrow> a \<le> 65535 \<Longrightarrow> in_region default_region a"
  by (simp add: in_region_def default_region_def)

lemma valid_regions:
  assumes "unit_valid u"
  shows "regions_or_default (ecu_memory_regions u) = Inr (if ecu_memory_regions u = [] then [default_region] else ecu_memory_regions u)"
  using assms map_ok_fixed[of region_validate "ecu_memory_regions u"]
  by (simp add: regions_or_default_def unit_valid_def state_valid_def state_of_def)

lemma valid_consistent:
  assumes "state_valid p"
  shows "distinct (map cell_address (sp_memory p))"
    and "sp_memory_regions p \<noteq> [] \<Longrightarrow> c \<in> set (sp_memory p)
      \<Longrightarrow> length (matching_regions (sp_memory_regions p) (cell_address c)) = 1"
    and "distinct (map ft_code (sp_faults p))"
    and "list_ex confirmed_critical (sp_faults p) \<Longrightarrow> sp_operational_state p = FAULT"
  using assms
  by (auto simp: state_valid_def require_consistent_state_def list_ex_iff split: if_splits)

lemma valid_cell: "unit_valid u \<Longrightarrow> c \<in> set (ecu_memory u) \<Longrightarrow> int_between 0 65535 (cell_address c) \<and> int_between 0 255 (cell_value c)"
  by (auto simp: unit_valid_def state_valid_def state_of_def cell_validate_def split: if_splits)

lemma valid_cell_region:
  assumes "unit_valid u" "c \<in> set (ecu_memory u)"
  shows "\<exists>r. find (\<lambda>r. in_region r (cell_address c))
    (if ecu_memory_regions u = [] then [default_region] else ecu_memory_regions u) = Some r"
proof (cases "ecu_memory_regions u = []")
  case True
  then show ?thesis using valid_cell[OF assms] in_default_region by (simp add: int_between_def)
next
  case False
  have "length (matching_regions (ecu_memory_regions u) (cell_address c)) = 1"
    using valid_consistent(2)[of "state_of u" c] assms False by (simp add: unit_valid_def state_of_def)
  then obtain r where "r \<in> set (ecu_memory_regions u)" "in_region r (cell_address c)"
    unfolding matching_regions_def by (metis One_nat_def filter_False length_0_conv nat.distinct(1))
  then have "find (\<lambda>r. in_region r (cell_address c)) (ecu_memory_regions u) \<noteq> None"
    by (auto simp: find_None_iff)
  then show ?thesis using False by simp
qed

section \<open>Reset\<close>

text \<open>The value of a cell after a reset: only volatile cells take their reset value, and not on a soft reset.\<close>

definition cell_after_reset :: "EcuResetMode \<Rightarrow> ecu_region list \<Rightarrow> ecu_cell \<Rightarrow> ecu_cell" where
  "cell_after_reset mode regions c =
     (case find (\<lambda>r. in_region r (cell_address c)) (if regions = [] then [default_region] else regions) of
        Some r \<Rightarrow> if mr_kind r = VOLATILE \<and> mode \<noteq> SOFT then c\<lparr>cell_value := mr_reset_value r\<rparr> else c
      | None \<Rightarrow> c)"

lemma reset_memory_Cons:
  "reset_cell mode rs c = Inr (c', x, y) \<Longrightarrow> reset_memory mode rs cs = Inr (m, a, b)
    \<Longrightarrow> reset_memory mode rs (c # cs) = Inr (c' # m, x + a, y + b)"
  by (auto simp: reset_memory_def ok_simps)

lemma reset_memory_spec:
  assumes "unit_valid u"
  shows "\<exists>cleared preserved. reset_memory mode (if ecu_memory_regions u = [] then [default_region] else ecu_memory_regions u)
      (ecu_memory u) = Inr (map (cell_after_reset mode (ecu_memory_regions u)) (ecu_memory u), cleared, preserved)
      \<and> 0 \<le> cleared \<and> (cleared = 0 \<longleftrightarrow> map (cell_after_reset mode (ecu_memory_regions u)) (ecu_memory u) = ecu_memory u)"
proof -
  let ?rs = "if ecu_memory_regions u = [] then [default_region] else ecu_memory_regions u"
  let ?after = "cell_after_reset mode (ecu_memory_regions u)"
  have cell: "\<exists>x y. reset_cell mode ?rs c = Inr (?after c, x, y) \<and> 0 \<le> x \<and> (x = 0 \<longleftrightarrow> ?after c = c)"
    if c: "c \<in> set (ecu_memory u)" for c
  proof -
    obtain r where r: "find (\<lambda>r. in_region r (cell_address c)) ?rs = Some r" using valid_cell_region[OF assms c] by blast
    have same: "c\<lparr>cell_value := x\<rparr> = c \<longleftrightarrow> x = cell_value c" for x by (cases c) simp
    show ?thesis
      unfolding reset_cell_def cell_after_reset_def r by (cases "mr_kind r") (auto simp: same)
  qed
  have "\<exists>cleared preserved. reset_memory mode ?rs cs = Inr (map ?after cs, cleared, preserved)
      \<and> 0 \<le> cleared \<and> (cleared = 0 \<longleftrightarrow> map ?after cs = cs)" if "set cs \<subseteq> set (ecu_memory u)" for cs
    using that
  proof (induction cs)
    case (Cons c cs)
    obtain x y where xy: "reset_cell mode ?rs c = Inr (?after c, x, y)" "0 \<le> x" "x = 0 \<longleftrightarrow> ?after c = c"
      using cell Cons.prems by fastforce
    obtain a b where ab: "reset_memory mode ?rs cs = Inr (map ?after cs, a, b)" "0 \<le> a" "a = 0 \<longleftrightarrow> map ?after cs = cs"
      using Cons by auto
    show ?case
      using reset_memory_Cons[OF xy(1) ab(1)] xy(2,3) ab(2,3) by (auto simp: add_nonneg_eq_0_iff)
  qed (simp add: reset_memory_def)
  then show ?thesis by blast
qed

section \<open>Corruption\<close>

text \<open>What a list of recorded changes does to the value of the cell at an address.\<close>

definition flips :: "int \<Rightarrow> ecu_memory_change list \<Rightarrow> int \<Rightarrow> int" where
  "flips a changes v = foldl (\<lambda>x c. if ch_address c = a then x XOR push_bit (nat (ch_bit c)) 1 else x) v changes"

lemma flips_append: "flips a (xs @ ys) v = flips a ys (flips a xs v)"
  by (simp add: flips_def)

lemma xor_twice: "((x :: int) XOR y) XOR y = x"
  by (simp add: xor.assoc)

text \<open>Applying the same changes in reverse order undoes them.\<close>

lemma flips_undo: "flips a (rev changes) (flips a changes v) = v"
proof (induction changes arbitrary: v)
  case (Cons c cs)
  let ?v = "if ch_address c = a then v XOR push_bit (nat (ch_bit c)) 1 else v"
  have "flips a (rev (c # cs)) (flips a (c # cs) v) = flips a [c] (flips a (rev cs) (flips a cs ?v))"
    by (simp add: flips_append) (simp add: flips_def)
  also have "\<dots> = flips a [c] ?v" unfolding Cons.IH ..
  also have "\<dots> = v" by (simp add: flips_def xor_twice)
  finally show ?case .
qed (simp add: flips_def)

lemma byte_flip:
  assumes "0 \<le> x" "x \<le> 255" "b < 8"
  shows "0 \<le> x XOR push_bit b 1" "x XOR push_bit b (1 :: int) \<le> 255"
proof -
  have p: "(0 :: int) \<le> push_bit b 1" by simp
  show "0 \<le> x XOR push_bit b 1" using assms(1) p by simp
  have "take_bit 8 x = x" using assms by (simp add: take_bit_int_eq_self)
  moreover have "(2 :: int) ^ b < 2 ^ 8" using assms(3) by (intro power_strict_increasing) auto
  then have "take_bit 8 (push_bit b (1 :: int)) = push_bit b 1" by (intro take_bit_int_eq_self) (auto simp: push_bit_eq_mult)
  ultimately have "take_bit 8 (x XOR push_bit b 1) = x XOR push_bit b 1" by (simp add: take_bit_xor)
  then show "x XOR push_bit b (1 :: int) \<le> 255" using take_bit_int_less_exp[of 8 "x XOR push_bit b 1"] by simp
qed

definition change_ok :: "ecu_memory_change \<Rightarrow> bool" where
  "change_ok c \<longleftrightarrow> 0 \<le> ch_bit c \<and> ch_bit c < 8 \<and> ch_value c = ch_previous_value c XOR push_bit (nat (ch_bit c)) 1"

lemma corruption_loop_spec:
  assumes "candidates \<noteq> []" "\<forall>c\<in>set candidates. map_of memory (cell_address c) \<noteq> None"
    and "\<forall>i. snd (draw i) < 8"
  shows "\<exists>memory' new. corruption_loop draw candidates idx memory changes = Inr (memory', changes @ new)
    \<and> length new = length idx \<and> map fst memory' = map fst memory
    \<and> (\<forall>c\<in>set new. change_ok c \<and> ch_address c \<in> cell_address ` set candidates)
    \<and> (\<forall>a. map_of memory' a = map_option (\<lambda>c. c\<lparr>cell_value := flips a new (cell_value c)\<rparr>) (map_of memory a))"
  using assms(2)
proof (induction idx arbitrary: memory changes)
  case Nil
  then show ?case by (auto simp: flips_def option.map_ident)
next
  case (Cons i idx)
  let ?c = "candidates ! (fst (draw i) mod length candidates)"
  let ?a = "cell_address ?c"
  have c: "?c \<in> set candidates" using assms(1) by simp
  obtain t where t: "map_of memory ?a = Some t" using Cons.prems c by blast
  let ?new_byte = "cell_value t XOR push_bit (snd (draw i)) 1"
  let ?ch = "\<lparr>ch_address = ?a, ch_previous_value = cell_value t, ch_value = ?new_byte, ch_bit = int (snd (draw i))\<rparr>"
  let ?m = "AList.update ?a (t\<lparr>cell_value := ?new_byte\<rparr>) memory"
  have m: "map_of ?m = (map_of memory)(?a \<mapsto> t\<lparr>cell_value := ?new_byte\<rparr>)" by (simp add: update_conv')
  have keys: "map fst ?m = map fst memory" using t by (simp add: update_keys) (metis domI map_of_eq_None_iff option.distinct(1))
  have "\<forall>c\<in>set candidates. map_of ?m (cell_address c) \<noteq> None" using Cons.prems unfolding m by simp
  then obtain memory' new where IH: "corruption_loop draw candidates idx ?m (changes @ [?ch]) = Inr (memory', (changes @ [?ch]) @ new)"
    "length new = length idx" "map fst memory' = map fst ?m"
    "\<forall>c\<in>set new. change_ok c \<and> ch_address c \<in> cell_address ` set candidates"
    "\<forall>a. map_of memory' a = map_option (\<lambda>c. c\<lparr>cell_value := flips a new (cell_value c)\<rparr>) (map_of ?m a)"
    using Cons.IH[of ?m "changes @ [?ch]"] by blast
  have first: "flips a (?ch # new) v = flips a new (if a = ?a then v XOR push_bit (snd (draw i)) 1 else v)" for a v
    by (auto simp: flips_def)
  have "map_of memory' a = map_option (\<lambda>c. c\<lparr>cell_value := flips a (?ch # new) (cell_value c)\<rparr>) (map_of memory a)" for a
    using IH(5) t unfolding first m by (cases "a = ?a") auto
  moreover have "change_ok ?ch" using assms(3) by (simp add: change_ok_def)
  ultimately show ?case
    using IH(1-4) t c keys by (intro exI[of _ memory'] exI[of _ "?ch # new"]) (auto simp: Let_def)
qed

lemma memory_by_address_valid:
  assumes "distinct (map cell_address cells)"
  shows "memory_by_address cells = map (\<lambda>c. (cell_address c, c)) cells"
proof -
  have "foldl (\<lambda>d c. AList.update (cell_address c) c d) acc cs = acc @ map (\<lambda>c. (cell_address c, c)) cs"
    if "distinct (map cell_address cs)" "fst ` set acc \<inter> cell_address ` set cs = {}" for acc cs
    using that
  proof (induction cs arbitrary: acc)
    case (Cons c cs)
    have "cell_address c \<notin> fst ` set acc" using Cons.prems(2) by auto
    then have "AList.update (cell_address c) c acc = acc @ [(cell_address c, c)]"
      by (induction acc) auto
    then show ?case using Cons by auto
  qed simp
  from this[OF assms, of "[]"] show ?thesis by (simp add: memory_by_address_def)
qed

lemma map_of_cells:
  assumes "distinct (map cell_address cells)"
  shows "map_of (map (\<lambda>c. (cell_address c, c)) cells) a = find (\<lambda>c. cell_address c = a) cells"
  by (induction cells) auto

lemma alist_eqI:
  assumes "map fst xs = map fst ys" "distinct (map fst ys)" "\<And>a. map_of xs a = map_of ys a"
  shows "xs = ys"
proof (rule nth_equalityI)
  show len: "length xs = length ys" using assms(1) by (metis length_map)
  fix i assume i: "i < length xs"
  have k: "fst (xs ! i) = fst (ys ! i)" using assms(1) i len by (metis nth_map)
  have "map_of xs (fst (xs ! i)) = Some (snd (xs ! i))" using i assms(1,2) by (simp add: map_of_eq_Some_iff)
  moreover have "map_of ys (fst (ys ! i)) = Some (snd (ys ! i))" using i len assms(2) by (simp add: map_of_eq_Some_iff)
  ultimately show "xs ! i = ys ! i" using assms(3)[of "fst (xs ! i)"] k by (simp add: prod_eq_iff)
qed

text \<open>The memory after the loop, cell by cell.\<close>

lemma corruption_cells:
  assumes "distinct (map cell_address cells)" "map fst memory' = map fst (memory_by_address cells)"
    and "\<forall>a. map_of memory' a = map_option (\<lambda>c. c\<lparr>cell_value := f a (cell_value c)\<rparr>) (map_of (memory_by_address cells) a)"
  shows "map snd memory' = map (\<lambda>c. c\<lparr>cell_value := f (cell_address c) (cell_value c)\<rparr>) cells"
proof -
  let ?new = "map (\<lambda>c. (cell_address c, c\<lparr>cell_value := f (cell_address c) (cell_value c)\<rparr>)) cells"
  note mb = memory_by_address_valid[OF assms(1)]
  have keys: "map fst ?new = map cell_address cells" "map fst (memory_by_address cells) = map cell_address cells"
    by (simp_all add: mb comp_def)
  have "map_of ?new a = map_option (\<lambda>c. c\<lparr>cell_value := f a (cell_value c)\<rparr>) (map_of (memory_by_address cells) a)" for a
    unfolding mb by (induction cells) auto
  then have "memory' = ?new" using assms keys by (intro alist_eqI) (simp_all only: simp_thms)
  then show ?thesis by (simp add: comp_def)
qed

definition selected_address :: "electronic_control_unit \<Rightarrow> string list \<Rightarrow> int \<Rightarrow> bool" where
  "selected_address u names a \<longleftrightarrow>
     (\<exists>r\<in>set (if ecu_memory_regions u = [] then [default_region] else ecu_memory_regions u).
        in_region r a \<and> (names = [] \<or> mr_name r \<in> set names))"

lemma corrupted_memory_spec:
  assumes "unit_valid u" "corrupted_memory u c = Inr (m, changes)"
  shows "length changes = nat (mm_bit_flips c)"
    and "\<forall>x\<in>set changes. change_ok x \<and> selected_address u (mm_region_names c) (ch_address x)"
    and "m = map (\<lambda>x. x\<lparr>cell_value := flips (cell_address x) changes (cell_value x)\<rparr>) (ecu_memory u)"
proof -
  let ?rs = "if ecu_memory_regions u = [] then [default_region] else ecu_memory_regions u"
  let ?names = "if mm_region_names c = [] then set (map mr_name ?rs) else set (mm_region_names c)"
  let ?cs = "corruption_candidates ?rs ?names (ecu_memory u)"
  obtain memory' where loop: "corruption_loop (flip_draw (mm_seed c)) ?cs [0..mm_bit_flips c - 1]
      (memory_by_address (ecu_memory u)) [] = Inr (memory', changes)" and m: "m = map snd memory'" and ne: "?cs \<noteq> []"
    using assms(2) unfolding corrupted_memory_def valid_regions[OF assms(1)]
    by (auto simp: Let_def ok_simps split: if_splits)
  have dist: "distinct (map cell_address (ecu_memory u))"
    using valid_consistent(1)[of "state_of u"] assms(1) by (simp add: unit_valid_def state_of_def)
  note mb = memory_by_address_valid[OF dist]
  have mem: "set ?cs \<subseteq> set (ecu_memory u)" by (auto simp: corruption_candidates_def)
  then have dom: "\<forall>x\<in>set ?cs. map_of (memory_by_address (ecu_memory u)) (cell_address x) \<noteq> None"
    unfolding mb by (auto simp: map_of_eq_None_iff image_image)
  have "\<forall>i. snd (flip_draw (mm_seed c) i) < 8" by (simp add: flip_draw_def Let_def)
  from corruption_loop_spec[OF ne dom this, of "[0..mm_bit_flips c - 1]" "[]"] loop
  have spec: "length changes = length [0..mm_bit_flips c - 1]" "map fst memory' = map fst (memory_by_address (ecu_memory u))"
    "\<forall>x\<in>set changes. change_ok x \<and> ch_address x \<in> cell_address ` set ?cs"
    "\<forall>a. map_of memory' a = map_option (\<lambda>c. c\<lparr>cell_value := flips a changes (cell_value c)\<rparr>) (map_of (memory_by_address (ecu_memory u)) a)"
    by auto
  show "length changes = nat (mm_bit_flips c)" using spec(1) by simp
  show "m = map (\<lambda>x. x\<lparr>cell_value := flips (cell_address x) changes (cell_value x)\<rparr>) (ecu_memory u)"
    unfolding m by (rule corruption_cells[OF dist spec(2,4)])
  have "selected_address u (mm_region_names c) (cell_address x)" if "x \<in> set ?cs" for x
    using that by (auto simp: corruption_candidates_def selected_address_def list_ex_iff split: if_splits)
  then show "\<forall>x\<in>set changes. change_ok x \<and> selected_address u (mm_region_names c) (ch_address x)"
    using spec(3) by auto
qed

lemma flips_byte:
  "\<forall>x\<in>set changes. change_ok x \<Longrightarrow> 0 \<le> v \<Longrightarrow> v \<le> 255 \<Longrightarrow> 0 \<le> flips a changes v \<and> flips a changes v \<le> 255"
proof (induction changes arbitrary: v)
  case (Cons x xs)
  let ?v = "if ch_address x = a then v XOR push_bit (nat (ch_bit x)) 1 else v"
  have "nat (ch_bit x) < 8" using Cons.prems(1) by (simp add: change_ok_def nat_less_iff)
  then have "0 \<le> ?v \<and> ?v \<le> 255" using byte_flip[OF Cons.prems(2,3)] Cons.prems by simp
  then show ?case using Cons.IH[of ?v] Cons.prems(1) by (simp add: flips_def)
qed (simp add: flips_def)

section \<open>Snapshots\<close>

lemma snapshot_facts:
  assumes "create_memory_snapshot e v i c s = Inr (n, s')"
  obtains u where "find_ecu v i s = Some u" "sn_ecu_id n = ecu_id u" "sn_memory n = canonical_memory (ecu_memory u)"
    "sn_checksum_sha256 n = memory_checksum (sn_memory n)" "sn_id n \<notin> sn_id ` set (ecu_snapshots s)"
    "ecu_snapshots s' = ecu_snapshots s @ [n]" "ecus s' = ecus s"
  using assms by (auto simp: create_memory_snapshot_def require_ecu_def Let_def ok_simps table_simps)

lemma canonical_idem [simp]: "canonical_memory (canonical_memory cells) = canonical_memory cells"
  by (simp add: canonical_memory_def sort_key_id_if_sorted)

lemma snapshot_found:
  assumes "create_memory_snapshot e v i c s = Inr (n, s1)" "ecu_grows s1 s2" "find_ecu v i s2 = Some u2"
  shows "require_memory_snapshot u2 (sn_id n) s2 = Inr n"
  using assms(1)
proof (rule snapshot_facts)
  fix u
  assume u: "find_ecu v i s = Some u" "sn_ecu_id n = ecu_id u" "sn_id n \<notin> sn_id ` set (ecu_snapshots s)"
    "ecu_snapshots s1 = ecu_snapshots s @ [n]" "ecus s1 = ecus s"
  have "find_ecu v i s1 = Some u" using u(1,5) by (simp add: find_ecu_def)
  then have id: "ecu_id u2 = ecu_id u"
    using find_ecu_grows[OF assms(2)] assms(3) by (fastforce simp: same_unit_def)
  obtain zs where zs: "ecu_snapshots s2 = (ecu_snapshots s @ [n]) @ zs"
    using assms(2) u(4) by (auto simp: ecu_grows_def extends_def)
  have none: "select (\<lambda>x. sn_ecu_id x = ecu_id u \<and> sn_id x = sn_id n) (ecu_snapshots s) = None"
    unfolding select_None using u(3) by (metis imageI)
  have "select (\<lambda>x. sn_ecu_id x = ecu_id u \<and> sn_id x = sn_id n) (n # zs) = Some n" using u(2) by (simp add: select_def)
  then show ?thesis
    unfolding require_memory_snapshot_def zs id by (simp add: select_append none)
qed

end
