(* ===== verification/EcuReadable.thy ===== *)
theory EcuReadable
  imports EcuMemoryFacts
begin

text \<open>
  Every read of a unit validates its stored state. Here: which changes of the parts of a unit keep
  it valid.
\<close>

section \<open>Validity by parts\<close>

lemma consistent_iff:
  "require_consistent_state p = Inr p \<longleftrightarrow> distinct (map cell_address (sp_memory p))
     \<and> distinct (map mr_name (sp_memory_regions p))
     \<and> consecutive_disjoint (sort_key mr_start_address (sp_memory_regions p))
     \<and> (sp_memory_regions p \<noteq> [] \<longrightarrow> (\<forall>a\<in>cell_address ` set (sp_memory p). length (matching_regions (sp_memory_regions p) a) = 1))
     \<and> distinct (map ft_code (sp_faults p)) \<and> distinct (map (\<lambda>s. (sig_direction s, sig_name s)) (sp_signals p))
     \<and> distinct (map tk_task_id (sp_cyclic_tasks p))
     \<and> (list_ex confirmed_critical (sp_faults p) \<longrightarrow> sp_operational_state p = FAULT)"
  by (auto simp: require_consistent_state_def list_ex_iff)

definition memory_part :: "ecu_region list \<Rightarrow> ecu_cell list \<Rightarrow> bool" where
  "memory_part rs m \<longleftrightarrow> length m \<le> 256 \<and> (\<forall>c\<in>set m. cell_validate c = Inr c) \<and> distinct (map cell_address m)
     \<and> (rs \<noteq> [] \<longrightarrow> (\<forall>a\<in>cell_address ` set m. length (matching_regions rs a) = 1))"

definition regions_part :: "ecu_region list \<Rightarrow> bool" where
  "regions_part rs \<longleftrightarrow> length rs \<le> 16 \<and> (\<forall>r\<in>set rs. region_validate r = Inr r) \<and> distinct (map mr_name rs)
     \<and> consecutive_disjoint (sort_key mr_start_address rs)"

definition faults_part :: "EcuOperationalState \<Rightarrow> ecu_fault list \<Rightarrow> bool" where
  "faults_part st fs \<longleftrightarrow> length fs \<le> 64 \<and> (\<forall>f\<in>set fs. fault_validate f = Inr f) \<and> distinct (map ft_code fs)
     \<and> (list_ex confirmed_critical fs \<longrightarrow> st = FAULT)"

definition signals_part :: "ecu_signal list \<Rightarrow> bool" where
  "signals_part ss \<longleftrightarrow> length ss \<le> 64 \<and> (\<forall>s\<in>set ss. signal_validate s = Inr s)
     \<and> distinct (map (\<lambda>s. (sig_direction s, sig_name s)) ss)"

definition tasks_part :: "ecu_task list \<Rightarrow> bool" where
  "tasks_part ts \<longleftrightarrow> length ts \<le> 32 \<and> (\<forall>t\<in>set ts. task_validate t = Inr t) \<and> distinct (map tk_task_id ts)"

definition behavior_part :: "(string \<times> behavior_value) list \<Rightarrow> bool" where
  "behavior_part d \<longleftrightarrow> length d \<le> 32 \<and> bound_behavior_state d = Inr ()"

lemma unit_valid_parts:
  "unit_valid u \<longleftrightarrow> memory_part (ecu_memory_regions u) (ecu_memory u) \<and> regions_part (ecu_memory_regions u)
     \<and> faults_part (ecu_operational_state u) (ecu_faults u) \<and> signals_part (ecu_signals u)
     \<and> tasks_part (ecu_cyclic_tasks u) \<and> behavior_part (ecu_behavior_state u)"
  unfolding unit_valid_def state_valid_def state_bounds_def consistent_iff memory_part_def regions_part_def
    faults_part_def signals_part_def tasks_part_def behavior_part_def state_of_def
  by auto

section \<open>Memory\<close>

lemma memory_part_values:
  assumes "memory_part rs m" "map cell_address m' = map cell_address m"
    and "\<forall>c\<in>set m'. 0 \<le> cell_value c \<and> cell_value c \<le> 255"
  shows "memory_part rs m'"
proof -
  have len: "length m' = length m" and img: "cell_address ` set m' = cell_address ` set m"
    using assms(2) by (metis length_map, metis set_map)
  have "cell_validate c = Inr c" if c: "c \<in> set m'" for c
  proof -
    have "cell_address c \<in> cell_address ` set m" using c img by blast
    then obtain x where "x \<in> set m" "cell_address x = cell_address c" by force
    then show ?thesis
      using assms(1,3) c by (auto simp: memory_part_def cell_validate_def int_between_def split: if_splits)
  qed
  then show ?thesis using assms(1) unfolding memory_part_def len img assms(2) by blast
qed

lemma region_reset_value: "regions_part rs \<Longrightarrow> r \<in> set rs \<Longrightarrow> 0 \<le> mr_reset_value r \<and> mr_reset_value r \<le> 255"
  by (auto simp: regions_part_def region_validate_def ok_simps int_between_def)

lemma reset_keeps_memory:
  assumes "unit_valid u"
  shows "memory_part (ecu_memory_regions u) (map (cell_after_reset mode (ecu_memory_regions u)) (ecu_memory u))"
proof (rule memory_part_values)
  let ?rs = "if ecu_memory_regions u = [] then [default_region] else ecu_memory_regions u"
  have regions: "0 \<le> mr_reset_value r \<and> mr_reset_value r \<le> 255" if "r \<in> set ?rs" for r
    using that assms region_reset_value by (auto simp: unit_valid_parts default_region_def split: if_splits)
  show "memory_part (ecu_memory_regions u) (ecu_memory u)" using assms by (simp add: unit_valid_parts)
  show "map cell_address (map (cell_after_reset mode (ecu_memory_regions u)) (ecu_memory u)) = map cell_address (ecu_memory u)"
    by (simp add: cell_after_reset_def split: option.splits)
  show "\<forall>c\<in>set (map (cell_after_reset mode (ecu_memory_regions u)) (ecu_memory u)). 0 \<le> cell_value c \<and> cell_value c \<le> 255"
    using valid_cell[OF assms] regions
    by (auto simp: cell_after_reset_def int_between_def find_Some_iff split: option.splits)
qed

section \<open>Signals\<close>

lemma signals_part_update:
  assumes "signals_part ss" "signal_validate x = Inr x" "is_signal d name x"
  shows "signals_part (map (\<lambda>s. if is_signal d name s then x else s) ss)"
proof -
  have keys: "map (\<lambda>s. (sig_direction s, sig_name s)) (map (\<lambda>s. if is_signal d name s then x else s) ss)
      = map (\<lambda>s. (sig_direction s, sig_name s)) ss"
    using assms(3) by (simp add: is_signal_def)
  show ?thesis using assms(1,2) unfolding signals_part_def keys by auto
qed

section \<open>Faults\<close>

lemma faults_part_replace:
  assumes "faults_part st fs" "fault_validate f = Inr f" "list_ex confirmed_critical (replace_fault f fs) \<longrightarrow> st' = FAULT"
  shows "faults_part st' (replace_fault f fs)"
proof -
  have "map ft_code (replace_fault f fs) = map ft_code fs" by (simp add: replace_fault_def)
  moreover have "\<forall>x\<in>set (replace_fault f fs). fault_validate x = Inr x"
    using assms(1,2) by (auto simp: faults_part_def replace_fault_def)
  moreover have "length (replace_fault f fs) = length fs" by (simp add: replace_fault_def)
  ultimately show ?thesis using assms(1,3) by (simp add: faults_part_def del: distinct_map)
qed

text \<open>\<open>operational_state_after\<close> only looks at active faults.\<close>

lemma operational_after:
  assumes "\<forall>f\<in>set fs. confirmed_critical f \<longrightarrow> ft_active f"
  shows "list_ex confirmed_critical fs \<longrightarrow> operational_state_after st fs = FAULT"
  using assms by (auto simp: operational_state_after_def list_ex_iff confirmed_critical_def)

text \<open>Room for one more transition of a fault at time \<open>now\<close>.\<close>

definition fault_room :: "int \<Rightarrow> ecu_fault \<Rightarrow> bool" where
  "fault_room now f \<longleftrightarrow> ft_occurrence_count f < 1000000 \<and> ft_healing_count f < 1000000 \<and> 0 \<le> now
     \<and> ft_first_seen_ms f \<le> now \<and> (ft_status f = PENDING \<longrightarrow> \<not> ft_latched f)"

lemma fault_validate_fixed:
  "fault_validate f = Inr f \<longleftrightarrow> fault_fields_ok f \<and> validate_code (ft_code f) = Inr (ft_code f)
     \<and> strip (ft_description f) = ft_description f \<and> keep_lifecycle_consistent f = Inr f"
proof
  assume v: "fault_validate f = Inr f"
  obtain code where f: "fault_fields_ok f" "validate_code (ft_code f) = Inr code"
    and k: "keep_lifecycle_consistent (f\<lparr>ft_code := code, ft_description := strip (ft_description f)\<rparr>) = Inr f"
    using v by (auto simp: fault_validate_def ok_simps)
  have code: "code = ft_code f"
    using lifecycle_fields(1)[OF k] by (elim disjE conjE) (drule arg_cong[where f = ft_code], simp)+
  have "strip (ft_description f) = ft_description f"
    using lifecycle_fields(1)[OF k] by (elim disjE conjE) (drule arg_cong[where f = ft_description], simp)+
  note same = code this
  then show "fault_fields_ok f \<and> validate_code (ft_code f) = Inr (ft_code f)
     \<and> strip (ft_description f) = ft_description f \<and> keep_lifecycle_consistent f = Inr f"
    using f k by simp
qed (simp add: fault_validate_def check_def)

lemma lifecycle_fixed:
  "keep_lifecycle_consistent f = Inr f \<longleftrightarrow> ft_first_seen_ms f \<le> ft_last_seen_ms f
     \<and> (ft_status f = PENDING \<longrightarrow> ft_occurrence_count f < ft_confirmation_threshold f)
     \<and> (ft_status f = CONFIRMED \<longrightarrow> ft_confirmed_at_ms f \<noteq> None)
     \<and> (ft_status f = HEALED \<longrightarrow> \<not> ft_active f \<and> ft_healed_at_ms f \<noteq> None \<and> \<not> ft_latched f)"
proof -
  have "f\<lparr>ft_confirmed_at_ms := Some (ft_last_seen_ms f)\<rparr> \<noteq> f" if "ft_confirmed_at_ms f = None"
  proof
    assume "f\<lparr>ft_confirmed_at_ms := Some (ft_last_seen_ms f)\<rparr> = f"
    then have "ft_confirmed_at_ms (f\<lparr>ft_confirmed_at_ms := Some (ft_last_seen_ms f)\<rparr>) = ft_confirmed_at_ms f"
      by (rule arg_cong)
    then show False using that by simp
  qed
  then have ne: "ft_confirmed_at_ms f = None \<Longrightarrow> (Inr (f\<lparr>ft_confirmed_at_ms := Some (ft_last_seen_ms f)\<rparr>) :: app_error + ecu_fault) \<noteq> Inr f"
    by blast
  show ?thesis
  proof (cases "ft_status f = CONFIRMED \<and> ft_confirmed_at_ms f = None")
    case True
    then have "keep_lifecycle_consistent f \<noteq> Inr f"
      using ne by (simp add: keep_lifecycle_consistent_def del: sum.inject)
    then show ?thesis using True by simp
  next
    case False
    have "keep_lifecycle_consistent f = (if ft_last_seen_ms f < ft_first_seen_ms f
        then Inl (value_error ''fault last-seen time must not precede first-seen time'')
      else if ft_status f = PENDING \<and> ft_occurrence_count f \<ge> ft_confirmation_threshold f
        then Inl (value_error ''a fault meeting its confirmation threshold must be confirmed'')
      else if ft_status f = HEALED \<and> (ft_active f \<or> ft_healed_at_ms f = None)
        then Inl (value_error ''a healed fault must be inactive and record healed-at logical time'')
      else if ft_latched f \<and> ft_status f = HEALED
        then Inl (value_error ''a latched fault requires explicit clearing before healing'')
      else Inr f)"
      unfolding keep_lifecycle_consistent_def Let_def if_not_P[OF False] ..
    then show ?thesis using False by auto
  qed
qed

lemma detected_valid:
  assumes "fault_validate f = Inr f" "fault_room now f" "ft_status f \<noteq> HEALED"
  shows "fault_validate (snd (detected_fault now f)) = Inr (snd (detected_fault now f))"
  using assms unfolding fault_validate_fixed lifecycle_fixed
  by (auto simp: detected_fault_def Let_def fault_room_def fault_fields_ok_def int_between_def)

lemma absent_valid:
  assumes "fault_validate f = Inr f" "fault_room now f" "ft_status f \<noteq> HEALED"
  shows "fault_validate (snd (absent_fault now f)) = Inr (snd (absent_fault now f))"
  using assms unfolding fault_validate_fixed lifecycle_fixed
  by (cases "ft_status f") (auto simp: absent_fault_def Let_def fault_room_def fault_fields_ok_def int_between_def)

lemma cleared_valid:
  assumes "fault_validate f = Inr f" "0 \<le> now"
  shows "fault_validate (cleared_fault now f) = Inr (cleared_fault now f)"
  using assms unfolding fault_validate_fixed lifecycle_fixed
  by (auto simp: cleared_fault_def fault_fields_ok_def)

text \<open>Room for one fault command on a unit.\<close>

definition faults_room :: "electronic_control_unit \<Rightarrow> bool" where
  "faults_room u \<longleftrightarrow> length (ecu_faults u) < 64 \<and> 0 \<le> ecu_simulation_time_ms u
     \<and> (\<forall>f\<in>set (ecu_faults u). fault_room (ecu_simulation_time_ms u) f \<and> (confirmed_critical f \<longrightarrow> ft_active f))"

lemma transition_codes [simp]:
  "ft_code (snd (detected_fault now f)) = ft_code f" "ft_code (snd (absent_fault now f)) = ft_code f"
  "ft_code (cleared_fault now f) = ft_code f"
  by (simp_all add: detected_fault_def absent_fault_def cleared_fault_def Let_def)

lemma transition_critical:
  "confirmed_critical (snd (detected_fault now f)) \<Longrightarrow> ft_active (snd (detected_fault now f))"
  "confirmed_critical (snd (absent_fault now f)) \<Longrightarrow> ft_active (snd (absent_fault now f))"
  "\<not> confirmed_critical (cleared_fault now f)"
  by (auto simp: detected_fault_def absent_fault_def cleared_fault_def Let_def confirmed_critical_def split: if_splits)

lemma replaced_active:
  assumes "\<forall>x\<in>set fs. confirmed_critical x \<longrightarrow> ft_active x" "confirmed_critical f \<longrightarrow> ft_active f"
  shows "\<forall>x\<in>set (replace_fault f fs). confirmed_critical x \<longrightarrow> ft_active x"
  using assms by (auto simp: replace_fault_def)

lemma new_fault_facts:
  assumes "new_fault now c = Inr (t, f)"
  shows "fault_validate f = Inr f" "ft_active f" "ft_code f = fo_code c \<or> validate_code (fo_code c) \<noteq> Inr (fo_code c)"
proof -
  let ?g = "\<lparr>ft_code = fo_code c, ft_severity = fo_severity c,
          ft_status = (if 1 \<ge> fo_confirmation_threshold c then CONFIRMED else PENDING), ft_description = fo_description c,
          ft_active = True, ft_latched = fo_latched c, ft_occurrence_count = 1, ft_healing_count = 0,
          ft_confirmation_threshold = fo_confirmation_threshold c, ft_healing_threshold = fo_healing_threshold c,
          ft_first_seen_ms = now, ft_last_seen_ms = now,
          ft_confirmed_at_ms = (if 1 \<ge> fo_confirmation_threshold c then Some now else None), ft_healed_at_ms = None\<rparr>"
  have v: "fault_validate ?g = Inr f" using assms by (auto simp: new_fault_def Let_def ok_simps)
  then show "fault_validate f = Inr f" by (rule fault_validate_stable)
  obtain code where code: "validate_code (ft_code ?g) = Inr code"
    and k: "keep_lifecycle_consistent (?g\<lparr>ft_code := code, ft_description := strip (ft_description ?g)\<rparr>) = Inr f"
    using v unfolding fault_validate_def by (auto simp: ok_simps)
  show "ft_active f" using lifecycle_fields(1)[OF k] by auto
  show "ft_code f = fo_code c \<or> validate_code (fo_code c) \<noteq> Inr (fo_code c)"
    using lifecycle_fields(1)[OF k] code by auto
qed

lemma filter_code_fresh: "map ft_code (filter (\<lambda>x. ft_code x \<noteq> k) fs) = filter (\<lambda>c. c \<noteq> k) (map ft_code fs)"
  by (induction fs) auto

lemma observed_keeps:
  assumes "unit_valid u" "faults_room u" "ecu_fault_observation_command_ok c"
    and "observed (ecu_simulation_time_ms u) c (ecu_faults u) = Inr (t, f, fs)"
  shows "faults_part (operational_state_after (ecu_operational_state u) fs) fs"
proof -
  let ?now = "ecu_simulation_time_ms u" and ?fs = "ecu_faults u"
  have part: "faults_part (ecu_operational_state u) ?fs" using assms(1) by (simp add: unit_valid_parts)
  have active: "\<forall>x\<in>set ?fs. confirmed_critical x \<longrightarrow> ft_active x" using assms(2) by (simp add: faults_room_def)
  have new: "faults_part (operational_state_after (ecu_operational_state u) fs) fs"
    if n: "new_fault ?now c = Inr (t, f)" "fs = filter (\<lambda>x. ft_code x \<noteq> fo_code c) ?fs @ [f]"
  proof -
    have code: "ft_code f = fo_code c" using new_fault_facts(3)[OF n(1)] assms(3) by (simp add: ecu_fault_observation_command_ok_def)
    have "distinct (map ft_code fs)"
      using part code unfolding n(2) by (simp add: filter_code_fresh faults_part_def del: distinct_map)
    moreover have "length fs \<le> 64"
      using assms(2) le_less_trans[OF length_filter_le[of "\<lambda>x. ft_code x \<noteq> fo_code c" ?fs], of 64] unfolding n(2)
      by (simp add: faults_room_def)
    moreover have "\<forall>x\<in>set fs. fault_validate x = Inr x"
      using part new_fault_facts(1)[OF n(1)] unfolding n(2) by (auto simp: faults_part_def)
    moreover have "\<forall>x\<in>set fs. confirmed_critical x \<longrightarrow> ft_active x"
      using active new_fault_facts(2)[OF n(1)] unfolding n(2) by auto
    ultimately show ?thesis using operational_after by (auto simp: faults_part_def)
  qed
  have old: "faults_part (operational_state_after (ecu_operational_state u) fs) fs"
    if f: "find_fault (fo_code c) ?fs = Some current" "ft_status current \<noteq> HEALED"
      "(t, f) = (if fo_detected c then detected_fault ?now current else absent_fault ?now current)" "fs = replace_fault f ?fs"
    for current
  proof -
    have "current \<in> set ?fs" using f(1) by (auto simp: find_fault_def find_Some_iff)
    then have c: "fault_validate current = Inr current" "fault_room ?now current"
      using part assms(2) by (auto simp: faults_part_def faults_room_def)
    have "f = snd (if fo_detected c then detected_fault ?now current else absent_fault ?now current)" by (metis f(3) snd_conv)
    then have "fault_validate f = Inr f" "confirmed_critical f \<longrightarrow> ft_active f"
      using detected_valid[OF c f(2)] absent_valid[OF c f(2)] transition_critical by (auto split: if_splits)
    then show ?thesis
      unfolding f(4) using faults_part_replace[OF part] operational_after replaced_active[OF active] by blast
  qed
  show ?thesis
    using assms(4) new old by (auto simp: observed_def ok_simps split: option.splits if_splits prod.splits)
qed

lemma cleared_keeps:
  assumes "unit_valid u" "faults_room u" "find_fault code (ecu_faults u) = Some f"
    and "fs = replace_fault (cleared_fault (ecu_simulation_time_ms u) f) (ecu_faults u)"
  shows "faults_part (operational_state_after (ecu_operational_state u) fs) fs"
proof -
  have part: "faults_part (ecu_operational_state u) (ecu_faults u)" using assms(1) by (simp add: unit_valid_parts)
  have "f \<in> set (ecu_faults u)" using assms(3) by (auto simp: find_fault_def find_Some_iff)
  then have "fault_validate f = Inr f" "0 \<le> ecu_simulation_time_ms u"
    using part assms(2) by (auto simp: faults_part_def faults_room_def)
  note v = cleared_valid[OF this]
  have "\<forall>x\<in>set (ecu_faults u). confirmed_critical x \<longrightarrow> ft_active x" using assms(2) by (simp add: faults_room_def)
  from operational_after[OF replaced_active[OF this]] show ?thesis
    unfolding assms(4) using faults_part_replace[OF part v] transition_critical(3) by blast
qed

section \<open>Behaviour state\<close>

definition behavior_ok :: "string \<times> behavior_value \<Rightarrow> bool" where
  "behavior_ok = (\<lambda>(k, x). task_id_match k \<and> (case x of BInt n \<Rightarrow> \<bar>n\<bar> \<le> 9007199254740991 | BStr t \<Rightarrow> length t \<le> 120 | _ \<Rightarrow> True))"

lemma bound_behavior_iff: "bound_behavior_state d = Inr () \<longleftrightarrow> (\<forall>x\<in>set d. behavior_ok x)"
proof (induction d)
  case (Cons x d)
  obtain k i where x: "x = (k, i)" by fastforce
  show ?case unfolding x using Cons.IH by (cases i) (simp_all add: behavior_ok_def not_less)
qed simp

text \<open>The keys of a profile are in the state of every unit that was created or replaced.\<close>

definition profiled :: "electronic_control_unit \<Rightarrow> bool" where
  "profiled u \<longleftrightarrow> effect_key (behavior_profile (ecu_type u)) ` UNIV \<subseteq> insert None (Some ` fst ` set (ecu_behavior_state u))"

lemma update_known: "k \<in> fst ` set d \<Longrightarrow> map fst (AList.update k x d) = map fst d \<and> set (AList.update k x d) \<subseteq> insert (k, x) (set d)"
  by (induction d) auto

lemma transitions_values:
  assumes "execute_profile_transitions p d rs = Inr b" "\<forall>r\<in>set rs. 0 \<le> run_execution_count r"
    and "effect_key p ` UNIV \<subseteq> insert None (Some ` fst ` set d)"
  shows "map fst b = map fst d \<and> (\<forall>(k, x)\<in>set b. (k, x) \<in> set d
      \<or> (\<exists>m n. (k, BInt m) \<in> set d \<and> x = BInt n \<and> m \<le> n))"
  using assms
proof (induction rs arbitrary: d)
  case (Cons r rs)
  show ?case
  proof (cases "\<exists>k. effect_key p (run_task_id r) = Some k \<and> run_execution_count r \<noteq> 0")
    case False
    then have "execute_profile_transitions p d rs = Inr b"
      using Cons.prems(1) unfolding transition_cons by (auto split: option.splits)
    then show ?thesis using Cons by simp
  next
    case True
    then obtain k where k: "effect_key p (run_task_id r) = Some k" "run_execution_count r \<noteq> 0" by blast
    let ?n = "counter (map_of d k) + run_execution_count r"
    have step: "is_counter (map_of d k)" "execute_profile_transitions p (AList.update k (BInt ?n) d) rs = Inr b"
      using Cons.prems(1) k unfolding transition_cons by (auto split: if_splits)
    have "Some k \<in> effect_key p ` UNIV" using k(1) by (metis rangeI)
    then have kd: "k \<in> fst ` set d" using Cons.prems(3) by auto
    then obtain m where m: "map_of d k = Some (BInt m)"
      using step(1) by (auto simp: is_counter_def map_of_eq_None_iff split: option.splits behavior_value.splits)
    note known = update_known[OF kd, of "BInt ?n"]
    have keys: "fst ` set (AList.update k (BInt ?n) d) = fst ` set d" using known by (metis set_map)
    have m_in: "(k, BInt m) \<in> set d" and le: "m \<le> ?n" using map_of_SomeD[OF m] Cons.prems(2) by (simp_all add: m counter_def)
    have IH: "map fst b = map fst (AList.update k (BInt ?n) d)"
      "\<forall>(k', x)\<in>set b. (k', x) \<in> set (AList.update k (BInt ?n) d)
        \<or> (\<exists>m n. (k', BInt m) \<in> set (AList.update k (BInt ?n) d) \<and> x = BInt n \<and> m \<le> n)"
      using Cons.IH[OF step(2)] Cons.prems(2,3) unfolding keys by auto
    have "(k', x) \<in> set d \<or> (\<exists>m n. (k', BInt m) \<in> set d \<and> x = BInt n \<and> m \<le> n)" if kx: "(k', x) \<in> set b" for k' x
    proof -
      from IH(2) kx consider "(k', x) \<in> insert (k, BInt ?n) (set d)"
        | m' n' where "(k', BInt m') \<in> insert (k, BInt ?n) (set d)" "x = BInt n'" "m' \<le> n'"
        using known by blast
      then show ?thesis using m_in le by cases (auto intro: order_trans)
    qed
    then show ?thesis using IH(1) known by auto
  qed
qed auto

text \<open>After an advance the state is valid exactly when no counter passed the largest JSON-safe integer.\<close>

lemma transitions_bounded:
  assumes "behavior_part d" "execute_profile_transitions p d rs = Inr b" "\<forall>r\<in>set rs. 0 \<le> run_execution_count r"
    and "effect_key p ` UNIV \<subseteq> insert None (Some ` fst ` set d)"
  shows "behavior_part b \<longleftrightarrow> (\<forall>k n. (k, BInt n) \<in> set b \<longrightarrow> n \<le> 9007199254740991)"
proof
  assume "behavior_part b"
  then show "\<forall>k n. (k, BInt n) \<in> set b \<longrightarrow> n \<le> 9007199254740991"
    by (auto simp: behavior_part_def bound_behavior_iff behavior_ok_def)
next
  assume le: "\<forall>k n. (k, BInt n) \<in> set b \<longrightarrow> n \<le> 9007199254740991"
  note v = transitions_values[OF assms(2-4)]
  have "length b = length d" using v by (metis length_map)
  moreover have "behavior_ok (k, x)" if kx: "(k, x) \<in> set b" for k x
  proof (cases "(k, x) \<in> set d")
    case True
    then show ?thesis using assms(1) by (auto simp: behavior_part_def bound_behavior_iff)
  next
    case False
    then obtain m n where "(k, BInt m) \<in> set d" "x = BInt n" "m \<le> n" using v kx by blast
    moreover from this have "behavior_ok (k, BInt m)" using assms(1) by (auto simp: behavior_part_def bound_behavior_iff)
    ultimately show ?thesis using le kx by (auto simp: behavior_ok_def abs_le_iff)
  qed
  ultimately show "behavior_part b" using assms(1) by (auto simp: behavior_part_def bound_behavior_iff)
qed

section \<open>Commands\<close>

definition units_readable :: "'a ecu_store_scheme \<Rightarrow> bool" where
  "units_readable s \<longleftrightarrow> (\<forall>u\<in>set (ecus s). unit_valid u)"

lemma units_readableD: "units_readable s \<Longrightarrow> u \<in> set (ecus s) \<Longrightarrow> unit_valid u"
  by (simp add: units_readable_def)

lemma committed_readable:
  "ecu_committed i u s r u' s' \<Longrightarrow> units_readable s \<Longrightarrow> unit_valid u' \<Longrightarrow> units_readable s'"
  by (auto simp: units_readable_def ecu_committed_tables(1) update_row_def)

lemma stored_payload_valid: "unit_valid u \<Longrightarrow> stored_state_payload u = Inr p \<Longrightarrow> p = state_of u"
  by (simp add: unit_valid_payload)

lemma reset_readable:
  assumes "units_readable s" "find_ecu v i s = Some u" "existing_simulation_command u (rs_command_id c) s = None"
    and "execute_ecu_reset e (v, i, c) s = Inr ((r, d), s')"
  shows "units_readable s'"
proof -
  have u: "unit_valid u" using units_readableD[OF assms(1)] find_ecu_row[OF assms(2)] by blast
  let ?rs = "if ecu_memory_regions u = [] then [default_region] else ecu_memory_regions u"
  obtain p regions memory x y where r: "stored_state_payload u = Inr p" "regions_or_default (ecu_memory_regions u) = Inr regions"
    "reset_memory (rs_mode c) regions (ecu_memory u) = Inr (memory, x, y)"
    and com: "ecu_committed (rs_command_id c) u s r
          (u\<lparr>ecu_operational_state := (if list_ex confirmed_critical (sp_faults p) then FAULT else OFFLINE),
             ecu_memory := memory, ecu_simulation_time_ms := ecu_simulation_time_ms u + reset_duration_ms (rs_mode c),
             ecu_boot_count := ecu_boot_count u + 1, ecu_version := ecu_version u + 1\<rparr>) s'"
    using reset_first(5)[OF assms(2-4)] by blast
  have p: "sp_faults p = ecu_faults u" using stored_payload_valid[OF u r(1)] by (simp add: state_of_def)
  have "memory = map (cell_after_reset (rs_mode c) (ecu_memory_regions u)) (ecu_memory u)"
    using r(2,3) reset_memory_spec[OF u, of "rs_mode c"] unfolding valid_regions[OF u] by auto
  then have m: "memory_part (ecu_memory_regions u) memory" using reset_keeps_memory[OF u] by simp
  show ?thesis
    by (rule committed_readable[OF com assms(1)]) (use u m p in \<open>auto simp: unit_valid_parts faults_part_def\<close>)
qed

lemma corrupt_readable:
  assumes "units_readable s" "find_ecu v i s = Some u" "existing_simulation_command u (mm_command_id c) s = None"
    and "corrupt_ecu_memory e (v, i, c) s = Inr ((r, d), s')"
  shows "units_readable s'"
proof -
  have u: "unit_valid u" using units_readableD[OF assms(1)] find_ecu_row[OF assms(2)] by blast
  obtain m changes where m: "corrupted_memory u c = Inr (m, changes)"
    and com: "ecu_committed (mm_command_id c) u s r (u\<lparr>ecu_memory := m, ecu_version := ecu_version u + 1\<rparr>) s'"
    using corrupt_first(5)[OF assms(2-4)] by blast
  note spec = corrupted_memory_spec[OF u m]
  have bytes: "\<forall>x\<in>set changes. change_ok x" using spec(2) by blast
  have "memory_part (ecu_memory_regions u) m"
  proof (rule memory_part_values)
    show "memory_part (ecu_memory_regions u) (ecu_memory u)" using u by (simp add: unit_valid_parts)
    show "map cell_address m = map cell_address (ecu_memory u)" by (simp add: spec(3))
    show "\<forall>c\<in>set m. 0 \<le> cell_value c \<and> cell_value c \<le> 255"
      unfolding spec(3) using flips_byte[OF bytes] valid_cell[OF u] by (auto simp: int_between_def)
  qed
  then show ?thesis
    by (intro committed_readable[OF com assms(1)]) (use u in \<open>simp add: unit_valid_parts\<close>)
qed

lemma fault_readable:
  assumes "units_readable s" "u \<in> set (ecus s)" "commit_fault e v u i kind request out s = Inr ((r, d), s')"
    and "faults_part (operational_state_after (ecu_operational_state u) (snd (snd out))) (snd (snd out))"
  shows "units_readable s'"
  by (rule committed_readable[OF commit_fault_Inr(5)[OF assms(3)] assms(1)])
    (use units_readableD[OF assms(1,2)] assms(4) in \<open>simp add: unit_valid_parts\<close>)

lemma valid_faults: "unit_valid u \<Longrightarrow> map_ok fault_validate (ecu_faults u) = Inr (ecu_faults u)"
  by (simp add: map_ok_fixed unit_valid_parts faults_part_def)

lemma valid_signals: "unit_valid u \<Longrightarrow> map_ok signal_validate (ecu_signals u) = Inr (ecu_signals u)"
  by (simp add: map_ok_fixed unit_valid_parts signals_part_def)

lemma observe_readable:
  assumes "units_readable s" "find_ecu v i s = Some u" "existing_simulation_command u (fo_command_id c) s = None"
    and "observe_ecu_fault e (v, i, c) s = Inr ((r, d), s')" "faults_room u" "ecu_fault_observation_command_ok c"
  shows "units_readable s'"
proof -
  have u: "u \<in> set (ecus s)" "unit_valid u" using units_readableD[OF assms(1)] find_ecu_row[OF assms(2)] by blast+
  show ?thesis
    by (rule observe_first[OF assms(2-4)])
      (use observed_keeps[OF u(2) assms(5,6)] valid_faults[OF u(2)] fault_readable[OF assms(1) u(1)] in auto)
qed

lemma clear_readable:
  assumes "units_readable s" "find_ecu v i s = Some u" "existing_simulation_command u (cl_command_id c) s = None"
    and "clear_ecu_fault e (v, i, code, c) s = Inr ((r, d), s')" "faults_room u"
  shows "units_readable s'"
proof -
  have u: "u \<in> set (ecus s)" "unit_valid u" using units_readableD[OF assms(1)] find_ecu_row[OF assms(2)] by blast+
  show ?thesis
    by (rule clear_first[OF assms(2-4)])
      (use cleared_keeps[OF u(2) assms(5)] valid_faults[OF u(2)] fault_readable[OF assms(1) u(1)] in auto)
qed

text \<open>A signal that got a new value is a valid signal of the same name and direction.\<close>

lemma signal_with_value_facts:
  assumes "signal_with_value x value t = Inr y"
  shows "signal_validate y = Inr y" "signal_validate x = Inr x \<Longrightarrow> is_signal d name x \<Longrightarrow> is_signal d name y"
    and "sig_value y = value" "sig_updated_at_ms y = t" "sig_data_type y = sig_data_type x"
    and "sig_minimum y = sig_minimum x" "sig_maximum y = sig_maximum x"
proof -
  have v: "signal_validate (x\<lparr>sig_value := value, sig_updated_at_ms := t\<rparr>) = Inr y"
    using assms by (auto simp: signal_with_value_def split: sum.splits app_error.splits)
  then show "signal_validate y = Inr y" by (rule signal_validate_stable)
  obtain name' where n: "validate_signal_name (sig_name x) = Inr name'"
    and y: "y = x\<lparr>sig_value := value, sig_updated_at_ms := t, sig_name := name', sig_unit := strip (sig_unit x)\<rparr>"
    using v by (auto simp: signal_validate_def ok_simps validate_value_and_bounds_def Let_def split: if_splits)
  show "sig_value y = value" "sig_updated_at_ms y = t" "sig_data_type y = sig_data_type x"
    "sig_minimum y = sig_minimum x" "sig_maximum y = sig_maximum x" unfolding y by simp_all
  assume x: "signal_validate x = Inr x" "is_signal d name x"
  then obtain n2 where n2: "validate_signal_name (sig_name x) = Inr n2"
    "validate_value_and_bounds (x\<lparr>sig_name := n2, sig_unit := strip (sig_unit x)\<rparr>) = Inr x"
    by (auto simp: signal_validate_def ok_simps)
  then have "sig_name x = n2"
    by (auto simp: validate_value_and_bounds_def Let_def split: if_splits dest: arg_cong[where f = sig_name])
  then show "is_signal d name y" using x(2) n n2(1) unfolding y by (simp add: is_signal_def)
qed

lemma publish_readable:
  assumes "units_readable s" "find_ecu v i s = Some u" "existing_simulation_command u (pb_command_id c) s = None"
    and "publish_ecu_signal e (v, i, name, c) s = Inr ((r, d), s')"
  shows "units_readable s'"
proof -
  have u: "unit_valid u" using units_readableD[OF assms(1)] find_ecu_row[OF assms(2)] by blast
  then have part: "signals_part (ecu_signals u)" by (simp add: unit_valid_parts)
  obtain x y where x: "find (is_signal PRODUCED name) (ecu_signals u) = Some x"
    and y: "signal_with_value x (pb_value c) (ecu_simulation_time_ms u) = Inr y"
    and com: "ecu_committed (pb_command_id c) u s r
        (u\<lparr>ecu_signals := map (\<lambda>x. if is_signal PRODUCED name x then y else x) (ecu_signals u),
             ecu_version := ecu_version u + 1\<rparr>) s'"
    using publish_first(5)[OF assms(2-4)] valid_signals[OF u] by auto
  have "x \<in> set (ecu_signals u)" "is_signal PRODUCED name x" using x by (auto simp: find_Some_iff)
  then have "is_signal PRODUCED name y"
    using signal_with_value_facts(2)[OF y] part by (simp add: signals_part_def)
  from signals_part_update[OF part signal_with_value_facts(1)[OF y] this]
  show ?thesis by (intro committed_readable[OF com assms(1)]) (use u in \<open>simp add: unit_valid_parts\<close>)
qed

lemma require_signal_valid:
  assumes "signals_part (ecu_signals u)" "require_signal u name d = Inr x"
  shows "x \<in> set (ecu_signals u)" "is_signal d name x" "signal_validate x = Inr x"
  using assms by (auto simp: require_signal_def signals_part_def find_Some_iff split: option.splits)

lemma transfer_readable:
  assumes "units_readable s" "ecu_by_id (sr_source_ecu_id rt) s = Some source" "ecu_by_id (sr_target_ecu_id rt) s = Some u"
    and "existing_simulation_command u (tr_command_id c) s = None"
    and "transfer_signal_route e (v, g, rt, c) s = Inr ((r, d, source', u'), s')"
  shows "units_readable s'"
proof -
  have u: "unit_valid u" using units_readableD[OF assms(1)] ecu_by_id_row[OF assms(3)] by blast
  then have part: "signals_part (ecu_signals u)" by (simp add: unit_valid_parts)
  obtain w x y where x: "require_signal u (sr_target_signal rt) CONSUMED = Inr x"
    and y: "signal_with_value x w (ecu_simulation_time_ms u) = Inr y"
    and u': "u' = u\<lparr>ecu_signals := map (\<lambda>x. if is_signal CONSUMED (sr_target_signal rt) x then y else x) (ecu_signals u),
              ecu_version := ecu_version u + 1\<rparr>"
    and com: "ecu_committed (tr_command_id c) u s r u' s'"
    using transfer_first(7)[OF assms(2-5)] valid_signals[OF u] by auto
  note v = require_signal_valid[OF part x]
  show ?thesis
    using signals_part_update[OF part signal_with_value_facts(1)[OF y] signal_with_value_facts(2)[OF y v(3,2)]] u
    by (intro committed_readable[OF com assms(1)]) (simp add: unit_valid_parts u')
qed

definition counters_safe :: "electronic_control_unit \<Rightarrow> bool" where
  "counters_safe u \<longleftrightarrow> (\<forall>k n. (k, BInt n) \<in> set (ecu_behavior_state u) \<longrightarrow> n \<le> 9007199254740991)"

lemma valid_tasks_ok: "unit_valid u \<Longrightarrow> tasks_ok (ecu_cyclic_tasks u)"
  by (auto simp: unit_valid_def state_valid_def state_of_def tasks_ok_def task_validate_def ok_simps int_between_def
      split: if_splits)

lemma advance_unit_readable:
  assumes "ecu_store_ok s" "unit_valid u" "find_ecu v i s = Some u" "existing_simulation_command u (ad_command_id c) s = None"
    and "execute_ecu_advance e (v, i, c) s = Inr ((r, d), s')" "0 \<le> ad_duration_ms c"
    and "profiled u" "0 \<le> ecu_simulation_time_ms u"
  obtains u' where "ecu_committed (ad_command_id c) u s r u' s'" "find_ecu v i s' = Some u'"
    "unit_valid u' \<longleftrightarrow> counters_safe u'"
proof -
  let ?a = "ecu_simulation_time_ms u" and ?b = "ecu_simulation_time_ms u + ad_duration_ms c"
  obtain b where b: "execute_profile_transitions (behavior_profile (ecu_type u)) (ecu_behavior_state u)
      (task_runs (ecu_cyclic_tasks u) ?a ?b) = Inr b"
    and com: "ecu_committed (ad_command_id c) u s r
          (u\<lparr>ecu_behavior_state := b, ecu_simulation_time_ms := ?b, ecu_version := ecu_version u + 1\<rparr>) s'"
    using advance_first(6)[OF assms(3-5)] unit_valid_payload[OF assms(2)] by (auto simp: state_of_def)
  have "behavior_part b \<longleftrightarrow> (\<forall>k n. (k, BInt n) \<in> set b \<longrightarrow> n \<le> 9007199254740991)"
    using assms(2,6-8) b runs_nonneg[OF valid_tasks_ok[OF assms(2)], of ?a ?b]
    by (intro transitions_bounded[OF _ b]) (auto simp: unit_valid_parts profiled_def)
  then show thesis
    using that[OF com committed_unit[OF assms(1,3) com]] assms(2) by (simp add: unit_valid_parts counters_safe_def)
qed

text \<open>What a command needs beside a valid unit: room in the fault memory, room in the counters.\<close>

fun command_room :: "vehicle \<Rightarrow> ecu_command \<Rightarrow> 'a ecu_store_scheme \<Rightarrow> 'a ecu_store_scheme \<Rightarrow> bool" where
  "command_room v (AdvanceUnit i c) s s' \<longleftrightarrow>
     (\<forall>u. find_ecu v i s = Some u \<longrightarrow> profiled u \<and> 0 \<le> ecu_simulation_time_ms u)
     \<and> (\<forall>u. find_ecu v i s' = Some u \<longrightarrow> counters_safe u)"
| "command_room v (ObserveFault i c) s s' \<longleftrightarrow> (\<forall>u. find_ecu v i s = Some u \<longrightarrow> faults_room u)"
| "command_room v (ClearFault i code c) s s' \<longleftrightarrow> (\<forall>u. find_ecu v i s = Some u \<longrightarrow> faults_room u)"
| "command_room v _ s s' \<longleftrightarrow> True"

lemma advance_readable:
  assumes "ecu_store_ok s" "units_readable s" "execute_ecu_advance e (v, i, c) s = Inr ((r, d), s')"
    and "command_room v (AdvanceUnit i c) s s'" "0 \<le> ad_duration_ms c"
  shows "units_readable s'"
  using assms(3)
proof (cases rule: advances.cases_run)
  case (first u u')
  then have u: "find_ecu v i s = Some u" "existing_simulation_command u (ad_command_id c) s = None" by simp_all
  have v: "unit_valid u" using units_readableD[OF assms(2)] find_ecu_row[OF u(1)] by blast
  have p: "profiled u" "0 \<le> ecu_simulation_time_ms u" using assms(4) u(1) by auto
  show ?thesis
    by (rule advance_unit_readable[OF assms(1) v u assms(3,5) p]) (use assms(4) committed_readable assms(2) in auto)
qed (use assms in simp)

lemma command_readable:
  assumes "ecu_store_ok s" "units_readable s" "run_ecu_command e v c s = Inr ((r, d), s')" "ecu_command_ok c"
    and "command_room v c s s'"
  shows "units_readable s'"
proof (cases c)
  case (AdvanceUnit i k)
  then show ?thesis
    using advance_readable[OF assms(1,2)] assms(3-5) by (simp add: ecu_advance_command_ok_def int_between_def)
next
  case (ResetUnit i k)
  then have run: "execute_ecu_reset e (v, i, k) s = Inr ((r, d), s')" using assms(3) by simp
  then show ?thesis by (cases rule: resets.cases_run) (use run reset_readable[OF assms(2)] assms(2) in auto)
next
  case (CorruptUnit i k)
  then have run: "corrupt_ecu_memory e (v, i, k) s = Inr ((r, d), s')" using assms(3) by simp
  then show ?thesis by (cases rule: corruptions.cases_run) (use run corrupt_readable[OF assms(2)] assms(2) in auto)
next
  case (ObserveFault i k)
  then have run: "observe_ecu_fault e (v, i, k) s = Inr ((r, d), s')" using assms(3) by simp
  then show ?thesis
    by (cases rule: observations.cases_run) (use run observe_readable[OF assms(2)] assms ObserveFault in auto)
next
  case (ClearFault i code k)
  then have run: "clear_ecu_fault e (v, i, code, k) s = Inr ((r, d), s')" using assms(3) by simp
  then show ?thesis
    by (cases rule: clearings.cases_run) (use run clear_readable[OF assms(2)] assms ClearFault in auto)
next
  case (PublishSignal i name k)
  then have run: "publish_ecu_signal e (v, i, name, k) s = Inr ((r, d), s')" using assms(3) by simp
  then show ?thesis by (cases rule: publications.cases_run) (use run publish_readable[OF assms(2)] assms(2) in auto)
next
  case (TransferSignal i j k)
  with assms(3) have "transfer_request e v i j k s = Inr ((r, d), s')" by simp
  then show ?thesis
  proof (rule transfer_request_run)
    fix g rt assume run: "transfer_run e (v, g, rt, k) s = Inr ((r, d), s')"
    then show ?thesis
    proof (cases rule: transfers.cases_run)
      case (first u u')
      obtain source where t: "ecu_by_id (sr_source_ecu_id rt) s = Some source" "ecu_by_id (sr_target_ecu_id rt) s = Some u"
        using first(1) by (auto simp: transfer_target_def split: if_splits)
      have new: "existing_simulation_command u (tr_command_id k) s = None" using first(2) by simp
      show ?thesis using run transfer_readable[OF assms(2) t new] by (auto simp: transfer_run_def ok_simps)
    qed (use assms(2) in simp)
  qed
qed

section \<open>Documents\<close>

lemma payload_eta [simp]:
  "\<lparr>sp_operational_state = sp_operational_state q, sp_memory = sp_memory q, sp_memory_regions = sp_memory_regions q,
     sp_faults = sp_faults q, sp_signals = sp_signals q, sp_cyclic_tasks = sp_cyclic_tasks q,
     sp_behavior_state = sp_behavior_state q\<rparr> = (q :: ecu_state_payload)"
  by simp

lemma create_valid:
  assumes "create_ecu e v c s = Inr (u, s')" shows "unit_valid u \<and> ecus s' = ecus s @ [u]"
proof -
  have "(\<exists>p. state_validate p = Inr (state_of u)) \<and> ecus s' = ecus s @ [u]"
    using assms
    by (auto simp: create_ecu_def Let_def ok_simps table_simps memory_state_def state_of_def split: if_splits option.splits)
  then show ?thesis using state_validate_valid by (auto simp: unit_valid_def)
qed

lemma with_state_valid: "state_validate p = Inr q \<Longrightarrow> unit_valid (with_state u q)"
  using state_validate_valid[of p q] by (simp add: unit_valid_def with_state_def state_of_def)

lemma replace_readable:
  assumes "units_readable s" "replace_ecu_state e v i c s = Inr ((u, d), s')"
  shows "units_readable s'"
  using assms(2)
proof (cases rule: replace_facts)
  case (changed locked requested current)
  have "\<exists>p. state_validate p = Inr requested"
    using changed(3) by (auto simp: requested_state_def memory_state_def ok_simps Let_def split: if_splits)
  then have "unit_valid u"
    using with_state_valid[of _ requested locked] unfolding changed(6) by (auto simp: unit_valid_parts)
  then show ?thesis
    using assms(1) audited_fields(1)[OF changed(7)] by (auto simp: units_readable_def save_ecu_def update_row_def)
qed (use assms(1) in simp)

lemma restore_readable:
  assumes "units_readable s" "find_ecu v i s = Some u" "restore_memory_snapshot e v i n k s = Inr (u', s')"
  shows "units_readable s'"
proof -
  note f = restore_facts[OF assms(2,3)]
  have u: "unit_valid u" using units_readableD[OF assms(1)] find_ecu_row[OF assms(2)] by blast
  obtain q where q: "state_validate ((state_of u)\<lparr>sp_memory := sn_memory n\<rparr>) = Inr q"
    using f(3) unit_valid_payload[OF u] by auto
  have part: "map_ok cell_validate (sn_memory n) = Inr (sp_memory q)" "map_ok region_validate (ecu_memory_regions u) = Inr (sp_memory_regions q)"
    using q by (auto simp: state_validate_def state_of_def ok_simps dest!: require_consistent_same)
  have "sp_memory q = sn_memory n"
    using part(1) cell_validate_stable unfolding map_ok_Inr by (induction rule: list_all2_induct) auto
  moreover have "sp_memory_regions q = ecu_memory_regions u"
    using part(2) u by (simp add: unit_valid_parts regions_part_def map_ok_fixed [symmetric])
  moreover have "state_valid q" by (rule state_validate_valid[OF q])
  ultimately have "memory_part (ecu_memory_regions u) (sn_memory n)"
    unfolding state_valid_def state_bounds_def consistent_iff memory_part_def by auto
  then have "unit_valid u'" using u unfolding f(2) by (simp add: unit_valid_parts)
  then show ?thesis
    using assms(1) audited_fields(1)[OF f(4)] by (auto simp: units_readable_def save_ecu_def update_row_def)
qed

end
