(* ===== verification/EcuExample.thy ===== *)
theory EcuExample
  imports EcuReadable
begin

text \<open>
  A small fleet on which the properties of the control units are witnessed: a body controller with
  two memory regions and a produced signal, a lighting controller that consumes it, and the gateway
  that routes it.
\<close>

section \<open>Units\<close>

definition eu_vehicle :: vehicle where
  "eu_vehicle = \<lparr>veh_id = ''v1'', veh_identifier = ''car-1''\<rparr>"

definition eu_env :: env where
  "eu_env = \<lparr>env_actor = ''u1'', env_correlation = None, env_new_id = ''id1''\<rparr>"

definition eu_signal :: "EcuSignalDirection \<Rightarrow> int \<Rightarrow> ecu_signal" where
  "eu_signal d x = \<lparr>sig_name = ''door_count'', sig_direction = d, sig_data_type = INTEGER, sig_unit = '''',
     sig_minimum = Some 0, sig_maximum = Some 4, sig_cycle_time_ms = None, sig_value = SInt x, sig_updated_at_ms = 0\<rparr>"

definition eu_unit :: "uuid \<Rightarrow> string \<Rightarrow> EcuType \<Rightarrow> electronic_control_unit" where
  "eu_unit j i t = \<lparr>ecu_id = j, ecu_vehicle_id = ''v1'', ecu_identifier = i, ecu_display_name = ''Unit'', ecu_type = t,
     ecu_operational_state = RUNNING, ecu_memory = [], ecu_memory_regions = [], ecu_faults = [], ecu_signals = [],
     ecu_cyclic_tasks = [], ecu_profile_version = ''1.0.0'', ecu_behavior_state = [], ecu_version = 1,
     ecu_simulation_time_ms = 0, ecu_boot_count = 0\<rparr>"

definition eu_body :: electronic_control_unit where
  "eu_body = (eu_unit ''e1'' ''body-1'' BODY)\<lparr>
     ecu_memory := [\<lparr>cell_address = 20, cell_value = 5\<rparr>, \<lparr>cell_address = 3, cell_value = 7\<rparr>],
     ecu_memory_regions := [
       \<lparr>mr_name = ''ram'', mr_kind = VOLATILE, mr_start_address = 0, mr_size = 16, mr_reset_value = 255\<rparr>,
       \<lparr>mr_name = ''nvm'', mr_kind = NON_VOLATILE, mr_start_address = 16, mr_size = 16, mr_reset_value = 0\<rparr>],
     ecu_signals := [eu_signal PRODUCED 2],
     ecu_cyclic_tasks := pf_tasks body_profile, ecu_behavior_state := pf_initial_state body_profile\<rparr>"

definition eu_lights :: electronic_control_unit where
  "eu_lights = (eu_unit ''e2'' ''lights'' LIGHTING)\<lparr>ecu_signals := [eu_signal CONSUMED 0]\<rparr>"

definition eu_gateway :: electronic_control_unit where
  "eu_gateway = eu_unit ''e3'' ''gateway'' ECU_GATEWAY"

definition eu_route :: ecu_signal_route where
  "eu_route = \<lparr>sr_id = ''r1'', sr_gateway_ecu_id = ''e3'', sr_identifier = ''doors'', sr_source_ecu_id = ''e1'',
     sr_source_signal = ''door_count'', sr_target_ecu_id = ''e2'', sr_target_signal = ''door_count'', sr_enabled = True\<rparr>"

definition eu_store :: ecu_store where
  "eu_store = empty_ecu_store\<lparr>ecus := [eu_body, eu_lights, eu_gateway], ecu_routes := [eu_route]\<rparr>"

section \<open>Facts\<close>

lemma eu_store_tables [simp]:
  "ecus eu_store = [eu_body, eu_lights, eu_gateway]" "ecu_commands eu_store = []" "ecu_snapshots eu_store = []"
  "ecu_routes eu_store = [eu_route]" "ecu_scenarios eu_store = []"
  by (simp_all add: eu_store_def empty_ecu_store_def)

lemmas eu_defs = eu_body_def eu_lights_def eu_gateway_def eu_unit_def eu_vehicle_def eu_signal_def

lemma eu_store_ok [simp]: "ecu_store_ok eu_store"
  by (simp add: ecu_store_ok_def ecu_key_def eu_defs)

lemma eu_find [simp]:
  "find_ecu eu_vehicle ''body-1'' eu_store = Some eu_body" "find_ecu eu_vehicle ''lights'' eu_store = Some eu_lights"
  "find_ecu eu_vehicle ''gateway'' eu_store = Some eu_gateway"
  by (simp_all add: find_ecu_def select_def eu_defs)

lemma eu_by_id [simp]: "ecu_by_id ''e1'' eu_store = Some eu_body" "ecu_by_id ''e2'' eu_store = Some eu_lights"
  by (simp_all add: ecu_by_id_def select_def eu_defs)

lemma eu_no_command [simp]: "existing_simulation_command u i eu_store = None"
  by (simp add: existing_simulation_command_def select_def)

lemma eu_body_valid [simp]: "unit_valid eu_body"
  by code_simp

lemma eu_lights_valid [simp]: "unit_valid eu_lights"
  by code_simp

lemma eu_gateway_valid [simp]: "unit_valid eu_gateway"
  by code_simp

lemma eu_readable [simp]: "units_readable eu_store"
  by (simp add: units_readable_def)

lemma eu_body_simps [simp]:
  "ecu_version eu_body = 1" "ecu_operational_state eu_body = RUNNING" "ecu_simulation_time_ms eu_body = 0"
  "ecu_type eu_body = BODY" "ecu_behavior_state eu_body = pf_initial_state body_profile"
  "ecu_cyclic_tasks eu_body = pf_tasks body_profile" "ecu_id eu_body = ''e1''" "ecu_boot_count eu_body = 0"
  "ecu_faults eu_body = []" "ecu_profile_version eu_body = ''1.0.0''"
  by (simp_all add: eu_defs)

lemma not_isl: "\<not> isl x \<Longrightarrow> \<exists>y. x = Inr y"
  by (cases x) auto

end
