(* ===== verification/EcuProperties.thy ===== *)
theory EcuProperties
  imports EcuExample "HOL-Library.Multiset"
begin

text \<open>
  Properties of the control units: time, memory, snapshots and signals.
\<close>

section \<open>Time\<close>

lemma stored_tasks:
  "stored_state_payload u = Inr p \<Longrightarrow> map_ok task_validate (ecu_cyclic_tasks u) = Inr (sp_cyclic_tasks p)"
  by (auto simp: stored_state_payload_def state_validate_def state_of_def ok_simps dest!: require_consistent_same)

lemma stored_tasks_valid: "unit_valid u \<Longrightarrow> stored_state_payload u = Inr p \<Longrightarrow> sp_cyclic_tasks p = ecu_cyclic_tasks u"
  using unit_valid_payload by (fastforce simp: state_of_def)

text \<open>What a run summary says of a task over an interval.\<close>

definition due_run :: "int \<Rightarrow> int \<Rightarrow> ecu_task \<Rightarrow> ecu_task_run_summary \<Rightarrow> bool" where
  "due_run a b t run \<longleftrightarrow> (let due = due_instants (tk_period_ms t) (tk_offset_ms t) a b
     in run_task_id run = tk_task_id t \<and> run_execution_count run = int (card due)
        \<and> run_first_due_ms run = (if due = {} then None else Some (Min due))
        \<and> run_last_due_ms run = (if due = {} then None else Some (Max due)))"

lemma advance_succeeds:
  assumes "find_ecu v i s = Some u" "existing_simulation_command u (ad_command_id c) s = None"
    and "ad_expected_version c = ecu_version u" "ecu_operational_state u \<in> {RUNNING, DEGRADED}"
    and "stored_state_payload u = Inr p"
    and "execute_profile_transitions (behavior_profile (ecu_type u)) (ecu_behavior_state u)
      (task_runs (sp_cyclic_tasks p) (ecu_simulation_time_ms u) (ecu_simulation_time_ms u + ad_duration_ms c)) = Inr b"
  shows "\<exists>r s'. execute_ecu_advance e (v, i, c) s = Inr ((r, False), s')"
proof -
  have op: "\<not> ecu_operational_state u \<notin> {RUNNING, DEGRADED}" using assms(4) by blast
  show ?thesis
    unfolding execute_ecu_advance_def require_ecu_def Let_def
    by (simp add: assms if_not_P[OF op] del: insert_iff)
      (rule recorded_some[OF assms(2)], simp add: command_key_def)
qed

text \<open>C8: A successful advance of a unit reports, for every cyclic task in the order of the task
  identifiers, exactly the instants at which the task was due in the half-open interval from the old to
  the new simulation time: how many there were, the first and the last. The unit moves by the
  requested duration and to the next version.\<close>
theorem advance_runs_due_tasks:
  assumes "unit_valid u" "0 \<le> ecu_simulation_time_ms u" "ecu_advance_command_ok c"
    and "ecu_store_ok s" "find_ecu v i s = Some u" "existing_simulation_command u (ad_command_id c) s = None"
    and "execute_ecu_advance e (v, i, c) s = Inr ((r, d), s')"
  shows "\<exists>runs b u'. ec_result r = AdvanceResult (ad_duration_ms c) runs (ecu_profile_version u) b
    \<and> find_ecu v i s' = Some u' \<and> ecu_behavior_state u' = b \<and> ecu_version u' = ecu_version u + 1
    \<and> ecu_simulation_time_ms u' = ecu_simulation_time_ms u + ad_duration_ms c
    \<and> list_all2 (due_run (ecu_simulation_time_ms u) (ecu_simulation_time_ms u'))
        (sort_key tk_task_id (ecu_cyclic_tasks u)) runs"
proof -
  let ?a = "ecu_simulation_time_ms u" and ?b = "ecu_simulation_time_ms u + ad_duration_ms c"
  obtain p b where p: "stored_state_payload u = Inr p"
    and r: "ec_result r = AdvanceResult (ad_duration_ms c) (task_runs (sp_cyclic_tasks p) ?a ?b) (ecu_profile_version u) b"
    and com: "ecu_committed (ad_command_id c) u s r
          (u\<lparr>ecu_behavior_state := b, ecu_simulation_time_ms := ?b, ecu_version := ecu_version u + 1\<rparr>) s'"
    using advance_first(6)[OF assms(5-7)] by blast
  have tasks: "sp_cyclic_tasks p = ecu_cyclic_tasks u" by (rule stored_tasks_valid[OF assms(1) p])
  have le: "?a \<le> ?b" using assms(3) by (simp add: ecu_advance_command_ok_def int_between_def)
  have ok: "0 < tk_period_ms t" "0 \<le> tk_offset_ms t" "tk_offset_ms t < tk_period_ms t"
    if "t \<in> set (sort_key tk_task_id (ecu_cyclic_tasks u))" for t
    using valid_tasks_ok[OF assms(1)] that by (simp_all add: tasks_ok_def)
  show ?thesis
    using committed_unit[OF assms(4,5) com] r unfolding tasks task_runs_def
    by (intro exI conjI) (auto simp: list_all2_map2 list_all2_same Let_def due_run_def
        task_run_exact[OF ok assms(2) le refl refl] )
qed

definition eu_advance :: "int \<Rightarrow> int \<Rightarrow> ecu_advance_command" where
  "eu_advance k n = \<lparr>ad_command_id = (if k = 1 then ''advance-1'' else ''advance-2''), ad_expected_version = k,
     ad_duration_ms = n\<rparr>"

definition eu_counters :: "(string \<times> behavior_value) list" where
  "eu_counters = [(''body_control_cycles'', BInt 1), (''occupant_samples'', BInt 1), (''cabin_awake'', BBool False)]"

lemma eu_transitions:
  "execute_profile_transitions body_profile (pf_initial_state body_profile) (task_runs (pf_tasks body_profile) 0 60)
    = Inr eu_counters"
  "\<not> isl (execute_profile_transitions body_profile eu_counters (task_runs (pf_tasks body_profile) 60 600))"
  by code_simp+

lemma eu_advance_runs:
  "\<exists>r s'. execute_ecu_advance eu_env (eu_vehicle, ''body-1'', eu_advance 1 60) eu_store = Inr ((r, False), s')"
  using eu_transitions(1)
  by (intro advance_succeeds[OF eu_find(1) eu_no_command _ _ unit_valid_payload[OF eu_body_valid], where b = eu_counters])
    (simp_all add: eu_advance_def state_of_def)

lemma eu_advance_ok: "ecu_advance_command_ok (eu_advance 1 60)"
  by code_simp

theorem advance_runs_due_tasks_witness:
  "\<exists>r s'. execute_ecu_advance eu_env (eu_vehicle, ''body-1'', eu_advance 1 60) eu_store = Inr ((r, False), s')
    \<and> (\<exists>runs b u'. ec_result r = AdvanceResult 60 runs ''1.0.0'' b
      \<and> find_ecu eu_vehicle ''body-1'' s' = Some u' \<and> ecu_simulation_time_ms u' = 60 \<and> length runs = 2)"
proof -
  obtain r s' where run: "execute_ecu_advance eu_env (eu_vehicle, ''body-1'', eu_advance 1 60) eu_store = Inr ((r, False), s')"
    using eu_advance_runs by blast
  have time: "0 \<le> ecu_simulation_time_ms eu_body" by simp
  obtain runs b u' where w: "ec_result r = AdvanceResult (ad_duration_ms (eu_advance 1 60)) runs (ecu_profile_version eu_body) b
    \<and> find_ecu eu_vehicle ''body-1'' s' = Some u' \<and> ecu_behavior_state u' = b \<and> ecu_version u' = ecu_version eu_body + 1
    \<and> ecu_simulation_time_ms u' = ecu_simulation_time_ms eu_body + ad_duration_ms (eu_advance 1 60)
    \<and> list_all2 (due_run (ecu_simulation_time_ms eu_body) (ecu_simulation_time_ms u'))
        (sort_key tk_task_id (ecu_cyclic_tasks eu_body)) runs"
    using advance_runs_due_tasks[OF eu_body_valid time eu_advance_ok eu_store_ok eu_find(1) eu_no_command run]
    by (elim exE)
  have "length (ecu_cyclic_tasks eu_body) = 2" by (simp add: body_profile_def profile_def)
  moreover have "length runs = length (ecu_cyclic_tasks eu_body)" using w list_all2_lengthD by fastforce
  ultimately show ?thesis
    using run w by (intro exI[of _ r] exI[of _ s'] conjI exI[of _ runs] exI[of _ b] exI[of _ u'])
      (simp_all add: eu_advance_def eu_defs)
qed

text \<open>C9: Advancing is additive: two successful advances in a row leave a unit with the same
  simulation time and the same behaviour state as one advance by the sum of the durations, which also
  succeeds; the two units differ in nothing else but the version. So how a client slices a period
  does not matter.\<close>
theorem advance_additive:
  assumes "unit_valid u" "0 \<le> ecu_simulation_time_ms u" "ecu_store_ok s" "find_ecu v i s = Some u"
    and "existing_simulation_command u (ad_command_id c1) s = None" "0 \<le> ad_duration_ms c1" "0 \<le> ad_duration_ms c2"
    and "execute_ecu_advance e (v, i, c1) s = Inr ((r1, False), s1)"
    and "execute_ecu_advance e (v, i, c2) s1 = Inr ((r2, False), s2)"
    and "existing_simulation_command u (ad_command_id c3) s = None" "ad_expected_version c3 = ecu_version u"
    and "ad_duration_ms c3 = ad_duration_ms c1 + ad_duration_ms c2"
  shows "\<exists>r3 s3 u2 u3. execute_ecu_advance e (v, i, c3) s = Inr ((r3, False), s3)
    \<and> find_ecu v i s2 = Some u2 \<and> find_ecu v i s3 = Some u3
    \<and> map_of (ecu_behavior_state u3) = map_of (ecu_behavior_state u2)
    \<and> u3\<lparr>ecu_behavior_state := [], ecu_version := 0\<rparr> = u2\<lparr>ecu_behavior_state := [], ecu_version := 0\<rparr>"
proof -
  let ?t0 = "ecu_simulation_time_ms u" and ?p = "behavior_profile (ecu_type u)" and ?ts = "ecu_cyclic_tasks u"
  let ?t1 = "?t0 + ad_duration_ms c1" and ?t2 = "?t0 + ad_duration_ms c1 + ad_duration_ms c2"
  let ?u = "\<lambda>b t k. u\<lparr>ecu_behavior_state := b, ecu_simulation_time_ms := t, ecu_version := k\<rparr>"
  note ok = valid_tasks_ok[OF assms(1)]
  have payload: "stored_state_payload u = Inr (state_of u)" by (rule unit_valid_payload[OF assms(1)])
  obtain b1 where b1: "execute_profile_transitions ?p (ecu_behavior_state u) (task_runs ?ts ?t0 ?t1) = Inr b1"
    and com1: "ecu_committed (ad_command_id c1) u s r1 (?u b1 ?t1 (ecu_version u + 1)) s1"
    using advance_first(6)[OF assms(4,5,8)] payload by (auto simp: state_of_def)
  let ?u1 = "?u b1 ?t1 (ecu_version u + 1)"
  have ok1: "ecu_store_ok s1" using advances.run_ok[OF assms(3,8)] by blast
  have u1: "find_ecu v i s1 = Some ?u1" by (rule committed_unit[OF assms(3,4) com1])
  have new: "existing_simulation_command ?u1 (ad_command_id c2) s1 = None"
    using assms(9) u1 by (cases rule: advances.cases_run) auto
  obtain p1 b2 where p1: "stored_state_payload ?u1 = Inr p1"
    and b2: "execute_profile_transitions ?p b1 (task_runs (sp_cyclic_tasks p1) ?t1 ?t2) = Inr b2"
    and com2: "ecu_committed (ad_command_id c2) ?u1 s1 r2 (?u b2 ?t2 (ecu_version u + 1 + 1)) s2"
    using advance_first(6)[OF u1 new assms(9)] by auto
  have "map_ok task_validate ?ts = Inr (sp_cyclic_tasks p1)" using stored_tasks[OF p1] by simp
  moreover have "map_ok task_validate ?ts = Inr ?ts"
    using assms(1) by (simp add: map_ok_fixed unit_valid_def state_valid_def state_of_def)
  ultimately have ts: "sp_cyclic_tasks p1 = ?ts" by simp
  have runs: "\<forall>r\<in>set (task_runs ?ts ?t0 ?t1). 0 \<le> run_execution_count r"
    "\<forall>r\<in>set (task_runs ?ts ?t1 ?t2). 0 \<le> run_execution_count r" "\<forall>r\<in>set (task_runs ?ts ?t0 ?t2). 0 \<le> run_execution_count r"
    using assms(2,6,7) by (intro runs_nonneg[OF ok]; simp)+
  have split: "increment ?p (task_runs ?ts ?t0 ?t2)
      = (\<lambda>k. increment ?p (task_runs ?ts ?t0 ?t1) k + increment ?p (task_runs ?ts ?t1 ?t2) k)"
    using assms(2,6,7) by (intro runs_split[OF ok]) auto
  obtain b3 where b3: "execute_profile_transitions ?p (ecu_behavior_state u) (task_runs ?ts ?t0 ?t2) = Inr b3"
      "map_of b3 = map_of b2"
    using transitions_add[OF runs split b1 b2[unfolded ts]] by blast
  have st: "ecu_operational_state u \<in> {RUNNING, DEGRADED}" by (rule advance_first(2)[OF assms(4,5,8)])
  have "execute_profile_transitions ?p (ecu_behavior_state u)
      (task_runs (sp_cyclic_tasks (state_of u)) ?t0 (?t0 + ad_duration_ms c3)) = Inr b3"
    using b3(1) by (simp add: assms(12) state_of_def add.assoc)
  from advance_succeeds[OF assms(4,10,11) st payload this]
  obtain r3 s3 where run3: "execute_ecu_advance e (v, i, c3) s = Inr ((r3, False), s3)" by blast
  then obtain b3' where "execute_profile_transitions ?p (ecu_behavior_state u) (task_runs ?ts ?t0 ?t2) = Inr b3'"
    and com3: "ecu_committed (ad_command_id c3) u s r3 (?u b3' ?t2 (ecu_version u + 1)) s3"
    using advance_first(6)[OF assms(4,10) run3] payload by (auto simp: state_of_def assms(12) add.assoc)
  then have "b3' = b3" using b3(1) by simp
  then show ?thesis
    using run3 committed_unit[OF assms(3,4) com3] committed_unit[OF ok1 u1 com2] b3(2) by auto
qed

theorem advance_additive_witness:
  "\<exists>r1 s1 r2 s2 r3 s3 u2 u3.
    execute_ecu_advance eu_env (eu_vehicle, ''body-1'', eu_advance 1 60) eu_store = Inr ((r1, False), s1)
    \<and> execute_ecu_advance eu_env (eu_vehicle, ''body-1'', eu_advance 2 540) s1 = Inr ((r2, False), s2)
    \<and> execute_ecu_advance eu_env (eu_vehicle, ''body-1'', eu_advance 1 600) eu_store = Inr ((r3, False), s3)
    \<and> find_ecu eu_vehicle ''body-1'' s2 = Some u2 \<and> find_ecu eu_vehicle ''body-1'' s3 = Some u3
    \<and> map_of (ecu_behavior_state u3) = map_of (ecu_behavior_state u2)"
proof -
  let ?c1 = "eu_advance 1 60" and ?c2 = "eu_advance 2 540" and ?c3 = "eu_advance 1 600"
  let ?u1 = "eu_body\<lparr>ecu_behavior_state := eu_counters, ecu_simulation_time_ms := 60, ecu_version := 2\<rparr>"
  have dur: "ad_duration_ms ?c1 = 60" "ad_duration_ms ?c2 = 540" "ad_duration_ms ?c3 = ad_duration_ms ?c1 + ad_duration_ms ?c2"
    "ad_expected_version ?c2 = 2" "ad_expected_version ?c3 = 1" "ad_command_id ?c2 \<noteq> ad_command_id ?c1"
    by (simp_all add: eu_advance_def)
  obtain r1 s1 where run1: "execute_ecu_advance eu_env (eu_vehicle, ''body-1'', ?c1) eu_store = Inr ((r1, False), s1)"
    using eu_advance_runs by blast
  have com: "ecu_committed (ad_command_id ?c1) eu_body eu_store r1 ?u1 s1"
    using advance_first(6)[OF eu_find(1) eu_no_command run1] unit_valid_payload[OF eu_body_valid] eu_transitions(1)
    by (auto simp: dur state_of_def)
  note u1 = committed_unit[OF eu_store_ok eu_find(1) com]
  have valid: "unit_valid ?u1" by code_simp
  obtain b where b: "execute_profile_transitions body_profile eu_counters (task_runs (pf_tasks body_profile) 60 600) = Inr b"
    using not_isl[OF eu_transitions(2)] by blast
  have "\<exists>r s'. execute_ecu_advance eu_env (eu_vehicle, ''body-1'', ?c2) s1 = Inr ((r, False), s')"
    by (rule advance_succeeds[OF u1 committed_fresh[OF com eu_no_command dur(6)] _ _ unit_valid_payload[OF valid], where b = b])
      (use b in \<open>simp_all add: dur state_of_def\<close>)
  then obtain r2 s2 where run2: "execute_ecu_advance eu_env (eu_vehicle, ''body-1'', ?c2) s1 = Inr ((r2, False), s2)" by blast
  have time: "0 \<le> ecu_simulation_time_ms eu_body" "0 \<le> ad_duration_ms ?c1" "0 \<le> ad_duration_ms ?c2"
    "ad_expected_version ?c3 = ecu_version eu_body" by (simp_all add: dur)
  obtain r3 s3 u2 u3 where run3: "execute_ecu_advance eu_env (eu_vehicle, ''body-1'', ?c3) eu_store = Inr ((r3, False), s3)
    \<and> find_ecu eu_vehicle ''body-1'' s2 = Some u2 \<and> find_ecu eu_vehicle ''body-1'' s3 = Some u3
    \<and> map_of (ecu_behavior_state u3) = map_of (ecu_behavior_state u2)
    \<and> u3\<lparr>ecu_behavior_state := [], ecu_version := 0\<rparr> = u2\<lparr>ecu_behavior_state := [], ecu_version := 0\<rparr>"
    using advance_additive[OF eu_body_valid time(1) eu_store_ok eu_find(1) eu_no_command time(2,3) run1 run2
      eu_no_command time(4) dur(3)] by (elim exE)
  then show ?thesis using run1 run2 by blast
qed

section \<open>Reset\<close>

text \<open>C10: A reset of a readable unit that names its version always succeeds, whatever the mode. It
  leaves non-volatile memory, faults, signals and the behaviour state alone; volatile cells take the
  reset value of their region unless the reset is soft; the unit counts one boot, its clock moves by
  the duration of the mode, and it ends in \<open>FAULT\<close> exactly when a critical fault is confirmed, in
  \<open>OFFLINE\<close> otherwise. The reported flag says truly whether the memory was preserved, and the unit
  stays readable.\<close>
theorem reset_succeeds:
  assumes "unit_valid u" "ecu_store_ok s" "find_ecu v i s = Some u"
    and "existing_simulation_command u (rs_command_id c) s = None" "rs_expected_version c = ecu_version u"
  shows "\<exists>r s' u' cleared preserved. execute_ecu_reset e (v, i, c) s = Inr ((r, False), s') \<and> find_ecu v i s' = Some u'
    \<and> u' = u\<lparr>ecu_memory := map (cell_after_reset (rs_mode c) (ecu_memory_regions u)) (ecu_memory u),
        ecu_operational_state := (if list_ex confirmed_critical (ecu_faults u) then FAULT else OFFLINE),
        ecu_boot_count := ecu_boot_count u + 1,
        ecu_simulation_time_ms := ecu_simulation_time_ms u + reset_duration_ms (rs_mode c),
        ecu_version := ecu_version u + 1\<rparr>
    \<and> ec_result r = ResetResult (rs_mode c) (reset_duration_ms (rs_mode c)) (ecu_boot_count u')
        (ecu_memory u' = ecu_memory u) cleared preserved True
    \<and> unit_valid u'"
proof -
  let ?rs = "if ecu_memory_regions u = [] then [default_region] else ecu_memory_regions u"
  let ?m = "map (cell_after_reset (rs_mode c) (ecu_memory_regions u)) (ecu_memory u)"
  obtain x y where m: "reset_memory (rs_mode c) ?rs (ecu_memory u) = Inr (?m, x, y)" "x = 0 \<longleftrightarrow> ?m = ecu_memory u"
    using reset_memory_spec[OF assms(1), of "rs_mode c"] by blast
  have "\<exists>r s'. execute_ecu_reset e (v, i, c) s = Inr ((r, False), s')"
    unfolding execute_ecu_reset_def require_ecu_def Let_def
    by (simp add: assms(3-5) unit_valid_payload[OF assms(1)] valid_regions[OF assms(1)] m(1) split del: if_split)
      (rule recorded_some[OF assms(4)], simp add: command_key_def)
  then obtain r s' where run: "execute_ecu_reset e (v, i, c) s = Inr ((r, False), s')" by blast
  let ?u = "u\<lparr>ecu_operational_state := (if list_ex confirmed_critical (ecu_faults u) then FAULT else OFFLINE),
             ecu_memory := ?m, ecu_simulation_time_ms := ecu_simulation_time_ms u + reset_duration_ms (rs_mode c),
             ecu_boot_count := ecu_boot_count u + 1, ecu_version := ecu_version u + 1\<rparr>"
  have f: "ec_result r = ResetResult (rs_mode c) (reset_duration_ms (rs_mode c)) (ecu_boot_count u + 1) (x = 0) x y True"
    and com: "ecu_committed (rs_command_id c) u s r ?u s'"
    using reset_first(5)[OF assms(3,4) run] m(1) unfolding unit_valid_payload[OF assms(1)] valid_regions[OF assms(1)]
    by (auto simp: state_of_def)
  have "memory_part (ecu_memory_regions u) ?m" by (rule reset_keeps_memory[OF assms(1)])
  then have "unit_valid ?u" using assms(1) by (auto simp: unit_valid_parts faults_part_def)
  then show ?thesis
    using run committed_unit[OF assms(2,3) com] f m(2)
    by (intro exI[of _ r] exI[of _ s'] exI[of _ ?u] exI[of _ x] exI[of _ y]) auto
qed

theorem reset_succeeds_witness:
  "\<exists>r s' u'. execute_ecu_reset eu_env (eu_vehicle, ''body-1'',
      \<lparr>rs_command_id = ''reset-001'', rs_expected_version = 1, rs_mode = HARD\<rparr>) eu_store = Inr ((r, False), s')
    \<and> find_ecu eu_vehicle ''body-1'' s' = Some u' \<and> ecu_operational_state u' = OFFLINE
    \<and> ecu_memory u' = [\<lparr>cell_address = 20, cell_value = 5\<rparr>, \<lparr>cell_address = 3, cell_value = 255\<rparr>]"
proof -
  let ?c = "\<lparr>rs_command_id = ''reset-001'', rs_expected_version = 1, rs_mode = HARD\<rparr> :: ecu_reset_command"
  have v: "rs_expected_version ?c = ecu_version eu_body" by simp
  have m: "map (cell_after_reset HARD (ecu_memory_regions eu_body)) (ecu_memory eu_body)
      = [\<lparr>cell_address = 20, cell_value = 5\<rparr>, \<lparr>cell_address = 3, cell_value = 255\<rparr>]" by code_simp
  show ?thesis using reset_succeeds[OF eu_body_valid eu_store_ok eu_find(1) eu_no_command v, of eu_env] m by fastforce
qed

section \<open>Snapshots\<close>

lemma restore_succeeds:
  assumes "find_ecu v i s = Some u" "stored_state_payload u = Inr p" "state_validate (p\<lparr>sp_memory := sn_memory n\<rparr>) = Inr q"
  shows "\<exists>s'. restore_memory_snapshot e v i n (ecu_version u) s
    = Inr (u\<lparr>ecu_memory := sn_memory n, ecu_version := ecu_version u + 1\<rparr>, s')"
  unfolding restore_memory_snapshot_def require_ecu_def Let_def by (simp add: assms)

lemma canonical_mset: "mset (canonical_memory m) = mset m"
  by (simp add: canonical_memory_def)

lemma canonical_part: "memory_part rs m \<Longrightarrow> memory_part rs (canonical_memory m)"
  by (simp add: memory_part_def canonical_memory_def distinct_map)

text \<open>C11: A memory snapshot is never lost and gives the memory back: whatever requests succeed in
  between, the unit finds the snapshot under its identifier, and as long as its regions are those of
  the snapshot and its state is readable, restoring it with the current version succeeds. The memory
  then holds exactly the cells of the time of the snapshot, in address order, with the checksum the
  snapshot recorded, and nothing else of the unit changes but the version.\<close>
theorem snapshot_restores:
  assumes "ecu_store_ok s" "find_ecu v i s = Some u" "unit_valid u" "create_memory_snapshot e v i c s = Inr (n, s1)"
    and "ecu_steps s1 s2" "find_ecu v i s2 = Some u2" "unit_valid u2" "ecu_memory_regions u2 = ecu_memory_regions u"
  shows "require_memory_snapshot u2 (sn_id n) s2 = Inr n
    \<and> (\<exists>u3 s3. restore_memory_snapshot e' v i n (ecu_version u2) s2 = Inr (u3, s3) \<and> find_ecu v i s3 = Some u3
      \<and> mset (ecu_memory u3) = mset (ecu_memory u) \<and> sorted (map cell_address (ecu_memory u3))
      \<and> memory_checksum (ecu_memory u3) = sn_checksum_sha256 n \<and> unit_valid u3
      \<and> u3 = u2\<lparr>ecu_memory := ecu_memory u3, ecu_version := ecu_version u2 + 1\<rparr>)"
proof -
  have ok1: "ecu_store_ok s1" using snapshot_moved[OF assms(1,4)] by (simp add: moved_on_def)
  then have m: "moved_on s1 s2" using ecu_steps_moved[OF assms(5)] by blast
  then have ok2: "ecu_store_ok s2" and grows: "ecu_grows s1 s2" by (simp_all add: moved_on_def)
  have n: "sn_memory n = canonical_memory (ecu_memory u)" "sn_checksum_sha256 n = memory_checksum (sn_memory n)"
    using snapshot_facts[OF assms(4)] assms(2) by (metis option.inject)+
  let ?u3 = "u2\<lparr>ecu_memory := sn_memory n, ecu_version := ecu_version u2 + 1\<rparr>"
  have "memory_part (ecu_memory_regions u2) (sn_memory n)"
    using assms(3) canonical_part unfolding n(1) assms(8) by (simp add: unit_valid_parts)
  then have valid: "unit_valid (u2\<lparr>ecu_memory := sn_memory n\<rparr>)" "unit_valid ?u3"
    using assms(7) by (simp_all add: unit_valid_parts)
  have "state_validate ((state_of u2)\<lparr>sp_memory := sn_memory n\<rparr>) = Inr ((state_of u2)\<lparr>sp_memory := sn_memory n\<rparr>)"
    using valid(1) by (simp add: state_validate_fixed unit_valid_def state_of_def)
  then obtain s3 where run: "restore_memory_snapshot e' v i n (ecu_version u2) s2 = Inr (?u3, s3)"
    using restore_succeeds[OF assms(6) unit_valid_payload[OF assms(7)]] by blast
  have e: "ecus s3 = update_row ecu_id ?u3 (ecus s2)"
    using audited_fields(1)[OF restore_facts(4)[OF assms(6) run]] by (simp add: save_ecu_def)
  have "find_ecu v i s3 = Some ?u3"
    by (rule find_ecu_update[OF ok2 assms(6) _ e]) (simp add: same_unit_def)
  then show ?thesis
    using snapshot_found[OF assms(4) grows assms(6)] run valid(2) n canonical_mset
    by (intro conjI exI[of _ ?u3] exI[of _ s3]) (simp_all add: canonical_memory_def)
qed

theorem snapshot_restores_witness:
  "\<exists>n s1 u3 s3. create_memory_snapshot eu_env eu_vehicle ''body-1'' \<lparr>ss_name = ''before''\<rparr> eu_store = Inr (n, s1)
    \<and> restore_memory_snapshot eu_env eu_vehicle ''body-1'' n 1 s1 = Inr (u3, s3)
    \<and> mset (ecu_memory u3) = mset [\<lparr>cell_address = 3, cell_value = 7\<rparr>, \<lparr>cell_address = 20, cell_value = 5\<rparr>]"
proof -
  obtain n s1 where run: "create_memory_snapshot eu_env eu_vehicle ''body-1'' \<lparr>ss_name = ''before''\<rparr> eu_store = Inr (n, s1)"
    by (simp add: create_memory_snapshot_def require_ecu_def Let_def insert_row_def)
  have same: "ecus s1 = ecus eu_store" by (rule snapshot_facts[OF run])
  then have f: "find_ecu eu_vehicle ''body-1'' s1 = Some eu_body" using eu_find(1) by (simp add: find_ecu_def)
  have "mset (ecu_memory eu_body) = mset [\<lparr>cell_address = 3, cell_value = 7\<rparr>, \<lparr>cell_address = 20, cell_value = 5\<rparr>]"
    by (simp add: eu_defs)
  then show ?thesis
    using snapshot_restores[OF eu_store_ok eu_find(1) eu_body_valid run rtranclp.rtrancl_refl f eu_body_valid refl, of eu_env] run
    by fastforce
qed

section \<open>Corruption\<close>






end
