(* ===== verification/CanBusOff.thy ===== *)
theory CanBusOff
  imports CanReach
begin

text \<open>
  What one request does to bus-off nodes: it changes at most one network, a node that is bus-off there
  transmits nothing, and it stays bus-off unless the request is a recovery of that very node.
\<close>

definition recovers :: "can_network \<Rightarrow> uuid \<Rightarrow> can_fault_execution \<Rightarrow> bool" where
  "recovers n node f \<longleftrightarrow> fx_network_id f = net_id n \<and> fx_operation f = ''recover'' \<and> fx_target_node_id f = node"

definition network_step :: "can_network \<Rightarrow> can_network \<Rightarrow> 'a can_store_scheme \<Rightarrow> 'a can_store_scheme \<Rightarrow> bool" where
  "network_step m m' s s' \<longleftrightarrow> m \<in> set (networks s) \<and> net_id m' = net_id m \<and> net_vehicle_id m' = net_vehicle_id m
     \<and> networks s' = update_row net_id m' (networks s)
     \<and> (\<exists>xs fs. transmissions s' = transmissions s @ xs \<and> fault_executions s' = fault_executions s @ fs
          \<and> (\<forall>x\<in>set xs. tx_network_id x = net_id m \<and> \<not> is_bus_off m (tx_producer_node_id x))
          \<and> (\<forall>node. is_bus_off m node \<longrightarrow> is_bus_off m' node \<or> (\<exists>f\<in>set fs. recovers m node f)))"

definition quiet_step :: "'a can_store_scheme \<Rightarrow> 'a can_store_scheme \<Rightarrow> bool" where
  "quiet_step s s' \<longleftrightarrow> s' = s
     \<or> (\<exists>n. networks s' = networks s @ [n] \<and> transmissions s' = transmissions s \<and> fault_executions s' = fault_executions s)
     \<or> (\<exists>m m'. network_step m m' s s')"

lemma is_bus_off_cong: "net_error_states m = net_error_states n \<Longrightarrow> is_bus_off m = is_bus_off n"
  by (simp add: is_bus_off_def node_error_state_def fun_eq_iff)

text \<open>A request that leaves the error counters of its network alone.\<close>

lemma network_step_commit:
  assumes "vehicle_network v s = Some n" "net_id m = net_id n" "net_vehicle_id m = net_vehicle_id n"
    and "networks t = networks s" "transmissions t = transmissions s @ xs" "fault_executions t = fault_executions s @ fs"
    and "\<And>x. x \<in> set xs \<Longrightarrow> tx_network_id x = net_id n \<and> \<not> is_bus_off n (tx_producer_node_id x)"
    and "\<And>node. is_bus_off n node \<Longrightarrow> is_bus_off m node \<or> (\<exists>f\<in>set fs. recovers n node f)"
  shows "network_step n m s (commit_network e et ac p m t)"
  using assms vehicle_network_in[OF assms(1)] by (auto simp: network_step_def)

lemma quiet_commit:
  assumes "vehicle_network v s = Some n" "net_id m = net_id n" "net_vehicle_id m = net_vehicle_id n"
    and "networks t = networks s" "transmissions t = transmissions s" "fault_executions t = fault_executions s"
    and "net_error_states m = net_error_states n"
  shows "quiet_step s (commit_network e et ac p m t)"
  using network_step_commit[OF assms(1-4), of "[]" "[]" e et ac p] assms(5,6) is_bus_off_cong[OF assms(7)]
  unfolding quiet_step_def by auto

section \<open>Frames and arbitrations\<close>

lemma submit_quiet:
  assumes "submit_can_frame e (v, c) s = Inr ((tx, n', d), s')" shows "quiet_step s s'"
  using assms
proof (cases rule: frames.cases_run)
  case (first n)
  then have n: "vehicle_network v s = Some n" "find_execution tx_key n (sc_command_id c) (transmissions s) = None"
    by (auto simp: committed_def)
  note f = submit_first[OF n assms]
  obtain p where s': "s' = commit_network e ''atep.can.frame.submitted.v1'' ''can.frame_submitted'' p n'
           (s\<lparr>transmissions := transmissions s @ [tx]\<rparr>)" using f(10) by blast
  have "network_step n n' s s'"
    unfolding s' by (rule network_step_commit[OF n(1), where xs = "[tx]" and fs = "[]"])
      (use f(1,2,5,8) is_bus_off_cong[of n' n] in \<open>auto simp: after_frame_def tx_key_def\<close>)
  then show ?thesis unfolding quiet_step_def by blast
qed (simp add: quiet_step_def)

lemma arbitration_quiet:
  assumes "can_inv s" "execute_arbitration e (v, c) s = Inr ((r, n', d), s')" shows "quiet_step s s'"
  using assms(2)
proof (cases rule: arbiter.cases_run)
  case (first n)
  then have n: "vehicle_network v s = Some n" "find_execution ax_key n (ac_command_id c) (arbitrations s) = None"
    by (auto simp: committed_def)
  have contracts: "contracts_ok n" using vehicle_network_ok[OF assms(1) n(1)] by (simp add: network_ok_def)
  show ?thesis
  proof (rule arbitration_first[OF n assms(2)])
    fix ws frames u ordered p
    assume res: "resolve_contenders n c = Inr ws" and arb: "arbitrate n ws = (frames, u)"
      and n': "n' = after_arbitration n frames u"
      and s': "s' = commit_network e ''atep.can.arbitration.completed.v1'' ''can.arbitration_executed'' p n'
        (s\<lparr>arbitrations := arbitrations s @ [r], transmissions := transmissions s
           @ map (arbitration_transmission e n c) (zip frames ordered)\<rparr>)"
    obtain order where sched: "bus_schedule n (mset ws) (net_simulation_time_us n) 0 order frames (ut_window_end_us u)"
      using arbitrate_schedule(1)[OF arb] by blast
    have on: "\<not> is_bus_off n (af_producer_node_id f)" if f: "f \<in> set frames" for f
    proof (rule schedule_frame_of[OF sched f])
      fix w assume "w \<in># mset ws" "frame_from n w f"
      then show ?thesis using resolved_contenders(3)[OF contracts res] frame_from_facts(7) by auto
    qed
    have "network_step n n' s s'"
      unfolding s'
      by (rule network_step_commit[OF n(1), where xs = "map (arbitration_transmission e n c) (zip frames ordered)" and fs = "[]"])
        (use on is_bus_off_cong[of n' n] in \<open>auto simp: n' after_arbitration_def arbitration_transmission_def dest: set_zip_leftD\<close>)
    then show ?thesis unfolding quiet_step_def by blast
  qed
qed (simp add: quiet_step_def)

section \<open>Faults and recoveries\<close>

lemma inject_quiet:
  assumes "can_fault_injection_command_ok c" "inject_fault e (v, c) s = Inr ((r, n', d), s')" shows "quiet_step s s'"
  using assms(2)
proof (cases rule: injections.cases_run)
  case (first n)
  then have n: "vehicle_network v s = Some n" "find_execution fx_key n (fi_command_id c) (fault_executions s) = None"
    by (auto simp: committed_def)
  note f = inject_first[OF n assms(2)]
  obtain p where s': "s' = commit_network e ''atep.can.fault.injected.v1'' ''can.fault_injected'' p n'
           (s\<lparr>fault_executions := fault_executions s @ [r]\<rparr>)" using f(11) by blast
  let ?m = "snd (set_node_error_state n (fi_target_node_id c) (fst (injected_counts n c)) (snd (injected_counts n c)))"
  have off: "is_bus_off n' node" if "is_bus_off n node" for node
  proof (cases "node = fi_target_node_id c")
    case True
    have "256 \<le> transmit_error_count (node_error_state n node)"
      using that by (auto simp: is_bus_off_def node_error_state_def derive_error_mode_def Let_def split: if_splits prod.splits)
    then have "256 \<le> fst (injected_counts n c)"
      using assms(1) True by (auto simp: injected_counts_def fault_effect_def Let_def
          can_fault_injection_command_ok_def int_between_def split: CanFaultType.splits)
    then have "error_mode (node_error_state ?m node) = BUS_OFF"
      unfolding True node_error_state_set_same by (simp add: set_node_error_state_def derive_error_mode_def Let_def)
    then show ?thesis using is_bus_off_cong[OF f(9)] by (simp add: is_bus_off_def)
  next
    case False
    then show ?thesis using that is_bus_off_cong[OF f(9)] by (simp add: is_bus_off_def node_error_state_set_other)
  qed
  have "network_step n n' s s'"
    unfolding s' by (rule network_step_commit[OF n(1), where xs = "[]" and fs = "[r]"]) (use f(6,7) off in auto)
  then show ?thesis unfolding quiet_step_def by blast
qed (simp add: quiet_step_def)

lemma recover_row:
  assumes "vehicle_network v s = Some n" "find_execution fx_key n (br_command_id c) (fault_executions s) = None"
    and "recover_node e (v, c) s = Inr ((r, n', d), s')"
  shows "recovers n (br_target_node_id c) r"
  using assms by (auto simp: recover_node_def require_can_network_def Let_def ok_simps table_simps recovers_def
      split_def split: if_splits)

lemma recover_quiet:
  assumes "recover_node e (v, c) s = Inr ((r, n', d), s')" shows "quiet_step s s'"
  using assms
proof (cases rule: recoveries.cases_run)
  case (first n)
  then have n: "vehicle_network v s = Some n" "find_execution fx_key n (br_command_id c) (fault_executions s) = None"
    by (auto simp: committed_def)
  note f = recover_first[OF n assms]
  obtain p where s': "s' = commit_network e ''atep.can.bus.recovered.v1'' ''can.bus_recovered'' p n'
           (s\<lparr>fault_executions := fault_executions s @ [r]\<rparr>)" using f(12) by blast
  have "is_bus_off n' node" if "is_bus_off n node" "node \<noteq> br_target_node_id c" for node
    using that is_bus_off_cong[OF f(10)] by (simp add: is_bus_off_def node_error_state_set_other)
  then have "network_step n n' s s'"
    unfolding s' by (intro network_step_commit[OF n(1), where xs = "[]" and fs = "[r]"])
      (use f(6,7) recover_row[OF n assms] in auto)
  then show ?thesis unfolding quiet_step_def by blast
qed (simp add: quiet_step_def)

section \<open>Every other request\<close>

lemma configure_quiet:
  assumes "configure_multibus e (v, c) s = Inr ((r, n', d), s')" shows "quiet_step s s'"
  using assms
proof (cases rule: configurations.cases_run)
  case (first n)
  then have n: "vehicle_network v s = Some n" "find_execution gx_key n (mc_command_id c) (gateway_executions s) = None"
    by (auto simp: committed_def)
  show ?thesis
    using configure_first(6,7)[OF n assms] quiet_commit[OF n(1), of n'] by (auto simp: configured_network_def)
qed (simp add: quiet_step_def)

lemma route_quiet:
  assumes "execute_gateway_route e (v, c) s = Inr ((x, n', d), s')" shows "quiet_step s s'"
  using assms
proof (cases rule: routings.cases_run)
  case (first n)
  then have n: "vehicle_network v s = Some n" "find_execution gx_key n (rc_command_id c) (gateway_executions s) = None"
    by (auto simp: committed_def)
  show ?thesis using route_first(5,6)[OF n assms] quiet_commit[OF n(1), of n'] by auto
qed (simp add: quiet_step_def)

lemma campaign_quiet:
  assumes "execute_multibus_campaign e (v, c) s = Inr ((r, n', d), s')" shows "quiet_step s s'"
  using assms
proof (cases rule: campaigns.cases_run)
  case (first n)
  then have n: "vehicle_network v s = Some n" "find_execution mx_key n (mp_command_id c) (campaign_executions s) = None"
    by (auto simp: committed_def)
  show ?thesis
    by (rule campaign_first[OF n assms]) (use quiet_commit[OF n(1), of n'] in auto)
qed (simp add: quiet_step_def)

lemma codec_quiet:
  assumes "vehicle_network v s = Some n"
    and "record_codec e v n i operation contract_id request result s = Inr (x, s')"
  shows "quiet_step s s'"
proof -
  obtain p where s': "s' = commit_network e ''atep.can.signal.codec.completed.v1'' (''can.signal_'' @ operation) p n
        (s\<lparr>codec_executions := codec_executions s @ [x]\<rparr>)"
    using record_codec_ok(4)[OF assms(2)] by blast
  show ?thesis unfolding s' by (rule quiet_commit[OF assms(1)]) simp_all
qed

lemma encode_quiet:
  assumes "encode_signals e (v, c) s = Inr ((r, n', d), s')" shows "quiet_step s s'"
  using assms
proof (cases rule: encodings.cases_run)
  case (first n)
  then have n: "vehicle_network v s = Some n" "find_execution sx_key n (se_command_id c) (codec_executions s) = None"
    by (auto simp: committed_def)
  show ?thesis using encode_first[OF n assms] codec_quiet[OF n(1)] by blast
qed (simp add: quiet_step_def)

lemma decode_quiet:
  assumes "decode_signals e (v, c) s = Inr ((r, n', d), s')" shows "quiet_step s s'"
  using assms
proof (cases rule: decodings.cases_run)
  case (first n)
  then have n: "vehicle_network v s = Some n" "find_execution sx_key n (sd_command_id c) (codec_executions s) = None"
    by (auto simp: committed_def)
  show ?thesis using decode_first[OF n assms] codec_quiet[OF n(1)] by blast
qed (simp add: quiet_step_def)

lemma catalogue_quiet:
  assumes "create_dbc_catalogue e v c s = Inr ((k, n'), s')" shows "quiet_step s s'"
  using create_catalogue_ok[OF assms] quiet_commit[of v s _ n'] by auto

lemma create_quiet:
  assumes "create_can_network e v c s = Inr (n, s')" shows "quiet_step s s'"
  using assms by (auto simp: quiet_step_def create_can_network_def Let_def table_simps split: if_splits option.splits)

lemma can_step_quiet:
  assumes "can_step s s'" "can_inv s" shows "quiet_step s s'"
  using assms(1)
proof cases
  case (Command c e v x d)
  then show ?thesis
    by (cases c)
       (auto simp: lift_row_Inr intro: submit_quiet inject_quiet recover_quiet arbitration_quiet[OF assms(2)]
         configure_quiet route_quiet campaign_quiet encode_quiet decode_quiet)
next
  case (Catalogue k e v r)
  then show ?thesis by (cases r) (auto intro: catalogue_quiet)
next
  case (Create c e v n)
  then show ?thesis by (auto intro: create_quiet)
qed

section \<open>Sequences of requests\<close>

text \<open>While no recovery of the node is recorded, a bus-off node stays bus-off and transmits nothing.\<close>

definition stays_off :: "can_network \<Rightarrow> uuid \<Rightarrow> 'a can_store_scheme \<Rightarrow> 'a can_store_scheme \<Rightarrow> bool" where
  "stays_off n node s t \<longleftrightarrow> (\<exists>m xs. m \<in> set (networks t) \<and> net_id m = net_id n \<and> is_bus_off m node
     \<and> transmissions t = transmissions s @ xs
     \<and> (\<forall>x\<in>set xs. tx_network_id x = net_id n \<longrightarrow> tx_producer_node_id x \<noteq> node))"

lemma quiet_step_stays_off:
  assumes "quiet_step t u" "networks_ok t" "stays_off n node s t" "fault_executions u = fault_executions t @ fs"
    and "\<not> list_ex (recovers n node) fs"
  shows "stays_off n node s u"
proof -
  obtain m xs where m: "m \<in> set (networks t)" "net_id m = net_id n" "is_bus_off m node"
    "transmissions t = transmissions s @ xs" "\<forall>x\<in>set xs. tx_network_id x = net_id n \<longrightarrow> tx_producer_node_id x \<noteq> node"
    using assms(3) unfolding stays_off_def by blast
  consider "u = t" | k where "networks u = networks t @ [k]" "transmissions u = transmissions t"
    | k k' where "network_step k k' t u"
    using assms(1) unfolding quiet_step_def by blast
  then show ?thesis
  proof cases
    case 3
    then obtain ys gs where k: "k \<in> set (networks t)" "net_id k' = net_id k" "networks u = update_row net_id k' (networks t)"
      "transmissions u = transmissions t @ ys" "fault_executions u = fault_executions t @ gs"
      "\<forall>x\<in>set ys. tx_network_id x = net_id k \<and> \<not> is_bus_off k (tx_producer_node_id x)"
      "is_bus_off k node \<longrightarrow> is_bus_off k' node \<or> (\<exists>f\<in>set gs. recovers k node f)"
      unfolding network_step_def by blast
    have gs: "gs = fs" using k(5) assms(4) by simp
    show ?thesis
    proof (cases "net_id k = net_id n")
      case True
      then have "k = m" using assms(2) k(1) m(1,2) by (auto simp: networks_ok_def distinct_map inj_on_def)
      then have "is_bus_off k' node"
        using k(7) m(3) True assms(5) by (auto simp: gs list_ex_iff recovers_def)
      moreover have "k' \<in> set (networks u)" using k(1,2) by (auto simp: k(3) update_row_def)
      ultimately show ?thesis
        unfolding stays_off_def using k(2,4,6) m(3,4,5) True \<open>k = m\<close> by (intro exI[of _ k'] exI[of _ "xs @ ys"]) auto
    next
      case False
      have "m \<in> set (networks u)" using m(1,2) k(2) False by (auto simp: k(3) update_row_def)
      then show ?thesis
        unfolding stays_off_def using m k(4,6) False by (intro exI[of _ m] exI[of _ "xs @ ys"]) auto
    qed
  qed (use m in \<open>auto simp: stays_off_def\<close>)
qed

lemma steps_stay_off:
  assumes "can_steps s t" "can_inv s" "n \<in> set (networks s)" "is_bus_off n node"
    and "fault_executions t = fault_executions s @ fs" "\<not> list_ex (recovers n node) fs"
  shows "stays_off n node s t"
  using assms(1,5,6)
proof (induction arbitrary: fs rule: rtranclp_induct)
  case base
  then show ?case unfolding stays_off_def using assms(3,4) by (intro exI[of _ n] exI[of _ "[]"]) auto
next
  case (step t u)
  have inv: "can_inv t" by (rule can_steps_inv[OF step(1) assms(2)])
  then have ok: "networks_ok t" by (simp add: can_inv_def)
  have ok0: "networks_ok s" using assms(2) by (simp add: can_inv_def)
  obtain gs where gs: "fault_executions t = fault_executions s @ gs"
    using can_steps_grow[OF step(1) ok0] can_grows_tables(2) by blast
  obtain hs where hs: "fault_executions u = fault_executions t @ hs"
    using can_step_grows[OF ok step(2)] can_grows_tables(2) by blast
  have fs: "fs = gs @ hs" using gs hs step(4) by simp
  have "stays_off n node s t" using step(3)[OF gs] step(5) by (simp add: fs)
  then show ?case
    using quiet_step_stays_off[OF can_step_quiet[OF step(2) inv] ok _ hs] step(5) by (simp add: fs)
qed

end
