(* ===== verification/CanSystemProperties.thy ===== *)
theory CanSystemProperties
  imports CanProperties CanBusOff EcuExample
begin

text \<open>
  The properties of the CAN simulation as a system: what holds of every store its requests can
  reach, what a repeated or an outdated command does, and what a frame, a fault, a recovery, a
  route and a campaign do to the network they are sent to.
\<close>

section \<open>A vehicle without a network\<close>

definition ex_fleet :: can_store where
  "ex_fleet = empty_can_store\<lparr>ecus := [eu_body, eu_lights]\<rparr>"

definition ex_create :: can_network_create where
  "ex_create = \<lparr>nc_identifier = ''bus-1'', nc_display_name = ''Bus'', nc_bitrate_kbps = 500,
     nc_can_fd_enabled = False, nc_data_bitrate_kbps = None, nc_nodes = net_nodes ex_network,
     nc_frame_contracts = net_frame_contracts ex_network\<rparr>"

definition ex_submit :: "string \<Rightarrow> int \<Rightarrow> can_frame_submit_command" where
  "ex_submit i version = \<lparr>sc_command_id = i, sc_expected_version = version, sc_contract_id = ''speed'',
     sc_producer_node_id = ''e1'', sc_payload = [1, 2], sc_advance_time_us = 10\<rparr>"

lemma ex_fleet_tables [simp]:
  "networks ex_fleet = []" "transmissions ex_fleet = []" "catalogues ex_fleet = []"
  "ecus ex_fleet = [eu_body, eu_lights]"
  by (simp_all add: ex_fleet_def empty_can_store_def)

lemma ex_contract_fields [simp]:
  "fc_dlc (ex_contract i f dlc p q) = dlc" "fc_producer_node_id (ex_contract i f dlc p q) = p"
  "fc_consumer_node_ids (ex_contract i f dlc p q) = [q]" "fc_identifier (ex_contract i f dlc p q) = i"
  by (simp_all add: ex_contract_def)

lemma ex_create_ok: "can_network_create_ok ex_create"
  by code_simp

lemma ex_submit_ok: "can_frame_submit_command_ok (ex_submit ''submit-1'' 1)"
  by code_simp

lemma ex_created:
  obtains n s1 where "create_can_network ex_env ex_vehicle ex_create ex_fleet = Inr (n, s1)"
    "can_step ex_fleet s1" "n \<in> set (networks s1)"
proof -
  have "set (map cn_ecu_id (nc_nodes ex_create)) = {''e1'', ''e2''}" by (auto simp: ex_create_def ex_network_def)
  then obtain n s1 where run: "create_can_network ex_env ex_vehicle ex_create ex_fleet = Inr (n, s1)"
    by (simp add: create_can_network_def Let_def vehicle_network_def select_def eu_defs ex_vehicle_def
        insert_unless_def cong: if_cong)
  then show thesis
    using that[OF run can_step.Create[OF ex_create_ok run]] create_can_network_ok(6)[OF run] by simp
qed

section \<open>Reachable stores\<close>

text \<open>C22: Whatever requests succeed, starting from a system without networks, every stored network
  stays well formed: error counters stay between 0 and 256 (255 for receptions) and the error mode
  is the one the counters imply, the clock and the version never leave their ranges, every
  configured route has a gateway node and resolves to a destination with a non-negative duration,
  no vehicle has two networks, and the sequence numbers of a network are distinct and below the
  next one.\<close>
theorem reachable_networks:
  assumes "can_steps s t" "networks s = []" "transmissions s = []" "catalogues s = []" "n \<in> set (networks t)"
  shows "1 \<le> net_version n \<and> 0 \<le> net_simulation_time_us n
    \<and> (\<forall>node. let st = node_error_state n node in
         0 \<le> transmit_error_count st \<and> transmit_error_count st \<le> 256
         \<and> 0 \<le> receive_error_count st \<and> receive_error_count st \<le> 255
         \<and> error_mode st = derive_error_mode (transmit_error_count st) (receive_error_count st))
    \<and> (\<forall>r\<in>set (net_gateway_routes n). node_roles n (gr_gateway_node_id r) = Some GATEWAY
         \<and> (\<exists>len dur timing. stored_destination n r = Inr (len, dur, timing) \<and> 0 \<le> dur))
    \<and> (\<forall>m\<in>set (networks t). net_vehicle_id m = net_vehicle_id n \<longrightarrow> m = n)
    \<and> (let own = filter (\<lambda>x. tx_network_id x = net_id n) (transmissions t) in
         distinct (map tx_sequence own) \<and> (\<forall>x\<in>set own. tx_sequence x < net_next_sequence n))"
proof -
  have inv: "can_inv t" by (rule can_steps_inv[OF assms(1) empty_can_inv[OF assms(2-4)]])
  then have ok: "network_ok n" using assms(5) by (simp add: can_inv_def)
  then have es: "error_states_ok n" and tr: "transports_ok n" by (simp_all add: network_ok_def)
  have mode: "error_mode (node_error_state n node)
      = derive_error_mode (transmit_error_count (node_error_state n node)) (receive_error_count (node_error_state n node))" for node
    using es map_of_SomeD by (fastforce simp: error_states_ok_def node_error_state_def derive_error_mode_def split: option.splits)
  have routes: "\<exists>len dur timing. stored_destination n r = Inr (len, dur, timing) \<and> 0 \<le> dur"
    if "r \<in> set (net_gateway_routes n)" for r
    using ok tr that stored_destination_nonneg
    by (fastforce simp: network_ok_def transports_ok_def routes_resolve_def destination_length_def ok_simps)
  have roles: "node_roles n (gr_gateway_node_id r) = Some GATEWAY" if "r \<in> set (net_gateway_routes n)" for r
    using tr that by (simp add: transports_ok_def routes_resolve_def)
  have one: "m = n" if "m \<in> set (networks t)" "net_vehicle_id m = net_vehicle_id n" for m
    using inv assms(5) that by (auto simp: can_inv_def networks_ok_def distinct_map inj_on_def)
  have same: "m = n" if "m \<in> set (networks t)" "net_id m = net_id n" for m
    using inv assms(5) that by (auto simp: can_inv_def networks_ok_def distinct_map inj_on_def)
  have "distinct (map tx_sequence (filter (\<lambda>x. tx_network_id x = net_id n) (transmissions t)))"
    using inv by (auto simp: can_inv_def distinct_map inj_on_def sequence_key_def)
  moreover have "tx_sequence x < net_next_sequence n" if "x \<in> set (transmissions t)" "tx_network_id x = net_id n" for x
    using inv that same unfolding can_inv_def by metis
  ultimately show ?thesis
    using ok mode routes roles one node_error_state_ok[OF es] by (auto simp: network_ok_def Let_def)
qed

theorem reachable_networks_witness:
  "\<exists>n s1. can_steps ex_fleet s1 \<and> n \<in> set (networks s1) \<and> 1 \<le> net_version n
    \<and> transmit_error_count (node_error_state n ''e1'') \<le> 256"
proof -
  obtain n s1 where c: "can_step ex_fleet s1" "n \<in> set (networks s1)" by (rule ex_created)
  show ?thesis
    using reachable_networks[OF r_into_rtranclp[of can_step, OF c(1)] _ _ _ c(2)] c by (auto simp: Let_def)
qed

section \<open>Frames\<close>

lemma submit_succeeds:
  assumes "vehicle_network v s = Some n" "find_execution tx_key n (sc_command_id c) (transmissions s) = None"
    and "sc_expected_version c = net_version n" "contract_of n (sc_contract_id c) = Inr contract"
    and "sc_producer_node_id c = fc_producer_node_id contract" "\<not> is_bus_off n (sc_producer_node_id c)"
    and "int (length (sc_payload c)) = fc_dlc contract"
  shows "\<exists>tx s'. submit_can_frame e (v, c) s = Inr ((tx, after_frame n c, False), s')"
  using insert_after_miss[OF assms(2)] assms
  by (simp add: submit_can_frame_def require_can_network_def Let_def after_frame_def tx_key_def)

section \<open>Repeated and outdated commands\<close>

text \<open>C23: CAN commands are exactly-once. A command that succeeded can be sent again by any user after
  any other requests: it returns the execution stored the first time, marked as a duplicate, and
  changes nothing.\<close>
theorem can_command_replayed:
  assumes "networks_ok s" "run_command e v c s = Inr ((r, d), s')" "can_steps s' t"
  shows "run_command e' v c t = Inr ((r, True), t)"
proof -
  have g: "can_grows s' t"
    using can_steps_grow[OF assms(3)] run_command_grows[OF assms(1,2)] by blast
  show ?thesis
    using assms(2)
    by (cases c)
       (auto simp: lift_row_Inr
         intro: frames.replay_later[OF assms(1) _ g] injections.replay_later[OF assms(1) _ g]
           recoveries.replay_later[OF assms(1) _ g] arbiter.replay_later[OF assms(1) _ g]
           configurations.replay_later[OF assms(1) _ g] routings.replay_later[OF assms(1) _ g]
           campaigns.replay_later[OF assms(1) _ g] encodings.replay_later[OF assms(1) _ g]
           decodings.replay_later[OF assms(1) _ g])
qed

lemma ex_submitted:
  obtains r s1 where "run_command ex_env ex_vehicle (Submit (ex_submit ''submit-1'' 1)) ex_store = Inr ((r, False), s1)"
proof -
  have "\<exists>tx s1. submit_can_frame ex_env (ex_vehicle, ex_submit ''submit-1'' 1) ex_store
      = Inr ((tx, after_frame ex_network (ex_submit ''submit-1'' 1), False), s1)"
    by (rule submit_succeeds[where contract = "ex_contract ''speed'' 256 2 ''e1'' ''e2''"]) (simp_all add: ex_submit_def)
  then show thesis using that by (auto simp: lift_row_Inr)
qed

theorem can_command_replayed_witness:
  "\<exists>r s1. run_command ex_env ex_vehicle (Submit (ex_submit ''submit-1'' 1)) ex_store = Inr ((r, False), s1)
    \<and> run_command ex_env ex_vehicle (Submit (ex_submit ''submit-1'' 1)) s1 = Inr ((r, True), s1)"
proof -
  obtain r s1 where run: "run_command ex_env ex_vehicle (Submit (ex_submit ''submit-1'' 1)) ex_store = Inr ((r, False), s1)"
    by (rule ex_submitted)
  show ?thesis using can_command_replayed[OF ex_networks_ok run rtranclp.rtrancl_refl, of ex_env] run by blast
qed

text \<open>The version a command expects; encoding and decoding expect none.\<close>

fun can_expected :: "can_command \<Rightarrow> int option" where
  "can_expected (Submit c) = Some (sc_expected_version c)"
| "can_expected (Inject c) = Some (fi_expected_version c)"
| "can_expected (Recover c) = Some (br_expected_version c)"
| "can_expected (Arbitrate c) = Some (ac_expected_version c)"
| "can_expected (Configure c) = Some (mc_expected_version c)"
| "can_expected (Route c) = Some (rc_expected_version c)"
| "can_expected (Campaign c) = Some (mp_expected_version c)"
| "can_expected (Encode c) = None"
| "can_expected (Decode c) = None"

lemma can_command_effective:
  assumes "networks_ok s" "run_command e v c s = Inr ((r, False), s')" "can_expected c = Some k"
  shows "can_version v s = Some k \<and> can_version v s' = Some (k + 1)"
  using assms(2,3)
  by (cases c)
     (auto simp: lift_row_Inr
       dest: frames.effective[OF assms(1)] injections.effective[OF assms(1)] recoveries.effective[OF assms(1)]
         arbiter.effective[OF assms(1)] configurations.effective[OF assms(1)] routings.effective[OF assms(1)]
         campaigns.effective[OF assms(1)])

text \<open>C24: No update of a network is lost. Every command that takes effect names the version the network
  has and leaves the next one, so of two commands that take effect, whatever their kinds and
  whatever happened in between, the later one was prepared against a later version.\<close>
theorem no_lost_can_update:
  assumes "networks_ok s" "run_command e v c s = Inr ((r, False), s')" "can_steps s' t"
    and "run_command e' v c' t = Inr ((r', False), t')" "can_expected c = Some k" "can_expected c' = Some k'"
  shows "can_version v s = Some k \<and> can_version v s' = Some (k + 1) \<and> can_version v t = Some k' \<and> k < k'"
proof -
  note first = can_command_effective[OF assms(1,2,5)]
  have t: "networks_ok t" "can_grows s' t"
    using can_steps_grow[OF assms(3)] run_command_grows[OF assms(1,2)] by blast+
  note second = can_command_effective[OF t(1) assms(4,6)]
  have "k + 1 \<le> k'"
    using t(2) first second unfolding can_grows_def can_version_def by fastforce
  then show ?thesis using first second by simp
qed

lemma ex_submitted_twice:
  obtains r s1 r' s2 where "run_command ex_env ex_vehicle (Submit (ex_submit ''submit-1'' 1)) ex_store = Inr ((r, False), s1)"
    "run_command ex_env ex_vehicle (Submit (ex_submit ''submit-2'' 2)) s1 = Inr ((r', False), s2)"
proof -
  let ?c = "ex_submit ''submit-1'' 1"
  let ?n = "after_frame ex_network ?c"
  obtain r s1 where run: "run_command ex_env ex_vehicle (Submit ?c) ex_store = Inr ((r, False), s1)" by (rule ex_submitted)
  then obtain tx m where sub: "submit_can_frame ex_env (ex_vehicle, ?c) ex_store = Inr ((tx, m, False), s1)"
    by (auto simp: lift_row_Inr)
  have fresh: "find_execution tx_key ex_network (sc_command_id ?c) (transmissions ex_store) = None" by simp
  note f = submit_first[OF ex_vehicle_network fresh sub]
  have net: "vehicle_network ex_vehicle s1 = Some ?n" "transmissions s1 = [tx]"
    using f(10) committed_facts(2)[OF ex_networks_ok submit_committed[OF ex_vehicle_network fresh sub]] by (auto simp: f(8))
  have n: "net_version ?n = 2" "contract_of ?n ''speed'' = Inr (ex_contract ''speed'' 256 2 ''e1'' ''e2'')"
    "\<not> is_bus_off ?n ''e1''" "net_id ?n = ''n1''"
    using ex_contract_of(1) is_bus_off_cong[of ?n ex_network] by (simp_all add: after_frame_def contract_of_def)
  have "\<exists>tx' s2. submit_can_frame ex_env (ex_vehicle, ex_submit ''submit-2'' 2) s1
      = Inr ((tx', after_frame ?n (ex_submit ''submit-2'' 2), False), s2)"
    by (rule submit_succeeds[OF net(1), where contract = "ex_contract ''speed'' 256 2 ''e1'' ''e2''"])
      (use f(2) n net(2) in \<open>simp_all add: ex_submit_def find_execution_def table_simps\<close>)
  then show thesis using that[OF run] by (auto simp: lift_row_Inr)
qed

theorem no_lost_can_update_witness:
  "\<exists>r s1 r' s2. run_command ex_env ex_vehicle (Submit (ex_submit ''submit-1'' 1)) ex_store = Inr ((r, False), s1)
    \<and> run_command ex_env ex_vehicle (Submit (ex_submit ''submit-2'' 2)) s1 = Inr ((r', False), s2)
    \<and> can_version ex_vehicle s1 = Some 2"
proof (rule ex_submitted_twice)
  fix r s1 r' s2
  assume run: "run_command ex_env ex_vehicle (Submit (ex_submit ''submit-1'' 1)) ex_store = Inr ((r, False), s1)"
    "run_command ex_env ex_vehicle (Submit (ex_submit ''submit-2'' 2)) s1 = Inr ((r', False), s2)"
  have k: "can_expected (Submit (ex_submit ''submit-1'' 1)) = Some 1" "can_expected (Submit (ex_submit ''submit-2'' 2)) = Some 2"
    by (simp_all add: ex_submit_def)
  show ?thesis using no_lost_can_update[OF ex_networks_ok run(1) rtranclp.rtrancl_refl run(2) k] run by auto
qed

section \<open>Sending frames\<close>

text \<open>C25: A frame that was not sent before is accepted exactly when it names the current version and a
  declared contract, is sent by the producer the contract declares while that node is not bus-off,
  and its payload has the declared length. It then goes out at the current time plus the requested
  advance, with the next sequence number, and the network moves on by just that.\<close>
theorem submit_accepts_exactly:
  assumes "networks_ok s" "vehicle_network v s = Some n" "find_execution tx_key n (sc_command_id c) (transmissions s) = None"
  shows "((\<exists>x s'. submit_can_frame e (v, c) s = Inr (x, s')) \<longleftrightarrow>
      sc_expected_version c = net_version n \<and> \<not> is_bus_off n (sc_producer_node_id c)
      \<and> (\<exists>contract. contract_of n (sc_contract_id c) = Inr contract
          \<and> fc_producer_node_id contract = sc_producer_node_id c \<and> fc_dlc contract = int (length (sc_payload c))))
    \<and> (\<forall>tx m d s'. submit_can_frame e (v, c) s = Inr ((tx, m, d), s') \<longrightarrow> \<not> d \<and> m = after_frame n c
        \<and> vehicle_network v s' = Some m \<and> transmissions s' = transmissions s @ [tx]
        \<and> tx_sequence tx = net_next_sequence n \<and> tx_payload tx = sc_payload c
        \<and> tx_transmission_time_us tx = net_simulation_time_us n + sc_advance_time_us c)"
    (is "(?run \<longleftrightarrow> ?allowed) \<and> ?effect")
proof -
  note first = submit_first[OF assms(2,3)]
  have "?allowed" if ran: ?run
  proof -
    obtain tx m d s' where "submit_can_frame e (v, c) s = Inr ((tx, m, d), s')" using ran by auto
    from first(1)[OF this] show ?thesis by auto
  qed
  moreover have "?allowed \<Longrightarrow> ?run" using submit_succeeds[OF assms(2,3)] by fastforce
  moreover have ?effect
    using first(4,6-10) committed_facts(2)[OF assms(1) submit_committed[OF assms(2,3)]] by fastforce
  ultimately show ?thesis by blast
qed

theorem submit_accepts_exactly_witness:
  "(\<exists>x s'. submit_can_frame ex_env (ex_vehicle, ex_submit ''submit-1'' 1) ex_store = Inr (x, s'))
    \<and> \<not> (\<exists>x s'. submit_can_frame ex_env (ex_vehicle, (ex_submit ''submit-1'' 1)\<lparr>sc_payload := [1]\<rparr>) ex_store = Inr (x, s'))"
  using submit_accepts_exactly[OF ex_networks_ok ex_vehicle_network, of "ex_submit ''submit-1'' 1" ex_env]
    submit_accepts_exactly[OF ex_networks_ok ex_vehicle_network, of "(ex_submit ''submit-1'' 1)\<lparr>sc_payload := [1]\<rparr>" ex_env]
  by (simp add: ex_submit_def)

section \<open>Faults\<close>


definition ex_off :: can_network where
  "ex_off = ex_network\<lparr>net_error_states :=
     [(''e1'', \<lparr>transmit_error_count = 256, receive_error_count = 0, error_mode = BUS_OFF\<rparr>)]\<rparr>"

definition ex_off_store :: can_store where
  "ex_off_store = empty_can_store\<lparr>networks := [ex_off]\<rparr>"


lemma ex_off_facts:
  "vehicle_network ex_vehicle ex_off_store = Some ex_off" "is_bus_off ex_off ''e1''" "\<not> is_bus_off ex_off ''e2''"
  "transmissions ex_off_store = []" "fault_executions ex_off_store = []" "net_version ex_off = 1"
  "contract_of ex_off ''brake'' = Inr (ex_contract ''brake'' 16 1 ''e2'' ''e1'')" "net_id ex_off = ''n1''"
  "net_bitrate_kbps ex_off = 500"
  using ex_contract_of(2)
  by (simp_all add: ex_off_store_def empty_can_store_def vehicle_network_def select_def ex_off_def ex_vehicle_def
      ex_network_def is_bus_off_def node_error_state_def derive_error_mode_def contract_of_def)

lemma ex_off_ok: "network_ok ex_off"
  by (rule network_ok_change[OF ex_network_ok])
     (simp_all add: ex_off_def error_states_ok_def can_node_error_state_ok_def int_between_def derive_error_mode_def)

lemma ex_off_inv: "can_inv ex_off_store"
  using ex_off_ok by (simp add: can_inv_def networks_ok_def ex_off_store_def empty_can_store_def)



text \<open>C27: A fault injection accounts for its occurrences exactly. It is accepted only against the node the
  contract names: a transmission error against the producer, a reception error or a frame loss
  against a consumer. A transmission error adds eight points per occurrence to the transmit counter,
  a reception error one to the receive counter, a lost frame nothing; the counters saturate at 256
  and 255, the error mode is the one the counters stand for, every other node keeps its state, and
  each error frame costs the bus fourteen bit times.\<close>
theorem injected_fault_counts:
  assumes "vehicle_network v s = Some n" "find_execution fx_key n (fi_command_id c) (fault_executions s) = None"
    and "inject_fault e (v, c) s = Inr ((r, n', d), s')"
  defines "node \<equiv> fi_target_node_id c" and "k \<equiv> fi_occurrences c"
  shows "(\<exists>contract. contract_of n (fi_contract_id c) = Inr contract
      \<and> (if fi_fault_type c = TRANSMISSION_ERROR then node = fc_producer_node_id contract
         else node \<in> set (fc_consumer_node_ids contract)))
    \<and> transmit_error_count (node_error_state n' node)
      = min (transmit_error_count (node_error_state n node) + (if fi_fault_type c = TRANSMISSION_ERROR then 8 * k else 0)) 256
    \<and> receive_error_count (node_error_state n' node)
      = min (receive_error_count (node_error_state n node) + (if fi_fault_type c = RECEPTION_ERROR then k else 0)) 255
    \<and> error_mode (node_error_state n' node) = derive_error_mode (transmit_error_count (node_error_state n' node))
        (receive_error_count (node_error_state n' node))
    \<and> (\<forall>other. other \<noteq> node \<longrightarrow> node_error_state n' other = node_error_state n other)
    \<and> net_simulation_time_us n' = net_simulation_time_us n + fi_advance_time_us c
        + duration_us (if fi_fault_type c = FRAME_LOSS then 0 else 14 * k) (net_bitrate_kbps n)"
proof -
  note f = inject_first[OF assms(1-3)]
  let ?m = "snd (set_node_error_state n (fi_target_node_id c) (fst (injected_counts n c)) (snd (injected_counts n c)))"
  have same: "node_error_state n' x = node_error_state ?m x" for x using f(9) by (simp add: node_error_state_def)
  have counts: "injected_counts n c = (transmit_error_count (node_error_state n node) + (if fi_fault_type c = TRANSMISSION_ERROR then 8 * k else 0),
      receive_error_count (node_error_state n node) + (if fi_fault_type c = RECEPTION_ERROR then k else 0))"
    by (simp add: injected_counts_def fault_effect_def Let_def node_def k_def split: CanFaultType.splits)
  have after: "node_error_state n' node = \<lparr>transmit_error_count = min (fst (injected_counts n c)) 256,
      receive_error_count = min (snd (injected_counts n c)) 255,
      error_mode = derive_error_mode (fst (injected_counts n c)) (snd (injected_counts n c))\<rparr>"
    unfolding same node_def node_error_state_set_same by (simp add: set_node_error_state_def Let_def)
  have others: "node_error_state n' other = node_error_state n other" if "other \<noteq> node" for other
    unfolding same using that node_error_state_set_other by (simp add: node_def)
  have target: "\<exists>contract. contract_of n (fi_contract_id c) = Inr contract
      \<and> (if fi_fault_type c = TRANSMISSION_ERROR then node = fc_producer_node_id contract
         else node \<in> set (fc_consumer_node_ids contract))"
    using assms(1-3) by (auto simp: inject_fault_def require_can_network_def Let_def ok_simps check_target_def node_def
        split: if_splits option.splits)
  show ?thesis
    using target others after counts derive_error_mode_clamped f(10) by (simp add: k_def)
qed

definition ex_fault :: can_fault_injection_command where
  "ex_fault = \<lparr>fi_command_id = ''fault-001'', fi_expected_version = 1, fi_contract_id = ''speed'',
     fi_target_node_id = ''e1'', fi_fault_type = TRANSMISSION_ERROR, fi_occurrences = 40, fi_advance_time_us = 5\<rparr>"

lemma inject_succeeds:
  assumes "vehicle_network v s = Some n" "find_execution fx_key n (fi_command_id c) (fault_executions s) = None"
    and "fi_expected_version c = net_version n" "contract_of n (fi_contract_id c) = Inr contract" "check_target c contract = None"
  shows "\<exists>r n' s'. inject_fault e (v, c) s = Inr ((r, n', False), s')"
  using insert_after_miss[OF assms(2)] assms
  by (simp add: inject_fault_def require_can_network_def Let_def fx_key_def split_def)

lemma ex_injected: "\<exists>r n' s'. inject_fault ex_env (ex_vehicle, ex_fault) ex_store = Inr ((r, n', False), s')"
  by (rule inject_succeeds[OF ex_vehicle_network, where contract = "ex_contract ''speed'' 256 2 ''e1'' ''e2''"])
     (simp_all add: ex_fault_def check_target_def)

lemma ex_error_state [simp]:
  "node_error_state ex_network p = \<lparr>transmit_error_count = 0, receive_error_count = 0, error_mode = ERROR_ACTIVE\<rparr>"
  by (simp add: node_error_state_def ex_network_def derive_error_mode_def)

theorem injected_fault_counts_witness:
  "\<exists>r n' s'. inject_fault ex_env (ex_vehicle, ex_fault) ex_store = Inr ((r, n', False), s')
    \<and> transmit_error_count (node_error_state n' ''e1'') = 256 \<and> net_simulation_time_us n' = 5 + 1120"
proof -
  obtain r n' s' where run: "inject_fault ex_env (ex_vehicle, ex_fault) ex_store = Inr ((r, n', False), s')"
    using ex_injected by blast
  have "find_execution fx_key ex_network (fi_command_id ex_fault) (fault_executions ex_store) = None" by simp
  from injected_fault_counts[OF ex_vehicle_network this run]
  show ?thesis using run by (simp add: ex_fault_def duration_us_ceil_div ceil_div_def)
qed

lemma recover_succeeds:
  assumes "vehicle_network v s = Some n" "find_execution fx_key n (br_command_id c) (fault_executions s) = None"
    and "br_expected_version c = net_version n" "is_bus_off n (br_target_node_id c)"
  shows "\<exists>r n' s'. recover_node e (v, c) s = Inr ((r, n', False), s')"
  using insert_after_miss[OF assms(2)] assms
  by (simp add: recover_node_def require_can_network_def Let_def fx_key_def split_def is_bus_off_def)

text \<open>A bus-off node comes back by recovery and only then. A recovery that was not sent before is
  accepted exactly when it names the current version and a node that is bus-off. It clears both
  error counters of that node and of no other, and a frame of that node which was refused before is
  accepted afterwards.\<close>
theorem recovery_restores_node:
  assumes "networks_ok s" "vehicle_network v s = Some n"
    and "find_execution fx_key n (br_command_id c) (fault_executions s) = None"
    and "find_execution tx_key n (sc_command_id f) (transmissions s) = None" "contract_of n (sc_contract_id f) = Inr contract"
    and "fc_producer_node_id contract = sc_producer_node_id f" "fc_dlc contract = int (length (sc_payload f))"
    and "sc_producer_node_id f = br_target_node_id c"
  shows "((\<exists>x s'. recover_node e (v, c) s = Inr (x, s'))
        \<longleftrightarrow> br_expected_version c = net_version n \<and> is_bus_off n (br_target_node_id c))
    \<and> (\<forall>r n' d s'. recover_node e (v, c) s = Inr ((r, n', d), s') \<longrightarrow>
        node_error_state n' (br_target_node_id c)
          = \<lparr>transmit_error_count = 0, receive_error_count = 0, error_mode = ERROR_ACTIVE\<rparr>
        \<and> (\<forall>other. other \<noteq> br_target_node_id c \<longrightarrow> node_error_state n' other = node_error_state n other)
        \<and> submit_can_frame e (v, f\<lparr>sc_expected_version := net_version n\<rparr>) s = Inl CanNodeBusOff
        \<and> (\<exists>x t. submit_can_frame e (v, f\<lparr>sc_expected_version := net_version n + 1\<rparr>) s' = Inr (x, t)))"
proof -
  have "br_expected_version c = net_version n \<and> is_bus_off n (br_target_node_id c)"
    if "recover_node e (v, c) s = Inr (x, s')" for x s'
  proof -
    obtain r n' d where "x = (r, n', d)" by (rule prod_cases3)
    then show ?thesis using recover_first(4,9)[OF assms(2,3), of e r n' d s'] that by simp
  qed
  then have accepts: "(\<exists>x s'. recover_node e (v, c) s = Inr (x, s'))
        \<longleftrightarrow> br_expected_version c = net_version n \<and> is_bus_off n (br_target_node_id c)"
    using recover_succeeds[OF assms(2,3)] by blast
  have "node_error_state n' (br_target_node_id c)
          = \<lparr>transmit_error_count = 0, receive_error_count = 0, error_mode = ERROR_ACTIVE\<rparr>
        \<and> (\<forall>other. other \<noteq> br_target_node_id c \<longrightarrow> node_error_state n' other = node_error_state n other)
        \<and> submit_can_frame e (v, f\<lparr>sc_expected_version := net_version n\<rparr>) s = Inl CanNodeBusOff
        \<and> (\<exists>x t. submit_can_frame e (v, f\<lparr>sc_expected_version := net_version n + 1\<rparr>) s' = Inr (x, t))"
    if run: "recover_node e (v, c) s = Inr ((r, n', d), s')" for r n' d s'
  proof -
    note g = recover_first[OF assms(2,3) run]
    let ?m = "snd (set_node_error_state n (br_target_node_id c) 0 0)"
    have same: "node_error_state n' x = node_error_state ?m x" for x using g(10) by (simp add: node_error_state_def)
    have node: "node_error_state n' (br_target_node_id c)
        = \<lparr>transmit_error_count = 0, receive_error_count = 0, error_mode = ERROR_ACTIVE\<rparr>"
      unfolding same node_error_state_set_same by (simp add: set_node_error_state_def derive_error_mode_def Let_def)
    have net: "vehicle_network v s' = Some n'"
      by (rule committed_facts(2)[OF assms(1) recover_committed[OF assms(2,3) run]])
    have txs: "transmissions s' = transmissions s" using g(12) by auto
    have "\<exists>x t. submit_can_frame e (v, f\<lparr>sc_expected_version := net_version n + 1\<rparr>) s' = Inr (x, t)"
      using submit_succeeds[OF net, of "f\<lparr>sc_expected_version := net_version n + 1\<rparr>" contract e] assms(4-8) g(5,6)
        recover_unchanged(2)[OF assms(2,3) run] node txs
      by (auto simp: contract_of_def is_bus_off_def find_execution_id[of n' n])
    moreover have "submit_can_frame e (v, f\<lparr>sc_expected_version := net_version n\<rparr>) s = Inl CanNodeBusOff"
      using assms(2,4-8) g(9) by (simp add: submit_can_frame_def require_can_network_def)
    ultimately show ?thesis using node same node_error_state_set_other by simp
  qed
  then show ?thesis using accepts by blast
qed

definition ex_recovery :: can_bus_recovery_command where
  "ex_recovery = \<lparr>br_command_id = ''recover-001'', br_expected_version = 1, br_target_node_id = ''e1'',
     br_recessive_sequences = 128\<rparr>"

theorem recovery_restores_node_witness:
  "\<exists>r n' s'. recover_node ex_env (ex_vehicle, ex_recovery) ex_off_store = Inr ((r, n', False), s')
    \<and> transmit_error_count (node_error_state n' ''e1'') = 0
    \<and> submit_can_frame ex_env (ex_vehicle, (ex_submit ''submit-1'' 0)\<lparr>sc_expected_version := 1\<rparr>) ex_off_store = Inl CanNodeBusOff"
proof -
  have fresh: "find_execution fx_key ex_off (br_command_id ex_recovery) (fault_executions ex_off_store) = None"
    "find_execution tx_key ex_off (sc_command_id (ex_submit ''submit-1'' 0)) (transmissions ex_off_store) = None"
    by (simp_all add: ex_off_facts)
  have run: "\<exists>r n' s'. recover_node ex_env (ex_vehicle, ex_recovery) ex_off_store = Inr ((r, n', False), s')"
    by (rule recover_succeeds[OF ex_off_facts(1) fresh(1)]) (simp_all add: ex_recovery_def ex_off_facts)
  have ok: "networks_ok ex_off_store" using ex_off_inv by (simp add: can_inv_def)
  have con: "contract_of ex_off (sc_contract_id (ex_submit ''submit-1'' 0)) = Inr (ex_contract ''speed'' 256 2 ''e1'' ''e2'')"
    using ex_contract_of(1) by (simp add: ex_submit_def ex_off_def contract_of_def)
  show ?thesis
    using recovery_restores_node[OF ok ex_off_facts(1) fresh con, of ex_env] run
    by (fastforce simp: ex_submit_def ex_recovery_def ex_off_facts)
qed

end
