(* ===== verification/CanLatency.thy ===== *)
theory CanLatency
  imports CanInvariants
begin

text \<open>
  The latency figures of a campaign: the float index of \<open>percentile_95\<close> is the exact nearest rank, and
  the latencies a campaign collects are the durations of the steps its gateway forwarded.
\<close>

section \<open>The nearest rank\<close>

lemma fl_095: "fl (95/100) \<le> 95/100" "95/100 - 1 / 2 ^ 53 \<le> fl (95/100)"
proof -
  have p: "(2::rat) powi (- 53) = 1 / 9007199254740992" by (simp add: power_int_minus)
  have "expo 2 (95/100) = -1" by (rule expo_eqI) (simp_all add: power_int_minus)
  then have "fl (95/100) = of_int (round_half_even (95/100 / 2 powi (- 53))) * 2 powi (- 53)"
    by (simp add: fl_def round_sig_def)
  moreover have "round_half_even (95/100 / (1 / 9007199254740992)) = 8556839292003942"
    by (rule round_half_even_eqI) simp_all
  ultimately have "fl (95/100) = 8556839292003942 / 9007199254740992" unfolding p by simp
  then show "fl (95/100) \<le> 95/100" "95/100 - 1 / 2 ^ 53 \<le> fl (95/100)" by simp_all
qed

lemma rank_exact:
  assumes "0 < n" "n \<le> 10 ^ 12"
  shows "py_ceil (fl (of_int n * fl (95/100))) = ceil_div (95 * n) 100"
proof -
  let ?k = "ceil_div (95 * n) 100" and ?y = "of_int n * fl (95/100) :: rat"
  have k: "95 * n \<le> ?k * 100" "(?k - 1) * 100 < 95 * n" using ceil_div_bounds[of 100 "95 * n"] by simp_all
  have kb: "0 \<le> ?k" "?k \<le> 95 * n" using assms(1) by (simp_all add: ceil_div_nonneg ceil_div_le)
  have n: "(0::rat) < of_int n" "(of_int n :: rat) \<le> 10 ^ 12" using assms by (simp, metis of_int_le_iff of_int_numeral of_int_power)
  have y: "?y \<le> of_int n * (95/100)" "of_int n * (95/100) - of_int n / 2 ^ 53 \<le> ?y"
    using mult_left_mono[OF fl_095(1), of "of_int n"] mult_left_mono[OF fl_095(2), of "of_int n"] n(1)
    by (simp_all add: right_diff_distrib)
  have "(of_int (95 * n) :: rat) \<le> of_int (?k * 100)" using k(1) by (simp only: of_int_le_iff)
  then have "?y \<le> of_int ?k" using y(1) by simp
  then have up: "fl ?y \<le> of_int ?k" using kb assms by (intro fl_le_of_int) auto
  have "of_int n / 2 ^ 53 \<le> (1/1000 :: rat)" using n(2) by simp
  moreover have "\<bar>?y\<bar> \<le> of_int n" using y n fl_nonneg[of "95/100"] by (simp add: abs_mult) 
  then have "\<bar>?y\<bar> / 2 ^ 53 \<le> of_int n / 2 ^ 53" by (intro divide_right_mono) auto
  ultimately have lo: "of_int n * (95/100) - 2/1000 \<le> fl ?y"
    using fl_relative_error[of ?y] y(2) by (simp only: abs_le_iff) linarith
  have "(of_int ((?k - 1) * 100 + 1) :: rat) \<le> of_int (95 * n)" using k(2) by (simp only: of_int_le_iff)
  then have "of_int (?k - 1) < fl ?y" using lo by simp
  then show ?thesis using up by (simp add: py_ceil_def ceiling_eq_iff)
qed

lemma sorted_filter_le:
  assumes "sorted ys" "i < length ys"
  shows "Suc i \<le> length (filter (\<lambda>l. l \<le> ys ! i) ys)" "length (filter (\<lambda>l. l < ys ! i) ys) \<le> i"
proof -
  have "set [0..<Suc i] \<subseteq> {j. j < length ys \<and> ys ! j \<le> ys ! i}"
    using assms sorted_nth_mono[OF assms(1)] by auto
  from card_mono[OF _ this] show "Suc i \<le> length (filter (\<lambda>l. l \<le> ys ! i) ys)"
    unfolding length_filter_conv_card by simp
  have "{j. j < length ys \<and> ys ! j < ys ! i} \<subseteq> {..<i}"
    using assms sorted_nth_mono[OF assms(1), of i] by (auto simp: not_less[symmetric])
  from card_mono[OF _ this] show "length (filter (\<lambda>l. l < ys ! i) ys) \<le> i"
    unfolding length_filter_conv_card by simp
qed

text \<open>The least value that at least ninety-five percent of the latencies do not exceed.\<close>

lemma percentile_95_nearest_rank:
  assumes "xs \<noteq> []" "length xs \<le> 10 ^ 12"
  shows "percentile_95 xs \<in> set xs" "95 * length xs \<le> 100 * length (filter (\<lambda>l. l \<le> percentile_95 xs) xs)"
    and "100 * length (filter (\<lambda>l. l < percentile_95 xs) xs) < 95 * length xs"
proof -
  let ?n = "int (length xs)" and ?ys = "sort xs"
  let ?k = "ceil_div (95 * ?n) 100"
  have n: "0 < ?n" "?n \<le> 10 ^ 12" using assms by simp_all
  have k: "95 * ?n \<le> ?k * 100" "(?k - 1) * 100 < 95 * ?n" using ceil_div_bounds[of 100 "95 * ?n"] by simp_all
  have kpos: "0 < ?k" using n(1) by (simp add: ceil_div_pos)
  define i where "i = nat (?k - 1)"
  have ik: "int i = ?k - 1" using kpos by (simp add: i_def)
  have i: "i < length ?ys" using k(2) n(1) ik by simp
  have p: "percentile_95 xs = ?ys ! i"
    using assms(1) rank_exact[OF n] by (simp add: percentile_95_def i_def)
  show "percentile_95 xs \<in> set xs" using nth_mem[OF i] unfolding p by simp
  have f: "length (filter P xs) = length (filter P ?ys)" for P by (metis mset_filter mset_sort size_mset)
  note s = sorted_filter_le[OF sorted_sort i]
  show "95 * length xs \<le> 100 * length (filter (\<lambda>l. l \<le> percentile_95 xs) xs)"
    using s(1) k(1) ik unfolding p f by linarith
  show "100 * length (filter (\<lambda>l. l < percentile_95 xs) xs) < 95 * length xs"
  proof -
    have "int (length (filter (\<lambda>l. l < ?ys ! i) ?ys)) \<le> ?k - 1" using s(2) ik by linarith
    then have "int (100 * length (filter (\<lambda>l. l < ?ys ! i) ?ys)) < int (95 * length xs)" using k(2) by simp
    then show ?thesis unfolding p f by (simp only: of_nat_less_iff)
  qed
qed

section \<open>The latencies of a campaign\<close>

definition forwarded :: "campaign_trace list \<Rightarrow> int list" where
  "forwarded traces = map tc_duration_us (filter (\<lambda>t. tc_sequence t \<noteq> None) traces)"

lemma campaign_loop_latencies:
  "cs_latencies x = forwarded (cs_traces x)
    \<Longrightarrow> cs_latencies (campaign_loop i steps x) = forwarded (cs_traces (campaign_loop i steps x))"
proof (induction i steps x rule: campaign_loop.induct)
  case (2 i step rest x)
  then show ?case by (simp add: campaign_step_def forwarded_def Let_def split: prod.splits)
qed simp

text \<open>The trace of a step: its outcome, and when it ran.\<close>

definition trace_of :: "multibus_campaign_step \<Rightarrow> campaign_trace \<Rightarrow> bool" where
  "trace_of st t \<longleftrightarrow> tc_step_id t = ms_identifier st \<and> tc_route_id t = ms_route_id st \<and> tc_fault t = ms_fault st
     \<and> (tc_outcome t = ''failed'' \<longleftrightarrow> ms_fault st \<in> {GATEWAY_UNAVAILABLE, CAMPAIGN_FRAME_LOSS})
     \<and> (tc_sequence t = None \<longleftrightarrow> ms_fault st = GATEWAY_UNAVAILABLE)
     \<and> tc_completed_at_us t = tc_started_at_us t + tc_duration_us t"

lemma campaign_loop_traces:
  assumes "\<forall>(st, (r, rest))\<in>set steps. gr_identifier r = ms_route_id st"
  shows "\<exists>ts. cs_traces (campaign_loop i steps x) = cs_traces x @ ts \<and> list_all2 trace_of (map fst steps) ts"
  using assms
proof (induction i steps x rule: campaign_loop.induct)
  case (2 i step rest x)
  obtain st r len dur timing where step: "step = (st, (r, len, dur, timing))" by (metis prod_cases5)
  obtain ts where ts: "cs_traces (campaign_loop (i + 1) rest (campaign_step i step x)) = cs_traces (campaign_step i step x) @ ts"
    "list_all2 trace_of (map fst rest) ts" using 2 by auto
  obtain t where "cs_traces (campaign_step i step x) = cs_traces x @ [t]" "trace_of st t"
    using 2(2) by (auto simp: step campaign_step_def Let_def trace_of_def)
  then show ?case using ts by (auto simp: step)
qed simp

lemma campaign_loop_failures:
  "cs_failed x = int (length (filter (\<lambda>t. tc_outcome t = ''failed'') (cs_traces x)))
    \<Longrightarrow> cs_failed (campaign_loop i steps x)
      = int (length (filter (\<lambda>t. tc_outcome t = ''failed'') (cs_traces (campaign_loop i steps x))))"
proof (induction i steps x rule: campaign_loop.induct)
  case (2 i step rest x)
  then show ?case by (simp add: campaign_step_def Let_def split: prod.splits)
qed simp

lemma prepared_routes:
  assumes "map_ok (prepare_step n) sts = Inr prepared"
  shows "\<forall>(st, (r, rest))\<in>set (zip sts prepared). gr_identifier r = ms_route_id st"
proof clarify
  fix st r len dur timing
  assume "(st, (r, len, dur, timing)) \<in> set (zip sts prepared)"
  then have "prepare_step n st = Inr (r, len, dur, timing)"
    using assms unfolding map_ok_Inr by (auto simp: list_all2_conv_all_nth in_set_zip)
  then show "gr_identifier r = ms_route_id st"
    using prepare_step_dest find_route_Inr by (fastforce simp: stored_route_def)
qed

text \<open>What a campaign reports about its steps.\<close>

lemma campaign_report:
  assumes "map_ok (prepare_step n) sts = Inr prepared" "x = campaign_loop 1 (zip sts prepared) (initial_campaign_state n)"
  shows "list_all2 trace_of sts (cs_traces x)" "cs_latencies x = forwarded (cs_traces x)"
    "cs_failed x = int (length (filter (\<lambda>t. tc_outcome t = ''failed'') (cs_traces x)))"
proof -
  have fst: "map fst (zip sts prepared) = sts" using map_ok_length[OF assms(1)] by simp
  show "list_all2 trace_of sts (cs_traces x)"
    using campaign_loop_traces[OF prepared_routes[OF assms(1)], of 1 "initial_campaign_state n"] unfolding fst assms(2)
    by (auto simp: initial_campaign_state_def)
  show "cs_latencies x = forwarded (cs_traces x)"
    unfolding assms(2) by (rule campaign_loop_latencies) (simp add: initial_campaign_state_def forwarded_def)
  show "cs_failed x = int (length (filter (\<lambda>t. tc_outcome t = ''failed'') (cs_traces x)))"
    unfolding assms(2) by (rule campaign_loop_failures) (simp add: initial_campaign_state_def)
qed

section \<open>Routes\<close>

lemma route_succeeds:
  assumes "vehicle_network v s = Some n" "find_execution gx_key n (rc_command_id c) (gateway_executions s) = None"
    and "rc_expected_version c = net_version n" "stored_route n (rc_route_id c) = Inr r"
    and "stored_destination n r = Inr (int (length (rc_payload c)), dur, timing)"
  shows "\<exists>x n' s'. execute_gateway_route e (v, c) s = Inr ((x, n', False), s')"
  using insert_after_miss[OF assms(2)] assms
  by (simp add: execute_gateway_route_def require_can_network_def Let_def gx_key_def)

end
