(* ===== verification/CanArbitrated.thy ===== *)
theory CanArbitrated
  imports CanReach "HOL-Library.Multiset"
begin

text \<open>
  The rows an arbitration stores: sorted by the rank of their frames, the contenders come in the
  order of the schedule, so every frame is stored with the payload of its own contender; and the
  only way the handler can fail after its checks is a clash of identifiers.
\<close>

lemma list_all2_nth_find:
  assumes "distinct (map g ys)" "list_all2 (\<lambda>x y. g y = h x) xs ys" "i < length xs"
  shows "find (\<lambda>y. g y = h (xs ! i)) ys = Some (ys ! i)"
proof -
  have n: "length ys = length xs" "\<And>j. j < length xs \<Longrightarrow> g (ys ! j) = h (xs ! j)"
    using assms(2) by (auto simp: list_all2_conv_all_nth)
  have "g (ys ! j) \<noteq> h (xs ! i)" if "j < i" for j
  proof
    assume "g (ys ! j) = h (xs ! i)"
    then have "map g ys ! j = map g ys ! i" using n assms(3) that by simp
    then show False using nth_eq_iff_index_eq[OF assms(1), of j i] n(1) assms(3) that by simp
  qed
  then show ?thesis using n assms(3) by (auto simp: find_Some_iff)
qed

lemma frame_orders:
  assumes sched: "bus_schedule n (mset ws) t 0 order frames finish"
    and d: "distinct (map (\<lambda>w. fc_identifier (rc_contract w)) ws)" and i: "i < length order"
  shows "frame_order frames (order ! i) = Inr (1 + int i)"
proof -
  have all: "list_all2 (frame_from n) order frames" by (rule schedule_frames[OF sched])
  have len: "length frames = length order" using all by (simp add: list_all2_lengthD)
  have ids: "list_all2 (\<lambda>w f. af_contract_id f = fc_identifier (rc_contract w)) order frames"
    using all by (rule list_all2_mono) (simp add: frame_from_facts(3))
  have "map af_contract_id frames = map (\<lambda>w. fc_identifier (rc_contract w)) order"
    using ids by (induction rule: list_all2_induct) auto
  moreover have "mset (map (\<lambda>w. fc_identifier (rc_contract w)) order) = mset (map (\<lambda>w. fc_identifier (rc_contract w)) ws)"
    using schedule_contenders[OF sched] by (simp only: mset_map)
  ultimately have "distinct (map af_contract_id frames)" using d mset_eq_imp_distinct_iff by metis
  from list_all2_nth_find[OF this ids i]
  have f: "find (\<lambda>f. af_contract_id f = fc_identifier (rc_contract (order ! i))) frames = Some (frames ! i)" .
  have "map af_rank frames ! i = 1 + int i" using schedule_numbers[OF sched] i len by simp
  then show ?thesis using f i len by (simp add: frame_order_def)
qed

lemma ordered_by_schedule:
  assumes "bus_schedule n (mset ws) t 0 order frames finish"
    and "distinct (map (\<lambda>w. fc_identifier (rc_contract w)) ws)"
  shows "ordered_contenders frames ws = Inr order"
proof -
  let ?rank = "\<lambda>w. projr (frame_order frames w)"
  have ms: "mset order = mset ws" by (rule schedule_contenders[OF assms(1)])
  have ranks: "frame_order frames w = Inr (?rank w)" if "w \<in> set ws" for w
    using frame_orders[OF assms] that mset_eq_setD[OF ms] by (metis in_set_conv_nth sum.sel(2))
  then have keys: "map_ok (frame_order frames) ws = Inr (map ?rank ws)"
    unfolding map_ok_Inr by (simp add: list_all2_map2 list_all2_same)
  have pairs: "mset (map (\<lambda>w. (?rank w, w)) order) = mset (map (\<lambda>w. (?rank w, w)) ws)" by (simp add: ms)
  have rank: "map ?rank order = map (\<lambda>i. 1 + int i) [0..<length order]"
    by (rule nth_equalityI) (simp_all add: frame_orders[OF assms])
  then have sorted: "sorted (map ?rank order)" by (simp add: sorted_iff_nth_mono)
  have dist: "distinct (map ?rank order)" unfolding rank by (simp add: distinct_map inj_on_def)
  then have "inj_on ?rank (set ws)" using mset_eq_setD[OF ms] by (simp add: distinct_map)
  then have "inj_on fst (set (map (\<lambda>w. (?rank w, w)) ws))" by (auto simp: inj_on_def)
  then have "sort_key fst (map (\<lambda>w. (?rank w, w)) ws) = map (\<lambda>w. (?rank w, w)) order"
    using sorted by (intro sort_key_inj_key_eq[OF pairs[symmetric]]) (simp_all add: comp_def)
  moreover have "zip (map ?rank ws) ws = map (\<lambda>w. (?rank w, w)) ws" by (simp add: zip_map1 zip_same_conv_map)
  ultimately show ?thesis by (simp add: ordered_contenders_def keys comp_def)
qed

text \<open>The identifiers of the stored frames.\<close>

definition arbitration_ids :: "string \<Rightarrow> nat \<Rightarrow> string list" where
  "arbitration_ids command_id k = map (\<lambda>i. arbitration_command_id command_id (1 + int i)) [0..<k]"

lemma arbitration_ids_distinct: "distinct (arbitration_ids i k)"
  by (simp add: arbitration_ids_def arbitration_command_id_def distinct_map inj_on_def int_str_inject)

lemma arbitration_rows:
  fixes e :: env and c :: can_arbitration_command
  assumes sched: "bus_schedule n (mset ws) t 0 order frames finish"
  defines "rows \<equiv> map (arbitration_transmission e n c) (zip frames order)"
  shows "map tx_key rows = map (\<lambda>i. (net_id n, i)) (arbitration_ids (ac_command_id c) (length frames))"
    and "map tx_contract_id rows = map af_contract_id frames" "length rows = length order"
    and "map (\<lambda>x. (tx_contract_id x, tx_producer_node_id x, tx_payload x)) rows
       = map (\<lambda>w. (fc_identifier (rc_contract w), rc_producer_node_id w, rc_payload_bytes w)) order"
proof -
  have all: "list_all2 (frame_from n) order frames" by (rule schedule_frames[OF sched])
  have len: "length frames = length order" using all by (simp add: list_all2_lengthD)
  have ranks: "map af_rank frames = map (\<lambda>i. 1 + int i) [0..<length frames]" using schedule_numbers[OF sched] by simp
  have "map tx_key rows = map ((\<lambda>k. (net_id n, arbitration_command_id (ac_command_id c) k)) \<circ> af_rank \<circ> fst) (zip frames order)"
    by (auto simp: rows_def arbitration_transmission_def tx_key_def)
  also have "\<dots> = map (\<lambda>k. (net_id n, arbitration_command_id (ac_command_id c) k)) (map af_rank frames)"
    by (simp add: len flip: map_map)
  finally show "map tx_key rows = map (\<lambda>i. (net_id n, i)) (arbitration_ids (ac_command_id c) (length frames))"
    unfolding ranks by (simp add: arbitration_ids_def)
  have "map tx_contract_id rows = map (af_contract_id \<circ> fst) (zip frames order)"
    by (auto simp: rows_def arbitration_transmission_def)
  then show "map tx_contract_id rows = map af_contract_id frames" by (simp add: len flip: map_map)
  show "length rows = length order" by (simp add: rows_def len)
  show "map (\<lambda>x. (tx_contract_id x, tx_producer_node_id x, tx_payload x)) rows
       = map (\<lambda>w. (fc_identifier (rc_contract w), rc_producer_node_id w, rc_payload_bytes w)) order"
  proof (rule nth_equalityI)
    fix i assume "i < length (map (\<lambda>x. (tx_contract_id x, tx_producer_node_id x, tx_payload x)) rows)"
    then have i: "i < length order" by (simp add: rows_def len)
    then have "frame_from n (order ! i) (frames ! i)" using all by (simp add: list_all2_conv_all_nth)
    from frame_from_facts(3,7)[OF this] show "map (\<lambda>x. (tx_contract_id x, tx_producer_node_id x, tx_payload x)) rows ! i
       = map (\<lambda>w. (fc_identifier (rc_contract w), rc_producer_node_id w, rc_payload_bytes w)) order ! i"
      using i by (simp add: rows_def len arbitration_transmission_def)
  qed (simp add: rows_def len)
qed

text \<open>Resolving keeps contract, producer and payload of a contender.\<close>

lemma resolved_triples:
  assumes "contracts_ok n" "resolve_contenders n c = Inr ws"
  shows "map (\<lambda>w. (fc_identifier (rc_contract w), rc_producer_node_id w, rc_payload_bytes w)) ws
    = map (\<lambda>k. (ct_contract_id k, ct_producer_node_id k, ct_payload k)) (ac_contenders c)"
proof -
  have "list_all2 (\<lambda>k w. resolve_contender n k = Inr w) (ac_contenders c) ws"
    using assms(2) by (simp add: resolve_contenders_def map_ok_Inr)
  then show ?thesis using resolve_contender_ok[OF assms(1)] by (induction rule: list_all2_induct) auto
qed

section \<open>The handler after its checks\<close>

lemma arbitration_run:
  fixes e :: env
  assumes "vehicle_network v s = Some n" "find_execution ax_key n (ac_command_id c) (arbitrations s) = None"
    and "ac_expected_version c = net_version n" "resolve_contenders n c = Inr ws" "arbitrate n ws = (frames, u)"
    and "ordered_contenders frames ws = Inr order" "length frames = length order"
  defines "rows \<equiv> map (arbitration_transmission e n c) (zip frames order)"
  shows "tx_key ` set rows \<inter> tx_key ` set (transmissions s) \<noteq> {} \<Longrightarrow>
      execute_arbitration e (v, c) s = Inl (IntegrityError ''uq_can_frame_transmission_command'')"
    and "tx_key ` set rows \<inter> tx_key ` set (transmissions s) = {} \<Longrightarrow> distinct (map tx_key rows) \<Longrightarrow>
      \<exists>r s'. execute_arbitration e (v, c) s = Inr ((r, after_arbitration n frames u, False), s')
        \<and> transmissions s' = transmissions s @ rows"
proof -
  let ?x = "\<lparr>ax_network_id = net_id n, ax_command_id = ac_command_id c, ax_request = c,
           ax_result = (frames, u), ax_contender_count = int (length ws),
           ax_previous_version = net_version n, ax_network_version = net_version n + 1,
           ax_requested_by_user_id = env_actor e\<rparr>"
  have ins: "insert_row ax_key ?x (arbitrations s) = Some (arbitrations s @ [?x])"
    by (rule insert_after_miss[OF assms(2)]) (simp add: ax_key_def)
  assume clash: "tx_key ` set rows \<inter> tx_key ` set (transmissions s) \<noteq> {}"
  then have "insert_rows tx_key rows (transmissions s) = None"
    using insert_rows_Some[of tx_key rows "transmissions s"] by (cases "insert_rows tx_key rows (transmissions s)") auto
  then show "execute_arbitration e (v, c) s = Inl (IntegrityError ''uq_can_frame_transmission_command'')"
    using assms(1-7) ins by (simp add: execute_arbitration_def require_can_network_def Let_def rows_def)
next
  let ?x = "\<lparr>ax_network_id = net_id n, ax_command_id = ac_command_id c, ax_request = c,
           ax_result = (frames, u), ax_contender_count = int (length ws),
           ax_previous_version = net_version n, ax_network_version = net_version n + 1,
           ax_requested_by_user_id = env_actor e\<rparr>"
  have ins: "insert_row ax_key ?x (arbitrations s) = Some (arbitrations s @ [?x])"
    by (rule insert_after_miss[OF assms(2)]) (simp add: ax_key_def)
  assume "tx_key ` set rows \<inter> tx_key ` set (transmissions s) = {}" "distinct (map tx_key rows)"
  then have "insert_rows tx_key rows (transmissions s) = Some (transmissions s @ rows)" by (simp add: insert_rows_Some)
  then show "\<exists>r s'. execute_arbitration e (v, c) s = Inr ((r, after_arbitration n frames u, False), s')
        \<and> transmissions s' = transmissions s @ rows"
    using assms(1-7) ins by (simp add: execute_arbitration_def require_can_network_def Let_def rows_def after_arbitration_def)
qed

end
