(* ===== verification/CanBusProperties.thy ===== *)
theory CanBusProperties
  imports CanSystemProperties CanLatency CanArbitrated
begin

text \<open>
  The properties of gateways, campaigns and arbitrations as they are stored, witnessed on the small
  network with a LIN channel and a route to it.
\<close>

section \<open>A network with a gateway\<close>

definition ex_lin :: lin_channel_contract where
  "ex_lin = \<lparr>lc_identifier = ''lin-1'', lc_bitrate_kbps = 20, lc_master_node_id = ''e1'',
     lc_frames = [\<lparr>lf_identifier = ''lin-speed'', lf_frame_id = 5, lf_publisher_node_id = ''e1'',
       lf_subscriber_node_ids = [''e2''], lf_payload_length = 2, lf_checksum_model = LIN_ENHANCED\<rparr>]\<rparr>"

definition ex_gateway_route :: gateway_route_contract where
  "ex_gateway_route = \<lparr>gr_identifier = ''to-lin'', gr_gateway_node_id = ''e1'', gr_source_protocol = CAN,
     gr_source_contract_id = ''speed'', gr_destination_protocol = LIN, gr_destination_contract_id = ''lin-speed''\<rparr>"

definition ex_bus :: can_network where
  "ex_bus = ex_network\<lparr>net_lin_channels := [ex_lin], net_gateway_routes := [ex_gateway_route]\<rparr>"

definition ex_bus_store :: can_store where
  "ex_bus_store = empty_can_store\<lparr>networks := [ex_bus]\<rparr>"

lemma ex_destination:
  "stored_destination ex_bus ex_gateway_route = Inr (2, py_ceil (py_truediv (63 * 1000) 20), [(''bit_count'', JInt 63), (''bitrate_kbps'', JInt 20)])"
  by (simp add: stored_destination_def ex_bus_def ex_lin_def ex_gateway_route_def lin_destination_def)

lemma ex_bus_facts [simp]:
  "vehicle_network ex_vehicle ex_bus_store = Some ex_bus" "net_gateway_routes ex_bus = [ex_gateway_route]"
  "gateway_executions ex_bus_store = []" "campaign_executions ex_bus_store = []" "net_version ex_bus = 1"
  "stored_route ex_bus ''to-lin'' = Inr ex_gateway_route" "net_simulation_time_us ex_bus = 0" "net_id ex_bus = ''n1''"
  "net_next_sequence ex_bus = 1" "transmissions ex_bus_store = []" "arbitrations ex_bus_store = []"
  by (simp_all add: ex_bus_store_def empty_can_store_def vehicle_network_def select_def ex_bus_def ex_vehicle_def
      ex_network_def stored_route_def ex_gateway_route_def)

lemma ex_bus_ok: "network_ok ex_bus"
proof -
  have slugs: "slug_ok ''lin-1''" "slug_ok ''lin-speed''" by code_simp+
  have "routes_resolve ex_bus"
    using ex_destination
    by (simp add: routes_resolve_def destination_length_def) (simp add: node_roles_def ex_bus_def ex_network_def ex_gateway_route_def)
  then have "transports_ok ex_bus"
    using slugs by (simp add: transports_ok_def ex_bus_def ex_network_def ex_lin_def lin_channel_contract_ok_def
        lin_frame_contract_ok_def validate_nodes_def int_between_def len_between_def)
  then show ?thesis
    by (simp add: network_ok_def)
       (use ex_network_ok in \<open>simp add: network_ok_def bitrates_ok_def contracts_ok_def error_states_ok_def
          ex_bus_def ex_network_def\<close>)
qed

lemma ex_bus_inv: "can_inv ex_bus_store"
  using ex_bus_ok by (simp add: can_inv_def networks_ok_def ex_bus_store_def empty_can_store_def)

section \<open>Gateway routes\<close>

text \<open>C28: A configured route always delivers. In every reachable store, once a gateway route is
  configured, a frame with the length of the route's destination can be sent through it: a request
  that was not sent before, names the current version and carries a payload of that length
  succeeds, and moves the clock on by the requested advance and the exact duration of the
  destination frame, which no setting of the network can make undefined.\<close>
theorem configured_route_delivers:
  assumes "can_inv s" "vehicle_network v s = Some n" "rc_route_id c \<in> gr_identifier ` set (net_gateway_routes n)"
    and "find_execution gx_key n (rc_command_id c) (gateway_executions s) = None" "rc_expected_version c = net_version n"
  shows "\<exists>r len dur timing. r \<in> set (net_gateway_routes n) \<and> gr_identifier r = rc_route_id c
    \<and> stored_destination n r = Inr (len, dur, timing) \<and> 0 \<le> dur
    \<and> (if int (length (rc_payload c)) = len
       then \<exists>x m s'. execute_gateway_route e (v, c) s = Inr ((x, m, False), s') \<and> vehicle_network v s' = Some m
          \<and> net_simulation_time_us m = net_simulation_time_us n + rc_advance_time_us c + dur
          \<and> net_next_sequence m = net_next_sequence n + 1
       else execute_gateway_route e (v, c) s
          = Inl (MultiBusGatewayContract ''payload length must equal the routed contract''))"
proof -
  have ok: "network_ok n" by (rule vehicle_network_ok[OF assms(1,2)])
  have nets: "networks_ok s" using assms(1) by (simp add: can_inv_def)
  obtain r where r: "stored_route n (rc_route_id c) = Inr r"
    using find_route_total[OF assms(3)] by (auto simp: stored_route_def)
  then have rin: "r \<in> set (net_gateway_routes n)" "gr_identifier r = rc_route_id c"
    using find_route_Inr by (auto simp: stored_route_def)
  obtain len dur timing where d: "stored_destination n r = Inr (len, dur, timing)"
    using ok rin(1) by (force simp: network_ok_def transports_ok_def routes_resolve_def destination_length_def ok_simps)
  have dur: "0 \<le> dur" using ok d stored_destination_nonneg by (auto simp: network_ok_def transports_ok_def)
  show ?thesis
  proof (cases "int (length (rc_payload c)) = len")
    case True
    obtain x m s' where run: "execute_gateway_route e (v, c) s = Inr ((x, m, False), s')"
      using route_succeeds[OF assms(2,4,5) r] d True by blast
    have "vehicle_network v s' = Some m" by (rule committed_facts(2)[OF nets route_committed[OF assms(2,4) run]])
    moreover have "net_simulation_time_us m = net_simulation_time_us n + rc_advance_time_us c + dur
        \<and> net_next_sequence m = net_next_sequence n + 1"
      using route_first(5)[OF assms(2,4) run] r d by auto
    ultimately show ?thesis using rin d dur True run by auto
  next
    case False
    have "execute_gateway_route e (v, c) s = Inl (MultiBusGatewayContract ''payload length must equal the routed contract'')"
      using assms(2,4,5) r d False by (simp add: execute_gateway_route_def require_can_network_def)
    then show ?thesis using rin d dur False by auto
  qed
qed

definition ex_route_command :: gateway_route_command where
  "ex_route_command = \<lparr>rc_command_id = ''route-001'', rc_expected_version = 1, rc_route_id = ''to-lin'',
     rc_payload = [1, 2], rc_advance_time_us = 10\<rparr>"

theorem configured_route_delivers_witness:
  "\<exists>x m s'. execute_gateway_route ex_env (ex_vehicle, ex_route_command) ex_bus_store = Inr ((x, m, False), s')
    \<and> net_simulation_time_us m = 3160"
proof -
  have pre: "rc_route_id ex_route_command \<in> gr_identifier ` set (net_gateway_routes ex_bus)"
    "find_execution gx_key ex_bus (rc_command_id ex_route_command) (gateway_executions ex_bus_store) = None"
    "rc_expected_version ex_route_command = net_version ex_bus"
    by (simp_all add: ex_route_command_def ex_gateway_route_def)
  have "py_ceil (py_truediv (63 * 1000) 20) = 3150" by (simp add: py_ceil_truediv ceil_div_def)
  then show ?thesis
    using configured_route_delivers[OF ex_bus_inv ex_bus_facts(1) pre, of ex_env] ex_destination
    by (auto simp: ex_route_command_def)
qed

section \<open>Campaigns\<close>

text \<open>C29: A campaign accounts for every step. Its traces are its steps in order, each with its route and
  its fault; failed steps are exactly those with an injected fault, and with the delivered ones they
  make up all steps. The window is the occupied and the idle time, the occupied time is the sum of
  the latencies of the forwarded steps, the sequence counter advances by their number, and the clock
  by the window. The reported percentile, although its rank is computed in floating point, is the
  nearest-rank percentile: the least latency that at least 95 percent of them do not exceed.\<close>
theorem campaign_accounted:
  assumes "network_ok n" "vehicle_network v s = Some n" "multibus_campaign_command_ok c"
    and "find_execution mx_key n (mp_command_id c) (campaign_executions s) = None"
    and "execute_multibus_campaign e (v, c) s = Inr ((r, n', d), s')"
  defines "z \<equiv> mx_result r" and "lats \<equiv> forwarded (cp_traces (mx_result r))"
  shows "list_all2 trace_of (mp_steps c) (cp_traces z)
    \<and> cp_failed_count z = int (length (filter (\<lambda>t. tc_outcome t = ''failed'') (cp_traces z)))
    \<and> cp_delivered_count z + cp_failed_count z = int (length (mp_steps c))
    \<and> cp_window_us z = cp_occupied_us z + cp_idle_us z \<and> cp_occupied_us z = sum_list lats
    \<and> net_simulation_time_us n' = net_simulation_time_us n + cp_window_us z
    \<and> net_next_sequence n' = net_next_sequence n + int (length lats)
    \<and> (mx_status r = ''failed'' \<longleftrightarrow> 0 < cp_failed_count z)
    \<and> (mx_status r = ''passed'' \<longleftrightarrow> cp_failed_count z = 0 \<and> cp_budget_violation_count z = 0)
    \<and> (lats \<noteq> [] \<longrightarrow> cp_p95_latency_us z \<in> set lats \<and> (\<forall>l\<in>set lats. l \<le> cp_maximum_latency_us z)
         \<and> 95 * length lats \<le> 100 * length (filter (\<lambda>l. l \<le> cp_p95_latency_us z) lats)
         \<and> 100 * length (filter (\<lambda>l. l < cp_p95_latency_us z) lats) < 95 * length lats)"
proof (rule campaign_first[OF assms(2,4,5)])
  fix prepared x
  assume prep: "map_ok (prepare_step n) (mp_steps c) = Inr prepared"
    and x: "x = campaign_loop 1 (zip (mp_steps c) prepared) (initial_campaign_state n)"
    and n': "n' = n\<lparr>net_simulation_time_us := cs_simulation_time_us x,
            net_next_sequence := cs_next_sequence x, net_version := net_version n + 1\<rparr>"
    and z: "mx_result r = campaign_result_of n c x" "mx_status r = campaign_status x"
  note rep = campaign_report[OF prep x]
  have steps: "\<forall>st\<in>set (mp_steps c). 0 \<le> ms_advance_time_us st" "length (mp_steps c) \<le> 64"
    using assms(3) by (auto simp: multibus_campaign_command_ok_def multibus_campaign_step_ok_def list_all_iff
        int_between_def len_between_def)
  have tot: "campaign_totals (net_simulation_time_us n) (net_next_sequence n) (length (mp_steps c)) x"
    unfolding x by (rule campaign_run_totals[OF assms(1) prep steps(1)])
  have l: "lats = cs_latencies x" using rep(2) by (simp add: lats_def z campaign_result_of_def Let_def)
  have "length lats \<le> 10 ^ 12" using tot steps(2) by (simp add: l campaign_totals_def)
  note rank = percentile_95_nearest_rank[OF _ this]
  have "lats \<noteq> [] \<Longrightarrow> cp_p95_latency_us z \<in> set lats \<and> (\<forall>l\<in>set lats. l \<le> cp_maximum_latency_us z)
         \<and> 95 * length lats \<le> 100 * length (filter (\<lambda>l. l \<le> cp_p95_latency_us z) lats)
         \<and> 100 * length (filter (\<lambda>l. l < cp_p95_latency_us z) lats) < 95 * length lats"
    using rank by (simp add: z_def z l campaign_result_of_def Let_def)
  then show ?thesis
    using rep(1,3) tot
    by (auto simp: z_def z l n' campaign_result_of_def campaign_totals_def campaign_status_def Let_def)
qed

definition ex_campaign :: multibus_campaign_command where
  "ex_campaign = \<lparr>mp_command_id = ''campaign-001'', mp_expected_version = 1, mp_steps = [
     \<lparr>ms_identifier = ''first'', ms_route_id = ''to-lin'', ms_payload = [1, 2], ms_advance_time_us = 10,
      ms_latency_budget_us = Some 4000, ms_fault = NO_FAULT\<rparr>,
     \<lparr>ms_identifier = ''second'', ms_route_id = ''to-lin'', ms_payload = [3, 4], ms_advance_time_us = 0,
      ms_latency_budget_us = None, ms_fault = GATEWAY_UNAVAILABLE\<rparr>]\<rparr>"

lemma ex_campaign_ok: "multibus_campaign_command_ok ex_campaign"
  by code_simp

lemma ex_campaign_runs:
  "\<exists>r n' s'. execute_multibus_campaign ex_env (ex_vehicle, ex_campaign) ex_bus_store = Inr ((r, n', False), s')"
proof -
  have "\<exists>prepared. map_ok (prepare_step ex_bus) (mp_steps ex_campaign) = Inr prepared"
    using ex_destination by (simp add: ex_campaign_def prepare_step_def as_campaign_error_def)
  moreover have "find_execution mx_key ex_bus (mp_command_id ex_campaign) (campaign_executions ex_bus_store) = None" by simp
  moreover have "mp_expected_version ex_campaign = 1" by (simp add: ex_campaign_def)
  ultimately show ?thesis
    using insert_after_miss[where n = ex_bus and rows = "[]" and key = mx_key]
    by (auto simp: execute_multibus_campaign_def require_can_network_def Let_def mx_key_def insert_row_def)
qed

theorem campaign_accounted_witness:
  "\<exists>r n' s'. execute_multibus_campaign ex_env (ex_vehicle, ex_campaign) ex_bus_store = Inr ((r, n', False), s')
    \<and> cp_delivered_count (mx_result r) + cp_failed_count (mx_result r) = 2
    \<and> net_simulation_time_us n' = cp_window_us (mx_result r)"
proof -
  obtain r n' s' where run: "execute_multibus_campaign ex_env (ex_vehicle, ex_campaign) ex_bus_store = Inr ((r, n', False), s')"
    using ex_campaign_runs by blast
  have fresh: "find_execution mx_key ex_bus (mp_command_id ex_campaign) (campaign_executions ex_bus_store) = None" by simp
  have "int (length (mp_steps ex_campaign)) = 2" by (simp add: ex_campaign_def)
  then show ?thesis
    using campaign_accounted[OF ex_bus_ok ex_bus_facts(1) ex_campaign_ok fresh run] run by auto
qed


section \<open>Stored arbitrations\<close>

text \<open>C30: An arbitration that passes its checks stores what it arbitrated: one transmission per contender,
  in the order of the schedule, each with the contract, the producer and the payload of the same
  contender. The rows get identifiers of the arbitration's own making, which are legal client
  identifiers too; if a client has used one of them on the same network, the arbitration dies in
  the database instead, and this is the only way it fails after its checks.\<close>
theorem arbitration_stores_payloads:
  assumes "can_inv s" "vehicle_network v s = Some n" "can_arbitration_command_ok c"
    and "find_execution ax_key n (ac_command_id c) (arbitrations s) = None" "ac_expected_version c = net_version n"
    and "resolve_contenders n c = Inr ws" "arbitrate n ws = (frames, u)"
  shows "if \<exists>t\<in>set (transmissions s). tx_network_id t = net_id n
        \<and> tx_command_id t \<in> set (arbitration_ids (ac_command_id c) (length (ac_contenders c)))
    then execute_arbitration e (v, c) s = Inl (IntegrityError ''uq_can_frame_transmission_command'')
    else \<exists>r m s' xs. execute_arbitration e (v, c) s = Inr ((r, m, False), s') \<and> transmissions s' = transmissions s @ xs
      \<and> map tx_command_id xs = arbitration_ids (ac_command_id c) (length (ac_contenders c))
      \<and> map tx_contract_id xs = map af_contract_id frames
      \<and> mset (map (\<lambda>x. (tx_contract_id x, tx_producer_node_id x, tx_payload x)) xs)
        = mset (map (\<lambda>k. (ct_contract_id k, ct_producer_node_id k, ct_payload k)) (ac_contenders c))"
proof -
  have con: "contracts_ok n" using vehicle_network_ok[OF assms(1,2)] by (simp add: network_ok_def)
  obtain order where sched: "bus_schedule n (mset ws) (net_simulation_time_us n) 0 order frames (ut_window_end_us u)"
    using arbitrate_schedule(1)[OF assms(7)] by blast
  have "distinct (map (\<lambda>w. fc_identifier (rc_contract w)) ws)"
    unfolding resolved_contenders(1)[OF con assms(6)] using assms(3) by (simp add: can_arbitration_command_ok_def)
  note ord = ordered_by_schedule[OF sched this]
  have ms: "mset order = mset ws" by (rule schedule_contenders[OF sched])
  have len: "length frames = length order" using schedule_frames[OF sched] by (simp add: list_all2_lengthD)
  have count: "length (ac_contenders c) = length frames"
    using map_ok_length[OF assms(6)[unfolded resolve_contenders_def]] mset_eq_length[OF ms] len by simp
  let ?rows = "map (arbitration_transmission e n c) (zip frames order)"
  note rows = arbitration_rows[OF sched, of e c]
  note run = arbitration_run[OF assms(2,4,5,6,7) ord len, of e]
  have ids: "map tx_command_id ?rows = arbitration_ids (ac_command_id c) (length frames)"
    using arg_cong[OF rows(1), of "map snd"] by (simp add: comp_def tx_key_def)
  have keys: "tx_key ` set ?rows = Pair (net_id n) ` set (arbitration_ids (ac_command_id c) (length frames))"
    using arg_cong[OF rows(1), of set] by (simp add: image_image)
  have dist: "distinct (map tx_key ?rows)"
    unfolding rows(1) using arbitration_ids_distinct by (simp add: distinct_map inj_on_def)
  have triples: "mset (map (\<lambda>x. (tx_contract_id x, tx_producer_node_id x, tx_payload x)) ?rows)
      = mset (map (\<lambda>k. (ct_contract_id k, ct_producer_node_id k, ct_payload k)) (ac_contenders c))"
    unfolding rows(4) resolved_triples[OF con assms(6), symmetric] using ms by (simp only: mset_map)
  have clash: "(\<exists>t\<in>set (transmissions s). tx_network_id t = net_id n
        \<and> tx_command_id t \<in> set (arbitration_ids (ac_command_id c) (length frames)))
      \<longleftrightarrow> tx_key ` set ?rows \<inter> tx_key ` set (transmissions s) \<noteq> {}"
    unfolding keys by (force simp: tx_key_def)
  show ?thesis
  proof (cases "tx_key ` set ?rows \<inter> tx_key ` set (transmissions s) = {}")
    case True
    obtain r s' where ran: "execute_arbitration e (v, c) s = Inr ((r, after_arbitration n frames u, False), s')"
      "transmissions s' = transmissions s @ ?rows" using run(2)[OF True dist] by blast
    have free: "\<not> (\<exists>t\<in>set (transmissions s). tx_network_id t = net_id n
        \<and> tx_command_id t \<in> set (arbitration_ids (ac_command_id c) (length frames)))"
      using clash True by blast
    show ?thesis
      unfolding count if_not_P[OF free] by (intro exI conjI, rule ran(1), rule ran(2), rule ids, rule rows(2), rule triples)
  next
    case False
    show ?thesis unfolding count if_P[OF clash[THEN iffD2, OF False]] by (rule run(1)[OF False])
  qed
qed

theorem arbitration_stores_payloads_witness:
  "\<exists>r m s'. execute_arbitration ex_env (ex_vehicle, ex_arbitration) ex_store = Inr ((r, m, False), s')
    \<and> length (transmissions s') = 2"
proof -
  have fresh: "find_execution ax_key ex_network (ac_command_id ex_arbitration) (arbitrations ex_store) = None"
    "ac_expected_version ex_arbitration = net_version ex_network"
    by (simp_all add: ex_arbitration_def)
  obtain frames u where a: "arbitrate ex_network ex_resolved = (frames, u)" by fastforce
  have two: "length (ac_contenders ex_arbitration) = 2" by (simp add: ex_arbitration_def ex_contenders_def)
  from arbitration_stores_payloads[OF ex_store_inv ex_vehicle_network ex_arbitration_ok fresh ex_resolve(1) a, of ex_env]
  obtain r m s' xs where r: "execute_arbitration ex_env (ex_vehicle, ex_arbitration) ex_store = Inr ((r, m, False), s')"
    "transmissions s' = xs" "map tx_command_id xs = arbitration_ids (ac_command_id ex_arbitration) 2"
    unfolding two by auto
  have "length xs = 2" using arg_cong[OF r(3), of length] by (simp add: arbitration_ids_def)
  then show ?thesis using r(1,2) by blast
qed

end
