(* ===== verification/EcuFaultProperties.thy ===== *)
theory EcuFaultProperties
  imports EcuExample
begin

text \<open>
  Properties of the fault lifecycle, and of the requests that keep every unit readable.
\<close>

section \<open>Runs of observations\<close>

text \<open>The observations of one command at a list of times, each with whether the fault was detected.\<close>

fun observe_all ::
  "ecu_fault_observation_command \<Rightarrow> (int \<times> bool) list \<Rightarrow> ecu_fault list \<Rightarrow> app_error + ecu_fault list" where
  "observe_all c [] faults = Inr faults"
| "observe_all c ((now, detected) # rest) faults =
     and_then (observed now (c\<lparr>fo_detected := detected\<rparr>) faults) (\<lambda>(_, _, faults'). observe_all c rest faults')"

lemma observe_all_append:
  "observe_all c (xs @ ys) faults = and_then (observe_all c xs faults) (observe_all c ys)"
proof (induction xs arbitrary: faults)
  case (Cons x xs)
  obtain now detected where x: "x = (now, detected)" by fastforce
  show ?case
    by (cases "observed now (c\<lparr>fo_detected := detected\<rparr>) faults") (auto simp: x Cons.IH split: prod.splits)
qed simp

text \<open>The policy of a command, and a fault that follows it.\<close>

definition follows :: "ecu_fault_observation_command \<Rightarrow> ecu_fault \<Rightarrow> bool" where
  "follows c f \<longleftrightarrow> ft_code f = fo_code c \<and> ft_severity f = fo_severity c \<and> ft_latched f = fo_latched c
     \<and> ft_confirmation_threshold f = fo_confirmation_threshold c \<and> ft_healing_threshold f = fo_healing_threshold c"

lemma find_fault_in: "find_fault k fs = Some f \<Longrightarrow> f \<in> set fs"
  by (auto simp: find_fault_def find_Some_iff)

lemma find_replace:
  "find_fault k fs = Some g \<Longrightarrow> ft_code f = k \<Longrightarrow> find_fault k (replace_fault f fs) = Some f"
  unfolding find_fault_def replace_fault_def by (induction fs) (auto split: if_splits)

lemma observed_current:
  assumes "find_fault (fo_code c) fs = Some f" "follows c f" "ft_status f \<noteq> HEALED"
  shows "observed now (c\<lparr>fo_detected := True\<rparr>) fs
      = Inr (fst (detected_fault now f), snd (detected_fault now f), replace_fault (snd (detected_fault now f)) fs)"
    and "observed now (c\<lparr>fo_detected := False\<rparr>) fs
      = Inr (fst (absent_fault now f), snd (absent_fault now f), replace_fault (snd (absent_fault now f)) fs)"
  using assms by (auto simp: observed_def follows_def split: prod.splits)

lemma transitions_follow [simp]:
  "follows c (snd (detected_fault now f)) = follows c f" "follows c (snd (absent_fault now f)) = follows c f"
  by (simp_all add: follows_def detected_fault_def absent_fault_def Let_def)

text \<open>The fault an unknown or healed code gets on its first detection.\<close>

definition first_fault :: "int \<Rightarrow> ecu_fault_observation_command \<Rightarrow> ecu_fault" where
  "first_fault now c = \<lparr>ft_code = fo_code c, ft_severity = fo_severity c,
     ft_status = (if fo_confirmation_threshold c \<le> 1 then CONFIRMED else PENDING), ft_description = fo_description c,
     ft_active = True, ft_latched = fo_latched c, ft_occurrence_count = 1, ft_healing_count = 0,
     ft_confirmation_threshold = fo_confirmation_threshold c, ft_healing_threshold = fo_healing_threshold c,
     ft_first_seen_ms = now, ft_last_seen_ms = now,
     ft_confirmed_at_ms = (if fo_confirmation_threshold c \<le> 1 then Some now else None), ft_healed_at_ms = None\<rparr>"

lemma code_length: "validate_code k = Inr k \<Longrightarrow> len_between 3 32 k"
  using validate_code_stable by blast

lemma new_fault_first:
  assumes "ecu_fault_observation_command_ok c" "0 \<le> now"
  shows "\<exists>t. new_fault now c = Inr (t, first_fault now c)"
proof -
  have "fault_validate (first_fault now c) = Inr (first_fault now c)"
    using assms code_length[of "fo_code c"] unfolding fault_validate_fixed lifecycle_fixed
    by (auto simp: ecu_fault_observation_command_ok_def first_fault_def fault_fields_ok_def int_between_def)
  then show ?thesis by (simp add: new_fault_def first_fault_def Let_def)
qed

definition fresh_code :: "string \<Rightarrow> ecu_fault list \<Rightarrow> bool" where
  "fresh_code k fs \<longleftrightarrow> (case find_fault k fs of None \<Rightarrow> True | Some f \<Rightarrow> ft_status f = HEALED)"

lemma observed_first:
  assumes "ecu_fault_observation_command_ok c" "0 \<le> now" "fresh_code (fo_code c) fs"
  shows "\<exists>t fs'. observed now (c\<lparr>fo_detected := True\<rparr>) fs = Inr (t, first_fault now c, fs')
    \<and> find_fault (fo_code c) fs' = Some (first_fault now c)"
proof -
  let ?c = "c\<lparr>fo_detected := True\<rparr>"
  let ?fs = "filter (\<lambda>x. ft_code x \<noteq> fo_code c) fs @ [first_fault now c]"
  have c: "ecu_fault_observation_command_ok ?c" "first_fault now ?c = first_fault now c"
    using assms(1) by (simp_all add: ecu_fault_observation_command_ok_def first_fault_def)
  obtain t where "new_fault now ?c = Inr (t, first_fault now c)" using new_fault_first[OF c(1) assms(2)] c(2) by auto
  then have "observed now ?c fs = Inr (t, first_fault now c, ?fs)"
    using assms(3) by (cases "find_fault (fo_code c) fs") (simp_all add: observed_def fresh_code_def)
  moreover have "find_fault (fo_code c) ?fs = Some (first_fault now c)"
    by (induction fs) (auto simp: find_fault_def first_fault_def)
  ultimately show ?thesis by blast
qed

text \<open>C13: A fault is confirmed by exactly its threshold of consecutive detections: after \<open>n\<close>
  detections of an unknown or healed fault it has counted \<open>n\<close> occurrences and is active, it is
  confirmed if and only if \<open>n\<close> reached the confirmation threshold, and then the confirmation time is
  the time of the detection that reached it. First and last sighting are the first and the last
  detection.\<close>
theorem fault_confirmed_at_threshold:
  assumes "ecu_fault_observation_command_ok c" "fresh_code (fo_code c) faults"
    and "ts \<noteq> []" "\<forall>t\<in>set ts. 0 \<le> t"
  shows "\<exists>faults' f. observe_all c (map (\<lambda>t. (t, True)) ts) faults = Inr faults'
    \<and> find_fault (fo_code c) faults' = Some f \<and> follows c f \<and> ft_active f
    \<and> ft_occurrence_count f = int (length ts)
    \<and> ft_status f = (if fo_confirmation_threshold c \<le> int (length ts) then CONFIRMED else PENDING)
    \<and> ft_confirmed_at_ms f = (if fo_confirmation_threshold c \<le> int (length ts)
        then Some (ts ! nat (fo_confirmation_threshold c - 1)) else None)
    \<and> ft_first_seen_ms f = hd ts \<and> ft_last_seen_ms f = last ts"
  using assms(3,4)
proof (induction ts rule: rev_nonempty_induct)
  case (single t)
  have k: "1 \<le> fo_confirmation_threshold c" using assms(1) by (simp add: ecu_fault_observation_command_ok_def int_between_def)
  have "0 \<le> t" using single by simp
  from observed_first[OF assms(1) this assms(2)] show ?case
    using k by (auto simp: follows_def first_fault_def intro!: exI[of _ "first_fault t c"])
next
  case (snoc t ts)
  let ?k = "fo_confirmation_threshold c"
  have k: "1 \<le> ?k" using assms(1) by (simp add: ecu_fault_observation_command_ok_def int_between_def)
  obtain fs f where run: "observe_all c (map (\<lambda>t. (t, True)) ts) faults = Inr fs"
    and f: "find_fault (fo_code c) fs = Some f" "follows c f" "ft_occurrence_count f = int (length ts)"
      "ft_status f = (if ?k \<le> int (length ts) then CONFIRMED else PENDING)"
      "ft_confirmed_at_ms f = (if ?k \<le> int (length ts) then Some (ts ! nat (?k - 1)) else None)"
      "ft_first_seen_ms f = hd ts"
    using snoc.IH snoc.prems by auto
  let ?g = "snd (detected_fault t f)"
  have "ft_status f \<noteq> HEALED" using f(4) by simp
  note step = observed_current(1)[OF f(1,2) this, of t]
  have g: "ft_occurrence_count ?g = int (length (ts @ [t]))" "ft_active ?g" "ft_first_seen_ms ?g = hd (ts @ [t])" "ft_last_seen_ms ?g = t"
    "ft_status ?g = (if ?k \<le> int (length (ts @ [t])) then CONFIRMED else PENDING)"
    using f k snoc.hyps by (auto simp: detected_fault_def Let_def follows_def)
  have conf: "ft_confirmed_at_ms ?g = (if ?k \<le> int (length (ts @ [t])) then Some ((ts @ [t]) ! nat (?k - 1)) else None)"
  proof -
    consider "?k \<le> int (length ts)" | "?k = int (length ts) + 1" | "?k > int (length ts) + 1" by linarith
    then show ?thesis
    proof cases
      case 1
      then have "nat (?k - 1) < length ts" using k by linarith
      then show ?thesis using 1 f by (simp add: detected_fault_def Let_def nth_append)
    next
      case 2
      then have "nat (?k - 1) = length ts" by simp
      then show ?thesis using 2 f by (simp add: detected_fault_def Let_def follows_def)
    next
      case 3
      then show ?thesis using f by (simp add: detected_fault_def Let_def follows_def)
    qed
  qed
  have "find_fault (fo_code c) (replace_fault ?g fs) = Some ?g"
    using find_replace[OF f(1)] f(2) by (simp add: follows_def)
  then show ?case
    using run step g conf f(2) by (auto simp: observe_all_append)
qed

definition eu_fault :: ecu_fault_observation_command where
  "eu_fault = \<lparr>fo_command_id = ''observe-1'', fo_expected_version = 1, fo_code = ''DOOR_STUCK'', fo_severity = CRITICAL,
     fo_detected = True, fo_description = ''stuck'', fo_confirmation_threshold = 2, fo_healing_threshold = 2,
     fo_latched = False\<rparr>"

lemma eu_fault_ok: "ecu_fault_observation_command_ok eu_fault"
  by code_simp

theorem fault_confirmed_at_threshold_witness:
  "\<exists>fs f. observe_all eu_fault [(10, True), (20, True), (30, True)] [] = Inr fs
     \<and> find_fault ''DOOR_STUCK'' fs = Some f \<and> ft_status f = CONFIRMED \<and> ft_confirmed_at_ms f = Some 20"
proof -
  have fresh: "fresh_code (fo_code eu_fault) []" by (simp add: fresh_code_def find_fault_def)
  have k: "fo_confirmation_threshold eu_fault = 2" "fo_code eu_fault = ''DOOR_STUCK''" by (simp_all add: eu_fault_def)
  show ?thesis
    using fault_confirmed_at_threshold[OF eu_fault_ok fresh, of "[10, 20, 30]"] unfolding k by (auto simp: k)
qed

section \<open>Healing\<close>

lemma replaced_follows:
  "find_fault (fo_code c) fs = Some f \<Longrightarrow> follows c g \<Longrightarrow> find_fault (fo_code c) (replace_fault g fs) = Some g"
  using find_replace by (simp add: follows_def)

lemma observe_absent:
  assumes "find_fault (fo_code c) fs = Some f" "follows c f" "ft_status f \<noteq> HEALED"
  shows "observe_all c [(t, False)] fs = Inr (replace_fault (snd (absent_fault t f)) fs)"
    and "find_fault (fo_code c) (replace_fault (snd (absent_fault t f)) fs) = Some (snd (absent_fault t f))"
  using observed_current(2)[OF assms, of t] replaced_follows[OF assms(1)] assms(2) by simp_all

lemma observe_healed:
  "find_fault (fo_code c) fs = Some g \<Longrightarrow> ft_status g = HEALED
    \<Longrightarrow> observe_all c [(t, False)] fs = Inl (EcuFaultContract ''a healed fault requires a new detection'')"
  by (simp add: observed_def)

text \<open>C14: A confirmed fault that is not latched heals on exactly the last of as many consecutive
  absences as its healing threshold asks for, at the time of that observation: before it is confirmed
  and active, from then on it is inactive, and a further absence is refused, since a healed fault
  needs a new detection.\<close>
theorem fault_heals_at_threshold:
  assumes "find_fault (fo_code c) faults = Some f" "follows c f" "ft_status f = CONFIRMED" "\<not> ft_latched f"
    and "ft_healing_count f = 0" "ts \<noteq> []" "int (length ts) \<le> ft_healing_threshold f"
  shows "\<exists>faults' g. observe_all c (map (\<lambda>t. (t, False)) ts) faults = Inr faults'
    \<and> find_fault (fo_code c) faults' = Some g \<and> follows c g \<and> ft_healing_count g = int (length ts)
    \<and> (if int (length ts) = ft_healing_threshold f
        then ft_status g = HEALED \<and> \<not> ft_active g \<and> ft_healed_at_ms g = Some (last ts)
          \<and> (\<forall>t. observe_all c [(t, False)] faults' = Inl (EcuFaultContract ''a healed fault requires a new detection''))
        else ft_status g = CONFIRMED \<and> ft_active g \<and> ft_healed_at_ms g = None)"
  using assms(6,7)
proof (induction ts rule: rev_nonempty_induct)
  case (single t)
  have "ft_status f \<noteq> HEALED" using assms(3) by simp
  note step = observe_absent[OF assms(1,2) this, of t]
  show ?case
    using step observe_healed[OF step(2)] single assms(2-5) by (intro exI[of _ "replace_fault (snd (absent_fault t f)) faults"] exI[of _ "snd (absent_fault t f)"])
      (auto simp: absent_fault_def Let_def follows_def simp del: observe_all.simps)
next
  case (snoc t ts)
  obtain fs g where run: "observe_all c (map (\<lambda>t. (t, False)) ts) faults = Inr fs"
    and g: "find_fault (fo_code c) fs = Some g" "follows c g" "ft_healing_count g = int (length ts)" "ft_status g = CONFIRMED"
    using snoc by auto
  have same: "\<not> ft_latched g" "ft_healing_threshold g = ft_healing_threshold f" using g(2) assms(2,4) by (simp_all add: follows_def)
  have "ft_status g \<noteq> HEALED" using g(4) by simp
  note step = observe_absent[OF g(1,2) this, of t]
  show ?case
    using run step observe_healed[OF step(2)] g same snoc.prems
    by (intro exI[of _ "replace_fault (snd (absent_fault t g)) fs"] exI[of _ "snd (absent_fault t g)"])
      (auto simp: observe_all_append absent_fault_def Let_def follows_def simp del: observe_all.simps)
qed

definition eu_confirmed :: ecu_fault where
  "eu_confirmed = \<lparr>ft_code = ''DOOR_STUCK'', ft_severity = CRITICAL, ft_status = CONFIRMED, ft_description = ''stuck'',
     ft_active = True, ft_latched = False, ft_occurrence_count = 2, ft_healing_count = 0, ft_confirmation_threshold = 2,
     ft_healing_threshold = 2, ft_first_seen_ms = 10, ft_last_seen_ms = 20, ft_confirmed_at_ms = Some 20,
     ft_healed_at_ms = None\<rparr>"

lemma eu_confirmed_found:
  "find_fault (fo_code eu_fault) [eu_confirmed\<lparr>ft_latched := l\<rparr>] = Some (eu_confirmed\<lparr>ft_latched := l\<rparr>)"
  "follows (eu_fault\<lparr>fo_latched := l\<rparr>) (eu_confirmed\<lparr>ft_latched := l\<rparr>)"
  by (simp_all add: find_fault_def eu_confirmed_def eu_fault_def follows_def)

theorem fault_heals_at_threshold_witness:
  "\<exists>fs g. observe_all eu_fault [(30, False), (40, False)] [eu_confirmed] = Inr fs
     \<and> find_fault ''DOOR_STUCK'' fs = Some g \<and> ft_status g = HEALED \<and> ft_healed_at_ms g = Some 40"
proof -
  have f: "find_fault (fo_code eu_fault) [eu_confirmed] = Some eu_confirmed" "follows eu_fault eu_confirmed"
    "ft_status eu_confirmed = CONFIRMED" "\<not> ft_latched eu_confirmed" "ft_healing_count eu_confirmed = 0"
    "ft_healing_threshold eu_confirmed = 2" "fo_code eu_fault = ''DOOR_STUCK''"
    by (simp_all add: find_fault_def eu_confirmed_def eu_fault_def follows_def)
  show ?thesis using fault_heals_at_threshold[OF f(1-5), of "[30, 40]"] unfolding f(6,7) by auto
qed

text \<open>A latched confirmed fault never heals by observation: after any sequence of detections and
  absences it is still confirmed and active and every observation was accepted, so only an explicit
  clear takes it out of that state, and a clear always does.\<close>
theorem latched_fault_stays:
  assumes "find_fault (fo_code c) faults = Some f" "follows c f" "ft_status f = CONFIRMED" "ft_latched f" "observations \<noteq> []"
  shows "\<exists>faults' g. observe_all c observations faults = Inr faults' \<and> find_fault (fo_code c) faults' = Some g
    \<and> follows c g \<and> ft_status g = CONFIRMED \<and> ft_active g
    \<and> (\<forall>now. ft_status (cleared_fault now g) = HEALED \<and> \<not> ft_active (cleared_fault now g))"
  using assms(5)
proof (induction observations rule: rev_nonempty_induct)
  case (single x)
  obtain t d where x: "x = (t, d)" by fastforce
  have "ft_status f \<noteq> HEALED" using assms(3) by simp
  note step = observed_current[OF assms(1,2) this, of t]
  show ?case
  proof (cases d)
    case True
    then show ?thesis
      using step replaced_follows[OF assms(1)] assms(2-4)
      by (intro exI[of _ "replace_fault (snd (detected_fault t f)) faults"] exI[of _ "snd (detected_fault t f)"])
        (simp add: x; simp add: detected_fault_def cleared_fault_def Let_def)
  next
    case False
    then show ?thesis
      using step replaced_follows[OF assms(1)] assms(2-4)
      by (intro exI[of _ "replace_fault (snd (absent_fault t f)) faults"] exI[of _ "snd (absent_fault t f)"])
        (simp add: x; simp add: absent_fault_def cleared_fault_def Let_def)
  qed
next
  case (snoc x xs)
  obtain t d where x: "x = (t, d)" by fastforce
  obtain fs g where run: "observe_all c xs faults = Inr fs" and g: "find_fault (fo_code c) fs = Some g" "follows c g"
    "ft_status g = CONFIRMED"
    using snoc.IH by blast
  have l: "ft_latched g" "ft_status g \<noteq> HEALED" using g(2,3) assms(2,4) by (simp_all add: follows_def)
  note step = observed_current[OF g(1,2) l(2), of t]
  show ?case
  proof (cases d)
    case True
    then show ?thesis
      using run step replaced_follows[OF g(1)] g l
      by (intro exI[of _ "replace_fault (snd (detected_fault t g)) fs"] exI[of _ "snd (detected_fault t g)"])
        (simp add: x observe_all_append; simp add: detected_fault_def cleared_fault_def Let_def)
  next
    case False
    then show ?thesis
      using run step replaced_follows[OF g(1)] g l
      by (intro exI[of _ "replace_fault (snd (absent_fault t g)) fs"] exI[of _ "snd (absent_fault t g)"])
        (simp add: x observe_all_append; simp add: absent_fault_def cleared_fault_def Let_def)
  qed
qed

theorem latched_fault_stays_witness:
  "\<exists>fs g. observe_all (eu_fault\<lparr>fo_latched := True\<rparr>) [(30, False), (40, False), (50, False)] [eu_confirmed\<lparr>ft_latched := True\<rparr>]
     = Inr fs \<and> find_fault ''DOOR_STUCK'' fs = Some g \<and> ft_status g = CONFIRMED \<and> ft_active g"
proof -
  let ?c = "eu_fault\<lparr>fo_latched := True\<rparr>" and ?f = "eu_confirmed\<lparr>ft_latched := True\<rparr>"
  have f: "find_fault (fo_code ?c) [?f] = Some ?f" "follows ?c ?f" "ft_status ?f = CONFIRMED" "ft_latched ?f"
    "fo_code ?c = ''DOOR_STUCK''"
    using eu_confirmed_found[of True] by (simp_all add: eu_fault_def eu_confirmed_def)
  show ?thesis
    using latched_fault_stays[OF f(1-4), of "[(30, False), (40, False), (50, False)]"] unfolding f(5) by blast
qed

section \<open>Readable units\<close>




text \<open>C16: What a client writes as a whole is validated before it is stored: a created unit, a replaced
  state and a restored memory are readable, and so is every other unit still. No room is needed.\<close>
theorem documents_keep_units_readable:
  assumes "units_readable s"
    and "create_ecu e v c s = Inr (u, s') \<or> replace_ecu_state e v i k s = Inr ((u, d), s')
      \<or> (find_ecu v i s \<noteq> None \<and> restore_memory_snapshot e v i n m s = Inr (u, s'))"
  shows "units_readable s'"
  using assms(2)
proof (elim disjE conjE)
  assume "create_ecu e v c s = Inr (u, s')"
  from create_valid[OF this] show ?thesis using assms(1) by (simp add: units_readable_def)
next
  assume "replace_ecu_state e v i k s = Inr ((u, d), s')"
  then show ?thesis by (rule replace_readable[OF assms(1)])
next
  assume "find_ecu v i s \<noteq> None" and run: "restore_memory_snapshot e v i n m s = Inr (u, s')"
  then obtain w where "find_ecu v i s = Some w" by blast
  then show ?thesis using restore_readable[OF assms(1) _ run] by blast
qed

definition eu_create :: ecu_create where
  "eu_create = \<lparr>sp_operational_state = OFFLINE, sp_memory = [], sp_memory_regions = [], sp_faults = [], sp_signals = [],
     sp_cyclic_tasks = [], sp_behavior_state = [], cr_identifier = ''abs-1'', cr_display_name = ''Brakes'', cr_ecu_type = ABS\<rparr>"

theorem documents_keep_units_readable_witness:
  "\<exists>u s'. create_ecu eu_env eu_vehicle eu_create eu_store = Inr (u, s') \<and> units_readable s' \<and> length (ecus s') = 4"
proof -
  have "\<not> isl (create_ecu eu_env eu_vehicle eu_create eu_store)" by code_simp
  then obtain u s' where run: "create_ecu eu_env eu_vehicle eu_create eu_store = Inr (u, s')" using not_isl by fastforce
  then have "units_readable s'" using documents_keep_units_readable[OF eu_readable, of eu_env eu_vehicle eu_create u s'] by blast
  then show ?thesis using run create_valid[OF run] by simp
qed

section \<open>A unit that can no longer be read\<close>

lemma bad_fault_unreadable:
  assumes "f \<in> set (ecu_faults u)" "ft_status f = HEALED" "ft_latched f"
  shows "stored_state_payload u \<noteq> Inr p"
proof
  assume "stored_state_payload u = Inr p"
  then obtain fs where fs: "map_ok fault_validate (ecu_faults u) = Inr fs"
    by (auto simp: stored_state_payload_def state_validate_def state_of_def ok_simps)
  then obtain g where "fault_validate f = Inr g"
    using assms(1) unfolding map_ok_Inr list_all2_conv_all_nth by (metis in_set_conv_nth)
  then obtain code where "keep_lifecycle_consistent (f\<lparr>ft_code := code, ft_description := strip (ft_description f)\<rparr>) = Inr g"
    by (auto simp: fault_validate_def ok_simps)
  from lifecycle_fields(1,4)[OF this] assms(2,3) show False by (auto simp: keep_lifecycle_consistent_def)
qed

text \<open>C17: The one-step heal of a pending latched fault wedges its unit. The observation that reaches
  the healing threshold of a fault that is latched but still pending succeeds, and stores a fault that
  is healed and latched, which the validator of stored states refuses: from then on the state of the
  unit cannot be read, and every reset of it fails, whatever its mode.\<close>
theorem pending_latched_heal_wedges:
  assumes "ecu_store_ok s" "unit_valid u" "find_ecu v i s = Some u" "existing_simulation_command u (fo_command_id c) s = None"
    and "fo_expected_version c = ecu_version u" "\<not> fo_detected c"
    and "find_fault (fo_code c) (ecu_faults u) = Some f" "follows c f" "ft_status f = PENDING" "ft_latched f"
    and "ft_healing_threshold f \<le> ft_healing_count f + 1"
  shows "\<exists>r s' u'. observe_ecu_fault e (v, i, c) s = Inr ((r, False), s') \<and> find_ecu v i s' = Some u'
    \<and> (\<forall>p. stored_state_payload u' \<noteq> Inr p)
    \<and> (\<forall>e' k. existing_simulation_command u' (rs_command_id k) s' = None \<longrightarrow> (\<exists>x. execute_ecu_reset e' (v, i, k) s' = Inl x))"
proof -
  let ?g = "snd (absent_fault (ecu_simulation_time_ms u) f)"
  let ?fs = "replace_fault ?g (ecu_faults u)"
  have st: "ft_status f \<noteq> HEALED" using assms(9) by simp
  have "c\<lparr>fo_detected := False\<rparr> = c" using assms(6) by simp
  then have out: "observed (ecu_simulation_time_ms u) c (ecu_faults u) = Inr (fst (absent_fault (ecu_simulation_time_ms u) f), ?g, ?fs)"
    using observed_current(2)[OF assms(7,8) st, of "ecu_simulation_time_ms u"] by simp
  have "\<exists>r s'. observe_ecu_fault e (v, i, c) s = Inr ((r, False), s')"
    unfolding observe_ecu_fault_def require_ecu_def
    using record_command_ok[OF assms(4)] by (simp add: assms(3-5) valid_faults[OF assms(2)] out commit_fault_def Let_def)
      (rule recorded_some[OF assms(4)], simp add: command_key_def)
  then obtain r s' where run: "observe_ecu_fault e (v, i, c) s = Inr ((r, False), s')" by blast
  obtain fs t g fs' where "observed (ecu_simulation_time_ms u) c fs = Inr (t, g, fs')" "map_ok fault_validate (ecu_faults u) = Inr fs"
    and com: "commit_fault e v u (fo_command_id c) ''fault_observation'' (ObservationRequest c) (t, g, fs') s = Inr ((r, False), s')"
    by (rule observe_first[OF assms(3,4) run]) blast
  then have fs': "fs' = ?fs" using out valid_faults[OF assms(2)] by simp
  let ?u = "u\<lparr>ecu_faults := ?fs, ecu_operational_state := operational_state_after (ecu_operational_state u) ?fs,
          ecu_version := ecu_version u + 1\<rparr>"
  have u': "find_ecu v i s' = Some ?u"
    using committed_unit[OF assms(1,3) commit_fault_Inr(5)[OF com]] by (simp add: fs')
  have g: "ft_status ?g = HEALED" "ft_latched ?g"
    using assms(9-11) by (simp_all add: absent_fault_def Let_def)
  have "find_fault (fo_code c) ?fs = Some ?g" using replaced_follows[OF assms(7)] assms(8) by simp
  then have "?g \<in> set (ecu_faults ?u)" using find_fault_in by simp
  note bad = bad_fault_unreadable[OF this g]
  have "\<exists>x. execute_ecu_reset e' (v, i, k) s' = Inl x"
    if "existing_simulation_command ?u (rs_command_id k) s' = None" for e' k
  proof (cases "execute_ecu_reset e' (v, i, k) s'")
    case (Inr y)
    obtain r d t where "y = ((r, d), t)" by (metis prod_cases3 surj_pair)
    then show ?thesis using reset_first(5)[OF u' that, of e' r d t] Inr bad by blast
  qed blast
  then show ?thesis using run u' bad by blast
qed

definition eu_latched :: electronic_control_unit where
  "eu_latched = eu_lights\<lparr>ecu_faults := [eu_confirmed\<lparr>ft_latched := True, ft_status := PENDING, ft_occurrence_count := 1,
     ft_confirmed_at_ms := None, ft_healing_threshold := 1\<rparr>]\<rparr>"

definition eu_absence :: ecu_fault_observation_command where
  "eu_absence = eu_fault\<lparr>fo_latched := True, fo_detected := False, fo_healing_threshold := 1\<rparr>"

theorem pending_latched_heal_wedges_witness:
  "\<exists>s r s' u'. ecu_store_ok (s :: ecu_store) \<and> units_readable s
    \<and> observe_ecu_fault eu_env (eu_vehicle, ''lights'', eu_absence) s = Inr ((r, False), s')
    \<and> find_ecu eu_vehicle ''lights'' s' = Some u' \<and> (\<forall>p. stored_state_payload u' \<noteq> Inr p)"
proof -
  let ?s = "eu_store\<lparr>ecus := [eu_latched]\<rparr>"
  have v: "unit_valid eu_latched" by code_simp
  have s: "ecu_store_ok ?s" "find_ecu eu_vehicle ''lights'' ?s = Some eu_latched"
    "existing_simulation_command eu_latched (fo_command_id eu_absence) ?s = None"
    by (simp_all add: ecu_store_ok_def find_ecu_def select_def eu_latched_def eu_defs existing_simulation_command_def)
  have readable: "units_readable ?s" using v by (simp add: units_readable_def)
  obtain f where f: "find_fault (fo_code eu_absence) (ecu_faults eu_latched) = Some f" "follows eu_absence f"
    "ft_status f = PENDING" "ft_latched f" "ft_healing_threshold f \<le> ft_healing_count f + 1"
    by (simp add: find_fault_def eu_latched_def eu_absence_def eu_fault_def eu_confirmed_def follows_def)
  have c: "fo_expected_version eu_absence = ecu_version eu_latched" "\<not> fo_detected eu_absence"
    by (simp_all add: eu_absence_def eu_fault_def eu_latched_def eu_defs)
  show ?thesis
    using pending_latched_heal_wedges[OF s(1) v s(2,3) c f, of eu_env] s(1) readable by blast
qed

end
