(* ===== verification/EcuSystemProperties.thy ===== *)
theory EcuSystemProperties
  imports EcuExample
begin

text \<open>
  Properties of the ECU simulation as a whole: signals that travel between units, replayed commands,
  versions and scenarios.
\<close>

section \<open>Signals\<close>






lemma publish_succeeds:
  assumes "find_ecu v i s = Some u" "existing_simulation_command u (pb_command_id c) s = None"
    and "pb_expected_version c = ecu_version u" "map_ok signal_validate (ecu_signals u) = Inr ss"
    and "find (is_signal PRODUCED name) ss = Some x" "signal_with_value x (pb_value c) (ecu_simulation_time_ms u) = Inr y"
  shows "\<exists>r s'. publish_ecu_signal e (v, i, name, c) s = Inr ((r, False), s')"
  unfolding publish_ecu_signal_def require_ecu_def Let_def
  by (simp add: assms) (rule recorded_some[OF assms(2)], simp add: command_key_def)



definition eu_publish :: ecu_signal_publish_command where
  "eu_publish = \<lparr>pb_command_id = ''publish-1'', pb_expected_version = 1, pb_value = SInt 3\<rparr>"


lemma eu_signal_values:
  "signal_with_value (eu_signal PRODUCED 2) (SInt 3) 0 = Inr (eu_signal PRODUCED 3)"
  "signal_with_value (eu_signal CONSUMED 0) (SInt 3) 0 = Inr (eu_signal CONSUMED 3)"
  "signal_validate (eu_signal PRODUCED 3) = Inr (eu_signal PRODUCED 3)"
  "signal_validate (eu_signal CONSUMED 0) = Inr (eu_signal CONSUMED 0)"
  by code_simp+

lemma eu_signals [simp]:
  "ecu_signals eu_body = [eu_signal PRODUCED 2]" "ecu_signals eu_lights = [eu_signal CONSUMED 0]"
  "ecu_simulation_time_ms eu_lights = 0" "ecu_version eu_lights = 1" "ecu_id eu_lights = ''e2''"
  "is_signal d ''door_count'' (eu_signal d x)" "sig_value (eu_signal d x) = SInt x"
  by (simp_all add: eu_defs is_signal_def)

lemma eu_published:
  obtains r s1 where "publish_ecu_signal eu_env (eu_vehicle, ''body-1'', ''door_count'', eu_publish) eu_store = Inr ((r, False), s1)"
    "ecu_by_id ''e1'' s1 = Some (eu_body\<lparr>ecu_signals := [eu_signal PRODUCED 3], ecu_version := 2\<rparr>)"
    "ecu_by_id ''e2'' s1 = Some eu_lights" "existing_simulation_command eu_lights i s1 = None"
proof -
  have val: "signal_with_value (eu_signal PRODUCED 2) (pb_value eu_publish) (ecu_simulation_time_ms eu_body) = Inr (eu_signal PRODUCED 3)"
    using eu_signal_values(1) by (simp add: eu_publish_def)
  have find: "find (is_signal PRODUCED ''door_count'') (ecu_signals eu_body) = Some (eu_signal PRODUCED 2)" by simp
  have ver: "pb_expected_version eu_publish = ecu_version eu_body" by (simp add: eu_publish_def)
  obtain r s1 where run: "publish_ecu_signal eu_env (eu_vehicle, ''body-1'', ''door_count'', eu_publish) eu_store = Inr ((r, False), s1)"
    using publish_succeeds[OF eu_find(1) eu_no_command ver valid_signals[OF eu_body_valid] find val] by blast
  have com: "ecu_committed (pb_command_id eu_publish) eu_body eu_store r
      (eu_body\<lparr>ecu_signals := [eu_signal PRODUCED 3], ecu_version := 2\<rparr>) s1"
    using publish_first(5)[OF eu_find(1) eu_no_command run] valid_signals[OF eu_body_valid] val by auto
  note t = ecu_committed_tables(1,2)[OF com]
  have "ecu_by_id ''e1'' s1 = Some (eu_body\<lparr>ecu_signals := [eu_signal PRODUCED 3], ecu_version := 2\<rparr>)"
    "ecu_by_id ''e2'' s1 = Some eu_lights"
    by (simp_all add: ecu_by_id_def t(1) update_row_def select_def eu_defs)
  moreover have "existing_simulation_command eu_lights i s1 = None"
    using com by (simp add: existing_simulation_command_def t(2) select_def ecu_committed_def command_key_def)
  ultimately show thesis using that run by blast
qed


section \<open>Replayed commands\<close>

text \<open>A replayed transfer looks at the identifier of the gateway only.\<close>

lemma transfer_gateway:
  assumes "ecu_identifier g' = ecu_identifier g"
  shows "transfer_run e (v, g', rt, c) s = transfer_run e (v, g, rt, c) s"
  unfolding transfer_run_def transfer_signal_route_def transfer_evidence_def prod.case assms ..

lemma transfer_request_replay:
  assumes "ecu_store_ok s" "transfer_request e v i j c s = Inr ((r, d), s')" "ecu_grows s t" "ecu_grows s' t"
  shows "transfer_request e' v i j c t = Inr ((r, True), t)"
  using assms(2)
proof (rule transfer_request_run)
  fix g rt
  assume g: "find_ecu v i s = Some g" "require_signal_route g j s = Inr rt" "transfer_run e (v, g, rt, c) s = Inr ((r, d), s')"
  obtain g' where g': "find_ecu v i t = Some g'" "same_unit g g'" using find_ecu_grows[OF assms(3) g(1)] by blast
  obtain zs where "ecu_routes t = ecu_routes s @ zs" using assms(3) by (auto simp: ecu_grows_def extends_def)
  then have "require_signal_route g' j t = Inr rt"
    using g(2) g'(2) by (auto simp: require_signal_route_def same_unit_def ok_simps select_grows)
  moreover have "transfer_run e' (v, g', rt, c) t = Inr ((r, True), t)"
    using transfers.run_replay_later[OF assms(1) g(3) assms(4)] g'(2) by (simp add: transfer_gateway[of g' g] same_unit_def)
  ultimately show ?thesis using g'(1) by (simp add: transfer_request_def require_ecu_def)
qed

text \<open>C19: Commands are exactly-once. A command that succeeded once can be sent again at any later time, by
  any user, after any other requests: it returns the stored execution of the first time, reports a
  duplicate and changes nothing.\<close>
theorem ecu_command_replayed:
  assumes "ecu_store_ok s" "run_ecu_command e v c s = Inr ((r, d), s')" "ecu_steps s' t"
  shows "run_ecu_command e' v c t = Inr ((r, True), t)"
proof -
  note ok = command_ok[OF assms(1,2)]
  then have "moved_on s' t" using ecu_steps_moved[OF assms(3)] by blast
  then have g: "ecu_grows s' t" by (simp add: moved_on_def)
  show ?thesis
  proof (cases c)
    case (TransferSignal i j k)
    then show ?thesis
      using assms(2) transfer_request_replay[OF assms(1) _ ecu_grows_trans[OF _ g] g] ok by auto
  qed (use assms(2) advances.run_replay_later[OF assms(1) _ g] resets.run_replay_later[OF assms(1) _ g]
      corruptions.run_replay_later[OF assms(1) _ g] observations.run_replay_later[OF assms(1) _ g]
      clearings.run_replay_later[OF assms(1) _ g] publications.run_replay_later[OF assms(1) _ g] in auto)
qed

theorem ecu_command_replayed_witness:
  "\<exists>r s1. run_ecu_command eu_env eu_vehicle (PublishSignal ''body-1'' ''door_count'' eu_publish) eu_store = Inr ((r, False), s1)
    \<and> run_ecu_command eu_env eu_vehicle (PublishSignal ''body-1'' ''door_count'' eu_publish) s1 = Inr ((r, True), s1)"
proof -
  let ?c = "PublishSignal ''body-1'' ''door_count'' eu_publish"
  obtain r s1 where run: "run_ecu_command eu_env eu_vehicle ?c eu_store = Inr ((r, False), s1)"
    by (rule eu_published[of "''x''"]) simp
  show ?thesis using ecu_command_replayed[OF eu_store_ok run rtranclp.rtrancl_refl, of eu_env] run by blast
qed

section \<open>Versions\<close>

text \<open>C20: The version of a unit stands for its state. Whatever requests succeed between two readings of
  a unit, it is the same unit, its version never goes down and neither does its clock or its boot
  counter; and if the version is the same, nothing else changed either.\<close>
theorem version_stands_for_state:
  assumes "ecu_store_ok s" "ecu_steps s t" "find_ecu v i s = Some u" "find_ecu v i t = Some u'"
  shows "ecu_id u' = ecu_id u \<and> (u' = u \<or> ecu_version u < ecu_version u')
    \<and> ecu_simulation_time_ms u \<le> ecu_simulation_time_ms u' \<and> ecu_boot_count u \<le> ecu_boot_count u'"
proof -
  have m: "ecu_store_ok t" "ecu_grows s t" "units_move (ecus s) (ecus t)"
    using ecu_steps_moved[OF assms(2,1)] by (simp_all add: moved_on_def)
  have same: "ecu_id u' = ecu_id u"
    using find_ecu_grows[OF m(2) assms(3)] assms(4) by (auto simp: same_unit_def)
  have "u \<in> set (ecus s)" "u' \<in> set (ecus t)" using find_ecu_row assms(3,4) by blast+
  then obtain w where w: "w \<in> set (ecus t)" "unit_moves u w" using m(3) by (auto simp: units_move_def)
  have "w = u'"
    using unit_unique[OF _ \<open>u' \<in> set (ecus t)\<close> w(1)] m(1) w(2) same by (simp add: ecu_store_ok_def unit_moves_def)
  then show ?thesis using w(2) same by (auto simp: unit_moves_def)
qed

theorem version_stands_for_state_witness:
  "\<exists>s1 u'. ecu_steps eu_store s1 \<and> find_ecu eu_vehicle ''body-1'' s1 = Some u' \<and> ecu_id u' = ''e1''
    \<and> (u' = eu_body \<or> 1 < ecu_version u')"
proof -
  obtain r s1 where run: "publish_ecu_signal eu_env (eu_vehicle, ''body-1'', ''door_count'', eu_publish) eu_store = Inr ((r, False), s1)"
    by (rule eu_published[of "''x''"])
  have cmd: "run_ecu_command eu_env eu_vehicle (PublishSignal ''body-1'' ''door_count'' eu_publish) eu_store = Inr ((r, False), s1)"
    using run by simp
  have step: "ecu_steps eu_store s1" by (rule r_into_rtranclp, rule ecu_step.command[OF cmd]) simp
  obtain u' where u': "find_ecu eu_vehicle ''body-1'' s1 = Some u'"
    using find_ecu_grows[OF _ eu_find(1)] publications.run_ok[OF eu_store_ok run] by blast
  show ?thesis using version_stands_for_state[OF eu_store_ok step eu_find(1) u'] step u' by auto
qed

text \<open>The unit a command is about, its identifier and the version it expects; a transfer names two units.\<close>

fun command_target :: "ecu_command \<Rightarrow> (string \<times> string \<times> int) option" where
  "command_target (AdvanceUnit i c) = Some (i, ad_command_id c, ad_expected_version c)"
| "command_target (ResetUnit i c) = Some (i, rs_command_id c, rs_expected_version c)"
| "command_target (CorruptUnit i c) = Some (i, mm_command_id c, mm_expected_version c)"
| "command_target (ObserveFault i c) = Some (i, fo_command_id c, fo_expected_version c)"
| "command_target (ClearFault i code c) = Some (i, cl_command_id c, cl_expected_version c)"
| "command_target (PublishSignal i name c) = Some (i, pb_command_id c, pb_expected_version c)"
| "command_target (TransferSignal i j c) = None"

lemma command_stale:
  assumes "command_target c = Some (i, k, n)" "find_ecu v i s = Some u" "existing_simulation_command u k s = None"
    and "n \<noteq> ecu_version u"
  shows "run_ecu_command e v c s = Inl (EcuStateVersionConflict (ecu_version u))"
  using assms
  by (cases c) (auto simp: advances.unit_stale resets.unit_stale corruptions.unit_stale observations.unit_stale
      clearings.unit_stale[where c = "(_, _)", simplified] publications.unit_stale[where c = "(_, _)", simplified])

lemma command_version:
  assumes "ecu_store_ok s" "command_target c = Some (i, k, n)" "run_ecu_command e v c s = Inr ((r, False), s')"
  shows "\<exists>u u'. find_ecu v i s = Some u \<and> ecu_version u = n \<and> find_ecu v i s' = Some u' \<and> ecu_version u' = n + 1"
proof -
  have "\<exists>u u'. find_ecu v i s = Some u \<and> existing_simulation_command u k s = None \<and> ecu_committed k u s r u' s'"
  proof (cases c)
    case (AdvanceUnit j a)
    then have "execute_ecu_advance e (v, i, a) s = Inr ((r, False), s')" "k = ad_command_id a" using assms by simp_all
    from this(1) show ?thesis by (cases rule: advances.cases_run) (use \<open>k = _\<close> in auto)
  next
    case (ResetUnit j a)
    then have "execute_ecu_reset e (v, i, a) s = Inr ((r, False), s')" "k = rs_command_id a" using assms by simp_all
    from this(1) show ?thesis by (cases rule: resets.cases_run) (use \<open>k = _\<close> in auto)
  next
    case (CorruptUnit j a)
    then have "corrupt_ecu_memory e (v, i, a) s = Inr ((r, False), s')" "k = mm_command_id a" using assms by simp_all
    from this(1) show ?thesis by (cases rule: corruptions.cases_run) (use \<open>k = _\<close> in auto)
  next
    case (ObserveFault j a)
    then have "observe_ecu_fault e (v, i, a) s = Inr ((r, False), s')" "k = fo_command_id a" using assms by simp_all
    from this(1) show ?thesis by (cases rule: observations.cases_run) (use \<open>k = _\<close> in auto)
  next
    case (ClearFault j code a)
    then have "clear_ecu_fault e (v, i, code, a) s = Inr ((r, False), s')" "k = cl_command_id a" using assms by simp_all
    from this(1) show ?thesis by (cases rule: clearings.cases_run) (use \<open>k = _\<close> in auto)
  next
    case (PublishSignal j name a)
    then have "publish_ecu_signal e (v, i, name, a) s = Inr ((r, False), s')" "k = pb_command_id a" using assms by simp_all
    from this(1) show ?thesis by (cases rule: publications.cases_run) (use \<open>k = _\<close> in auto)
  qed (use assms(2) in simp)
  then obtain u u' where u: "find_ecu v i s = Some u" "existing_simulation_command u k s = None" "ecu_committed k u s r u' s'" by blast
  have "n = ecu_version u" using command_stale[OF assms(2) u(1,2), of e] assms(3) by auto
  then show ?thesis using u committed_unit[OF assms(1) u(1,3)] by (auto simp: ecu_committed_def)
qed

text \<open>No update is lost. Of two commands that were prepared against the same version of a unit only
  the first to arrive takes effect: once it did, the second one is refused with the version the unit
  has now, whatever kind of command either is and whatever else happened in between.\<close>
theorem stale_command_refused:
  assumes "ecu_store_ok s" "command_target c = Some (i, k, n)" "run_ecu_command e v c s = Inr ((r, False), s')"
    and "ecu_steps s' t" "command_target c' = Some (i, k', n)" "find_ecu v i t = Some u"
    and "existing_simulation_command u k' t = None"
  shows "n < ecu_version u \<and> run_ecu_command e' v c' t = Inl (EcuStateVersionConflict (ecu_version u))"
proof -
  obtain u' where u': "find_ecu v i s' = Some u'" "ecu_version u' = n + 1" using command_version[OF assms(1-3)] by blast
  have "moved_on s' t" using ecu_steps_moved[OF assms(4)] command_ok[OF assms(1,3)] by blast
  then have "ecu_version u' \<le> ecu_version u"
    using find_ecu_grows[OF _ u'(1)] assms(6) by (fastforce simp: moved_on_def same_unit_def)
  then have lt: "n < ecu_version u" using u'(2) by simp
  then show ?thesis using command_stale[OF assms(5-7)] by blast
qed

theorem stale_command_refused_witness:
  "\<exists>r s1 n. run_ecu_command eu_env eu_vehicle (PublishSignal ''body-1'' ''door_count'' eu_publish) eu_store = Inr ((r, False), s1)
    \<and> run_ecu_command eu_env eu_vehicle (ResetUnit ''body-1'' \<lparr>rs_command_id = ''reset-001'', rs_expected_version = 1, rs_mode = HARD\<rparr>) s1
      = Inl (EcuStateVersionConflict n) \<and> 1 < n"
proof -
  let ?c = "PublishSignal ''body-1'' ''door_count'' eu_publish"
  let ?d = "ResetUnit ''body-1'' \<lparr>rs_command_id = ''reset-001'', rs_expected_version = 1, rs_mode = HARD\<rparr>"
  obtain r s1 where run: "run_ecu_command eu_env eu_vehicle ?c eu_store = Inr ((r, False), s1)"
    by (rule eu_published[of "''x''"]) simp
  have t: "command_target ?c = Some (''body-1'', ''publish-1'', 1)" "command_target ?d = Some (''body-1'', ''reset-001'', 1)"
    by (simp_all add: eu_publish_def)
  have pub: "publish_ecu_signal eu_env (eu_vehicle, ''body-1'', ''door_count'', eu_publish) eu_store = Inr ((r, False), s1)"
    using run by simp
  obtain u' where com: "ecu_committed (pb_command_id eu_publish) eu_body eu_store r u' s1"
    using publish_first(5)[OF eu_find(1) eu_no_command pub] by blast
  note u' = committed_unit[OF eu_store_ok eu_find(1) com]
  have "existing_simulation_command u' ''reset-001'' s1 = None"
    by (rule committed_fresh[OF com eu_no_command]) (simp add: eu_publish_def)
  from stale_command_refused[OF eu_store_ok t(1) run rtranclp.rtrancl_refl t(2) u' this, of eu_env]
  show ?thesis using run by blast
qed

section \<open>Scenarios\<close>









end
