(* ===== verification/DiagModels.thy ===== *)
theory DiagModels
  imports EcuClock EcuRouting
begin

text \<open>
  The diagnostic services of a control unit: the contracts of \<open>src/src/atep/diagnostics/schemas.py\<close>,
  the rows of \<open>src/src/atep/diagnostics/models.py\<close>, and the helpers of
  \<open>src/src/atep/diagnostics/service.py\<close> that its handlers share.
\<close>

section \<open>Enumerations\<close>

datatype UdsServiceId = DIAGNOSTIC_SESSION_CONTROL | ECU_RESET | CLEAR_DIAGNOSTIC_INFORMATION | READ_DTC_INFORMATION
  | READ_DATA_BY_IDENTIFIER | WRITE_DATA_BY_IDENTIFIER | SECURITY_ACCESS | ROUTINE_CONTROL | REQUEST_DOWNLOAD
  | TRANSFER_DATA | REQUEST_TRANSFER_EXIT

fun service_id_value :: "UdsServiceId \<Rightarrow> int" where
  "service_id_value DIAGNOSTIC_SESSION_CONTROL = 0x10"
| "service_id_value ECU_RESET = 0x11"
| "service_id_value CLEAR_DIAGNOSTIC_INFORMATION = 0x14"
| "service_id_value READ_DTC_INFORMATION = 0x19"
| "service_id_value READ_DATA_BY_IDENTIFIER = 0x22"
| "service_id_value WRITE_DATA_BY_IDENTIFIER = 0x2E"
| "service_id_value SECURITY_ACCESS = 0x27"
| "service_id_value ROUTINE_CONTROL = 0x31"
| "service_id_value REQUEST_DOWNLOAD = 0x34"
| "service_id_value TRANSFER_DATA = 0x36"
| "service_id_value REQUEST_TRANSFER_EXIT = 0x37"

datatype UdsNegativeResponseCode = INCORRECT_MESSAGE_LENGTH_OR_INVALID_FORMAT | WRONG_BLOCK_SEQUENCE_COUNTER
  | REQUEST_SEQUENCE_ERROR | CONDITIONS_NOT_CORRECT | REQUEST_OUT_OF_RANGE | SECURITY_ACCESS_DENIED | INVALID_KEY
  | EXCEED_NUMBER_OF_ATTEMPTS | REQUIRED_TIME_DELAY_NOT_EXPIRED | SERVICE_NOT_SUPPORTED_IN_ACTIVE_SESSION

fun nrc_value :: "UdsNegativeResponseCode \<Rightarrow> int" where
  "nrc_value INCORRECT_MESSAGE_LENGTH_OR_INVALID_FORMAT = 0x13"
| "nrc_value WRONG_BLOCK_SEQUENCE_COUNTER = 0x73"
| "nrc_value REQUEST_SEQUENCE_ERROR = 0x24"
| "nrc_value CONDITIONS_NOT_CORRECT = 0x22"
| "nrc_value REQUEST_OUT_OF_RANGE = 0x31"
| "nrc_value SECURITY_ACCESS_DENIED = 0x33"
| "nrc_value INVALID_KEY = 0x35"
| "nrc_value EXCEED_NUMBER_OF_ATTEMPTS = 0x36"
| "nrc_value REQUIRED_TIME_DELAY_NOT_EXPIRED = 0x37"
| "nrc_value SERVICE_NOT_SUPPORTED_IN_ACTIVE_SESSION = 0x7F"

datatype DiagnosticSessionType = DEFAULT_SESSION | PROGRAMMING_SESSION | EXTENDED_SESSION

fun session_type_value :: "DiagnosticSessionType \<Rightarrow> string" where
  "session_type_value DEFAULT_SESSION = ''default''"
| "session_type_value PROGRAMMING_SESSION = ''programming''"
| "session_type_value EXTENDED_SESSION = ''extended''"

datatype DtcSeverity = DTC_INFORMATION | DTC_WARNING | DTC_CRITICAL

fun dtc_severity_value :: "DtcSeverity \<Rightarrow> string" where
  "dtc_severity_value DTC_INFORMATION = ''information''"
| "dtc_severity_value DTC_WARNING = ''warning''"
| "dtc_severity_value DTC_CRITICAL = ''critical''"

datatype DidDataType = DID_BOOLEAN | DID_INTEGER | DID_DECIMAL | DID_STRING

fun did_type_value :: "DidDataType \<Rightarrow> string" where
  "did_type_value DID_BOOLEAN = ''boolean''"
| "did_type_value DID_INTEGER = ''integer''"
| "did_type_value DID_DECIMAL = ''decimal''"
| "did_type_value DID_STRING = ''string''"

datatype RoutineControlType = START_ROUTINE | STOP_ROUTINE | REQUEST_ROUTINE_RESULTS

fun control_type_value :: "RoutineControlType \<Rightarrow> int" where
  "control_type_value START_ROUTINE = 1"
| "control_type_value STOP_ROUTINE = 2"
| "control_type_value REQUEST_ROUTINE_RESULTS = 3"

datatype RoutineStatus = ROUTINE_IDLE | ROUTINE_RUNNING | ROUTINE_COMPLETED | ROUTINE_STOPPED

fun routine_status_value :: "RoutineStatus \<Rightarrow> string" where
  "routine_status_value ROUTINE_IDLE = ''idle''"
| "routine_status_value ROUTINE_RUNNING = ''running''"
| "routine_status_value ROUTINE_COMPLETED = ''completed''"
| "routine_status_value ROUTINE_STOPPED = ''stopped''"

datatype SecurityAccessType = REQUEST_SEED_LEVEL_1 | SEND_KEY_LEVEL_1

fun access_type_value :: "SecurityAccessType \<Rightarrow> int" where
  "access_type_value REQUEST_SEED_LEVEL_1 = 1"
| "access_type_value SEND_KEY_LEVEL_1 = 2"

datatype UdsEcuResetType = HARD_RESET | KEY_OFF_ON_RESET | SOFT_RESET

fun reset_type_value :: "UdsEcuResetType \<Rightarrow> int" where
  "reset_type_value HARD_RESET = 1"
| "reset_type_value KEY_OFF_ON_RESET = 2"
| "reset_type_value SOFT_RESET = 3"

datatype FlashStatus = FLASH_IDLE | FLASH_DOWNLOADING | FLASH_COMPLETED

text \<open>The values of data identifiers and routine parameters, with the equality of Python on them.\<close>

datatype did_value = DvBool bool | DvInt int | DvFloat rat | DvStr string

fun did_json :: "did_value \<Rightarrow> json" where
  "did_json (DvBool b) = JBool b"
| "did_json (DvInt n) = JInt n"
| "did_json (DvFloat x) = JFloat x"
| "did_json (DvStr s) = JStr s"

fun did_number :: "did_value \<Rightarrow> rat option" where
  "did_number (DvBool b) = Some (if b then 1 else 0)"
| "did_number (DvInt n) = Some (of_int n)"
| "did_number (DvFloat x) = Some x"
| "did_number (DvStr s) = None"

definition did_value_eq :: "did_value \<Rightarrow> did_value \<Rightarrow> bool" where
  "did_value_eq a b \<longleftrightarrow> (case (did_number a, did_number b) of
     (Some x, Some y) \<Rightarrow> x = y | (None, None) \<Rightarrow> a = b | _ \<Rightarrow> False)"

type_synonym parameters = "(string \<times> did_value) list"

definition parameters_eq :: "parameters \<Rightarrow> parameters \<Rightarrow> bool" where
  "parameters_eq p q \<longleftrightarrow> set (map fst p) = set (map fst q)
     \<and> list_all (\<lambda>k. case (map_of p k, map_of q k) of (Some x, Some y) \<Rightarrow> did_value_eq x y | _ \<Rightarrow> False) (map fst p)"

definition parameters_json :: "parameters \<Rightarrow> json" where
  "parameters_json p = JObj (map (\<lambda>(k, x). (k, did_json x)) p)"

lemma did_value_eq_refl [simp]: "did_value_eq a a"
  by (cases a) (simp_all add: did_value_eq_def)

lemma parameters_eq_refl [simp]: "parameters_eq p p"
proof -
  have "\<exists>x. map_of p k = Some x" if "k \<in> fst ` set p" for k
    using that map_of_eq_None_iff[of p k] by blast
  then show ?thesis by (fastforce simp: parameters_eq_def list_all_iff split: option.splits)
qed

section \<open>Commands\<close>

text \<open>\<open>CommandId\<close>: \<open>^[A-Za-z0-9._:-]+$\<close>, at most 64 characters.\<close>

definition diagnostic_id_ok :: "string \<Rightarrow> bool" where
  "diagnostic_id_ok s \<longleftrightarrow> len_between 1 64 s
     \<and> list_all (\<lambda>c. is_lower c \<or> is_upper c \<or> is_digit c \<or> c \<in> {CHR ''.'', CHR ''_'', CHR '':'', CHR ''-''}) s"

definition is_hex_digit :: "char \<Rightarrow> bool" where
  "is_hex_digit c \<longleftrightarrow> is_digit c \<or> (let k = of_char c :: nat in 65 \<le> k \<and> k \<le> 70 \<or> 97 \<le> k \<and> k \<le> 102)"

record diagnostic_session_control_command =
  csc_command_id :: string
  csc_expected_version :: int
  csc_session_type :: DiagnosticSessionType

record diagnostic_ecu_reset_command =
  cer_command_id :: string
  cer_reset_type :: UdsEcuResetType
  cer_expected_ecu_version :: int
  cer_expected_session_version :: int
  cer_expected_security_version :: int

definition diagnostic_ecu_reset_command_ok :: "diagnostic_ecu_reset_command \<Rightarrow> bool" where
  "diagnostic_ecu_reset_command_ok c \<longleftrightarrow> diagnostic_id_ok (cer_command_id c) \<and> cer_expected_ecu_version c \<ge> 1
     \<and> cer_expected_session_version c \<ge> 1 \<and> cer_expected_security_version c \<ge> 1"

record flash_request_download_command =
  cfd_command_id :: string
  cfd_memory_address :: int
  cfd_memory_size :: int
  cfd_firmware_version :: string
  cfd_data_format_identifier :: int
  cfd_expected_ecu_version :: int
  cfd_expected_session_version :: int
  cfd_expected_security_version :: int

text \<open>\<open>^[0-9]+[.][0-9]+[.][0-9]+$\<close>: two dots part the text into three numbers.\<close>

fun dotted_numbers :: "nat \<Rightarrow> bool \<Rightarrow> string \<Rightarrow> bool" where
  "dotted_numbers dots digit_seen [] \<longleftrightarrow> dots = 0 \<and> digit_seen"
| "dotted_numbers dots digit_seen (c # cs) \<longleftrightarrow>
     (if is_digit c then dotted_numbers dots True cs
      else c = CHR ''.'' \<and> digit_seen \<and> 0 < dots \<and> dotted_numbers (dots - 1) False cs)"

definition flash_request_download_command_ok :: "flash_request_download_command \<Rightarrow> bool" where
  "flash_request_download_command_ok c \<longleftrightarrow> diagnostic_id_ok (cfd_command_id c)
     \<and> int_between 0 65535 (cfd_memory_address c) \<and> int_between 1 65536 (cfd_memory_size c)
     \<and> len_between 1 20 (cfd_firmware_version c) \<and> dotted_numbers 2 False (cfd_firmware_version c)
     \<and> cfd_data_format_identifier c = 0 \<and> cfd_expected_ecu_version c \<ge> 1
     \<and> cfd_expected_session_version c \<ge> 1 \<and> cfd_expected_security_version c \<ge> 1
     \<and> cfd_memory_address c + cfd_memory_size c \<le> 65536"

text \<open>\<open>data_hex\<close> is upper case after validation.\<close>

record flash_transfer_data_command =
  cft_command_id :: string
  cft_block_sequence_counter :: int
  cft_data_hex :: string
  cft_expected_transfer_version :: int

definition flash_transfer_data_command_ok :: "flash_transfer_data_command \<Rightarrow> bool" where
  "flash_transfer_data_command_ok c \<longleftrightarrow> diagnostic_id_ok (cft_command_id c)
     \<and> int_between 0 255 (cft_block_sequence_counter c) \<and> len_between 2 512 (cft_data_hex c)
     \<and> even (length (cft_data_hex c)) \<and> list_all is_hex_digit (cft_data_hex c)
     \<and> upper (cft_data_hex c) = cft_data_hex c \<and> cft_expected_transfer_version c \<ge> 1"

record flash_transfer_exit_command =
  cfe_command_id :: string
  cfe_expected_transfer_version :: int
  cfe_expected_ecu_version :: int
  cfe_expected_sha256 :: string

definition flash_transfer_exit_command_ok :: "flash_transfer_exit_command \<Rightarrow> bool" where
  "flash_transfer_exit_command_ok c \<longleftrightarrow> diagnostic_id_ok (cfe_command_id c)
     \<and> cfe_expected_transfer_version c \<ge> 1 \<and> cfe_expected_ecu_version c \<ge> 1
     \<and> length (cfe_expected_sha256 c) = 64 \<and> list_all is_hex_digit (cfe_expected_sha256 c)
     \<and> casefold (cfe_expected_sha256 c) = cfe_expected_sha256 c"

record security_access_command =
  csa_command_id :: string
  csa_access_type :: SecurityAccessType
  csa_expected_session_version :: int
  csa_expected_security_version :: int
  csa_key :: "string option"

definition key_matches_operation :: "security_access_command \<Rightarrow> bool" where
  "key_matches_operation c \<longleftrightarrow> (case csa_access_type c of
     REQUEST_SEED_LEVEL_1 \<Rightarrow> csa_key c = None | SEND_KEY_LEVEL_1 \<Rightarrow> csa_key c \<noteq> None)"

definition security_access_command_ok :: "security_access_command \<Rightarrow> bool" where
  "security_access_command_ok c \<longleftrightarrow> diagnostic_id_ok (csa_command_id c)
     \<and> csa_expected_session_version c \<ge> 1 \<and> csa_expected_security_version c \<ge> 1
     \<and> opt_all (\<lambda>k. length k = 16 \<and> list_all is_hex_digit k \<and> upper k = k) (csa_key c) \<and> key_matches_operation c"

text \<open>Routines, data identifiers and trouble codes.\<close>

record routine_create =
  crc_identifier :: int
  crc_name :: string
  crc_description :: string
  crc_allowed_sessions :: "DiagnosticSessionType list"
  crc_execution_time_ms :: int
  crc_supports_stop :: bool
  crc_result_template :: parameters

definition routine_create_ok :: "routine_create \<Rightarrow> bool" where
  "routine_create_ok c \<longleftrightarrow> int_between 0 65535 (crc_identifier c) \<and> len_between 1 80 (crc_name c)
     \<and> len_between 0 240 (crc_description c) \<and> len_between 1 3 (crc_allowed_sessions c)
     \<and> distinct (crc_allowed_sessions c) \<and> int_between 0 600000 (crc_execution_time_ms c)
     \<and> length (crc_result_template c) \<le> 16 \<and> distinct (map fst (crc_result_template c))"

record routine_control_command =
  crl_command_id :: string
  crl_control_type :: RoutineControlType
  crl_expected_session_version :: int
  crl_expected_routine_version :: int
  crl_parameters :: parameters

definition routine_control_command_ok :: "routine_control_command \<Rightarrow> bool" where
  "routine_control_command_ok c \<longleftrightarrow> diagnostic_id_ok (crl_command_id c)
     \<and> crl_expected_session_version c \<ge> 1 \<and> crl_expected_routine_version c \<ge> 1
     \<and> length (crl_parameters c) \<le> 16 \<and> distinct (map fst (crl_parameters c))
     \<and> (crl_control_type c \<noteq> START_ROUTINE \<longrightarrow> crl_parameters c = [])"

record did_create =
  cdc_identifier :: int
  cdc_name :: string
  cdc_description :: string
  cdc_data_type :: DidDataType
  cdc_unit :: string
  cdc_writable :: bool
  cdc_readable_sessions :: "DiagnosticSessionType list"
  cdc_writable_sessions :: "DiagnosticSessionType list"
  cdc_value :: did_value
  cdc_minimum :: "rat option"
  cdc_maximum :: "rat option"
  cdc_max_length :: "int option"

text \<open>\<open>validate_definition\<close>, after the bounds of the fields.\<close>

definition did_create_ok :: "did_create \<Rightarrow> bool" where
  "did_create_ok c \<longleftrightarrow> int_between 0 65535 (cdc_identifier c) \<and> len_between 1 80 (cdc_name c)
     \<and> len_between 0 240 (cdc_description c) \<and> len_between 0 32 (cdc_unit c)
     \<and> len_between 1 3 (cdc_readable_sessions c) \<and> len_between 0 3 (cdc_writable_sessions c)
     \<and> opt_all (int_between 1 4096) (cdc_max_length c)
     \<and> distinct (cdc_readable_sessions c) \<and> distinct (cdc_writable_sessions c)
     \<and> (cdc_writable c \<longleftrightarrow> cdc_writable_sessions c \<noteq> [])
     \<and> (case (cdc_minimum c, cdc_maximum c) of (Some lo, Some hi) \<Rightarrow> lo \<le> hi | _ \<Rightarrow> True)
     \<and> (cdc_data_type c \<notin> {DID_INTEGER, DID_DECIMAL} \<longrightarrow> cdc_minimum c = None \<and> cdc_maximum c = None)
     \<and> (cdc_data_type c \<noteq> DID_STRING \<longrightarrow> cdc_max_length c = None)"

record did_read_command =
  cdr_command_id :: string
  cdr_identifiers :: "int list"

definition did_read_command_ok :: "did_read_command \<Rightarrow> bool" where
  "did_read_command_ok c \<longleftrightarrow> diagnostic_id_ok (cdr_command_id c) \<and> len_between 1 16 (cdr_identifiers c)
     \<and> list_all (int_between 0 65535) (cdr_identifiers c) \<and> distinct (cdr_identifiers c)"

record did_write_command =
  cdw_command_id :: string
  cdw_expected_session_version :: int
  cdw_expected_did_version :: int
  cdw_value :: did_value

record dtc_report_command =
  ctr_code :: string
  ctr_status_mask :: int
  ctr_severity :: DtcSeverity
  ctr_description :: string
  ctr_snapshot :: parameters

definition dtc_code_ok :: "string \<Rightarrow> bool" where
  "dtc_code_ok s \<longleftrightarrow> length s = 6 \<and> list_all (\<lambda>c. is_hex_digit c \<and> \<not> is_lower c) s"

definition dtc_report_command_ok :: "dtc_report_command \<Rightarrow> bool" where
  "dtc_report_command_ok c \<longleftrightarrow> dtc_code_ok (ctr_code c) \<and> int_between 0 255 (ctr_status_mask c)
     \<and> len_between 0 240 (ctr_description c) \<and> length (ctr_snapshot c) \<le> 32"

record dtc_clear_command =
  ctl_command_id :: string
  ctl_expected_version :: int
  ctl_group :: string

text \<open>Campaigns and their transport.\<close>

datatype DiagnosticTransport = LOCAL_TRANSPORT | DOIP_TRANSPORT

fun transport_value :: "DiagnosticTransport \<Rightarrow> string" where
  "transport_value LOCAL_TRANSPORT = ''local''"
| "transport_value DOIP_TRANSPORT = ''doip''"

record doip_envelope =
  doip_protocol_version :: int
  doip_source_address :: int
  doip_target_address :: int
  doip_routing_activation_type :: int

definition doip_envelope_ok :: "doip_envelope \<Rightarrow> bool" where
  "doip_envelope_ok d \<longleftrightarrow> int_between 2 3 (doip_protocol_version d) \<and> int_between 0 65535 (doip_source_address d)
     \<and> int_between 0 65535 (doip_target_address d) \<and> int_between 0 255 (doip_routing_activation_type d)
     \<and> doip_source_address d \<noteq> doip_target_address d"

datatype ObdPid = ENGINE_COOLANT_TEMPERATURE | VEHICLE_SPEED | CONTROL_MODULE_VOLTAGE | HYBRID_BATTERY_REMAINING_LIFE

fun pid_value :: "ObdPid \<Rightarrow> int" where
  "pid_value ENGINE_COOLANT_TEMPERATURE = 0x05"
| "pid_value VEHICLE_SPEED = 0x0D"
| "pid_value CONTROL_MODULE_VOLTAGE = 0x42"
| "pid_value HYBRID_BATTERY_REMAINING_LIFE = 0x5B"

datatype DiagnosticCampaignStepType = OBD_MODE_01 | OBD_MODE_03 | UDS_READ_DIDS

fun step_type_value :: "DiagnosticCampaignStepType \<Rightarrow> string" where
  "step_type_value OBD_MODE_01 = ''obd_mode_01''"
| "step_type_value OBD_MODE_03 = ''obd_mode_03''"
| "step_type_value UDS_READ_DIDS = ''uds_read_dids''"

record diagnostic_campaign_step =
  cst_name :: string
  cst_step_type :: DiagnosticCampaignStepType
  cst_pids :: "ObdPid list"
  cst_identifiers :: "int list"

definition operation_parameters :: "diagnostic_campaign_step \<Rightarrow> bool" where
  "operation_parameters st \<longleftrightarrow> (case cst_step_type st of
     OBD_MODE_01 \<Rightarrow> cst_pids st \<noteq> [] \<and> cst_identifiers st = [] \<and> distinct (cst_pids st)
   | UDS_READ_DIDS \<Rightarrow> cst_identifiers st \<noteq> [] \<and> cst_pids st = [] \<and> distinct (cst_identifiers st)
       \<and> list_all (int_between 0 65535) (cst_identifiers st)
   | OBD_MODE_03 \<Rightarrow> cst_pids st = [] \<and> cst_identifiers st = [])"

definition diagnostic_campaign_step_ok :: "diagnostic_campaign_step \<Rightarrow> bool" where
  "diagnostic_campaign_step_ok st \<longleftrightarrow> len_between 1 80 (cst_name st) \<and> len_between 0 16 (cst_pids st)
     \<and> len_between 0 16 (cst_identifiers st) \<and> operation_parameters st"

record diagnostic_campaign_command =
  ccm_command_id :: string
  ccm_name :: string
  ccm_transport :: DiagnosticTransport
  ccm_doip :: "doip_envelope option"
  ccm_steps :: "diagnostic_campaign_step list"

definition diagnostic_campaign_command_ok :: "diagnostic_campaign_command \<Rightarrow> bool" where
  "diagnostic_campaign_command_ok c \<longleftrightarrow> diagnostic_id_ok (ccm_command_id c) \<and> len_between 1 80 (ccm_name c)
     \<and> opt_all doip_envelope_ok (ccm_doip c) \<and> len_between 1 32 (ccm_steps c)
     \<and> list_all diagnostic_campaign_step_ok (ccm_steps c)
     \<and> (ccm_transport c = DOIP_TRANSPORT \<longleftrightarrow> ccm_doip c \<noteq> None)"

section \<open>Rows\<close>

record diagnostic_session_state =
  dss_ecu_id :: uuid
  dss_session_type :: DiagnosticSessionType
  dss_security_level :: int
  dss_version :: int
  dss_simulation_time_ms :: int

record diagnostic_security_state =
  dsc_id :: uuid
  dsc_ecu_id :: uuid
  dsc_challenge_counter :: int
  dsc_expected_key_digest :: "string option"
  dsc_seed_expires_at_ms :: "int option"
  dsc_failed_attempts :: int
  dsc_locked_until_ms :: "int option"
  dsc_target_level :: int
  dsc_version :: int

record diagnostic_flash_state =
  dfl_ecu_id :: uuid
  dfl_status :: FlashStatus
  dfl_memory_address :: int
  dfl_memory_size :: int
  dfl_firmware_version :: string
  dfl_target_ecu_version :: int
  dfl_max_block_length :: int
  dfl_next_block_sequence_counter :: int
  dfl_bytes_received :: int
  dfl_image_data :: "nat list"
  dfl_image_sha256 :: "string option"
  dfl_version :: int

record diagnostic_data_identifier =
  did_id :: uuid
  did_ecu_id :: uuid
  did_identifier :: int
  did_name :: string
  did_description :: string
  did_data_type :: DidDataType
  did_unit :: string
  did_writable :: bool
  did_readable_sessions :: "DiagnosticSessionType list"
  did_writable_sessions :: "DiagnosticSessionType list"
  did_content :: did_value
  did_minimum :: "rat option"
  did_maximum :: "rat option"
  did_max_length :: "int option"
  did_version :: int
  did_created_by_user_id :: uuid

record diagnostic_routine =
  drt_id :: uuid
  drt_ecu_id :: uuid
  drt_identifier :: int
  drt_name :: string
  drt_description :: string
  drt_allowed_sessions :: "DiagnosticSessionType list"
  drt_execution_time_ms :: int
  drt_supports_stop :: bool
  drt_result_template :: parameters
  drt_version :: int
  drt_created_by_user_id :: uuid

record diagnostic_routine_state =
  drs_routine_id :: uuid
  drs_status :: RoutineStatus
  drs_invocation_count :: int
  drs_started_at_ms :: "int option"
  drs_completes_at_ms :: "int option"
  drs_stopped_at_ms :: "int option"
  drs_input_parameters :: parameters
  drs_result :: parameters
  drs_version :: int

record diagnostic_trouble_code =
  dtc_id :: uuid
  dtc_ecu_id :: uuid
  dtc_code :: string
  dtc_status_mask :: int
  dtc_severity :: DtcSeverity
  dtc_description :: string
  dtc_occurrence_count :: int
  dtc_first_seen_ms :: int
  dtc_last_seen_ms :: int
  dtc_snapshot :: parameters
  dtc_version :: int

text \<open>The request column: the dumped command, or for secrets the dictionary the handler builds instead.\<close>

datatype diagnostic_request =
    SessionRequest diagnostic_session_control_command
  | EcuResetRequest diagnostic_ecu_reset_command
  | DownloadRequest flash_request_download_command
  | BlockRequest string int int string int
  | ExitRequest flash_transfer_exit_command
  | SecurityRequest string SecurityAccessType int int "string option"
  | RoutineRequest int routine_control_command
  | ReadRequest did_read_command
  | WriteRequest int did_write_command
  | ClearDtcRequest dtc_clear_command

text \<open>Equality of stored requests, with the equality of Python on the values inside.\<close>

fun request_eq :: "diagnostic_request \<Rightarrow> diagnostic_request \<Rightarrow> bool" where
  "request_eq (RoutineRequest i c) (RoutineRequest j d) \<longleftrightarrow>
     i = j \<and> parameters_eq (crl_parameters c) (crl_parameters d) \<and> c\<lparr>crl_parameters := []\<rparr> = d\<lparr>crl_parameters := []\<rparr>"
| "request_eq (WriteRequest i c) (WriteRequest j d) \<longleftrightarrow>
     i = j \<and> did_value_eq (cdw_value c) (cdw_value d) \<and> c\<lparr>cdw_value := DvInt 0\<rparr> = d\<lparr>cdw_value := DvInt 0\<rparr>"
| "request_eq r q \<longleftrightarrow> r = q"

lemma request_eq_refl [simp]: "request_eq r r"
  by (cases r) simp_all

record diagnostic_command =
  dcm_ecu_id :: uuid
  dcm_command_id :: string
  dcm_service_id :: UdsServiceId
  dcm_request :: diagnostic_request
  dcm_result :: dict
  dcm_previous_version :: int
  dcm_session_version :: int
  dcm_requested_by_user_id :: uuid

record diagnostic_campaign =
  dcp_id :: uuid
  dcp_ecu_id :: uuid
  dcp_command_id :: string
  dcp_name :: string
  dcp_transport :: DiagnosticTransport
  dcp_doip_envelope :: "doip_envelope option"
  dcp_request :: diagnostic_campaign_command
  dcp_results :: "dict list"
  dcp_status :: string
  dcp_requested_by_user_id :: uuid

section \<open>The store\<close>

record diag_store = ecu_store +
  diag_sessions :: "diagnostic_session_state list"
  diag_securities :: "diagnostic_security_state list"
  diag_flashes :: "diagnostic_flash_state list"
  diag_dids :: "diagnostic_data_identifier list"
  diag_routines :: "diagnostic_routine list"
  diag_routine_states :: "diagnostic_routine_state list"
  diag_dtcs :: "diagnostic_trouble_code list"
  diag_commands :: "diagnostic_command list"
  diag_campaigns :: "diagnostic_campaign list"

text \<open>The keys of the unique constraints.\<close>

definition did_key :: "diagnostic_data_identifier \<Rightarrow> uuid \<times> int" where
  "did_key d = (did_ecu_id d, did_identifier d)"

definition routine_key :: "diagnostic_routine \<Rightarrow> uuid \<times> int" where
  "routine_key r = (drt_ecu_id r, drt_identifier r)"

definition dtc_key :: "diagnostic_trouble_code \<Rightarrow> uuid \<times> string" where
  "dtc_key d = (dtc_ecu_id d, dtc_code d)"

definition diag_key :: "diagnostic_command \<Rightarrow> uuid \<times> string" where
  "diag_key c = (dcm_ecu_id c, dcm_command_id c)"

definition campaign_key :: "diagnostic_campaign \<Rightarrow> uuid \<times> string" where
  "campaign_key c = (dcp_ecu_id c, dcp_command_id c)"

end
