(* ===== verification/DiagHandler.thy ===== *)
theory DiagHandler
  imports DiagModels
begin

text \<open>
  What the diagnostic handlers of \<open>src/src/atep/diagnostics/service.py\<close> share: the state rows they
  create on first use, the lookup of a stored command, the evidence and the execution row.
\<close>

section \<open>State rows\<close>

definition find_session :: "electronic_control_unit \<Rightarrow> 'a diag_store_scheme \<Rightarrow> diagnostic_session_state option" where
  "find_session u s = select (\<lambda>x. dss_ecu_id x = ecu_id u) (diag_sessions s)"

definition new_session :: "electronic_control_unit \<Rightarrow> diagnostic_session_state" where
  "new_session u = \<lparr>dss_ecu_id = ecu_id u, dss_session_type = DEFAULT_SESSION, dss_security_level = 0,
     dss_version = 1, dss_simulation_time_ms = ecu_simulation_time_ms u\<rparr>"

definition get_or_create_session ::
  "electronic_control_unit \<Rightarrow> 'a diag_store_scheme \<Rightarrow> diagnostic_session_state \<times> 'a diag_store_scheme" where
  "get_or_create_session u s = (case find_session u s of
     Some x \<Rightarrow> (x, s) | None \<Rightarrow> (new_session u, s\<lparr>diag_sessions := diag_sessions s @ [new_session u]\<rparr>))"

definition find_security :: "electronic_control_unit \<Rightarrow> 'a diag_store_scheme \<Rightarrow> diagnostic_security_state option" where
  "find_security u s = select (\<lambda>x. dsc_ecu_id x = ecu_id u) (diag_securities s)"

definition new_security :: "env \<Rightarrow> electronic_control_unit \<Rightarrow> diagnostic_security_state" where
  "new_security e u = \<lparr>dsc_id = env_new_id e, dsc_ecu_id = ecu_id u, dsc_challenge_counter = 0,
     dsc_expected_key_digest = None, dsc_seed_expires_at_ms = None, dsc_failed_attempts = 0,
     dsc_locked_until_ms = None, dsc_target_level = 0, dsc_version = 1\<rparr>"

definition get_or_create_security_state ::
  "env \<Rightarrow> electronic_control_unit \<Rightarrow> 'a diag_store_scheme \<Rightarrow> diagnostic_security_state \<times> 'a diag_store_scheme" where
  "get_or_create_security_state e u s = (case find_security u s of
     Some x \<Rightarrow> (x, s) | None \<Rightarrow> (new_security e u, s\<lparr>diag_securities := diag_securities s @ [new_security e u]\<rparr>))"

definition find_flash :: "electronic_control_unit \<Rightarrow> 'a diag_store_scheme \<Rightarrow> diagnostic_flash_state option" where
  "find_flash u s = select (\<lambda>x. dfl_ecu_id x = ecu_id u) (diag_flashes s)"

definition new_flash :: "electronic_control_unit \<Rightarrow> diagnostic_flash_state" where
  "new_flash u = \<lparr>dfl_ecu_id = ecu_id u, dfl_status = FLASH_IDLE, dfl_memory_address = 0, dfl_memory_size = 0,
     dfl_firmware_version = '''', dfl_target_ecu_version = ecu_version u, dfl_max_block_length = 256,
     dfl_next_block_sequence_counter = 1, dfl_bytes_received = 0, dfl_image_data = [], dfl_image_sha256 = None,
     dfl_version = 1\<rparr>"

definition get_or_create_flash_state ::
  "electronic_control_unit \<Rightarrow> 'a diag_store_scheme \<Rightarrow> diagnostic_flash_state \<times> 'a diag_store_scheme" where
  "get_or_create_flash_state u s = (case find_flash u s of
     Some x \<Rightarrow> (x, s) | None \<Rightarrow> (new_flash u, s\<lparr>diag_flashes := diag_flashes s @ [new_flash u]\<rparr>))"

definition save_session :: "diagnostic_session_state \<Rightarrow> 'a diag_store_scheme \<Rightarrow> 'a diag_store_scheme" where
  "save_session x s = s\<lparr>diag_sessions := update_row dss_ecu_id x (diag_sessions s)\<rparr>"

definition save_security :: "diagnostic_security_state \<Rightarrow> 'a diag_store_scheme \<Rightarrow> 'a diag_store_scheme" where
  "save_security x s = s\<lparr>diag_securities := update_row dsc_ecu_id x (diag_securities s)\<rparr>"

definition save_flash :: "diagnostic_flash_state \<Rightarrow> 'a diag_store_scheme \<Rightarrow> 'a diag_store_scheme" where
  "save_flash x s = s\<lparr>diag_flashes := update_row dfl_ecu_id x (diag_flashes s)\<rparr>"

section \<open>Stored commands\<close>

definition existing_command ::
  "electronic_control_unit \<Rightarrow> string \<Rightarrow> 'a diag_store_scheme \<Rightarrow> diagnostic_command option" where
  "existing_command u i s = select (\<lambda>r. diag_key r = (ecu_id u, i)) (diag_commands s)"

definition same_command :: "UdsServiceId \<Rightarrow> diagnostic_request \<Rightarrow> diagnostic_command \<Rightarrow> bool" where
  "same_command service request r \<longleftrightarrow> dcm_service_id r = service \<and> request_eq (dcm_request r) request"

text \<open>The first lines of every handler: a known identifier is answered from the table.\<close>

definition answer_stored ::
  "electronic_control_unit \<Rightarrow> string \<Rightarrow> UdsServiceId \<Rightarrow> diagnostic_request \<Rightarrow> 'a diag_store_scheme
    \<Rightarrow> app_error + (diagnostic_command \<times> bool) \<times> 'a diag_store_scheme
    \<Rightarrow> app_error + (diagnostic_command \<times> bool) \<times> 'a diag_store_scheme" where
  "answer_stored u i service request s rest = (case existing_command u i s of
     Some existing \<Rightarrow> if same_command service request existing then Inr ((existing, True), s)
                      else Inl DiagnosticCommandConflict
   | None \<Rightarrow> rest)"

definition contract_error :: "string \<Rightarrow> UdsNegativeResponseCode \<Rightarrow> app_error" where
  "contract_error reason code = DiagnosticContract reason (nrc_value code)"

definition session_version_error :: "diagnostic_session_state \<Rightarrow> app_error" where
  "session_version_error x = contract_error (''session version is '' @ int_str (dss_version x)) CONDITIONS_NOT_CORRECT"

definition security_version_error :: "diagnostic_security_state \<Rightarrow> app_error" where
  "security_version_error x = contract_error (''security version is '' @ int_str (dsc_version x)) CONDITIONS_NOT_CORRECT"

definition hex_id :: "int \<Rightarrow> string" where
  "hex_id n = ''0x'' @ hex_pad 4 n"

section \<open>Evidence\<close>

definition base_evidence :: "vehicle \<Rightarrow> electronic_control_unit \<Rightarrow> dict" where
  "base_evidence v u = [(''vehicle_id'', JStr (veh_identifier v)), (''ecu_id'', JStr (ecu_id u)),
     (''ecu_identifier'', JStr (ecu_identifier u))]"

definition service_evidence :: "diagnostic_command \<Rightarrow> dict" where
  "service_evidence r = [(''command_id'', JStr (dcm_command_id r)),
     (''service_id'', JInt (service_id_value (dcm_service_id r))),
     (''positive_response_service_id'', JInt (service_id_value (dcm_service_id r) + 0x40))]"

definition command_evidence :: "vehicle \<Rightarrow> electronic_control_unit \<Rightarrow> diagnostic_command \<Rightarrow> dict" where
  "command_evidence v u r = dict_update (base_evidence v u @ service_evidence r
     @ [(''previous_version'', JInt (dcm_previous_version r)), (''session_version'', JInt (dcm_session_version r))])
     (dcm_result r)"

text \<open>Inserting the execution under \<open>uq_diagnostic_command\<close>, with one event and one audit record.\<close>

definition record_execution ::
  "env \<Rightarrow> string \<Rightarrow> string \<Rightarrow> uuid \<Rightarrow> string \<Rightarrow> dict \<Rightarrow> diagnostic_command \<Rightarrow> 'a diag_store_scheme
    \<Rightarrow> app_error + (diagnostic_command \<times> bool) \<times> 'a diag_store_scheme" where
  "record_execution e event_type aggregate_type aggregate_id action evidence r s =
     and_then (of_option (IntegrityError ''uq_diagnostic_command'') (insert_row diag_key r (diag_commands s))) (\<lambda>rows.
       Inr ((r, False), add_event_audit e event_type aggregate_type aggregate_id evidence action evidence
         (s\<lparr>diag_commands := rows\<rparr>)))"

definition record_evidence ::
  "env \<Rightarrow> vehicle \<Rightarrow> electronic_control_unit \<Rightarrow> string \<Rightarrow> string \<Rightarrow> diagnostic_command \<Rightarrow> 'a diag_store_scheme
    \<Rightarrow> app_error + (diagnostic_command \<times> bool) \<times> 'a diag_store_scheme" where
  "record_evidence e v u event_type action r s =
     record_execution e event_type ''ecu'' (ecu_id u) action (command_evidence v u r) r s"

text \<open>The row of a command that was not stored before.\<close>

definition new_command ::
  "env \<Rightarrow> electronic_control_unit \<Rightarrow> string \<Rightarrow> UdsServiceId \<Rightarrow> diagnostic_request \<Rightarrow> dict \<Rightarrow> int \<Rightarrow> int
    \<Rightarrow> diagnostic_command" where
  "new_command e u i service request result previous_version session_version =
     \<lparr>dcm_ecu_id = ecu_id u, dcm_command_id = i, dcm_service_id = service, dcm_request = request,
      dcm_result = result, dcm_previous_version = previous_version, dcm_session_version = session_version,
      dcm_requested_by_user_id = env_actor e\<rparr>"

end
