(* ===== verification/DiagSecurity.thy ===== *)
theory DiagSecurity
  imports DiagHandler
begin

text \<open>
  Sessions, security access and the diagnostic reset of
  \<open>src/src/atep/diagnostics/service.py\<close>, with the endpoint of security access in
  \<open>src/src/atep/diagnostics/router.py\<close>, which commits what a refused attempt changed.
\<close>

section \<open>Session control\<close>

text \<open>Changing the session, and the reset, drop every trace of a security access.\<close>

definition cleared_security :: "diagnostic_security_state \<Rightarrow> diagnostic_security_state" where
  "cleared_security x = x\<lparr>dsc_expected_key_digest := None, dsc_seed_expires_at_ms := None, dsc_failed_attempts := 0,
     dsc_locked_until_ms := None, dsc_target_level := 0, dsc_version := dsc_version x + 1\<rparr>"

definition session_result :: "diagnostic_session_state \<Rightarrow> diagnostic_security_state \<Rightarrow> dict" where
  "session_result x y = [(''session_type'', JStr (session_type_value (dss_session_type x))),
     (''security_level'', JInt (dss_security_level x)), (''simulation_time_ms'', JInt (dss_simulation_time_ms x)),
     (''security_version'', JInt (dsc_version y))]"

definition control_session ::
  "env \<Rightarrow> vehicle \<times> string \<times> diagnostic_session_control_command \<Rightarrow> 'a diag_store_scheme
    \<Rightarrow> app_error + (diagnostic_command \<times> bool) \<times> 'a diag_store_scheme" where
  "control_session e = (\<lambda>(v, i, c) s.
     and_then (require_ecu v i s) (\<lambda>u.
     answer_stored u (csc_command_id c) DIAGNOSTIC_SESSION_CONTROL (SessionRequest c) s
     (let (state, s1) = get_or_create_session u s; (security, s2) = get_or_create_security_state e u s1 in
      if csc_expected_version c \<noteq> dss_version state then Inl (session_version_error state)
      else let state' = state\<lparr>dss_session_type := csc_session_type c, dss_security_level := 0,
                  dss_simulation_time_ms := ecu_simulation_time_ms u, dss_version := dss_version state + 1\<rparr>;
               security' = cleared_security security;
               r = new_command e u (csc_command_id c) DIAGNOSTIC_SESSION_CONTROL (SessionRequest c)
                     (session_result state' security') (dss_version state) (dss_version state')
      in record_evidence e v u ''atep.diagnostics.session.changed.v1'' ''diagnostics.session_changed'' r
           (save_security security' (save_session state' s2)))))"

section \<open>Seeds and keys\<close>

definition derive_simulated_security_key :: "string \<Rightarrow> int \<Rightarrow> string" where
  "derive_simulated_security_key seed level =
     upper (take 16 (sha256_hex (''ATEP-V4:'' @ int_str level @ '':'' @ seed)))"

definition security_seed :: "electronic_control_unit \<Rightarrow> diagnostic_security_state \<Rightarrow> string" where
  "security_seed u x = upper (take 16 (sha256_hex (ecu_id u @ '':'' @ int_str (dsc_challenge_counter x) @ '':''
     @ int_str (ecu_simulation_time_ms u) @ '':'' @ int_str (dsc_version x))))"

section \<open>Security access\<close>

text \<open>\<open>_security_denial_from_result\<close>: the stored answer of a refused key; the keys read are always there.\<close>

definition security_denial :: "dict \<Rightarrow> app_error" where
  "security_denial result = (case map_of result ''negative_response_code'' of
     Some (JInt code) \<Rightarrow>
       DiagnosticContract (if code = nrc_value EXCEED_NUMBER_OF_ATTEMPTS
         then ''security access attempt limit exceeded'' else ''security access key is invalid'') code
   | _ \<Rightarrow> KeyError)"

definition security_evidence ::
  "vehicle \<Rightarrow> electronic_control_unit \<Rightarrow> diagnostic_command \<Rightarrow> diagnostic_security_state \<Rightarrow> dict" where
  "security_evidence v u r x = base_evidence v u @ service_evidence r
     @ map (\<lambda>k. (k, the (map_of (dcm_result r) k))) [''access_type'', ''accepted'', ''security_level'']
     @ [(''failed_attempts'', JInt (dsc_failed_attempts x)), (''locked_until_ms'', jopt JInt (dsc_locked_until_ms x)),
        (''security_version'', JInt (dsc_version x)), (''session_version'', JInt (dcm_session_version r)),
        (''simulation_time_ms'', JInt (ecu_simulation_time_ms u))]"

definition record_security ::
  "env \<Rightarrow> vehicle \<Rightarrow> electronic_control_unit \<Rightarrow> diagnostic_security_state \<Rightarrow> diagnostic_command \<Rightarrow> 'a diag_store_scheme
    \<Rightarrow> app_error + (diagnostic_command \<times> bool) \<times> 'a diag_store_scheme" where
  "record_security e v u x r s = record_execution e ''atep.diagnostics.security.accessed.v1''
     ''diagnostic_security_state'' (dsc_id x) ''diagnostics.security_accessed'' (security_evidence v u r x) r s"

text \<open>\<open>requestSeed\<close>: the challenge is derived from the counter, the clock and the version.\<close>

definition seeded :: "electronic_control_unit \<Rightarrow> diagnostic_security_state \<Rightarrow> string \<times> diagnostic_security_state" where
  "seeded u x = (let y = x\<lparr>dsc_challenge_counter := dsc_challenge_counter x + 1\<rparr>; seed = security_seed u y in
     (seed, y\<lparr>dsc_expected_key_digest := Some (sha256_hex (derive_simulated_security_key seed 1)),
              dsc_seed_expires_at_ms := Some (ecu_simulation_time_ms u + 30000), dsc_target_level := 1,
              dsc_version := dsc_version x + 1\<rparr>))"

definition seed_result :: "diagnostic_session_state \<Rightarrow> string \<Rightarrow> diagnostic_security_state \<Rightarrow> dict" where
  "seed_result state seed x = [(''accepted'', JBool True), (''access_type'', JInt (access_type_value REQUEST_SEED_LEVEL_1)),
     (''seed'', JStr seed), (''seed_expires_at_ms'', jopt JInt (dsc_seed_expires_at_ms x)),
     (''security_level'', JInt (dss_security_level state)), (''security_version'', JInt (dsc_version x))]"

text \<open>\<open>sendKey\<close> with a wrong key: the third attempt locks the unit for ten seconds.\<close>

definition rejected :: "int \<Rightarrow> diagnostic_security_state \<Rightarrow> diagnostic_security_state" where
  "rejected now x = (let y = x\<lparr>dsc_failed_attempts := dsc_failed_attempts x + 1, dsc_version := dsc_version x + 1\<rparr> in
     if dsc_failed_attempts y \<ge> 3
     then y\<lparr>dsc_locked_until_ms := Some (now + 10000), dsc_expected_key_digest := None,
            dsc_seed_expires_at_ms := None, dsc_target_level := 0\<rparr>
     else y)"

definition rejected_result :: "diagnostic_session_state \<Rightarrow> diagnostic_security_state \<Rightarrow> dict" where
  "rejected_result state x = [(''accepted'', JBool False), (''access_type'', JInt (access_type_value SEND_KEY_LEVEL_1)),
     (''failed_attempts'', JInt (dsc_failed_attempts x)), (''locked_until_ms'', jopt JInt (dsc_locked_until_ms x)),
     (''security_level'', JInt (dss_security_level state)), (''security_version'', JInt (dsc_version x)),
     (''negative_response_code'', JInt (nrc_value
        (if dsc_failed_attempts x \<ge> 3 then EXCEED_NUMBER_OF_ATTEMPTS else INVALID_KEY)))]"

definition unlocked :: "diagnostic_security_state \<Rightarrow> diagnostic_security_state" where
  "unlocked x = x\<lparr>dsc_failed_attempts := 0, dsc_expected_key_digest := None, dsc_seed_expires_at_ms := None,
     dsc_target_level := 0, dsc_version := dsc_version x + 1\<rparr>"

definition unlock_result :: "diagnostic_session_state \<Rightarrow> diagnostic_security_state \<Rightarrow> dict" where
  "unlock_result state x = [(''accepted'', JBool True), (''access_type'', JInt (access_type_value SEND_KEY_LEVEL_1)),
     (''security_level'', JInt (dss_security_level state)), (''security_version'', JInt (dsc_version x))]"

text \<open>
  On an error the service leaves changes in the open transaction; whether they are kept is up to the
  endpoint, so an error comes with the state of the session.
\<close>

definition without_lock :: "diagnostic_security_state \<Rightarrow> diagnostic_security_state" where
  "without_lock x = (if dsc_locked_until_ms x \<noteq> None then x\<lparr>dsc_locked_until_ms := None, dsc_failed_attempts := 0\<rparr> else x)"

definition key_digest :: "security_access_command \<Rightarrow> string option" where
  "key_digest c = map_option (\<lambda>k. sha256_hex (upper k)) (csa_key c)"

definition security_request :: "security_access_command \<Rightarrow> diagnostic_request" where
  "security_request c = SecurityRequest (csa_command_id c) (csa_access_type c) (csa_expected_session_version c)
     (csa_expected_security_version c) (key_digest c)"

definition seed_usable :: "int \<Rightarrow> diagnostic_security_state \<Rightarrow> bool" where
  "seed_usable now x \<longleftrightarrow> dsc_expected_key_digest x \<noteq> None \<and> dsc_target_level x = 1
     \<and> (case dsc_seed_expires_at_ms x of None \<Rightarrow> False | Some t \<Rightarrow> now \<le> t)"

definition security_access ::
  "env \<Rightarrow> vehicle \<times> string \<times> security_access_command \<Rightarrow> 'a diag_store_scheme
    \<Rightarrow> app_error \<times> 'a diag_store_scheme + (diagnostic_command \<times> bool) \<times> 'a diag_store_scheme" where
  "security_access e = (\<lambda>(v, i, c) s.
     case require_ecu v i s of Inl err \<Rightarrow> Inl (err, s) | Inr u \<Rightarrow>
     (case existing_command u (csa_command_id c) s of
        Some existing \<Rightarrow>
          if \<not> same_command SECURITY_ACCESS (security_request c) existing then Inl (DiagnosticCommandConflict, s)
          else if map_of (dcm_result existing) ''accepted'' = Some (JBool False)
            then Inl (security_denial (dcm_result existing), s)
          else Inr ((existing, True), s)
      | None \<Rightarrow>
     let (state, s1) = get_or_create_session u s; (security, s2) = get_or_create_security_state e u s1;
         now = ecu_simulation_time_ms u;
         execution = (\<lambda>result version. new_command e u (csa_command_id c) SECURITY_ACCESS (security_request c)
                        result (dss_version state) version) in
     if csa_expected_session_version c \<noteq> dss_version state then Inl (session_version_error state, s2)
     else if csa_expected_security_version c \<noteq> dsc_version security then Inl (security_version_error security, s2)
     else if dss_session_type state = DEFAULT_SESSION
       then Inl (contract_error ''Security Access is not available in default session''
                   SERVICE_NOT_SUPPORTED_IN_ACTIVE_SESSION, s2)
     else if (case dsc_locked_until_ms security of None \<Rightarrow> False | Some t \<Rightarrow> now < t)
       then Inl (contract_error (''security delay is active until logical time ''
                   @ int_str (the (dsc_locked_until_ms security))) REQUIRED_TIME_DELAY_NOT_EXPIRED, s2)
     else let x = without_lock security in
     if csa_access_type c = REQUEST_SEED_LEVEL_1 then
       let (seed, y) = seeded u x in
       (case record_security e v u y (execution (seed_result state seed y) (dss_version state)) (save_security y s2) of
          Inl err \<Rightarrow> Inl (err, s) | Inr r \<Rightarrow> Inr r)
     else if \<not> seed_usable now x
       then Inl (contract_error ''a valid level-1 seed must be requested before sendKey'' REQUEST_SEQUENCE_ERROR,
                 save_security x s2)
     else if key_digest c \<noteq> dsc_expected_key_digest x then
       let y = rejected now x; result = rejected_result state y in
       (case record_security e v u y (execution result (dss_version state)) (save_security y s2) of
          Inl err \<Rightarrow> Inl (err, s) | Inr (_, t) \<Rightarrow> Inl (security_denial result, t))
     else
       let state' = state\<lparr>dss_security_level := 1, dss_simulation_time_ms := now, dss_version := dss_version state + 1\<rparr>;
           y = unlocked x in
       (case record_security e v u y (execution (unlock_result state' y) (dss_version state'))
               (save_security y (save_session state' s2)) of
          Inl err \<Rightarrow> Inl (err, s) | Inr r \<Rightarrow> Inr r)))"

text \<open>The endpoint: an invalid key is committed before the error is answered, any other error rolls back.\<close>

definition security_access_endpoint ::
  "env \<Rightarrow> vehicle \<times> string \<times> security_access_command \<Rightarrow> 'a diag_store_scheme
    \<Rightarrow> (app_error + diagnostic_command \<times> bool) \<times> 'a diag_store_scheme" where
  "security_access_endpoint e x s = (case security_access e x s of
     Inr (r, t) \<Rightarrow> (Inr r, t)
   | Inl (DiagnosticContract reason code, t) \<Rightarrow> (Inl (DiagnosticContract reason code), t)
   | Inl (err, _) \<Rightarrow> (Inl err, s))"

section \<open>The diagnostic reset\<close>

fun reset_mode_of :: "UdsEcuResetType \<Rightarrow> EcuResetMode" where
  "reset_mode_of HARD_RESET = HARD"
| "reset_mode_of KEY_OFF_ON_RESET = POWER_CYCLE"
| "reset_mode_of SOFT_RESET = SOFT"

text \<open>The inner command is validated again; the reset then runs as a command of the simulation.\<close>

definition inner_reset ::
  "env \<Rightarrow> vehicle \<Rightarrow> string \<Rightarrow> diagnostic_ecu_reset_command \<Rightarrow> 'a diag_store_scheme
    \<Rightarrow> app_error + ecu_simulation_command \<times> 'a diag_store_scheme" where
  "inner_reset e v i c s = and_then (validate_command_id (cer_command_id c)) (\<lambda>inner_id.
     case execute_ecu_reset e (v, i, \<lparr>rs_command_id = inner_id, rs_expected_version = cer_expected_ecu_version c,
            rs_mode = reset_mode_of (cer_reset_type c)\<rparr>) s of
       Inr ((x, _), t) \<Rightarrow> Inr (x, t)
     | Inl (EcuStateVersionConflict _) \<Rightarrow>
         Inl (contract_error ''ECU version does not match the reset request'' CONDITIONS_NOT_CORRECT)
     | Inl EcuSimulationCommandConflict \<Rightarrow> Inl DiagnosticCommandConflict
     | Inl err \<Rightarrow> Inl err)"

fun reset_numbers :: "ecu_result \<Rightarrow> app_error + int \<times> int" where
  "reset_numbers (ResetResult mode duration boots p q r b) = Inr (duration, boots)"
| "reset_numbers _ = Inl KeyError"

definition ecu_reset_result ::
  "diagnostic_ecu_reset_command \<Rightarrow> ecu_simulation_command \<Rightarrow> int \<Rightarrow> int \<Rightarrow> diagnostic_session_state
    \<Rightarrow> diagnostic_security_state \<Rightarrow> dict" where
  "ecu_reset_result c x duration boots state security = [
     (''reset_type'', JInt (reset_type_value (cer_reset_type c))),
     (''mode'', JStr (reset_mode_value (reset_mode_of (cer_reset_type c)))),
     (''reset_duration_ms'', JInt duration), (''boot_count'', JInt boots), (''ecu_version'', JInt (ec_state_version x)),
     (''simulation_time_ms'', JInt (ec_simulation_time_ms x)),
     (''session_type'', JStr (session_type_value (dss_session_type state))),
     (''security_level'', JInt (dss_security_level state)), (''security_version'', JInt (dsc_version security))]"

definition reset_ecu ::
  "env \<Rightarrow> vehicle \<times> string \<times> diagnostic_ecu_reset_command \<Rightarrow> 'a diag_store_scheme
    \<Rightarrow> app_error + (diagnostic_command \<times> bool) \<times> 'a diag_store_scheme" where
  "reset_ecu e = (\<lambda>(v, i, c) s.
     and_then (require_ecu v i s) (\<lambda>u.
     answer_stored u (cer_command_id c) ECU_RESET (EcuResetRequest c) s
     (let (state, s1) = get_or_create_session u s; (security, s2) = get_or_create_security_state e u s1 in
      if cer_expected_session_version c \<noteq> dss_version state then Inl (session_version_error state)
      else if cer_expected_security_version c \<noteq> dsc_version security then Inl (security_version_error security)
      else if dss_session_type state = DEFAULT_SESSION
        then Inl (contract_error ''ECU Reset is not available in default session'' SERVICE_NOT_SUPPORTED_IN_ACTIVE_SESSION)
      else if cer_reset_type c \<in> {HARD_RESET, KEY_OFF_ON_RESET} \<and> dss_security_level state < 1
        then Inl (contract_error ''hard and key-off/on resets require security level 1'' SECURITY_ACCESS_DENIED)
      else and_then (inner_reset e v i c s2) (\<lambda>(x, s3).
        and_then (reset_numbers (ec_result x)) (\<lambda>(duration, boots).
        let state' = state\<lparr>dss_session_type := DEFAULT_SESSION, dss_security_level := 0,
                dss_simulation_time_ms := ec_simulation_time_ms x, dss_version := dss_version state + 1\<rparr>;
            security' = cleared_security security;
            r = new_command e u (cer_command_id c) ECU_RESET (EcuResetRequest c)
                  (ecu_reset_result c x duration boots state' security') (dss_version state) (dss_version state')
        in record_evidence e v u ''atep.diagnostics.ecu.reset.v1'' ''diagnostics.ecu_reset'' r
             (save_security security' (save_session state' s3)))))))"

end
