(* ===== verification/DiagFlash.thy ===== *)
theory DiagFlash
  imports DiagHandler
begin

text \<open>
  Flash programming of \<open>src/src/atep/diagnostics/service.py\<close>: the download request, the transfer of
  blocks and the transfer exit. A block travels as hexadecimal text; a byte is a number below 256.
\<close>

section \<open>Access\<close>

definition require_active_flash_access ::
  "diagnostic_session_state \<Rightarrow> diagnostic_security_state \<Rightarrow> app_error + unit" where
  "require_active_flash_access state security =
     (if dss_session_type state \<noteq> PROGRAMMING_SESSION
        then Inl (contract_error ''firmware transfer requires the programming session'' SERVICE_NOT_SUPPORTED_IN_ACTIVE_SESSION)
      else if dss_security_level state < 1
        then Inl (contract_error ''firmware transfer requires security level 1'' SECURITY_ACCESS_DENIED)
      else if dsc_target_level security \<notin> {0, 1}
        then Inl (contract_error ''invalid diagnostic security state'' CONDITIONS_NOT_CORRECT)
      else Inr ())"

definition require_flash_access ::
  "diagnostic_session_state \<Rightarrow> diagnostic_security_state \<Rightarrow> int \<Rightarrow> int \<Rightarrow> app_error + unit" where
  "require_flash_access state security expected_session_version expected_security_version =
     (if expected_session_version \<noteq> dss_version state then Inl (session_version_error state)
      else if expected_security_version \<noteq> dsc_version security then Inl (security_version_error security)
      else require_active_flash_access state security)"

definition locked_ecu :: "electronic_control_unit \<Rightarrow> 'a diag_store_scheme \<Rightarrow> app_error + electronic_control_unit" where
  "locked_ecu u s = of_option (ResourceNotFound ''electronic control unit'') (ecu_by_id (ecu_id u) s)"

definition ecu_version_error :: "electronic_control_unit \<Rightarrow> app_error" where
  "ecu_version_error u = contract_error (''ECU version is '' @ int_str (ecu_version u)) CONDITIONS_NOT_CORRECT"

definition transfer_version_error :: "diagnostic_flash_state \<Rightarrow> app_error" where
  "transfer_version_error x = contract_error (''transfer version is '' @ int_str (dfl_version x)) CONDITIONS_NOT_CORRECT"

text \<open>\<open>_new_flash_execution\<close>: flash commands do not advance the session.\<close>

definition new_flash_execution ::
  "env \<Rightarrow> electronic_control_unit \<Rightarrow> string \<Rightarrow> UdsServiceId \<Rightarrow> diagnostic_request \<Rightarrow> dict \<Rightarrow> int \<Rightarrow> diagnostic_command" where
  "new_flash_execution e u i service request result session_version =
     new_command e u i service request result session_version session_version"

section \<open>Requesting a download\<close>

definition started_transfer ::
  "flash_request_download_command \<Rightarrow> electronic_control_unit \<Rightarrow> diagnostic_flash_state \<Rightarrow> diagnostic_flash_state" where
  "started_transfer c u x = x\<lparr>dfl_status := FLASH_DOWNLOADING, dfl_memory_address := cfd_memory_address c,
     dfl_memory_size := cfd_memory_size c, dfl_firmware_version := cfd_firmware_version c,
     dfl_target_ecu_version := ecu_version u, dfl_max_block_length := 256, dfl_next_block_sequence_counter := 1,
     dfl_bytes_received := 0, dfl_image_data := [], dfl_image_sha256 := None, dfl_version := dfl_version x + 1\<rparr>"

definition download_result :: "diagnostic_flash_state \<Rightarrow> dict" where
  "download_result x = [(''accepted'', JBool True), (''memory_address'', JInt (dfl_memory_address x)),
     (''memory_size'', JInt (dfl_memory_size x)), (''firmware_version'', JStr (dfl_firmware_version x)),
     (''max_block_length'', JInt (dfl_max_block_length x)), (''transfer_version'', JInt (dfl_version x))]"

definition request_download ::
  "env \<Rightarrow> vehicle \<times> string \<times> flash_request_download_command \<Rightarrow> 'a diag_store_scheme
    \<Rightarrow> app_error + (diagnostic_command \<times> bool) \<times> 'a diag_store_scheme" where
  "request_download e = (\<lambda>(v, i, c) s.
     and_then (require_ecu v i s) (\<lambda>u.
     answer_stored u (cfd_command_id c) REQUEST_DOWNLOAD (DownloadRequest c) s
     (let (state, s1) = get_or_create_session u s; (security, s2) = get_or_create_security_state e u s1;
          (transfer, s3) = get_or_create_flash_state u s2 in
      and_then (locked_ecu u s3) (\<lambda>locked.
      and_then (require_flash_access state security (cfd_expected_session_version c) (cfd_expected_security_version c)) (\<lambda>_.
      if cfd_expected_ecu_version c \<noteq> ecu_version locked then Inl (ecu_version_error locked)
      else if dfl_status transfer = FLASH_DOWNLOADING
        then Inl (contract_error ''a firmware download is already active'' CONDITIONS_NOT_CORRECT)
      else let x = started_transfer c locked transfer;
               r = new_flash_execution e locked (cfd_command_id c) REQUEST_DOWNLOAD (DownloadRequest c)
                     (download_result x) (dss_version state)
      in record_evidence e v locked ''atep.diagnostics.flash.download.requested.v1''
           ''diagnostics.flash_download_requested'' r (save_flash x s3))))))"

section \<open>Transferring a block\<close>

text \<open>\<open>bytes.fromhex\<close> on validated text: pairs of digits, in upper or lower case.\<close>

definition hex_digit_value :: "char \<Rightarrow> nat" where
  "hex_digit_value c = (let k = of_char c :: nat in if k < 58 then k - 48 else if k < 97 then k - 55 else k - 87)"

fun bytes_fromhex :: "string \<Rightarrow> nat list" where
  "bytes_fromhex (a # b # rest) = (16 * hex_digit_value a + hex_digit_value b) # bytes_fromhex rest"
| "bytes_fromhex _ = []"

definition sha256_bytes :: "nat list \<Rightarrow> string" where
  "sha256_bytes bs = hexdigest (sha256_digest bs)"

definition next_counter :: "int \<Rightarrow> int" where
  "next_counter k = (if k = 255 then 0 else k + 1)"

definition received_block :: "nat list \<Rightarrow> diagnostic_flash_state \<Rightarrow> diagnostic_flash_state" where
  "received_block block x = x\<lparr>dfl_image_data := dfl_image_data x @ block,
     dfl_bytes_received := dfl_bytes_received x + int (length block),
     dfl_next_block_sequence_counter := next_counter (dfl_next_block_sequence_counter x),
     dfl_version := dfl_version x + 1\<rparr>"

definition block_request :: "flash_transfer_data_command \<Rightarrow> diagnostic_request" where
  "block_request c = (let block = bytes_fromhex (cft_data_hex c) in
     BlockRequest (cft_command_id c) (cft_block_sequence_counter c) (int (length block)) (sha256_bytes block)
       (cft_expected_transfer_version c))"

definition block_result :: "flash_transfer_data_command \<Rightarrow> nat list \<Rightarrow> diagnostic_flash_state \<Rightarrow> dict" where
  "block_result c block x = [(''block_sequence_counter'', JInt (cft_block_sequence_counter c)),
     (''block_size'', JInt (int (length block))), (''block_sha256'', JStr (sha256_bytes block)),
     (''bytes_received'', JInt (dfl_bytes_received x)),
     (''remaining_bytes'', JInt (dfl_memory_size x - dfl_bytes_received x)),
     (''next_block_sequence_counter'', JInt (dfl_next_block_sequence_counter x)),
     (''transfer_version'', JInt (dfl_version x))]"

definition transfer_data ::
  "env \<Rightarrow> vehicle \<times> string \<times> flash_transfer_data_command \<Rightarrow> 'a diag_store_scheme
    \<Rightarrow> app_error + (diagnostic_command \<times> bool) \<times> 'a diag_store_scheme" where
  "transfer_data e = (\<lambda>(v, i, c) s.
     and_then (require_ecu v i s) (\<lambda>u.
     let block = bytes_fromhex (cft_data_hex c) in
     answer_stored u (cft_command_id c) TRANSFER_DATA (block_request c) s
     (let (state, s1) = get_or_create_session u s; (security, s2) = get_or_create_security_state e u s1;
          (transfer, s3) = get_or_create_flash_state u s2 in
      and_then (require_active_flash_access state security) (\<lambda>_.
      if dfl_status transfer \<noteq> FLASH_DOWNLOADING
        then Inl (contract_error ''Request Download must start a transfer before Transfer Data'' REQUEST_SEQUENCE_ERROR)
      else if cft_expected_transfer_version c \<noteq> dfl_version transfer then Inl (transfer_version_error transfer)
      else if cft_block_sequence_counter c \<noteq> dfl_next_block_sequence_counter transfer
        then Inl (contract_error (''expected block sequence counter '' @ int_str (dfl_next_block_sequence_counter transfer))
               WRONG_BLOCK_SEQUENCE_COUNTER)
      else if int (length block) > dfl_max_block_length transfer
            \<or> dfl_bytes_received transfer + int (length block) > dfl_memory_size transfer
        then Inl (contract_error ''firmware block exceeds the negotiated transfer bounds''
               INCORRECT_MESSAGE_LENGTH_OR_INVALID_FORMAT)
      else let x = received_block block transfer;
               r = new_flash_execution e u (cft_command_id c) TRANSFER_DATA (block_request c)
                     (block_result c block x) (dss_version state)
      in record_evidence e v u ''atep.diagnostics.flash.block.transferred.v1''
           ''diagnostics.flash_block_transferred'' r (save_flash x s3)))))"

section \<open>Leaving the transfer\<close>

definition completed_transfer :: "diagnostic_flash_state \<Rightarrow> diagnostic_flash_state" where
  "completed_transfer x = x\<lparr>dfl_status := FLASH_COMPLETED, dfl_image_sha256 := Some (sha256_bytes (dfl_image_data x)),
     dfl_image_data := [], dfl_version := dfl_version x + 1\<rparr>"

definition flashed :: "diagnostic_flash_state \<Rightarrow> electronic_control_unit \<Rightarrow> electronic_control_unit" where
  "flashed x u = u\<lparr>ecu_profile_version := dfl_firmware_version x, ecu_version := ecu_version u + 1\<rparr>"

definition exit_result ::
  "diagnostic_flash_state \<Rightarrow> string \<Rightarrow> int \<Rightarrow> int \<Rightarrow> dict" where
  "exit_result x digest previous_ecu_version new_ecu_version = [(''accepted'', JBool True),
     (''firmware_version'', JStr (dfl_firmware_version x)), (''image_size'', JInt (dfl_memory_size x)),
     (''image_sha256'', JStr digest), (''previous_ecu_version'', JInt previous_ecu_version),
     (''ecu_version'', JInt new_ecu_version), (''transfer_version'', JInt (dfl_version x))]"

definition request_transfer_exit ::
  "env \<Rightarrow> vehicle \<times> string \<times> flash_transfer_exit_command \<Rightarrow> 'a diag_store_scheme
    \<Rightarrow> app_error + (diagnostic_command \<times> bool) \<times> 'a diag_store_scheme" where
  "request_transfer_exit e = (\<lambda>(v, i, c) s.
     and_then (require_ecu v i s) (\<lambda>u.
     answer_stored u (cfe_command_id c) REQUEST_TRANSFER_EXIT (ExitRequest c) s
     (let (state, s1) = get_or_create_session u s; (security, s2) = get_or_create_security_state e u s1;
          (transfer, s3) = get_or_create_flash_state u s2 in
      and_then (locked_ecu u s3) (\<lambda>locked.
      and_then (require_active_flash_access state security) (\<lambda>_.
      if dfl_status transfer \<noteq> FLASH_DOWNLOADING
        then Inl (contract_error ''no firmware transfer is active'' REQUEST_SEQUENCE_ERROR)
      else if cfe_expected_transfer_version c \<noteq> dfl_version transfer then Inl (transfer_version_error transfer)
      else if cfe_expected_ecu_version c \<noteq> ecu_version locked \<or> ecu_version locked \<noteq> dfl_target_ecu_version transfer
        then Inl (ecu_version_error locked)
      else if dfl_bytes_received transfer \<noteq> dfl_memory_size transfer
        then Inl (contract_error (''received '' @ int_str (dfl_bytes_received transfer) @ '' of ''
               @ int_str (dfl_memory_size transfer) @ '' bytes'') REQUEST_SEQUENCE_ERROR)
      else let digest = sha256_bytes (dfl_image_data transfer) in
      if digest \<noteq> cfe_expected_sha256 c
        then Inl (contract_error ''firmware image digest does not match'' CONDITIONS_NOT_CORRECT)
      else let x = completed_transfer transfer; u' = flashed transfer locked;
               r = new_flash_execution e u' (cfe_command_id c) REQUEST_TRANSFER_EXIT (ExitRequest c)
                     (exit_result x digest (ecu_version locked) (ecu_version u')) (dss_version state)
      in record_evidence e v u' ''atep.diagnostics.flash.completed.v1''
           ''diagnostics.flash_completed'' r (save_flash x (save_ecu u' s3)))))))"

end
