(* ===== verification/DiagRoutine.thy ===== *)
theory DiagRoutine
  imports DiagHandler
begin

text \<open>
  Routines of \<open>src/src/atep/diagnostics/service.py\<close>: their definition, and starting, stopping and
  asking for results. A running routine completes at the first request after its logical time.
\<close>

section \<open>Defining a routine\<close>

definition find_routine :: "electronic_control_unit \<Rightarrow> int \<Rightarrow> 'a diag_store_scheme \<Rightarrow> diagnostic_routine option" where
  "find_routine u k s = select (\<lambda>r. routine_key r = (ecu_id u, k)) (diag_routines s)"

definition out_of_range :: "string \<Rightarrow> app_error" where
  "out_of_range reason = contract_error reason REQUEST_OUT_OF_RANGE"

definition routine_created_evidence ::
  "vehicle \<Rightarrow> electronic_control_unit \<Rightarrow> diagnostic_routine \<Rightarrow> diagnostic_routine_state \<Rightarrow> dict" where
  "routine_created_evidence v u r x = base_evidence v u @ [(''routine_id'', JStr (drt_id r)),
     (''identifier'', JInt (drt_identifier r)), (''identifier_hex'', JStr (hex_id (drt_identifier r))),
     (''execution_time_ms'', JInt (drt_execution_time_ms r)), (''supports_stop'', JBool (drt_supports_stop r)),
     (''definition_version'', JInt (drt_version r)), (''routine_version'', JInt (drs_version x))]"

definition create_routine ::
  "env \<Rightarrow> vehicle \<times> string \<times> routine_create \<Rightarrow> 'a diag_store_scheme
    \<Rightarrow> app_error + (diagnostic_routine \<times> diagnostic_routine_state) \<times> 'a diag_store_scheme" where
  "create_routine e = (\<lambda>(v, i, c) s.
     and_then (require_ecu v i s) (\<lambda>u.
     if find_routine u (crc_identifier c) s \<noteq> None
       then Inl (out_of_range (''routine '' @ hex_id (crc_identifier c) @ '' already exists''))
     else if length (filter (\<lambda>r. drt_ecu_id r = ecu_id u) (diag_routines s)) \<ge> 64
       then Inl (out_of_range ''an ECU may define at most 64 routines in V-3'')
     else let r = \<lparr>drt_id = env_new_id e, drt_ecu_id = ecu_id u, drt_identifier = crc_identifier c,
                drt_name = crc_name c, drt_description = crc_description c,
                drt_allowed_sessions = crc_allowed_sessions c, drt_execution_time_ms = crc_execution_time_ms c,
                drt_supports_stop = crc_supports_stop c, drt_result_template = crc_result_template c,
                drt_version = 1, drt_created_by_user_id = env_actor e\<rparr>;
              x = \<lparr>drs_routine_id = drt_id r, drs_status = ROUTINE_IDLE, drs_invocation_count = 0,
                drs_started_at_ms = None, drs_completes_at_ms = None, drs_stopped_at_ms = None,
                drs_input_parameters = [], drs_result = [], drs_version = 1\<rparr>;
              evidence = routine_created_evidence v u r x
     in and_then (of_option (IntegrityError ''uq_diagnostic_routine_identifier'')
                    (insert_row routine_key r (diag_routines s))) (\<lambda>routines.
        and_then (of_option (IntegrityError ''uq_diagnostic_routine_state'')
                    (insert_row drs_routine_id x (diag_routine_states s))) (\<lambda>states.
        Inr ((r, x), add_event_audit e ''atep.diagnostics.routine.created.v1'' ''diagnostic_routine'' (drt_id r)
               evidence ''diagnostics.routine_created'' evidence
               (s\<lparr>diag_routines := routines, diag_routine_states := states\<rparr>))))))"

definition find_routine_state :: "uuid \<Rightarrow> 'a diag_store_scheme \<Rightarrow> diagnostic_routine_state option" where
  "find_routine_state j s = select (\<lambda>x. drs_routine_id x = j) (diag_routine_states s)"

text \<open>\<open>list_routines\<close> joins the definitions with their states, in the order of the identifiers.\<close>

definition list_routines ::
  "electronic_control_unit \<Rightarrow> nat \<Rightarrow> nat \<Rightarrow> 'a diag_store_scheme
    \<Rightarrow> (diagnostic_routine \<times> diagnostic_routine_state) list \<times> int" where
  "list_routines u limit offset s =
     (let rows = filter (\<lambda>r. drt_ecu_id r = ecu_id u) (diag_routines s);
          joined = List.map_filter (\<lambda>r. map_option (Pair r) (find_routine_state (drt_id r) s)) (sort_key drt_identifier rows)
      in (page limit offset joined, int (length rows)))"

definition require_routine ::
  "bool \<Rightarrow> electronic_control_unit \<Rightarrow> int \<Rightarrow> 'a diag_store_scheme
    \<Rightarrow> app_error + diagnostic_routine \<times> diagnostic_routine_state" where
  "require_routine uds_request u k s =
     (case find_routine u k s of
        None \<Rightarrow> Inl (if uds_request then out_of_range (''routine '' @ hex_id k @ '' is not supported'')
                     else ResourceNotFound ''diagnostic routine'')
      | Some r \<Rightarrow> (case find_routine_state (drt_id r) s of
          None \<Rightarrow> Inl (ResourceNotFound ''diagnostic routine state'') | Some x \<Rightarrow> Inr (r, x)))"

section \<open>Controlling a routine\<close>

definition refresh_routine_state ::
  "diagnostic_routine \<Rightarrow> int \<Rightarrow> diagnostic_routine_state \<Rightarrow> diagnostic_routine_state" where
  "refresh_routine_state r now x =
     (if drs_status x = ROUTINE_RUNNING \<and> (case drs_completes_at_ms x of None \<Rightarrow> False | Some t \<Rightarrow> now \<ge> t)
      then x\<lparr>drs_status := ROUTINE_COMPLETED, drs_result := drt_result_template r, drs_version := drs_version x + 1\<rparr>
      else x)"

definition started_routine ::
  "diagnostic_routine \<Rightarrow> int \<Rightarrow> parameters \<Rightarrow> diagnostic_routine_state \<Rightarrow> diagnostic_routine_state" where
  "started_routine r now parameters x = x\<lparr>drs_status := ROUTINE_RUNNING,
     drs_invocation_count := drs_invocation_count x + 1, drs_started_at_ms := Some now,
     drs_completes_at_ms := Some (now + drt_execution_time_ms r), drs_stopped_at_ms := None,
     drs_input_parameters := parameters, drs_result := [], drs_version := drs_version x + 1\<rparr>"

definition stopped_routine :: "int \<Rightarrow> diagnostic_routine_state \<Rightarrow> diagnostic_routine_state" where
  "stopped_routine now x = x\<lparr>drs_status := ROUTINE_STOPPED, drs_stopped_at_ms := Some now,
     drs_completes_at_ms := None, drs_result := [], drs_version := drs_version x + 1\<rparr>"

definition conditions_error :: "string \<Rightarrow> app_error" where
  "conditions_error reason = contract_error reason CONDITIONS_NOT_CORRECT"

text \<open>The three control types, on the refreshed state.\<close>

definition apply_control ::
  "diagnostic_routine \<Rightarrow> int \<Rightarrow> routine_control_command \<Rightarrow> diagnostic_routine_state
    \<Rightarrow> app_error + diagnostic_routine_state" where
  "apply_control r now c x =
     (case crl_control_type c of
        START_ROUTINE \<Rightarrow>
          if drs_status x = ROUTINE_RUNNING then Inl (conditions_error ''routine is already running'')
          else Inr (refresh_routine_state r now (started_routine r now (crl_parameters c) x))
      | STOP_ROUTINE \<Rightarrow>
          if \<not> drt_supports_stop r then Inl (out_of_range ''routine does not support stopRoutine'')
          else if drs_status x \<noteq> ROUTINE_RUNNING
            then Inl (conditions_error (''routine status is '' @ routine_status_value (drs_status x)))
          else Inr (stopped_routine now x)
      | REQUEST_ROUTINE_RESULTS \<Rightarrow>
          if drs_status x = ROUTINE_IDLE then Inl (conditions_error ''routine has not been started'')
          else Inr x)"

definition routine_result ::
  "diagnostic_routine \<Rightarrow> routine_control_command \<Rightarrow> diagnostic_routine_state \<Rightarrow> dict" where
  "routine_result r c x = [(''identifier'', JInt (drt_identifier r)), (''identifier_hex'', JStr (hex_id (drt_identifier r))),
     (''control_type'', JInt (control_type_value (crl_control_type c))),
     (''status'', JStr (routine_status_value (drs_status x))), (''invocation_count'', JInt (drs_invocation_count x)),
     (''started_at_ms'', jopt JInt (drs_started_at_ms x)), (''completes_at_ms'', jopt JInt (drs_completes_at_ms x)),
     (''stopped_at_ms'', jopt JInt (drs_stopped_at_ms x)), (''routine_version'', JInt (drs_version x)),
     (''result'', parameters_json (drs_result x))]"

definition routine_evidence ::
  "vehicle \<Rightarrow> electronic_control_unit \<Rightarrow> diagnostic_routine \<Rightarrow> diagnostic_routine_state \<Rightarrow> RoutineControlType
    \<Rightarrow> diagnostic_command \<Rightarrow> dict" where
  "routine_evidence v u r x t q = base_evidence v u @ service_evidence q @ [(''routine_id'', JStr (drt_id r)),
     (''identifier'', JInt (drt_identifier r)), (''identifier_hex'', JStr (hex_id (drt_identifier r))),
     (''control_type'', JInt (control_type_value t)), (''status'', JStr (routine_status_value (drs_status x))),
     (''invocation_count'', JInt (drs_invocation_count x)), (''routine_version'', JInt (drs_version x)),
     (''session_version'', JInt (dcm_session_version q)), (''simulation_time_ms'', JInt (ecu_simulation_time_ms u))]"

definition control_routine ::
  "env \<Rightarrow> vehicle \<times> string \<times> int \<times> routine_control_command \<Rightarrow> 'a diag_store_scheme
    \<Rightarrow> app_error + (diagnostic_command \<times> bool) \<times> 'a diag_store_scheme" where
  "control_routine e = (\<lambda>(v, i, k, c) s.
     and_then (require_ecu v i s) (\<lambda>u.
     answer_stored u (crl_command_id c) ROUTINE_CONTROL (RoutineRequest k c) s
     (let (state, s1) = get_or_create_session u s in
      and_then (require_routine True u k s1) (\<lambda>(r, x).
      if crl_expected_session_version c \<noteq> dss_version state then Inl (session_version_error state)
      else if crl_expected_routine_version c \<noteq> drs_version x
        then Inl (conditions_error (''routine version is '' @ int_str (drs_version x)))
      else if dss_session_type state \<notin> set (drt_allowed_sessions r)
        then Inl (contract_error (''routine '' @ hex_id (drt_identifier r) @ '' is not available in ''
               @ session_type_value (dss_session_type state) @ '' session'') SERVICE_NOT_SUPPORTED_IN_ACTIVE_SESSION)
      else let now = ecu_simulation_time_ms u in
      and_then (apply_control r now c (refresh_routine_state r now x)) (\<lambda>y.
      let q = new_command e u (crl_command_id c) ROUTINE_CONTROL (RoutineRequest k c) (routine_result r c y)
                (dss_version state) (dss_version state)
      in record_execution e ''atep.diagnostics.routine.controlled.v1'' ''diagnostic_routine'' (drt_id r)
           ''diagnostics.routine_controlled'' (routine_evidence v u r y (crl_control_type c) q) q
           (s1\<lparr>diag_routine_states := update_row drs_routine_id y (diag_routine_states s1)\<rparr>))))))"

end
