(* ===== verification/DiagData.thy ===== *)
theory DiagData
  imports DiagHandler
begin

unbundle bit_operations_syntax

text \<open>
  Data identifiers, trouble codes, the OBD-II view of both and the diagnostic campaigns of
  \<open>src/src/atep/diagnostics/service.py\<close>.
\<close>

section \<open>Validating values\<close>

text \<open>\<open>float(value)\<close>: an integer beyond the range of binary64 raises.\<close>

definition did_float :: "did_value \<Rightarrow> app_error + rat" where
  "did_float x = (case x of
     DvInt n \<Rightarrow> if \<bar>fl (of_int n)\<bar> \<ge> 2 ^ 1024 then Inl OverflowError else Inr (fl (of_int n))
   | DvFloat r \<Rightarrow> Inr r
   | DvBool b \<Rightarrow> Inr (if b then 1 else 0)
   | DvStr t \<Rightarrow> Inl (ValueError ''could not convert string to float''))"

definition did_type_matches :: "DidDataType \<Rightarrow> did_value \<Rightarrow> bool" where
  "did_type_matches t x \<longleftrightarrow> (case (t, x) of
     (DID_BOOLEAN, DvBool _) \<Rightarrow> True | (DID_INTEGER, DvInt _) \<Rightarrow> True | (DID_DECIMAL, DvInt _) \<Rightarrow> True
   | (DID_DECIMAL, DvFloat _) \<Rightarrow> True | (DID_STRING, DvStr _) \<Rightarrow> True | _ \<Rightarrow> False)"

definition range_error :: "string \<Rightarrow> app_error" where
  "range_error reason = contract_error reason REQUEST_OUT_OF_RANGE"

definition check_did_range :: "rat option \<Rightarrow> rat option \<Rightarrow> rat \<Rightarrow> app_error + unit" where
  "check_did_range lo hi x =
     (case lo of Some m \<Rightarrow> if x < m then Inl (range_error (''value is below minimum '' @ float_repr m))
        else (case hi of Some M \<Rightarrow> if x > M then Inl (range_error (''value exceeds maximum '' @ float_repr M)) else Inr ()
              | None \<Rightarrow> Inr ())
      | None \<Rightarrow> (case hi of Some M \<Rightarrow> if x > M then Inl (range_error (''value exceeds maximum '' @ float_repr M)) else Inr ()
              | None \<Rightarrow> Inr ()))"

definition validate_did_value ::
  "DidDataType \<Rightarrow> did_value \<Rightarrow> rat option \<Rightarrow> rat option \<Rightarrow> int option \<Rightarrow> app_error + unit" where
  "validate_did_value t x lo hi max_length =
     (if \<not> did_type_matches t x
        then Inl (range_error (''value does not match DID data type '' @ did_type_value t))
      else and_then (if t \<in> {DID_INTEGER, DID_DECIMAL} then and_then (did_float x) (check_did_range lo hi) else Inr ()) (\<lambda>_.
      case (t, x, max_length) of
        (DID_STRING, DvStr text, Some m) \<Rightarrow>
          if int (length text) > m then Inl (range_error (''value exceeds maximum length '' @ int_str m)) else Inr ()
      | _ \<Rightarrow> Inr ()))"

section \<open>Data identifiers\<close>

definition find_did :: "electronic_control_unit \<Rightarrow> int \<Rightarrow> 'a diag_store_scheme \<Rightarrow> diagnostic_data_identifier option" where
  "find_did u k s = select (\<lambda>d. did_key d = (ecu_id u, k)) (diag_dids s)"

definition did_created_evidence :: "vehicle \<Rightarrow> electronic_control_unit \<Rightarrow> diagnostic_data_identifier \<Rightarrow> dict" where
  "did_created_evidence v u d = base_evidence v u @ [(''did_id'', JStr (did_id d)),
     (''identifier'', JInt (did_identifier d)), (''identifier_hex'', JStr (hex_id (did_identifier d))),
     (''data_type'', JStr (did_type_value (did_data_type d))), (''writable'', JBool (did_writable d)),
     (''version'', JInt (did_version d))]"

definition create_did ::
  "env \<Rightarrow> vehicle \<times> string \<times> did_create \<Rightarrow> 'a diag_store_scheme
    \<Rightarrow> app_error + diagnostic_data_identifier \<times> 'a diag_store_scheme" where
  "create_did e = (\<lambda>(v, i, c) s.
     and_then (require_ecu v i s) (\<lambda>u.
     if find_did u (cdc_identifier c) s \<noteq> None
       then Inl (range_error (''DID '' @ hex_id (cdc_identifier c) @ '' already exists''))
     else if length (filter (\<lambda>d. did_ecu_id d = ecu_id u) (diag_dids s)) \<ge> 128
       then Inl (range_error ''an ECU may define at most 128 DIDs in V-2'')
     else and_then (validate_did_value (cdc_data_type c) (cdc_value c) (cdc_minimum c) (cdc_maximum c) (cdc_max_length c)) (\<lambda>_.
     let d = \<lparr>did_id = env_new_id e, did_ecu_id = ecu_id u, did_identifier = cdc_identifier c, did_name = cdc_name c,
           did_description = cdc_description c, did_data_type = cdc_data_type c, did_unit = cdc_unit c,
           did_writable = cdc_writable c, did_readable_sessions = cdc_readable_sessions c,
           did_writable_sessions = cdc_writable_sessions c, did_content = cdc_value c, did_minimum = cdc_minimum c,
           did_maximum = cdc_maximum c, did_max_length = cdc_max_length c, did_version = 1,
           did_created_by_user_id = env_actor e\<rparr>;
         evidence = did_created_evidence v u d
     in and_then (of_option (IntegrityError ''uq_diagnostic_data_identifier'') (insert_row did_key d (diag_dids s))) (\<lambda>rows.
        Inr (d, add_event_audit e ''atep.diagnostics.did.created.v1'' ''diagnostic_data_identifier'' (did_id d)
          evidence ''diagnostics.did_created'' evidence (s\<lparr>diag_dids := rows\<rparr>))))))"

definition list_dids ::
  "electronic_control_unit \<Rightarrow> nat \<Rightarrow> nat \<Rightarrow> 'a diag_store_scheme \<Rightarrow> diagnostic_data_identifier list \<times> int" where
  "list_dids u limit offset s =
     (let rows = filter (\<lambda>d. did_ecu_id d = ecu_id u) (diag_dids s)
      in (page limit offset (sort_key did_identifier rows), int (length rows)))"

definition require_did ::
  "bool \<Rightarrow> electronic_control_unit \<Rightarrow> 'a diag_store_scheme \<Rightarrow> int \<Rightarrow> app_error + diagnostic_data_identifier" where
  "require_did uds_request u s k =
     of_option (if uds_request then range_error (''DID '' @ hex_id k @ '' is not supported'')
                else ResourceNotFound ''diagnostic data identifier'') (find_did u k s)"

definition session_error :: "string \<Rightarrow> app_error" where
  "session_error reason = contract_error reason SERVICE_NOT_SUPPORTED_IN_ACTIVE_SESSION"

fun check_readable :: "DiagnosticSessionType \<Rightarrow> diagnostic_data_identifier list \<Rightarrow> app_error + unit" where
  "check_readable t [] = Inr ()"
| "check_readable t (d # ds) =
     (if t \<notin> set (did_readable_sessions d)
        then Inl (session_error (''DID '' @ hex_id (did_identifier d) @ '' is not readable in ''
               @ session_type_value t @ '' session''))
      else check_readable t ds)"

definition did_item :: "diagnostic_data_identifier \<Rightarrow> json" where
  "did_item d = JObj [(''identifier'', JInt (did_identifier d)), (''identifier_hex'', JStr (hex_id (did_identifier d))),
     (''data_type'', JStr (did_type_value (did_data_type d))), (''unit'', JStr (did_unit d)),
     (''value'', did_json (did_content d)), (''did_version'', JInt (did_version d))]"

definition did_command_evidence ::
  "vehicle \<Rightarrow> electronic_control_unit \<Rightarrow> diagnostic_command \<Rightarrow> diagnostic_data_identifier list \<Rightarrow> dict" where
  "did_command_evidence v u r ds = base_evidence v u @ service_evidence r
     @ [(''session_version'', JInt (dcm_session_version r)), (''did_count'', JInt (int (length ds))),
        (''identifiers'', JArr (map (\<lambda>d. JInt (did_identifier d)) ds)),
        (''did_versions'', JObj (map (\<lambda>d. (int_str (did_identifier d), JInt (did_version d))) ds))]"

definition read_dids ::
  "env \<Rightarrow> vehicle \<times> string \<times> did_read_command \<Rightarrow> 'a diag_store_scheme
    \<Rightarrow> app_error + (diagnostic_command \<times> bool) \<times> 'a diag_store_scheme" where
  "read_dids e = (\<lambda>(v, i, c) s.
     and_then (require_ecu v i s) (\<lambda>u.
     answer_stored u (cdr_command_id c) READ_DATA_BY_IDENTIFIER (ReadRequest c) s
     (let (state, s1) = get_or_create_session u s in
      and_then (map_ok (require_did True u s1) (cdr_identifiers c)) (\<lambda>ds.
      and_then (check_readable (dss_session_type state) ds) (\<lambda>_.
      let result = [(''session_type'', JStr (session_type_value (dss_session_type state))),
            (''items'', JArr (map did_item ds))];
          r = new_command e u (cdr_command_id c) READ_DATA_BY_IDENTIFIER (ReadRequest c) result
                (dss_version state) (dss_version state)
      in record_execution e ''atep.diagnostics.did.read.v1'' ''ecu'' (ecu_id u) ''diagnostics.did_read''
           (did_command_evidence v u r ds) r s1)))))"

definition written :: "did_value \<Rightarrow> diagnostic_data_identifier \<Rightarrow> diagnostic_data_identifier" where
  "written x d = d\<lparr>did_content := x, did_version := did_version d + 1\<rparr>"

definition write_did ::
  "env \<Rightarrow> vehicle \<times> string \<times> int \<times> did_write_command \<Rightarrow> 'a diag_store_scheme
    \<Rightarrow> app_error + (diagnostic_command \<times> bool) \<times> 'a diag_store_scheme" where
  "write_did e = (\<lambda>(v, i, k, c) s.
     and_then (require_ecu v i s) (\<lambda>u.
     answer_stored u (cdw_command_id c) WRITE_DATA_BY_IDENTIFIER (WriteRequest k c) s
     (let (state, s1) = get_or_create_session u s in
      and_then (require_did True u s1 k) (\<lambda>d.
      if cdw_expected_session_version c \<noteq> dss_version state then Inl (session_version_error state)
      else if cdw_expected_did_version c \<noteq> did_version d
        then Inl (contract_error (''DID version is '' @ int_str (did_version d)) CONDITIONS_NOT_CORRECT)
      else if \<not> did_writable d \<or> dss_session_type state \<notin> set (did_writable_sessions d)
        then Inl (session_error (''DID '' @ hex_id (did_identifier d) @ '' is not writable in ''
               @ session_type_value (dss_session_type state) @ '' session''))
      else and_then (validate_did_value (did_data_type d) (cdw_value c) (did_minimum d) (did_maximum d) (did_max_length d)) (\<lambda>_.
      let d' = written (cdw_value c) d;
          result = [(''identifier'', JInt (did_identifier d)), (''identifier_hex'', JStr (hex_id (did_identifier d))),
            (''value'', did_json (did_content d')), (''previous_did_version'', JInt (did_version d)),
            (''did_version'', JInt (did_version d')), (''session_type'', JStr (session_type_value (dss_session_type state)))];
          r = new_command e u (cdw_command_id c) WRITE_DATA_BY_IDENTIFIER (WriteRequest k c) result
                (dss_version state) (dss_version state)
      in record_execution e ''atep.diagnostics.did.written.v1'' ''ecu'' (ecu_id u) ''diagnostics.did_written''
           (did_command_evidence v u r [d']) r (s1\<lparr>diag_dids := update_row did_key d' (diag_dids s1)\<rparr>))))))"

section \<open>Trouble codes\<close>

definition find_dtc :: "electronic_control_unit \<Rightarrow> string \<Rightarrow> 'a diag_store_scheme \<Rightarrow> diagnostic_trouble_code option" where
  "find_dtc u code s = select (\<lambda>d. dtc_key d = (ecu_id u, code)) (diag_dtcs s)"

definition dtc_evidence :: "vehicle \<Rightarrow> electronic_control_unit \<Rightarrow> diagnostic_trouble_code \<Rightarrow> dict" where
  "dtc_evidence v u d = base_evidence v u @ [(''dtc_id'', JStr (dtc_id d)), (''code'', JStr (dtc_code d)),
     (''status_mask'', JInt (dtc_status_mask d)), (''severity'', JStr (dtc_severity_value (dtc_severity d))),
     (''occurrence_count'', JInt (dtc_occurrence_count d)), (''version'', JInt (dtc_version d)),
     (''simulation_time_ms'', JInt (dtc_last_seen_ms d))]"

definition new_dtc :: "env \<Rightarrow> electronic_control_unit \<Rightarrow> dtc_report_command \<Rightarrow> diagnostic_trouble_code" where
  "new_dtc e u c = \<lparr>dtc_id = env_new_id e, dtc_ecu_id = ecu_id u, dtc_code = ctr_code c,
     dtc_status_mask = ctr_status_mask c, dtc_severity = ctr_severity c, dtc_description = ctr_description c,
     dtc_occurrence_count = 1, dtc_first_seen_ms = ecu_simulation_time_ms u,
     dtc_last_seen_ms = ecu_simulation_time_ms u, dtc_snapshot = ctr_snapshot c, dtc_version = 1\<rparr>"

definition seen_again :: "electronic_control_unit \<Rightarrow> dtc_report_command \<Rightarrow> diagnostic_trouble_code \<Rightarrow> diagnostic_trouble_code" where
  "seen_again u c d = d\<lparr>dtc_status_mask := ctr_status_mask c, dtc_severity := ctr_severity c,
     dtc_description := ctr_description c, dtc_occurrence_count := dtc_occurrence_count d + 1,
     dtc_last_seen_ms := ecu_simulation_time_ms u, dtc_snapshot := ctr_snapshot c, dtc_version := dtc_version d + 1\<rparr>"

definition report_dtc ::
  "env \<Rightarrow> vehicle \<times> string \<times> dtc_report_command \<Rightarrow> 'a diag_store_scheme
    \<Rightarrow> app_error + diagnostic_trouble_code \<times> 'a diag_store_scheme" where
  "report_dtc e = (\<lambda>(v, i, c) s.
     and_then (require_ecu v i s) (\<lambda>u.
     let done = (\<lambda>d rows. Inr (d, add_event_audit e ''atep.diagnostics.dtc.reported.v1'' ''diagnostic_trouble_code''
           (dtc_id d) (dtc_evidence v u d) ''diagnostics.dtc_reported'' (dtc_evidence v u d) (s\<lparr>diag_dtcs := rows\<rparr>)))
     in case find_dtc u (ctr_code c) s of
       None \<Rightarrow>
         if length (filter (\<lambda>d. dtc_ecu_id d = ecu_id u) (diag_dtcs s)) \<ge> 200
           then Inl (range_error ''an ECU may store at most 200 DTCs in V-1'')
         else and_then (of_option (IntegrityError ''uq_diagnostic_trouble_code'')
                (insert_row dtc_key (new_dtc e u c) (diag_dtcs s))) (\<lambda>rows. done (new_dtc e u c) rows)
     | Some d \<Rightarrow> done (seen_again u c d) (update_row dtc_key (seen_again u c d) (diag_dtcs s))))"

definition list_dtcs ::
  "electronic_control_unit \<Rightarrow> nat \<Rightarrow> nat \<Rightarrow> int option \<Rightarrow> 'a diag_store_scheme \<Rightarrow> diagnostic_trouble_code list \<times> int" where
  "list_dtcs u limit offset status_mask s =
     (let rows = filter (\<lambda>d. dtc_ecu_id d = ecu_id u
            \<and> (case status_mask of None \<Rightarrow> True | Some m \<Rightarrow> dtc_status_mask d AND m \<noteq> 0)) (diag_dtcs s)
      in (page limit offset (sort_key dtc_code rows), int (length rows)))"

definition require_dtc :: "electronic_control_unit \<Rightarrow> string \<Rightarrow> 'a diag_store_scheme \<Rightarrow> app_error + diagnostic_trouble_code" where
  "require_dtc u code s = of_option (ResourceNotFound ''diagnostic trouble code'') (find_dtc u code s)"

definition clear_dtcs ::
  "env \<Rightarrow> vehicle \<times> string \<times> dtc_clear_command \<Rightarrow> 'a diag_store_scheme
    \<Rightarrow> app_error + (diagnostic_command \<times> bool) \<times> 'a diag_store_scheme" where
  "clear_dtcs e = (\<lambda>(v, i, c) s.
     and_then (require_ecu v i s) (\<lambda>u.
     answer_stored u (ctl_command_id c) CLEAR_DIAGNOSTIC_INFORMATION (ClearDtcRequest c) s
     (let (state, s1) = get_or_create_session u s in
      if ctl_expected_version c \<noteq> dss_version state then Inl (session_version_error state)
      else if ctl_group c \<noteq> ''FFFFFF''
        then Inl (range_error ''only the all-DTC group FFFFFF is supported in V-1'')
      else let ds = fst (list_dtcs u 200 0 None s1);
               state' = state\<lparr>dss_version := dss_version state + 1, dss_simulation_time_ms := ecu_simulation_time_ms u\<rparr>;
               result = [(''group'', JStr (ctl_group c)), (''cleared_count'', JInt (int (length ds)))];
               r = new_command e u (ctl_command_id c) CLEAR_DIAGNOSTIC_INFORMATION (ClearDtcRequest c) result
                     (dss_version state) (dss_version state')
      in record_evidence e v u ''atep.diagnostics.dtc.cleared.v1'' ''diagnostics.dtc_cleared'' r
           (save_session state' (s1\<lparr>diag_dtcs := filter (\<lambda>d. d \<notin> set ds) (diag_dtcs s1)\<rparr>)))))"

section \<open>The OBD-II view\<close>

fun obd_pid_did :: "ObdPid \<Rightarrow> int" where
  "obd_pid_did ENGINE_COOLANT_TEMPERATURE = 0xF405"
| "obd_pid_did VEHICLE_SPEED = 0xF40D"
| "obd_pid_did CONTROL_MODULE_VOLTAGE = 0xF442"
| "obd_pid_did HYBRID_BATTERY_REMAINING_LIFE = 0xF45B"

definition obd_item :: "ObdPid \<Rightarrow> diagnostic_data_identifier \<Rightarrow> json" where
  "obd_item p d = JObj [(''pid'', JInt (pid_value p)), (''pid_hex'', JStr (''0x'' @ hex_pad 2 (pid_value p))),
     (''did_identifier'', JInt (did_identifier d)), (''name'', JStr (did_name d)), (''value'', did_json (did_content d)),
     (''unit'', JStr (did_unit d)), (''did_version'', JInt (did_version d))]"

definition read_obd_mode_01 ::
  "electronic_control_unit \<Rightarrow> ObdPid list \<Rightarrow> 'a diag_store_scheme \<Rightarrow> app_error + json list" where
  "read_obd_mode_01 u pids s =
     map_ok (\<lambda>p. and_then (require_did False u s (obd_pid_did p)) (\<lambda>d. Inr (obd_item p d))) pids"

section \<open>Campaigns\<close>

definition campaign_dtc :: "diagnostic_trouble_code \<Rightarrow> json" where
  "campaign_dtc d = JObj [(''code'', JStr (dtc_code d)), (''status_mask'', JInt (dtc_status_mask d)),
     (''severity'', JStr (dtc_severity_value (dtc_severity d))), (''occurrence_count'', JInt (dtc_occurrence_count d))]"

definition campaign_did :: "diagnostic_data_identifier \<Rightarrow> json" where
  "campaign_did d = JObj [(''identifier'', JInt (did_identifier d)), (''value'', did_json (did_content d)),
     (''unit'', JStr (did_unit d)), (''version'', JInt (did_version d))]"

definition step_payload ::
  "electronic_control_unit \<Rightarrow> 'a diag_store_scheme \<Rightarrow> diagnostic_campaign_step \<Rightarrow> app_error + dict" where
  "step_payload u s st = (case cst_step_type st of
     OBD_MODE_01 \<Rightarrow> and_then (read_obd_mode_01 u (cst_pids st) s) (\<lambda>xs. Inr [(''mode'', JInt 1), (''values'', JArr xs)])
   | OBD_MODE_03 \<Rightarrow> Inr [(''mode'', JInt 3), (''dtcs'', JArr (map campaign_dtc (fst (list_dtcs u 200 0 None s))))]
   | UDS_READ_DIDS \<Rightarrow> and_then (map_ok (require_did False u s) (cst_identifiers st)) (\<lambda>ds.
       Inr [(''service_id'', JInt (service_id_value READ_DATA_BY_IDENTIFIER)),
            (''positive_response_service_id'', JInt (service_id_value READ_DATA_BY_IDENTIFIER + 0x40)),
            (''values'', JArr (map campaign_did ds))]))"

definition step_result ::
  "electronic_control_unit \<Rightarrow> 'a diag_store_scheme \<Rightarrow> nat \<times> diagnostic_campaign_step \<Rightarrow> app_error + dict" where
  "step_result u s = (\<lambda>(index, st). and_then (step_payload u s st) (\<lambda>payload.
     Inr ([(''index'', JInt (int index)), (''name'', JStr (cst_name st)),
       (''step_type'', JStr (step_type_value (cst_step_type st))), (''status'', JStr ''passed'')] @ payload)))"

definition campaign_completed_evidence :: "vehicle \<Rightarrow> electronic_control_unit \<Rightarrow> diagnostic_campaign \<Rightarrow> dict" where
  "campaign_completed_evidence v u x = base_evidence v u @ [(''campaign_id'', JStr (dcp_id x)),
     (''command_id'', JStr (dcp_command_id x)), (''transport'', JStr (transport_value (dcp_transport x))),
     (''status'', JStr (dcp_status x)), (''step_count'', JInt (int (length (dcp_results x)))),
     (''step_types'', JArr (map (\<lambda>r. the (map_of r ''step_type'')) (dcp_results x)))]"

definition find_diagnostic_campaign ::
  "electronic_control_unit \<Rightarrow> string \<Rightarrow> 'a diag_store_scheme \<Rightarrow> diagnostic_campaign option" where
  "find_diagnostic_campaign u i s = select (\<lambda>x. campaign_key x = (ecu_id u, i)) (diag_campaigns s)"

definition execute_diagnostic_campaign ::
  "env \<Rightarrow> vehicle \<times> string \<times> diagnostic_campaign_command \<Rightarrow> 'a diag_store_scheme
    \<Rightarrow> app_error + (diagnostic_campaign \<times> bool) \<times> 'a diag_store_scheme" where
  "execute_diagnostic_campaign e = (\<lambda>(v, i, c) s.
     and_then (require_ecu v i s) (\<lambda>u.
     case find_diagnostic_campaign u (ccm_command_id c) s of
       Some existing \<Rightarrow> if dcp_request existing = c then Inr ((existing, True), s) else Inl DiagnosticCommandConflict
     | None \<Rightarrow>
     and_then (map_ok (step_result u s) (zip [0..<length (ccm_steps c)] (ccm_steps c))) (\<lambda>results.
     let x = \<lparr>dcp_id = env_new_id e, dcp_ecu_id = ecu_id u, dcp_command_id = ccm_command_id c, dcp_name = ccm_name c,
           dcp_transport = ccm_transport c, dcp_doip_envelope = ccm_doip c, dcp_request = c, dcp_results = results,
           dcp_status = ''completed'', dcp_requested_by_user_id = env_actor e\<rparr>;
         evidence = campaign_completed_evidence v u x
     in and_then (of_option (IntegrityError ''uq_diagnostic_campaign_command'')
                    (insert_row campaign_key x (diag_campaigns s))) (\<lambda>rows.
        Inr ((x, False), add_event_audit e ''atep.diagnostics.campaign.completed.v1'' ''diagnostic_campaign'' (dcp_id x)
               evidence ''diagnostics.campaign_completed'' evidence (s\<lparr>diag_campaigns := rows\<rparr>))))))"

definition require_diagnostic_campaign ::
  "electronic_control_unit \<Rightarrow> string \<Rightarrow> 'a diag_store_scheme \<Rightarrow> app_error + diagnostic_campaign" where
  "require_diagnostic_campaign u i s =
     of_option (ResourceNotFound ''diagnostic campaign'') (find_diagnostic_campaign u i s)"

end
