(* ===== verification/DiagViews.thy ===== *)
theory DiagViews
  imports DiagSecurity DiagFlash DiagRoutine DiagData
begin

text \<open>
  What the diagnostic requests do, read through three maps from the id of a unit to its session, its
  security state and its flash state, and the list of the commands stored so far.
\<close>

section \<open>Views of the tables\<close>

definition session_at :: "'a diag_store_scheme \<Rightarrow> uuid \<Rightarrow> diagnostic_session_state option" where
  "session_at s j = select (\<lambda>x. dss_ecu_id x = j) (diag_sessions s)"

definition security_at :: "'a diag_store_scheme \<Rightarrow> uuid \<Rightarrow> diagnostic_security_state option" where
  "security_at s j = select (\<lambda>x. dsc_ecu_id x = j) (diag_securities s)"

definition flash_at :: "'a diag_store_scheme \<Rightarrow> uuid \<Rightarrow> diagnostic_flash_state option" where
  "flash_at s j = select (\<lambda>x. dfl_ecu_id x = j) (diag_flashes s)"

lemma select_update_key:
  "select (\<lambda>x. key x = j) (update_row key r rows)
    = (if j = key r \<and> select (\<lambda>x. key x = j) rows \<noteq> None then Some r else select (\<lambda>x. key x = j) rows)"
  by (induction rows) (auto simp: select_def update_row_def)

lemma select_append_key:
  "select (\<lambda>x. key x = j) (rows @ [r])
    = (if j = key r \<and> select (\<lambda>x. key x = j) rows = None then Some r else select (\<lambda>x. key x = j) rows)"
  by (auto simp: table_simps split: option.splits)

lemma views_save [simp]:
  "session_at (save_session x s) = (if session_at s (dss_ecu_id x) = None then session_at s else (session_at s)(dss_ecu_id x \<mapsto> x))"
  "security_at (save_session x s) = security_at s" "flash_at (save_session x s) = flash_at s"
  "security_at (save_security y s) = (if security_at s (dsc_ecu_id y) = None then security_at s else (security_at s)(dsc_ecu_id y \<mapsto> y))"
  "session_at (save_security y s) = session_at s" "flash_at (save_security y s) = flash_at s"
  "flash_at (save_flash f s) = (if flash_at s (dfl_ecu_id f) = None then flash_at s else (flash_at s)(dfl_ecu_id f \<mapsto> f))"
  "session_at (save_flash f s) = session_at s" "security_at (save_flash f s) = security_at s"
  by (auto simp: session_at_def security_at_def flash_at_def save_session_def save_security_def save_flash_def
      select_update_key)

lemma views_kept [simp]:
  "session_at (s\<lparr>diag_commands := q\<rparr>) = session_at s" "security_at (s\<lparr>diag_commands := q\<rparr>) = security_at s"
  "flash_at (s\<lparr>diag_commands := q\<rparr>) = flash_at s"
  "session_at (s\<lparr>diag_dids := d\<rparr>) = session_at s" "security_at (s\<lparr>diag_dids := d\<rparr>) = security_at s"
  "flash_at (s\<lparr>diag_dids := d\<rparr>) = flash_at s"
  "session_at (s\<lparr>diag_dtcs := t\<rparr>) = session_at s" "security_at (s\<lparr>diag_dtcs := t\<rparr>) = security_at s"
  "flash_at (s\<lparr>diag_dtcs := t\<rparr>) = flash_at s"
  "session_at (s\<lparr>diag_routine_states := g\<rparr>) = session_at s" "security_at (s\<lparr>diag_routine_states := g\<rparr>) = security_at s"
  "flash_at (s\<lparr>diag_routine_states := g\<rparr>) = flash_at s"
  by (simp_all add: session_at_def security_at_def flash_at_def fun_eq_iff)

text \<open>Requests of the simulation never touch the diagnostic tables.\<close>

definition diag_tables :: "'a diag_store_scheme \<Rightarrow> 'a diag_store_scheme \<Rightarrow> bool" where
  "diag_tables s s' \<longleftrightarrow> ecu_store.more s' = ecu_store.more s"

lemma diag_tables_fields:
  assumes "diag_tables s s'"
  shows "diag_sessions s' = diag_sessions s" "diag_securities s' = diag_securities s" "diag_flashes s' = diag_flashes s"
    "diag_dids s' = diag_dids s" "diag_routines s' = diag_routines s" "diag_routine_states s' = diag_routine_states s"
    "diag_dtcs s' = diag_dtcs s" "diag_commands s' = diag_commands s" "diag_campaigns s' = diag_campaigns s"
  using assms by (cases s; cases s'; simp add: diag_tables_def)+

lemma diag_tables_views:
  "diag_tables s s' \<Longrightarrow> session_at s' = session_at s \<and> security_at s' = security_at s \<and> flash_at s' = flash_at s"
  by (simp add: session_at_def security_at_def flash_at_def fun_eq_iff diag_tables_fields)

lemma diag_tables_ecu [simp]:
  "diag_tables s (add_event_audit e t rt i p a d s)" "diag_tables s (save_ecu u s)" "diag_tables s s"
  by (simp_all add: diag_tables_def save_ecu_def)

text \<open>The tables of the simulation, in one value.\<close>

definition ecu_part :: "'a ecu_store_scheme \<Rightarrow> electronic_control_unit list \<times> ecu_simulation_command list
    \<times> ecu_memory_snapshot list \<times> ecu_signal_route list \<times> ecu_scenario_execution list" where
  "ecu_part s = (ecus s, ecu_commands s, ecu_snapshots s, ecu_routes s, ecu_scenarios s)"

lemma ecu_part_eq: "ecu_part t = ecu_part s
    \<Longrightarrow> ecus t = ecus s \<and> (ecu_store_ok t \<longleftrightarrow> ecu_store_ok s)"
  by (auto simp: ecu_part_def ecu_store_ok_def)

lemma ecu_part_update [simp]:
  "ecu_part (s\<lparr>diag_commands := q\<rparr>) = ecu_part s" "ecu_part (s\<lparr>diag_dids := d\<rparr>) = ecu_part s"
  "ecu_part (s\<lparr>diag_dtcs := t\<rparr>) = ecu_part s" "ecu_part (s\<lparr>diag_routine_states := g\<rparr>) = ecu_part s"
  "ecu_part (add_event_audit e ty rt i p a b s) = ecu_part s"
  by (simp_all add: ecu_part_def)

section \<open>State rows\<close>

definition session_of :: "electronic_control_unit \<Rightarrow> 'a diag_store_scheme \<Rightarrow> diagnostic_session_state" where
  "session_of u s = fst (get_or_create_session u s)"

definition security_of :: "env \<Rightarrow> electronic_control_unit \<Rightarrow> 'a diag_store_scheme \<Rightarrow> diagnostic_security_state" where
  "security_of e u s = fst (get_or_create_security_state e u s)"

definition flash_of :: "electronic_control_unit \<Rightarrow> 'a diag_store_scheme \<Rightarrow> diagnostic_flash_state" where
  "flash_of u s = fst (get_or_create_flash_state u s)"

lemma session_of_at:
  "session_of u s = (case session_at s (ecu_id u) of None \<Rightarrow> new_session u | Some x \<Rightarrow> x)"
  by (simp add: session_of_def get_or_create_session_def find_session_def session_at_def split: option.splits)

lemma security_of_at:
  "security_of e u s = (case security_at s (ecu_id u) of None \<Rightarrow> new_security e u | Some x \<Rightarrow> x)"
  by (simp add: security_of_def get_or_create_security_state_def find_security_def security_at_def split: option.splits)

lemma flash_of_at: "flash_of u s = (case flash_at s (ecu_id u) of None \<Rightarrow> new_flash u | Some x \<Rightarrow> x)"
  by (simp add: flash_of_def get_or_create_flash_state_def find_flash_def flash_at_def split: option.splits)

lemma at_ids:
  "session_at s j = Some x \<Longrightarrow> dss_ecu_id x = j" "security_at s j = Some y \<Longrightarrow> dsc_ecu_id y = j"
  "flash_at s j = Some f \<Longrightarrow> dfl_ecu_id f = j"
  by (auto simp: session_at_def security_at_def flash_at_def dest: select_SomeD)

lemma of_ids [simp]:
  "dss_ecu_id (session_of u s) = ecu_id u" "dsc_ecu_id (security_of e u s) = ecu_id u" "dfl_ecu_id (flash_of u s) = ecu_id u"
  by (auto simp: session_of_at security_of_at flash_of_at new_session_def new_security_def new_flash_def at_ids split: option.splits)

text \<open>The store after the rows a handler asks for exist.\<close>

lemma with_session: "get_or_create_session u s = (x, t) \<Longrightarrow> x = session_of u s \<and> session_at t = (session_at s)(ecu_id u \<mapsto> x)
    \<and> security_at t = security_at s \<and> flash_at t = flash_at s \<and> diag_commands t = diag_commands s \<and> ecu_part t = ecu_part s
    \<and> diag_dids t = diag_dids s \<and> diag_dtcs t = diag_dtcs s \<and> diag_routines t = diag_routines s
    \<and> diag_routine_states t = diag_routine_states s \<and> diag_campaigns t = diag_campaigns s"
  by (auto simp: ecu_part_def session_of_def get_or_create_session_def find_session_def session_at_def security_at_def flash_at_def
      fun_eq_iff select_append_key new_session_def dest: select_SomeD split: option.splits)

lemma with_security: "get_or_create_security_state e u s = (x, t) \<Longrightarrow> x = security_of e u s
    \<and> security_at t = (security_at s)(ecu_id u \<mapsto> x) \<and> session_at t = session_at s \<and> flash_at t = flash_at s
    \<and> diag_commands t = diag_commands s \<and> ecu_part t = ecu_part s
    \<and> diag_dids t = diag_dids s \<and> diag_dtcs t = diag_dtcs s \<and> diag_routines t = diag_routines s
    \<and> diag_routine_states t = diag_routine_states s \<and> diag_campaigns t = diag_campaigns s"
  by (auto simp: ecu_part_def security_of_def get_or_create_security_state_def find_security_def session_at_def security_at_def flash_at_def
      fun_eq_iff select_append_key new_security_def dest: select_SomeD split: option.splits)

lemma with_flash: "get_or_create_flash_state u s = (x, t) \<Longrightarrow> x = flash_of u s
    \<and> flash_at t = (flash_at s)(ecu_id u \<mapsto> x) \<and> session_at t = session_at s \<and> security_at t = security_at s
    \<and> diag_commands t = diag_commands s \<and> ecu_part t = ecu_part s
    \<and> diag_dids t = diag_dids s \<and> diag_dtcs t = diag_dtcs s \<and> diag_routines t = diag_routines s
    \<and> diag_routine_states t = diag_routine_states s \<and> diag_campaigns t = diag_campaigns s"
  by (auto simp: ecu_part_def flash_of_def get_or_create_flash_state_def find_flash_def session_at_def security_at_def flash_at_def
      fun_eq_iff select_append_key new_flash_def dest: select_SomeD split: option.splits)

section \<open>What a first use leaves\<close>

lemma audit_diag [simp]:
  fixes s :: "'a diag_store_scheme"
  shows "session_at (add_event_audit e t rt i p a d s) = session_at s" "security_at (add_event_audit e t rt i p a d s) = security_at s"
    "flash_at (add_event_audit e t rt i p a d s) = flash_at s" "diag_commands (add_event_audit e t rt i p a d s) = diag_commands s"
    "diag_dids (add_event_audit e t rt i p a d s) = diag_dids s" "diag_dtcs (add_event_audit e t rt i p a d s) = diag_dtcs s"
    "diag_routines (add_event_audit e t rt i p a d s) = diag_routines s"
    "diag_routine_states (add_event_audit e t rt i p a d s) = diag_routine_states s"
    "diag_campaigns (add_event_audit e t rt i p a d s) = diag_campaigns s"
  by (simp_all add: diag_tables_views[OF diag_tables_ecu(1)] diag_tables_fields[OF diag_tables_ecu(1)])

text \<open>
  One execution more; the unit it addresses has the given rows, no other unit's rows changed.
\<close>

definition uds_effect ::
  "diagnostic_command \<Rightarrow> diagnostic_session_state option \<Rightarrow> diagnostic_security_state option
    \<Rightarrow> diagnostic_flash_state option \<Rightarrow> 'a diag_store_scheme \<Rightarrow> 'a diag_store_scheme \<Rightarrow> bool" where
  "uds_effect r x y f s s' \<longleftrightarrow> diag_key r \<notin> diag_key ` set (diag_commands s)
     \<and> diag_commands s' = diag_commands s @ [r] \<and> session_at s' = (session_at s)(dcm_ecu_id r := x)
     \<and> security_at s' = (security_at s)(dcm_ecu_id r := y) \<and> flash_at s' = (flash_at s)(dcm_ecu_id r := f)"

lemma record_execution_Inr:
  assumes "record_execution e t g j a ev r s = Inr ((q, d), s')"
  shows "q = r \<and> \<not> d \<and> uds_effect r (session_at s (dcm_ecu_id r)) (security_at s (dcm_ecu_id r)) (flash_at s (dcm_ecu_id r)) s s'
    \<and> ecu_part s' = ecu_part s \<and> diag_dids s' = diag_dids s \<and> diag_dtcs s' = diag_dtcs s \<and> diag_routines s' = diag_routines s
    \<and> diag_routine_states s' = diag_routine_states s \<and> diag_campaigns s' = diag_campaigns s"
  using assms by (auto simp: record_execution_def uds_effect_def ok_simps table_simps)

lemma answer_stored_None [simp]:
  "existing_command u i s = None \<Longrightarrow> answer_stored u i service request s rest = rest"
  by (simp add: answer_stored_def)

lemma new_command_simps [simp]:
  "dcm_ecu_id (new_command e u i service request result p q) = ecu_id u"
  "dcm_command_id (new_command e u i service request result p q) = i"
  "dcm_service_id (new_command e u i service request result p q) = service"
  "dcm_request (new_command e u i service request result p q) = request"
  "dcm_result (new_command e u i service request result p q) = result"
  "dcm_previous_version (new_command e u i service request result p q) = p"
  "dcm_session_version (new_command e u i service request result p q) = q"
  by (simp_all add: new_command_def)

lemma save_kept [simp]:
  "ecu_part (save_session x s) = ecu_part s" "ecu_part (save_security y s) = ecu_part s" "ecu_part (save_flash f s) = ecu_part s"
  "diag_commands (save_session x s) = diag_commands s" "diag_commands (save_security y s) = diag_commands s" "diag_commands (save_flash f s) = diag_commands s"
  "diag_dids (save_session x s) = diag_dids s" "diag_dids (save_security y s) = diag_dids s" "diag_dids (save_flash f s) = diag_dids s"
  "diag_dtcs (save_session x s) = diag_dtcs s" "diag_dtcs (save_security y s) = diag_dtcs s" "diag_dtcs (save_flash f s) = diag_dtcs s"
  "diag_routines (save_session x s) = diag_routines s" "diag_routines (save_security y s) = diag_routines s" "diag_routines (save_flash f s) = diag_routines s"
  "diag_routine_states (save_session x s) = diag_routine_states s" "diag_routine_states (save_security y s) = diag_routine_states s" "diag_routine_states (save_flash f s) = diag_routine_states s"
  "diag_campaigns (save_session x s) = diag_campaigns s" "diag_campaigns (save_security y s) = diag_campaigns s" "diag_campaigns (save_flash f s) = diag_campaigns s"
  "diag_commands (save_ecu u s) = diag_commands s"
  "diag_dids (save_ecu u s) = diag_dids s"
  "diag_dtcs (save_ecu u s) = diag_dtcs s"
  "diag_routines (save_ecu u s) = diag_routines s"
  "diag_routine_states (save_ecu u s) = diag_routine_states s"
  "diag_campaigns (save_ecu u s) = diag_campaigns s"
  "session_at (save_ecu u s) = session_at s" "security_at (save_ecu u s) = security_at s" "flash_at (save_ecu u s) = flash_at s"
  by (simp_all add: diag_tables_views[OF diag_tables_ecu(2)] diag_tables_fields[OF diag_tables_ecu(2)]
      save_session_def save_security_def save_flash_def ecu_part_def)

text \<open>Sessions and the diagnostic reset.\<close>

definition controlled :: "diagnostic_session_control_command \<Rightarrow> electronic_control_unit \<Rightarrow> diagnostic_session_state
    \<Rightarrow> diagnostic_session_state" where
  "controlled c u x = x\<lparr>dss_session_type := csc_session_type c, dss_security_level := 0,
     dss_simulation_time_ms := ecu_simulation_time_ms u, dss_version := dss_version x + 1\<rparr>"

lemma control_session_first:
  fixes s :: "'a diag_store_scheme"
  assumes "find_ecu v i s = Some u" "existing_command u (csc_command_id c) s = None"
    and "control_session e (v, i, c) s = Inr ((r, d), s')"
  shows "csc_expected_version c = dss_version (session_of u s)"
    and "\<exists>result. r = new_command e u (csc_command_id c) DIAGNOSTIC_SESSION_CONTROL (SessionRequest c) result
      (csc_expected_version c) (csc_expected_version c + 1)"
    and "\<not> d" "ecu_part s' = ecu_part s" "diag_dids s' = diag_dids s"
    and "uds_effect r (Some (controlled c u (session_of u s))) (Some (cleared_security (security_of e u s)))
      (flash_at s (ecu_id u)) s s'"
proof -
  obtain x s1 where a: "get_or_create_session u s = (x, s1)" by fastforce
  obtain y s2 where b: "get_or_create_security_state e u s1 = (y, s2)" by fastforce
  note wa = with_session[OF a] and wb = with_security[OF b]
  have y: "y = security_of e u s" using wa wb by (simp add: security_of_at)
  have g: "csc_expected_version c = dss_version x"
    and r: "record_evidence e v u ''atep.diagnostics.session.changed.v1'' ''diagnostics.session_changed''
      (new_command e u (csc_command_id c) DIAGNOSTIC_SESSION_CONTROL (SessionRequest c)
        (session_result (controlled c u x) (cleared_security y)) (dss_version x) (dss_version (controlled c u x)))
      (save_security (cleared_security y) (save_session (controlled c u x) s2)) = Inr ((r, d), s')"
    using assms a b by (auto simp: control_session_def require_ecu_def Let_def controlled_def split: if_splits)
  note w = record_execution_Inr[OF r[unfolded record_evidence_def]]
  show "csc_expected_version c = dss_version (session_of u s)" "\<not> d" using g w wa by simp_all
  show "\<exists>result. r = new_command e u (csc_command_id c) DIAGNOSTIC_SESSION_CONTROL (SessionRequest c) result
      (csc_expected_version c) (csc_expected_version c + 1)"
    using w g by (auto simp: controlled_def)
  show "ecu_part s' = ecu_part s" "diag_dids s' = diag_dids s"
    using w wa wb by simp_all
  show "uds_effect r (Some (controlled c u (session_of u s))) (Some (cleared_security (security_of e u s)))
      (flash_at s (ecu_id u)) s s'"
    using w wa wb y unfolding uds_effect_def
    by (auto simp: controlled_def cleared_security_def)
qed

lemma clear_dtcs_first:
  assumes "find_ecu v i s = Some u" "existing_command u (ctl_command_id c) s = None"
    and "clear_dtcs e (v, i, c) s = Inr ((r, d), s')"
  shows "ctl_expected_version c = dss_version (session_of u s)"
    and "\<exists>result. r = new_command e u (ctl_command_id c) CLEAR_DIAGNOSTIC_INFORMATION (ClearDtcRequest c) result
      (ctl_expected_version c) (ctl_expected_version c + 1)"
    and "\<not> d" "ecu_part s' = ecu_part s" "diag_dids s' = diag_dids s"
    and "diag_dtcs s' = filter (\<lambda>d. d \<notin> set (fst (list_dtcs u 200 0 None s))) (diag_dtcs s)"
    and "uds_effect r (Some ((session_of u s)\<lparr>dss_version := dss_version (session_of u s) + 1,
        dss_simulation_time_ms := ecu_simulation_time_ms u\<rparr>)) (security_at s (ecu_id u)) (flash_at s (ecu_id u)) s s'"
proof -
  obtain x s1 where a: "get_or_create_session u s = (x, s1)" by fastforce
  note wa = with_session[OF a]
  let ?ds = "fst (list_dtcs u 200 0 None s1)"
  have ds: "?ds = fst (list_dtcs u 200 0 None s)" using wa by (simp add: list_dtcs_def Let_def)
  let ?x = "x\<lparr>dss_version := dss_version x + 1, dss_simulation_time_ms := ecu_simulation_time_ms u\<rparr>"
  let ?r = "new_command e u (ctl_command_id c) CLEAR_DIAGNOSTIC_INFORMATION (ClearDtcRequest c)
      [(''group'', JStr (ctl_group c)), (''cleared_count'', JInt (int (length ?ds)))] (dss_version x) (dss_version ?x)"
  have g: "ctl_expected_version c = dss_version x"
    and r: "record_evidence e v u ''atep.diagnostics.dtc.cleared.v1'' ''diagnostics.dtc_cleared'' ?r
      (save_session ?x (s1\<lparr>diag_dtcs := filter (\<lambda>d. d \<notin> set ?ds) (diag_dtcs s1)\<rparr>)) = Inr ((r, d), s')"
    using assms a by (auto simp: clear_dtcs_def require_ecu_def Let_def split: if_splits)
  note w = record_execution_Inr[OF r[unfolded record_evidence_def]]
  show "ctl_expected_version c = dss_version (session_of u s)" "\<not> d" "ecu_part s' = ecu_part s"
    "diag_dids s' = diag_dids s" "diag_dtcs s' = filter (\<lambda>d. d \<notin> set (fst (list_dtcs u 200 0 None s))) (diag_dtcs s)"
    using g w wa ds by simp_all
  show "\<exists>result. r = new_command e u (ctl_command_id c) CLEAR_DIAGNOSTIC_INFORMATION (ClearDtcRequest c) result
      (ctl_expected_version c) (ctl_expected_version c + 1)" using w g by auto
  show "uds_effect r (Some ((session_of u s)\<lparr>dss_version := dss_version (session_of u s) + 1,
        dss_simulation_time_ms := ecu_simulation_time_ms u\<rparr>)) (security_at s (ecu_id u)) (flash_at s (ecu_id u)) s s'"
    using w wa unfolding uds_effect_def by auto
qed

text \<open>Reading, writing and routines only make sure that the session exists.\<close>

lemma read_dids_first:
  assumes "find_ecu v i s = Some u" "existing_command u (cdr_command_id c) s = None"
    and "read_dids e (v, i, c) s = Inr ((r, d), s')"
  obtains ds where "map_ok (require_did True u s) (cdr_identifiers c) = Inr ds"
    "check_readable (dss_session_type (session_of u s)) ds = Inr ()"
    "r = new_command e u (cdr_command_id c) READ_DATA_BY_IDENTIFIER (ReadRequest c)
      [(''session_type'', JStr (session_type_value (dss_session_type (session_of u s)))), (''items'', JArr (map did_item ds))]
      (dss_version (session_of u s)) (dss_version (session_of u s))"
    "\<not> d" "ecu_part s' = ecu_part s" "diag_dids s' = diag_dids s" "diag_dtcs s' = diag_dtcs s"
    "uds_effect r (Some (session_of u s)) (security_at s (ecu_id u)) (flash_at s (ecu_id u)) s s'"
proof -
  obtain x s1 where a: "get_or_create_session u s = (x, s1)" by fastforce
  note wa = with_session[OF a]
  have rq: "require_did True u s1 = require_did True u s" using wa by (simp add: require_did_def find_did_def fun_eq_iff)
  obtain ds where ds: "map_ok (require_did True u s) (cdr_identifiers c) = Inr ds" "check_readable (dss_session_type x) ds = Inr ()"
    and r: "record_execution e ''atep.diagnostics.did.read.v1'' ''ecu'' (ecu_id u) ''diagnostics.did_read''
      (did_command_evidence v u (new_command e u (cdr_command_id c) READ_DATA_BY_IDENTIFIER (ReadRequest c)
        [(''session_type'', JStr (session_type_value (dss_session_type x))), (''items'', JArr (map did_item ds))]
        (dss_version x) (dss_version x)) ds)
      (new_command e u (cdr_command_id c) READ_DATA_BY_IDENTIFIER (ReadRequest c)
        [(''session_type'', JStr (session_type_value (dss_session_type x))), (''items'', JArr (map did_item ds))]
        (dss_version x) (dss_version x)) s1 = Inr ((r, d), s')"
    using assms a rq by (auto simp: read_dids_def require_ecu_def Let_def ok_simps)
  note w = record_execution_Inr[OF r]
  have "uds_effect r (Some (session_of u s)) (security_at s (ecu_id u)) (flash_at s (ecu_id u)) s s'"
    using w wa unfolding uds_effect_def by auto
  then show thesis using that[OF ds(1)] ds(2) w wa by simp
qed

lemma write_did_first:
  assumes "find_ecu v i s = Some u" "existing_command u (cdw_command_id c) s = None"
    and "write_did e (v, i, k, c) s = Inr ((r, d), s')"
  obtains x result where "find_did u k s = Some x" "cdw_expected_session_version c = dss_version (session_of u s)"
    "cdw_expected_did_version c = did_version x" "did_writable x"
    "dss_session_type (session_of u s) \<in> set (did_writable_sessions x)"
    "validate_did_value (did_data_type x) (cdw_value c) (did_minimum x) (did_maximum x) (did_max_length x) = Inr ()"
    "r = new_command e u (cdw_command_id c) WRITE_DATA_BY_IDENTIFIER (WriteRequest k c) result
      (dss_version (session_of u s)) (dss_version (session_of u s))"
    "\<not> d" "ecu_part s' = ecu_part s" "diag_dids s' = update_row did_key (written (cdw_value c) x) (diag_dids s)"
    "diag_dtcs s' = diag_dtcs s"
    "uds_effect r (Some (session_of u s)) (security_at s (ecu_id u)) (flash_at s (ecu_id u)) s s'"
proof -
  obtain st s1 where a: "get_or_create_session u s = (st, s1)" by fastforce
  note wa = with_session[OF a]
  have rq: "find_did u k s1 = find_did u k s" using wa by (simp add: find_did_def)
  obtain x result where x: "find_did u k s = Some x" "cdw_expected_session_version c = dss_version st"
      "cdw_expected_did_version c = did_version x" "did_writable x" "dss_session_type st \<in> set (did_writable_sessions x)"
      "validate_did_value (did_data_type x) (cdw_value c) (did_minimum x) (did_maximum x) (did_max_length x) = Inr ()"
    and r: "record_execution e ''atep.diagnostics.did.written.v1'' ''ecu'' (ecu_id u) ''diagnostics.did_written''
      (did_command_evidence v u (new_command e u (cdw_command_id c) WRITE_DATA_BY_IDENTIFIER (WriteRequest k c) result
        (dss_version st) (dss_version st)) [written (cdw_value c) x])
      (new_command e u (cdw_command_id c) WRITE_DATA_BY_IDENTIFIER (WriteRequest k c) result
        (dss_version st) (dss_version st))
      (s1\<lparr>diag_dids := update_row did_key (written (cdw_value c) x) (diag_dids s1)\<rparr>) = Inr ((r, d), s')"
    using assms a rq
    by (auto simp: write_did_def require_ecu_def require_did_def Let_def ok_simps split: if_splits)
  note w = record_execution_Inr[OF r]
  have "uds_effect r (Some (session_of u s)) (security_at s (ecu_id u)) (flash_at s (ecu_id u)) s s'"
    using w wa unfolding uds_effect_def by auto
  then show thesis using that[OF x(1)] x w wa by simp
qed

lemma control_routine_first:
  assumes "find_ecu v i s = Some u" "existing_command u (crl_command_id c) s = None"
    and "control_routine e (v, i, k, c) s = Inr ((r, d), s')"
  obtains g x y result where "require_routine True u k s = Inr (g, x)"
    "crl_expected_session_version c = dss_version (session_of u s)" "crl_expected_routine_version c = drs_version x"
    "dss_session_type (session_of u s) \<in> set (drt_allowed_sessions g)"
    "apply_control g (ecu_simulation_time_ms u) c (refresh_routine_state g (ecu_simulation_time_ms u) x) = Inr y"
    "result = routine_result g c y"
    "r = new_command e u (crl_command_id c) ROUTINE_CONTROL (RoutineRequest k c) result
      (dss_version (session_of u s)) (dss_version (session_of u s))"
    "\<not> d" "ecu_part s' = ecu_part s" "diag_dids s' = diag_dids s"
    "diag_routine_states s' = update_row drs_routine_id y (diag_routine_states s)"
    "uds_effect r (Some (session_of u s)) (security_at s (ecu_id u)) (flash_at s (ecu_id u)) s s'"
proof -
  obtain st s1 where a: "get_or_create_session u s = (st, s1)" by fastforce
  note wa = with_session[OF a]
  have rq: "require_routine True u k s1 = require_routine True u k s"
    using wa by (simp add: require_routine_def find_routine_def find_routine_state_def cong: option.case_cong)
  obtain g x y where x: "require_routine True u k s = Inr (g, x)"
      "crl_expected_session_version c = dss_version st" "crl_expected_routine_version c = drs_version x"
      "dss_session_type st \<in> set (drt_allowed_sessions g)"
      "apply_control g (ecu_simulation_time_ms u) c (refresh_routine_state g (ecu_simulation_time_ms u) x) = Inr y"
    and r: "record_execution e ''atep.diagnostics.routine.controlled.v1'' ''diagnostic_routine'' (drt_id g)
      ''diagnostics.routine_controlled'' (routine_evidence v u g y (crl_control_type c)
        (new_command e u (crl_command_id c) ROUTINE_CONTROL (RoutineRequest k c) (routine_result g c y)
          (dss_version st) (dss_version st)))
      (new_command e u (crl_command_id c) ROUTINE_CONTROL (RoutineRequest k c) (routine_result g c y)
        (dss_version st) (dss_version st))
      (s1\<lparr>diag_routine_states := update_row drs_routine_id y (diag_routine_states s1)\<rparr>) = Inr ((r, d), s')"
    using assms a rq
    by (auto simp: control_routine_def require_ecu_def Let_def ok_simps split: if_splits prod.splits)
  note w = record_execution_Inr[OF r]
  have "uds_effect r (Some (session_of u s)) (security_at s (ecu_id u)) (flash_at s (ecu_id u)) s s'"
    using w wa unfolding uds_effect_def by auto
  then show thesis using that[OF x(1)] x w wa by simp
qed

end
