(* ===== verification/DiagEffects.thy ===== *)
theory DiagEffects
  imports DiagViews EcuReach
begin

text \<open>
  What the reset, the flash services and the endpoint of security access do to the views of
  \<open>DiagViews\<close>, and how every diagnostic request keeps the units: none is lost or renamed.
\<close>

section \<open>Units\<close>

definition unit_name :: "electronic_control_unit \<Rightarrow> uuid \<times> uuid \<times> string" where
  "unit_name u = (ecu_id u, ecu_vehicle_id u, ecu_identifier u)"

definition units_kept :: "'a ecu_store_scheme \<Rightarrow> 'a ecu_store_scheme \<Rightarrow> bool" where
  "units_kept s s' \<longleftrightarrow> ecu_store_ok s' \<and> extends (map unit_name (ecus s)) (map unit_name (ecus s'))
     \<and> units_move (ecus s) (ecus s')"

lemma units_kept_refl: "ecu_store_ok s \<Longrightarrow> units_kept s s"
  by (simp add: units_kept_def)

lemma units_kept_trans: "units_kept s t \<Longrightarrow> units_kept t t' \<Longrightarrow> units_kept s t'"
  by (auto simp: units_kept_def intro: extends_trans units_move_trans)

lemma units_kept_part: "ecu_store_ok s \<Longrightarrow> ecu_part s' = ecu_part s \<Longrightarrow> units_kept s s'"
  using ecu_part_eq[of s' s] by (simp add: units_kept_def)

lemma units_kept_grows:
  assumes "ecu_store_ok s'" "ecu_grows s s'" "units_move (ecus s) (ecus s')" shows "units_kept s s'"
proof -
  obtain f xs where f: "ecus s' = map f (ecus s) @ xs" "\<forall>u\<in>set (ecus s). same_unit u (f u)"
    using assms(2) by (auto simp: ecu_grows_def units_grow_def)
  then have "map unit_name (ecus s') = map unit_name (ecus s) @ map unit_name xs"
    by (auto simp: unit_name_def same_unit_def)
  then show ?thesis using assms(1,3) by (simp add: units_kept_def)
qed

lemma find_ecu_name:
  "map_option unit_name (find_ecu v i s) = select (\<lambda>(j, w, k). w = veh_id v \<and> k = i) (map unit_name (ecus s))"
proof -
  have "map_option unit_name (select (\<lambda>u. ecu_vehicle_id u = veh_id v \<and> ecu_identifier u = i) us)
      = select (\<lambda>(j, w, k). w = veh_id v \<and> k = i) (map unit_name us)" for us
    by (induction us) (auto simp: select_def unit_name_def)
  then show ?thesis by (simp add: find_ecu_def)
qed

lemma find_ecu_kept:
  assumes "units_kept s s'" "find_ecu v i s = Some u"
  obtains u' where "find_ecu v i s' = Some u'" "ecu_id u' = ecu_id u"
proof -
  have "select (\<lambda>(j, w, k). w = veh_id v \<and> k = i) (map unit_name (ecus s)) = Some (unit_name u)"
    using find_ecu_name[of v i s] assms(2) by simp
  then have "map_option unit_name (find_ecu v i s') = Some (unit_name u)"
    using assms(1) unfolding find_ecu_name units_kept_def extends_def by (auto intro: select_grows)
  then show thesis using that by (auto simp: unit_name_def)
qed

lemma find_ecu_by_id: "ecu_store_ok s \<Longrightarrow> find_ecu v i s = Some u \<Longrightarrow> ecu_by_id (ecu_id u) s = Some u"
  using find_ecu_row[of v i s u] select_unique[of ecu_id "ecus s" u] by (simp add: ecu_by_id_def ecu_store_ok_def)

lemma save_ecu_kept:
  assumes "ecu_store_ok s" "u \<in> set (ecus s)" "unit_name u' = unit_name u" "ecu_part s' = ecu_part (save_ecu u' s)"
    and "unit_moves u u'"
  shows "units_kept s s'" "ecus s' = update_row ecu_id u' (ecus s)"
proof -
  have d: "distinct (map ecu_id (ecus s))" using assms(1) by (simp add: ecu_store_ok_def)
  show e: "ecus s' = update_row ecu_id u' (ecus s)" using ecu_part_eq[OF assms(4)] by (simp add: save_ecu_def)
  have "unit_name (if ecu_id x = ecu_id u' then u' else x) = unit_name x" if "x \<in> set (ecus s)" for x
    using unit_unique[OF d assms(2) that] assms(3) by (auto simp: unit_name_def)
  then have n: "map unit_name (ecus s') = map unit_name (ecus s)" unfolding e by (simp add: update_row_def)
  have "map ecu_key us = map snd (map unit_name us)" for us
    by (simp add: ecu_key_def unit_name_def)
  then have k: "map ecu_key (ecus s') = map ecu_key (ecus s)" using n by metis
  have "ecu_store_ok s'"
    using assms(1,4) unfolding ecu_store_ok_def k by (simp add: ecu_part_def save_ecu_def update_row_keys)
  then show "units_kept s s'" using n units_move_update[OF d assms(2,5)] by (simp add: units_kept_def e)
qed

section \<open>The reset\<close>

lemma reset_tables:
  fixes s :: "'a diag_store_scheme"
  assumes "execute_ecu_reset e (v, i, c) s = Inr ((x, b), s')"
  shows "diag_tables s s'"
  using assms
proof (cases rule: resets.cases_run)
  case (first u u')
  then show ?thesis using ecu_committed_tables(7) by (auto simp: diag_tables_def)
qed (simp add: diag_tables_def)

lemma inner_reset_Inr:
  assumes "inner_reset e v i c s = Inr (x, s')"
  obtains cmd b where "execute_ecu_reset e (v, i, cmd) s = Inr ((x, b), s')"
    "rs_expected_version cmd = cer_expected_ecu_version c" "rs_mode cmd = reset_mode_of (cer_reset_type c)"
proof -
  obtain k where k: "validate_command_id (cer_command_id c) = Inr k" using assms by (auto simp: inner_reset_def ok_simps)
  let ?c = "\<lparr>rs_command_id = k, rs_expected_version = cer_expected_ecu_version c, rs_mode = reset_mode_of (cer_reset_type c)\<rparr>"
  show thesis
  proof (cases "execute_ecu_reset e (v, i, ?c) s")
    case (Inl err)
    then show ?thesis using assms k by (cases err) (simp_all add: inner_reset_def)
  next
    case (Inr y)
    then show ?thesis using assms k that[of ?c] by (auto simp: inner_reset_def split: prod.splits)
  qed
qed

definition after_reset :: "ecu_simulation_command \<Rightarrow> diagnostic_session_state \<Rightarrow> diagnostic_session_state" where
  "after_reset x st = st\<lparr>dss_session_type := DEFAULT_SESSION, dss_security_level := 0,
     dss_simulation_time_ms := ec_simulation_time_ms x, dss_version := dss_version st + 1\<rparr>"

lemma reset_ecu_first:
  fixes s :: "'a diag_store_scheme"
  assumes "find_ecu v i s = Some u" "existing_command u (cer_command_id c) s = None"
    and "reset_ecu e (v, i, c) s = Inr ((r, d), s')"
  obtains x y result where
    "cer_expected_session_version c = dss_version (session_of u s)"
    "cer_expected_security_version c = dsc_version (security_of e u s)"
    "dss_session_type (session_of u s) \<noteq> DEFAULT_SESSION"
    "cer_reset_type c \<noteq> SOFT_RESET \<Longrightarrow> 1 \<le> dss_security_level (session_of u s)"
    "r = new_command e u (cer_command_id c) ECU_RESET (EcuResetRequest c) result
      (cer_expected_session_version c) (cer_expected_session_version c + 1)"
    "\<not> d" "ecu_store_ok s \<Longrightarrow> units_kept s s'" "diag_dids s' = diag_dids s"
    "uds_effect r (Some (after_reset x (session_of u s))) (Some (cleared_security (security_of e u s)))
      (flash_at s (ecu_id u)) s s'"
proof -
  obtain st s1 where a: "get_or_create_session u s = (st, s1)" by fastforce
  obtain y s2 where b: "get_or_create_security_state e u s1 = (y, s2)" by fastforce
  note wa = with_session[OF a] and wb = with_security[OF b]
  have y: "y = security_of e u s" using wa wb by (simp add: security_of_at)
  obtain x s3 duration boots where g: "cer_expected_session_version c = dss_version st"
    "cer_expected_security_version c = dsc_version y" "dss_session_type st \<noteq> DEFAULT_SESSION"
    "cer_reset_type c \<in> {HARD_RESET, KEY_OFF_ON_RESET} \<Longrightarrow> \<not> dss_security_level st < 1"
    and x: "inner_reset e v i c s2 = Inr (x, s3)"
    and r: "record_evidence e v u ''atep.diagnostics.ecu.reset.v1'' ''diagnostics.ecu_reset''
      (new_command e u (cer_command_id c) ECU_RESET (EcuResetRequest c)
        (ecu_reset_result c x duration boots (after_reset x st) (cleared_security y)) (dss_version st) (dss_version (after_reset x st)))
      (save_security (cleared_security y) (save_session (after_reset x st) s3)) = Inr ((r, d), s')"
    using assms a b
    by (auto simp: reset_ecu_def require_ecu_def Let_def ok_simps after_reset_def split: if_splits)
  obtain cmd dup where run: "execute_ecu_reset e (v, i, cmd) s2 = Inr ((x, dup), s3)" by (rule inner_reset_Inr[OF x])
  have t: "diag_tables s2 s3" by (rule reset_tables[OF run])
  note w = record_execution_Inr[OF r[unfolded record_evidence_def]]
  note views = diag_tables_views[OF t] diag_tables_fields[OF t]
  have p2: "ecu_part s2 = ecu_part s" using wa wb by simp
  have kept: "units_kept s s'" if "ecu_store_ok s"
  proof -
    have ok2: "ecu_store_ok s2" and "units_kept s s2" using that ecu_part_eq[OF p2] units_kept_part[OF that p2] by simp_all
    moreover have "units_kept s2 s3"
      using resets.run_ok[OF ok2 run] reset_moves[OF ok2 run] by (intro units_kept_grows) simp_all
    moreover have "units_kept s3 s'" using w \<open>units_kept s2 s3\<close> by (intro units_kept_part) (auto simp: units_kept_def)
    ultimately show ?thesis using units_kept_trans by blast
  qed
  have e: "uds_effect r (Some (after_reset x (session_of u s))) (Some (cleared_security (security_of e u s)))
      (flash_at s (ecu_id u)) s s'"
    using w wa wb y views unfolding uds_effect_def by (auto simp: after_reset_def cleared_security_def)
  have "1 \<le> dss_security_level st" if "cer_reset_type c \<noteq> SOFT_RESET"
    using g(4) that by (cases "cer_reset_type c") simp_all
  then show thesis
    by (rule_tac that[OF _ _ _ _ _ _ kept _ e]) (use g w wa wb y views in \<open>auto simp: after_reset_def\<close>)
qed

section \<open>Flash programming\<close>

text \<open>The three rows every flash service asks for, and the unit it locks.\<close>

lemma flash_rows:
  fixes s :: "'a diag_store_scheme"
  assumes "get_or_create_session u s = (st, s1)" "get_or_create_security_state e u s1 = (y, s2)"
    "get_or_create_flash_state u s2 = (f, s3)"
  shows "st = session_of u s" "y = security_of e u s" "f = flash_of u s"
    and "session_at s3 = (session_at s)(ecu_id u \<mapsto> st)" "security_at s3 = (security_at s)(ecu_id u \<mapsto> y)"
    and "flash_at s3 = (flash_at s)(ecu_id u \<mapsto> f)" "diag_commands s3 = diag_commands s" "ecu_part s3 = ecu_part s"
    and "diag_dids s3 = diag_dids s"
    and "ecu_store_ok s \<Longrightarrow> find_ecu v i s = Some u \<Longrightarrow> locked_ecu u s3 = Inr u"
proof -
  note wa = with_session[OF assms(1)] and wb = with_security[OF assms(2)] and wc = with_flash[OF assms(3)]
  show "st = session_of u s" "y = security_of e u s" "f = flash_of u s"
    "session_at s3 = (session_at s)(ecu_id u \<mapsto> st)" "security_at s3 = (security_at s)(ecu_id u \<mapsto> y)"
    "flash_at s3 = (flash_at s)(ecu_id u \<mapsto> f)" "diag_commands s3 = diag_commands s" "diag_dids s3 = diag_dids s"
    using wa wb wc by (simp_all add: security_of_at flash_of_at)
  show p: "ecu_part s3 = ecu_part s" using wa wb wc by simp
  show "locked_ecu u s3 = Inr u" if "ecu_store_ok s" "find_ecu v i s = Some u"
    using find_ecu_by_id[OF that] ecu_part_eq[OF p] by (simp add: locked_ecu_def ecu_by_id_def)
qed

lemma request_download_first:
  fixes s :: "'a diag_store_scheme"
  assumes "ecu_store_ok s" "find_ecu v i s = Some u" "existing_command u (cfd_command_id c) s = None"
    and "request_download e (v, i, c) s = Inr ((r, d), s')"
  shows "require_flash_access (session_of u s) (security_of e u s) (cfd_expected_session_version c)
      (cfd_expected_security_version c) = Inr ()"
    and "cfd_expected_ecu_version c = ecu_version u" "dfl_status (flash_of u s) \<noteq> FLASH_DOWNLOADING"
    and "r = new_flash_execution e u (cfd_command_id c) REQUEST_DOWNLOAD (DownloadRequest c)
      (download_result (started_transfer c u (flash_of u s))) (dss_version (session_of u s))"
    and "\<not> d" "ecu_part s' = ecu_part s" "diag_dids s' = diag_dids s"
    and "uds_effect r (Some (session_of u s)) (Some (security_of e u s)) (Some (started_transfer c u (flash_of u s))) s s'"
proof -
  obtain st s1 where a: "get_or_create_session u s = (st, s1)" by fastforce
  obtain y s2 where b: "get_or_create_security_state e u s1 = (y, s2)" by fastforce
  obtain f s3 where c: "get_or_create_flash_state u s2 = (f, s3)" by fastforce
  note w = flash_rows[OF a b c]
  have lock: "locked_ecu u s3 = Inr u" by (rule w(10)[OF assms(1,2)])
  let ?r = "new_flash_execution e u (cfd_command_id c) REQUEST_DOWNLOAD (DownloadRequest c)
    (download_result (started_transfer c u f)) (dss_version st)"
  have g: "require_flash_access st y (cfd_expected_session_version c) (cfd_expected_security_version c) = Inr ()"
      "cfd_expected_ecu_version c = ecu_version u" "dfl_status f \<noteq> FLASH_DOWNLOADING"
    and r: "record_evidence e v u ''atep.diagnostics.flash.download.requested.v1'' ''diagnostics.flash_download_requested'' ?r
      (save_flash (started_transfer c u f) s3) = Inr ((r, d), s')"
    using assms(2-4) a b c lock by (auto simp: request_download_def require_ecu_def Let_def ok_simps split: if_splits)
  note q = record_execution_Inr[OF r[unfolded record_evidence_def]]
  show "require_flash_access (session_of u s) (security_of e u s) (cfd_expected_session_version c)
      (cfd_expected_security_version c) = Inr ()" "cfd_expected_ecu_version c = ecu_version u"
    "dfl_status (flash_of u s) \<noteq> FLASH_DOWNLOADING"
    "r = new_flash_execution e u (cfd_command_id c) REQUEST_DOWNLOAD (DownloadRequest c)
      (download_result (started_transfer c u (flash_of u s))) (dss_version (session_of u s))"
    "\<not> d" "ecu_part s' = ecu_part s" "diag_dids s' = diag_dids s"
    using g q w by simp_all
  show "uds_effect r (Some (session_of u s)) (Some (security_of e u s)) (Some (started_transfer c u (flash_of u s))) s s'"
    using q w unfolding uds_effect_def by (auto simp: started_transfer_def new_flash_execution_def)
qed

lemma transfer_data_first:
  fixes s :: "'a diag_store_scheme"
  assumes "find_ecu v i s = Some u" "existing_command u (cft_command_id c) s = None"
    and "transfer_data e (v, i, c) s = Inr ((r, d), s')"
  shows "require_active_flash_access (session_of u s) (security_of e u s) = Inr ()"
    and "dfl_status (flash_of u s) = FLASH_DOWNLOADING" "cft_expected_transfer_version c = dfl_version (flash_of u s)"
    and "cft_block_sequence_counter c = dfl_next_block_sequence_counter (flash_of u s)"
    and "int (length (bytes_fromhex (cft_data_hex c))) \<le> dfl_max_block_length (flash_of u s)"
    and "dfl_bytes_received (flash_of u s) + int (length (bytes_fromhex (cft_data_hex c))) \<le> dfl_memory_size (flash_of u s)"
    and "\<exists>result. r = new_flash_execution e u (cft_command_id c) TRANSFER_DATA (block_request c) result (dss_version (session_of u s))"
    and "\<not> d" "ecu_part s' = ecu_part s" "diag_dids s' = diag_dids s"
    and "uds_effect r (Some (session_of u s)) (Some (security_of e u s))
      (Some (received_block (bytes_fromhex (cft_data_hex c)) (flash_of u s))) s s'"
proof -
  obtain st s1 where a: "get_or_create_session u s = (st, s1)" by fastforce
  obtain y s2 where b: "get_or_create_security_state e u s1 = (y, s2)" by fastforce
  obtain f s3 where c: "get_or_create_flash_state u s2 = (f, s3)" by fastforce
  note w = flash_rows[OF a b c]
  let ?b = "bytes_fromhex (cft_data_hex c)"
  let ?r = "new_flash_execution e u (cft_command_id c) TRANSFER_DATA (block_request c)
    (block_result c ?b (received_block ?b f)) (dss_version st)"
  have g: "require_active_flash_access st y = Inr ()" "dfl_status f = FLASH_DOWNLOADING"
      "cft_expected_transfer_version c = dfl_version f" "cft_block_sequence_counter c = dfl_next_block_sequence_counter f"
      "int (length ?b) \<le> dfl_max_block_length f" "dfl_bytes_received f + int (length ?b) \<le> dfl_memory_size f"
    and r: "record_evidence e v u ''atep.diagnostics.flash.block.transferred.v1'' ''diagnostics.flash_block_transferred'' ?r
      (save_flash (received_block ?b f) s3) = Inr ((r, d), s')"
    using assms a b c by (auto simp: transfer_data_def require_ecu_def Let_def ok_simps split: if_splits)
  note q = record_execution_Inr[OF r[unfolded record_evidence_def]]
  show "require_active_flash_access (session_of u s) (security_of e u s) = Inr ()"
    "dfl_status (flash_of u s) = FLASH_DOWNLOADING" "cft_expected_transfer_version c = dfl_version (flash_of u s)"
    "cft_block_sequence_counter c = dfl_next_block_sequence_counter (flash_of u s)"
    "int (length ?b) \<le> dfl_max_block_length (flash_of u s)"
    "dfl_bytes_received (flash_of u s) + int (length ?b) \<le> dfl_memory_size (flash_of u s)"
    "\<exists>result. r = new_flash_execution e u (cft_command_id c) TRANSFER_DATA (block_request c) result (dss_version (session_of u s))"
    "\<not> d" "ecu_part s' = ecu_part s" "diag_dids s' = diag_dids s"
    using g q w by auto
  show "uds_effect r (Some (session_of u s)) (Some (security_of e u s)) (Some (received_block ?b (flash_of u s))) s s'"
    using q w unfolding uds_effect_def by (auto simp: received_block_def new_flash_execution_def)
qed

lemma completed_firmware: "dfl_firmware_version (completed_transfer f) = dfl_firmware_version f"
  by (simp add: completed_transfer_def)

lemma request_transfer_exit_first:
  fixes s :: "'a diag_store_scheme"
  assumes "ecu_store_ok s" "find_ecu v i s = Some u" "existing_command u (cfe_command_id c) s = None"
    and "request_transfer_exit e (v, i, c) s = Inr ((r, d), s')"
  defines "f \<equiv> flash_of u s"
  shows "require_active_flash_access (session_of u s) (security_of e u s) = Inr ()"
    and "dfl_status f = FLASH_DOWNLOADING" "cfe_expected_transfer_version c = dfl_version f"
    and "cfe_expected_ecu_version c = ecu_version u" "ecu_version u = dfl_target_ecu_version f"
    and "dfl_bytes_received f = dfl_memory_size f" "sha256_bytes (dfl_image_data f) = cfe_expected_sha256 c"
    and "r = new_flash_execution e (flashed (completed_transfer f) u) (cfe_command_id c) REQUEST_TRANSFER_EXIT (ExitRequest c)
      (exit_result (completed_transfer f) (sha256_bytes (dfl_image_data f)) (ecu_version u) (ecu_version u + 1))
      (dss_version (session_of u s))"
    and "\<not> d" "ecu_part s' = ecu_part (save_ecu (flashed (completed_transfer f) u) s)" "diag_dids s' = diag_dids s"
    and "uds_effect r (Some (session_of u s)) (Some (security_of e u s)) (Some (completed_transfer f)) s s'"
proof -
  obtain st s1 where a: "get_or_create_session u s = (st, s1)" by fastforce
  obtain y s2 where b: "get_or_create_security_state e u s1 = (y, s2)" by fastforce
  obtain f' s3 where c: "get_or_create_flash_state u s2 = (f', s3)" by fastforce
  note w = flash_rows[OF a b c]
  have lock: "locked_ecu u s3 = Inr u" by (rule w(10)[OF assms(1,2)])
  have f: "f' = f" using w(3) by (simp add: f_def)
  let ?u = "flashed (completed_transfer f) u" and ?x = "completed_transfer f"
  let ?r = "new_flash_execution e ?u (cfe_command_id c) REQUEST_TRANSFER_EXIT (ExitRequest c)
    (exit_result ?x (sha256_bytes (dfl_image_data f)) (ecu_version u) (ecu_version u + 1)) (dss_version st)"
  have g: "require_active_flash_access st y = Inr ()" "dfl_status f = FLASH_DOWNLOADING"
      "cfe_expected_transfer_version c = dfl_version f" "cfe_expected_ecu_version c = ecu_version u"
      "ecu_version u = dfl_target_ecu_version f" "dfl_bytes_received f = dfl_memory_size f"
      "sha256_bytes (dfl_image_data f) = cfe_expected_sha256 c"
    and r: "record_evidence e v ?u ''atep.diagnostics.flash.completed.v1'' ''diagnostics.flash_completed'' ?r
      (save_flash ?x (save_ecu ?u s3)) = Inr ((r, d), s')"
    using assms(2-4) a b c lock f
    by (auto simp: request_transfer_exit_def require_ecu_def Let_def ok_simps flashed_def completed_firmware split: if_splits)
  note q = record_execution_Inr[OF r[unfolded record_evidence_def]]
  show "require_active_flash_access (session_of u s) (security_of e u s) = Inr ()" "dfl_status f = FLASH_DOWNLOADING"
    "cfe_expected_transfer_version c = dfl_version f" "cfe_expected_ecu_version c = ecu_version u"
    "ecu_version u = dfl_target_ecu_version f" "dfl_bytes_received f = dfl_memory_size f"
    "sha256_bytes (dfl_image_data f) = cfe_expected_sha256 c"
    "r = new_flash_execution e ?u (cfe_command_id c) REQUEST_TRANSFER_EXIT (ExitRequest c)
      (exit_result ?x (sha256_bytes (dfl_image_data f)) (ecu_version u) (ecu_version u + 1)) (dss_version (session_of u s))"
    "\<not> d" "diag_dids s' = diag_dids s"
    using g q w by simp_all
  have "ecu_part (save_ecu ?u s3) = ecu_part (save_ecu ?u s)" using w(8) by (simp add: ecu_part_def save_ecu_def)
  then show "ecu_part s' = ecu_part (save_ecu ?u s)" using q by simp
  show "uds_effect r (Some (session_of u s)) (Some (security_of e u s)) (Some ?x) s s'"
    using q w f unfolding uds_effect_def by (auto simp: completed_transfer_def new_flash_execution_def flashed_def)
qed

section \<open>The endpoint of security access\<close>

definition lock_over :: "int \<Rightarrow> diagnostic_security_state \<Rightarrow> bool" where
  "lock_over now y \<longleftrightarrow> (case dsc_locked_until_ms y of None \<Rightarrow> True | Some t \<Rightarrow> t \<le> now)"

text \<open>An attempt is let through to the seed and key logic under exactly these conditions.\<close>

definition access_open :: "env \<Rightarrow> electronic_control_unit \<Rightarrow> security_access_command \<Rightarrow> 'a diag_store_scheme \<Rightarrow> bool" where
  "access_open e u c s \<longleftrightarrow> csa_expected_session_version c = dss_version (session_of u s)
     \<and> csa_expected_security_version c = dsc_version (security_of e u s)
     \<and> dss_session_type (session_of u s) \<noteq> DEFAULT_SESSION
     \<and> lock_over (ecu_simulation_time_ms u) (security_of e u s)"

definition unlock_session :: "electronic_control_unit \<Rightarrow> diagnostic_session_state \<Rightarrow> diagnostic_session_state" where
  "unlock_session u x = x\<lparr>dss_security_level := 1, dss_simulation_time_ms := ecu_simulation_time_ms u, dss_version := dss_version x + 1\<rparr>"

definition access_row :: "env \<Rightarrow> electronic_control_unit \<Rightarrow> security_access_command \<Rightarrow> dict \<Rightarrow> int \<Rightarrow> int \<Rightarrow> diagnostic_command" where
  "access_row e u c result = new_command e u (csa_command_id c) SECURITY_ACCESS (security_request c) result"

lemma security_denial_rejected: "\<exists>reason code. security_denial (rejected_result st y) = DiagnosticContract reason code"
  by (simp add: security_denial_def rejected_result_def)

lemma record_security_Inr:
  assumes "record_security e v u x r s = Inr ((q, d), s')"
  shows "q = r \<and> \<not> d \<and> uds_effect r (session_at s (dcm_ecu_id r)) (security_at s (dcm_ecu_id r)) (flash_at s (dcm_ecu_id r)) s s'
    \<and> ecu_part s' = ecu_part s \<and> diag_dids s' = diag_dids s"
  using record_execution_Inr[OF assms[unfolded record_security_def]] by blast

lemma record_security_Inl:
  "record_security e v u x r s = Inl err \<Longrightarrow> \<exists>k. err = IntegrityError k"
  by (auto simp: record_security_def record_execution_def ok_simps)

lemma security_access_rows:
  fixes s :: "'a diag_store_scheme"
  assumes "get_or_create_session u s = (st, s1)" "get_or_create_security_state e u s1 = (y, s2)"
  shows "st = session_of u s" "y = security_of e u s" "session_at s2 = (session_at s)(ecu_id u \<mapsto> st)"
    and "security_at s2 = (security_at s)(ecu_id u \<mapsto> y)" "flash_at s2 = flash_at s" "diag_commands s2 = diag_commands s"
    and "ecu_part s2 = ecu_part s" "diag_dids s2 = diag_dids s"
  using with_session[OF assms(1)] with_security[OF assms(2)] by (simp_all add: security_of_at)

text \<open>The attempt itself, and the guards before it, on the rows of the unit.\<close>

definition security_attempt ::
  "env \<Rightarrow> vehicle \<Rightarrow> electronic_control_unit \<Rightarrow> security_access_command \<Rightarrow> diagnostic_session_state
    \<Rightarrow> diagnostic_security_state \<Rightarrow> 'a diag_store_scheme \<Rightarrow> 'a diag_store_scheme
    \<Rightarrow> app_error \<times> 'a diag_store_scheme + (diagnostic_command \<times> bool) \<times> 'a diag_store_scheme" where
  "security_attempt e v u c state security s2 s = (let x = without_lock security; now = ecu_simulation_time_ms u in
     if csa_access_type c = REQUEST_SEED_LEVEL_1 then
       (case record_security e v u (snd (seeded u x)) (access_row e u c (seed_result state (fst (seeded u x)) (snd (seeded u x)))
               (dss_version state) (dss_version state)) (save_security (snd (seeded u x)) s2) of
          Inl err \<Rightarrow> Inl (err, s) | Inr r \<Rightarrow> Inr r)
     else if \<not> seed_usable now x
       then Inl (contract_error ''a valid level-1 seed must be requested before sendKey'' REQUEST_SEQUENCE_ERROR, save_security x s2)
     else if key_digest c \<noteq> dsc_expected_key_digest x then
       (case record_security e v u (rejected now x) (access_row e u c (rejected_result state (rejected now x))
               (dss_version state) (dss_version state)) (save_security (rejected now x) s2) of
          Inl err \<Rightarrow> Inl (err, s) | Inr (_, t) \<Rightarrow> Inl (security_denial (rejected_result state (rejected now x)), t))
     else
       (case record_security e v u (unlocked x) (access_row e u c (unlock_result (unlock_session u state) (unlocked x))
               (dss_version state) (dss_version state + 1)) (save_security (unlocked x) (save_session (unlock_session u state) s2)) of
          Inl err \<Rightarrow> Inl (err, s) | Inr r \<Rightarrow> Inr r))"

definition security_fresh ::
  "env \<Rightarrow> vehicle \<Rightarrow> electronic_control_unit \<Rightarrow> security_access_command \<Rightarrow> diagnostic_session_state
    \<Rightarrow> diagnostic_security_state \<Rightarrow> 'a diag_store_scheme \<Rightarrow> 'a diag_store_scheme
    \<Rightarrow> app_error \<times> 'a diag_store_scheme + (diagnostic_command \<times> bool) \<times> 'a diag_store_scheme" where
  "security_fresh e v u c state security s2 s = (let now = ecu_simulation_time_ms u in
     if csa_expected_session_version c \<noteq> dss_version state then Inl (session_version_error state, s2)
     else if csa_expected_security_version c \<noteq> dsc_version security then Inl (security_version_error security, s2)
     else if dss_session_type state = DEFAULT_SESSION
       then Inl (contract_error ''Security Access is not available in default session''
                   SERVICE_NOT_SUPPORTED_IN_ACTIVE_SESSION, s2)
     else if (case dsc_locked_until_ms security of None \<Rightarrow> False | Some t \<Rightarrow> now < t)
       then Inl (contract_error (''security delay is active until logical time ''
                   @ int_str (the (dsc_locked_until_ms security))) REQUIRED_TIME_DELAY_NOT_EXPIRED, s2)
     else security_attempt e v u c state security s2 s)"

lemma security_endpoint_cases:
  fixes s :: "'a diag_store_scheme"
  assumes "security_access_endpoint e (v, i, c) s = (res, s')"
  obtains (unchanged) "s' = s" "\<And>r d. res = Inr (r, d) \<Longrightarrow> d \<and> (\<exists>u. find_ecu v i s = Some u
      \<and> existing_command u (csa_command_id c) s = Some r \<and> same_command SECURITY_ACCESS (security_request c) r)"
  | (refused) u y where "find_ecu v i s = Some u" "existing_command u (csa_command_id c) s = None" "isl res"
      "y = security_of e u s \<or> y = without_lock (security_of e u s) \<and> lock_over (ecu_simulation_time_ms u) (security_of e u s)"
      "session_at s' = (session_at s)(ecu_id u \<mapsto> session_of u s)" "security_at s' = (security_at s)(ecu_id u \<mapsto> y)"
      "flash_at s' = flash_at s" "diag_commands s' = diag_commands s" "ecu_part s' = ecu_part s" "diag_dids s' = diag_dids s"
  | (seed) u seed y r where "find_ecu v i s = Some u" "existing_command u (csa_command_id c) s = None" "res = Inr (r, False)"
      "access_open e u c s" "csa_access_type c = REQUEST_SEED_LEVEL_1" "(seed, y) = seeded u (without_lock (security_of e u s))"
      "r = access_row e u c (seed_result (session_of u s) seed y) (dss_version (session_of u s)) (dss_version (session_of u s))"
      "uds_effect r (Some (session_of u s)) (Some y) (flash_at s (ecu_id u)) s s'"
      "ecu_part s' = ecu_part s" "diag_dids s' = diag_dids s"
  | (wrong) u y r where "find_ecu v i s = Some u" "existing_command u (csa_command_id c) s = None"
      "access_open e u c s" "csa_access_type c = SEND_KEY_LEVEL_1"
      "seed_usable (ecu_simulation_time_ms u) (without_lock (security_of e u s))"
      "key_digest c \<noteq> dsc_expected_key_digest (without_lock (security_of e u s))"
      "y = rejected (ecu_simulation_time_ms u) (without_lock (security_of e u s))"
      "res = Inl (security_denial (rejected_result (session_of u s) y))"
      "r = access_row e u c (rejected_result (session_of u s) y) (dss_version (session_of u s)) (dss_version (session_of u s))"
      "uds_effect r (Some (session_of u s)) (Some y) (flash_at s (ecu_id u)) s s'"
      "ecu_part s' = ecu_part s" "diag_dids s' = diag_dids s"
  | (right_key) u y r where "find_ecu v i s = Some u" "existing_command u (csa_command_id c) s = None" "res = Inr (r, False)"
      "access_open e u c s" "csa_access_type c = SEND_KEY_LEVEL_1"
      "seed_usable (ecu_simulation_time_ms u) (without_lock (security_of e u s))"
      "key_digest c = dsc_expected_key_digest (without_lock (security_of e u s))"
      "y = unlocked (without_lock (security_of e u s))"
      "r = access_row e u c (unlock_result (unlock_session u (session_of u s)) y) (dss_version (session_of u s))
        (dss_version (session_of u s) + 1)"
      "uds_effect r (Some (unlock_session u (session_of u s))) (Some y) (flash_at s (ecu_id u)) s s'"
      "ecu_part s' = ecu_part s" "diag_dids s' = diag_dids s"
proof (cases "find_ecu v i s")
  case None
  then show thesis using assms unchanged
    by (auto simp: security_access_endpoint_def security_access_def require_ecu_def)
next
  case (Some u)
  show thesis
  proof (cases "existing_command u (csa_command_id c) s")
    case (Some q)
    have "s' = s \<and> (\<forall>r d. res = Inr (r, d) \<longrightarrow> d \<and> q = r \<and> same_command SECURITY_ACCESS (security_request c) r)"
      using assms Some \<open>find_ecu v i s = Some u\<close> 
      by (auto simp: security_access_endpoint_def security_access_def require_ecu_def security_denial_def
          split: if_splits option.splits json.splits)
    then show thesis using unchanged Some \<open>find_ecu v i s = Some u\<close> by blast
  next
    case None
    obtain st s1 where a: "get_or_create_session u s = (st, s1)" by fastforce
    obtain y s2 where b: "get_or_create_security_state e u s1 = (y, s2)" by fastforce
    note w = security_access_rows[OF a b] and u = Some None
    let ?now = "ecu_simulation_time_ms u" and ?x = "without_lock y"
    have run: "security_access e (v, i, c) s = security_fresh e v u c st y s2 s"
      using u a b 
      by (simp add: security_access_def require_ecu_def security_fresh_def security_attempt_def access_row_def
          unlock_session_def Let_def split_def)
    have refuse: thesis if "res = Inl err" "s' = t" "t = s2 \<or> t = save_security ?x s2 \<and> lock_over ?now y" for err t
      using refused[OF u, of "if t = s2 then y else ?x"] that w by (cases "t = s2") (auto simp: without_lock_def)
    show thesis
    proof (cases "access_open e u c s")
      case False
      then have "\<exists>err. res = Inl err \<and> s' = s2"
        using assms w unfolding security_access_endpoint_def run security_fresh_def access_open_def lock_over_def
        by (auto simp: contract_error_def session_version_error_def security_version_error_def not_less split: if_splits option.splits)
      then show thesis using refuse by blast
    next
      case True
      then have fresh: "security_fresh e v u c st y s2 s = security_attempt e v u c st y s2 s"
        using w by (auto simp: security_fresh_def access_open_def lock_over_def not_less split: option.splits)
      note e = assms[unfolded security_access_endpoint_def run fresh]
      show thesis
      proof (cases "csa_access_type c")
        case REQUEST_SEED_LEVEL_1
        obtain seed z where z: "seeded u ?x = (seed, z)" by fastforce
        let ?r = "access_row e u c (seed_result st seed z) (dss_version st) (dss_version st)"
        have zid: "dsc_ecu_id z = ecu_id u" using z w by (auto simp: seeded_def without_lock_def Let_def)
        show thesis
        proof (cases "record_security e v u z ?r (save_security z s2)")
          case (Inl err)
          then show thesis using e REQUEST_SEED_LEVEL_1 z record_security_Inl[OF Inl] unchanged
            by (auto simp: security_attempt_def access_row_def)
        next
          case (Inr q)
          obtain r d t where q: "q = ((r, d), t)" by (metis surj_pair)
          note f = record_security_Inr[OF Inr[unfolded q]]
          have "uds_effect r (Some st) (Some z) (flash_at s (ecu_id u)) s t"
            using f w zid unfolding uds_effect_def by (auto simp: access_row_def)
          then show thesis using seed[OF u _ True REQUEST_SEED_LEVEL_1, of r seed z] e REQUEST_SEED_LEVEL_1 z Inr q f w
            by (auto simp: security_attempt_def access_row_def)
        qed
      next
        case SEND_KEY_LEVEL_1
        show thesis
        proof (cases "seed_usable ?now ?x")
          case False
          then have "\<exists>err. res = Inl err \<and> s' = save_security ?x s2"
            using e SEND_KEY_LEVEL_1 by (auto simp: security_attempt_def contract_error_def)
          then show thesis using refuse True w by (auto simp: access_open_def)
        next
          case usable: True
          show thesis
          proof (cases "key_digest c = dsc_expected_key_digest ?x")
            case False
            let ?z = "rejected ?now ?x" and ?r = "\<lambda>z. access_row e u c (rejected_result st z) (dss_version st) (dss_version st)"
            have zid: "dsc_ecu_id ?z = ecu_id u" using w by (simp add: rejected_def without_lock_def Let_def)
            show thesis
            proof (cases "record_security e v u ?z (?r ?z) (save_security ?z s2)")
              case (Inl err)
              then show thesis using e SEND_KEY_LEVEL_1 usable False record_security_Inl[OF Inl] unchanged
                by (auto simp: security_attempt_def access_row_def)
            next
              case (Inr q)
              obtain r d t where q: "q = ((r, d), t)" by (metis surj_pair)
              note f = record_security_Inr[OF Inr[unfolded q]]
              have ef: "uds_effect r (Some st) (Some ?z) (flash_at s (ecu_id u)) s t"
                using f w zid unfolding uds_effect_def by (auto simp: access_row_def)
              have "res = Inl (security_denial (rejected_result st ?z)) \<and> s' = t"
                using e SEND_KEY_LEVEL_1 usable False Inr q security_denial_rejected[of st ?z]
                by (auto simp: security_attempt_def access_row_def)
              then show thesis using wrong[OF u True SEND_KEY_LEVEL_1, of ?z r] usable False ef f w by auto
            qed
          next
            case same: True
            let ?z = "unlocked ?x" and ?st = "unlock_session u st"
            let ?r = "access_row e u c (unlock_result ?st ?z) (dss_version st) (dss_version st + 1)"
            have zid: "dsc_ecu_id ?z = ecu_id u" "dss_ecu_id ?st = ecu_id u"
              using w by (simp_all add: unlocked_def without_lock_def unlock_session_def)
            show thesis
            proof (cases "record_security e v u ?z ?r (save_security ?z (save_session ?st s2))")
              case (Inl err)
              then show thesis using e SEND_KEY_LEVEL_1 usable same record_security_Inl[OF Inl] unchanged
                by (auto simp: security_attempt_def access_row_def)
            next
              case (Inr q)
              obtain r d t where q: "q = ((r, d), t)" by (metis surj_pair)
              note f = record_security_Inr[OF Inr[unfolded q]]
              have ef: "uds_effect r (Some ?st) (Some ?z) (flash_at s (ecu_id u)) s t"
                using f w zid unfolding uds_effect_def by (auto simp: access_row_def)
              have "res = Inr (r, False) \<and> s' = t"
                using e SEND_KEY_LEVEL_1 usable same Inr q f by (auto simp: security_attempt_def access_row_def)
              then show thesis using right_key[OF u _ True SEND_KEY_LEVEL_1, of r ?z] usable same ef f w by auto
            qed
          qed
        qed
      qed
    qed
  qed
qed

end
