(* ===== verification/DiagSystem.thy ===== *)
theory DiagSystem
  imports DiagEffects
begin

text \<open>
  The diagnostic services as a transition system: the ten UDS requests behind one function
  \<open>serve\<close>, composed with the transaction of their endpoints in
  \<open>src/src/atep/diagnostics/router.py\<close>, the contract every request handler keeps, and the steps
  of the whole system, in which the simulation of the control units moves on in between.
\<close>

section \<open>Requests\<close>

datatype uds_request =
    UdsSession string diagnostic_session_control_command
  | UdsReset string diagnostic_ecu_reset_command
  | UdsDownload string flash_request_download_command
  | UdsBlock string flash_transfer_data_command
  | UdsExit string flash_transfer_exit_command
  | UdsSecurity string security_access_command
  | UdsRoutine string int routine_control_command
  | UdsRead string did_read_command
  | UdsWrite string int did_write_command
  | UdsClear string dtc_clear_command

fun uds_request_ok :: "uds_request \<Rightarrow> bool" where
  "uds_request_ok (UdsReset i c) = diagnostic_ecu_reset_command_ok c"
| "uds_request_ok (UdsDownload i c) = flash_request_download_command_ok c"
| "uds_request_ok (UdsBlock i c) = flash_transfer_data_command_ok c"
| "uds_request_ok (UdsExit i c) = flash_transfer_exit_command_ok c"
| "uds_request_ok (UdsSecurity i c) = security_access_command_ok c"
| "uds_request_ok (UdsRoutine i k c) = routine_control_command_ok c"
| "uds_request_ok (UdsRead i c) = did_read_command_ok c"
| "uds_request_ok _ = True"

text \<open>An endpoint commits what its service did, or rolls back.\<close>

definition endpoint ::
  "(app_error + (diagnostic_command \<times> bool) \<times> 's) \<Rightarrow> 's \<Rightarrow> (app_error + diagnostic_command \<times> bool) \<times> 's" where
  "endpoint result s = (case result of Inl err \<Rightarrow> (Inl err, s) | Inr (r, t) \<Rightarrow> (Inr r, t))"

fun serve ::
  "env \<Rightarrow> vehicle \<Rightarrow> uds_request \<Rightarrow> 'a diag_store_scheme
    \<Rightarrow> (app_error + diagnostic_command \<times> bool) \<times> 'a diag_store_scheme" where
  "serve e v (UdsSession i c) s = endpoint (control_session e (v, i, c) s) s"
| "serve e v (UdsReset i c) s = endpoint (reset_ecu e (v, i, c) s) s"
| "serve e v (UdsDownload i c) s = endpoint (request_download e (v, i, c) s) s"
| "serve e v (UdsBlock i c) s = endpoint (transfer_data e (v, i, c) s) s"
| "serve e v (UdsExit i c) s = endpoint (request_transfer_exit e (v, i, c) s) s"
| "serve e v (UdsSecurity i c) s = security_access_endpoint e (v, i, c) s"
| "serve e v (UdsRoutine i k c) s = endpoint (control_routine e (v, i, k, c) s) s"
| "serve e v (UdsRead i c) s = endpoint (read_dids e (v, i, c) s) s"
| "serve e v (UdsWrite i k c) s = endpoint (write_did e (v, i, k, c) s) s"
| "serve e v (UdsClear i c) s = endpoint (clear_dtcs e (v, i, c) s) s"

lemma endpoint_Inr: "endpoint result s = (Inr x, s') \<longleftrightarrow> result = Inr (x, s')"
  by (auto simp: endpoint_def split: sum.splits)

lemma endpoint_Inl: "endpoint result s = (Inl err, s') \<longleftrightarrow> result = Inl err \<and> s' = s"
  by (auto simp: endpoint_def split: sum.splits)

section \<open>The contract of a request handler\<close>

definition diag_grows :: "'a diag_store_scheme \<Rightarrow> 'a diag_store_scheme \<Rightarrow> bool" where
  "diag_grows s s' \<longleftrightarrow> units_kept s s' \<and> extends (diag_commands s) (diag_commands s')"

lemma diag_grows_refl: "ecu_store_ok s \<Longrightarrow> diag_grows s s"
  by (simp add: diag_grows_def units_kept_refl)

lemma diag_grows_trans: "diag_grows s t \<Longrightarrow> diag_grows t t' \<Longrightarrow> diag_grows s t'"
  by (auto simp: diag_grows_def intro: units_kept_trans extends_trans)

definition stored_diag :: "('c \<Rightarrow> string) \<Rightarrow> vehicle \<times> string \<times> 'c \<Rightarrow> 'a diag_store_scheme \<Rightarrow> diagnostic_command option" where
  "stored_diag command_id = (\<lambda>(v, i, c) s.
     case find_ecu v i s of None \<Rightarrow> None | Some u \<Rightarrow> existing_command u (command_id c) s)"

lemma stored_diag_kept:
  assumes "diag_grows s s'" "stored_diag command_id c s = Some r" shows "stored_diag command_id c s' = Some r"
proof -
  obtain v i x where c: "c = (v, i, x)" by (metis surj_pair)
  obtain u where u: "find_ecu v i s = Some u" "existing_command u (command_id x) s = Some r"
    using assms(2) by (auto simp: stored_diag_def c split: option.splits)
  obtain u' where u': "find_ecu v i s' = Some u'" "ecu_id u' = ecu_id u"
    using find_ecu_kept[of s s' v i u] assms(1) u(1) by (auto simp: diag_grows_def)
  have "existing_command u' (command_id x) s' = Some r"
    using u(2) u'(2) assms(1) by (auto simp: existing_command_def diag_grows_def extends_def intro: select_grows)
  then show ?thesis using u' by (simp add: stored_diag_def c)
qed

locale diag_handler =
  fixes run :: "env \<Rightarrow> vehicle \<times> string \<times> 'c \<Rightarrow> 'a diag_store_scheme
      \<Rightarrow> app_error + (diagnostic_command \<times> bool) \<times> 'a diag_store_scheme"
    and command_id :: "'c \<Rightarrow> string"
    and service :: UdsServiceId
    and request :: "'c \<Rightarrow> diagnostic_request"
  assumes no_unit: "find_ecu v i s = None \<Longrightarrow> run e (v, i, c) s = Inl (ResourceNotFound ''ecu'')"
    and hit: "find_ecu v i s = Some u \<Longrightarrow> existing_command u (command_id c) s = Some r
      \<Longrightarrow> run e (v, i, c) s = (if same_command service (request c) r then Inr ((r, True), s) else Inl DiagnosticCommandConflict)"
    and fresh: "ecu_store_ok s \<Longrightarrow> find_ecu v i s = Some u \<Longrightarrow> existing_command u (command_id c) s = None
      \<Longrightarrow> run e (v, i, c) s = Inr ((r, d), s')
      \<Longrightarrow> \<not> d \<and> dcm_service_id r = service \<and> dcm_request r = request c \<and> diag_key r = (ecu_id u, command_id c)
        \<and> units_kept s s' \<and> diag_commands s' = diag_commands s @ [r]"
begin

lemma handler_cases:
  assumes "ecu_store_ok s" "run e (v, i, c) s = Inr ((r, d), s')"
  obtains (replayed) u where "find_ecu v i s = Some u" "existing_command u (command_id c) s = Some r"
      "same_command service (request c) r" "d" "s' = s"
  | (first) u where "find_ecu v i s = Some u" "existing_command u (command_id c) s = None" "\<not> d"
      "same_command service (request c) r" "diag_key r = (ecu_id u, command_id c)"
      "units_kept s s'" "diag_commands s' = diag_commands s @ [r]"
proof (cases "find_ecu v i s")
  case None
  then show thesis using no_unit assms(2) by simp
next
  case (Some u)
  show thesis
  proof (cases "existing_command u (command_id c) s")
    case None
    then show thesis using fresh[OF assms(1) Some None assms(2)] first[OF Some None] by (simp add: same_command_def)
  next
    case q: (Some q)
    then show thesis using hit[OF Some q, of e] assms(2) replayed[OF Some] by (auto split: if_splits)
  qed
qed

lemma run_grows_diag:
  assumes "ecu_store_ok s" "run e (v, i, c) s = Inr ((r, d), s')"
  shows "ecu_store_ok s' \<and> diag_grows s s'"
  using assms
proof (cases rule: handler_cases)
  case (replayed u)
  then show ?thesis using assms(1) diag_grows_refl by simp
next
  case (first u)
  then show ?thesis by (simp add: diag_grows_def units_kept_def)
qed

lemma stored_after:
  assumes "ecu_store_ok s" "run e (v, i, c) s = Inr ((r, d), s')"
  shows "stored_diag command_id (v, i, c) s' = Some r"
  using assms
proof (cases rule: handler_cases)
  case (replayed u)
  then show ?thesis by (simp add: stored_diag_def)
next
  case (first u)
  obtain u' where u': "find_ecu v i s' = Some u'" "ecu_id u' = ecu_id u"
    using find_ecu_kept[OF first(6,1)] by blast
  then show ?thesis using first(2,5,7) by (simp add: stored_diag_def existing_command_def select_insert_miss)
qed

end

sublocale diag_handler \<subseteq> idempotent "lift_run run" ecu_store_ok "stored_diag command_id"
  "\<lambda>(v, i, c). same_command service (request c)" DiagnosticCommandConflict diag_grows
proof
  fix c :: "vehicle \<times> string \<times> 'c" and s :: "'a diag_store_scheme" and r e
  obtain v i x where c: "c = (v, i, x)" by (metis surj_pair)
  assume "stored_diag command_id c s = Some r"
  then obtain u where u: "find_ecu v i s = Some u" "existing_command u (command_id x) s = Some r"
    by (auto simp: c stored_diag_def split: option.splits)
  show "\<exists>n. lift_run run e c s = Inr ((r, n, True), s)" if "(\<lambda>(v, i, c). same_command service (request c)) c r"
    using hit[OF u, of e] that by (simp add: c lift_run_def)
  show "lift_run run e c s = Inl DiagnosticCommandConflict" if "\<not> (\<lambda>(v, i, c). same_command service (request c)) c r"
    using hit[OF u, of e] that by (simp add: c lift_run_def)
next
  fix c :: "vehicle \<times> string \<times> 'c" and s s' :: "'a diag_store_scheme" and r n d e
  assume ok: "ecu_store_ok s" and none: "stored_diag command_id c s = None" and "lift_run run e c s = Inr ((r, n, d), s')"
  then have run: "run e c s = Inr ((r, d), s')" by (simp add: lift_run_Inr)
  obtain v i x where c: "c = (v, i, x)" by (metis surj_pair)
  show "\<not> d \<and> stored_diag command_id c s' = Some r \<and> (\<lambda>(v, i, c). same_command service (request c)) c r"
    using ok run[unfolded c]
  proof (cases rule: handler_cases)
    case (replayed u)
    then show ?thesis using none by (simp add: c stored_diag_def)
  next
    case (first u)
    then show ?thesis using stored_after[OF ok run[unfolded c]] by (simp add: c)
  qed
next
  fix c :: "vehicle \<times> string \<times> 'c" and s s' :: "'a diag_store_scheme" and x e
  assume ok: "ecu_store_ok s" and "lift_run run e c s = Inr (x, s')"
  then obtain r n d where x: "x = (r, n, d)" and run: "run e c s = Inr ((r, d), s')"
    by (cases x) (auto simp: lift_run_Inr)
  obtain v i y where c: "c = (v, i, y)" by (metis surj_pair)
  show "ecu_store_ok s'" "diag_grows s s'" using run_grows_diag[OF ok run[unfolded c]] by simp_all
qed (rule stored_diag_kept)

section \<open>The handlers\<close>

text \<open>A handler of a request begins by answering a stored command.\<close>

lemma answer_stored_Some:
  "existing_command u i s = Some r \<Longrightarrow> answer_stored u i service request s rest
    = (if same_command service request r then Inr ((r, True), s) else Inl DiagnosticCommandConflict)"
  by (simp add: answer_stored_def)

text \<open>What a first use owes the contract, from its effect.\<close>

lemma first_contract:
  assumes "uds_effect r x y f s s'" "r = new_command e u i service request result p q" "units_kept s s'"
  shows "dcm_service_id r = service \<and> dcm_request r = request \<and> diag_key r = (ecu_id u, i)
    \<and> units_kept s s' \<and> diag_commands s' = diag_commands s @ [r]"
  using assms by (simp add: uds_effect_def diag_key_def)

interpretation session_controls: diag_handler control_session csc_command_id DIAGNOSTIC_SESSION_CONTROL SessionRequest
proof (unfold_locales, goal_cases)
  case (3 s v i u c e r d s')
  then show ?case
    using control_session_first[OF 3(2-4)] first_contract units_kept_part[OF 3(1)] by metis
qed (simp_all add: control_session_def require_ecu_def answer_stored_Some)

interpretation diag_resets: diag_handler reset_ecu cer_command_id ECU_RESET EcuResetRequest
proof (unfold_locales, goal_cases)
  case (3 s v i u c e r d s')
  show ?case by (rule reset_ecu_first[OF 3(2-4)]) (use first_contract 3(1) in metis)
qed (simp_all add: reset_ecu_def require_ecu_def answer_stored_Some)

interpretation downloads: diag_handler request_download cfd_command_id REQUEST_DOWNLOAD DownloadRequest
proof (unfold_locales, goal_cases)
  case (3 s v i u c e r d s')
  note f = request_download_first[OF 3]
  show ?case using first_contract[OF f(8) f(4)[unfolded new_flash_execution_def] units_kept_part[OF 3(1) f(6)]] f(5) by simp
qed (simp_all add: request_download_def require_ecu_def answer_stored_Some)

interpretation blocks: diag_handler transfer_data cft_command_id TRANSFER_DATA block_request
proof (unfold_locales, goal_cases)
  case (3 s v i u c e r d s')
  note f = transfer_data_first[OF 3(2-4)]
  obtain result where r: "r = new_flash_execution e u (cft_command_id c) TRANSFER_DATA (block_request c) result (dss_version (session_of u s))"
    using f(7) by blast
  show ?case using first_contract[OF f(11) r[unfolded new_flash_execution_def] units_kept_part[OF 3(1) f(9)]] f(8) by simp
qed (simp_all add: transfer_data_def require_ecu_def answer_stored_Some Let_def)

lemma exit_kept:
  assumes "ecu_store_ok s" "find_ecu v i s = Some u" "existing_command u (cfe_command_id c) s = None"
    and "request_transfer_exit e (v, i, c) s = Inr ((r, d), s')"
  shows "units_kept s s'" "ecus s' = update_row ecu_id (flashed (completed_transfer (flash_of u s)) u) (ecus s)"
proof -
  have u: "u \<in> set (ecus s)" "unit_name (flashed (completed_transfer (flash_of u s)) u) = unit_name u"
    using find_ecu_row[OF assms(2)] by (simp_all add: unit_name_def flashed_def)
  have m: "unit_moves u (flashed (completed_transfer (flash_of u s)) u)" by (simp add: unit_moves_def flashed_def)
  show "units_kept s s'" "ecus s' = update_row ecu_id (flashed (completed_transfer (flash_of u s)) u) (ecus s)"
    using save_ecu_kept[OF assms(1) u request_transfer_exit_first(10)[OF assms] m] by simp_all
qed

interpretation exits: diag_handler request_transfer_exit cfe_command_id REQUEST_TRANSFER_EXIT ExitRequest
proof (unfold_locales, goal_cases)
  case (3 s v i u c e r d s')
  note f = request_transfer_exit_first[OF 3]
  show ?case using first_contract[OF f(12) f(8)[unfolded new_flash_execution_def] exit_kept(1)[OF 3]] f(9)
    by (simp add: flashed_def)
qed (simp_all add: request_transfer_exit_def require_ecu_def answer_stored_Some)

interpretation routines: diag_handler control_routine "\<lambda>(k, c). crl_command_id c" ROUTINE_CONTROL "\<lambda>(k, c). RoutineRequest k c"
proof (unfold_locales, goal_cases)
  case (3 s v i u x e r d s')
  obtain k c where x: "x = (k, c)" by fastforce
  have n: "existing_command u (crl_command_id c) s = None" and run: "control_routine e (v, i, k, c) s = Inr ((r, d), s')"
    using 3(3,4) by (simp_all add: x)
  show ?case
    by (rule control_routine_first[OF 3(2) n run]) (simp add: x first_contract units_kept_part[OF 3(1)])
qed (simp_all add: split_def control_routine_def require_ecu_def answer_stored_Some)

interpretation reads: diag_handler read_dids cdr_command_id READ_DATA_BY_IDENTIFIER ReadRequest
proof (unfold_locales, goal_cases)
  case (3 s v i u c e r d s')
  show ?case by (rule read_dids_first[OF 3(2-4)]) (use first_contract units_kept_part[OF 3(1)] in metis)
qed (simp_all add: read_dids_def require_ecu_def answer_stored_Some)

interpretation writes: diag_handler write_did "\<lambda>(k, c). cdw_command_id c" WRITE_DATA_BY_IDENTIFIER "\<lambda>(k, c). WriteRequest k c"
proof (unfold_locales, goal_cases)
  case (3 s v i u x e r d s')
  obtain k c where x: "x = (k, c)" by fastforce
  have n: "existing_command u (cdw_command_id c) s = None" and run: "write_did e (v, i, k, c) s = Inr ((r, d), s')"
    using 3(3,4) by (simp_all add: x)
  show ?case
    by (rule write_did_first[OF 3(2) n run]) (simp add: x first_contract units_kept_part[OF 3(1)])
qed (simp_all add: split_def write_did_def require_ecu_def answer_stored_Some)

interpretation clears: diag_handler clear_dtcs ctl_command_id CLEAR_DIAGNOSTIC_INFORMATION ClearDtcRequest
proof (unfold_locales, goal_cases)
  case (3 s v i u c e r d s')
  then show ?case using clear_dtcs_first[OF 3(2-4)] first_contract units_kept_part[OF 3(1)] by metis
qed (simp_all add: clear_dtcs_def require_ecu_def answer_stored_Some)

end
