(* ===== verification/DiagReach.thy ===== *)
theory DiagReach
  imports DiagSystem
begin

text \<open>
  Every reachable store of the diagnostic services: the state of each unit is consistent, and level 1
  of security access can only have been reached by answering a challenge of the same session.
\<close>

section \<open>The simulation in between\<close>

context ecu_handler
begin

lemma more_kept: "run e c s = Inr ((r, d), s') \<Longrightarrow> ecu_store.more s' = ecu_store.more s"
  by (erule cases_run) (simp_all add: ecu_committed_tables(7))

end

lemma command_more:
  assumes "run_ecu_command e v c s = Inr ((r, d), s')" shows "ecu_store.more s' = ecu_store.more s"
proof (cases c)
  case (TransferSignal i j c)
  with assms have "transfer_request e v i j c s = Inr ((r, d), s')" by simp
  then show ?thesis by (rule transfer_request_run) (rule transfers.more_kept)
qed (use assms in \<open>auto intro: advances.more_kept resets.more_kept corruptions.more_kept observations.more_kept
       clearings.more_kept publications.more_kept\<close>)

lemma run_action_more:
  assumes "run_action e v a i seed target u s = Inr (x, s')" shows "ecu_store.more s' = ecu_store.more s"
proof (cases "sa_kind a")
  case ADVANCE_TIME
  then show ?thesis using assms advances.more_kept by (fastforce simp: run_action_def ok_simps)
next
  case OBSERVE_FAULT
  then show ?thesis using assms observations.more_kept by (fastforce simp: run_action_def ok_simps)
next
  case CORRUPT_MEMORY
  then show ?thesis using assms corruptions.more_kept by (fastforce simp: run_action_def ok_simps)
next
  case PUBLISH_SIGNAL
  then show ?thesis using assms publications.more_kept by (fastforce simp: run_action_def ok_simps)
next
  case TRANSFER_SIGNAL
  then obtain v g rt c r d w q where "transfer_signal_route e (v, g, rt, c) s = Inr ((r, d, w, q), s')"
    using assms unfolding run_action_def by (simp add: ok_simps split: option.splits) blast
  then have "transfer_run e (v, g, rt, c) s = Inr ((r, d), s')" by (simp add: transfer_run_def)
  then show ?thesis by (rule transfers.more_kept)
qed

lemma scenario_loop_more:
  "scenario_loop e v i seed plan results s = Inr (results', s') \<Longrightarrow> ecu_store.more s' = ecu_store.more s"
proof (induction e v i seed plan results s rule: scenario_loop.induct)
  case (2 e v i seed step rest results s)
  then obtain x t where x: "execute_action e v i seed step s = Inr (x, t)"
    and rest: "scenario_loop e v i seed rest (results @ [x]) t = Inr (results', s')"
    by (auto simp: ok_simps)
  have "ecu_store.more t = ecu_store.more s"
    using x run_action_more by (fastforce simp: execute_action_def ok_simps split: prod.splits)
  then show ?case using 2(1)[OF rest] by simp
qed simp

lemma scenario_more:
  assumes "execute_scenario e (v, c) s = Inr ((x, d), s')" shows "ecu_store.more s' = ecu_store.more s"
proof (cases "find_scenario v (xc_execution_id c) s")
  case None
  obtain results t where loop: "scenario_loop e v (xc_execution_id c) (xc_base_seed c) (scenario_plan c) [] s = Inr (results, t)"
    and s': "audited (t\<lparr>ecu_scenarios := ecu_scenarios t @ [x]\<rparr>) s'"
    using assms None by (auto simp: execute_scenario_def ok_simps table_simps Let_def split: prod.splits)
  show ?thesis using scenario_loop_more[OF loop] audited_fields(6)[OF s'] by simp
next
  case (Some y)
  then show ?thesis using assms by (auto simp: execute_scenario_def split: if_splits)
qed

lemma ecu_step_tables: "ecu_step s s' \<Longrightarrow> ecu_store.more s' = ecu_store.more s"
proof (induction rule: ecu_step.induct)
  case (command e v c s x s')
  then show ?case using command_more by (cases x) blast
next
  case (create e v c s u s')
  then show ?case by (auto simp: create_ecu_def Let_def ok_simps table_simps split: if_splits option.splits)
next
  case (replace e v i c s u d s')
  then show ?case by (cases rule: replace_facts) (auto dest: audited_fields(6) simp: save_ecu_def)
next
  case (snapshot e v i c s n s')
  then show ?case by (auto simp: create_memory_snapshot_def Let_def ok_simps table_simps)
next
  case (restore v i s u j n e k u' s')
  then show ?case using audited_fields(6)[OF restore_facts(4)[OF restore(1,3)]] by (simp add: save_ecu_def)
next
  case (route v i s u e c rt s')
  then show ?case by (auto simp: create_signal_route_def Let_def ok_simps table_simps split: if_splits option.splits)
next
  case (scenario e v c s x d s')
  then show ?case using scenario_more by blast
qed

section \<open>Steps\<close>

text \<open>
  One request of a client: a UDS request, whatever it is answered; a definition, a report or a
  campaign that succeeded; or a request to the simulation.
\<close>

inductive diag_step :: "'a diag_store_scheme \<Rightarrow> 'a diag_store_scheme \<Rightarrow> bool" where
  uds: "serve e v q s = (res, s') \<Longrightarrow> uds_request_ok q \<Longrightarrow> diag_step s s'"
| define_did: "create_did e (v, i, c) s = Inr (x, s') \<Longrightarrow> diag_step s s'"
| define_routine: "create_routine e (v, i, rc) s = Inr (y, s') \<Longrightarrow> diag_step s s'"
| report: "report_dtc e (v, i, tc) s = Inr (z, s') \<Longrightarrow> diag_step s s'"
| diagnose: "execute_diagnostic_campaign e (v, i, cc) s = Inr (w, s') \<Longrightarrow> diag_step s s'"
| simulate: "ecu_step s s' \<Longrightarrow> diag_step s s'"

abbreviation diag_steps :: "'a diag_store_scheme \<Rightarrow> 'a diag_store_scheme \<Rightarrow> bool" where
  "diag_steps \<equiv> diag_step\<^sup>*\<^sup>*"

text \<open>The views after each step: only a UDS request touches them, and only of one unit.\<close>

definition unit_history :: "'a diag_store_scheme \<Rightarrow> uuid \<Rightarrow> diagnostic_command list" where
  "unit_history s j = filter (\<lambda>r. dcm_ecu_id r = j) (diag_commands s)"

definition views_same :: "'a diag_store_scheme \<Rightarrow> 'a diag_store_scheme \<Rightarrow> bool" where
  "views_same s s' \<longleftrightarrow> session_at s' = session_at s \<and> security_at s' = security_at s \<and> flash_at s' = flash_at s
     \<and> diag_commands s' = diag_commands s"

lemma diag_tables_same: "diag_tables s s' \<Longrightarrow> views_same s s'"
  by (simp add: views_same_def diag_tables_views diag_tables_fields)

lemma views_more [simp]:
  "session_at (s\<lparr>diag_routines := g\<rparr>) = session_at s" "security_at (s\<lparr>diag_routines := g\<rparr>) = security_at s"
  "flash_at (s\<lparr>diag_routines := g\<rparr>) = flash_at s" "ecu_part (s\<lparr>diag_routines := g\<rparr>) = ecu_part s"
  "session_at (s\<lparr>diag_routines := g, diag_routine_states := q\<rparr>) = session_at s"
  "security_at (s\<lparr>diag_routines := g, diag_routine_states := q\<rparr>) = security_at s"
  "flash_at (s\<lparr>diag_routines := g, diag_routine_states := q\<rparr>) = flash_at s"
  "ecu_part (s\<lparr>diag_routines := g, diag_routine_states := q\<rparr>) = ecu_part s"
  "session_at (s\<lparr>diag_campaigns := p\<rparr>) = session_at s" "security_at (s\<lparr>diag_campaigns := p\<rparr>) = security_at s"
  "flash_at (s\<lparr>diag_campaigns := p\<rparr>) = flash_at s" "ecu_part (s\<lparr>diag_campaigns := p\<rparr>) = ecu_part s"
  by (simp_all add: session_at_def security_at_def flash_at_def ecu_part_def fun_eq_iff)

lemma create_did_first:
  assumes "create_did e (v, i, c) s = Inr (x, s')"
  shows "views_same s s'" "ecu_part s' = ecu_part s" "diag_dids s' = diag_dids s @ [x]"
    and "did_key x \<notin> did_key ` set (diag_dids s)"
    and "validate_did_value (did_data_type x) (did_content x) (did_minimum x) (did_maximum x) (did_max_length x) = Inr ()"
  using assms
  by (auto simp: create_did_def views_same_def Let_def ok_simps table_simps split: if_splits)

lemma create_routine_first:
  assumes "create_routine e (v, i, c) s = Inr (x, s')"
  shows "views_same s s'" "ecu_part s' = ecu_part s" "diag_dids s' = diag_dids s"
  using assms by (auto simp: create_routine_def views_same_def Let_def ok_simps table_simps split: if_splits)

lemma report_dtc_first:
  assumes "report_dtc e (v, i, c) s = Inr (x, s')"
  shows "views_same s s'" "ecu_part s' = ecu_part s" "diag_dids s' = diag_dids s"
  using assms by (auto simp: report_dtc_def views_same_def Let_def ok_simps table_simps split: if_splits option.splits)

lemma diagnostic_campaign_first:
  assumes "execute_diagnostic_campaign e (v, i, c) s = Inr (x, s')"
  shows "views_same s s'" "ecu_part s' = ecu_part s" "diag_dids s' = diag_dids s"
  using assms
  by (auto simp: execute_diagnostic_campaign_def views_same_def Let_def ok_simps table_simps split: if_splits option.splits)

section \<open>Consistent units\<close>

definition session_ok :: "diagnostic_session_state \<Rightarrow> bool" where
  "session_ok x \<longleftrightarrow> dss_security_level x \<in> {0, 1} \<and> 1 \<le> dss_version x
     \<and> (dss_session_type x = DEFAULT_SESSION \<longrightarrow> dss_security_level x = 0)"

definition security_ok :: "diagnostic_security_state \<Rightarrow> bool" where
  "security_ok y \<longleftrightarrow> 0 \<le> dsc_failed_attempts y \<and> dsc_failed_attempts y \<le> 3
     \<and> (dsc_locked_until_ms y \<noteq> None \<longleftrightarrow> dsc_failed_attempts y = 3)
     \<and> (dsc_locked_until_ms y \<noteq> None \<longrightarrow> dsc_expected_key_digest y = None)
     \<and> dsc_target_level y = (if dsc_expected_key_digest y = None then 0 else 1)
     \<and> (dsc_expected_key_digest y = None \<longleftrightarrow> dsc_seed_expires_at_ms y = None)
     \<and> 1 \<le> dsc_version y \<and> 0 \<le> dsc_challenge_counter y"

definition flash_ok :: "diagnostic_flash_state \<Rightarrow> bool" where
  "flash_ok f \<longleftrightarrow> dfl_max_block_length f = 256 \<and> dfl_next_block_sequence_counter f \<in> {0..255}
     \<and> 0 \<le> dfl_memory_address f \<and> dfl_memory_address f + dfl_memory_size f \<le> 65536 \<and> 0 \<le> dfl_memory_size f
     \<and> dfl_bytes_received f \<le> dfl_memory_size f
     \<and> (dfl_status f = FLASH_DOWNLOADING \<longrightarrow> dfl_bytes_received f = int (length (dfl_image_data f)) \<and> dfl_image_sha256 f = None)
     \<and> (dfl_status f = FLASH_COMPLETED \<longrightarrow> dfl_bytes_received f = dfl_memory_size f \<and> dfl_image_sha256 f \<noteq> None)
     \<and> (dfl_status f \<noteq> FLASH_DOWNLOADING \<longrightarrow> dfl_image_data f = []) \<and> 1 \<le> dfl_version f"

text \<open>A seed handed out for the digest \<open>d\<close>, and a key accepted for it.\<close>

definition seed_row :: "string \<Rightarrow> diagnostic_command \<Rightarrow> bool" where
  "seed_row d r \<longleftrightarrow> dcm_service_id r = SECURITY_ACCESS
     \<and> (\<exists>seed. map_of (dcm_result r) ''seed'' = Some (JStr seed)
          \<and> d = sha256_hex (derive_simulated_security_key seed 1))"

definition key_row :: "string \<Rightarrow> diagnostic_command \<Rightarrow> bool" where
  "key_row d r \<longleftrightarrow> dcm_service_id r = SECURITY_ACCESS \<and> map_of (dcm_result r) ''accepted'' = Some (JBool True)
     \<and> (\<exists>i a b. dcm_request r = SecurityRequest i SEND_KEY_LEVEL_1 a b (Some d))"

definition leaves_session :: "diagnostic_command \<Rightarrow> bool" where
  "leaves_session r \<longleftrightarrow> dcm_service_id r \<in> {DIAGNOSTIC_SESSION_CONTROL, ECU_RESET}"

text \<open>\<open>challenged h d\<close>: the history has a seed for \<open>d\<close> of the session that is still on.\<close>

definition challenged :: "diagnostic_command list \<Rightarrow> string \<Rightarrow> bool" where
  "challenged h d \<longleftrightarrow> (\<exists>xs r ys. h = xs @ r # ys \<and> seed_row d r \<and> list_all (\<lambda>q. \<not> leaves_session q) ys)"

definition answered :: "diagnostic_command list \<Rightarrow> bool" where
  "answered h \<longleftrightarrow> (\<exists>xs r ys q zs d. h = xs @ r # ys @ q # zs \<and> seed_row d r \<and> key_row d q
     \<and> list_all (\<lambda>x. \<not> leaves_session x) (ys @ zs))"

definition access_ok :: "diagnostic_command list \<Rightarrow> diagnostic_session_state option \<Rightarrow> diagnostic_security_state option \<Rightarrow> bool" where
  "access_ok h so yo \<longleftrightarrow> opt_all session_ok so \<and> opt_all security_ok yo
     \<and> opt_all (\<lambda>y. opt_all (\<lambda>d. challenged h d \<and> so \<noteq> None \<and> dss_session_type (the so) \<noteq> DEFAULT_SESSION)
         (dsc_expected_key_digest y)) yo
     \<and> opt_all (\<lambda>x. 1 \<le> dss_security_level x \<longrightarrow> answered h) so"

definition did_ok :: "diagnostic_data_identifier \<Rightarrow> bool" where
  "did_ok x \<longleftrightarrow> validate_did_value (did_data_type x) (did_content x) (did_minimum x) (did_maximum x) (did_max_length x) = Inr ()"

definition diag_inv :: "'a diag_store_scheme \<Rightarrow> bool" where
  "diag_inv s \<longleftrightarrow> ecu_store_ok s \<and> (\<forall>j. access_ok (unit_history s j) (session_at s j) (security_at s j)
       \<and> opt_all flash_ok (flash_at s j))
     \<and> (\<forall>x\<in>set (diag_dids s). did_ok x) \<and> distinct (map did_key (diag_dids s))"

lemma challenged_more:
  assumes "challenged h d" "\<not> leaves_session r" shows "challenged (h @ [r]) d"
proof -
  obtain xs q ys where "h = xs @ q # ys" "seed_row d q" "list_all (\<lambda>x. \<not> leaves_session x) ys"
    using assms(1) unfolding challenged_def by blast
  then show ?thesis using assms(2) unfolding challenged_def
    by (intro exI[of _ xs] exI[of _ q] exI[of _ "ys @ [r]"]) simp
qed

lemma challenged_new: "seed_row d r \<Longrightarrow> challenged (h @ [r]) d"
  unfolding challenged_def by (intro exI[of _ h] exI[of _ r] exI[of _ "[]"]) simp

lemma answered_more:
  assumes "answered h" "\<not> leaves_session r" shows "answered (h @ [r])"
proof -
  obtain xs p ys q zs d where "h = xs @ p # ys @ q # zs" "seed_row d p" "key_row d q"
      "list_all (\<lambda>x. \<not> leaves_session x) (ys @ zs)"
    using assms(1) unfolding answered_def by blast
  then show ?thesis using assms(2) unfolding answered_def
    by (intro exI[of _ xs] exI[of _ p] exI[of _ ys] exI[of _ q] exI[of _ "zs @ [r]"] exI[of _ d]) simp
qed

lemma answered_new:
  assumes "challenged h d" "key_row d r" shows "answered (h @ [r])"
proof -
  obtain xs q ys where "h = xs @ q # ys" "seed_row d q" "list_all (\<lambda>x. \<not> leaves_session x) ys"
    using assms(1) unfolding challenged_def by blast
  then show ?thesis using assms(2) unfolding answered_def
    by (intro exI[of _ xs] exI[of _ q] exI[of _ ys] exI[of _ r] exI[of _ "[]"] exI[of _ d]) simp
qed

section \<open>Every step keeps units consistent\<close>

lemma history_effect:
  "uds_effect r x y f s s' \<Longrightarrow> unit_history s' j = unit_history s j @ (if j = dcm_ecu_id r then [r] else [])"
  by (simp add: uds_effect_def unit_history_def)

lemma views_same_history: "views_same s s' \<Longrightarrow> unit_history s' = unit_history s"
  by (simp add: views_same_def unit_history_def fun_eq_iff)

text \<open>What a unit's rows are before a request, whether or not they existed.\<close>

lemma rows_ok:
  assumes "diag_inv s"
  shows "session_ok (session_of u s)" "security_ok (security_of e u s)" "flash_ok (flash_of u s)"
    and "dsc_expected_key_digest (security_of e u s) = Some d
      \<Longrightarrow> challenged (unit_history s (ecu_id u)) d \<and> session_at s (ecu_id u) \<noteq> None
        \<and> dss_session_type (session_of u s) \<noteq> DEFAULT_SESSION"
    and "1 \<le> dss_security_level (session_of u s) \<Longrightarrow> answered (unit_history s (ecu_id u))"
proof -
  have a: "access_ok (unit_history s (ecu_id u)) (session_at s (ecu_id u)) (security_at s (ecu_id u))"
    "opt_all flash_ok (flash_at s (ecu_id u))" using assms by (simp_all add: diag_inv_def)
  show "session_ok (session_of u s)" "security_ok (security_of e u s)" "flash_ok (flash_of u s)"
    using a by (auto simp: session_of_at security_of_at flash_of_at access_ok_def opt_all_def session_ok_def security_ok_def
        flash_ok_def new_session_def new_security_def new_flash_def split: option.splits)
  show "challenged (unit_history s (ecu_id u)) d \<and> session_at s (ecu_id u) \<noteq> None
        \<and> dss_session_type (session_of u s) \<noteq> DEFAULT_SESSION"
    if "dsc_expected_key_digest (security_of e u s) = Some d"
    using a(1) that by (auto simp: session_of_at security_of_at access_ok_def opt_all_def new_security_def split: option.splits)
  show "answered (unit_history s (ecu_id u))" if "1 \<le> dss_security_level (session_of u s)"
    using a(1) that by (auto simp: session_of_at access_ok_def opt_all_def new_session_def split: option.splits)
qed

text \<open>One unit changes, in a way its own obligations allow.\<close>

lemma diag_inv_effect:
  assumes "diag_inv s" "uds_effect r x y f s s'" "ecu_store_ok s'"
    and "access_ok (unit_history s (dcm_ecu_id r) @ [r]) x y" "opt_all flash_ok f"
    and "\<forall>z\<in>set (diag_dids s'). did_ok z" "distinct (map did_key (diag_dids s'))"
  shows "diag_inv s'"
  unfolding diag_inv_def
proof (intro conjI allI)
  fix j
  show "access_ok (unit_history s' j) (session_at s' j) (security_at s' j)"
    using assms(1,2,4) history_effect[OF assms(2), of j] by (auto simp: uds_effect_def diag_inv_def)
  show "opt_all flash_ok (flash_at s' j)" using assms(1,2,5) by (auto simp: uds_effect_def diag_inv_def)
qed (use assms in simp_all)

lemma diag_inv_same:
  assumes "diag_inv s" "views_same s s'" "ecu_store_ok s'"
    and "\<forall>z\<in>set (diag_dids s'). did_ok z" "distinct (map did_key (diag_dids s'))"
  shows "diag_inv s'"
  using assms views_same_history[OF assms(2)] by (simp add: diag_inv_def views_same_def)

lemma access_more: "access_ok h so yo \<Longrightarrow> \<not> leaves_session r \<Longrightarrow> access_ok (h @ [r]) so yo"
  by (auto simp: access_ok_def opt_all_def challenged_more answered_more split: option.splits)

lemma access_rows:
  assumes "diag_inv s"
  shows "access_ok (unit_history s (ecu_id u)) (Some (session_of u s)) (security_at s (ecu_id u))"
    and "access_ok (unit_history s (ecu_id u)) (Some (session_of u s)) (Some (security_of e u s))"
proof -
  note r = rows_ok(1,3,5)[OF assms, of u] rows_ok(2,4)[OF assms, of e u]
  show "access_ok (unit_history s (ecu_id u)) (Some (session_of u s)) (Some (security_of e u s))"
    using r by (auto simp: access_ok_def opt_all_def split: option.splits)
  then show "access_ok (unit_history s (ecu_id u)) (Some (session_of u s)) (security_at s (ecu_id u))"
    by (auto simp: access_ok_def opt_all_def security_of_at split: option.splits)
qed

text \<open>Leaving a session drops the level and the pending seed.\<close>

lemma access_left:
  assumes "security_ok y" "session_ok x" "dss_security_level x' = 0" "dss_version x' = dss_version x + 1"
  shows "access_ok h (Some x') (Some (cleared_security y))"
  using assms by (simp add: access_ok_def opt_all_def session_ok_def security_ok_def cleared_security_def)

lemma control_session_inv:
  assumes "diag_inv s" "control_session e (v, i, c) s = Inr ((r, d), s')"
  shows "diag_inv s'"
proof -
  have ok: "ecu_store_ok s" using assms(1) by (simp add: diag_inv_def)
  show ?thesis
    using ok assms(2)
  proof (cases rule: session_controls.handler_cases)
    case (first u)
    note f = control_session_first[OF first(1,2) assms(2)]
    have "dcm_ecu_id r = ecu_id u" using f(2) by auto
    moreover have "access_ok (unit_history s (ecu_id u) @ [r]) (Some (controlled c u (session_of u s)))
        (Some (cleared_security (security_of e u s)))"
      using rows_ok(1,2)[OF assms(1)] by (intro access_left) (auto simp: controlled_def)
    ultimately show ?thesis
      using assms(1) first(6) f(5) by (intro diag_inv_effect[OF assms(1) f(6)]) (auto simp: diag_inv_def units_kept_def)
  qed (use assms(1) in simp)
qed

lemma reset_ecu_inv:
  assumes "diag_inv s" "reset_ecu e (v, i, c) s = Inr ((r, d), s')"
  shows "diag_inv s'"
proof -
  have ok: "ecu_store_ok s" using assms(1) by (simp add: diag_inv_def)
  show ?thesis
    using ok assms(2)
  proof (cases rule: diag_resets.handler_cases)
    case (first u)
    show ?thesis
    proof (rule reset_ecu_first[OF first(1,2) assms(2)])
      fix x y result
      assume r: "r = new_command e u (cer_command_id c) ECU_RESET (EcuResetRequest c) result
          (cer_expected_session_version c) (cer_expected_session_version c + 1)"
        and d: "diag_dids s' = diag_dids s"
        and ef: "uds_effect r (Some (after_reset x (session_of u s))) (Some (cleared_security (security_of e u s)))
          (flash_at s (ecu_id u)) s s'"
      have "access_ok (unit_history s (ecu_id u) @ [r]) (Some (after_reset x (session_of u s)))
          (Some (cleared_security (security_of e u s)))"
        using rows_ok(1,2)[OF assms(1)] by (intro access_left) (auto simp: after_reset_def)
      then show ?thesis
        using assms(1) first(6) d r by (intro diag_inv_effect[OF assms(1) ef]) (auto simp: diag_inv_def units_kept_def)
    qed
  qed (use assms(1) in simp)
qed

text \<open>Requests that leave the session and security state as they are.\<close>

lemma plain_inv:
  assumes "diag_inv s" "uds_effect r (Some (session_of u s)) y f s s'" "units_kept s s'"
    and "dcm_ecu_id r = ecu_id u" "\<not> leaves_session r" "y = security_at s (ecu_id u) \<or> y = Some (security_of e u s)"
    and "opt_all flash_ok f" "\<forall>z\<in>set (diag_dids s'). did_ok z" "distinct (map did_key (diag_dids s'))"
  shows "diag_inv s'"
  using access_more[OF access_rows(1)[OF assms(1), of u] assms(5)] access_more[OF access_rows(2)[OF assms(1), of u e] assms(5)] assms(3,4,6)
  by (intro diag_inv_effect[OF assms(1,2) _ _ assms(7-9)]) (auto simp: units_kept_def)

lemma clear_dtcs_inv:
  assumes "diag_inv s" "clear_dtcs e (v, i, c) s = Inr ((r, d), s')"
  shows "diag_inv s'"
proof -
  have ok: "ecu_store_ok s" using assms(1) by (simp add: diag_inv_def)
  show ?thesis
    using ok assms(2)
  proof (cases rule: clears.handler_cases)
    case (first u)
    note f = clear_dtcs_first[OF first(1,2) assms(2)]
    have r: "dcm_ecu_id r = ecu_id u" "\<not> leaves_session r" using f(2) by (auto simp: leaves_session_def)
    have "access_ok (unit_history s (ecu_id u) @ [r]) (Some ((session_of u s)\<lparr>dss_version := dss_version (session_of u s) + 1,
        dss_simulation_time_ms := ecu_simulation_time_ms u\<rparr>)) (security_at s (ecu_id u))"
      using access_more[OF access_rows(1)[OF assms(1), of u] r(2)]
      by (auto simp: access_ok_def opt_all_def session_ok_def split: option.splits)
    then show ?thesis
      using assms(1) first(6) f(5) r(1) by (intro diag_inv_effect[OF assms(1) f(7)]) (auto simp: diag_inv_def units_kept_def)
  qed (use assms(1) in simp)
qed

lemma read_dids_inv:
  assumes "diag_inv s" "read_dids e (v, i, c) s = Inr ((r, d), s')"
  shows "diag_inv s'"
proof -
  have ok: "ecu_store_ok s" using assms(1) by (simp add: diag_inv_def)
  show ?thesis
    using ok assms(2)
  proof (cases rule: reads.handler_cases)
    case (first u)
    show ?thesis
      by (rule read_dids_first[OF first(1,2) assms(2)], rule plain_inv[OF assms(1) _ first(6), where u = u])
        (use assms(1) in \<open>auto simp: diag_inv_def leaves_session_def\<close>)
  qed (use assms(1) in simp)
qed

lemma control_routine_inv:
  assumes "diag_inv s" "control_routine e (v, i, k, c) s = Inr ((r, d), s')"
  shows "diag_inv s'"
proof -
  have ok: "ecu_store_ok s" using assms(1) by (simp add: diag_inv_def)
  show ?thesis
    using ok assms(2)
  proof (cases rule: routines.handler_cases)
    case (first u)
    have n: "existing_command u (crl_command_id c) s = None" using first(2) by simp
    show ?thesis
      by (rule control_routine_first[OF first(1) n assms(2)], rule plain_inv[OF assms(1) _ first(6), where u = u])
        (use assms(1) in \<open>auto simp: diag_inv_def leaves_session_def\<close>)
  qed (use assms(1) in simp)
qed

lemma find_did_row: "find_did u k s = Some x \<Longrightarrow> x \<in> set (diag_dids s) \<and> did_key x = (ecu_id u, k)"
  unfolding find_did_def by (auto dest!: select_SomeD)

lemma written_key [simp]: "did_key (written x d) = did_key d"
  by (simp add: written_def did_key_def)

lemma write_did_inv:
  assumes "diag_inv s" "write_did e (v, i, k, c) s = Inr ((r, d), s')"
  shows "diag_inv s'"
proof -
  have ok: "ecu_store_ok s" using assms(1) by (simp add: diag_inv_def)
  show ?thesis
    using ok assms(2)
  proof (cases rule: writes.handler_cases)
    case (first u)
    have n: "existing_command u (cdw_command_id c) s = None" using first(2) by simp
    show ?thesis
    proof (rule write_did_first[OF first(1) n assms(2)])
      fix x result
      assume x: "find_did u k s = Some x"
        "validate_did_value (did_data_type x) (cdw_value c) (did_minimum x) (did_maximum x) (did_max_length x) = Inr ()"
        and r: "r = new_command e u (cdw_command_id c) WRITE_DATA_BY_IDENTIFIER (WriteRequest k c) result
          (dss_version (session_of u s)) (dss_version (session_of u s))"
        and d: "diag_dids s' = update_row did_key (written (cdw_value c) x) (diag_dids s)"
        and ef: "uds_effect r (Some (session_of u s)) (security_at s (ecu_id u)) (flash_at s (ecu_id u)) s s'"
      have "did_ok (written (cdw_value c) x)" using x(2) by (simp add: did_ok_def written_def)
      then have "\<forall>z\<in>set (diag_dids s'). did_ok z"
        using assms(1) unfolding d by (auto simp: diag_inv_def update_row_def)
      moreover have "distinct (map did_key (diag_dids s'))"
        using assms(1) unfolding d by (simp add: diag_inv_def update_row_keys)
      ultimately show ?thesis
        using assms(1) r by (intro plain_inv[OF assms(1) ef first(6)]) (auto simp: diag_inv_def leaves_session_def)
    qed
  qed (use assms(1) in simp)
qed

text \<open>Flash programming.\<close>

lemma flash_ok_started: "flash_ok f \<Longrightarrow> flash_request_download_command_ok c \<Longrightarrow> flash_ok (started_transfer c u f)"
  by (auto simp: flash_ok_def started_transfer_def flash_request_download_command_ok_def int_between_def)

lemma flash_ok_received:
  "flash_ok f \<Longrightarrow> dfl_status f = FLASH_DOWNLOADING \<Longrightarrow> dfl_bytes_received f + int (length b) \<le> dfl_memory_size f
    \<Longrightarrow> flash_ok (received_block b f)"
  by (auto simp: flash_ok_def received_block_def next_counter_def)

lemma flash_ok_completed:
  "flash_ok f \<Longrightarrow> dfl_status f = FLASH_DOWNLOADING \<Longrightarrow> dfl_bytes_received f = dfl_memory_size f
    \<Longrightarrow> flash_ok (completed_transfer f)"
  by (auto simp: flash_ok_def completed_transfer_def)

lemma request_download_inv:
  assumes "diag_inv s" "request_download e (v, i, c) s = Inr ((r, d), s')" "flash_request_download_command_ok c"
  shows "diag_inv s'"
proof -
  have ok: "ecu_store_ok s" using assms(1) by (simp add: diag_inv_def)
  show ?thesis
    using ok assms(2)
  proof (cases rule: downloads.handler_cases)
    case (first u)
    note f = request_download_first[OF ok first(1,2) assms(2)]
    show ?thesis
      by (rule plain_inv[OF assms(1) f(8) first(6)])
        (use assms(1) f(4,7) flash_ok_started[OF rows_ok(3)[OF assms(1)] assms(3)]
          in \<open>auto simp: diag_inv_def leaves_session_def new_flash_execution_def opt_all_def\<close>)
  qed (use assms(1) in simp)
qed

lemma transfer_data_inv:
  assumes "diag_inv s" "transfer_data e (v, i, c) s = Inr ((r, d), s')"
  shows "diag_inv s'"
proof -
  have ok: "ecu_store_ok s" using assms(1) by (simp add: diag_inv_def)
  show ?thesis
    using ok assms(2)
  proof (cases rule: blocks.handler_cases)
    case (first u)
    note f = transfer_data_first[OF first(1,2) assms(2)]
    show ?thesis
      by (rule plain_inv[OF assms(1) f(11) first(6)])
        (use assms(1) f(7,10) flash_ok_received[OF rows_ok(3)[OF assms(1)] f(2,6)]
          in \<open>auto simp: diag_inv_def leaves_session_def new_flash_execution_def opt_all_def\<close>)
  qed (use assms(1) in simp)
qed

lemma request_transfer_exit_inv:
  assumes "diag_inv s" "request_transfer_exit e (v, i, c) s = Inr ((r, d), s')"
  shows "diag_inv s'"
proof -
  have ok: "ecu_store_ok s" using assms(1) by (simp add: diag_inv_def)
  show ?thesis
    using ok assms(2)
  proof (cases rule: exits.handler_cases)
    case (first u)
    note f = request_transfer_exit_first[OF ok first(1,2) assms(2)]
    show ?thesis
      by (rule plain_inv[OF assms(1) f(12) first(6)])
        (use assms(1) f(8,11) flash_ok_completed[OF rows_ok(3)[OF assms(1)] f(2,6)]
          in \<open>auto simp: diag_inv_def leaves_session_def new_flash_execution_def opt_all_def flashed_def\<close>)
  qed (use assms(1) in simp)
qed

text \<open>Security access.\<close>

lemma without_lock_ok:
  "security_ok y \<Longrightarrow> security_ok (without_lock y) \<and> dsc_locked_until_ms (without_lock y) = None
    \<and> dsc_failed_attempts (without_lock y) < 3 \<and> dsc_expected_key_digest (without_lock y) = dsc_expected_key_digest y
    \<and> dsc_ecu_id (without_lock y) = dsc_ecu_id y"
  by (auto simp: security_ok_def without_lock_def)

lemma seeded_ok:
  "security_ok x \<Longrightarrow> dsc_locked_until_ms x = None \<Longrightarrow> (seed, y) = seeded u x
    \<Longrightarrow> security_ok y \<and> dsc_expected_key_digest y = Some (sha256_hex (derive_simulated_security_key seed 1))"
  by (auto simp: security_ok_def seeded_def Let_def)

lemma rejected_ok:
  "security_ok x \<Longrightarrow> dsc_failed_attempts x < 3
    \<Longrightarrow> security_ok (rejected now x) \<and> dsc_expected_key_digest (rejected now x) \<in> {None, dsc_expected_key_digest x}"
  by (auto simp: security_ok_def rejected_def Let_def)

lemma unlocked_ok: "security_ok x \<Longrightarrow> dsc_locked_until_ms x = None
    \<Longrightarrow> security_ok (unlocked x) \<and> dsc_expected_key_digest (unlocked x) = None"
  by (auto simp: security_ok_def unlocked_def)

lemma access_ok_Some: "access_ok h (Some x) (Some y) \<longleftrightarrow> session_ok x \<and> security_ok y
    \<and> (\<forall>d. dsc_expected_key_digest y = Some d \<longrightarrow> challenged h d \<and> dss_session_type x \<noteq> DEFAULT_SESSION)
    \<and> (1 \<le> dss_security_level x \<longrightarrow> answered h)"
  by (auto simp: access_ok_def opt_all_def split: option.splits)

lemma security_inv:
  assumes "diag_inv s" "security_access_endpoint e (v, i, c) s = (res, s')"
  shows "diag_inv s'"
  using assms(2)
proof (cases rule: security_endpoint_cases)
  case unchanged
  then show ?thesis using assms(1) by simp
next
  case (refused u y)
  have y: "security_ok y \<and> dsc_expected_key_digest y = dsc_expected_key_digest (security_of e u s)"
    using refused(4) rows_ok(2)[OF assms(1)] without_lock_ok by auto
  have "access_ok (unit_history s (ecu_id u)) (Some (session_of u s)) (Some y)"
    using access_rows(2)[OF assms(1), of u e] y by (simp add: access_ok_Some)
  then show ?thesis
    using assms(1) ecu_part_eq[OF refused(9)] refused(5-8,10) by (auto simp: diag_inv_def unit_history_def)
next
  case (seed u seed y r)
  let ?h = "unit_history s (ecu_id u) @ [r]"
  note x = without_lock_ok[OF rows_ok(2)[OF assms(1), of e u]]
  have y: "security_ok y \<and> dsc_expected_key_digest y = Some (sha256_hex (derive_simulated_security_key seed 1))"
    using seeded_ok[OF _ _ seed(6)] x by simp
  have "seed_row (sha256_hex (derive_simulated_security_key seed 1)) r"
    unfolding seed(7) by (simp add: seed_row_def access_row_def seed_result_def)
  then have "challenged ?h (sha256_hex (derive_simulated_security_key seed 1))" by (rule challenged_new)
  moreover have "\<not> leaves_session r" unfolding seed(7) by (simp add: access_row_def leaves_session_def)
  ultimately have "access_ok ?h (Some (session_of u s)) (Some y)"
    using y access_more[OF access_rows(2)[OF assms(1), of u e]] seed(4) by (auto simp: access_ok_Some access_open_def)
  then show ?thesis
    using assms(1) ecu_part_eq[OF seed(9)] seed(7,10)
    by (intro diag_inv_effect[OF assms(1) seed(8)]) (auto simp: diag_inv_def access_row_def)
next
  case (wrong u y r)
  let ?h = "unit_history s (ecu_id u) @ [r]"
  note x = without_lock_ok[OF rows_ok(2)[OF assms(1), of e u]]
  have y: "security_ok y \<and> dsc_expected_key_digest y \<in> {None, dsc_expected_key_digest (security_of e u s)}"
    using rejected_ok[of "without_lock (security_of e u s)"] x unfolding wrong(7) by simp
  have "\<not> leaves_session r" unfolding wrong(9) by (simp add: access_row_def leaves_session_def)
  then have "access_ok ?h (Some (session_of u s)) (Some y)"
    using y access_more[OF access_rows(2)[OF assms(1), of u e]] by (auto simp: access_ok_Some)
  then show ?thesis
    using assms(1) ecu_part_eq[OF wrong(11)] wrong(9,12)
    by (intro diag_inv_effect[OF assms(1) wrong(10)]) (auto simp: diag_inv_def access_row_def)
next
  case (right_key u y r)
  let ?h = "unit_history s (ecu_id u) @ [r]"
  note x = without_lock_ok[OF rows_ok(2)[OF assms(1), of e u]]
  have y: "security_ok y \<and> dsc_expected_key_digest y = None" using unlocked_ok x unfolding right_key(8) by simp
  obtain d where d: "dsc_expected_key_digest (security_of e u s) = Some d" "key_digest c = Some d"
    using right_key(6,7) x by (auto simp: seed_usable_def)
  have "key_row d r"
    unfolding right_key(9) using d(2) right_key(5)
    by (simp add: key_row_def access_row_def unlock_result_def security_request_def)
  then have "answered ?h" using rows_ok(4)[OF assms(1) d(1)] answered_new by blast
  moreover have "session_ok (unlock_session u (session_of u s))"
    using rows_ok(1)[OF assms(1), of u] right_key(4) by (auto simp: session_ok_def unlock_session_def access_open_def)
  ultimately have "access_ok ?h (Some (unlock_session u (session_of u s))) (Some y)"
    using y by (simp add: access_ok_Some)
  then show ?thesis
    using assms(1) ecu_part_eq[OF right_key(11)] right_key(9,12)
    by (intro diag_inv_effect[OF assms(1) right_key(10)]) (auto simp: diag_inv_def access_row_def)
qed

section \<open>Reachable stores\<close>

lemma serve_inv:
  assumes "diag_inv s" "serve e v q s = (res, s')" "uds_request_ok q"
  shows "diag_inv s'"
proof (cases res)
  case (Inl err)
  then show ?thesis
    using assms by (cases q) (auto simp: endpoint_Inl intro: security_inv)
next
  case (Inr x)
  obtain r d where x: "x = (r, d)" by fastforce
  show ?thesis
    using assms unfolding Inr x
    by (cases q) (auto simp: endpoint_Inr intro: security_inv control_session_inv reset_ecu_inv request_download_inv
        transfer_data_inv request_transfer_exit_inv control_routine_inv read_dids_inv write_did_inv clear_dtcs_inv)
qed

lemma diag_step_inv: "diag_step s s' \<Longrightarrow> diag_inv s \<Longrightarrow> diag_inv s'"
proof (induction rule: diag_step.induct)
  case (uds e v q s res s')
  then show ?case using serve_inv by blast
next
  case (define_did e v i c s x s')
  note f = create_did_first[OF define_did(1)]
  show ?case
    using define_did(2) ecu_part_eq[OF f(2)] f(3-5) by (intro diag_inv_same[OF define_did(2) f(1)]) (auto simp: diag_inv_def did_ok_def)
next
  case (define_routine e v i rc s y s')
  note f = create_routine_first[OF define_routine(1)]
  show ?case
    using define_routine(2) ecu_part_eq[OF f(2)] f(3) by (intro diag_inv_same[OF define_routine(2) f(1)]) (auto simp: diag_inv_def)
next
  case (report e v i tc s z s')
  note f = report_dtc_first[OF report(1)]
  show ?case
    using report(2) ecu_part_eq[OF f(2)] f(3) by (intro diag_inv_same[OF report(2) f(1)]) (auto simp: diag_inv_def)
next
  case (diagnose e v i cc s w s')
  note f = diagnostic_campaign_first[OF diagnose(1)]
  show ?case
    using diagnose(2) ecu_part_eq[OF f(2)] f(3) by (intro diag_inv_same[OF diagnose(2) f(1)]) (auto simp: diag_inv_def)
next
  case (simulate s s')
  have t: "diag_tables s s'" using ecu_step_tables[OF simulate(1)] by (simp add: diag_tables_def)
  have "ecu_store_ok s'" using ecu_step_moved[OF simulate(1)] simulate(2) by (simp add: diag_inv_def moved_on_def)
  then show ?case
    using simulate(2) diag_tables_fields[OF t] by (intro diag_inv_same[OF simulate(2) diag_tables_same[OF t]]) (auto simp: diag_inv_def)
qed

lemma diag_steps_inv: "diag_steps s t \<Longrightarrow> diag_inv s \<Longrightarrow> diag_inv t"
  by (induction rule: rtranclp_induct) (blast intro: diag_step_inv)+

text \<open>A system in which no diagnostic service was used yet.\<close>

definition no_diagnostics :: "'a diag_store_scheme \<Rightarrow> bool" where
  "no_diagnostics s \<longleftrightarrow> diag_sessions s = [] \<and> diag_securities s = [] \<and> diag_flashes s = [] \<and> diag_dids s = []
     \<and> diag_commands s = []"

lemma no_diagnostics_inv: "ecu_store_ok s \<Longrightarrow> no_diagnostics s \<Longrightarrow> diag_inv s"
  by (simp add: diag_inv_def no_diagnostics_def access_ok_def session_at_def security_at_def flash_at_def select_Nil opt_all_def)

end
