(* ===== verification/DiagHex.thy ===== *)
theory DiagHex
  imports DiagReach
begin

text \<open>
  Hexadecimal text: the bytes of a firmware block survive their encoding, digests have 64 lower-case
  digits, and a derived key is its own upper case. Then when each request of the diagnostic
  services is accepted.
\<close>

section \<open>Bytes and their text\<close>

text \<open>What holds of a single digit is checked for all sixteen of them.\<close>

definition hex_digit_lower :: "nat \<Rightarrow> char" where
  "hex_digit_lower d = (let c = digit_char d in if is_upper c then char_of (of_char c + 32 :: nat) else c)"

definition digit_text_ok :: "nat \<Rightarrow> bool" where
  "digit_text_ok d \<longleftrightarrow> (let x = hex_digit_lower d in is_hex_digit x \<and> casefold_char x = [x]
     \<and> (case upper_char x of
          [p] \<Rightarrow> is_hex_digit p \<and> upper_char p = [p] \<and> hex_digit_value p = d
        | _ \<Rightarrow> False))"

lemma all_digits: "list_all digit_text_ok [0..<16]"
  by code_simp

lemma digit_text:
  assumes "d < 16"
  obtains p where "is_hex_digit (hex_digit_lower d)" "casefold_char (hex_digit_lower d) = [hex_digit_lower d]"
    "upper_char (hex_digit_lower d) = [p]" "is_hex_digit p" "upper_char p = [p]" "hex_digit_value p = d"
proof -
  have "digit_text_ok d" using assms all_digits by (auto simp: list_all_iff)
  then show thesis using that by (auto simp: digit_text_ok_def Let_def split: list.splits)
qed

lemma byte_digits:
  assumes "b < 256" shows "hex_lower 2 b = [hex_digit_lower (b div 16), hex_digit_lower (b mod 16)]"
proof (cases "b < 16")
  case True
  have "digit_char 0 = CHR ''0''" by code_simp
  then show ?thesis using True
    by (simp add: hex_lower_def hex_pad_def nat_base_less hex_digit_lower_def Let_def)
next
  case False
  then have "nat_base 16 b = [digit_char (b div 16), digit_char (b mod 16)]"
    using assms by (simp add: nat_base_step nat_base_less)
  then show ?thesis by (simp add: hex_lower_def hex_pad_def hex_digit_lower_def Let_def)
qed

lemma byte_text:
  assumes "b < 256"
  obtains x y p q where "hex_lower 2 b = [x, y]" "is_hex_digit x" "is_hex_digit y" "casefold_char x = [x]"
    "casefold_char y = [y]" "upper_char x = [p]" "upper_char y = [q]" "is_hex_digit p" "is_hex_digit q"
    "upper_char p = [p]" "upper_char q = [q]" "16 * hex_digit_value p + hex_digit_value q = b"
proof -
  have d: "b div 16 < 16" "b mod 16 < 16" using assms by simp_all
  obtain p where p: "is_hex_digit (hex_digit_lower (b div 16))"
      "casefold_char (hex_digit_lower (b div 16)) = [hex_digit_lower (b div 16)]"
      "upper_char (hex_digit_lower (b div 16)) = [p]" "is_hex_digit p" "upper_char p = [p]" "hex_digit_value p = b div 16"
    by (rule digit_text[OF d(1)])
  obtain q where q: "is_hex_digit (hex_digit_lower (b mod 16))"
      "casefold_char (hex_digit_lower (b mod 16)) = [hex_digit_lower (b mod 16)]"
      "upper_char (hex_digit_lower (b mod 16)) = [q]" "is_hex_digit q" "upper_char q = [q]" "hex_digit_value q = b mod 16"
    by (rule digit_text[OF d(2)])
  show thesis using that[OF byte_digits[OF assms] p(1) q(1) p(2) q(2) p(3) q(3) p(4) q(4) p(5) q(5)] p(6) q(6) by simp
qed

definition block_text :: "nat list \<Rightarrow> string" where
  "block_text bs = upper (hexdigest bs)"

lemma block_text_Cons: "block_text (b # bs) = upper (hex_lower 2 b) @ block_text bs"
  by (simp add: block_text_def hexdigest_def upper_def)

lemma block_text_round_trip: "list_all (\<lambda>b. b < 256) bs \<Longrightarrow> bytes_fromhex (block_text bs) = bs"
proof (induction bs)
  case Nil
  then show ?case by (simp add: block_text_def hexdigest_def upper_def)
next
  case (Cons b bs)
  then have b: "b < 256" by simp
  show ?case by (rule byte_text[OF b]) (use Cons in \<open>simp add: block_text_Cons upper_def\<close>)
qed

lemma block_text_ok:
  "list_all (\<lambda>b. b < 256) bs \<Longrightarrow> length (block_text bs) = 2 * length bs \<and> list_all is_hex_digit (block_text bs)
    \<and> upper (block_text bs) = block_text bs"
proof (induction bs)
  case Nil
  then show ?case by (simp add: block_text_def hexdigest_def upper_def)
next
  case (Cons b bs)
  then have b: "b < 256" by simp
  have u: "upper (block_text bs) = block_text bs" using Cons by simp
  show ?case
    by (rule byte_text[OF b]) (use Cons u in \<open>simp add: block_text_Cons upper_def\<close>)
qed

lemma hexdigest_ok:
  "list_all (\<lambda>b. b < 256) bs \<Longrightarrow> length (hexdigest bs) = 2 * length bs \<and> list_all is_hex_digit (hexdigest bs)
    \<and> casefold (hexdigest bs) = hexdigest bs"
proof (induction bs)
  case Nil
  then show ?case by (simp add: hexdigest_def casefold_def)
next
  case (Cons b bs)
  then have b: "b < 256" by simp
  show ?case
    by (rule byte_text[OF b]) (use Cons in \<open>simp add: hexdigest_def casefold_def\<close>)
qed

section \<open>Digests\<close>

lemma compress_round_length: "length hash = 8 \<Longrightarrow> length (compress_round hash kw) = 8"
  by (induction hash kw rule: compress_round.induct) (auto simp: Let_def)

lemma compress_length: "length hash = 8 \<Longrightarrow> length (compress hash block) = 8"
proof -
  have "length h = 8 \<Longrightarrow> length (foldl compress_round h xs) = 8" for h xs
    by (induction xs arbitrary: h) (simp_all add: compress_round_length)
  then show "length hash = 8 \<Longrightarrow> ?thesis" by (simp add: compress_def)
qed

lemma word_bytes_ok: "length (word_bytes w) = 4 \<and> list_all (\<lambda>b. b < 256) (word_bytes w)"
proof -
  have "unat (x AND 255) < 256" for x :: "32 word"
    using word_and_le1[of x 255] by (simp add: word_le_nat_alt)
  then show ?thesis by (simp add: word_bytes_def)
qed

lemma digest_ok: "length (sha256_digest bs) = 32 \<and> list_all (\<lambda>b. b < 256) (sha256_digest bs)"
proof -
  have fold: "length h = 8 \<Longrightarrow> length (foldl (\<lambda>h block. compress h (f block)) h xs) = 8" for h f and xs :: "nat list list"
    by (induction xs arbitrary: h) (simp_all add: compress_length)
  have cat: "length (concat (map word_bytes ws)) = 4 * length ws \<and> list_all (\<lambda>b. b < 256) (concat (map word_bytes ws))" for ws
    by (induction ws) (simp_all add: word_bytes_ok)
  have "length initial_hash = 8" by (simp add: initial_hash_def)
  then show ?thesis unfolding sha256_digest_def Let_def using cat fold by simp
qed

lemma sha256_bytes_ok:
  "length (sha256_bytes bs) = 64 \<and> list_all is_hex_digit (sha256_bytes bs) \<and> casefold (sha256_bytes bs) = sha256_bytes bs"
  using hexdigest_ok[of "sha256_digest bs"] digest_ok[of bs] by (simp add: sha256_bytes_def)

text \<open>A key is the first eight bytes of a digest.\<close>

lemma hexdigest_take: "list_all (\<lambda>b. b < 256) bs \<Longrightarrow> take (2 * n) (hexdigest bs) = hexdigest (take n bs)"
proof (induction bs arbitrary: n)
  case Nil
  then show ?case by (simp add: hexdigest_def)
next
  case (Cons b bs)
  then have b: "b < 256" by simp
  show ?case
    by (rule byte_text[OF b]) (use Cons in \<open>cases n; simp add: hexdigest_def\<close>)
qed

lemma derived_key_ok:
  fixes seed :: string and level :: int
  defines "k \<equiv> derive_simulated_security_key seed level"
  shows "length k = 16" "list_all is_hex_digit k" "upper k = k"
proof -
  let ?d = "sha256_digest (encode_text (''ATEP-V4:'' @ int_str level @ '':'' @ seed))"
  have b: "list_all (\<lambda>b. b < 256) (take 8 ?d)" "length (take 8 ?d) = 8" "list_all (\<lambda>b. b < 256) ?d"
    using digest_ok[of "encode_text (''ATEP-V4:'' @ int_str level @ '':'' @ seed)"] by (auto simp: list_all_iff dest: in_set_takeD)
  have k: "k = block_text (take 8 ?d)"
    using hexdigest_take[OF b(3), of 8] by (simp add: k_def derive_simulated_security_key_def sha256_hex_def block_text_def)
  show "length k = 16" "list_all is_hex_digit k" "upper k = k" using block_text_ok[OF b(1)] b(2) by (simp_all add: k)
qed

end
