(* ===== verification/DiagServes.thy ===== *)
theory DiagServes
  imports DiagHex
begin

text \<open>
  When the diagnostic requests are accepted: an unused command identifier and the guards of the
  code are enough. And a firmware image sent block by block arrives byte for byte.
\<close>

section \<open>Accepted requests\<close>

lemma record_serves:
  assumes "existing_command u i s = None" "diag_commands t = diag_commands s" "diag_key r = (ecu_id u, i)"
  shows "\<exists>q s'. record_execution e a b j ac ev r t = Inr ((q, False), s')"
proof -
  have "insert_row diag_key r (diag_commands t) = Some (diag_commands t @ [r])"
    unfolding assms(2) by (rule insert_row_after_miss[OF assms(1)[unfolded existing_command_def]]) (simp add: assms(3))
  then show ?thesis by (simp add: record_execution_def)
qed

lemma control_session_serves:
  assumes "find_ecu v i s = Some u" "existing_command u (csc_command_id c) s = None"
    and "csc_expected_version c = dss_version (session_of u s)"
  shows "\<exists>r s'. control_session e (v, i, c) s = Inr ((r, False), s')"
proof -
  obtain x s1 where a: "get_or_create_session u s = (x, s1)" by fastforce
  obtain y s2 where b: "get_or_create_security_state e u s1 = (y, s2)" by fastforce
  have x: "csc_expected_version c = dss_version x" "diag_commands s2 = diag_commands s"
    using assms(3) with_session[OF a] with_security[OF b] by simp_all
  show ?thesis
    using x(1) assms a b
    by (simp add: control_session_def require_ecu_def record_evidence_def Let_def, intro record_serves[OF assms(2)])
      (simp_all add: x diag_key_def)
qed

lemma request_download_serves:
  assumes "ecu_store_ok s" "find_ecu v i s = Some u" "existing_command u (cfd_command_id c) s = None"
    and "require_flash_access (session_of u s) (security_of e u s) (cfd_expected_session_version c)
      (cfd_expected_security_version c) = Inr ()"
    and "cfd_expected_ecu_version c = ecu_version u" "dfl_status (flash_of u s) \<noteq> FLASH_DOWNLOADING"
  shows "\<exists>r s'. request_download e (v, i, c) s = Inr ((r, False), s')"
proof -
  obtain st s1 where a: "get_or_create_session u s = (st, s1)" by fastforce
  obtain y s2 where b: "get_or_create_security_state e u s1 = (y, s2)" by fastforce
  obtain f s3 where c: "get_or_create_flash_state u s2 = (f, s3)" by fastforce
  note w = flash_rows[OF a b c]
  show ?thesis
    using w(1-3) w(10)[OF assms(1,2)] assms a b c
    by (simp add: request_download_def require_ecu_def record_evidence_def new_flash_execution_def Let_def,
        intro record_serves[OF assms(3)]) (simp_all add: w(7) diag_key_def)
qed

lemma transfer_data_serves:
  assumes "find_ecu v i s = Some u" "existing_command u (cft_command_id c) s = None"
    and "require_active_flash_access (session_of u s) (security_of e u s) = Inr ()"
    and "dfl_status (flash_of u s) = FLASH_DOWNLOADING" "cft_expected_transfer_version c = dfl_version (flash_of u s)"
    and "cft_block_sequence_counter c = dfl_next_block_sequence_counter (flash_of u s)"
    and "int (length (bytes_fromhex (cft_data_hex c))) \<le> dfl_max_block_length (flash_of u s)"
    and "dfl_bytes_received (flash_of u s) + int (length (bytes_fromhex (cft_data_hex c))) \<le> dfl_memory_size (flash_of u s)"
  shows "\<exists>r s'. transfer_data e (v, i, c) s = Inr ((r, False), s')"
proof -
  obtain st s1 where a: "get_or_create_session u s = (st, s1)" by fastforce
  obtain y s2 where b: "get_or_create_security_state e u s1 = (y, s2)" by fastforce
  obtain f s3 where c: "get_or_create_flash_state u s2 = (f, s3)" by fastforce
  note w = flash_rows[OF a b c]
  show ?thesis
    using w(1-3) assms a b c
    by (simp add: transfer_data_def require_ecu_def record_evidence_def new_flash_execution_def Let_def,
        intro record_serves[OF assms(2)]) (simp_all add: w(7) diag_key_def)
qed

lemma request_transfer_exit_serves:
  assumes "ecu_store_ok s" "find_ecu v i s = Some u" "existing_command u (cfe_command_id c) s = None"
    and "require_active_flash_access (session_of u s) (security_of e u s) = Inr ()"
    and "dfl_status (flash_of u s) = FLASH_DOWNLOADING" "cfe_expected_transfer_version c = dfl_version (flash_of u s)"
    and "cfe_expected_ecu_version c = ecu_version u" "ecu_version u = dfl_target_ecu_version (flash_of u s)"
    and "dfl_bytes_received (flash_of u s) = dfl_memory_size (flash_of u s)"
    and "sha256_bytes (dfl_image_data (flash_of u s)) = cfe_expected_sha256 c"
  shows "\<exists>r s'. request_transfer_exit e (v, i, c) s = Inr ((r, False), s')"
proof -
  obtain st s1 where a: "get_or_create_session u s = (st, s1)" by fastforce
  obtain y s2 where b: "get_or_create_security_state e u s1 = (y, s2)" by fastforce
  obtain f s3 where c: "get_or_create_flash_state u s2 = (f, s3)" by fastforce
  note w = flash_rows[OF a b c]
  show ?thesis
    using w(1-3) w(10)[OF assms(1,2)] assms a b c
    by (simp add: request_transfer_exit_def require_ecu_def record_evidence_def new_flash_execution_def Let_def,
        intro record_serves[OF assms(3)]) (simp_all add: w(7) diag_key_def flashed_def)
qed

lemma record_security_serves:
  assumes "existing_command u i s = None" "diag_commands t = diag_commands s" "diag_key r = (ecu_id u, i)"
  shows "\<exists>q s'. record_security e v u y r t = Inr ((q, False), s')"
  unfolding record_security_def by (rule record_serves[OF assms])

lemma access_open_attempt:
  assumes "find_ecu v i s = Some u" "existing_command u (csa_command_id c) s = None" "access_open e u c s"
  obtains s2 where "security_access e (v, i, c) s = security_attempt e v u c (session_of u s) (security_of e u s) s2 s"
    "diag_commands s2 = diag_commands s" 
proof -
  obtain st s1 where a: "get_or_create_session u s = (st, s1)" by fastforce
  obtain y s2 where b: "get_or_create_security_state e u s1 = (y, s2)" by fastforce
  note w = security_access_rows[OF a b]
  have "security_access e (v, i, c) s = security_fresh e v u c st y s2 s"
    using assms(1,2) a b
    by (simp add: security_access_def require_ecu_def security_fresh_def security_attempt_def access_row_def
          unlock_session_def Let_def split_def)
  also have "\<dots> = security_attempt e v u c st y s2 s"
    using assms(3) w by (auto simp: security_fresh_def access_open_def lock_over_def not_less split: option.splits)
  finally show thesis using that w by simp
qed

lemma seed_serves:
  assumes "find_ecu v i s = Some u" "existing_command u (csa_command_id c) s = None" "access_open e u c s"
    and "csa_access_type c = REQUEST_SEED_LEVEL_1"
  shows "\<exists>r s'. security_access_endpoint e (v, i, c) s = (Inr (r, False), s')"
proof -
  obtain s2 where s2: "security_access e (v, i, c) s = security_attempt e v u c (session_of u s) (security_of e u s) s2 s"
      "diag_commands s2 = diag_commands s" by (rule access_open_attempt[OF assms(1-3)])
  let ?y = "snd (seeded u (without_lock (security_of e u s)))" and ?q = "fst (seeded u (without_lock (security_of e u s)))"
  obtain r s' where "record_security e v u ?y (access_row e u c (seed_result (session_of u s) ?q ?y)
      (dss_version (session_of u s)) (dss_version (session_of u s))) (save_security ?y s2) = Inr ((r, False), s')"
    using record_security_serves[OF assms(2)] s2(2) by (metis access_row_def diag_key_def new_command_simps(1,2) save_kept(5))
  then show ?thesis using assms(4) by (simp add: security_access_endpoint_def s2(1) security_attempt_def Let_def)
qed

lemma key_serves:
  assumes "find_ecu v i s = Some u" "existing_command u (csa_command_id c) s = None" "access_open e u c s"
    and "csa_access_type c = SEND_KEY_LEVEL_1" "dsc_locked_until_ms (security_of e u s) = None"
    and "seed_usable (ecu_simulation_time_ms u) (security_of e u s)" "key_digest c = dsc_expected_key_digest (security_of e u s)"
  shows "\<exists>r s'. security_access_endpoint e (v, i, c) s = (Inr (r, False), s')"
proof -
  obtain s2 where s2: "security_access e (v, i, c) s = security_attempt e v u c (session_of u s) (security_of e u s) s2 s"
      "diag_commands s2 = diag_commands s" by (rule access_open_attempt[OF assms(1-3)])
  have x: "without_lock (security_of e u s) = security_of e u s" using assms(5) by (simp add: without_lock_def)
  let ?y = "unlocked (security_of e u s)" and ?st = "unlock_session u (session_of u s)"
  obtain r s' where "record_security e v u ?y (access_row e u c (unlock_result ?st ?y)
      (dss_version (session_of u s)) (dss_version (session_of u s) + 1)) (save_security ?y (save_session ?st s2)) = Inr ((r, False), s')"
    using record_security_serves[OF assms(2)] s2(2) by (metis access_row_def diag_key_def new_command_simps(1,2) save_kept(4,5))
  then show ?thesis using assms(4,6,7) by (simp add: security_access_endpoint_def s2(1) security_attempt_def x Let_def)
qed

text \<open>While the lock holds, every attempt is refused with the code for a delay that has not expired.\<close>

lemma locked_refused:
  assumes "find_ecu v i s = Some u" "existing_command u (csa_command_id c) s = None"
    and "csa_expected_session_version c = dss_version (session_of u s)"
    and "csa_expected_security_version c = dsc_version (security_of e u s)"
    and "dss_session_type (session_of u s) \<noteq> DEFAULT_SESSION" "\<not> lock_over (ecu_simulation_time_ms u) (security_of e u s)"
  shows "\<exists>reason s'. security_access_endpoint e (v, i, c) s
    = (Inl (DiagnosticContract reason (nrc_value REQUIRED_TIME_DELAY_NOT_EXPIRED)), s')"
proof -
  obtain st s1 where a: "get_or_create_session u s = (st, s1)" by fastforce
  obtain y s2 where b: "get_or_create_security_state e u s1 = (y, s2)" by fastforce
  note w = security_access_rows[OF a b]
  show ?thesis
    using assms a b w
    by (auto simp: security_access_endpoint_def security_access_def require_ecu_def lock_over_def contract_error_def Let_def
        split: option.splits)
qed

section \<open>An image in blocks\<close>

text \<open>
  The client's side of a transfer: one command per block, with the counter and the transfer version
  it expects next, sent until one fails.
\<close>

fun block_commands :: "string list \<Rightarrow> int \<Rightarrow> int \<Rightarrow> nat list list \<Rightarrow> flash_transfer_data_command list" where
  "block_commands (k # ks) counter version (b # bs) =
     \<lparr>cft_command_id = k, cft_block_sequence_counter = counter, cft_data_hex = block_text b,
      cft_expected_transfer_version = version\<rparr> # block_commands ks (next_counter counter) (version + 1) bs"
| "block_commands _ _ _ _ = []"

fun send_blocks ::
  "env \<Rightarrow> vehicle \<Rightarrow> string \<Rightarrow> flash_transfer_data_command list \<Rightarrow> 'a diag_store_scheme \<Rightarrow> app_error + 'a diag_store_scheme" where
  "send_blocks e v i [] s = Inr s"
| "send_blocks e v i (c # cs) s = and_then (transfer_data e (v, i, c) s) (\<lambda>(_, t). send_blocks e v i cs t)"

text \<open>A block a client may send: one to 256 bytes.\<close>

definition block_ok :: "nat list \<Rightarrow> bool" where
  "block_ok b \<longleftrightarrow> b \<noteq> [] \<and> length b \<le> 256 \<and> list_all (\<lambda>x. x < 256) b"

lemma block_command_ok:
  assumes "block_ok b" "diagnostic_id_ok k" "int_between 0 255 counter" "1 \<le> version"
  shows "flash_transfer_data_command_ok \<lparr>cft_command_id = k, cft_block_sequence_counter = counter,
    cft_data_hex = block_text b, cft_expected_transfer_version = version\<rparr>"
  using assms block_text_ok[of b] by (cases b) (auto simp: flash_transfer_data_command_ok_def block_ok_def len_between_def)

lemma existing_after:
  assumes "uds_effect r x y f s s'" "existing_command u k s = None" "dcm_command_id r \<noteq> k \<or> dcm_ecu_id r \<noteq> ecu_id u"
  shows "existing_command u k s' = None"
  using assms by (auto simp: uds_effect_def existing_command_def select_None diag_key_def)

lemma effect_rows:
  assumes "uds_effect r (Some x) (Some y) (Some f) s s'" "dcm_ecu_id r = ecu_id u"
  shows "session_of u s' = x" "security_of e u s' = y" "flash_of u s' = f"
  using assms by (simp_all add: uds_effect_def session_of_at security_of_at flash_of_at)

lemma find_part: "ecu_part s' = ecu_part s \<Longrightarrow> find_ecu v i s' = find_ecu v i s"
  by (simp add: find_ecu_def ecu_part_def)

definition after_blocks :: "nat list list \<Rightarrow> diagnostic_flash_state \<Rightarrow> diagnostic_flash_state" where
  "after_blocks bs f = foldl (\<lambda>g b. received_block b g) f bs"

lemma after_blocks_fields:
  "dfl_image_data (after_blocks bs f) = dfl_image_data f @ concat bs
    \<and> dfl_bytes_received (after_blocks bs f) = dfl_bytes_received f + int (length (concat bs))
    \<and> dfl_version (after_blocks bs f) = dfl_version f + int (length bs)
    \<and> dfl_status (after_blocks bs f) = dfl_status f \<and> dfl_memory_size (after_blocks bs f) = dfl_memory_size f
    \<and> dfl_target_ecu_version (after_blocks bs f) = dfl_target_ecu_version f
    \<and> dfl_firmware_version (after_blocks bs f) = dfl_firmware_version f \<and> dfl_ecu_id (after_blocks bs f) = dfl_ecu_id f"
  by (induction bs arbitrary: f) (simp_all add: after_blocks_def received_block_def)

lemma blocks_arrive:
  fixes s :: "'a diag_store_scheme"
  assumes "find_ecu v i s = Some u" "require_active_flash_access (session_of u s) (security_of e u s) = Inr ()"
    and "dfl_status (flash_of u s) = FLASH_DOWNLOADING" "dfl_max_block_length (flash_of u s) = 256"
    and "dfl_bytes_received (flash_of u s) + int (length (concat bs)) \<le> dfl_memory_size (flash_of u s)"
    and "list_all block_ok bs" "length ks = length bs" "distinct ks" "\<forall>k\<in>set ks. existing_command u k s = None"
  shows "\<exists>s'. send_blocks e v i (block_commands ks (dfl_next_block_sequence_counter (flash_of u s)) (dfl_version (flash_of u s)) bs) s
      = Inr s' \<and> flash_of u s' = after_blocks bs (flash_of u s) \<and> session_of u s' = session_of u s
    \<and> security_of e u s' = security_of e u s \<and> ecu_part s' = ecu_part s
    \<and> (\<forall>k. existing_command u k s = None \<longrightarrow> k \<notin> set ks \<longrightarrow> existing_command u k s' = None)"
  using assms
proof (induction bs arbitrary: ks s)
  case Nil
  then show ?case by (simp add: after_blocks_def)
next
  case (Cons b bs)
  obtain k ks' where ks: "ks = k # ks'" using Cons.prems(7) by (cases ks) auto
  let ?f = "flash_of u s"
  let ?c = "\<lparr>cft_command_id = k, cft_block_sequence_counter = dfl_next_block_sequence_counter ?f,
    cft_data_hex = block_text b, cft_expected_transfer_version = dfl_version ?f\<rparr>"
  have b: "bytes_fromhex (block_text b) = b" using Cons.prems(6) block_text_round_trip by (simp add: block_ok_def)
  have none: "existing_command u (cft_command_id ?c) s = None" using Cons.prems(9) by (simp add: ks)
  obtain r t where run: "transfer_data e (v, i, ?c) s = Inr ((r, False), t)"
    using transfer_data_serves[OF Cons.prems(1) none Cons.prems(2,3)] Cons.prems(4-6) b by (auto simp: block_ok_def)
  note f = transfer_data_first[OF Cons.prems(1) none run]
  have r: "dcm_ecu_id r = ecu_id u" "dcm_command_id r = k" using f(7) by (auto simp: new_flash_execution_def)
  note rows = effect_rows[OF f(11) r(1)]
  have keep: "existing_command u j t = None" if "existing_command u j s = None" "j \<noteq> k" for j
    using existing_after[OF f(11) that(1)] that(2) r(2) by auto
  have u: "find_ecu v i t = Some u" using find_part[OF f(9)] Cons.prems(1) by simp
  have f': "flash_of u t = received_block b ?f" using rows(3) b by simp
  have "\<exists>s'. send_blocks e v i (block_commands ks' (dfl_next_block_sequence_counter (flash_of u t)) (dfl_version (flash_of u t)) bs) t
      = Inr s' \<and> flash_of u s' = after_blocks bs (flash_of u t) \<and> session_of u s' = session_of u t
    \<and> security_of e u s' = security_of e u t \<and> ecu_part s' = ecu_part t
    \<and> (\<forall>k. existing_command u k t = None \<longrightarrow> k \<notin> set ks' \<longrightarrow> existing_command u k s' = None)"
  proof (rule Cons.IH[OF u])
    show "\<forall>j\<in>set ks'. existing_command u j t = None"
    proof
      fix j assume j: "j \<in> set ks'"
      then have "j \<noteq> k" "existing_command u j s = None" using Cons.prems(8,9) by (auto simp: ks)
      then show "existing_command u j t = None" using keep by blast
    qed
  qed (use Cons.prems rows(1,2) f' in \<open>auto simp: ks received_block_def\<close>)
  then show ?case
    using run f' rows(1,2) f(9) keep by (auto simp: ks received_block_def after_blocks_def)
qed

section \<open>Challenges\<close>

text \<open>
  After a change into a session other than the default one, a seed is handed out at once, whatever
  the security state was before; and the key derived from it unlocks the unit.
\<close>

definition enter :: "string \<Rightarrow> int \<Rightarrow> DiagnosticSessionType \<Rightarrow> diagnostic_session_control_command" where
  "enter k n t = \<lparr>csc_command_id = k, csc_expected_version = n, csc_session_type = t\<rparr>"

definition ask_seed :: "string \<Rightarrow> int \<Rightarrow> int \<Rightarrow> security_access_command" where
  "ask_seed k n m = \<lparr>csa_command_id = k, csa_access_type = REQUEST_SEED_LEVEL_1, csa_expected_session_version = n,
     csa_expected_security_version = m, csa_key = None\<rparr>"

definition send_key :: "string \<Rightarrow> int \<Rightarrow> int \<Rightarrow> string \<Rightarrow> security_access_command" where
  "send_key k n m key = \<lparr>csa_command_id = k, csa_access_type = SEND_KEY_LEVEL_1, csa_expected_session_version = n,
     csa_expected_security_version = m, csa_key = Some key\<rparr>"

lemma enter_serves:
  assumes "find_ecu v i s = Some u" "existing_command u k s = None"
  obtains r s1 where "serve e v (UdsSession i (enter k (dss_version (session_of u s)) t)) s = (Inr (r, False), s1)"
    "session_at s1 = (session_at s)(ecu_id u \<mapsto> controlled (enter k (dss_version (session_of u s)) t) u (session_of u s))"
    "security_at s1 = (security_at s)(ecu_id u \<mapsto> cleared_security (security_of e u s))"
    "flash_at s1 = flash_at s" "ecu_part s1 = ecu_part s"
    "find_ecu v i s1 = Some u" "\<And>j. existing_command u j s = None \<Longrightarrow> j \<noteq> k \<Longrightarrow> existing_command u j s1 = None"
proof -
  let ?c = "enter k (dss_version (session_of u s)) t"
  have none: "existing_command u (csc_command_id ?c) s = None" using assms(2) by (simp add: enter_def)
  obtain r s1 where run: "control_session e (v, i, ?c) s = Inr ((r, False), s1)"
    using control_session_serves[OF assms(1) none, of e] by (auto simp: enter_def)
  note f = control_session_first[OF assms(1) none run]
  have r: "dcm_ecu_id r = ecu_id u" "dcm_command_id r = k" using f(2) by (auto simp: enter_def)
  show thesis
  proof (rule that)
    show "serve e v (UdsSession i ?c) s = (Inr (r, False), s1)" using run by (simp add: endpoint_Inr)
    show "find_ecu v i s1 = Some u" using find_part[OF f(4)] assms(1) by simp
    show "existing_command u j s1 = None" if "existing_command u j s = None" "j \<noteq> k" for j
      using existing_after[OF f(6) that(1)] that(2) r(2) by auto
  qed (use f(4,6) r in \<open>simp_all add: uds_effect_def\<close>)
qed

lemma seed_follows:
  fixes s :: "'a diag_store_scheme"
  assumes "find_ecu v i s = Some u" "existing_command u k s = None"
    and "session_at s (ecu_id u) = Some x" "dss_session_type x \<noteq> DEFAULT_SESSION"
    and "security_at s (ecu_id u) = Some z" "dsc_locked_until_ms z = None"
  obtains r s2 seed y where "serve e v (UdsSecurity i (ask_seed k (dss_version x) (dsc_version z))) s = (Inr (r, False), s2)"
    "(seed, y) = seeded u z" "map_of (dcm_result r) ''seed'' = Some (JStr seed)"
    "session_at s2 = (session_at s)(ecu_id u \<mapsto> x)" "security_at s2 = (security_at s)(ecu_id u \<mapsto> y)"
    "flash_at s2 = flash_at s" "ecu_part s2 = ecu_part s"
    "find_ecu v i s2 = Some u" "\<And>j. existing_command u j s = None \<Longrightarrow> j \<noteq> k \<Longrightarrow> existing_command u j s2 = None"
proof -
  let ?c = "ask_seed k (dss_version x) (dsc_version z)"
  have rows: "session_of u s = x" "security_of e u s = z" using assms(3,5) by (simp_all add: session_of_at security_of_at)
  have none: "existing_command u (csa_command_id ?c) s = None" using assms(2) by (simp add: ask_seed_def)
  have op: "access_open e u ?c s" using assms(4,6) rows by (simp add: access_open_def ask_seed_def lock_over_def)
  have z: "without_lock z = z" using assms(6) by (simp add: without_lock_def)
  obtain r s2 where run: "security_access_endpoint e (v, i, ?c) s = (Inr (r, False), s2)"
    using seed_serves[OF assms(1) none op] by (auto simp: ask_seed_def)
  from run show thesis
  proof (cases rule: security_endpoint_cases)
    case (seed u' q y r')
    have u': "u' = u" using seed(1) assms(1) by simp
    note f = seed(6-10)[unfolded u' rows z]
    have r: "r' = r" "dcm_ecu_id r = ecu_id u" "dcm_command_id r = k"
      using seed(3) f(2) by (auto simp: access_row_def ask_seed_def)
    show thesis
    proof (rule that[of r s2 q y])
      show "find_ecu v i s2 = Some u" using find_part[OF f(4)] assms(1) by simp
      show "existing_command u j s2 = None" if "existing_command u j s = None" "j \<noteq> k" for j
        using existing_after[OF f(3) that(1)] that(2) r by auto
      show "map_of (dcm_result r) ''seed'' = Some (JStr q)"
        using f(2) r(1) by (simp add: access_row_def seed_result_def)
    qed (use run f(1,3,4) r(1,2) in \<open>simp_all add: uds_effect_def\<close>)
  next
    case unchanged
    then show thesis using assms(1) none by auto
  qed (auto simp: ask_seed_def)
qed

lemma key_follows:
  fixes s :: "'a diag_store_scheme"
  assumes "find_ecu v i s = Some u" "existing_command u k s = None"
    and "session_at s (ecu_id u) = Some x" "dss_session_type x \<noteq> DEFAULT_SESSION"
    and "security_at s (ecu_id u) = Some y" "dsc_locked_until_ms z = None" "(seed, y) = seeded u z"
  obtains r s3 where "serve e v (UdsSecurity i (send_key k (dss_version x) (dsc_version y) (derive_simulated_security_key seed 1))) s
      = (Inr (r, False), s3)" "session_at s3 = (session_at s)(ecu_id u \<mapsto> unlock_session u x)"
    "flash_at s3 = flash_at s" "ecu_part s3 = ecu_part s"
    "\<And>j. existing_command u j s = None \<Longrightarrow> j \<noteq> k \<Longrightarrow> existing_command u j s3 = None"
proof -
  let ?c = "send_key k (dss_version x) (dsc_version y) (derive_simulated_security_key seed 1)"
  have rows: "session_of u s = x" "security_of e u s = y" using assms(3,5) by (simp_all add: session_of_at security_of_at)
  have none: "existing_command u (csa_command_id ?c) s = None" using assms(2) by (simp add: send_key_def)
  have y: "dsc_locked_until_ms y = None" "seed_usable (ecu_simulation_time_ms u) y"
      "dsc_expected_key_digest y = Some (sha256_hex (derive_simulated_security_key seed 1))"
    using assms(6,7) by (auto simp: seeded_def seed_usable_def Let_def)
  have op: "access_open e u ?c s" using assms(4) y rows by (simp add: access_open_def send_key_def lock_over_def)
  have d: "key_digest ?c = dsc_expected_key_digest y"
    using y(3) derived_key_ok(3) by (simp add: key_digest_def send_key_def)
  obtain r s3 where run: "security_access_endpoint e (v, i, ?c) s = (Inr (r, False), s3)"
    using key_serves[OF assms(1) none op] y d rows by (auto simp: send_key_def)
  from run show thesis
  proof (cases rule: security_endpoint_cases)
    case (right_key u' w r')
    have u': "u' = u" using right_key(1) assms(1) by simp
    note f = right_key(9-11)[unfolded u' rows]
    have r: "r' = r" "dcm_ecu_id r = ecu_id u" "dcm_command_id r = k"
      using right_key(3) f(1) by (auto simp: access_row_def send_key_def)
    show thesis
    proof (rule that[of r s3])
      show "existing_command u j s3 = None" if "existing_command u j s = None" "j \<noteq> k" for j
        using existing_after[OF f(2) that(1)] that(2) r by auto
    qed (use run f(2,3) r in \<open>simp_all add: uds_effect_def\<close>)
  next
    case unchanged
    then show thesis using assms(1) none by auto
  qed (auto simp: send_key_def)
qed

end
