(* ===== verification/DiagWedge.thy ===== *)
theory DiagWedge
  imports DiagServes
begin

text \<open>
  A download whose unit moved on can neither be finished nor replaced: leaving the transfer compares
  the version of the unit with the one it had when the download was requested, a new download is
  refused while one is active, and no other request touches the flash state.
\<close>

section \<open>Requests and the flash state\<close>

definition wedged :: "'a diag_store_scheme \<Rightarrow> uuid \<Rightarrow> bool" where
  "wedged s j \<longleftrightarrow> (\<exists>f u. flash_at s j = Some f \<and> dfl_status f = FLASH_DOWNLOADING
     \<and> u \<in> set (ecus s) \<and> ecu_id u = j \<and> dfl_target_ecu_version f < ecu_version u)"

lemma wedged_moves:
  assumes "wedged s j" "units_move (ecus s) (ecus s')" "flash_at s' j = flash_at s j" shows "wedged s' j"
proof -
  obtain f u where f: "flash_at s j = Some f" "dfl_status f = FLASH_DOWNLOADING"
    and u: "u \<in> set (ecus s)" "ecu_id u = j" "dfl_target_ecu_version f < ecu_version u"
    using assms(1) by (auto simp: wedged_def)
  obtain u' where "u' \<in> set (ecus s')" "unit_moves u u'" using assms(2) u(1) by (auto simp: units_move_def)
  then have "u' \<in> set (ecus s')" "ecu_id u' = j" "dfl_target_ecu_version f < ecu_version u'"
    using u(2,3) by (auto simp: unit_moves_def)
  then show ?thesis using f assms(3) unfolding wedged_def by metis
qed

lemma wedged_unit:
  assumes "wedged s j" "ecu_store_ok s" "find_ecu v i s = Some u" "ecu_id u = j"
  shows "dfl_status (flash_of u s) = FLASH_DOWNLOADING" "dfl_target_ecu_version (flash_of u s) < ecu_version u"
proof -
  obtain f u' where f: "flash_at s j = Some f" "dfl_status f = FLASH_DOWNLOADING"
    and u': "u' \<in> set (ecus s)" "ecu_id u' = j" "dfl_target_ecu_version f < ecu_version u'"
    using assms(1) by (auto simp: wedged_def)
  have "u' = u"
    using unit_unique[of "ecus s" u u'] find_ecu_row[OF assms(3)] u'(1,2) assms(2,4) by (simp add: ecu_store_ok_def)
  then show "dfl_status (flash_of u s) = FLASH_DOWNLOADING" "dfl_target_ecu_version (flash_of u s) < ecu_version u"
    using f u'(3) assms(4) by (simp_all add: flash_of_at)
qed

text \<open>Neither a download nor a transfer exit can take effect.\<close>

lemma wedged_download:
  assumes "wedged s (ecu_id u)" "ecu_store_ok s" "find_ecu v i s = Some u"
    and "request_download e (v, i, c) s = Inr ((r, d), s')"
  shows "d"
  using assms(2,4)
proof (cases rule: downloads.handler_cases)
  case (first w)
  have w: "w = u" using first(1) assms(3) by simp
  show ?thesis
    using request_download_first(3)[OF assms(2) first(1,2) assms(4)] wedged_unit(1)[OF assms(1-3) refl] w by simp
qed simp

lemma wedged_exit:
  assumes "wedged s (ecu_id u)" "ecu_store_ok s" "find_ecu v i s = Some u"
    and "request_transfer_exit e (v, i, c) s = Inr ((r, d), s')"
  shows "d"
  using assms(2,4)
proof (cases rule: exits.handler_cases)
  case (first w)
  have w: "w = u" using first(1) assms(3) by simp
  show ?thesis
    using request_transfer_exit_first(5)[OF assms(2) first(1,2) assms(4)] wedged_unit(2)[OF assms(1-3) refl] w by simp
qed simp

section \<open>Wedged for good\<close>

lemma effect_flash:
  "uds_effect r x y f s s' \<Longrightarrow> flash_at s' j = (if j = dcm_ecu_id r then f else flash_at s j)"
  by (simp add: uds_effect_def)

lemma wedged_effect:
  assumes "wedged s j" "uds_effect r x y (flash_at s (dcm_ecu_id r)) s s'" "units_kept s s'"
  shows "wedged s' j"
  using wedged_moves[OF assms(1), of s'] effect_flash[OF assms(2), of j] assms(3)
  by (simp add: units_kept_def split: if_splits)

text \<open>The requests that leave the flash state alone.\<close>

lemma plain_wedged:
  assumes "wedged s j" "uds_effect r x y (flash_at s (ecu_id u)) s s'" "units_kept s s'" "dcm_ecu_id r = ecu_id u"
  shows "wedged s' j"
  by (rule wedged_effect[OF assms(1) _ assms(3), of r x y]) (use assms(2,4) in simp)

lemma security_wedged:
  assumes "wedged s j" "ecu_store_ok s" "security_access_endpoint e (v, i, c) s = (res, s')"
  shows "wedged s' j"
  using assms(3)
proof (cases rule: security_endpoint_cases)
  case unchanged
  then show ?thesis using assms(1) by simp
next
  case (refused u y)
  then show ?thesis using wedged_moves[OF assms(1), of s'] ecu_part_eq[OF refused(9)] by simp
next
  case (seed u q y r)
  have "dcm_ecu_id r = ecu_id u" using seed(7) by (simp add: access_row_def)
  then show ?thesis using plain_wedged[OF assms(1) seed(8) units_kept_part[OF assms(2) seed(9)]] by simp
next
  case (wrong u y r)
  have "dcm_ecu_id r = ecu_id u" using wrong(9) by (simp add: access_row_def)
  then show ?thesis using plain_wedged[OF assms(1) wrong(10) units_kept_part[OF assms(2) wrong(11)]] by simp
next
  case (right_key u y r)
  have "dcm_ecu_id r = ecu_id u" using right_key(9) by (simp add: access_row_def)
  then show ?thesis using plain_wedged[OF assms(1) right_key(10) units_kept_part[OF assms(2) right_key(11)]] by simp
qed

lemma transfer_data_wedged:
  assumes "wedged s j" "ecu_store_ok s" "transfer_data e (v, i, c) s = Inr ((r, d), s')"
  shows "wedged s' j"
  using assms(2,3)
proof (cases rule: blocks.handler_cases)
  case (first u)
  note f = transfer_data_first[OF first(1,2) assms(3)]
  have r: "dcm_ecu_id r = ecu_id u" using f(7) by (auto simp: new_flash_execution_def)
  show ?thesis
  proof (cases "j = ecu_id u")
    case True
    have w: "wedged s (ecu_id u)" using assms(1) True by simp
    have u: "u \<in> set (ecus s')" using find_ecu_row[OF first(1)] ecu_part_eq[OF f(9)] by simp
    have "flash_at s' j = Some (received_block (bytes_fromhex (cft_data_hex c)) (flash_of u s))"
      using effect_flash[OF f(11), of j] r True by simp
    then show ?thesis
      using wedged_unit[OF w assms(2) first(1) refl] u True unfolding wedged_def by (auto simp: received_block_def)
  next
    case False
    then show ?thesis using wedged_moves[OF assms(1), of s'] effect_flash[OF f(11), of j] r ecu_part_eq[OF f(9)] by simp
  qed
qed (use assms(1) in simp)

lemma request_download_wedged:
  assumes "wedged s j" "ecu_store_ok s" "request_download e (v, i, c) s = Inr ((r, d), s')"
  shows "wedged s' j"
  using assms(2,3)
proof (cases rule: downloads.handler_cases)
  case (first u)
  note f = request_download_first[OF assms(2) first(1,2) assms(3)]
  have "j \<noteq> ecu_id u" using wedged_download[OF _ assms(2) first(1) assms(3)] assms(1) first(3) by auto
  then show ?thesis
    using wedged_moves[OF assms(1), of s'] effect_flash[OF f(8), of j] f(4) ecu_part_eq[OF f(6)] by (simp add: new_flash_execution_def)
qed (use assms(1) in simp)

lemma request_transfer_exit_wedged:
  assumes "wedged s j" "ecu_store_ok s" "request_transfer_exit e (v, i, c) s = Inr ((r, d), s')"
  shows "wedged s' j"
  using assms(2,3)
proof (cases rule: exits.handler_cases)
  case (first u)
  note f = request_transfer_exit_first[OF assms(2) first(1,2) assms(3)]
  have "j \<noteq> ecu_id u" using wedged_exit[OF _ assms(2) first(1) assms(3)] assms(1) first(3) by auto
  then show ?thesis
    using wedged_moves[OF assms(1), of s'] effect_flash[OF f(12), of j] f(8) first(6)
    by (simp add: new_flash_execution_def units_kept_def flashed_def)
qed (use assms(1) in simp)

lemma serve_wedged:
  assumes "wedged s j" "ecu_store_ok s" "serve e v q s = (Inr (r, d), s')"
  shows "wedged s' j"
proof (cases q)
  case (UdsSession i c)
  then have run: "control_session e (v, i, c) s = Inr ((r, d), s')" using assms(3) by (simp add: endpoint_Inr)
  show ?thesis
    using assms(2) run
  proof (cases rule: session_controls.handler_cases)
    case (first u)
    note f = control_session_first[OF first(1,2) run]
    then show ?thesis using plain_wedged[OF assms(1) f(6) first(6)] by auto
  qed (use assms(1) in simp)
next
  case (UdsReset i c)
  then have run: "reset_ecu e (v, i, c) s = Inr ((r, d), s')" using assms(3) by (simp add: endpoint_Inr)
  show ?thesis
    using assms(2) run
  proof (cases rule: diag_resets.handler_cases)
    case (first u)
    show ?thesis by (rule reset_ecu_first[OF first(1,2) run]) (rule plain_wedged[OF assms(1) _ first(6)], auto)
  qed (use assms(1) in simp)
next
  case (UdsRoutine i k c)
  then have run: "control_routine e (v, i, k, c) s = Inr ((r, d), s')" using assms(3) by (simp add: endpoint_Inr)
  show ?thesis
    using assms(2) run
  proof (cases rule: routines.handler_cases)
    case (first u)
    have n: "existing_command u (crl_command_id c) s = None" using first(2) by simp
    show ?thesis by (rule control_routine_first[OF first(1) n run]) (rule plain_wedged[OF assms(1) _ first(6)], auto)
  qed (use assms(1) in simp)
next
  case (UdsRead i c)
  then have run: "read_dids e (v, i, c) s = Inr ((r, d), s')" using assms(3) by (simp add: endpoint_Inr)
  show ?thesis
    using assms(2) run
  proof (cases rule: reads.handler_cases)
    case (first u)
    show ?thesis by (rule read_dids_first[OF first(1,2) run]) (rule plain_wedged[OF assms(1) _ first(6)], auto)
  qed (use assms(1) in simp)
next
  case (UdsWrite i k c)
  then have run: "write_did e (v, i, k, c) s = Inr ((r, d), s')" using assms(3) by (simp add: endpoint_Inr)
  show ?thesis
    using assms(2) run
  proof (cases rule: writes.handler_cases)
    case (first u)
    have n: "existing_command u (cdw_command_id c) s = None" using first(2) by simp
    show ?thesis by (rule write_did_first[OF first(1) n run]) (rule plain_wedged[OF assms(1) _ first(6)], auto)
  qed (use assms(1) in simp)
next
  case (UdsClear i c)
  then have run: "clear_dtcs e (v, i, c) s = Inr ((r, d), s')" using assms(3) by (simp add: endpoint_Inr)
  show ?thesis
    using assms(2) run
  proof (cases rule: clears.handler_cases)
    case (first u)
    note f = clear_dtcs_first[OF first(1,2) run]
    then show ?thesis using plain_wedged[OF assms(1) f(7) first(6)] by auto
  qed (use assms(1) in simp)
qed (use assms in \<open>auto simp: endpoint_Inr
       intro: request_download_wedged transfer_data_wedged request_transfer_exit_wedged security_wedged\<close>)

lemma diag_step_wedged:
  assumes "diag_step s s'" "wedged s j" "diag_inv s"
  shows "wedged s' j"
  using assms
proof (induction rule: diag_step.induct)
  case (uds e v q s res s')
  have ok: "ecu_store_ok s" using uds(4) by (simp add: diag_inv_def)
  show ?case
  proof (cases res)
    case (Inl err)
    then show ?thesis
      using uds ok by (cases q) (auto simp: endpoint_Inl intro: security_wedged)
  next
    case (Inr x)
    then show ?thesis using serve_wedged[OF uds(3) ok] uds(1) by (cases x) simp
  qed
next
  case (define_did e v i c s x s')
  then show ?case
    using wedged_moves[OF define_did(2), of s'] create_did_first(1)[OF define_did(1)] ecu_part_eq[OF create_did_first(2)[OF define_did(1)]] by (simp add: views_same_def)
next
  case (define_routine e v i rc s y s')
  then show ?case
    using wedged_moves[OF define_routine(2), of s'] create_routine_first(1)[OF define_routine(1)] ecu_part_eq[OF create_routine_first(2)[OF define_routine(1)]] by (simp add: views_same_def)
next
  case (report e v i tc s z s')
  then show ?case
    using wedged_moves[OF report(2), of s'] report_dtc_first(1)[OF report(1)] ecu_part_eq[OF report_dtc_first(2)[OF report(1)]] by (simp add: views_same_def)
next
  case (diagnose e v i cc s w s')
  then show ?case
    using wedged_moves[OF diagnose(2), of s'] diagnostic_campaign_first(1)[OF diagnose(1)] ecu_part_eq[OF diagnostic_campaign_first(2)[OF diagnose(1)]] by (simp add: views_same_def)
next
  case (simulate s s')
  have t: "diag_tables s s'" using ecu_step_tables[OF simulate(1)] by (simp add: diag_tables_def)
  have "units_move (ecus s) (ecus s')"
    using ecu_step_moved[OF simulate(1)] simulate(3) by (simp add: diag_inv_def moved_on_def)
  then show ?case using wedged_moves[OF simulate(2), of s'] diag_tables_views[OF t] by simp
qed

lemma diag_steps_wedged: "diag_steps s t \<Longrightarrow> wedged s j \<Longrightarrow> diag_inv s \<Longrightarrow> wedged t j"
  by (induction rule: rtranclp_induct) (blast intro: diag_step_wedged diag_steps_inv)+

end
