(* ===== verification/DiagProperties.thy ===== *)
theory DiagProperties
  imports DiagWedge EcuProperties
begin

text \<open>
  The properties of the diagnostic services: the invariant of every unit, who reaches security level
  1, the lock after wrong keys and the way around it, flash programming and how it gets stuck, and
  reading back what was written.
\<close>

section \<open>An example\<close>

definition du_store :: diag_store where
  "du_store = \<lparr>outbox = [], audit_log = [], ecus = [eu_body, eu_lights, eu_gateway], ecu_commands = [], ecu_snapshots = [],
     ecu_routes = [eu_route], ecu_scenarios = [], diag_sessions = [], diag_securities = [], diag_flashes = [],
     diag_dids = [], diag_routines = [], diag_routine_states = [], diag_dtcs = [], diag_commands = [], diag_campaigns = []\<rparr>"

lemma du_tables [simp]:
  "ecus du_store = [eu_body, eu_lights, eu_gateway]" "ecu_commands du_store = []" "ecu_routes du_store = [eu_route]"
  "ecu_scenarios du_store = []" "diag_sessions du_store = []" "diag_securities du_store = []" "diag_flashes du_store = []"
  "diag_dids du_store = []" "diag_commands du_store = []"
  by (simp_all add: du_store_def)

lemma du_ok [simp]: "ecu_store_ok du_store"
  by (simp add: ecu_store_ok_def ecu_key_def eu_defs)

lemma du_find [simp]: "find_ecu eu_vehicle ''body-1'' du_store = Some eu_body"
  by (simp add: find_ecu_def select_def eu_defs)

lemma du_fresh [simp]: "existing_command u i du_store = None"
  by (simp add: existing_command_def select_def)

lemma du_none [simp]: "no_diagnostics du_store" "session_at du_store j = None" "security_at du_store j = None"
  "flash_at du_store j = None"
  by (simp_all add: no_diagnostics_def session_at_def security_at_def flash_at_def select_def)

lemma du_rows [simp]:
  "session_of u du_store = new_session u" "security_of e u du_store = new_security e u" "flash_of u du_store = new_flash u"
  by (simp_all add: session_of_at security_of_at flash_of_at)

section \<open>The invariant\<close>

text \<open>C31: Whatever clients request, starting from a platform whose diagnostic services were not used yet,
  every unit stays consistent. The default session has no security level, and levels are 0 and 1. At
  most three wrong keys are counted, a unit is locked exactly while three are, a seed is pending exactly
  while a digest and an expiry are stored, never while locked and never in the default session. A
  download in progress has counted exactly the bytes it holds, within the announced size and the
  65,536 bytes of memory, and expects a block counter of one byte; a finished one has received all
  bytes and keeps only the digest. Every data identifier holds a value of its type and range.\<close>
theorem reachable_units:
  assumes "diag_steps s t" "ecu_store_ok s" "no_diagnostics s"
  shows "(\<forall>x. session_at t j = Some x \<longrightarrow> dss_security_level x \<in> {0, 1}
        \<and> (dss_session_type x = DEFAULT_SESSION \<longrightarrow> dss_security_level x = 0))
    \<and> (\<forall>y. security_at t j = Some y \<longrightarrow> 0 \<le> dsc_failed_attempts y \<and> dsc_failed_attempts y \<le> 3
        \<and> (dsc_locked_until_ms y \<noteq> None \<longleftrightarrow> dsc_failed_attempts y = 3)
        \<and> (dsc_expected_key_digest y = None \<longleftrightarrow> dsc_seed_expires_at_ms y = None)
        \<and> (dsc_expected_key_digest y \<noteq> None \<longrightarrow> dsc_locked_until_ms y = None
            \<and> (\<exists>x. session_at t j = Some x \<and> dss_session_type x \<noteq> DEFAULT_SESSION)))
    \<and> (\<forall>f. flash_at t j = Some f \<longrightarrow> dfl_next_block_sequence_counter f \<in> {0..255}
        \<and> dfl_bytes_received f \<le> dfl_memory_size f \<and> 0 \<le> dfl_memory_address f
        \<and> dfl_memory_address f + dfl_memory_size f \<le> 65536
        \<and> (dfl_status f = FLASH_DOWNLOADING \<longrightarrow> dfl_bytes_received f = int (length (dfl_image_data f)))
        \<and> (dfl_status f = FLASH_COMPLETED \<longrightarrow> dfl_bytes_received f = dfl_memory_size f \<and> dfl_image_data f = []
            \<and> dfl_image_sha256 f \<noteq> None))
    \<and> (\<forall>d\<in>set (diag_dids t). validate_did_value (did_data_type d) (did_content d) (did_minimum d) (did_maximum d)
        (did_max_length d) = Inr ())"
proof -
  have inv: "diag_inv t" by (rule diag_steps_inv[OF assms(1) no_diagnostics_inv[OF assms(2,3)]])
  then have a: "access_ok (unit_history t j) (session_at t j) (security_at t j)" "opt_all flash_ok (flash_at t j)"
    by (simp_all add: diag_inv_def)
  show ?thesis
  proof (intro conjI)
    show "\<forall>d\<in>set (diag_dids t). validate_did_value (did_data_type d) (did_content d) (did_minimum d) (did_maximum d)
        (did_max_length d) = Inr ()" using inv by (simp add: diag_inv_def did_ok_def)
  qed (use a in \<open>auto simp: access_ok_def opt_all_def session_ok_def security_ok_def flash_ok_def\<close>)
qed

lemma du_entered:
  obtains r s1 where "serve eu_env eu_vehicle (UdsSession ''body-1'' (enter ''session-1'' 1 PROGRAMMING_SESSION)) du_store = (Inr (r, False), s1)"
    "session_at s1 ''e1'' = Some (controlled (enter ''session-1'' 1 PROGRAMMING_SESSION) eu_body (new_session eu_body))"
    "security_at s1 ''e1'' = Some (cleared_security (new_security eu_env eu_body))"
    "find_ecu eu_vehicle ''body-1'' s1 = Some eu_body" "existing_command eu_body ''seed-1'' s1 = None"
    "existing_command eu_body ''key-1'' s1 = None" "existing_command eu_body ''download-1'' s1 = None"
    "flash_at s1 ''e1'' = None" "ecu_part s1 = ecu_part du_store" "diag_steps du_store s1"
proof (rule enter_serves[OF du_find du_fresh[of eu_body "''session-1''"], where e = eu_env and t = PROGRAMMING_SESSION], goal_cases)
  case (1 r s1)
  have run: "serve eu_env eu_vehicle (UdsSession ''body-1'' (enter ''session-1'' 1 PROGRAMMING_SESSION)) du_store = (Inr (r, False), s1)"
    using 1(2) by (simp add: new_session_def)
  have "diag_steps du_store s1" using diag_step.uds[OF run] by (simp add: r_into_rtranclp[of diag_step])
  then show ?case
    using 1 run by (intro 1(1)) (simp_all add: new_session_def)
qed

theorem reachable_units_witness:
  "\<exists>s1 x. diag_steps du_store s1 \<and> session_at s1 ''e1'' = Some x \<and> dss_session_type x = PROGRAMMING_SESSION
    \<and> dss_security_level x \<in> {0, 1}"
proof (rule du_entered)
  fix r s1
  assume x: "session_at s1 ''e1'' = Some (controlled (enter ''session-1'' 1 PROGRAMMING_SESSION) eu_body (new_session eu_body))"
    and steps: "diag_steps du_store s1"
  show ?thesis
    using reachable_units[OF steps du_ok du_none(1), of "''e1''"] steps x by (auto simp: controlled_def enter_def)
qed

section \<open>Security access\<close>

text \<open>C32: Security level 1 is reached only by answering a challenge. If a unit of a reachable store is at
  level 1, then its stored commands contain a seed handed out to a client and, after it, an accepted
  key whose digest is that of the key derived from exactly this seed; and neither since the seed nor
  since the key did anyone change the session or reset the unit.\<close>
theorem level_requires_answer:
  assumes "diag_steps s t" "ecu_store_ok s" "no_diagnostics s"
    and "session_at t j = Some x" "1 \<le> dss_security_level x"
  shows "\<exists>before r mid q after seed i a b. filter (\<lambda>c. dcm_ecu_id c = j) (diag_commands t) = before @ r # mid @ q # after
    \<and> dcm_service_id r = SECURITY_ACCESS \<and> map_of (dcm_result r) ''seed'' = Some (JStr seed)
    \<and> dcm_service_id q = SECURITY_ACCESS \<and> map_of (dcm_result q) ''accepted'' = Some (JBool True)
    \<and> dcm_request q = SecurityRequest i SEND_KEY_LEVEL_1 a b (Some (sha256_hex (derive_simulated_security_key seed 1)))
    \<and> (\<forall>c\<in>set (mid @ after). dcm_service_id c \<notin> {DIAGNOSTIC_SESSION_CONTROL, ECU_RESET})"
proof -
  have "diag_inv t" by (rule diag_steps_inv[OF assms(1) no_diagnostics_inv[OF assms(2,3)]])
  then have "access_ok (unit_history t j) (session_at t j) (security_at t j)" by (simp add: diag_inv_def)
  then have "answered (unit_history t j)" using assms(4,5) by (simp add: access_ok_def opt_all_def)
  then obtain xs r ys q zs d where h: "unit_history t j = xs @ r # ys @ q # zs" "seed_row d r" "key_row d q"
      "list_all (\<lambda>c. \<not> leaves_session c) (ys @ zs)"
    unfolding answered_def by blast
  obtain seed where "map_of (dcm_result r) ''seed'' = Some (JStr seed)" "d = sha256_hex (derive_simulated_security_key seed 1)"
      "dcm_service_id r = SECURITY_ACCESS"
    using h(2) by (auto simp: seed_row_def)
  moreover obtain i a b where "dcm_request q = SecurityRequest i SEND_KEY_LEVEL_1 a b (Some d)"
      "dcm_service_id q = SECURITY_ACCESS" "map_of (dcm_result q) ''accepted'' = Some (JBool True)"
    using h(3) by (auto simp: key_row_def)
  moreover have "\<forall>c\<in>set (ys @ zs). dcm_service_id c \<notin> {DIAGNOSTIC_SESSION_CONTROL, ECU_RESET}"
    using h(4) by (auto simp: list_all_iff leaves_session_def)
  ultimately show ?thesis using h(1) unfolding unit_history_def by blast
qed

lemma du_ids [simp]: "diagnostic_id_ok ''seed-1''" "diagnostic_id_ok ''key-1''"
  by code_simp+

lemma du_unlocked:
  obtains s3 x where "diag_steps du_store s3" "session_at s3 ''e1'' = Some x" "dss_security_level x = 1"
    "dss_session_type x = PROGRAMMING_SESSION" "dss_version x = 3"
    "existing_command eu_body ''download-1'' s3 = None" "flash_at s3 ''e1'' = None" "ecu_part s3 = ecu_part du_store"
proof (rule du_entered)
  fix r s1
  let ?x = "controlled (enter ''session-1'' 1 PROGRAMMING_SESSION) eu_body (new_session eu_body)"
    and ?z = "cleared_security (new_security eu_env eu_body)"
  assume x: "session_at s1 ''e1'' = Some ?x" and z: "security_at s1 ''e1'' = Some ?z"
    and u: "find_ecu eu_vehicle ''body-1'' s1 = Some eu_body"
    and ids: "existing_command eu_body ''seed-1'' s1 = None" "existing_command eu_body ''key-1'' s1 = None"
      "existing_command eu_body ''download-1'' s1 = None"
    and rest1: "flash_at s1 ''e1'' = None" "ecu_part s1 = ecu_part du_store"
    and steps: "diag_steps du_store s1"
  have ty: "dss_session_type ?x \<noteq> DEFAULT_SESSION" "dsc_locked_until_ms ?z = None" "dss_version ?x = 2" "dsc_version ?z = 2"
    by (simp_all add: controlled_def enter_def cleared_security_def new_session_def new_security_def)
  show thesis
  proof (rule seed_follows[OF u ids(1) _ ty(1) _ ty(2), where e = eu_env])
    fix r s2 seed y
    assume run: "serve eu_env eu_vehicle (UdsSecurity ''body-1'' (ask_seed ''seed-1'' (dss_version ?x) (dsc_version ?z))) s1 = (Inr (r, False), s2)"
      and y: "(seed, y) = seeded eu_body ?z"
      and at2: "session_at s2 = (session_at s1)(ecu_id eu_body \<mapsto> ?x)" "security_at s2 = (security_at s1)(ecu_id eu_body \<mapsto> y)"
      and rest2: "flash_at s2 = flash_at s1" "ecu_part s2 = ecu_part s1"
      and u2: "find_ecu eu_vehicle ''body-1'' s2 = Some eu_body"
      and ids2: "\<And>j. existing_command eu_body j s1 = None \<Longrightarrow> j \<noteq> ''seed-1'' \<Longrightarrow> existing_command eu_body j s2 = None"
    have none: "existing_command eu_body ''key-1'' s2 = None" "existing_command eu_body ''download-1'' s2 = None"
      using ids2 ids(2,3) by simp_all
    have yv: "dsc_version y = 3" using y ty(4) by (simp add: seeded_def Let_def)
    have step2: "diag_step s1 s2"
      by (rule diag_step.uds[OF run]) (simp add: ask_seed_def security_access_command_ok_def key_matches_operation_def ty opt_all_def)
    show thesis
    proof (rule key_follows[OF u2 none(1) _ ty(1) _ ty(2) y, where e = eu_env])
      fix q s3
      assume run3: "serve eu_env eu_vehicle (UdsSecurity ''body-1'' (send_key ''key-1'' (dss_version ?x) (dsc_version y)
          (derive_simulated_security_key seed 1))) s2 = (Inr (q, False), s3)"
        and at3: "session_at s3 = (session_at s2)(ecu_id eu_body \<mapsto> unlock_session eu_body ?x)"
        and rest3: "flash_at s3 = flash_at s2" "ecu_part s3 = ecu_part s2"
        and ids3: "\<And>j. existing_command eu_body j s2 = None \<Longrightarrow> j \<noteq> ''key-1'' \<Longrightarrow> existing_command eu_body j s3 = None"
      have "diag_step s2 s3"
        by (rule diag_step.uds[OF run3])
          (simp add: send_key_def security_access_command_ok_def key_matches_operation_def ty yv opt_all_def derived_key_ok)
      then have steps3: "diag_steps du_store s3" using steps step2 by (meson rtranclp.rtrancl_into_rtrancl)
      show thesis
        by (rule that[OF steps3, of "unlock_session eu_body ?x"])
          (use at3 rest1 rest2 rest3 ids3 none(2) ty in \<open>simp_all add: unlock_session_def controlled_def enter_def\<close>)
    qed (simp_all add: at2)
  qed (simp_all add: x z)
qed

theorem level_requires_answer_witness:
  "\<exists>s3 x before r mid q after seed. diag_steps du_store s3 \<and> session_at s3 ''e1'' = Some x \<and> dss_security_level x = 1
    \<and> filter (\<lambda>c. dcm_ecu_id c = ''e1'') (diag_commands s3) = before @ r # mid @ q # after
    \<and> map_of (dcm_result r) ''seed'' = Some (JStr seed)"
proof (rule du_unlocked)
  fix s3 x
  assume s3: "diag_steps du_store s3" "session_at s3 ''e1'' = Some x" "dss_security_level x = 1"
  show ?thesis
    using level_requires_answer[OF s3(1) du_ok du_none(1) s3(2)] s3 by (simp, elim exE conjE) blast
qed

text \<open>C33: The delay after three wrong keys protects nothing. While the lock of a unit runs, every seed or key
  is refused with the code for a delay that has not expired; but changing the session, even into the
  session the unit is in, is accepted, and the next request hands out a seed at the same simulation
  time, with the counter of wrong keys back at zero. So two cheap requests buy three more guesses,
  without limit.\<close>
theorem lockout_bypassed:
  assumes "find_ecu v i s = Some u" "session_at s (ecu_id u) = Some x" "dss_session_type x \<noteq> DEFAULT_SESSION"
    and "security_at s (ecu_id u) = Some y" "dsc_locked_until_ms y = Some until" "ecu_simulation_time_ms u < until"
    and "existing_command u k s = None" "existing_command u k' s = None" "k \<noteq> k'"
  shows "(\<forall>c. existing_command u (csa_command_id c) s = None \<and> csa_expected_session_version c = dss_version x
        \<and> csa_expected_security_version c = dsc_version y
        \<longrightarrow> (\<exists>reason s'. serve e v (UdsSecurity i c) s = (Inl (DiagnosticContract reason 0x37), s')))
    \<and> (\<exists>r s1 q s2 seed z. serve e v (UdsSession i (enter k (dss_version x) (dss_session_type x))) s = (Inr (r, False), s1)
        \<and> serve e v (UdsSecurity i (ask_seed k' (dss_version x + 1) (dsc_version y + 1))) s1 = (Inr (q, False), s2)
        \<and> map_of (dcm_result q) ''seed'' = Some (JStr seed) \<and> find_ecu v i s2 = Some u
        \<and> security_at s2 (ecu_id u) = Some z \<and> dsc_failed_attempts z = 0 \<and> dsc_locked_until_ms z = None)"
proof (intro conjI allI impI)
  fix c :: security_access_command
  assume c: "existing_command u (csa_command_id c) s = None \<and> csa_expected_session_version c = dss_version x
        \<and> csa_expected_security_version c = dsc_version y"
  have "\<not> lock_over (ecu_simulation_time_ms u) y" using assms(5,6) by (simp add: lock_over_def)
  then show "\<exists>reason s'. serve e v (UdsSecurity i c) s = (Inl (DiagnosticContract reason 0x37), s')"
    using locked_refused[OF assms(1), of c e] c assms(2-4) by (simp add: session_of_at security_of_at)
next
  let ?x = "controlled (enter k (dss_version x) (dss_session_type x)) u x" and ?z = "cleared_security y"
  have rows: "session_of u s = x" "security_of e u s = y" using assms(2,4) by (simp_all add: session_of_at security_of_at)
  have ty: "dss_session_type ?x \<noteq> DEFAULT_SESSION" "dsc_locked_until_ms ?z = None" "dss_version ?x = dss_version x + 1"
      "dsc_version ?z = dsc_version y + 1" "dsc_failed_attempts ?z = 0"
    using assms(3) by (simp_all add: controlled_def enter_def cleared_security_def)
  obtain r s1 where s1: "serve e v (UdsSession i (enter k (dss_version x) (dss_session_type x))) s = (Inr (r, False), s1)"
      "session_at s1 (ecu_id u) = Some ?x" "security_at s1 (ecu_id u) = Some ?z" "find_ecu v i s1 = Some u"
      "existing_command u k' s1 = None"
    by (rule enter_serves[OF assms(1,7), where e = e and t = "dss_session_type x"]) (use rows assms(8,9) in auto)
  obtain q s2 seed z where s2: "serve e v (UdsSecurity i (ask_seed k' (dss_version ?x) (dsc_version ?z))) s1 = (Inr (q, False), s2)"
      "(seed, z) = seeded u ?z" "map_of (dcm_result q) ''seed'' = Some (JStr seed)" "security_at s2 (ecu_id u) = Some z"
      "find_ecu v i s2 = Some u"
    by (rule seed_follows[OF s1(4,5,2) ty(1) s1(3) ty(2), where e = e]) auto
  have "dsc_failed_attempts z = 0 \<and> dsc_locked_until_ms z = None" using s2(2) ty(2,5) by (simp add: seeded_def Let_def)
  then show "\<exists>r s1 q s2 seed z. serve e v (UdsSession i (enter k (dss_version x) (dss_session_type x))) s = (Inr (r, False), s1)
        \<and> serve e v (UdsSecurity i (ask_seed k' (dss_version x + 1) (dsc_version y + 1))) s1 = (Inr (q, False), s2)
        \<and> map_of (dcm_result q) ''seed'' = Some (JStr seed) \<and> find_ecu v i s2 = Some u
        \<and> security_at s2 (ecu_id u) = Some z \<and> dsc_failed_attempts z = 0 \<and> dsc_locked_until_ms z = None"
    using s1(1) s2 ty(3,4)
    by (intro exI[of _ r] exI[of _ s1] exI[of _ q] exI[of _ s2] exI[of _ seed] exI[of _ z]) simp
qed

definition du_locked :: diag_store where
  "du_locked = du_store\<lparr>
     diag_sessions := [(new_session eu_body)\<lparr>dss_session_type := EXTENDED_SESSION, dss_version := 2\<rparr>],
     diag_securities := [(new_security eu_env eu_body)\<lparr>dsc_failed_attempts := 3, dsc_locked_until_ms := Some 10000\<rparr>]\<rparr>"

theorem lockout_bypassed_witness:
  "\<exists>r s1 q s2 seed. serve eu_env eu_vehicle (UdsSession ''body-1'' (enter ''session-1'' 2 EXTENDED_SESSION)) du_locked = (Inr (r, False), s1)
    \<and> serve eu_env eu_vehicle (UdsSecurity ''body-1'' (ask_seed ''seed-1'' 3 2)) s1 = (Inr (q, False), s2)
    \<and> map_of (dcm_result q) ''seed'' = Some (JStr seed)"
proof -
  let ?x = "(new_session eu_body)\<lparr>dss_session_type := EXTENDED_SESSION, dss_version := 2\<rparr>"
  let ?y = "(new_security eu_env eu_body)\<lparr>dsc_failed_attempts := 3, dsc_locked_until_ms := Some 10000\<rparr>"
  have u: "find_ecu eu_vehicle ''body-1'' du_locked = Some eu_body"
    by (simp add: du_locked_def find_ecu_def select_def eu_defs)
  have at: "session_at du_locked (ecu_id eu_body) = Some ?x" "security_at du_locked (ecu_id eu_body) = Some ?y"
    by (simp_all add: du_locked_def session_at_def security_at_def select_def new_session_def new_security_def)
  have none: "existing_command eu_body k du_locked = None" for k
    by (simp add: du_locked_def existing_command_def select_def)
  have ty: "dss_session_type ?x \<noteq> DEFAULT_SESSION" "dsc_locked_until_ms ?y = Some 10000" "ecu_simulation_time_ms eu_body < 10000"
    and ne: "''session-1'' \<noteq> ''seed-1''" by simp_all
  show ?thesis
    using lockout_bypassed[OF u at(1) ty(1) at(2) ty(2,3) none none ne, of eu_env]
    by (elim conjE) (simp add: new_security_def, blast)
qed

section \<open>Flash programming\<close>

text \<open>C34: Flash programming delivers the image. In the programming session at level 1, a download request
  for an idle unit followed by the image in blocks of one to 256 bytes, each with the next block
  counter (modulo 256) and transfer version, and a transfer exit with the digest of the image are all
  accepted; what the unit has received before the exit is the image byte for byte, and the exit gives
  the unit the new firmware version and its next version, keeping only the digest of the image.\<close>
theorem image_flashed:
  fixes s :: "'a diag_store_scheme"
  assumes "ecu_store_ok s" "find_ecu v i s = Some u"
    and "dss_session_type (session_of u s) = PROGRAMMING_SESSION" "1 \<le> dss_security_level (session_of u s)"
    and "dsc_target_level (security_of e u s) \<in> {0, 1}" "dfl_status (flash_of u s) \<noteq> FLASH_DOWNLOADING"
    and "list_all block_ok bs" "length ks = length bs" "distinct (kd # ke # ks)"
    and "\<forall>k\<in>set (kd # ke # ks). existing_command u k s = None"
    and "d = \<lparr>cfd_command_id = kd, cfd_memory_address = address, cfd_memory_size = int (length (concat bs)),
      cfd_firmware_version = firmware, cfd_data_format_identifier = 0, cfd_expected_ecu_version = ecu_version u,
      cfd_expected_session_version = dss_version (session_of u s),
      cfd_expected_security_version = dsc_version (security_of e u s)\<rparr>"
    and "x = \<lparr>cfe_command_id = ke, cfe_expected_transfer_version = dfl_version (flash_of u s) + 1 + int (length bs),
      cfe_expected_ecu_version = ecu_version u, cfe_expected_sha256 = sha256_bytes (concat bs)\<rparr>"
  shows "\<exists>r0 s0 s1 r s2. request_download e (v, i, d) s = Inr ((r0, False), s0)
    \<and> send_blocks e v i (block_commands ks 1 (dfl_version (flash_of u s) + 1) bs) s0 = Inr s1
    \<and> dfl_image_data (flash_of u s1) = concat bs
    \<and> request_transfer_exit e (v, i, x) s1 = Inr ((r, False), s2)
    \<and> find_ecu v i s2 = Some (u\<lparr>ecu_profile_version := firmware, ecu_version := ecu_version u + 1\<rparr>)
    \<and> dfl_status (flash_of u s2) = FLASH_COMPLETED \<and> dfl_image_data (flash_of u s2) = []
    \<and> dfl_image_sha256 (flash_of u s2) = Some (sha256_bytes (concat bs))"
proof -
  let ?f0 = "started_transfer d u (flash_of u s)"
  have act: "require_active_flash_access (session_of u s) (security_of e u s) = Inr ()"
    using assms(3-5) by (auto simp: require_active_flash_access_def)
  have none: "existing_command u (cfd_command_id d) s = None" using assms(10,11) by simp
  obtain r0 s0 where dl: "request_download e (v, i, d) s = Inr ((r0, False), s0)"
    using request_download_serves[OF assms(1,2) none, where e = e] act assms(6,11) by (auto simp: require_flash_access_def)
  note f = request_download_first[OF assms(1,2) none dl]
  have r0: "dcm_ecu_id r0 = ecu_id u" "dcm_command_id r0 = kd" using f(4) assms(11) by (simp_all add: new_flash_execution_def)
  note rows0 = effect_rows[OF f(8) r0(1)]
  have u0: "find_ecu v i s0 = Some u" and ok0: "ecu_store_ok s0"
    using find_part[OF f(6)] ecu_part_eq[OF f(6)] assms(1,2) by simp_all
  have free: "existing_command u k s0 = None" if "k \<in> set (ke # ks)" for k
  proof -
    have "kd \<noteq> k" "existing_command u k s = None" using that assms(9,10) by auto
    then show ?thesis using existing_after[OF f(8), of u k] r0(2) by simp
  qed
  have start: "dfl_next_block_sequence_counter ?f0 = 1" "dfl_version ?f0 = dfl_version (flash_of u s) + 1"
      "dfl_status ?f0 = FLASH_DOWNLOADING" "dfl_max_block_length ?f0 = 256" "dfl_bytes_received ?f0 = 0"
      "dfl_memory_size ?f0 = int (length (concat bs))" "dfl_image_data ?f0 = []" "dfl_firmware_version ?f0 = firmware"
      "dfl_target_ecu_version ?f0 = ecu_version u"
    by (simp_all add: started_transfer_def assms(11))
  obtain s1 where s1: "send_blocks e v i (block_commands ks 1 (dfl_version (flash_of u s) + 1) bs) s0 = Inr s1"
      "flash_of u s1 = after_blocks bs ?f0" "session_of u s1 = session_of u s" "security_of e u s1 = security_of e u s"
      "ecu_part s1 = ecu_part s0" "existing_command u ke s1 = None"
    using blocks_arrive[OF u0, of e bs ks] act assms(7,8,9) free rows0 start by auto
  note g = after_blocks_fields[of bs ?f0]
  have u1: "find_ecu v i s1 = Some u" and ok1: "ecu_store_ok s1"
    using find_part[OF s1(5)] ecu_part_eq[OF s1(5)] u0 ok0 by simp_all
  have none1: "existing_command u (cfe_command_id x) s1 = None" using s1(6) assms(12) by simp
  obtain r s2 where ex: "request_transfer_exit e (v, i, x) s1 = Inr ((r, False), s2)"
  proof -
    have "require_active_flash_access (session_of u s1) (security_of e u s1) = Inr ()"
      "dfl_status (flash_of u s1) = FLASH_DOWNLOADING" "cfe_expected_transfer_version x = dfl_version (flash_of u s1)"
      "cfe_expected_ecu_version x = ecu_version u" "ecu_version u = dfl_target_ecu_version (flash_of u s1)"
      "dfl_bytes_received (flash_of u s1) = dfl_memory_size (flash_of u s1)"
      "sha256_bytes (dfl_image_data (flash_of u s1)) = cfe_expected_sha256 x"
      using act s1(2-4) g start assms(12) by simp_all
    then show thesis using request_transfer_exit_serves[OF ok1 u1 none1] that by blast
  qed
  note h = request_transfer_exit_first[OF ok1 u1 none1 ex]
  have r: "dcm_ecu_id r = ecu_id u" using h(8) by (simp add: new_flash_execution_def flashed_def)
  let ?u = "flashed (completed_transfer (flash_of u s1)) u"
  have same: "ecu_vehicle_id ?u = ecu_vehicle_id u" "ecu_identifier ?u = ecu_identifier u" "ecu_id ?u = ecu_id u"
    by (simp_all add: flashed_def)
  have only: "y = u" if "y \<in> set (ecus s1)" "ecu_id y = ecu_id ?u" for y
    using unit_unique[OF _ _ that(1), of u] find_ecu_row[OF u1] ok1 that(2) same(3) by (simp add: ecu_store_ok_def)
  have "find_ecu v i s2 = Some ?u"
    using u1 unfolding find_ecu_def exit_kept(2)[OF ok1 u1 none1 ex]
    by (rule select_update_same) (use same only in auto)
  then have "find_ecu v i s2 = Some (u\<lparr>ecu_profile_version := firmware, ecu_version := ecu_version u + 1\<rparr>)"
    using s1(2) g start(8) by (simp add: flashed_def completed_firmware)
  moreover have "flash_of u s2 = completed_transfer (after_blocks bs ?f0)" using effect_rows(3)[OF h(12) r] s1(2) by simp
  ultimately show ?thesis
    using dl s1(1,2) ex g start(7) by (intro exI[of _ r0] exI[of _ s0] exI[of _ s1] exI[of _ r] exI[of _ s2]) (simp add: completed_transfer_def)
qed

text \<open>The body controller in a programming session, unlocked.\<close>

definition du_open :: "diagnostic_flash_state list \<Rightarrow> diag_store" where
  "du_open fs = du_store\<lparr>
     diag_sessions := [(new_session eu_body)\<lparr>dss_session_type := PROGRAMMING_SESSION, dss_security_level := 1, dss_version := 3\<rparr>],
     diag_securities := [new_security eu_env eu_body], diag_flashes := fs\<rparr>"

lemma du_open_facts [simp]:
  "ecu_store_ok (du_open fs)" "find_ecu eu_vehicle ''body-1'' (du_open fs) = Some eu_body"
  "existing_command u k (du_open fs) = None"
  "session_of eu_body (du_open fs) = (new_session eu_body)\<lparr>dss_session_type := PROGRAMMING_SESSION, dss_security_level := 1, dss_version := 3\<rparr>"
  "security_of e eu_body (du_open fs) = new_security eu_env eu_body"
  "flash_at (du_open fs) j = select (\<lambda>x. dfl_ecu_id x = j) fs"
  by (simp_all add: du_open_def ecu_store_ok_def ecu_key_def find_ecu_def existing_command_def session_of_at security_of_at
      session_at_def security_at_def flash_at_def select_def new_session_def new_security_def eu_defs)

definition du_blocks :: "nat list list" where
  "du_blocks = [replicate 256 170, [1, 2, 3]]"

theorem image_flashed_witness:
  "\<exists>(s1 :: diag_store) s2 r. request_transfer_exit eu_env (eu_vehicle, ''body-1'', \<lparr>cfe_command_id = ''exit-1'', cfe_expected_transfer_version = 4,
      cfe_expected_ecu_version = 1, cfe_expected_sha256 = sha256_bytes (concat du_blocks)\<rparr>) s1 = Inr ((r, False), s2)
    \<and> dfl_image_data (flash_of eu_body s1) = replicate 256 170 @ [1, 2, 3]
    \<and> find_ecu eu_vehicle ''body-1'' s2 = Some (eu_body\<lparr>ecu_profile_version := ''2.1.0'', ecu_version := 2\<rparr>)"
proof -
  have f: "flash_of eu_body (du_open []) = new_flash eu_body" by (simp add: flash_of_at select_Nil)
  have blocks: "list_all block_ok du_blocks" by (simp add: du_blocks_def block_ok_def list_all_iff)
  have len: "length [''block-1'', ''block-2''] = length du_blocks" by (simp add: du_blocks_def)
  show ?thesis
    using image_flashed[OF du_open_facts(1,2) _ _ _ _ blocks len, of "[]" eu_env "''download-1''" "''exit-1''" _ 0 "''2.1.0''", OF _ _ _ _ _ _ refl refl]
    by (simp add: f new_session_def new_security_def new_flash_def du_blocks_def, elim exE conjE)
      (intro exI conjI; assumption)
qed

section \<open>A download that cannot end\<close>

text \<open>C35: Flash programming can be lost for good. If the simulation of a unit is advanced while a download
  into it is in progress, then from that point on, whatever any client requests in whatever order, no
  transfer exit and no new download of the unit ever takes effect again: a download request or a
  transfer exit that is answered positively is the repetition of an older command.\<close>
theorem download_wedged:
  assumes "diag_steps s0 s" "ecu_store_ok s0" "no_diagnostics s0"
    and "find_ecu v i s = Some u" "flash_at s (ecu_id u) = Some f" "dfl_status f = FLASH_DOWNLOADING"
    and "dfl_target_ecu_version f \<le> ecu_version u"
    and "execute_ecu_advance e (v, i, c) s = Inr ((r, False), s')" "0 \<le> ad_duration_ms c" "diag_steps s' t"
    and "find_ecu w k t = Some u'" "ecu_id u' = ecu_id u"
  shows "(\<forall>e cd q d t'. serve e w (UdsDownload k cd) t = (Inr (q, d), t') \<longrightarrow> d \<and> t' = t)
    \<and> (\<forall>e ce q d t'. serve e w (UdsExit k ce) t = (Inr (q, d), t') \<longrightarrow> d \<and> t' = t)"
proof -
  have inv: "diag_inv s" by (rule diag_steps_inv[OF assms(1) no_diagnostics_inv[OF assms(2,3)]])
  then have ok: "ecu_store_ok s" by (simp add: diag_inv_def)
  have w: "wedged s' (ecu_id u) \<and> diag_inv s'"
    using assms(8)
  proof (cases rule: advances.cases_run)
    case (first u0 u1)
    then have u0: "u0 = u" using assms(4) by simp
    have com: "ecu_committed (ad_command_id c) u s r u1 s'" using first(5) u0 by simp
    have t: "diag_tables s s'" using ecu_committed_tables(7)[OF com] by (simp add: diag_tables_def)
    have ok': "ecu_store_ok s'" using advances.run_ok[OF ok assms(8)] by simp
    have u1: "u1 \<in> set (ecus s')" "ecu_id u1 = ecu_id u" "ecu_version u1 = ecu_version u + 1"
      using com find_ecu_row[OF assms(4)] ecu_committed_tables(1)[OF com]
      by (auto simp: ecu_committed_def same_unit_def update_row_def)
    have "wedged s' (ecu_id u)"
      using assms(5-7) diag_tables_views[OF t] u1 unfolding wedged_def by (intro exI[of _ f] exI[of _ u1]) simp
    moreover have "diag_inv s'"
      using inv ok' diag_tables_fields[OF t] by (intro diag_inv_same[OF inv diag_tables_same[OF t]]) (auto simp: diag_inv_def)
    ultimately show ?thesis by simp
  qed simp
  have wt: "wedged t (ecu_id u')" "ecu_store_ok t"
    using diag_steps_wedged[OF assms(10)] diag_steps_inv[OF assms(10)] w assms(12) by (simp_all add: diag_inv_def)
  have "d \<and> t' = t" if "request_download e (w, k, cd) t = Inr ((q, d), t')" for e cd q d t'
    using wedged_download[OF wt assms(11) that] wt(2) that
    by (cases rule: downloads.handler_cases[OF wt(2) that]) auto
  moreover have "d \<and> t' = t" if "request_transfer_exit e (w, k, ce) t = Inr ((q, d), t')" for e ce q d t'
    using wedged_exit[OF wt assms(11) that] wt(2) that
    by (cases rule: exits.handler_cases[OF wt(2) that]) auto
  ultimately show ?thesis unfolding serve.simps endpoint_Inr by blast
qed

definition du_download :: "int \<Rightarrow> flash_request_download_command" where
  "du_download m = \<lparr>cfd_command_id = ''download-1'', cfd_memory_address = 0, cfd_memory_size = 259, cfd_firmware_version = ''2.1.0'',
     cfd_data_format_identifier = 0, cfd_expected_ecu_version = 1, cfd_expected_session_version = 3,
     cfd_expected_security_version = m\<rparr>"

lemma du_downloading:
  obtains s4 f where "diag_steps du_store s4" "flash_at s4 (ecu_id eu_body) = Some f" "dfl_status f = FLASH_DOWNLOADING"
    "dfl_target_ecu_version f = 1" "find_ecu eu_vehicle ''body-1'' s4 = Some eu_body" "ecu_commands s4 = []"
proof (rule du_unlocked)
  fix s3 x
  assume s3: "diag_steps du_store s3" "session_at s3 ''e1'' = Some x" "dss_security_level x = 1"
      "dss_session_type x = PROGRAMMING_SESSION" "dss_version x = 3" "existing_command eu_body ''download-1'' s3 = None"
      "flash_at s3 ''e1'' = None" "ecu_part s3 = ecu_part du_store"
  let ?y = "security_of eu_env eu_body s3" and ?d = "du_download (dsc_version (security_of eu_env eu_body s3))"
  have inv: "diag_inv s3" by (rule diag_steps_inv[OF s3(1) no_diagnostics_inv[OF du_ok du_none(1)]])
  then have y: "dsc_target_level ?y \<in> {0, 1}" "1 \<le> dsc_version ?y" "ecu_store_ok s3"
    using rows_ok(2)[OF inv, of eu_env eu_body] by (auto simp: security_ok_def diag_inv_def)
  have u: "find_ecu eu_vehicle ''body-1'' s3 = Some eu_body" using find_part[OF s3(8)] by simp
  have rows: "session_of eu_body s3 = x" "flash_of eu_body s3 = new_flash eu_body" using s3(2,7) by (simp_all add: session_of_at flash_of_at)
  have none: "existing_command eu_body (cfd_command_id ?d) s3 = None" using s3(6) by (simp add: du_download_def)
  obtain r s4 where run: "request_download eu_env (eu_vehicle, ''body-1'', ?d) s3 = Inr ((r, False), s4)"
    using request_download_serves[OF y(3) u none, where e = eu_env] rows s3(3-5) y(1)
    by (auto simp: du_download_def require_flash_access_def require_active_flash_access_def new_flash_def)
  note f = request_download_first[OF y(3) u none run]
  have "flash_request_download_command_ok ?d" using y(2)
    by (simp add: du_download_def flash_request_download_command_ok_def int_between_def len_between_def)
      (simp add: diagnostic_id_ok_def len_between_def is_lower_def is_upper_def is_digit_def)
  then have "diag_step s3 s4"
    using diag_step.uds[of eu_env eu_vehicle "UdsDownload ''body-1'' ?d" s3 "Inr (r, False)" s4] run by (simp add: endpoint_Inr)
  then have "diag_steps du_store s4" using s3(1) by simp
  moreover have "flash_at s4 (ecu_id eu_body) = Some (started_transfer ?d eu_body (new_flash eu_body))"
    using f(4,8) rows by (simp add: uds_effect_def new_flash_execution_def)
  ultimately show thesis
    using that[of s4] find_part[OF f(6)] u f(6) s3(8) by (simp add: started_transfer_def ecu_part_def)
qed

theorem download_wedged_witness:
  "\<exists>s4 r s5. diag_steps du_store s4 \<and> execute_ecu_advance eu_env (eu_vehicle, ''body-1'', eu_advance 1 60) s4 = Inr ((r, False), s5)
    \<and> (\<forall>e ce q d t'. serve e eu_vehicle (UdsExit ''body-1'' ce) s5 = (Inr (q, d), t') \<longrightarrow> d \<and> t' = s5)"
proof (rule du_downloading)
  fix s4 f
  assume s4: "diag_steps du_store s4" "flash_at s4 (ecu_id eu_body) = Some f" "dfl_status f = FLASH_DOWNLOADING"
      "dfl_target_ecu_version f = 1" "find_ecu eu_vehicle ''body-1'' s4 = Some eu_body" "ecu_commands s4 = []"
  have none: "existing_simulation_command eu_body (ad_command_id (eu_advance 1 60)) s4 = None"
    using s4(6) by (simp add: existing_simulation_command_def select_Nil)
  obtain r s5 where run: "execute_ecu_advance eu_env (eu_vehicle, ''body-1'', eu_advance 1 60) s4 = Inr ((r, False), s5)"
    using advance_succeeds[OF s4(5) none _ _ unit_valid_payload[OF eu_body_valid], where b = eu_counters and e = eu_env] eu_transitions(1)
    by (auto simp: eu_advance_def state_of_def)
  have inv: "diag_inv s4" by (rule diag_steps_inv[OF s4(1) no_diagnostics_inv[OF du_ok du_none(1)]])
  have ok: "ecu_store_ok s4" using inv by (simp add: diag_inv_def)
  have g: "units_kept s4 s5"
    using advances.run_ok[OF ok run] advance_moves[OF ok run] by (intro units_kept_grows) (simp_all add: eu_advance_def)
  obtain u' where u': "find_ecu eu_vehicle ''body-1'' s5 = Some u'" "ecu_id u' = ecu_id eu_body"
    using find_ecu_kept[OF g s4(5)] by blast
  have le: "dfl_target_ecu_version f \<le> ecu_version eu_body" "0 \<le> ad_duration_ms (eu_advance 1 60)"
    using s4(4) by (simp_all add: eu_advance_def)
  show ?thesis
    using download_wedged[OF s4(1) du_ok du_none(1) s4(5,2,3) le(1) run le(2) rtranclp.rtrancl_refl u'] s4(1) run by blast
qed

section \<open>Data identifiers\<close>

lemma find_did_written:
  assumes "find_did u k s = Some x" "diag_dids s' = update_row did_key (written y x) (diag_dids s)"
  shows "find_did u j s' = (if j = k then Some (written y x) else find_did u j s)"
  using assms find_did_row[OF assms(1)] unfolding find_did_def assms(2) select_update_key by auto

lemma read_row:
  assumes "map_ok (require_did True u s) ks = Inr ds"
  shows "length ds = length ks \<and> (\<forall>n<length ks. find_did u (ks ! n) s = Some (ds ! n))"
  using assms by (auto simp: map_ok_Inr list_all2_conv_all_nth require_did_def ok_simps)

text \<open>C36: What was written to a data identifier is what is read. After a write that took effect, the value was
  of the type and range of the identifier, and the next successful read of any list of identifiers, by
  whoever, returns for this one the written value with the next version, and for every other one what
  was stored before. A second write prepared against the version before the write is refused.\<close>
theorem written_value_read:
  assumes "ecu_store_ok s" "find_ecu v i s = Some u" "find_did u k s = Some x"
    and "write_did e (v, i, k, c) s = Inr ((r, False), s')"
    and "read_dids e' (v, i, q) s' = Inr ((r', False), s'')"
  shows "did_version x = cdw_expected_did_version c
    \<and> validate_did_value (did_data_type x) (cdw_value c) (did_minimum x) (did_maximum x) (did_max_length x) = Inr ()
    \<and> (\<exists>items. map_of (dcm_result r') ''items'' = Some (JArr items) \<and> length items = length (cdr_identifiers q)
        \<and> (\<forall>n<length items. items ! n = did_item (if cdr_identifiers q ! n = k
            then x\<lparr>did_content := cdw_value c, did_version := did_version x + 1\<rparr>
            else the (find_did u (cdr_identifiers q ! n) s))))
    \<and> (\<forall>e c'. existing_command u (cdw_command_id c') s' = None \<and> cdw_expected_did_version c' = did_version x
        \<longrightarrow> isl (write_did e (v, i, k, c') s'))"
proof -
  have none: "existing_command u (cdw_command_id c) s = None"
    using assms(1,4) by (cases rule: writes.handler_cases) (use assms(2) in auto)
  obtain result where w: "cdw_expected_did_version c = did_version x"
      "validate_did_value (did_data_type x) (cdw_value c) (did_minimum x) (did_maximum x) (did_max_length x) = Inr ()"
      "ecu_part s' = ecu_part s" "diag_dids s' = update_row did_key (written (cdw_value c) x) (diag_dids s)"
    by (rule write_did_first[OF assms(2) none assms(4)]) (use assms(3) in simp)
  have u': "find_ecu v i s' = Some u" and ok': "ecu_store_ok s'"
    using find_part[OF w(3)] ecu_part_eq[OF w(3)] assms(1,2) by simp_all
  note found = find_did_written[OF assms(3) w(4)]
  have none': "existing_command u (cdr_command_id q) s' = None"
    using ok' assms(5) by (cases rule: reads.handler_cases) (use u' in auto)
  obtain ds where ds: "map_ok (require_did True u s') (cdr_identifiers q) = Inr ds"
      "map_of (dcm_result r') ''items'' = Some (JArr (map did_item ds))"
    by (rule read_dids_first[OF u' none' assms(5)]) simp
  have now: "find_did u k s' = Some (written (cdw_value c) x)" "did_version (written (cdw_value c) x) = did_version x + 1"
    using found[of k] by (simp_all add: written_def)
  have "isl (write_did e (v, i, k, c') s')"
    if c': "existing_command u (cdw_command_id c') s' = None" "cdw_expected_did_version c' = did_version x" for e c'
  proof (cases "write_did e (v, i, k, c') s'")
    case (Inr y)
    then obtain p d t where run: "write_did e (v, i, k, c') s' = Inr ((p, d), t)" by (metis surj_pair)
    show ?thesis
      by (rule write_did_first[OF u' c'(1) run]) (use now c'(2) in simp)
  qed simp
  moreover have "items ! n = did_item (if cdr_identifiers q ! n = k
            then x\<lparr>did_content := cdw_value c, did_version := did_version x + 1\<rparr>
            else the (find_did u (cdr_identifiers q ! n) s))" if "n < length items" "items = map did_item ds" for n items
  proof -
    have "Some (ds ! n) = (if cdr_identifiers q ! n = k then Some (written (cdw_value c) x) else find_did u (cdr_identifiers q ! n) s)"
      using read_row[OF ds(1)] found[of "cdr_identifiers q ! n"] that by auto
    then have "ds ! n = (if cdr_identifiers q ! n = k then written (cdw_value c) x else the (find_did u (cdr_identifiers q ! n) s))"
      by (metis option.sel)
    then show ?thesis using that by (simp add: written_def)
  qed
  ultimately show ?thesis using w(1,2) ds(2) read_row[OF ds(1)] by simp
qed

definition du_did :: diagnostic_data_identifier where
  "du_did = \<lparr>did_id = ''d1'', did_ecu_id = ''e1'', did_identifier = 0xF405, did_name = ''Coolant'', did_description = '''',
     did_data_type = DID_INTEGER, did_unit = ''C'', did_writable = True, did_readable_sessions = [DEFAULT_SESSION],
     did_writable_sessions = [DEFAULT_SESSION], did_content = DvInt 20, did_minimum = Some 0, did_maximum = Some 100,
     did_max_length = None, did_version = 1, did_created_by_user_id = ''u1''\<rparr>"

definition du_values :: diag_store where
  "du_values = du_store\<lparr>diag_dids := [du_did]\<rparr>"

definition du_write :: did_write_command where
  "du_write = \<lparr>cdw_command_id = ''write-1'', cdw_expected_session_version = 1, cdw_expected_did_version = 1, cdw_value = DvInt 90\<rparr>"

definition du_read :: did_read_command where
  "du_read = \<lparr>cdr_command_id = ''read-1'', cdr_identifiers = [0xF405]\<rparr>"

lemma du_values_facts [simp]:
  "ecu_store_ok du_values" "find_ecu eu_vehicle ''body-1'' du_values = Some eu_body" "existing_command u k du_values = None"
  "session_of u du_values = new_session u" "find_did eu_body 0xF405 du_values = Some du_did"
  by (simp_all add: du_values_def ecu_store_ok_def ecu_key_def find_ecu_def existing_command_def session_of_at session_at_def
      find_did_def did_key_def du_did_def select_def eu_defs)

lemma du_valid: "validate_did_value DID_INTEGER (DvInt 90) (Some 0) (Some 100) None = Inr ()"
  by code_simp

lemma write_did_serves:
  assumes "find_ecu v i s = Some u" "existing_command u (cdw_command_id c) s = None" "find_did u k s = Some x"
    and "cdw_expected_session_version c = dss_version (session_of u s)" "cdw_expected_did_version c = did_version x"
    and "did_writable x" "dss_session_type (session_of u s) \<in> set (did_writable_sessions x)"
    and "validate_did_value (did_data_type x) (cdw_value c) (did_minimum x) (did_maximum x) (did_max_length x) = Inr ()"
  shows "\<exists>r s'. write_did e (v, i, k, c) s = Inr ((r, False), s')"
proof -
  obtain st s1 where a: "get_or_create_session u s = (st, s1)" by fastforce
  note wa = with_session[OF a]
  have "find_did u k s1 = Some x" using wa assms(3) by (simp add: find_did_def)
  then show ?thesis
    using assms a wa
    by (simp add: write_did_def require_ecu_def require_did_def Let_def, intro record_serves[OF assms(2)])
      (simp_all add: diag_key_def)
qed

lemma read_dids_serves:
  assumes "find_ecu v i s = Some u" "existing_command u (cdr_command_id c) s = None"
    and "map_ok (require_did True u s) (cdr_identifiers c) = Inr ds" "check_readable (dss_session_type (session_of u s)) ds = Inr ()"
  shows "\<exists>r s'. read_dids e (v, i, c) s = Inr ((r, False), s')"
proof -
  obtain st s1 where a: "get_or_create_session u s = (st, s1)" by fastforce
  note wa = with_session[OF a]
  have "require_did True u s1 = require_did True u s" using wa by (simp add: require_did_def find_did_def fun_eq_iff)
  then show ?thesis
    using assms a wa
    by (simp add: read_dids_def require_ecu_def Let_def, intro record_serves[OF assms(2)]) (simp_all add: diag_key_def)
qed

theorem written_value_read_witness:
  "\<exists>r s' r' s'' item. write_did eu_env (eu_vehicle, ''body-1'', 0xF405, du_write) du_values = Inr ((r, False), s')
    \<and> read_dids eu_env (eu_vehicle, ''body-1'', du_read) s' = Inr ((r', False), s'')
    \<and> map_of (dcm_result r') ''items'' = Some (JArr [did_item (du_did\<lparr>did_content := DvInt 90, did_version := 2\<rparr>)])"
proof -
  have none: "existing_command eu_body (cdw_command_id du_write) du_values = None" by simp
  obtain r s' where run: "write_did eu_env (eu_vehicle, ''body-1'', 0xF405, du_write) du_values = Inr ((r, False), s')"
    using write_did_serves[OF du_values_facts(2) none du_values_facts(5), where e = eu_env] du_valid
    by (auto simp: du_write_def du_did_def new_session_def)
  obtain result where e: "ecu_part s' = ecu_part du_values" "diag_dids s' = update_row did_key (written (cdw_value du_write) du_did) (diag_dids du_values)"
      "r = new_command eu_env eu_body (cdw_command_id du_write) WRITE_DATA_BY_IDENTIFIER (WriteRequest 0xF405 du_write) result
        (dss_version (new_session eu_body)) (dss_version (new_session eu_body))"
      "uds_effect r (Some (new_session eu_body)) (security_at du_values ''e1'') (flash_at du_values ''e1'') du_values s'"
    by (rule write_did_first[OF du_values_facts(2) none run]) simp
  have w: "ecu_part s' = ecu_part du_values" "diag_dids s' = update_row did_key (written (cdw_value du_write) du_did) (diag_dids du_values)"
      "session_at s' ''e1'' = Some (new_session eu_body)" "existing_command eu_body ''read-1'' s' = None"
    using e existing_after[OF e(4) du_values_facts(3), where u = eu_body and k = "''read-1''"] by (simp_all add: uds_effect_def du_write_def)
  have u: "find_ecu eu_vehicle ''body-1'' s' = Some eu_body" using find_part[OF w(1)] by simp
  have found: "find_did eu_body 0xF405 s' = Some (written (cdw_value du_write) du_did)"
    using find_did_written[OF du_values_facts(5) w(2), of "0xF405"] by simp
  obtain r' s'' where rd: "read_dids eu_env (eu_vehicle, ''body-1'', du_read) s' = Inr ((r', False), s'')"
    using read_dids_serves[OF u, of du_read "[written (cdw_value du_write) du_did]" eu_env] found w(3,4)
    by (auto simp: du_read_def require_did_def session_of_at new_session_def written_def du_did_def)
  show ?thesis
    using written_value_read[OF du_values_facts(1,2,5) run rd] run rd
    by (auto simp: du_read_def du_write_def du_did_def length_Suc_conv)
qed

end
