(* ===== verification/ErrorBodies.thy ===== *)
theory ErrorBodies
  imports AtepPrelude
begin

text \<open>
  How an error value is answered: the status, code, message and details that the exception classes of
  \<open>src/src/atep/core/errors.py\<close> set in their constructors, and the body its exception handlers build.
  An exception that is not an \<open>ApplicationError\<close> is answered as an internal error.
\<close>

record answer =
  an_status :: int
  an_code :: string
  an_message :: string
  an_details :: json

definition conflict_answer :: "string \<Rightarrow> string \<Rightarrow> answer" where
  "conflict_answer code message = \<lparr>an_status = 409, an_code = code, an_message = message, an_details = JNull\<rparr>"

definition version_conflict :: "string \<Rightarrow> string \<Rightarrow> int \<Rightarrow> answer" where
  "version_conflict code message current_version =
     (conflict_answer code message)\<lparr>an_details := JObj [(''current_version'', JInt current_version)]\<rparr>"

definition state_conflict :: "string \<Rightarrow> string \<Rightarrow> string \<Rightarrow> string \<Rightarrow> answer" where
  "state_conflict code message current_status requested_status = (conflict_answer code message)\<lparr>an_details := JObj
     [(''current_status'', JStr current_status), (''requested_status'', JStr requested_status)]\<rparr>"

definition unprocessable :: "string \<Rightarrow> string \<Rightarrow> string \<Rightarrow> answer" where
  "unprocessable code message reason = \<lparr>an_status = 422, an_code = code, an_message = message,
     an_details = JObj [(''reason'', JStr reason)]\<rparr>"

section \<open>The classes of each service\<close>

fun ecu_answer :: "app_error \<Rightarrow> answer option" where
  "ecu_answer DuplicateEcuIdentifier = Some (conflict_answer ''ecu_identifier_already_exists''
     ''An ECU with this identifier already exists in the vehicle.'')"
| "ecu_answer (EcuStateVersionConflict v) = Some (version_conflict ''ecu_state_version_conflict''
     ''The ECU state was changed by another operation.'' v)"
| "ecu_answer EcuSimulationCommandConflict = Some (conflict_answer ''ecu_simulation_command_conflict''
     ''The ECU simulation command identifier was already used differently.'')"
| "ecu_answer (EcuExecutionState x) = Some ((conflict_answer ''ecu_execution_state_conflict''
     ''The ECU cannot execute cyclic tasks from its current state.'')\<lparr>an_details := JObj [(''current_state'', JStr x)]\<rparr>)"
| "ecu_answer (EcuProfileContract r) = Some (unprocessable ''ecu_profile_contract_invalid''
     ''The ECU state does not conform to its behavior profile.'' r)"
| "ecu_answer (EcuMemoryContract r) = Some (unprocessable ''ecu_memory_contract_invalid''
     ''The ECU memory operation is invalid.'' r)"
| "ecu_answer (EcuFaultContract r) = Some (unprocessable ''ecu_fault_contract_invalid''
     ''The ECU fault lifecycle operation is invalid.'' r)"
| "ecu_answer (EcuSignalContract r) = Some (unprocessable ''ecu_signal_contract_invalid''
     ''The ECU signal operation is invalid.'' r)"
| "ecu_answer DuplicateEcuSignalRoute = Some (conflict_answer ''ecu_signal_route_already_exists''
     ''A signal route with this identifier already exists for the gateway ECU.'')"
| "ecu_answer EcuScenarioExecutionConflict = Some (conflict_answer ''ecu_scenario_execution_conflict''
     ''The scenario execution identifier is already used by another request.'')"
| "ecu_answer _ = None"

fun can_answer :: "app_error \<Rightarrow> answer option" where
  "can_answer CanNetworkAlreadyExists = Some (conflict_answer ''can_network_already_exists''
     ''The vehicle already has a CAN network.'')"
| "can_answer (CanNetworkVersionConflict v) = Some (version_conflict ''can_network_version_conflict''
     ''The CAN network was changed by another operation.'' v)"
| "can_answer CanFrameCommandConflict = Some (conflict_answer ''can_frame_command_conflict''
     ''The CAN frame command identifier was already used differently.'')"
| "can_answer (CanNetworkContract r) = Some (unprocessable ''can_network_contract_invalid''
     ''The CAN network operation violates its contract.'' r)"
| "can_answer CanArbitrationCommandConflict = Some (conflict_answer ''can_arbitration_command_conflict''
     ''The CAN arbitration command identifier was already used differently.'')"
| "can_answer CanFaultCommandConflict = Some (conflict_answer ''can_fault_command_conflict''
     ''The CAN fault command identifier was already used differently.'')"
| "can_answer CanNodeBusOff = Some (conflict_answer ''can_node_bus_off''
     ''The CAN node cannot transmit while it is bus-off.'')"
| "can_answer (CanFaultState r) = Some (unprocessable ''can_fault_state_invalid''
     ''The CAN fault operation is invalid for the current state.'' r)"
| "can_answer MultiBusGatewayCommandConflict = Some (conflict_answer ''multibus_gateway_command_conflict''
     ''The multi-bus gateway command identifier was already used differently.'')"
| "can_answer (MultiBusGatewayContract r) = Some (unprocessable ''multibus_gateway_contract_invalid''
     ''The multi-bus gateway operation violates its contract.'' r)"
| "can_answer MultiBusCampaignCommandConflict = Some (conflict_answer ''multibus_campaign_command_conflict''
     ''The multi-bus campaign command identifier was already used differently.'')"
| "can_answer (MultiBusCampaignContract r) = Some (unprocessable ''multibus_campaign_contract_invalid''
     ''The multi-bus campaign violates its contract.'' r)"
| "can_answer _ = None"

fun codec_answer :: "app_error \<Rightarrow> answer option" where
  "codec_answer CanDbcCatalogueAlreadyExists = Some (conflict_answer ''can_dbc_catalogue_already_exists''
     ''A DBC catalogue already exists for this CAN network.'')"
| "codec_answer CanSignalCodecCommandConflict = Some (conflict_answer ''can_signal_codec_command_conflict''
     ''The CAN signal codec command identifier was already used differently.'')"
| "codec_answer _ = None"

fun diagnostic_answer :: "app_error \<Rightarrow> answer option" where
  "diagnostic_answer DiagnosticCommandConflict = Some (conflict_answer ''diagnostic_command_conflict''
     ''The diagnostic command identifier was already used differently.'')"
| "diagnostic_answer (DiagnosticContract r code) = Some \<lparr>an_status = 422, an_code = ''diagnostic_contract_invalid'',
     an_message = ''The diagnostic operation violates the UDS contract.'',
     an_details = JObj [(''reason'', JStr r), (''negative_response_code'', JInt code)]\<rparr>"
| "diagnostic_answer _ = None"

fun vehicle_answer :: "app_error \<Rightarrow> answer option" where
  "vehicle_answer (ModuleCapabilityRequired c) = Some \<lparr>an_status = 403, an_code = ''module_capability_required'',
     an_message = ''The module is not authorized for this operation.'',
     an_details = JObj [(''required_capability'', JStr c)]\<rparr>"
| "vehicle_answer VehicleCommandConflict = Some (conflict_answer ''vehicle_command_conflict''
     ''The command identifier was already used for a different command.'')"
| "vehicle_answer VehicleCommandState = Some (conflict_answer ''vehicle_command_state_conflict''
     ''The command cannot transition from its current state.'')"
| "vehicle_answer _ = None"

fun test_answer :: "app_error \<Rightarrow> answer option" where
  "test_answer TestRunConflict = Some (conflict_answer ''test_run_conflict''
     ''The test-run identifier was already used for a different test run.'')"
| "test_answer (TestRunVersionConflict v) = Some (version_conflict ''test_run_version_conflict''
     ''The test run was changed by another operation.'' v)"
| "test_answer (TestRunState x y) = Some (state_conflict ''test_run_state_conflict''
     ''The requested test-run state transition is not allowed.'' x y)"
| "test_answer (TestCaseResultVersionConflict v) = Some (version_conflict ''test_case_result_version_conflict''
     ''The test case result was changed by another operation.'' v)"
| "test_answer (TestCaseResultState x y) = Some (state_conflict ''test_case_result_state_conflict''
     ''The requested test case result transition is not allowed.'' x y)"
| "test_answer EnvironmentProfileConflict = Some (conflict_answer ''environment_profile_conflict''
     ''The profile identifier was already used for a different environment profile.'')"
| "test_answer (EnvironmentProfileVersionConflict v) = Some (version_conflict ''environment_profile_version_conflict''
     ''The environment profile was changed by another operation.'' v)"
| "test_answer (EnvironmentProfileState x y) = Some (state_conflict ''environment_profile_state_conflict''
     ''The requested environment-profile operation is not allowed in its state.'' x y)"
| "test_answer TestJobConflict = Some (conflict_answer ''test_job_conflict''
     ''The job or target test-run identifier was already used differently.'')"
| "test_answer (TestJobVersionConflict v) = Some (version_conflict ''test_job_version_conflict''
     ''The test job was changed by another operation.'' v)"
| "test_answer (TestJobState x y) = Some (state_conflict ''test_job_state_conflict''
     ''The requested test-job state transition is not allowed.'' x y)"
| "test_answer TestDefinitionConflict = Some (conflict_answer ''test_definition_conflict''
     ''The definition identifier was already used for different content.'')"
| "test_answer TestSuiteConflict = Some (conflict_answer ''test_suite_conflict''
     ''The suite identifier was already used for different content.'')"
| "test_answer (TestCatalogVersionConflict v) = Some (version_conflict ''test_catalog_version_conflict''
     ''The test catalog resource was changed by another operation.'' v)"
| "test_answer (TestCatalogState x y) = Some (state_conflict ''test_catalog_state_conflict''
     ''The requested test catalog operation is not allowed in its state.'' x y)"
| "test_answer _ = None"

section \<open>The answer to a request\<close>

fun claim_answer :: "app_error \<Rightarrow> answer option" where
  "claim_answer InvalidCommandClaim = Some (conflict_answer ''invalid_command_claim'' ''The command claim is invalid or has expired.'')"
| "claim_answer _ = None"

fun missing_answer :: "app_error \<Rightarrow> answer option" where
  "missing_answer (ResourceNotFound r) = Some \<lparr>an_status = 404, an_code = r @ ''_not_found'',
     an_message = ''The requested '' @ r @ '' was not found.'', an_details = JNull\<rparr>"
| "missing_answer _ = None"

definition error_answer :: "app_error \<Rightarrow> answer" where
  "error_answer e = (case List.map_filter (\<lambda>f. f e) [ecu_answer, can_answer, codec_answer, diagnostic_answer,
       vehicle_answer, test_answer, claim_answer, missing_answer] of
     a # _ \<Rightarrow> a
   | [] \<Rightarrow> \<lparr>an_status = 500, an_code = ''internal_error'', an_message = ''An unexpected error occurred.'',
            an_details = JNull\<rparr>)"

definition error_response :: "string \<Rightarrow> app_error \<Rightarrow> int \<times> json" where
  "error_response correlation_id e = (let a = error_answer e in
     (an_status a, JObj [(''error'', JObj [(''code'', JStr (an_code a)), (''message'', JStr (an_message a)),
        (''details'', an_details a)]), (''correlation_id'', JStr correlation_id)]))"

text \<open>The status that the properties speak of is the one that is answered.\<close>

lemma answered_status: "fst (error_response correlation_id e) = error_status e"
  by (cases e) (simp_all add: error_response_def error_answer_def conflict_answer_def version_conflict_def state_conflict_def
      unprocessable_def List.map_filter_simps Let_def)

end
