(* ===== verification/TestModels.thy ===== *)
theory TestModels
  imports JsonText EcuModels
begin

text \<open>
  The test catalogue and its execution: the enumerations, commands with their validators, and rows of
  \<open>test_catalog\<close>, \<open>environment_profiles\<close>, \<open>test_runs\<close> and \<open>test_jobs\<close> under \<open>src/src/atep\<close>. An instant is
  the number of its microseconds since 1970 in UTC. JSON columns hold the typed documents that are
  serialized into them; the free parts of these documents are JSON values.
\<close>

section \<open>Comparing JSON values\<close>

text \<open>Python's \<open>==\<close>: numbers and Booleans by their numeric value, dictionaries by their items.\<close>

fun json_number :: "json \<Rightarrow> rat option" where
  "json_number (JBool b) = Some (if b then 1 else 0)"
| "json_number (JInt n) = Some (of_int n)"
| "json_number (JFloat x) = Some x"
| "json_number _ = None"

lemma map_of_size: "map_of d k = Some x \<Longrightarrow> size x < Suc (size_list (size_prod (\<lambda>_. 0) size) d)"
  by (induction d) (auto split: if_splits)

function json_eq :: "json \<Rightarrow> json \<Rightarrow> bool" where
  "json_eq a b = (case (a, b) of
     (JNull, JNull) \<Rightarrow> True
   | (JStr s, JStr t) \<Rightarrow> s = t
   | (JArr xs, JArr ys) \<Rightarrow> length xs = length ys \<and> list_all (\<lambda>(x, y). json_eq x y) (zip xs ys)
   | (JObj d, JObj e) \<Rightarrow> set (map fst d) = set (map fst e)
       \<and> list_all (\<lambda>k. case (map_of d k, map_of e k) of (Some x, Some y) \<Rightarrow> json_eq x y | _ \<Rightarrow> False) (map fst d)
   | _ \<Rightarrow> json_number a \<noteq> None \<and> json_number a = json_number b)"
  by pat_completeness auto
termination
  by (relation "measure (size \<circ> fst)")
    (auto dest!: set_zip_leftD simp: less_Suc_eq_le size_list_estimation' map_of_size[OF sym, simplified less_Suc_eq_le])

declare json_eq.simps [simp del]

lemma json_eq_refl [simp]: "json_eq a a"
proof (induction a)
  case (JArr xs)
  then show ?case by (subst json_eq.simps) (auto simp: list_all_iff set_zip)
next
  case (JObj d)
  have "json_eq x x" if "map_of d k = Some x" for k x
    using JObj[of "(k, x)" x] map_of_SomeD[OF that] by (auto simp: snds.simps)
  then show ?case
    by (subst json_eq.simps) (auto simp: list_all_iff weak_map_of_SomeI split: option.splits)
qed (subst json_eq.simps, simp)+

section \<open>Instants as text\<close>

definition dec_pad :: "nat \<Rightarrow> int \<Rightarrow> string" where
  "dec_pad w n = (let t = int_str n in replicate (w - length t) (CHR ''0'') @ t)"

text \<open>The date of a day counted from 1970, in the proleptic Gregorian calendar.\<close>

definition civil_date :: "int \<Rightarrow> int \<times> int \<times> int" where
  "civil_date days = (let z = days + 719468; era = z div 146097; doe = z mod 146097;
     yoe = (doe - doe div 1460 + doe div 36524 - doe div 146096) div 365;
     doy = doe - (365 * yoe + yoe div 4 - yoe div 100); mp = (5 * doy + 2) div 153;
     month = (if mp < 10 then mp + 3 else mp - 9)
   in (yoe + era * 400 + (if month \<le> 2 then 1 else 0), month, doy - (153 * mp + 2) div 5 + 1))"

text \<open>\<open>datetime.isoformat\<close> in UTC: microseconds only when there are any.\<close>

definition isoformat :: "int \<Rightarrow> string" where
  "isoformat t = (let us = t mod 1000000; seconds = (t div 1000000) mod 86400;
       (year, month, day) = civil_date (t div 86400000000)
     in dec_pad 4 year @ ''-'' @ dec_pad 2 month @ ''-'' @ dec_pad 2 day @ ''T'' @ dec_pad 2 (seconds div 3600)
        @ '':'' @ dec_pad 2 (seconds div 60 mod 60) @ '':'' @ dec_pad 2 (seconds mod 60)
        @ (if us = 0 then '''' else CHR ''.'' # dec_pad 6 us) @ ''+00:00'')"

lemma isoformat_examples:
  "isoformat 0 = ''1970-01-01T00:00:00+00:00''"
  "isoformat 1709210096000500 = ''2024-02-29T12:34:56.000500+00:00''"
  by code_simp+

section \<open>Enumerations\<close>

datatype TestDomain = CORE_DOMAIN | DIGITAL_VEHICLE_DOMAIN | ECU_DOMAIN | CAN_DOMAIN | DIAGNOSTICS_DOMAIN
  | ELECTRIC_VEHICLE_DOMAIN | ADAS_DOMAIN | INTEGRATION_DOMAIN

fun domain_value :: "TestDomain \<Rightarrow> string" where
  "domain_value CORE_DOMAIN = ''core''"
| "domain_value DIGITAL_VEHICLE_DOMAIN = ''digital_vehicle''"
| "domain_value ECU_DOMAIN = ''ecu''"
| "domain_value CAN_DOMAIN = ''can''"
| "domain_value DIAGNOSTICS_DOMAIN = ''diagnostics''"
| "domain_value ELECTRIC_VEHICLE_DOMAIN = ''electric_vehicle''"
| "domain_value ADAS_DOMAIN = ''adas''"
| "domain_value INTEGRATION_DOMAIN = ''integration''"

datatype TestLevel = UNIT_LEVEL | COMPONENT_LEVEL | INTEGRATION_LEVEL | SYSTEM_LEVEL | END_TO_END_LEVEL

fun level_value :: "TestLevel \<Rightarrow> string" where
  "level_value UNIT_LEVEL = ''unit''"
| "level_value COMPONENT_LEVEL = ''component''"
| "level_value INTEGRATION_LEVEL = ''integration''"
| "level_value SYSTEM_LEVEL = ''system''"
| "level_value END_TO_END_LEVEL = ''end_to_end''"

datatype AutomationMode = AUTOMATED | MANUAL | HYBRID_MODE

fun automation_mode_value :: "AutomationMode \<Rightarrow> string" where
  "automation_mode_value AUTOMATED = ''automated''"
| "automation_mode_value MANUAL = ''manual''"
| "automation_mode_value HYBRID_MODE = ''hybrid''"

text \<open>\<open>CatalogStatus\<close>; \<open>EnvironmentProfileStatus\<close> has the same members and the same transitions.\<close>

datatype CatalogStatus = DRAFT | ACTIVE | ARCHIVED

fun catalog_status_value :: "CatalogStatus \<Rightarrow> string" where
  "catalog_status_value DRAFT = ''draft''"
| "catalog_status_value ACTIVE = ''active''"
| "catalog_status_value ARCHIVED = ''archived''"

datatype EnvironmentProfileStatus = PROFILE_DRAFT | PROFILE_ACTIVE | PROFILE_ARCHIVED

fun profile_status_value :: "EnvironmentProfileStatus \<Rightarrow> string" where
  "profile_status_value PROFILE_DRAFT = ''draft''"
| "profile_status_value PROFILE_ACTIVE = ''active''"
| "profile_status_value PROFILE_ARCHIVED = ''archived''"

datatype VehicleKind = ELECTRIC | HYBRID | AUTONOMOUS

fun vehicle_kind_value :: "VehicleKind \<Rightarrow> string" where
  "vehicle_kind_value ELECTRIC = ''electric''"
| "vehicle_kind_value HYBRID = ''hybrid''"
| "vehicle_kind_value AUTONOMOUS = ''autonomous''"

datatype PropertySource = SIMULATOR | AAOS

fun property_source_value :: "PropertySource \<Rightarrow> string" where
  "property_source_value SIMULATOR = ''simulator''"
| "property_source_value AAOS = ''aaos''"

text \<open>\<open>SuiteType\<close> of the catalogue and \<open>TestSuite\<close> of the runs, which has one member more.\<close>

datatype SuiteType = SMOKE_TYPE | SANITY_TYPE | REGRESSION_TYPE | PERFORMANCE_TYPE | STRESS_TYPE | SAFETY_TYPE

fun suite_type_value :: "SuiteType \<Rightarrow> string" where
  "suite_type_value SMOKE_TYPE = ''smoke''"
| "suite_type_value SANITY_TYPE = ''sanity''"
| "suite_type_value REGRESSION_TYPE = ''regression''"
| "suite_type_value PERFORMANCE_TYPE = ''performance''"
| "suite_type_value STRESS_TYPE = ''stress''"
| "suite_type_value SAFETY_TYPE = ''safety''"

datatype TestSuite = SMOKE | REGRESSION | SANITY | PERFORMANCE | STRESS | CUSTOM | SAFETY

fun suite_value :: "TestSuite \<Rightarrow> string" where
  "suite_value SMOKE = ''smoke''"
| "suite_value REGRESSION = ''regression''"
| "suite_value SANITY = ''sanity''"
| "suite_value PERFORMANCE = ''performance''"
| "suite_value STRESS = ''stress''"
| "suite_value CUSTOM = ''custom''"
| "suite_value SAFETY = ''safety''"

datatype TestSelectionPolicy = SMOKE_POLICY | SANITY_POLICY | REGRESSION_POLICY

fun policy_value :: "TestSelectionPolicy \<Rightarrow> string" where
  "policy_value SMOKE_POLICY = ''smoke''"
| "policy_value SANITY_POLICY = ''sanity''"
| "policy_value REGRESSION_POLICY = ''regression''"

datatype TestRunStatus = RUN_QUEUED | RUN_RUNNING | RUN_PASSED | RUN_FAILED | RUN_CANCELLED

fun run_status_value :: "TestRunStatus \<Rightarrow> string" where
  "run_status_value RUN_QUEUED = ''queued''"
| "run_status_value RUN_RUNNING = ''running''"
| "run_status_value RUN_PASSED = ''passed''"
| "run_status_value RUN_FAILED = ''failed''"
| "run_status_value RUN_CANCELLED = ''cancelled''"

datatype TestCaseStatus = CASE_PENDING | CASE_RUNNING | CASE_PASSED | CASE_FAILED | CASE_SKIPPED

fun case_status_value :: "TestCaseStatus \<Rightarrow> string" where
  "case_status_value CASE_PENDING = ''pending''"
| "case_status_value CASE_RUNNING = ''running''"
| "case_status_value CASE_PASSED = ''passed''"
| "case_status_value CASE_FAILED = ''failed''"
| "case_status_value CASE_SKIPPED = ''skipped''"

datatype TestJobStatus = JOB_SCHEDULED | JOB_DISPATCHED | JOB_CANCELLED

fun job_status_value :: "TestJobStatus \<Rightarrow> string" where
  "job_status_value JOB_SCHEDULED = ''scheduled''"
| "job_status_value JOB_DISPATCHED = ''dispatched''"
| "job_status_value JOB_CANCELLED = ''cancelled''"

section \<open>Commands\<close>

text \<open>\<open>^[a-z0-9][a-z0-9-]{7,63}$\<close> and \<open>^[A-Za-z0-9][A-Za-z0-9_-]{7,63}$\<close>.\<close>

definition catalog_id_ok :: "string \<Rightarrow> bool" where
  "catalog_id_ok s \<longleftrightarrow> len_between 8 64 s \<and> matches_plus (\<lambda>c. is_lower c \<or> is_digit c)
     (\<lambda>c. is_lower c \<or> is_digit c \<or> c = CHR ''-'') s"

definition run_id_ok :: "string \<Rightarrow> bool" where
  "run_id_ok s \<longleftrightarrow> len_between 8 64 s \<and> matches_plus (\<lambda>c. is_lower c \<or> is_upper c \<or> is_digit c)
     (\<lambda>c. is_lower c \<or> is_upper c \<or> is_digit c \<or> c \<in> {CHR ''_'', CHR ''-''}) s"

text \<open>\<open>_bound_json\<close>: the canonical text is ASCII, so its length is that of its encoding.\<close>

definition bound_json :: "nat \<Rightarrow> dict \<Rightarrow> bool" where
  "bound_json limit d \<longleftrightarrow> length (json_dumps (JObj d)) \<le> limit"

definition tags_ok :: "string list \<Rightarrow> bool" where
  "tags_ok ts \<longleftrightarrow> length ts \<le> 20 \<and> list_all (len_between 1 40) ts \<and> distinct ts"

record test_step =
  tst_step_id :: string
  tst_action :: string
  tst_target :: string
  tst_inputs :: dict
  tst_expected :: string

definition test_step_ok :: "test_step \<Rightarrow> bool" where
  "test_step_ok x \<longleftrightarrow> len_between 1 64 (tst_step_id x)
     \<and> matches_star (\<lambda>c. is_lower c \<or> is_upper c \<or> is_digit c)
         (\<lambda>c. is_lower c \<or> is_upper c \<or> is_digit c \<or> c \<in> {CHR ''_'', CHR ''-''}) (tst_step_id x)
     \<and> len_between 1 240 (tst_action x) \<and> len_between 1 120 (tst_target x) \<and> len_between 1 500 (tst_expected x)
     \<and> bound_json 8192 (tst_inputs x)"

definition same_step :: "test_step \<Rightarrow> test_step \<Rightarrow> bool" where
  "same_step x y \<longleftrightarrow> tst_step_id x = tst_step_id y \<and> tst_action x = tst_action y \<and> tst_target x = tst_target y
     \<and> json_eq (JObj (tst_inputs x)) (JObj (tst_inputs y)) \<and> tst_expected x = tst_expected y"

record test_definition_create =
  tdc_definition_id :: string
  tdc_name :: string
  tdc_description :: string
  tdc_domain :: TestDomain
  tdc_level :: TestLevel
  tdc_automation_mode :: AutomationMode
  tdc_timeout_seconds :: int
  tdc_tags :: "string list"
  tdc_preconditions :: "string list"
  tdc_steps :: "test_step list"

definition test_definition_create_ok :: "test_definition_create \<Rightarrow> bool" where
  "test_definition_create_ok c \<longleftrightarrow> catalog_id_ok (tdc_definition_id c) \<and> length (tdc_name c) \<le> 160
     \<and> length (tdc_description c) \<le> 2000 \<and> int_between 1 86400 (tdc_timeout_seconds c) \<and> tags_ok (tdc_tags c)
     \<and> length (tdc_preconditions c) \<le> 20 \<and> list_all (len_between 1 500) (tdc_preconditions c)
     \<and> len_between 1 100 (tdc_steps c) \<and> list_all test_step_ok (tdc_steps c) \<and> distinct (map tst_step_id (tdc_steps c))"

record catalog_status_update =
  csu_expected_version :: int
  csu_status :: CatalogStatus

record test_suite_item_create =
  tic_definition_id :: string
  tic_order :: int
  tic_required :: bool
  tic_parameter_overrides :: dict

definition test_suite_item_create_ok :: "test_suite_item_create \<Rightarrow> bool" where
  "test_suite_item_create_ok c \<longleftrightarrow> catalog_id_ok (tic_definition_id c) \<and> int_between 1 1000 (tic_order c)
     \<and> bound_json 8192 (tic_parameter_overrides c)"

record test_suite_create =
  tsc_suite_id :: string
  tsc_name :: string
  tsc_description :: string
  tsc_suite_type :: SuiteType
  tsc_cases :: "test_suite_item_create list"
  tsc_tags :: "string list"

definition test_suite_create_ok :: "test_suite_create \<Rightarrow> bool" where
  "test_suite_create_ok c \<longleftrightarrow> catalog_id_ok (tsc_suite_id c) \<and> len_between 1 160 (tsc_name c)
     \<and> length (tsc_description c) \<le> 2000 \<and> len_between 1 200 (tsc_cases c)
     \<and> list_all test_suite_item_create_ok (tsc_cases c) \<and> tags_ok (tsc_tags c)
     \<and> distinct (map tic_definition_id (tsc_cases c)) \<and> distinct (map tic_order (tsc_cases c))"

record environment_profile_create =
  epc_profile_id :: string
  epc_name :: string
  epc_description :: string
  epc_vehicle_kind :: VehicleKind
  epc_property_source :: PropertySource
  epc_configuration :: dict

definition environment_profile_create_ok :: "environment_profile_create \<Rightarrow> bool" where
  "environment_profile_create_ok c \<longleftrightarrow> catalog_id_ok (epc_profile_id c) \<and> length (epc_name c) \<le> 160
     \<and> length (epc_description c) \<le> 500 \<and> bound_json 16384 (epc_configuration c)"

record environment_profile_status_update =
  eps_expected_version :: int
  eps_status :: EnvironmentProfileStatus

record test_run_create =
  trc_run_id :: string
  trc_vehicle_id :: string
  trc_environment_profile_id :: "string option"
  trc_catalog_suite_id :: "string option"
  trc_name :: string
  trc_suite :: TestSuite
  trc_metadata :: dict

definition test_run_create_ok :: "test_run_create \<Rightarrow> bool" where
  "test_run_create_ok c \<longleftrightarrow> run_id_ok (trc_run_id c) \<and> length (trc_vehicle_id c) \<le> 80 \<and> length (trc_name c) \<le> 160
     \<and> opt_all catalog_id_ok (trc_environment_profile_id c) \<and> opt_all catalog_id_ok (trc_catalog_suite_id c)"

record test_run_status_update =
  tru_expected_version :: int
  tru_status :: TestRunStatus
  tru_progress_percent :: int
  tru_summary :: "string option"

definition test_run_status_update_ok :: "test_run_status_update \<Rightarrow> bool" where
  "test_run_status_update_ok c \<longleftrightarrow> tru_expected_version c \<ge> 1 \<and> int_between 0 100 (tru_progress_percent c)
     \<and> opt_all (\<lambda>t. length t \<le> 2000) (tru_summary c)
     \<and> (tru_status c = RUN_QUEUED \<longrightarrow> tru_progress_percent c = 0)
     \<and> (tru_status c = RUN_RUNNING \<longrightarrow> tru_progress_percent c < 100)
     \<and> (tru_status c \<in> {RUN_PASSED, RUN_FAILED} \<longrightarrow> tru_progress_percent c = 100)"

record test_case_result_update =
  tcu_expected_version :: int
  tcu_status :: TestCaseStatus
  tcu_attempt :: int
  tcu_duration_ms :: "int option"
  tcu_observed :: "string option"
  tcu_evidence_refs :: "string list"

definition test_case_result_update_ok :: "test_case_result_update \<Rightarrow> bool" where
  "test_case_result_update_ok c \<longleftrightarrow> tcu_expected_version c \<ge> 1 \<and> int_between 0 100 (tcu_attempt c)
     \<and> opt_all (int_between 0 86400000) (tcu_duration_ms c) \<and> opt_all (\<lambda>t. length t \<le> 4000) (tcu_observed c)
     \<and> length (tcu_evidence_refs c) \<le> 20 \<and> list_all (len_between 1 200) (tcu_evidence_refs c)
     \<and> distinct (tcu_evidence_refs c)
     \<and> (tcu_status c = CASE_PENDING \<longrightarrow> tcu_attempt c = 0) \<and> (tcu_status c \<noteq> CASE_PENDING \<longrightarrow> 1 \<le> tcu_attempt c)
     \<and> (tcu_status c \<in> {CASE_PENDING, CASE_RUNNING} \<longrightarrow> tcu_duration_ms c = None)"

record test_job_create =
  tjc_job_id :: string
  tjc_run_id :: string
  tjc_vehicle_id :: string
  tjc_environment_profile_id :: "string option"
  tjc_catalog_suite_id :: "string option"
  tjc_selection_policy :: "TestSelectionPolicy option"
  tjc_name :: string
  tjc_suite :: TestSuite
  tjc_metadata :: dict
  tjc_scheduled_for :: int

definition validate_selection :: "test_job_create \<Rightarrow> bool" where
  "validate_selection c \<longleftrightarrow> (tjc_catalog_suite_id c = None \<longleftrightarrow> tjc_selection_policy c = None)
     \<and> (case tjc_selection_policy c of None \<Rightarrow> True | Some p \<Rightarrow> suite_value (tjc_suite c) = policy_value p)"

definition test_job_create_ok :: "test_job_create \<Rightarrow> bool" where
  "test_job_create_ok c \<longleftrightarrow> run_id_ok (tjc_job_id c) \<and> run_id_ok (tjc_run_id c) \<and> length (tjc_vehicle_id c) \<le> 80
     \<and> length (tjc_name c) \<le> 160 \<and> opt_all catalog_id_ok (tjc_environment_profile_id c)
     \<and> opt_all catalog_id_ok (tjc_catalog_suite_id c) \<and> validate_selection c"

record test_job_cancel =
  tjx_expected_version :: int
  tjx_reason :: "string option"

section \<open>Rows\<close>

record test_definition =
  tdf_id :: uuid
  tdf_definition_id :: string
  tdf_created_by_user_id :: uuid
  tdf_name :: string
  tdf_description :: string
  tdf_domain :: TestDomain
  tdf_level :: TestLevel
  tdf_automation_mode :: AutomationMode
  tdf_timeout_seconds :: int
  tdf_tags :: "string list"
  tdf_preconditions :: "string list"
  tdf_steps :: "test_step list"
  tdf_status :: CatalogStatus
  tdf_version :: int

text \<open>An entry of \<open>composition\<close>: the requested item with the version and name of its definition.\<close>

record suite_case = test_suite_item_create +
  sca_definition_version :: int
  sca_name :: string

record test_suite_row =
  tsu_id :: uuid
  tsu_suite_id :: string
  tsu_created_by_user_id :: uuid
  tsu_name :: string
  tsu_description :: string
  tsu_suite_type :: SuiteType
  tsu_composition :: "suite_case list"
  tsu_tags :: "string list"
  tsu_status :: CatalogStatus
  tsu_version :: int

record environment_profile =
  enp_id :: uuid
  enp_profile_id :: string
  enp_created_by_user_id :: uuid
  enp_name :: string
  enp_description :: string
  enp_vehicle_kind :: VehicleKind
  enp_property_source :: PropertySource
  enp_configuration :: dict
  enp_status :: EnvironmentProfileStatus
  enp_version :: int

text \<open>The snapshots a run or a job takes of a profile and of a suite; a job also keeps the tags.\<close>

record profile_snapshot =
  psn_profile_id :: string
  psn_name :: string
  psn_vehicle_kind :: VehicleKind
  psn_property_source :: PropertySource
  psn_configuration :: dict

record suite_snapshot =
  ssn_suite_id :: string
  ssn_name :: string
  ssn_suite_type :: SuiteType
  ssn_tags :: "string list option"
  ssn_cases :: "suite_case list"

record test_run =
  trn_id :: uuid
  trn_run_id :: string
  trn_vehicle_id :: uuid
  trn_requested_by_user_id :: uuid
  trn_environment_profile_id :: "uuid option"
  trn_environment_profile_version :: "int option"
  trn_environment_snapshot :: "profile_snapshot option"
  trn_catalog_suite_id :: "uuid option"
  trn_catalog_suite_version :: "int option"
  trn_catalog_suite_snapshot :: "suite_snapshot option"
  trn_name :: string
  trn_suite :: TestSuite
  trn_metadata :: dict
  trn_status :: TestRunStatus
  trn_progress_percent :: int
  trn_version :: int
  trn_summary :: "string option"
  trn_started_at :: "int option"
  trn_completed_at :: "int option"
  trn_created_at :: int
  trn_updated_at :: int

record test_case_result =
  tcr_id :: uuid
  tcr_test_run_id :: uuid
  tcr_case_id :: string
  tcr_definition_id :: string
  tcr_definition_version :: int
  tcr_order :: int
  tcr_required :: bool
  tcr_status :: TestCaseStatus
  tcr_attempt :: int
  tcr_duration_ms :: "int option"
  tcr_observed :: "string option"
  tcr_evidence_refs :: "string list"
  tcr_version :: int
  tcr_created_at :: int
  tcr_updated_at :: int

record test_job =
  tjb_id :: uuid
  tjb_job_id :: string
  tjb_run_id :: string
  tjb_vehicle_id :: uuid
  tjb_requested_by_user_id :: uuid
  tjb_environment_profile_id :: "uuid option"
  tjb_environment_profile_version :: "int option"
  tjb_environment_snapshot :: "profile_snapshot option"
  tjb_catalog_suite_id :: "uuid option"
  tjb_catalog_suite_version :: "int option"
  tjb_selection_policy :: "TestSelectionPolicy option"
  tjb_selection_snapshot :: "suite_snapshot option"
  tjb_name :: string
  tjb_suite :: TestSuite
  tjb_metadata :: dict
  tjb_scheduled_for :: int
  tjb_status :: TestJobStatus
  tjb_version :: int
  tjb_test_run_id :: "uuid option"
  tjb_dispatched_at :: "int option"
  tjb_cancelled_at :: "int option"
  tjb_cancellation_reason :: "string option"
  tjb_created_at :: int
  tjb_updated_at :: int

section \<open>The store\<close>

record test_store = session +
  vehicles :: "vehicle list"
  test_definitions :: "test_definition list"
  test_suites :: "test_suite_row list"
  environment_profiles :: "environment_profile list"
  test_runs :: "test_run list"
  test_case_results :: "test_case_result list"
  test_jobs :: "test_job list"

text \<open>\<open>uq_test_case_results_run_case\<close>; the other tables have their public identifier as the key.\<close>

definition case_key :: "test_case_result \<Rightarrow> uuid \<times> string" where
  "case_key x = (tcr_test_run_id x, tcr_case_id x)"

section \<open>Documents as JSON\<close>

definition suite_case_json :: "suite_case \<Rightarrow> json" where
  "suite_case_json x = JObj [(''definition_id'', JStr (tic_definition_id x)), (''order'', JInt (tic_order x)),
     (''required'', JBool (tic_required x)), (''parameter_overrides'', JObj (tic_parameter_overrides x)),
     (''definition_version'', JInt (sca_definition_version x)), (''name'', JStr (sca_name x))]"

definition profile_snapshot_json :: "profile_snapshot \<Rightarrow> json" where
  "profile_snapshot_json p = JObj [(''profile_id'', JStr (psn_profile_id p)), (''name'', JStr (psn_name p)),
     (''vehicle_kind'', JStr (vehicle_kind_value (psn_vehicle_kind p))),
     (''property_source'', JStr (property_source_value (psn_property_source p))),
     (''configuration'', JObj (psn_configuration p))]"

lemma test_tables_kept [simp]:
  fixes s :: "'a test_store_scheme"
  shows "vehicles (enqueue_event t a i p c s) = vehicles s"
    and "test_definitions (enqueue_event t a i p c s) = test_definitions s"
    and "test_suites (enqueue_event t a i p c s) = test_suites s"
    and "environment_profiles (enqueue_event t a i p c s) = environment_profiles s"
    and "test_runs (enqueue_event t a i p c s) = test_runs s"
    and "test_case_results (enqueue_event t a i p c s) = test_case_results s"
    and "test_jobs (enqueue_event t a i p c s) = test_jobs s"
    and "vehicles (record_audit u a t i c d s) = vehicles s"
    and "test_definitions (record_audit u a t i c d s) = test_definitions s"
    and "test_suites (record_audit u a t i c d s) = test_suites s"
    and "environment_profiles (record_audit u a t i c d s) = environment_profiles s"
    and "test_runs (record_audit u a t i c d s) = test_runs s"
    and "test_case_results (record_audit u a t i c d s) = test_case_results s"
    and "test_jobs (record_audit u a t i c d s) = test_jobs s"
  by (simp_all add: enqueue_event_def record_audit_def)

lemma test_evidence_kept [simp]:
  fixes s :: "'a test_store_scheme"
  shows "vehicles (add_event_audit e t rt i p a d s) = vehicles s"
    and "test_definitions (add_event_audit e t rt i p a d s) = test_definitions s"
    and "test_suites (add_event_audit e t rt i p a d s) = test_suites s"
    and "environment_profiles (add_event_audit e t rt i p a d s) = environment_profiles s"
    and "test_runs (add_event_audit e t rt i p a d s) = test_runs s"
    and "test_case_results (add_event_audit e t rt i p a d s) = test_case_results s"
    and "test_jobs (add_event_audit e t rt i p a d s) = test_jobs s"
  by (simp_all add: add_event_audit_def)

end
