(* ===== verification/TestCatalog.thy ===== *)
theory TestCatalog
  imports TestModels
begin

text \<open>
  The catalogue of test definitions and suites, \<open>src/src/atep/test_catalog/service.py\<close>, and the
  environment profiles, \<open>src/src/atep/environment_profiles/service.py\<close>. A resource is created as a
  draft, activated once and archived once; a suite is composed of active definitions only.
\<close>

section \<open>Definitions\<close>

definition find_definition :: "string \<Rightarrow> 'a test_store_scheme \<Rightarrow> test_definition option" where
  "find_definition i s = select (\<lambda>d. tdf_definition_id d = i) (test_definitions s)"

definition definition_of :: "env \<Rightarrow> test_definition_create \<Rightarrow> test_definition" where
  "definition_of e c = \<lparr>tdf_id = env_new_id e, tdf_definition_id = tdc_definition_id c,
     tdf_created_by_user_id = env_actor e, tdf_name = tdc_name c, tdf_description = tdc_description c,
     tdf_domain = tdc_domain c, tdf_level = tdc_level c, tdf_automation_mode = tdc_automation_mode c,
     tdf_timeout_seconds = tdc_timeout_seconds c, tdf_tags = tdc_tags c, tdf_preconditions = tdc_preconditions c,
     tdf_steps = tdc_steps c, tdf_status = DRAFT, tdf_version = 1\<rparr>"

text \<open>\<open>_matches_creation\<close>: everything the command sets but \<open>status\<close> and \<open>version\<close>.\<close>

definition definition_matches :: "test_definition \<Rightarrow> test_definition \<Rightarrow> bool" where
  "definition_matches x y \<longleftrightarrow> tdf_definition_id x = tdf_definition_id y
     \<and> tdf_created_by_user_id x = tdf_created_by_user_id y \<and> tdf_name x = tdf_name y
     \<and> tdf_description x = tdf_description y \<and> tdf_domain x = tdf_domain y \<and> tdf_level x = tdf_level y
     \<and> tdf_automation_mode x = tdf_automation_mode y \<and> tdf_timeout_seconds x = tdf_timeout_seconds y
     \<and> tdf_tags x = tdf_tags y \<and> tdf_preconditions x = tdf_preconditions y
     \<and> list_all2 same_step (tdf_steps x) (tdf_steps y)"

definition definition_evidence_payload :: "test_definition \<Rightarrow> dict" where
  "definition_evidence_payload d = [(''definition_id'', JStr (tdf_definition_id d)),
     (''created_by_user_id'', JStr (tdf_created_by_user_id d)), (''name'', JStr (tdf_name d)),
     (''domain'', JStr (domain_value (tdf_domain d))), (''level'', JStr (level_value (tdf_level d))),
     (''automation_mode'', JStr (automation_mode_value (tdf_automation_mode d))),
     (''status'', JStr (catalog_status_value (tdf_status d))), (''version'', JInt (tdf_version d)),
     (''step_count'', JInt (int (length (tdf_steps d))))]"

text \<open>\<open>_persist\<close>: a violated constraint is answered as a conflict.\<close>

definition create_definition ::
  "env \<Rightarrow> test_definition_create \<Rightarrow> 'a test_store_scheme \<Rightarrow> app_error + (test_definition \<times> bool) \<times> 'a test_store_scheme" where
  "create_definition e c s = (case find_definition (tdc_definition_id c) s of
     Some existing \<Rightarrow> if definition_matches existing (definition_of e c) then Inr ((existing, True), s)
                      else Inl TestDefinitionConflict
   | None \<Rightarrow> let d = definition_of e c in
     and_then (of_option TestDefinitionConflict
       (insert_unless (\<lambda>x. tdf_id x = tdf_id d \<or> tdf_definition_id x = tdf_definition_id d) d (test_definitions s))) (\<lambda>rows.
     Inr ((d, False), add_event_audit e ''atep.test_definition.created.v1'' ''test_definition'' (tdf_id d)
       (definition_evidence_payload d) ''test_definition.created'' (definition_evidence_payload d)
       (s\<lparr>test_definitions := rows\<rparr>))))"

definition require_definition :: "string \<Rightarrow> 'a test_store_scheme \<Rightarrow> app_error + test_definition" where
  "require_definition i s = of_option (ResourceNotFound ''test_definition'') (find_definition i s)"

definition list_definitions ::
  "nat \<Rightarrow> nat \<Rightarrow> CatalogStatus option \<Rightarrow> 'a test_store_scheme \<Rightarrow> test_definition list \<times> int" where
  "list_definitions limit offset status s =
     (let rows = filter (\<lambda>d. status = None \<or> status = Some (tdf_status d)) (test_definitions s)
      in (page limit offset (sort_key tdf_definition_id rows), int (length rows)))"

section \<open>Suites\<close>

definition find_suite :: "string \<Rightarrow> 'a test_store_scheme \<Rightarrow> test_suite_row option" where
  "find_suite i s = select (\<lambda>u. tsu_suite_id u = i) (test_suites s)"

definition require_suite :: "string \<Rightarrow> 'a test_store_scheme \<Rightarrow> app_error + test_suite_row" where
  "require_suite i s = of_option (ResourceNotFound ''test_suite'') (find_suite i s)"

definition composed_case :: "test_suite_item_create \<Rightarrow> test_definition \<Rightarrow> suite_case" where
  "composed_case c d = \<lparr>tic_definition_id = tic_definition_id c, tic_order = tic_order c, tic_required = tic_required c,
     tic_parameter_overrides = tic_parameter_overrides c, sca_definition_version = tdf_version d, sca_name = tdf_name d\<rparr>"

text \<open>The composition of \<open>_suite_command_payload\<close>: in the order of the cases, from active definitions.\<close>

definition suite_composition :: "test_suite_create \<Rightarrow> 'a test_store_scheme \<Rightarrow> app_error + suite_case list" where
  "suite_composition c s =
     (let identifiers = map tic_definition_id (tsc_cases c);
          definitions = filter (\<lambda>d. tdf_definition_id d \<in> set identifiers) (test_definitions s);
          by_id = map_of (map (\<lambda>d. (tdf_definition_id d, d)) definitions) in
      if set (map tdf_definition_id definitions) \<noteq> set identifiers then Inl (ResourceNotFound ''test_definition'')
      else if list_ex (\<lambda>d. tdf_status d \<noteq> ACTIVE) definitions then Inl (TestCatalogState ''draft_or_archived'' ''compose'')
      else Inr (map (\<lambda>x. composed_case x (the (by_id (tic_definition_id x)))) (sort_key tic_order (tsc_cases c))))"

definition suite_of :: "env \<Rightarrow> test_suite_create \<Rightarrow> suite_case list \<Rightarrow> test_suite_row" where
  "suite_of e c composition = \<lparr>tsu_id = env_new_id e, tsu_suite_id = tsc_suite_id c, tsu_created_by_user_id = env_actor e,
     tsu_name = strip (tsc_name c), tsu_description = strip (tsc_description c), tsu_suite_type = tsc_suite_type c,
     tsu_composition = composition, tsu_tags = tsc_tags c, tsu_status = DRAFT, tsu_version = 1\<rparr>"

definition same_item :: "suite_case \<Rightarrow> test_suite_item_create \<Rightarrow> bool" where
  "same_item x c \<longleftrightarrow> tic_definition_id x = tic_definition_id c \<and> tic_order x = tic_order c
     \<and> tic_required x = tic_required c
     \<and> json_eq (JObj (tic_parameter_overrides x)) (JObj (tic_parameter_overrides c))"

definition suite_creation_matches :: "test_suite_row \<Rightarrow> test_suite_create \<Rightarrow> uuid \<Rightarrow> bool" where
  "suite_creation_matches u c actor \<longleftrightarrow> tsu_created_by_user_id u = actor \<and> tsu_name u = strip (tsc_name c)
     \<and> tsu_description u = strip (tsc_description c) \<and> tsu_suite_type u = tsc_suite_type c \<and> tsu_tags u = tsc_tags c
     \<and> list_all2 same_item (tsu_composition u) (sort_key tic_order (tsc_cases c))"

definition suite_evidence_payload :: "test_suite_row \<Rightarrow> dict" where
  "suite_evidence_payload u = [(''suite_id'', JStr (tsu_suite_id u)), (''created_by_user_id'', JStr (tsu_created_by_user_id u)),
     (''name'', JStr (tsu_name u)), (''suite_type'', JStr (suite_type_value (tsu_suite_type u))),
     (''status'', JStr (catalog_status_value (tsu_status u))), (''version'', JInt (tsu_version u)),
     (''case_count'', JInt (int (length (tsu_composition u))))]"

definition create_suite ::
  "env \<Rightarrow> test_suite_create \<Rightarrow> 'a test_store_scheme \<Rightarrow> app_error + (test_suite_row \<times> bool) \<times> 'a test_store_scheme" where
  "create_suite e c s = (case find_suite (tsc_suite_id c) s of
     Some existing \<Rightarrow> if suite_creation_matches existing c (env_actor e) then Inr ((existing, True), s)
                      else Inl TestSuiteConflict
   | None \<Rightarrow> and_then (suite_composition c s) (\<lambda>composition.
     let u = suite_of e c composition in
     and_then (of_option TestSuiteConflict
       (insert_unless (\<lambda>x. tsu_id x = tsu_id u \<or> tsu_suite_id x = tsu_suite_id u) u (test_suites s))) (\<lambda>rows.
     Inr ((u, False), add_event_audit e ''atep.test_suite.created.v1'' ''test_suite'' (tsu_id u)
       (suite_evidence_payload u) ''test_suite.created'' (suite_evidence_payload u) (s\<lparr>test_suites := rows\<rparr>)))))"

definition list_suites ::
  "nat \<Rightarrow> nat \<Rightarrow> CatalogStatus option \<Rightarrow> 'a test_store_scheme \<Rightarrow> test_suite_row list \<times> int" where
  "list_suites limit offset status s =
     (let rows = filter (\<lambda>u. status = None \<or> status = Some (tsu_status u)) (test_suites s)
      in (page limit offset (sort_key tsu_suite_id rows), int (length rows)))"

section \<open>The life cycle of a catalogue resource\<close>

fun catalog_transitions :: "CatalogStatus \<Rightarrow> CatalogStatus set" where
  "catalog_transitions DRAFT = {ACTIVE}"
| "catalog_transitions ACTIVE = {ARCHIVED}"
| "catalog_transitions ARCHIVED = {}"

datatype catalog_resource = DefinitionResource test_definition | SuiteResource test_suite_row

fun resource_status :: "catalog_resource \<Rightarrow> CatalogStatus" where
  "resource_status (DefinitionResource d) = tdf_status d"
| "resource_status (SuiteResource u) = tsu_status u"

fun resource_version :: "catalog_resource \<Rightarrow> int" where
  "resource_version (DefinitionResource d) = tdf_version d"
| "resource_version (SuiteResource u) = tsu_version u"

fun moved_resource :: "CatalogStatus \<Rightarrow> catalog_resource \<Rightarrow> catalog_resource" where
  "moved_resource status (DefinitionResource d) = DefinitionResource (d\<lparr>tdf_status := status, tdf_version := tdf_version d + 1\<rparr>)"
| "moved_resource status (SuiteResource u) = SuiteResource (u\<lparr>tsu_status := status, tsu_version := tsu_version u + 1\<rparr>)"

fun save_resource :: "catalog_resource \<Rightarrow> 'a test_store_scheme \<Rightarrow> 'a test_store_scheme" where
  "save_resource (DefinitionResource d) s = s\<lparr>test_definitions := update_row tdf_definition_id d (test_definitions s)\<rparr>"
| "save_resource (SuiteResource u) s = s\<lparr>test_suites := update_row tsu_suite_id u (test_suites s)\<rparr>"

fun resource_evidence :: "catalog_resource \<Rightarrow> string \<times> uuid \<times> dict" where
  "resource_evidence (DefinitionResource d) = (''test_definition'', tdf_id d, definition_evidence_payload d)"
| "resource_evidence (SuiteResource u) = (''test_suite'', tsu_id u, suite_evidence_payload u)"

definition update_status ::
  "env \<Rightarrow> catalog_resource \<Rightarrow> catalog_status_update \<Rightarrow> 'a test_store_scheme
    \<Rightarrow> app_error + (catalog_resource \<times> bool) \<times> 'a test_store_scheme" where
  "update_status e x c s =
     (if resource_status x = csu_status c then Inr ((x, True), s)
      else if resource_version x \<noteq> csu_expected_version c then Inl (TestCatalogVersionConflict (resource_version x))
      else if csu_status c \<notin> catalog_transitions (resource_status x)
        then Inl (TestCatalogState (catalog_status_value (resource_status x)) (catalog_status_value (csu_status c)))
      else let y = moved_resource (csu_status c) x; (kind, i, payload) = resource_evidence y;
               evidence = payload @ [(''previous_status'', JStr (catalog_status_value (resource_status x)))]
      in Inr ((y, False), add_event_audit e (''atep.'' @ kind @ ''.status_changed.v1'') kind i evidence
           (kind @ ''.status_changed'') evidence (save_resource y s)))"

section \<open>Environment profiles\<close>

definition find_profile :: "string \<Rightarrow> 'a test_store_scheme \<Rightarrow> environment_profile option" where
  "find_profile i s = select (\<lambda>p. enp_profile_id p = i) (environment_profiles s)"

definition same_profile_creation :: "environment_profile \<Rightarrow> environment_profile_create \<Rightarrow> uuid \<Rightarrow> bool" where
  "same_profile_creation p c actor \<longleftrightarrow> enp_created_by_user_id p = actor \<and> enp_name p = epc_name c
     \<and> enp_description p = epc_description c \<and> enp_vehicle_kind p = epc_vehicle_kind c
     \<and> enp_property_source p = epc_property_source c
     \<and> json_eq (JObj (enp_configuration p)) (JObj (epc_configuration c))"

definition environment_profile_payload :: "environment_profile \<Rightarrow> dict" where
  "environment_profile_payload p = [(''profile_id'', JStr (enp_profile_id p)),
     (''created_by_user_id'', JStr (enp_created_by_user_id p)), (''name'', JStr (enp_name p)),
     (''description'', JStr (enp_description p)), (''vehicle_kind'', JStr (vehicle_kind_value (enp_vehicle_kind p))),
     (''property_source'', JStr (property_source_value (enp_property_source p))),
     (''configuration'', JObj (enp_configuration p)), (''status'', JStr (profile_status_value (enp_status p))),
     (''version'', JInt (enp_version p))]"

definition profile_of :: "env \<Rightarrow> environment_profile_create \<Rightarrow> environment_profile" where
  "profile_of e c = \<lparr>enp_id = env_new_id e, enp_profile_id = epc_profile_id c, enp_created_by_user_id = env_actor e,
     enp_name = epc_name c, enp_description = epc_description c, enp_vehicle_kind = epc_vehicle_kind c,
     enp_property_source = epc_property_source c, enp_configuration = epc_configuration c,
     enp_status = PROFILE_DRAFT, enp_version = 1\<rparr>"

definition create_environment_profile ::
  "env \<Rightarrow> environment_profile_create \<Rightarrow> 'a test_store_scheme
    \<Rightarrow> app_error + (environment_profile \<times> bool) \<times> 'a test_store_scheme" where
  "create_environment_profile e c s = (case find_profile (epc_profile_id c) s of
     Some existing \<Rightarrow> if same_profile_creation existing c (env_actor e) then Inr ((existing, True), s)
                      else Inl EnvironmentProfileConflict
   | None \<Rightarrow> let p = profile_of e c in
     and_then (of_option EnvironmentProfileConflict
       (insert_unless (\<lambda>x. enp_id x = enp_id p \<or> enp_profile_id x = enp_profile_id p) p (environment_profiles s))) (\<lambda>rows.
     Inr ((p, False), add_event_audit e ''atep.environment_profile.created.v1'' ''environment_profile'' (enp_id p)
       (environment_profile_payload p) ''environment_profile.created'' (environment_profile_payload p)
       (s\<lparr>environment_profiles := rows\<rparr>))))"

definition require_environment_profile :: "string \<Rightarrow> 'a test_store_scheme \<Rightarrow> app_error + environment_profile" where
  "require_environment_profile i s = of_option (ResourceNotFound ''environment_profile'') (find_profile i s)"

definition require_active_environment_profile ::
  "string \<Rightarrow> 'a test_store_scheme \<Rightarrow> app_error + environment_profile" where
  "require_active_environment_profile i s = and_then (require_environment_profile i s) (\<lambda>p.
     if enp_status p \<noteq> PROFILE_ACTIVE
     then Inl (EnvironmentProfileState (profile_status_value (enp_status p)) ''use_in_test_run'') else Inr p)"

definition list_environment_profiles ::
  "nat \<Rightarrow> nat \<Rightarrow> EnvironmentProfileStatus option \<Rightarrow> 'a test_store_scheme \<Rightarrow> environment_profile list \<times> int" where
  "list_environment_profiles limit offset status s =
     (let rows = filter (\<lambda>p. status = None \<or> status = Some (enp_status p)) (environment_profiles s)
      in (page limit offset (sort_key enp_profile_id (sort_key enp_id rows)), int (length rows)))"

fun profile_transitions :: "EnvironmentProfileStatus \<Rightarrow> EnvironmentProfileStatus set" where
  "profile_transitions PROFILE_DRAFT = {PROFILE_ACTIVE}"
| "profile_transitions PROFILE_ACTIVE = {PROFILE_ARCHIVED}"
| "profile_transitions PROFILE_ARCHIVED = {}"

definition update_environment_profile_status ::
  "env \<Rightarrow> environment_profile \<Rightarrow> environment_profile_status_update \<Rightarrow> 'a test_store_scheme
    \<Rightarrow> app_error + (environment_profile \<times> bool) \<times> 'a test_store_scheme" where
  "update_environment_profile_status e p c s =
     (if enp_status p = eps_status c then Inr ((p, True), s)
      else if enp_version p \<noteq> eps_expected_version c then Inl (EnvironmentProfileVersionConflict (enp_version p))
      else if eps_status c \<notin> profile_transitions (enp_status p)
        then Inl (EnvironmentProfileState (profile_status_value (enp_status p)) (profile_status_value (eps_status c)))
      else let q = p\<lparr>enp_status := eps_status c, enp_version := enp_version p + 1\<rparr>;
               payload = environment_profile_payload q
                 @ [(''previous_status'', JStr (profile_status_value (enp_status p)))]
      in Inr ((q, False), add_event_audit e ''atep.environment_profile.status_changed.v1'' ''environment_profile'' (enp_id q)
           payload ''environment_profile.status_changed'' payload
           (s\<lparr>environment_profiles := update_row enp_profile_id q (environment_profiles s)\<rparr>)))"

end
