(* ===== verification/TestRuns.thy ===== *)
theory TestRuns
  imports TestCatalog
begin

text \<open>
  Test runs and the results of their cases: \<open>src/src/atep/test_runs/service.py\<close>. A run of a
  catalogue suite has one result row per case of the suite, and its status is derived from them; a
  run without a suite is driven by status updates. The identifiers the database gives to the rows of
  the cases are an argument; they are taken to be new.
\<close>

section \<open>Creating a run\<close>

definition find_run :: "string \<Rightarrow> 'a test_store_scheme \<Rightarrow> test_run option" where
  "find_run i s = select (\<lambda>r. trn_run_id r = i) (test_runs s)"

definition reserved_run_id :: "string \<Rightarrow> 'a test_store_scheme \<Rightarrow> test_job option" where
  "reserved_run_id i s = select (\<lambda>j. tjb_run_id j = i) (test_jobs s)"

definition same_run_creation ::
  "test_run \<Rightarrow> test_run_create \<Rightarrow> vehicle \<Rightarrow> environment_profile option \<Rightarrow> test_suite_row option \<Rightarrow> uuid \<Rightarrow> bool" where
  "same_run_creation r c v profile suite actor \<longleftrightarrow> trn_vehicle_id r = veh_id v
     \<and> trn_environment_profile_id r = map_option enp_id profile \<and> trn_catalog_suite_id r = map_option tsu_id suite
     \<and> trn_requested_by_user_id r = actor \<and> trn_name r = trc_name c \<and> trn_suite r = trc_suite c
     \<and> json_eq (JObj (trn_metadata r)) (JObj (trc_metadata c))"

definition profile_snapshot_of :: "environment_profile \<Rightarrow> profile_snapshot" where
  "profile_snapshot_of p = \<lparr>psn_profile_id = enp_profile_id p, psn_name = enp_name p, psn_vehicle_kind = enp_vehicle_kind p,
     psn_property_source = enp_property_source p, psn_configuration = enp_configuration p\<rparr>"

definition run_suite_snapshot :: "test_suite_row \<Rightarrow> suite_snapshot" where
  "run_suite_snapshot u = \<lparr>ssn_suite_id = tsu_suite_id u, ssn_name = tsu_name u, ssn_suite_type = tsu_suite_type u,
     ssn_tags = None, ssn_cases = tsu_composition u\<rparr>"

definition suite_snapshot_json :: "suite_snapshot \<Rightarrow> json" where
  "suite_snapshot_json x = JObj ([(''suite_id'', JStr (ssn_suite_id x)), (''name'', JStr (ssn_name x)),
     (''suite_type'', JStr (suite_type_value (ssn_suite_type x)))]
     @ (case ssn_tags x of None \<Rightarrow> [] | Some ts \<Rightarrow> [(''tags'', JArr (map JStr ts))])
     @ [(''cases'', JArr (map suite_case_json (ssn_cases x)))])"

definition run_of ::
  "env \<Rightarrow> int \<Rightarrow> vehicle \<Rightarrow> environment_profile option \<Rightarrow> test_suite_row option \<Rightarrow> test_run_create \<Rightarrow> test_run" where
  "run_of e now v profile suite c = \<lparr>trn_id = env_new_id e, trn_run_id = trc_run_id c, trn_vehicle_id = veh_id v,
     trn_requested_by_user_id = env_actor e, trn_environment_profile_id = map_option enp_id profile,
     trn_environment_profile_version = map_option enp_version profile,
     trn_environment_snapshot = map_option profile_snapshot_of profile, trn_catalog_suite_id = map_option tsu_id suite,
     trn_catalog_suite_version = map_option tsu_version suite,
     trn_catalog_suite_snapshot = map_option run_suite_snapshot suite, trn_name = trc_name c, trn_suite = trc_suite c,
     trn_metadata = trc_metadata c, trn_status = RUN_QUEUED, trn_progress_percent = 0, trn_version = 1,
     trn_summary = None, trn_started_at = None, trn_completed_at = None, trn_created_at = now, trn_updated_at = now\<rparr>"

text \<open>The row of a case that was not executed yet.\<close>

definition pending_case :: "uuid \<Rightarrow> uuid \<Rightarrow> int \<Rightarrow> suite_case \<Rightarrow> test_case_result" where
  "pending_case i run now x = \<lparr>tcr_id = i, tcr_test_run_id = run, tcr_case_id = tic_definition_id x,
     tcr_definition_id = tic_definition_id x, tcr_definition_version = sca_definition_version x,
     tcr_order = tic_order x, tcr_required = tic_required x, tcr_status = CASE_PENDING, tcr_attempt = 0,
     tcr_duration_ms = None, tcr_observed = None, tcr_evidence_refs = [], tcr_version = 1,
     tcr_created_at = now, tcr_updated_at = now\<rparr>"

definition pending_cases :: "(nat \<Rightarrow> uuid) \<Rightarrow> uuid \<Rightarrow> int \<Rightarrow> suite_case list \<Rightarrow> test_case_result list" where
  "pending_cases ids run now xs = map (\<lambda>(n, x). pending_case (ids n) run now x) (zip [0..<length xs] xs)"

definition test_run_event_payload :: "test_run \<Rightarrow> string \<Rightarrow> dict" where
  "test_run_event_payload r vehicle_identifier = [(''run_id'', JStr (trn_run_id r)),
     (''vehicle_id'', JStr vehicle_identifier), (''requested_by_user_id'', JStr (trn_requested_by_user_id r)),
     (''environment_profile_id'', jopt (\<lambda>p. JStr (psn_profile_id p)) (trn_environment_snapshot r)),
     (''environment_profile_version'', jopt JInt (trn_environment_profile_version r)),
     (''environment_snapshot'', jopt profile_snapshot_json (trn_environment_snapshot r)),
     (''catalog_suite_id'', jopt (\<lambda>x. JStr (ssn_suite_id x)) (trn_catalog_suite_snapshot r)),
     (''catalog_suite_version'', jopt JInt (trn_catalog_suite_version r)),
     (''catalog_case_count'', JInt (case trn_catalog_suite_snapshot r of None \<Rightarrow> 0 | Some x \<Rightarrow> int (length (ssn_cases x)))),
     (''name'', JStr (trn_name r)), (''suite'', JStr (suite_value (trn_suite r))), (''metadata'', JObj (trn_metadata r)),
     (''status'', JStr (run_status_value (trn_status r))), (''progress_percent'', JInt (trn_progress_percent r)),
     (''version'', JInt (trn_version r)), (''summary'', jopt JStr (trn_summary r)),
     (''started_at'', jopt (\<lambda>t. JStr (isoformat t)) (trn_started_at r)),
     (''completed_at'', jopt (\<lambda>t. JStr (isoformat t)) (trn_completed_at r)),
     (''created_at'', JStr (isoformat (trn_created_at r))), (''updated_at'', JStr (isoformat (trn_updated_at r)))]"

definition insert_run :: "test_run \<Rightarrow> 'a test_store_scheme \<Rightarrow> test_run list option" where
  "insert_run r s = insert_unless (\<lambda>x. trn_id x = trn_id r \<or> trn_run_id x = trn_run_id r) r (test_runs s)"

definition create_test_run ::
  "env \<Rightarrow> (nat \<Rightarrow> uuid) \<Rightarrow> int \<Rightarrow> vehicle \<Rightarrow> environment_profile option \<Rightarrow> test_suite_row option \<Rightarrow> test_run_create
    \<Rightarrow> 'a test_store_scheme \<Rightarrow> app_error + (test_run \<times> bool) \<times> 'a test_store_scheme" where
  "create_test_run e ids now v profile suite c s = (case find_run (trc_run_id c) s of
     Some existing \<Rightarrow> if same_run_creation existing c v profile suite (env_actor e) then Inr ((existing, True), s)
                      else Inl TestRunConflict
   | None \<Rightarrow>
     if (case suite of None \<Rightarrow> False | Some u \<Rightarrow> tsu_status u \<noteq> ACTIVE)
       then Inl (TestCatalogState (catalog_status_value (tsu_status (the suite))) ''execute'')
     else if reserved_run_id (trc_run_id c) s \<noteq> None then Inl TestRunConflict
     else let r = run_of e now v profile suite c;
              cases = (case suite of None \<Rightarrow> [] | Some u \<Rightarrow> pending_cases ids (trn_id r) now (tsu_composition u)) in
     and_then (of_option TestRunConflict (insert_run r s)) (\<lambda>runs.
     and_then (of_option TestRunConflict (insert_rows case_key cases (test_case_results s))) (\<lambda>results.
     let payload = test_run_event_payload r (veh_identifier v) in
     Inr ((r, False), add_event_audit e ''atep.test_run.created.v1'' ''test_run'' (trn_id r) payload ''test_run.created''
       payload (s\<lparr>test_runs := runs, test_case_results := results\<rparr>)))))"

section \<open>Reading runs and results\<close>

definition vehicle_by_id :: "uuid \<Rightarrow> 'a test_store_scheme \<Rightarrow> vehicle option" where
  "vehicle_by_id i s = select (\<lambda>v. veh_id v = i) (vehicles s)"

definition require_test_run :: "string \<Rightarrow> 'a test_store_scheme \<Rightarrow> app_error + test_run \<times> vehicle" where
  "require_test_run i s = of_option (ResourceNotFound ''test_run'') (case find_run i s of
     None \<Rightarrow> None | Some r \<Rightarrow> map_option (Pair r) (vehicle_by_id (trn_vehicle_id r) s))"

text \<open>The join with the vehicles, filtered, the latest run first.\<close>

definition list_test_runs ::
  "nat \<Rightarrow> nat \<Rightarrow> TestRunStatus option \<Rightarrow> string option \<Rightarrow> 'a test_store_scheme \<Rightarrow> (test_run \<times> vehicle) list \<times> int" where
  "list_test_runs limit offset status vehicle_identifier s =
     (let joined = List.map_filter (\<lambda>r. map_option (Pair r) (vehicle_by_id (trn_vehicle_id r) s)) (test_runs s);
          rows = filter (\<lambda>(r, v). (status = None \<or> status = Some (trn_status r))
             \<and> (vehicle_identifier = None \<or> vehicle_identifier = Some (veh_identifier v))) joined;
          ordered = rev (sort_key (\<lambda>(r, v). trn_created_at r) (sort_key (\<lambda>(r, v). trn_id r) rows))
      in (page limit offset ordered, int (length rows)))"

definition require_catalog_suite :: "string \<Rightarrow> 'a test_store_scheme \<Rightarrow> app_error + test_suite_row" where
  "require_catalog_suite i s = of_option (ResourceNotFound ''test_suite'') (find_suite i s)"

definition run_cases :: "uuid \<Rightarrow> 'a test_store_scheme \<Rightarrow> test_case_result list" where
  "run_cases i s = filter (\<lambda>x. tcr_test_run_id x = i) (test_case_results s)"

definition list_case_results :: "test_run \<Rightarrow> nat \<Rightarrow> nat \<Rightarrow> 'a test_store_scheme \<Rightarrow> test_case_result list \<times> int" where
  "list_case_results r limit offset s = (let rows = run_cases (trn_id r) s in
     (page limit offset (sort_key tcr_order (sort_key tcr_id rows)), int (length rows)))"

definition require_case_result :: "test_run \<Rightarrow> string \<Rightarrow> 'a test_store_scheme \<Rightarrow> app_error + test_case_result" where
  "require_case_result r i s = of_option (ResourceNotFound ''test_case_result'')
     (select (\<lambda>x. case_key x = (trn_id r, i)) (test_case_results s))"

section \<open>Updating the status of a run\<close>

fun run_transitions :: "TestRunStatus \<Rightarrow> TestRunStatus set" where
  "run_transitions RUN_QUEUED = {RUN_RUNNING, RUN_CANCELLED}"
| "run_transitions RUN_RUNNING = {RUN_PASSED, RUN_FAILED, RUN_CANCELLED}"
| "run_transitions _ = {}"

definition finished :: "TestRunStatus \<Rightarrow> bool" where
  "finished status \<longleftrightarrow> status \<in> {RUN_PASSED, RUN_FAILED, RUN_CANCELLED}"

definition same_status :: "test_run \<Rightarrow> test_run_status_update \<Rightarrow> bool" where
  "same_status r c \<longleftrightarrow> trn_status r = tru_status c \<and> trn_progress_percent r = tru_progress_percent c
     \<and> trn_summary r = tru_summary c"

definition moved_run :: "int \<Rightarrow> test_run_status_update \<Rightarrow> test_run \<Rightarrow> test_run" where
  "moved_run now c r = r\<lparr>trn_status := tru_status c, trn_progress_percent := tru_progress_percent c,
     trn_summary := tru_summary c, trn_version := trn_version r + 1, trn_updated_at := now,
     trn_started_at := (if tru_status c = RUN_RUNNING \<and> trn_started_at r = None then Some now else trn_started_at r),
     trn_completed_at := (if finished (tru_status c) then Some now else trn_completed_at r)\<rparr>"

definition save_run :: "test_run \<Rightarrow> 'a test_store_scheme \<Rightarrow> 'a test_store_scheme" where
  "save_run r s = s\<lparr>test_runs := update_row trn_run_id r (test_runs s)\<rparr>"

definition update_test_run_status ::
  "env \<Rightarrow> int \<Rightarrow> test_run \<Rightarrow> vehicle \<Rightarrow> test_run_status_update \<Rightarrow> 'a test_store_scheme
    \<Rightarrow> app_error + (test_run \<times> bool) \<times> 'a test_store_scheme" where
  "update_test_run_status e now r v c s =
     (if same_status r c then Inr ((r, True), s)
      else if tru_expected_version c \<noteq> trn_version r then Inl (TestRunVersionConflict (trn_version r))
      else if trn_catalog_suite_id r \<noteq> None \<and> tru_status c \<noteq> RUN_CANCELLED
        then Inl (TestRunState (run_status_value (trn_status r)) (run_status_value (tru_status c)))
      else if tru_status c \<notin> run_transitions (trn_status r)
        then Inl (TestRunState (run_status_value (trn_status r)) (run_status_value (tru_status c)))
      else let r' = moved_run now c r;
               payload = test_run_event_payload r' (veh_identifier v)
                 @ [(''previous_status'', JStr (run_status_value (trn_status r)))]
      in Inr ((r', False), add_event_audit e ''atep.test_run.status_changed.v1'' ''test_run'' (trn_id r') payload
           ''test_run.status_changed'' payload (save_run r' s)))"

section \<open>Recording the result of a case\<close>

fun case_transitions :: "TestCaseStatus \<Rightarrow> TestCaseStatus set" where
  "case_transitions CASE_PENDING = {CASE_RUNNING, CASE_SKIPPED}"
| "case_transitions CASE_RUNNING = {CASE_PASSED, CASE_FAILED, CASE_SKIPPED}"
| "case_transitions _ = {}"

definition terminal :: "TestCaseStatus \<Rightarrow> bool" where
  "terminal status \<longleftrightarrow> status \<in> {CASE_PASSED, CASE_FAILED, CASE_SKIPPED}"

definition same_case_result :: "test_case_result \<Rightarrow> test_case_result_update \<Rightarrow> bool" where
  "same_case_result x c \<longleftrightarrow> tcr_status x = tcu_status c \<and> tcr_attempt x = tcu_attempt c
     \<and> tcr_duration_ms x = tcu_duration_ms c \<and> tcr_observed x = tcu_observed c \<and> tcr_evidence_refs x = tcu_evidence_refs c"

definition recorded :: "int \<Rightarrow> test_case_result_update \<Rightarrow> test_case_result \<Rightarrow> test_case_result" where
  "recorded now c x = x\<lparr>tcr_status := tcu_status c, tcr_attempt := tcu_attempt c, tcr_duration_ms := tcu_duration_ms c,
     tcr_observed := tcu_observed c, tcr_evidence_refs := tcu_evidence_refs c, tcr_version := tcr_version x + 1,
     tcr_updated_at := now\<rparr>"

text \<open>\<open>_refresh_run_aggregate\<close>: progress and status of the run from the rows of its cases.\<close>

definition complete_count :: "test_case_result list \<Rightarrow> int" where
  "complete_count xs = int (length (filter (\<lambda>x. terminal (tcr_status x)) xs))"

definition failing :: "test_case_result list \<Rightarrow> bool" where
  "failing xs \<longleftrightarrow> list_ex (\<lambda>x. tcr_required x \<and> tcr_status x \<in> {CASE_FAILED, CASE_SKIPPED}) xs"

definition completion_summary :: "int \<Rightarrow> int \<Rightarrow> string" where
  "completion_summary ready all = int_str ready @ '' of '' @ int_str all @ '' catalog cases completed''"

definition refreshed_run :: "int \<Rightarrow> test_case_result list \<Rightarrow> test_run \<Rightarrow> app_error + test_run" where
  "refreshed_run now xs r = (let ready = complete_count xs; all = int (length xs) in
     if all = 0 then Inl ZeroDivisionError
     else let r1 = r\<lparr>trn_progress_percent := (if ready = all then 100 else min 99 (ready * 100 div all))\<rparr>;
              r2 = (if trn_status r1 = RUN_QUEUED then r1\<lparr>trn_status := RUN_RUNNING, trn_started_at := Some now\<rparr> else r1);
              r3 = (if ready = all
                    then r2\<lparr>trn_status := (if failing xs then RUN_FAILED else RUN_PASSED), trn_completed_at := Some now,
                      trn_summary := Some (completion_summary ready all)\<rparr> else r2)
          in Inr (r3\<lparr>trn_version := trn_version r3 + 1, trn_updated_at := now\<rparr>))"

definition case_evidence :: "test_run \<Rightarrow> vehicle \<Rightarrow> TestCaseStatus \<Rightarrow> test_case_result \<Rightarrow> dict" where
  "case_evidence r v previous x = [(''run_id'', JStr (trn_run_id r)), (''vehicle_id'', JStr (veh_identifier v)),
     (''case_id'', JStr (tcr_case_id x)), (''definition_id'', JStr (tcr_definition_id x)),
     (''definition_version'', JInt (tcr_definition_version x)), (''required'', JBool (tcr_required x)),
     (''previous_status'', JStr (case_status_value previous)), (''status'', JStr (case_status_value (tcr_status x))),
     (''attempt'', JInt (tcr_attempt x)), (''duration_ms'', jopt JInt (tcr_duration_ms x)),
     (''evidence_count'', JInt (int (length (tcr_evidence_refs x)))), (''version'', JInt (tcr_version x))]"

definition update_case_result ::
  "env \<Rightarrow> int \<Rightarrow> test_run \<Rightarrow> vehicle \<Rightarrow> test_case_result \<Rightarrow> test_case_result_update \<Rightarrow> 'a test_store_scheme
    \<Rightarrow> app_error + (test_case_result \<times> bool) \<times> 'a test_store_scheme" where
  "update_case_result e now r v x c s =
     (if same_case_result x c then Inr ((x, True), s)
      else if finished (trn_status r) then Inl (TestRunState (run_status_value (trn_status r)) ''record_case_result'')
      else if tcu_expected_version c \<noteq> tcr_version x then Inl (TestCaseResultVersionConflict (tcr_version x))
      else if tcu_status c \<notin> case_transitions (tcr_status x)
        then Inl (TestCaseResultState (case_status_value (tcr_status x)) (case_status_value (tcu_status c)))
      else let y = recorded now c x;
               s1 = s\<lparr>test_case_results := update_row case_key y (test_case_results s)\<rparr> in
      and_then (refreshed_run now (run_cases (trn_id r) s1) r) (\<lambda>r'.
      let payload = case_evidence r' v (tcr_status x) y in
      Inr ((y, False), add_event_audit e ''atep.test_case.result_recorded.v1'' ''test_case_result'' (tcr_id y) payload
        ''test_case.result_recorded'' payload (save_run r' s1))))"

section \<open>The endpoints\<close>

text \<open>What the endpoints of \<open>router.py\<close> look up before they call a handler.\<close>

definition require_vehicle :: "string \<Rightarrow> 'a test_store_scheme \<Rightarrow> app_error + vehicle" where
  "require_vehicle i s = of_option (ResourceNotFound ''vehicle'') (select (\<lambda>v. veh_identifier v = i) (vehicles s))"

definition optional :: "('k \<Rightarrow> 'e + 'r) \<Rightarrow> 'k option \<Rightarrow> 'e + 'r option" where
  "optional f x = (case x of None \<Rightarrow> Inr None | Some k \<Rightarrow> and_then (f k) (\<lambda>r. Inr (Some r)))"

definition create_test_run_endpoint ::
  "env \<Rightarrow> (nat \<Rightarrow> uuid) \<Rightarrow> int \<Rightarrow> test_run_create \<Rightarrow> 'a test_store_scheme
    \<Rightarrow> app_error + (test_run \<times> bool) \<times> 'a test_store_scheme" where
  "create_test_run_endpoint e ids now c s =
     and_then (require_vehicle (trc_vehicle_id c) s) (\<lambda>v.
     and_then (optional (\<lambda>i. require_active_environment_profile i s) (trc_environment_profile_id c)) (\<lambda>profile.
     and_then (optional (\<lambda>i. require_catalog_suite i s) (trc_catalog_suite_id c)) (\<lambda>suite.
     if (case suite of None \<Rightarrow> False | Some u \<Rightarrow> suite_type_value (tsu_suite_type u) \<noteq> suite_value (trc_suite c))
       then Inl TestRunConflict
     else create_test_run e ids now v profile suite c s)))"

definition update_test_run_status_endpoint ::
  "env \<Rightarrow> int \<Rightarrow> string \<Rightarrow> test_run_status_update \<Rightarrow> 'a test_store_scheme
    \<Rightarrow> app_error + (test_run \<times> bool) \<times> 'a test_store_scheme" where
  "update_test_run_status_endpoint e now i c s =
     and_then (require_test_run i s) (\<lambda>(r, v). update_test_run_status e now r v c s)"

definition update_test_case_result_endpoint ::
  "env \<Rightarrow> int \<Rightarrow> string \<Rightarrow> string \<Rightarrow> test_case_result_update \<Rightarrow> 'a test_store_scheme
    \<Rightarrow> app_error + (test_case_result \<times> bool) \<times> 'a test_store_scheme" where
  "update_test_case_result_endpoint e now i k c s =
     and_then (require_test_run i s) (\<lambda>(r, v).
     and_then (require_case_result r k s) (\<lambda>x. update_case_result e now r v x c s))"

end
