(* ===== verification/TestJobs.thy ===== *)
theory TestJobs
  imports TestRuns
begin

text \<open>
  Scheduled test jobs: \<open>src/src/atep/test_jobs/service.py\<close>, and the cycle of
  \<open>src/src/atep/test_jobs/scheduler.py\<close>. A job reserves the identifier of its run; the scheduler
  creates the runs of the jobs that are due, a bounded number per transaction.
\<close>

section \<open>Creating a job\<close>

definition find_job :: "string \<Rightarrow> 'a test_store_scheme \<Rightarrow> test_job option" where
  "find_job i s = select (\<lambda>j. tjb_job_id j = i) (test_jobs s)"

definition same_job_creation ::
  "test_job \<Rightarrow> test_job_create \<Rightarrow> vehicle \<Rightarrow> environment_profile option \<Rightarrow> test_suite_row option \<Rightarrow> uuid \<Rightarrow> bool" where
  "same_job_creation j c v profile suite actor \<longleftrightarrow> tjb_run_id j = tjc_run_id c \<and> tjb_vehicle_id j = veh_id v
     \<and> tjb_requested_by_user_id j = actor \<and> tjb_environment_profile_id j = map_option enp_id profile
     \<and> tjb_catalog_suite_id j = map_option tsu_id suite \<and> tjb_selection_policy j = tjc_selection_policy c
     \<and> tjb_name j = tjc_name c \<and> tjb_suite j = tjc_suite c
     \<and> json_eq (JObj (tjb_metadata j)) (JObj (tjc_metadata c)) \<and> tjb_scheduled_for j = tjc_scheduled_for c"

definition selection_snapshot :: "test_suite_row \<Rightarrow> suite_snapshot" where
  "selection_snapshot u = \<lparr>ssn_suite_id = tsu_suite_id u, ssn_name = tsu_name u, ssn_suite_type = tsu_suite_type u,
     ssn_tags = Some (tsu_tags u), ssn_cases = tsu_composition u\<rparr>"

definition job_of ::
  "env \<Rightarrow> int \<Rightarrow> vehicle \<Rightarrow> environment_profile option \<Rightarrow> test_suite_row option \<Rightarrow> test_job_create \<Rightarrow> test_job" where
  "job_of e now v profile suite c = \<lparr>tjb_id = env_new_id e, tjb_job_id = tjc_job_id c, tjb_run_id = tjc_run_id c,
     tjb_vehicle_id = veh_id v, tjb_requested_by_user_id = env_actor e,
     tjb_environment_profile_id = map_option enp_id profile, tjb_environment_profile_version = map_option enp_version profile,
     tjb_environment_snapshot = map_option profile_snapshot_of profile, tjb_catalog_suite_id = map_option tsu_id suite,
     tjb_catalog_suite_version = map_option tsu_version suite, tjb_selection_policy = tjc_selection_policy c,
     tjb_selection_snapshot = map_option selection_snapshot suite, tjb_name = tjc_name c, tjb_suite = tjc_suite c,
     tjb_metadata = tjc_metadata c, tjb_scheduled_for = tjc_scheduled_for c, tjb_status = JOB_SCHEDULED, tjb_version = 1,
     tjb_test_run_id = None, tjb_dispatched_at = None, tjb_cancelled_at = None, tjb_cancellation_reason = None,
     tjb_created_at = now, tjb_updated_at = now\<rparr>"

definition test_job_event_payload :: "test_job \<Rightarrow> string \<Rightarrow> dict" where
  "test_job_event_payload j vehicle_identifier = [(''job_id'', JStr (tjb_job_id j)), (''run_id'', JStr (tjb_run_id j)),
     (''vehicle_id'', JStr vehicle_identifier), (''requested_by_user_id'', JStr (tjb_requested_by_user_id j)),
     (''environment_profile_id'', jopt (\<lambda>p. JStr (psn_profile_id p)) (tjb_environment_snapshot j)),
     (''environment_profile_version'', jopt JInt (tjb_environment_profile_version j)),
     (''environment_snapshot'', jopt profile_snapshot_json (tjb_environment_snapshot j)),
     (''catalog_suite_id'', jopt (\<lambda>x. JStr (ssn_suite_id x)) (tjb_selection_snapshot j)),
     (''catalog_suite_version'', jopt JInt (tjb_catalog_suite_version j)),
     (''selection_policy'', jopt (\<lambda>p. JStr (policy_value p)) (tjb_selection_policy j)),
     (''selection_case_count'', JInt (case tjb_selection_snapshot j of None \<Rightarrow> 0 | Some x \<Rightarrow> int (length (ssn_cases x)))),
     (''name'', JStr (tjb_name j)), (''suite'', JStr (suite_value (tjb_suite j))), (''metadata'', JObj (tjb_metadata j)),
     (''scheduled_for'', JStr (isoformat (tjb_scheduled_for j))), (''status'', JStr (job_status_value (tjb_status j))),
     (''version'', JInt (tjb_version j)), (''test_run_id'', jopt JStr (tjb_test_run_id j)),
     (''dispatched_at'', jopt (\<lambda>t. JStr (isoformat t)) (tjb_dispatched_at j)),
     (''cancelled_at'', jopt (\<lambda>t. JStr (isoformat t)) (tjb_cancelled_at j)),
     (''cancellation_reason'', jopt JStr (tjb_cancellation_reason j))]"

definition create_test_job ::
  "env \<Rightarrow> int \<Rightarrow> vehicle \<Rightarrow> environment_profile option \<Rightarrow> test_suite_row option \<Rightarrow> test_job_create
    \<Rightarrow> 'a test_store_scheme \<Rightarrow> app_error + (test_job \<times> bool) \<times> 'a test_store_scheme" where
  "create_test_job e now v profile suite c s = (case find_job (tjc_job_id c) s of
     Some existing \<Rightarrow> if same_job_creation existing c v profile suite (env_actor e) then Inr ((existing, True), s)
                      else Inl TestJobConflict
   | None \<Rightarrow>
     if reserved_run_id (tjc_run_id c) s \<noteq> None \<or> find_run (tjc_run_id c) s \<noteq> None then Inl TestJobConflict
     else and_then (case suite of None \<Rightarrow> Inr ()
        | Some u \<Rightarrow> if tsu_status u \<noteq> ACTIVE then Inl (TestCatalogState (catalog_status_value (tsu_status u)) ''schedule'')
            else if Some (suite_type_value (tsu_suite_type u)) \<noteq> map_option policy_value (tjc_selection_policy c)
              then Inl (TestCatalogState (suite_type_value (tsu_suite_type u))
                     (case tjc_selection_policy c of None \<Rightarrow> ''None'' | Some p \<Rightarrow> policy_value p))
            else Inr ()) (\<lambda>_.
     let j = job_of e now v profile suite c; payload = test_job_event_payload j (veh_identifier v) in
     and_then (of_option TestJobConflict (insert_unless
        (\<lambda>x. tjb_id x = tjb_id j \<or> tjb_job_id x = tjb_job_id j \<or> tjb_run_id x = tjb_run_id j) j (test_jobs s))) (\<lambda>jobs.
     Inr ((j, False), add_event_audit e ''atep.test_job.scheduled.v1'' ''test_job'' (tjb_id j) payload
        ''test_job.scheduled'' payload (s\<lparr>test_jobs := jobs\<rparr>)))))"

section \<open>Reading and cancelling jobs\<close>

definition require_test_job :: "string \<Rightarrow> 'a test_store_scheme \<Rightarrow> app_error + test_job \<times> vehicle" where
  "require_test_job i s = of_option (ResourceNotFound ''test_job'') (case find_job i s of
     None \<Rightarrow> None | Some j \<Rightarrow> map_option (Pair j) (vehicle_by_id (tjb_vehicle_id j) s))"

definition jobs_with_vehicles :: "'a test_store_scheme \<Rightarrow> (test_job \<times> vehicle) list" where
  "jobs_with_vehicles s = List.map_filter (\<lambda>j. map_option (Pair j) (vehicle_by_id (tjb_vehicle_id j) s)) (test_jobs s)"

definition by_schedule :: "(test_job \<times> vehicle) list \<Rightarrow> (test_job \<times> vehicle) list" where
  "by_schedule rows = sort_key (\<lambda>(j, v). tjb_scheduled_for j) (sort_key (\<lambda>(j, v). tjb_id j) rows)"

definition list_test_jobs ::
  "nat \<Rightarrow> nat \<Rightarrow> TestJobStatus option \<Rightarrow> string option \<Rightarrow> 'a test_store_scheme \<Rightarrow> (test_job \<times> vehicle) list \<times> int" where
  "list_test_jobs limit offset status vehicle_identifier s =
     (let rows = filter (\<lambda>(j, v). (status = None \<or> status = Some (tjb_status j))
        \<and> (vehicle_identifier = None \<or> vehicle_identifier = Some (veh_identifier v))) (jobs_with_vehicles s)
      in (page limit offset (by_schedule rows), int (length rows)))"

definition save_job :: "test_job \<Rightarrow> 'a test_store_scheme \<Rightarrow> 'a test_store_scheme" where
  "save_job j s = s\<lparr>test_jobs := update_row tjb_job_id j (test_jobs s)\<rparr>"

definition cancelled_job :: "int \<Rightarrow> string option \<Rightarrow> test_job \<Rightarrow> test_job" where
  "cancelled_job now reason j = j\<lparr>tjb_status := JOB_CANCELLED, tjb_version := tjb_version j + 1,
     tjb_cancelled_at := Some now, tjb_cancellation_reason := reason, tjb_updated_at := now\<rparr>"

definition cancel_test_job ::
  "env \<Rightarrow> int \<Rightarrow> test_job \<Rightarrow> vehicle \<Rightarrow> test_job_cancel \<Rightarrow> 'a test_store_scheme
    \<Rightarrow> app_error + (test_job \<times> bool) \<times> 'a test_store_scheme" where
  "cancel_test_job e now j v c s =
     (if tjb_status j = JOB_CANCELLED \<and> tjb_cancellation_reason j = tjx_reason c then Inr ((j, True), s)
      else if tjx_expected_version c \<noteq> tjb_version j then Inl (TestJobVersionConflict (tjb_version j))
      else if tjb_status j \<noteq> JOB_SCHEDULED then Inl (TestJobState (job_status_value (tjb_status j)) ''cancelled'')
      else let j' = cancelled_job now (tjx_reason c) j; payload = test_job_event_payload j' (veh_identifier v)
      in Inr ((j', False), add_event_audit e ''atep.test_job.cancelled.v1'' ''test_job'' (tjb_id j') payload
           ''test_job.cancelled'' payload (save_job j' s)))"

section \<open>Dispatching the jobs that are due\<close>

definition due_jobs :: "int \<Rightarrow> 'a test_store_scheme \<Rightarrow> (test_job \<times> vehicle) list" where
  "due_jobs now s = by_schedule (filter (\<lambda>(j, v). tjb_status j = JOB_SCHEDULED \<and> tjb_scheduled_for j \<le> now)
     (jobs_with_vehicles s))"

definition run_of_job :: "uuid \<Rightarrow> int \<Rightarrow> test_job \<Rightarrow> test_run" where
  "run_of_job i now j = \<lparr>trn_id = i, trn_run_id = tjb_run_id j, trn_vehicle_id = tjb_vehicle_id j,
     trn_requested_by_user_id = tjb_requested_by_user_id j, trn_environment_profile_id = tjb_environment_profile_id j,
     trn_environment_profile_version = tjb_environment_profile_version j,
     trn_environment_snapshot = tjb_environment_snapshot j, trn_catalog_suite_id = tjb_catalog_suite_id j,
     trn_catalog_suite_version = tjb_catalog_suite_version j, trn_catalog_suite_snapshot = tjb_selection_snapshot j,
     trn_name = tjb_name j, trn_suite = tjb_suite j, trn_metadata = tjb_metadata j, trn_status = RUN_QUEUED,
     trn_progress_percent = 0, trn_version = 1, trn_summary = None, trn_started_at = None, trn_completed_at = None,
     trn_created_at = now, trn_updated_at = now\<rparr>"

definition dispatched_job :: "uuid \<Rightarrow> int \<Rightarrow> test_job \<Rightarrow> test_job" where
  "dispatched_job run now j = j\<lparr>tjb_status := JOB_DISPATCHED, tjb_version := tjb_version j + 1,
     tjb_test_run_id := Some run, tjb_dispatched_at := Some now, tjb_updated_at := now\<rparr>"

text \<open>
  One turn of the loop. The database gives the run the first and the rows of its cases the following
  identifiers of the supply. A violated constraint aborts the transaction.
\<close>

definition dispatch_job ::
  "(nat \<Rightarrow> uuid) \<Rightarrow> int \<Rightarrow> test_job \<times> vehicle \<Rightarrow> 'a test_store_scheme \<Rightarrow> app_error + 'a test_store_scheme" where
  "dispatch_job ids now = (\<lambda>(j, v) s.
     let r = run_of_job (ids 0) now j;
         cases = (case tjb_selection_snapshot j of None \<Rightarrow> []
                  | Some x \<Rightarrow> pending_cases (\<lambda>n. ids (Suc n)) (trn_id r) now (ssn_cases x)) in
     and_then (of_option (IntegrityError ''uq_test_runs_run_id'') (insert_run r s)) (\<lambda>runs.
     and_then (of_option (IntegrityError ''uq_test_case_results_run_case'')
       (insert_rows case_key cases (test_case_results s))) (\<lambda>results.
     let j' = dispatched_job (trn_id r) now j;
         run_payload = test_run_event_payload r (veh_identifier v);
         job_payload = test_job_event_payload j' (veh_identifier v) in
     Inr (record_audit None ''test_job.dispatched'' ''test_job'' (tjb_id j') None job_payload
       (enqueue_event ''atep.test_job.dispatched.v1'' ''test_job'' (tjb_id j') job_payload None
       (enqueue_event ''atep.test_run.created.v1'' ''test_run'' (trn_id r) run_payload None
       (save_job j' (s\<lparr>test_runs := runs, test_case_results := results\<rparr>))))))))"

fun dispatch_loop ::
  "(nat \<Rightarrow> nat \<Rightarrow> uuid) \<Rightarrow> int \<Rightarrow> (test_job \<times> vehicle) list \<Rightarrow> 'a test_store_scheme \<Rightarrow> app_error + 'a test_store_scheme" where
  "dispatch_loop ids now [] s = Inr s"
| "dispatch_loop ids now (x # xs) s =
     and_then (dispatch_job (ids 0) now x s) (dispatch_loop (\<lambda>n. ids (Suc n)) now xs)"

definition dispatch_due_test_jobs ::
  "(nat \<Rightarrow> nat \<Rightarrow> uuid) \<Rightarrow> int \<Rightarrow> nat \<Rightarrow> 'a test_store_scheme \<Rightarrow> app_error + int \<times> 'a test_store_scheme" where
  "dispatch_due_test_jobs ids now limit s = (let rows = take limit (due_jobs now s) in
     and_then (dispatch_loop ids now rows s) (\<lambda>t. Inr (int (length rows), t)))"

text \<open>
  The cycles of \<open>run_test_scheduler\<close> at the given instants: a cycle that fails is rolled back, and the
  next one is tried.
\<close>

fun scheduler_cycles ::
  "(nat \<Rightarrow> nat \<Rightarrow> nat \<Rightarrow> uuid) \<Rightarrow> nat \<Rightarrow> int list \<Rightarrow> 'a test_store_scheme \<Rightarrow> 'a test_store_scheme" where
  "scheduler_cycles stock limit [] s = s"
| "scheduler_cycles stock limit (now # nows) s = scheduler_cycles (\<lambda>n. stock (Suc n)) limit nows
     (case dispatch_due_test_jobs (stock 0) now limit s of Inl _ \<Rightarrow> s | Inr (n, t) \<Rightarrow> t)"

text \<open>\<open>measure_due_test_jobs\<close>: how many jobs are due, and the age of the oldest in microseconds.\<close>

definition measure_due_test_jobs :: "int \<Rightarrow> 'a test_store_scheme \<Rightarrow> int \<times> int" where
  "measure_due_test_jobs now s =
     (let due = filter (\<lambda>j. tjb_status j = JOB_SCHEDULED \<and> tjb_scheduled_for j \<le> now) (test_jobs s) in
      (int (length due), case map tjb_scheduled_for due of [] \<Rightarrow> 0 | t # ts \<Rightarrow> max 0 (now - foldl min t ts)))"

section \<open>The endpoints\<close>

definition create_test_job_endpoint ::
  "env \<Rightarrow> int \<Rightarrow> test_job_create \<Rightarrow> 'a test_store_scheme \<Rightarrow> app_error + (test_job \<times> bool) \<times> 'a test_store_scheme" where
  "create_test_job_endpoint e now c s =
     and_then (require_vehicle (tjc_vehicle_id c) s) (\<lambda>v.
     and_then (optional (\<lambda>i. require_active_environment_profile i s) (tjc_environment_profile_id c)) (\<lambda>profile.
     and_then (optional (\<lambda>i. require_catalog_suite i s) (tjc_catalog_suite_id c)) (\<lambda>suite.
     create_test_job e now v profile suite c s)))"

definition cancel_test_job_endpoint ::
  "env \<Rightarrow> int \<Rightarrow> string \<Rightarrow> test_job_cancel \<Rightarrow> 'a test_store_scheme \<Rightarrow> app_error + (test_job \<times> bool) \<times> 'a test_store_scheme" where
  "cancel_test_job_endpoint e now i c s =
     and_then (require_test_job i s) (\<lambda>(j, v). cancel_test_job e now j v c s)"

end
