(* ===== verification/TestUpdates.thy ===== *)
theory TestUpdates
  imports TestJobs
begin

text \<open>
  The contract that all updates of the test services share: a command that asks for what is already
  there is recognised and changes nothing, any other names the version it was prepared against, and
  one that takes effect counts the version up. It holds of the status updates of the catalogue, the
  profiles and the runs, of recorded case results and of the cancellation of jobs.
\<close>

locale guarded_update =
  fixes run :: "'e \<Rightarrow> 'r \<Rightarrow> 'c \<Rightarrow> 's \<Rightarrow> app_error + ('r \<times> bool) \<times> 's"
    and already :: "'r \<Rightarrow> 'c \<Rightarrow> bool"
    and version :: "'r \<Rightarrow> int"
    and expected :: "'c \<Rightarrow> int"
  assumes recognised: "already x c \<Longrightarrow> run e x c s = Inr ((x, True), s)"
    and stale: "\<not> already x c \<Longrightarrow> expected c \<noteq> version x \<Longrightarrow> \<exists>err. run e x c s = Inl err"
    and effect: "\<not> already x c \<Longrightarrow> run e x c s = Inr ((y, d), s') \<Longrightarrow> \<not> d \<and> already y c \<and> version y = version x + 1"
begin

text \<open>A retry, by whoever and in whatever store the row is still in, finds its effect and changes nothing.\<close>

lemma retried:
  assumes "run e x c s = Inr ((y, d), s')" shows "run e' y c t = Inr ((y, True), t)"
proof (cases "already x c")
  case True
  then show ?thesis using assms recognised[OF True] by simp
next
  case False
  then show ?thesis using effect[OF False assms] recognised by blast
qed

lemma unchanged_iff: "run e x c s = Inr ((y, d), s') \<Longrightarrow> d \<longleftrightarrow> already x c"
  using recognised[of x c e s] effect[of x c e s y d s'] by (cases "already x c") simp_all

lemma counted:
  assumes "run e x c s = Inr ((y, False), s')" shows "version x = expected c \<and> version y = expected c + 1"
proof -
  have new: "\<not> already x c" using unchanged_iff[OF assms] by simp
  then have "expected c = version x" using stale[OF new, of e s] assms by auto
  then show ?thesis using effect[OF new assms] by simp
qed

text \<open>Of two commands prepared against one version only the first takes effect.\<close>

lemma second_refused:
  assumes "run e x c s = Inr ((y, False), s')" "expected c' = expected c" "\<not> already y c'"
  shows "\<exists>err. run e' y c' t = Inl err"
  using counted[OF assms(1)] stale[OF assms(3)] assms(2) by simp

end

section \<open>The handlers keep it\<close>

lemma catalog_effect:
  assumes "resource_status x \<noteq> csu_status c" "update_status e x c s = Inr ((y, d), s')"
  shows "\<not> d \<and> resource_status y = csu_status c \<and> resource_version y = resource_version x + 1"
  using assms by (cases x) (auto simp: update_status_def Let_def split: if_splits)

lemma catalog_stale:
  assumes "resource_status x \<noteq> csu_status c" "csu_expected_version c \<noteq> resource_version x"
  shows "\<exists>err. update_status e x c s = Inl err"
  using assms by (simp add: update_status_def)

interpretation catalog_updates: guarded_update update_status "\<lambda>x c. resource_status x = csu_status c" resource_version
  csu_expected_version
  by unfold_locales (simp add: update_status_def, rule catalog_stale, assumption+, rule catalog_effect)

interpretation profile_updates: guarded_update update_environment_profile_status "\<lambda>p c. enp_status p = eps_status c" enp_version
  eps_expected_version
  by unfold_locales (auto simp: update_environment_profile_status_def Let_def split: if_splits)

interpretation run_updates: guarded_update "\<lambda>(e, now, v) r c s. update_test_run_status e now r v c s" same_status trn_version
  tru_expected_version
  by unfold_locales (auto simp: update_test_run_status_def moved_run_def same_status_def Let_def split: if_splits)

lemma result_stale:
  assumes "\<not> same_case_result x c" "tcu_expected_version c \<noteq> tcr_version x"
  shows "\<exists>err. update_case_result e now r v x c s = Inl err"
  using assms by (auto simp: update_case_result_def)

lemma result_counted:
  assumes "\<not> same_case_result x c" "update_case_result e now r v x c s = Inr ((y, d), s')"
  shows "\<not> d \<and> same_case_result y c \<and> tcr_version y = tcr_version x + 1"
  using assms by (auto simp: update_case_result_def recorded_def same_case_result_def Let_def ok_simps split: if_splits)

interpretation result_updates: guarded_update "\<lambda>(e, now, r, v) x c s. update_case_result e now r v x c s" same_case_result
  tcr_version tcu_expected_version
  by unfold_locales (clarsimp simp: update_case_result_def, clarsimp simp: result_stale, clarsimp, drule (1) result_counted, simp)

interpretation cancellations: guarded_update "\<lambda>(e, now, v) j c s. cancel_test_job e now j v c s"
  "\<lambda>j c. tjb_status j = JOB_CANCELLED \<and> tjb_cancellation_reason j = tjx_reason c" tjb_version tjx_expected_version
  by unfold_locales (auto simp: cancel_test_job_def cancelled_job_def Let_def split: if_splits)

end
