(* ===== verification/TestReach.thy ===== *)
theory TestReach
  imports TestJobs "HOL-Library.Multiset"
begin

text \<open>
  The steps of the test services and the invariant of every reachable store: the tables keep their
  keys, jobs and runs share one name space, and the status and progress of a run of a suite are those
  its cases determine.
\<close>

section \<open>The invariant\<close>

definition plan_ok :: "suite_case list \<Rightarrow> bool" where
  "plan_ok xs \<longleftrightarrow> xs \<noteq> [] \<and> distinct (map tic_definition_id xs)"

text \<open>A result row carries what the composition asked for.\<close>

definition same_plan :: "suite_case \<Rightarrow> test_case_result \<Rightarrow> bool" where
  "same_plan x q \<longleftrightarrow> tcr_case_id q = tic_definition_id x \<and> tcr_definition_id q = tic_definition_id x
     \<and> tcr_definition_version q = sca_definition_version x \<and> tcr_order q = tic_order x \<and> tcr_required q = tic_required x"

text \<open>The version of a result counts the transitions to its status.\<close>

fun case_versions :: "TestCaseStatus \<Rightarrow> int set" where
  "case_versions CASE_PENDING = {1}"
| "case_versions CASE_RUNNING = {2}"
| "case_versions CASE_SKIPPED = {2, 3}"
| "case_versions _ = {3}"

definition case_ok :: "test_case_result \<Rightarrow> bool" where
  "case_ok x \<longleftrightarrow> tcr_version x \<in> case_versions (tcr_status x)"

definition effort :: "test_case_result list \<Rightarrow> int" where
  "effort xs = sum_list (map (\<lambda>x. tcr_version x - 1) xs)"

text \<open>What the cases say about the run.\<close>

definition verdict :: "test_case_result list \<Rightarrow> test_run \<Rightarrow> bool" where
  "verdict xs r \<longleftrightarrow> (case trn_status r of
     RUN_QUEUED \<Rightarrow> (\<forall>x\<in>set xs. tcr_status x = CASE_PENDING) \<and> trn_progress_percent r = 0
   | RUN_RUNNING \<Rightarrow> complete_count xs < int (length xs) \<and> trn_progress_percent r = complete_count xs * 100 div int (length xs)
   | RUN_PASSED \<Rightarrow> complete_count xs = int (length xs) \<and> \<not> failing xs \<and> trn_progress_percent r = 100
   | RUN_FAILED \<Rightarrow> complete_count xs = int (length xs) \<and> failing xs \<and> trn_progress_percent r = 100
   | RUN_CANCELLED \<Rightarrow> complete_count xs < int (length xs))"

fun plain_versions :: "TestRunStatus \<Rightarrow> int set" where
  "plain_versions RUN_QUEUED = {1}"
| "plain_versions RUN_RUNNING = {2}"
| "plain_versions RUN_CANCELLED = {2, 3}"
| "plain_versions _ = {3}"

definition cases_of :: "test_run \<Rightarrow> test_case_result list \<Rightarrow> test_case_result list" where
  "cases_of r all = filter (\<lambda>x. tcr_test_run_id x = trn_id r) all"

definition run_ok :: "test_case_result list \<Rightarrow> test_run \<Rightarrow> bool" where
  "run_ok all r \<longleftrightarrow> (case trn_catalog_suite_snapshot r of
     None \<Rightarrow> trn_catalog_suite_id r = None \<and> cases_of r all = [] \<and> trn_version r \<in> plain_versions (trn_status r)
   | Some x \<Rightarrow> trn_catalog_suite_id r \<noteq> None \<and> plan_ok (ssn_cases x) \<and> list_all2 same_plan (ssn_cases x) (cases_of r all)
       \<and> list_all case_ok (cases_of r all) \<and> verdict (cases_of r all) r
       \<and> trn_version r = 1 + effort (cases_of r all) + (if trn_status r = RUN_CANCELLED then 1 else 0))"

text \<open>A job that was dispatched has its run; until then its identifier is not that of any run.\<close>

definition job_ok :: "vehicle list \<Rightarrow> test_run list \<Rightarrow> test_job \<Rightarrow> bool" where
  "job_ok vs runs j \<longleftrightarrow> tjb_vehicle_id j \<in> veh_id ` set vs
     \<and> (tjb_selection_snapshot j = None \<longleftrightarrow> tjb_catalog_suite_id j = None)
     \<and> opt_all (\<lambda>x. plan_ok (ssn_cases x)) (tjb_selection_snapshot j)
     \<and> (if tjb_status j = JOB_DISPATCHED
        then \<exists>r\<in>set runs. trn_run_id r = tjb_run_id j \<and> tjb_test_run_id j = Some (trn_id r)
               \<and> trn_catalog_suite_snapshot r = tjb_selection_snapshot j
        else tjb_run_id j \<notin> trn_run_id ` set runs)"

definition tables_ok :: "'a test_store_scheme \<Rightarrow> bool" where
  "tables_ok s \<longleftrightarrow> distinct (map trn_run_id (test_runs s)) \<and> distinct (map trn_id (test_runs s))
     \<and> distinct (map tjb_job_id (test_jobs s)) \<and> distinct (map tjb_run_id (test_jobs s))
     \<and> distinct (map case_key (test_case_results s))
     \<and> tcr_test_run_id ` set (test_case_results s) \<subseteq> trn_id ` set (test_runs s)"

definition test_ok :: "'a test_store_scheme \<Rightarrow> bool" where
  "test_ok s \<longleftrightarrow> tables_ok s \<and> list_all (\<lambda>u. plan_ok (tsu_composition u)) (test_suites s)
     \<and> list_all (run_ok (test_case_results s)) (test_runs s) \<and> list_all (job_ok (vehicles s) (test_runs s)) (test_jobs s)"

lemmas test_inv = test_ok_def tables_ok_def list_all_iff

section \<open>Pending cases\<close>

lemma pending_cases_run: "x \<in> set (pending_cases ids run now xs) \<Longrightarrow> tcr_test_run_id x = run"
  by (auto simp: pending_cases_def pending_case_def)

lemma pending_cases_plan: "list_all2 same_plan xs (pending_cases ids run now xs)"
  by (auto simp: pending_cases_def list_all2_conv_all_nth same_plan_def pending_case_def)

lemma pending_cases_new:
  "x \<in> set (pending_cases ids run now xs) \<Longrightarrow> tcr_status x = CASE_PENDING \<and> tcr_version x = 1"
  by (auto simp: pending_cases_def pending_case_def)

lemma pending_cases_keys: "map case_key (pending_cases ids run now xs) = map (\<lambda>x. (run, tic_definition_id x)) xs"
  by (rule nth_equalityI) (simp_all add: pending_cases_def case_key_def pending_case_def)

lemma pending_cases_inserted:
  assumes "plan_ok xs" "run \<notin> tcr_test_run_id ` set results"
  shows "insert_rows case_key (pending_cases ids run now xs) results = Some (results @ pending_cases ids run now xs)"
proof -
  have "distinct (map case_key (pending_cases ids run now xs))"
    using assms(1) unfolding pending_cases_keys plan_ok_def distinct_map by (simp add: inj_on_def)
  moreover have "case_key x \<noteq> case_key y" if "x \<in> set (pending_cases ids run now xs)" "y \<in> set results" for x y
    using pending_cases_run[OF that(1)] that(2) assms(2) by (auto simp: case_key_def)
  ultimately show ?thesis unfolding insert_rows_Some by blast
qed

lemma effort_pending: "(\<And>x. x \<in> set xs \<Longrightarrow> tcr_version x = 1) \<Longrightarrow> effort xs = 0"
  by (induction xs) (simp_all add: effort_def)

text \<open>A new run with its pending cases; the other runs keep theirs.\<close>

lemma cases_of_append:
  "cases_of r (all @ new) = cases_of r all @ cases_of r new"
  by (simp add: cases_of_def)

lemma cases_of_other: "(\<And>x. x \<in> set new \<Longrightarrow> tcr_test_run_id x \<noteq> trn_id r) \<Longrightarrow> cases_of r new = []"
  by (auto simp: cases_of_def filter_empty_conv)

lemma cases_of_own: "(\<And>x. x \<in> set new \<Longrightarrow> tcr_test_run_id x = trn_id r) \<Longrightarrow> cases_of r new = new"
  by (auto simp: cases_of_def filter_id_conv)

lemma run_ok_cases: "cases_of r all' = cases_of r all \<Longrightarrow> run_ok all' r = run_ok all r"
  unfolding run_ok_def by (simp only:)

lemma new_run_ok:
  assumes "trn_status r = RUN_QUEUED" "trn_progress_percent r = 0" "trn_version r = 1"
    and "trn_id r \<notin> tcr_test_run_id ` set all"
    and "(case trn_catalog_suite_snapshot r of None \<Rightarrow> trn_catalog_suite_id r = None \<and> new = []
          | Some x \<Rightarrow> trn_catalog_suite_id r \<noteq> None \<and> plan_ok (ssn_cases x) \<and> new = pending_cases ids (trn_id r) now (ssn_cases x))"
  shows "run_ok (all @ new) r"
proof -
  have old: "cases_of r all = []" using assms(4) by (force intro: cases_of_other)
  show ?thesis
  proof (cases "trn_catalog_suite_snapshot r")
    case None
    then show ?thesis using assms old by (simp add: run_ok_def)
  next
    case (Some x)
    then have new: "new = pending_cases ids (trn_id r) now (ssn_cases x)" using assms(5) by simp
    then have own: "cases_of r (all @ new) = new"
      using old pending_cases_run by (simp add: cases_of_append) (metis cases_of_own)
    have "effort new = 0" "list_all case_ok new" "verdict new r"
      using assms(1,2) pending_cases_new
      by (auto simp: new effort_pending list_all_iff case_ok_def verdict_def)
    then show ?thesis using assms Some own by (simp add: run_ok_def new pending_cases_plan)
  qed
qed

section \<open>Changing a table\<close>

lemma in_update_row: "x \<in> set (update_row key r rows) \<Longrightarrow> x = r \<or> x \<in> set rows \<and> key x \<noteq> key r"
  by (auto simp: update_row_def split: if_splits)

lemma update_row_hit: "q \<in> set rows \<Longrightarrow> key q = key r \<Longrightarrow> r \<in> set (update_row key r rows)"
  by (force simp: update_row_def)

lemma update_row_miss: "q \<in> set rows \<Longrightarrow> key q \<noteq> key r \<Longrightarrow> q \<in> set (update_row key r rows)"
  by (force simp: update_row_def)

lemma update_row_map:
  assumes "\<And>x. x \<in> set rows \<Longrightarrow> key x = key r \<Longrightarrow> f x = f r"
  shows "map f (update_row key r rows) = map f rows"
  using assms by (auto simp: update_row_def)

lemma select_key: "select (\<lambda>x. key x = k) rows = Some r \<Longrightarrow> r \<in> set rows \<and> key r = k"
  by (auto dest: select_SomeD)

text \<open>Rows under a unique key are equal when their keys are.\<close>

lemma unique_row: "distinct (map key rows) \<Longrightarrow> x \<in> set rows \<Longrightarrow> y \<in> set rows \<Longrightarrow> key x = key y \<Longrightarrow> x = y"
  by (meson distinct_map inj_onD)

lemma inserted_run:
  assumes ok: "test_ok s" and runs: "insert_run r s = Some runs"
    and results: "insert_rows case_key new (test_case_results s) = Some results"
    and r: "trn_status r = RUN_QUEUED" "trn_progress_percent r = 0" "trn_version r = 1"
    and new: "(case trn_catalog_suite_snapshot r of None \<Rightarrow> trn_catalog_suite_id r = None \<and> new = []
          | Some x \<Rightarrow> trn_catalog_suite_id r \<noteq> None \<and> plan_ok (ssn_cases x) \<and> new = pending_cases ids (trn_id r) now (ssn_cases x))"
  shows "runs = test_runs s @ [r]" "list_all (run_ok results) runs" "distinct (map trn_run_id runs)"
    "distinct (map trn_id runs)" "distinct (map case_key results)" "tcr_test_run_id ` set results \<subseteq> trn_id ` set runs"
    "results = test_case_results s @ new"
proof -
  have i: "runs = test_runs s @ [r]" "\<And>x. x \<in> set (test_runs s) \<Longrightarrow> trn_id x \<noteq> trn_id r \<and> trn_run_id x \<noteq> trn_run_id r"
    and j: "results = test_case_results s @ new" "distinct (map case_key new)"
      "case_key ` set new \<inter> case_key ` set (test_case_results s) = {}"
    using runs results by (auto simp: insert_run_def insert_unless_Some insert_rows_Some)
  have own: "tcr_test_run_id x = trn_id r" if "x \<in> set new" for x
    using new that pending_cases_run by (auto split: option.splits)
  have fresh: "trn_id r \<notin> tcr_test_run_id ` set (test_case_results s)"
  proof
    assume "trn_id r \<in> tcr_test_run_id ` set (test_case_results s)"
    then have "trn_id r \<in> trn_id ` set (test_runs s)" using ok unfolding test_ok_def tables_ok_def by blast
    then show False using i(2) by (metis imageE)
  qed
  show "list_all (run_ok results) runs" unfolding list_all_iff
  proof
    fix q assume "q \<in> set runs"
    then consider "q \<in> set (test_runs s)" | "q = r" using i(1) by auto
    then show "run_ok results q"
    proof cases
      case 1
      then have "cases_of q new = []" using i(2)[OF 1] by (intro cases_of_other) (simp add: own eq_commute)
      then have "cases_of q results = cases_of q (test_case_results s)" by (simp add: j(1) cases_of_append)
      then show ?thesis using run_ok_cases[of q results] 1 ok by (simp add: test_inv)
    next
      case 2
      then show ?thesis using new_run_ok[OF r fresh new] j(1) by simp
    qed
  qed
  show "runs = test_runs s @ [r]" by (rule i(1))
  show "results = test_case_results s @ new" by (rule j(1))
  have "trn_run_id r \<notin> trn_run_id ` set (test_runs s)" "trn_id r \<notin> trn_id ` set (test_runs s)" using i(2) by (metis imageE)+
  then show "distinct (map trn_run_id runs)" "distinct (map trn_id runs)" using ok i(1) by (simp_all add: test_inv)
  show "distinct (map case_key results)" using ok j by (auto simp: test_inv)
  show "tcr_test_run_id ` set results \<subseteq> trn_id ` set runs" using ok own by (auto simp: test_inv i(1) j(1))
qed

lemma job_ok_more: "job_ok vs runs j \<Longrightarrow> trn_run_id r \<noteq> tjb_run_id j \<Longrightarrow> job_ok vs (runs @ [r]) j"
  by (auto simp: job_ok_def split: if_splits)

text \<open>A run is replaced by a later version of itself, with the results as they are.\<close>

definition same_run :: "test_run \<Rightarrow> test_run \<Rightarrow> bool" where
  "same_run q r \<longleftrightarrow> trn_id q = trn_id r \<and> trn_run_id q = trn_run_id r \<and> trn_vehicle_id q = trn_vehicle_id r
     \<and> trn_catalog_suite_id q = trn_catalog_suite_id r \<and> trn_catalog_suite_snapshot q = trn_catalog_suite_snapshot r"

lemma replaced_run:
  assumes ok: "test_ok s" and r: "r \<in> set (test_runs s)" "same_run r' r"
    and keys: "map case_key results = map case_key (test_case_results s)"
    and own: "run_ok results r'"
    and others: "\<And>q. trn_id q \<noteq> trn_id r \<Longrightarrow> cases_of q results = cases_of q (test_case_results s)"
    and t: "test_runs t = update_row trn_run_id r' (test_runs s)" "test_case_results t = results" "test_jobs t = test_jobs s"
      "test_suites t = test_suites s" "vehicles t = vehicles s"
  shows "test_ok t"
proof -
  let ?runs = "update_row trn_run_id r' (test_runs s)"
  have unique: "x = r" if "x \<in> set (test_runs s)" "trn_run_id x = trn_run_id r'" for x
    using unique_row[of trn_run_id "test_runs s" x r] ok that r by (auto simp: test_inv same_run_def)
  have maps: "map f ?runs = map f (test_runs s)" if "f r' = f r" for f :: "test_run \<Rightarrow> string"
    by (rule update_row_map) (use unique that in auto)
  have set: "trn_id ` set ?runs = trn_id ` set (test_runs s)" "trn_run_id ` set ?runs = trn_run_id ` set (test_runs s)"
    using maps[of trn_id] maps[of trn_run_id] r(2) by (metis list.set_map same_run_def)+
  have ids: "tcr_test_run_id ` set results = tcr_test_run_id ` set (test_case_results s)"
  proof -
    have "tcr_test_run_id ` set xs = fst ` set (map case_key xs)" for xs
      by (auto simp: case_key_def image_image)
    then show ?thesis by (simp only: keys)
  qed
  have "tables_ok t"
    using ok keys maps[of trn_id] maps[of trn_run_id] r(2) by (simp add: test_inv t set ids same_run_def)
  moreover have "run_ok results q" if q: "q \<in> set ?runs" for q
  proof (cases "q = r'")
    case False
    then have "q \<in> set (test_runs s)" "trn_run_id q \<noteq> trn_run_id r'" using in_update_row[OF q] by auto
    moreover have "trn_id q \<noteq> trn_id r"
      using unique_row[of trn_id "test_runs s" q r] ok calculation r by (auto simp: test_inv same_run_def)
    ultimately show ?thesis using run_ok_cases[OF others] ok by (fastforce simp: test_inv)
  qed (use own in simp)
  moreover have "job_ok (vehicles s) ?runs j" if "j \<in> set (test_jobs s)" for j
  proof -
    have j: "job_ok (vehicles s) (test_runs s) j" using ok that by (simp add: test_inv)
    have "\<exists>q'\<in>set ?runs. trn_run_id q' = trn_run_id q \<and> trn_id q' = trn_id q
        \<and> trn_catalog_suite_snapshot q' = trn_catalog_suite_snapshot q" if "q \<in> set (test_runs s)" for q
    proof (cases "trn_run_id q = trn_run_id r'")
      case True
      then show ?thesis using update_row_hit[OF that True] unique[OF that True] r(2) by (auto simp: same_run_def)
    qed (use update_row_miss[OF that] in blast)
    then show ?thesis using j unfolding job_ok_def set by (metis (no_types, lifting))
  qed
  ultimately show ?thesis using ok by (simp add: test_ok_def t list_all_iff)
qed

section \<open>Creating runs and jobs\<close>

lemma find_run_in: "find_run i s = Some r \<Longrightarrow> r \<in> set (test_runs s) \<and> trn_run_id r = i"
  by (auto simp: find_run_def dest: select_SomeD)

lemma find_run_unique: "test_ok s \<Longrightarrow> r \<in> set (test_runs s) \<Longrightarrow> find_run (trn_run_id r) s = Some r"
  unfolding find_run_def by (rule select_unique) (simp_all add: test_inv)

lemma find_job_in: "find_job i s = Some j \<Longrightarrow> j \<in> set (test_jobs s) \<and> tjb_job_id j = i"
  by (auto simp: find_job_def dest: select_SomeD)

lemma find_job_unique: "test_ok s \<Longrightarrow> j \<in> set (test_jobs s) \<Longrightarrow> find_job (tjb_job_id j) s = Some j"
  unfolding find_job_def by (rule select_unique) (simp_all add: test_inv)

lemma create_run_ok:
  assumes ok: "test_ok s" and suite: "opt_all (\<lambda>u. u \<in> set (test_suites s)) suite"
    and run: "create_test_run e ids now v profile suite c s = Inr ((r, d), s')"
  shows "test_ok s'"
proof (cases "find_run (trc_run_id c) s")
  case (Some q)
  then show ?thesis using run ok by (auto simp: create_test_run_def split: if_splits)
next
  case None
  let ?new = "case suite of None \<Rightarrow> [] | Some u \<Rightarrow> pending_cases ids (trn_id r) now (tsu_composition u)"
  obtain runs results where r: "r = run_of e now v profile suite c" and ins: "insert_run r s = Some runs"
    "insert_rows case_key ?new (test_case_results s) = Some results"
    and free: "reserved_run_id (trc_run_id c) s = None"
    and t: "test_runs s' = runs" "test_case_results s' = results" "test_jobs s' = test_jobs s" "test_suites s' = test_suites s"
      "vehicles s' = vehicles s"
    using run None by (auto simp: create_test_run_def ok_simps Let_def split: if_splits)
  have q: "trn_status r = RUN_QUEUED" "trn_progress_percent r = 0" "trn_version r = 1"
    by (simp_all add: r run_of_def)
  have "case trn_catalog_suite_snapshot r of None \<Rightarrow> trn_catalog_suite_id r = None \<and> ?new = []
          | Some x \<Rightarrow> trn_catalog_suite_id r \<noteq> None \<and> plan_ok (ssn_cases x) \<and> ?new = pending_cases ids (trn_id r) now (ssn_cases x)"
    using suite ok by (auto simp: r run_of_def run_suite_snapshot_def opt_all_def test_inv split: option.splits)
  note new = inserted_run[OF ok ins q this]
  have "job_ok (vehicles s) runs j" if "j \<in> set (test_jobs s)" for j
  proof -
    have "trn_run_id r \<noteq> tjb_run_id j"
      using free that by (auto simp: reserved_run_id_def select_None r run_of_def)
    then show ?thesis using job_ok_more new(1) that ok by (simp add: test_inv)
  qed
  then show ?thesis using ok new by (simp add: test_inv t)
qed

lemma create_job_ok:
  assumes ok: "test_ok s" and suite: "opt_all (\<lambda>u. u \<in> set (test_suites s)) suite" and v: "v \<in> set (vehicles s)"
    and run: "create_test_job e now v profile suite c s = Inr ((j, d), s')"
  shows "test_ok s'"
proof (cases "find_job (tjc_job_id c) s")
  case (Some q)
  then show ?thesis using run ok by (auto simp: create_test_job_def split: if_splits)
next
  case None
  have j: "j = job_of e now v profile suite c"
    and keys: "tjb_job_id j \<notin> tjb_job_id ` set (test_jobs s)" "tjb_run_id j \<notin> tjb_run_id ` set (test_jobs s)"
    and free: "find_run (tjc_run_id c) s = None"
    and t: "test_runs s' = test_runs s" "test_case_results s' = test_case_results s" "test_jobs s' = test_jobs s @ [j]"
      "test_suites s' = test_suites s" "vehicles s' = vehicles s"
    using run None by (auto simp: create_test_job_def ok_simps Let_def insert_unless_Some split: if_splits)
  have "tjb_run_id j \<notin> trn_run_id ` set (test_runs s)"
    using free by (auto simp: find_run_def select_None j job_of_def)
  then have "job_ok (vehicles s) (test_runs s) j"
    using suite ok v by (auto simp: job_ok_def j job_of_def opt_all_def selection_snapshot_def test_inv split: option.splits)
  then show ?thesis using ok keys by (simp add: test_inv t)
qed

section \<open>Changing runs\<close>

lemma status_update_ok:
  assumes ok: "test_ok s" and r: "r \<in> set (test_runs s)"
    and run: "update_test_run_status e now r v c s = Inr ((r', d), s')"
  shows "test_ok s'"
proof (cases "same_status r c")
  case True
  then show ?thesis using run ok by (simp add: update_test_run_status_def)
next
  case False
  then have r': "r' = moved_run now c r" and c: "tru_status c \<in> run_transitions (trn_status r)"
      "trn_catalog_suite_id r \<noteq> None \<Longrightarrow> tru_status c = RUN_CANCELLED"
    and t: "test_runs s' = update_row trn_run_id r' (test_runs s)" "test_case_results s' = test_case_results s"
      "test_jobs s' = test_jobs s" "test_suites s' = test_suites s" "vehicles s' = vehicles s"
    using run by (auto simp: update_test_run_status_def save_run_def Let_def split: if_splits)
  have same: "same_run r' r" by (simp add: same_run_def r' moved_run_def)
  have own: "run_ok (test_case_results s) r" using ok r by (simp add: test_inv)
  have f: "cases_of r' (test_case_results s) = cases_of r (test_case_results s)" "trn_status r' = tru_status c"
      "trn_version r' = trn_version r + 1" by (simp_all add: cases_of_def r' moved_run_def)
  have "run_ok (test_case_results s) r'"
  proof (cases "trn_catalog_suite_snapshot r")
    case None
    then show ?thesis using own c f same by (cases "trn_status r") (auto simp: run_ok_def same_run_def)
  next
    case (Some x)
    have "complete_count xs = 0" if "\<forall>x\<in>set xs. tcr_status x = CASE_PENDING" for xs
      using that by (simp add: complete_count_def terminal_def)
    moreover have "cases_of r (test_case_results s) \<noteq> []"
      using own Some by (auto simp: run_ok_def plan_ok_def)
    ultimately show ?thesis using own c f same Some
      by (cases "trn_status r") (simp_all add: run_ok_def same_run_def verdict_def)
  qed
  then show ?thesis using replaced_run[OF ok r same refl] t by blast
qed

lemma effort_update:
  assumes "distinct (map case_key xs)" "x \<in> set xs" "case_key y = case_key x" "tcr_version y = tcr_version x + 1"
  shows "effort (update_row case_key y xs) = effort xs + 1"
  using assms
proof (induction xs)
  case (Cons z zs)
  show ?case
  proof (cases "z = x")
    case True
    then have "case_key q \<noteq> case_key y" if "q \<in> set zs" for q using Cons.prems that by (auto simp: image_iff)
    then have "update_row case_key y zs = zs" unfolding update_row_def by (intro map_idI) simp
    then show ?thesis using True Cons.prems by (simp add: effort_def update_row_def)
  next
    case False
    then have "x \<in> set zs" "case_key z \<noteq> case_key y" using Cons.prems by (auto simp: image_iff)
    then show ?thesis using Cons by (simp add: effort_def update_row_def)
  qed
qed simp

lemma complete_count_le: "complete_count xs \<le> int (length xs)" "0 \<le> complete_count xs"
  by (simp_all add: complete_count_def length_filter_le)

lemma progress_below: "0 \<le> (k :: int) \<Longrightarrow> k < n \<Longrightarrow> min 99 (k * 100 div n) = k * 100 div n"
proof -
  assume "0 \<le> k" "k < n"
  then have "0 < n" "n * (k * 100 div n) \<le> k * 100"
    using mult_div_mod_eq[of n "k * 100"] pos_mod_sign[of n "k * 100"] by linarith+
  moreover have "n * 100 \<le> n * (k * 100 div n)" if "100 \<le> k * 100 div n" using that \<open>0 < n\<close> by simp
  ultimately have "k * 100 div n < 100" using \<open>k < n\<close> by linarith
  then show ?thesis by simp
qed

lemma refreshed_verdict:
  assumes "refreshed_run now ys r = Inr r'" "trn_status r \<in> {RUN_QUEUED, RUN_RUNNING}"
  shows "verdict ys r' \<and> trn_version r' = trn_version r + 1 \<and> trn_status r' \<notin> {RUN_QUEUED, RUN_CANCELLED} \<and> same_run r' r"
  using assms complete_count_le[of ys] progress_below[of "complete_count ys" "int (length ys)"]
  by (auto simp: refreshed_run_def Let_def verdict_def same_run_def split: if_splits)

lemma cases_of_update:
  assumes "tcr_test_run_id y = i"
  shows "cases_of r (update_row case_key y all) = (if trn_id r = i then update_row case_key y (cases_of r all) else cases_of r all)"
  using assms by (induction all) (auto simp: cases_of_def update_row_def case_key_def)

lemma recorded_ok:
  "case_ok x \<Longrightarrow> tcu_status c \<in> case_transitions (tcr_status x) \<Longrightarrow> case_ok (recorded now c x)"
  by (cases "tcr_status x") (auto simp: case_ok_def recorded_def)

lemma result_update_ok:
  assumes ok: "test_ok s" and r: "r \<in> set (test_runs s)" and x: "x \<in> set (test_case_results s)" "tcr_test_run_id x = trn_id r"
    and run: "update_case_result e now r v x c s = Inr ((y, d), s')"
  shows "test_ok s'"
proof (cases "same_case_result x c")
  case True
  then show ?thesis using run ok by (simp add: update_case_result_def)
next
  case False
  let ?results = "update_row case_key y (test_case_results s)"
  have open_run: "trn_status r \<in> {RUN_QUEUED, RUN_RUNNING}" and y: "y = recorded now c x"
    and c: "tcu_status c \<in> case_transitions (tcr_status x)"
    using run False by (cases "trn_status r"; auto simp: update_case_result_def finished_def ok_simps Let_def split: if_splits)+
  obtain r' where r': "refreshed_run now (cases_of r ?results) r = Inr r'"
    and t: "test_runs s' = update_row trn_run_id r' (test_runs s)" "test_case_results s' = ?results"
      "test_jobs s' = test_jobs s" "test_suites s' = test_suites s" "vehicles s' = vehicles s"
    using run False by (auto simp: update_case_result_def run_cases_def cases_of_def save_run_def ok_simps Let_def y
        split: if_splits)
  note v = refreshed_verdict[OF r' open_run]
  let ?xs = "cases_of r (test_case_results s)"
  have key: "case_key y = case_key x" "tcr_test_run_id y = trn_id r" using x by (simp_all add: y recorded_def case_key_def)
  have mine: "x \<in> set ?xs" using x by (simp add: cases_of_def)
  have ys: "cases_of r' ?results = update_row case_key y ?xs" "cases_of r ?results = update_row case_key y ?xs"
    using v cases_of_update[OF key(2)] by (simp_all add: same_run_def cases_of_def)
  have dist: "distinct (map case_key ?xs)"
    using ok by (simp add: test_inv cases_of_def distinct_map_filter)
  obtain p where p: "trn_catalog_suite_snapshot r = Some p" "trn_catalog_suite_id r \<noteq> None" "plan_ok (ssn_cases p)"
    "list_all2 same_plan (ssn_cases p) ?xs" "list_all case_ok ?xs" "trn_version r = 1 + effort ?xs"
    using ok r mine open_run by (fastforce simp: test_inv run_ok_def split: option.splits)
  have only: "z = x" if "z \<in> set ?xs" "case_key z = case_key y" for z
    using unique_row[OF dist that(1) mine] that(2) key(1) by simp
  have "list_all2 same_plan (ssn_cases p) (update_row case_key y ?xs)"
    using p(4) only key unfolding list_all2_conv_all_nth
    by (auto simp: update_row_def same_plan_def y recorded_def) (metis nth_mem)+
  moreover have "list_all case_ok (update_row case_key y ?xs)"
    using p(5) recorded_ok[OF _ c] mine by (auto simp: list_all_iff y dest!: in_update_row)
  moreover have "effort (update_row case_key y ?xs) = effort ?xs + 1"
    by (rule effort_update[OF dist mine key(1)]) (simp add: y recorded_def)
  ultimately have "run_ok ?results r'"
    using p v ys by (simp add: run_ok_def same_run_def)
  moreover have "map case_key ?results = map case_key (test_case_results s)" by (rule update_row_keys)
  moreover have "cases_of q ?results = cases_of q (test_case_results s)" if "trn_id q \<noteq> trn_id r" for q
    using that by (simp add: cases_of_update[OF key(2)])
  ultimately show ?thesis using replaced_run[OF ok r _ _ _ _ t] v by blast
qed

section \<open>Changing jobs\<close>

lemma updated_jobs:
  assumes "test_ok s" "j \<in> set (test_jobs s)" "tjb_job_id j' = tjb_job_id j" "tjb_run_id j' = tjb_run_id j"
  shows "distinct (map tjb_job_id (update_row tjb_job_id j' (test_jobs s)))"
    "distinct (map tjb_run_id (update_row tjb_job_id j' (test_jobs s)))"
    "x \<in> set (update_row tjb_job_id j' (test_jobs s)) \<Longrightarrow> x = j' \<or> x \<in> set (test_jobs s) \<and> tjb_run_id x \<noteq> tjb_run_id j"
proof -
  have unique: "x = j" if "x \<in> set (test_jobs s)" "tjb_job_id x = tjb_job_id j'" for x
    using unique_row[of tjb_job_id "test_jobs s" x j] assms that by (simp add: test_inv)
  have "map tjb_run_id (update_row tjb_job_id j' (test_jobs s)) = map tjb_run_id (test_jobs s)"
    by (rule update_row_map) (use unique assms(4) in auto)
  then show "distinct (map tjb_run_id (update_row tjb_job_id j' (test_jobs s)))"
    "distinct (map tjb_job_id (update_row tjb_job_id j' (test_jobs s)))" using assms(1) by (simp_all add: test_inv update_row_keys)
  show "x = j' \<or> x \<in> set (test_jobs s) \<and> tjb_run_id x \<noteq> tjb_run_id j" if "x \<in> set (update_row tjb_job_id j' (test_jobs s))"
    using in_update_row[OF that] unique_row[of tjb_run_id "test_jobs s" x j] assms(1-3) by (auto simp: test_inv)
qed

lemma cancel_ok:
  assumes ok: "test_ok s" and j: "j \<in> set (test_jobs s)" and run: "cancel_test_job e now j v c s = Inr ((j', d), s')"
  shows "test_ok s'"
proof (cases "tjb_status j = JOB_SCHEDULED")
  case True
  then have j': "j' = cancelled_job now (tjx_reason c) j"
    and t: "test_runs s' = test_runs s" "test_case_results s' = test_case_results s"
      "test_jobs s' = update_row tjb_job_id j' (test_jobs s)" "test_suites s' = test_suites s" "vehicles s' = vehicles s"
    using run by (auto simp: cancel_test_job_def save_job_def Let_def split: if_splits)
  have same: "tjb_job_id j' = tjb_job_id j" "tjb_run_id j' = tjb_run_id j" by (simp_all add: j' cancelled_job_def)
  have "job_ok (vehicles s) (test_runs s) j" using ok j by (simp add: test_inv)
  then have "job_ok (vehicles s) (test_runs s) j'" using True by (simp add: job_ok_def j' cancelled_job_def)
  then show ?thesis using ok updated_jobs[OF ok j same] by (fastforce simp: test_ok_def tables_ok_def list_all_iff t)
next
  case False
  then show ?thesis using run ok by (auto simp: cancel_test_job_def split: if_splits)
qed

section \<open>Dispatching\<close>

definition job_cases :: "(nat \<Rightarrow> uuid) \<Rightarrow> int \<Rightarrow> test_job \<Rightarrow> test_case_result list" where
  "job_cases ids now j = (case tjb_selection_snapshot j of None \<Rightarrow> []
     | Some x \<Rightarrow> pending_cases (\<lambda>n. ids (Suc n)) (ids 0) now (ssn_cases x))"

text \<open>What one turn of the loop does to the tables.\<close>

definition dispatched :: "(nat \<Rightarrow> uuid) \<Rightarrow> int \<Rightarrow> test_job \<Rightarrow> 'a test_store_scheme \<Rightarrow> 'a test_store_scheme \<Rightarrow> bool" where
  "dispatched ids now j s t \<longleftrightarrow> test_runs t = test_runs s @ [run_of_job (ids 0) now j]
     \<and> test_case_results t = test_case_results s @ job_cases ids now j
     \<and> test_jobs t = update_row tjb_job_id (dispatched_job (ids 0) now j) (test_jobs s)
     \<and> test_suites t = test_suites s \<and> vehicles t = vehicles s
     \<and> insert_run (run_of_job (ids 0) now j) s = Some (test_runs t)
     \<and> insert_rows case_key (job_cases ids now j) (test_case_results s) = Some (test_case_results t)"

lemma dispatch_job_effect: "dispatch_job ids now (j, v) s = Inr t \<Longrightarrow> dispatched ids now j s t"
  by (auto simp: dispatch_job_def dispatched_def job_cases_def run_of_job_def save_job_def ok_simps Let_def
      insert_run_def insert_unless_Some insert_rows_Some split: option.splits)

lemma dispatch_job_runs:
  assumes ok: "test_ok s" and j: "j \<in> set (test_jobs s)" "tjb_status j = JOB_SCHEDULED"
    and fresh: "ids 0 \<notin> trn_id ` set (test_runs s)"
  shows "\<exists>t. dispatch_job ids now (j, v) s = Inr t"
proof -
  have jo: "tjb_run_id j \<notin> trn_run_id ` set (test_runs s)" "opt_all (\<lambda>x. plan_ok (ssn_cases x)) (tjb_selection_snapshot j)"
    using ok j by (fastforce simp: test_inv job_ok_def)+
  then have "insert_run (run_of_job (ids 0) now j) s = Some (test_runs s @ [run_of_job (ids 0) now j])"
    using fresh unfolding insert_run_def insert_unless_Some by (force simp: run_of_job_def)
  moreover have "ids 0 \<notin> tcr_test_run_id ` set (test_case_results s)" using ok fresh unfolding test_ok_def tables_ok_def by blast
  then have "insert_rows case_key (job_cases ids now j) (test_case_results s) = Some (test_case_results s @ job_cases ids now j)"
    using jo(2) pending_cases_inserted by (auto simp: job_cases_def opt_all_def insert_rows_Some split: option.splits)
  ultimately show ?thesis
    by (auto simp: dispatch_job_def job_cases_def run_of_job_def Let_def split: option.splits)
qed

lemma dispatched_ok:
  assumes ok: "test_ok s" and j: "j \<in> set (test_jobs s)" "tjb_status j = JOB_SCHEDULED" and t: "dispatched ids now j s t"
  shows "test_ok t"
proof -
  let ?r = "run_of_job (ids 0) now j" and ?j = "dispatched_job (ids 0) now j"
  have jo: "job_ok (vehicles s) (test_runs s) j" using ok j by (simp add: test_inv)
  have q: "trn_status ?r = RUN_QUEUED" "trn_progress_percent ?r = 0" "trn_version ?r = 1" by (simp_all add: run_of_job_def)
  have "case trn_catalog_suite_snapshot ?r of None \<Rightarrow> trn_catalog_suite_id ?r = None \<and> job_cases ids now j = []
          | Some x \<Rightarrow> trn_catalog_suite_id ?r \<noteq> None \<and> plan_ok (ssn_cases x)
              \<and> job_cases ids now j = pending_cases (\<lambda>n. ids (Suc n)) (trn_id ?r) now (ssn_cases x)"
    using jo by (auto simp: run_of_job_def job_ok_def job_cases_def opt_all_def split: option.splits)
  note new = inserted_run[OF ok _ _ q this, of "test_runs t" "test_case_results t"]
  have ins: "insert_run ?r s = Some (test_runs t)"
    "insert_rows case_key (job_cases ids now j) (test_case_results s) = Some (test_case_results t)"
    using t by (simp_all add: dispatched_def)
  note new = new[OF ins]
  have same: "tjb_job_id ?j = tjb_job_id j" "tjb_run_id ?j = tjb_run_id j" by (simp_all add: dispatched_job_def)
  have "job_ok (vehicles s) (test_runs t) x" if "x \<in> set (update_row tjb_job_id ?j (test_jobs s))" for x
    using updated_jobs(3)[OF ok j(1) same that]
  proof
    assume "x = ?j"
    then show ?thesis using jo by (auto simp: job_ok_def dispatched_job_def new(1) run_of_job_def)
  next
    assume "x \<in> set (test_jobs s) \<and> tjb_run_id x \<noteq> tjb_run_id j"
    then show ?thesis unfolding new(1) using ok by (intro job_ok_more) (auto simp: test_inv run_of_job_def)
  qed
  then show ?thesis
    using ok new updated_jobs(1,2)[OF ok j(1) same] t by (simp add: test_ok_def tables_ok_def list_all_iff dispatched_def)
qed

text \<open>The loop over distinct scheduled jobs.\<close>

definition queue_ok :: "(test_job \<times> vehicle) list \<Rightarrow> 'a test_store_scheme \<Rightarrow> bool" where
  "queue_ok rows s \<longleftrightarrow> distinct (map (tjb_job_id \<circ> fst) rows)
     \<and> (\<forall>(j, v)\<in>set rows. j \<in> set (test_jobs s) \<and> tjb_status j = JOB_SCHEDULED)"

lemma queue_next:
  assumes "queue_ok ((j, v) # rows) s" "dispatched ids now j s t" shows "queue_ok rows t"
proof -
  have "x \<in> set (test_jobs t)" if "(x, w) \<in> set rows" for x w
  proof -
    have "tjb_job_id x \<noteq> tjb_job_id (dispatched_job (ids 0) now j)"
      using assms(1) that by (force simp: queue_ok_def dispatched_job_def)
    then show ?thesis using assms that unfolding dispatched_def queue_ok_def
      by (metis (mono_tags, lifting) case_prodD list.set_intros(2) update_row_miss)
  qed
  then show ?thesis using assms(1) by (auto simp: queue_ok_def)
qed

lemma dispatch_loop_ok:
  "dispatch_loop ids now rows s = Inr t \<Longrightarrow> test_ok s \<Longrightarrow> queue_ok rows s \<Longrightarrow> test_ok t"
proof (induction ids now rows s rule: dispatch_loop.induct)
  case (2 ids now x xs s)
  obtain j v where x: "x = (j, v)" by (cases x)
  obtain u where u: "dispatch_job (ids 0) now (j, v) s = Inr u" "dispatch_loop (\<lambda>n. ids (Suc n)) now xs u = Inr t"
    using "2.prems"(1) x by (auto simp: ok_simps)
  have "test_ok u" using dispatched_ok[OF "2.prems"(2)] dispatch_job_effect[OF u(1)] "2.prems"(3)
    by (auto simp: queue_ok_def x)
  then show ?case using "2.IH"[of u] u x queue_next[OF "2.prems"(3)[unfolded x] dispatch_job_effect[OF u(1)]] by simp
qed simp

lemma in_jobs_with_vehicles:
  "(j, v) \<in> set (jobs_with_vehicles s) \<longleftrightarrow> j \<in> set (test_jobs s) \<and> vehicle_by_id (tjb_vehicle_id j) s = Some v"
  by (force simp: jobs_with_vehicles_def List.map_filter_def)

lemma jobs_with_vehicles_ids:
  "distinct (map tjb_job_id (test_jobs s)) \<Longrightarrow> distinct (map (tjb_job_id \<circ> fst) (jobs_with_vehicles s))"
proof -
  have "map (tjb_job_id \<circ> fst) (List.map_filter (\<lambda>j. map_option (Pair j) (f j)) js)
      = map tjb_job_id (filter (\<lambda>j. f j \<noteq> None) js)" for f :: "test_job \<Rightarrow> vehicle option" and js
    by (induction js) (auto simp: List.map_filter_simps)
  then show "distinct (map tjb_job_id (test_jobs s)) \<Longrightarrow> ?thesis" by (simp add: jobs_with_vehicles_def distinct_map_filter)
qed

lemma due_queue: assumes "test_ok s" shows "queue_ok (due_jobs now s) s"
proof -
  have "mset (due_jobs now s) = mset (filter (\<lambda>(j, v). tjb_status j = JOB_SCHEDULED \<and> tjb_scheduled_for j \<le> now) (jobs_with_vehicles s))"
    by (simp add: due_jobs_def by_schedule_def)
  then have "distinct (map (tjb_job_id \<circ> fst) (due_jobs now s))"
    using jobs_with_vehicles_ids[of s] assms distinct_map_filter
    by (metis (no_types, lifting) mset_eq_imp_distinct_iff mset_map test_ok_def tables_ok_def)
  then show ?thesis by (auto simp: queue_ok_def due_jobs_def by_schedule_def in_jobs_with_vehicles)
qed

lemma queue_take: "queue_ok rows s \<Longrightarrow> queue_ok (take n rows) s"
  by (auto simp: queue_ok_def take_map[symmetric] dest: in_set_takeD)

section \<open>The steps of the system\<close>

text \<open>Requests that succeed, the registration of a vehicle, and cycles of the scheduler.\<close>

inductive service_step :: "'a test_store_scheme \<Rightarrow> 'a test_store_scheme \<Rightarrow> bool" where
  vehicle: "service_step s (s\<lparr>vehicles := vehicles s @ [v]\<rparr>)"
| definition_created: "create_definition e c s = Inr (x, s') \<Longrightarrow> service_step s s'"
| suite_created: "create_suite e c s = Inr (x, s') \<Longrightarrow> test_suite_create_ok c \<Longrightarrow> service_step s s'"
| definition_moved: "find_definition i s = Some d \<Longrightarrow> update_status e (DefinitionResource d) m s = Inr (y, s') \<Longrightarrow> service_step s s'"
| suite_moved: "find_suite i s = Some u \<Longrightarrow> update_status e (SuiteResource u) m s = Inr (y, s') \<Longrightarrow> service_step s s'"
| profile_created: "create_environment_profile e p s = Inr (z, s') \<Longrightarrow> service_step s s'"
| profile_moved: "find_profile i s = Some q \<Longrightarrow> update_environment_profile_status e q k s = Inr (z, s') \<Longrightarrow> service_step s s'"
| run_created: "create_test_run_endpoint e ids now r s = Inr (w, s') \<Longrightarrow> service_step s s'"
| run_moved: "update_test_run_status_endpoint e now i b s = Inr (w, s') \<Longrightarrow> service_step s s'"
| result_recorded: "update_test_case_result_endpoint e now i n a s = Inr (o', s') \<Longrightarrow> service_step s s'"
| job_created: "create_test_job_endpoint e now j s = Inr (h, s') \<Longrightarrow> service_step s s'"
| job_cancelled: "cancel_test_job_endpoint e now i g s = Inr (h, s') \<Longrightarrow> service_step s s'"
| jobs_dispatched: "dispatch_due_test_jobs stock now limit s = Inr (amount, s') \<Longrightarrow> service_step s s'"

definition test_steps :: "'a test_store_scheme \<Rightarrow> 'a test_store_scheme \<Rightarrow> bool" where
  "test_steps = rtranclp service_step"

text \<open>The tables that runs and jobs live in.\<close>

definition same_execution :: "'a test_store_scheme \<Rightarrow> 'a test_store_scheme \<Rightarrow> bool" where
  "same_execution s t \<longleftrightarrow> test_runs t = test_runs s \<and> test_case_results t = test_case_results s \<and> test_jobs t = test_jobs s
     \<and> set (vehicles s) \<subseteq> set (vehicles t)"

lemma same_execution_ok:
  assumes "test_ok s" "same_execution s t" "list_all (\<lambda>u. plan_ok (tsu_composition u)) (test_suites t)"
  shows "test_ok t"
proof -
  have "job_ok (vehicles t) (test_runs s) j" if "job_ok (vehicles s) (test_runs s) j" for j
    using that assms(2) by (auto simp: job_ok_def same_execution_def)
  then show ?thesis using assms by (auto simp: test_ok_def tables_ok_def same_execution_def list_all_iff)
qed

lemma definition_effect:
  assumes "create_definition e c s = Inr (x, s')" shows "same_execution s s' \<and> test_suites s' = test_suites s"
  using assms by (auto simp: create_definition_def same_execution_def ok_simps Let_def split: option.splits if_splits)

lemma suite_effect:
  assumes "create_suite e c s = Inr (x, s')" "test_suite_create_ok c"
  shows "same_execution s s' \<and> (\<forall>u\<in>set (test_suites s'). u \<in> set (test_suites s) \<or> plan_ok (tsu_composition u))"
proof (cases "find_suite (tsc_suite_id c) s")
  case None
  then obtain xs where xs: "suite_composition c s = Inr xs" and t: "same_execution s s'"
    "test_suites s' = test_suites s @ [suite_of e c xs]"
    using assms(1) by (auto simp: create_suite_def same_execution_def ok_simps Let_def insert_unless_Some)
  have "map tic_definition_id xs = map tic_definition_id (sort_key tic_order (tsc_cases c))" "length xs = length (tsc_cases c)"
    using xs by (auto simp: suite_composition_def composed_case_def Let_def split: if_splits)
  moreover have "distinct (map tic_definition_id (sort_key tic_order (tsc_cases c)))"
    using assms(2) by (simp add: test_suite_create_ok_def distinct_map)
  ultimately have "plan_ok xs" using assms(2) by (auto simp: plan_ok_def test_suite_create_ok_def len_between_def)
  then show ?thesis using t by (auto simp: suite_of_def)
qed (use assms in \<open>auto simp: create_suite_def same_execution_def split: if_splits\<close>)

lemma moved_effect:
  assumes "update_status e (DefinitionResource d) c s = Inr (x, s')" shows "same_execution s s' \<and> test_suites s' = test_suites s"
  using assms by (auto simp: update_status_def same_execution_def Let_def split: if_splits)

lemma suite_moved_effect:
  assumes "update_status e (SuiteResource u) c s = Inr (x, s')" "u \<in> set (test_suites s)"
  shows "same_execution s s' \<and> (\<forall>w\<in>set (test_suites s'). \<exists>q\<in>set (test_suites s). tsu_composition w = tsu_composition q)"
proof (cases "tsu_status u = csu_status c")
  case False
  then have "same_execution s s'"
    "test_suites s' = update_row tsu_suite_id (u\<lparr>tsu_status := csu_status c, tsu_version := tsu_version u + 1\<rparr>) (test_suites s)"
    using assms(1) by (auto simp: update_status_def same_execution_def Let_def split: if_splits)
  then show ?thesis using assms(2) by (fastforce dest!: in_update_row)
qed (use assms in \<open>auto simp: update_status_def same_execution_def\<close>)

lemma profile_effect:
  assumes "create_environment_profile e c s = Inr (x, s')" shows "same_execution s s' \<and> test_suites s' = test_suites s"
  using assms by (auto simp: create_environment_profile_def same_execution_def ok_simps Let_def split: option.splits if_splits)

lemma profile_moved_effect:
  assumes "update_environment_profile_status e p c s = Inr (x, s')" shows "same_execution s s' \<and> test_suites s' = test_suites s"
  using assms by (auto simp: update_environment_profile_status_def same_execution_def Let_def split: if_splits)

lemma suite_in: "require_catalog_suite i s = Inr u \<Longrightarrow> u \<in> set (test_suites s)"
  by (auto simp: require_catalog_suite_def find_suite_def ok_simps dest: select_SomeD)

lemma vehicle_in: "require_vehicle i s = Inr v \<Longrightarrow> v \<in> set (vehicles s)"
  by (auto simp: require_vehicle_def ok_simps dest: select_SomeD)

lemma optional_suite: "optional (\<lambda>i. require_catalog_suite i s) x = Inr suite \<Longrightarrow> opt_all (\<lambda>u. u \<in> set (test_suites s)) suite"
  by (auto simp: optional_def opt_all_def ok_simps dest: suite_in split: option.splits)

text \<open>What the endpoints hand to the handlers.\<close>

lemma run_endpoint:
  assumes "create_test_run_endpoint e ids now c s = Inr ((r, d), s')"
  obtains v profile suite where "create_test_run e ids now v profile suite c s = Inr ((r, d), s')"
    "opt_all (\<lambda>u. u \<in> set (test_suites s)) suite"
  using assms optional_suite by (force simp: create_test_run_endpoint_def ok_simps split: if_splits)

lemma job_endpoint:
  assumes "create_test_job_endpoint e now c s = Inr ((j, d), s')"
  obtains v profile suite where "create_test_job e now v profile suite c s = Inr ((j, d), s')"
    "opt_all (\<lambda>u. u \<in> set (test_suites s)) suite" "v \<in> set (vehicles s)"
  using assms optional_suite vehicle_in by (force simp: create_test_job_endpoint_def ok_simps)

lemma status_endpoint:
  assumes "update_test_run_status_endpoint e now i c s = Inr ((r', d), s')"
  obtains r v where "find_run i s = Some r" "update_test_run_status e now r v c s = Inr ((r', d), s')"
  using assms by (auto simp: update_test_run_status_endpoint_def require_test_run_def ok_simps split: option.splits)

lemma result_endpoint:
  assumes "update_test_case_result_endpoint e now i k c s = Inr ((y, d), s')"
  obtains r v x where "find_run i s = Some r" "x \<in> set (test_case_results s)" "case_key x = (trn_id r, k)"
    "update_case_result e now r v x c s = Inr ((y, d), s')"
  using assms by (auto simp: update_test_case_result_endpoint_def require_test_run_def require_case_result_def ok_simps
      split: option.splits dest!: select_SomeD)

lemma cancel_endpoint:
  assumes "cancel_test_job_endpoint e now i c s = Inr ((j', d), s')"
  obtains j v where "find_job i s = Some j" "cancel_test_job e now j v c s = Inr ((j', d), s')"
  using assms by (auto simp: cancel_test_job_endpoint_def require_test_job_def ok_simps split: option.splits)

lemma dispatch_endpoint:
  assumes "dispatch_due_test_jobs stock now limit s = Inr (n, s')"
  shows "dispatch_loop stock now (take limit (due_jobs now s)) s = Inr s'"
  using assms by (auto simp: dispatch_due_test_jobs_def Let_def ok_simps)

lemma step_ok: "service_step s s' \<Longrightarrow> test_ok s \<Longrightarrow> test_ok s'"
proof (induction rule: service_step.induct)
  case (vehicle s v)
  then show ?case by (intro same_execution_ok[OF vehicle]) (auto simp: same_execution_def test_ok_def)
next
  case (definition_created e c s x s')
  then show ?case using definition_effect same_execution_ok by (fastforce simp: test_ok_def)
next
  case (suite_created e c s x s')
  then show ?case using suite_effect[OF suite_created(1,2)] same_execution_ok[OF suite_created(3)]
    by (auto simp: test_ok_def list_all_iff)
next
  case (definition_moved i s d e m y s')
  then show ?case using moved_effect same_execution_ok by (fastforce simp: test_ok_def)
next
  case (suite_moved i s u e m y s')
  then have "u \<in> set (test_suites s)" by (auto simp: find_suite_def dest: select_SomeD)
  from suite_moved_effect[OF suite_moved(2) this] show ?case
    using same_execution_ok[OF suite_moved(3)] suite_moved(3) by (fastforce simp: test_ok_def list_all_iff)
next
  case (profile_created e p s z s')
  then show ?case using profile_effect same_execution_ok by (fastforce simp: test_ok_def)
next
  case (profile_moved i s q e k z s')
  then show ?case using profile_moved_effect same_execution_ok by (fastforce simp: test_ok_def)
next
  case (run_created e ids now r s w s')
  then show ?case by (cases w) (auto elim: run_endpoint intro: create_run_ok)
next
  case (run_moved e now i b s w s')
  then show ?case by (cases w) (auto elim!: status_endpoint intro: status_update_ok dest: find_run_in)
next
  case (result_recorded e now i n a s o' s')
  obtain y d where "o' = (y, d)" by (cases o')
  with result_recorded(1) obtain q v x where q: "find_run i s = Some q" "x \<in> set (test_case_results s)"
    "case_key x = (trn_id q, n)" and run: "update_case_result e now q v x a s = Inr ((y, d), s')"
    by (auto elim: result_endpoint)
  have "q \<in> set (test_runs s)" "tcr_test_run_id x = trn_id q" using q find_run_in by (auto simp: case_key_def)
  then show ?case using result_update_ok[OF result_recorded(2) _ q(2) _ run] by blast
next
  case (job_created e now j s h s')
  then show ?case by (cases h) (auto elim: job_endpoint intro: create_job_ok)
next
  case (job_cancelled e now i g s h s')
  then show ?case by (cases h) (auto elim!: cancel_endpoint intro: cancel_ok dest: find_job_in)
next
  case (jobs_dispatched stock now limit s amount s')
  show ?case by (rule dispatch_loop_ok[OF dispatch_endpoint[OF jobs_dispatched(1)] jobs_dispatched(2)
        queue_take[OF due_queue[OF jobs_dispatched(2)]]])
qed

lemma steps_ok: "test_steps s t \<Longrightarrow> test_ok s \<Longrightarrow> test_ok t"
  unfolding test_steps_def by (induction rule: rtranclp_induct) (auto intro: step_ok)

text \<open>A platform on which nothing was run yet.\<close>

lemma nothing_run_ok:
  "test_runs s = [] \<Longrightarrow> test_case_results s = [] \<Longrightarrow> test_jobs s = [] \<Longrightarrow> test_suites s = [] \<Longrightarrow> test_ok s"
  by (simp add: test_inv)

end
