(* ===== verification/TestHistory.thy ===== *)
theory TestHistory
  imports TestReach
begin

text \<open>
  What no later step of the test services can change: the selection of a job, the outcome of a job
  that was dispatched or cancelled, and a finished run with its results. How many commands a run can
  absorb, and what a cycle of the scheduler leaves to do.
\<close>

section \<open>What each step changes\<close>

lemma create_run_effect:
  assumes "create_test_run e ids now v profile suite c s = Inr ((r, d), s')"
  shows "s' = s \<or> (\<exists>new. test_runs s' = test_runs s @ [r] \<and> test_case_results s' = test_case_results s @ new
    \<and> (\<forall>x\<in>set new. tcr_test_run_id x = trn_id r) \<and> trn_id r \<notin> trn_id ` set (test_runs s) \<and> test_jobs s' = test_jobs s)"
proof (cases "find_run (trc_run_id c) s")
  case None
  let ?new = "case suite of None \<Rightarrow> [] | Some u \<Rightarrow> pending_cases ids (trn_id r) now (tsu_composition u)"
  have "insert_run r s = Some (test_runs s')" "test_jobs s' = test_jobs s"
    "insert_rows case_key ?new (test_case_results s) = Some (test_case_results s')"
    using assms None by (auto simp: create_test_run_def ok_simps Let_def split: if_splits)
  then have "test_runs s' = test_runs s @ [r]" "trn_id r \<notin> trn_id ` set (test_runs s)"
    "test_case_results s' = test_case_results s @ ?new" "test_jobs s' = test_jobs s"
    by (auto simp: insert_run_def insert_unless_Some insert_rows_Some)
  moreover have "\<forall>x\<in>set ?new. tcr_test_run_id x = trn_id r" using pending_cases_run by (auto split: option.splits)
  ultimately show ?thesis by blast
qed (use assms in \<open>auto simp: create_test_run_def split: if_splits\<close>)

lemma status_effect:
  assumes "update_test_run_status e now r v c s = Inr ((r', d), s')"
  shows "if d then s' = s else \<not> finished (trn_status r) \<and> test_runs s' = update_row trn_run_id r' (test_runs s) \<and> same_run r' r
    \<and> trn_version r' = trn_version r + 1 \<and> test_case_results s' = test_case_results s \<and> test_jobs s' = test_jobs s"
proof (cases "same_status r c")
  case False
  then have c: "tru_status c \<in> run_transitions (trn_status r)" and r': "r' = moved_run now c r" and d: "\<not> d"
    and t: "test_runs s' = update_row trn_run_id r' (test_runs s)" "test_case_results s' = test_case_results s"
      "test_jobs s' = test_jobs s"
    using assms by (auto simp: update_test_run_status_def save_run_def Let_def split: if_splits)
  have "\<not> finished (trn_status r)" using c by (cases "trn_status r") (simp_all add: finished_def)
  moreover have "same_run r' r" "trn_version r' = trn_version r + 1" by (simp_all add: r' same_run_def moved_run_def)
  ultimately show ?thesis using t d by simp
qed (use assms in \<open>simp add: update_test_run_status_def\<close>)

lemma result_effect:
  assumes "update_case_result e now r v x c s = Inr ((y, d), s')" "tcr_test_run_id x = trn_id r"
  shows "if d then s' = s else \<not> finished (trn_status r) \<and> (\<exists>r'. test_runs s' = update_row trn_run_id r' (test_runs s)
    \<and> same_run r' r \<and> trn_version r' = trn_version r + 1) \<and> test_case_results s' = update_row case_key y (test_case_results s)
    \<and> tcr_test_run_id y = trn_id r \<and> test_jobs s' = test_jobs s"
proof (cases "same_case_result x c")
  case False
  have open_run: "\<not> finished (trn_status r)" and y: "y = recorded now c x" and d: "\<not> d"
    using assms(1) False by (auto simp: update_case_result_def ok_simps Let_def split: if_splits)
  obtain r' where r': "refreshed_run now (run_cases (trn_id r) (s\<lparr>test_case_results := update_row case_key y (test_case_results s)\<rparr>)) r = Inr r'"
    and t: "test_runs s' = update_row trn_run_id r' (test_runs s)" "test_case_results s' = update_row case_key y (test_case_results s)"
      "test_jobs s' = test_jobs s"
    using assms(1) False by (auto simp: update_case_result_def save_run_def ok_simps Let_def y split: if_splits)
  have "trn_status r \<in> {RUN_QUEUED, RUN_RUNNING}" using open_run by (cases "trn_status r") (auto simp: finished_def)
  from refreshed_verdict[OF r' this] show ?thesis using t assms(2) open_run d by (auto simp: y recorded_def)
qed (use assms in \<open>auto simp: update_case_result_def\<close>)

lemma create_job_effect:
  assumes "create_test_job e now v profile suite c s = Inr ((j, d), s')"
  shows "s' = s \<or> test_jobs s' = test_jobs s @ [j] \<and> test_runs s' = test_runs s \<and> test_case_results s' = test_case_results s"
  using assms by (auto simp: create_test_job_def ok_simps Let_def insert_unless_Some split: option.splits if_splits)

definition same_job :: "test_job \<Rightarrow> test_job \<Rightarrow> bool" where
  "same_job k j \<longleftrightarrow> tjb_job_id k = tjb_job_id j \<and> tjb_run_id k = tjb_run_id j \<and> tjb_vehicle_id k = tjb_vehicle_id j
     \<and> tjb_selection_snapshot k = tjb_selection_snapshot j \<and> tjb_scheduled_for k = tjb_scheduled_for j"

lemma cancel_effect:
  assumes "cancel_test_job e now j v c s = Inr ((j', d), s')"
  shows "s' = s \<or> tjb_status j = JOB_SCHEDULED \<and> test_jobs s' = update_row tjb_job_id j' (test_jobs s) \<and> same_job j' j
    \<and> test_runs s' = test_runs s \<and> test_case_results s' = test_case_results s"
  using assms by (auto simp: cancel_test_job_def save_job_def Let_def same_job_def cancelled_job_def split: if_splits)

section \<open>What stays\<close>

definition kept :: "'a test_store_scheme \<Rightarrow> 'a test_store_scheme \<Rightarrow> bool" where
  "kept s t \<longleftrightarrow> (\<forall>j\<in>set (test_jobs s). \<exists>k\<in>set (test_jobs t). same_job k j \<and> (tjb_status j \<noteq> JOB_SCHEDULED \<longrightarrow> k = j))
     \<and> (\<forall>r\<in>set (test_runs s). \<exists>q\<in>set (test_runs t). same_run q r
         \<and> (finished (trn_status r) \<longrightarrow> q = r \<and> cases_of r (test_case_results t) = cases_of r (test_case_results s)))"

lemma kept_refl: "kept s s"
  by (auto simp: kept_def same_job_def same_run_def)

lemma kept_trans:
  assumes "kept s t" "kept t u" shows "kept s u"
  unfolding kept_def
proof (intro conjI ballI)
  fix j assume "j \<in> set (test_jobs s)"
  then obtain k where k: "k \<in> set (test_jobs t)" "same_job k j" "tjb_status j \<noteq> JOB_SCHEDULED \<longrightarrow> k = j"
    using assms(1) by (auto simp: kept_def)
  then obtain l where "l \<in> set (test_jobs u)" "same_job l k" "tjb_status k \<noteq> JOB_SCHEDULED \<longrightarrow> l = k"
    using assms(2) by (auto simp: kept_def)
  then show "\<exists>l\<in>set (test_jobs u). same_job l j \<and> (tjb_status j \<noteq> JOB_SCHEDULED \<longrightarrow> l = j)"
    using k by (intro bexI[of _ l]) (auto simp: same_job_def)
next
  fix r assume "r \<in> set (test_runs s)"
  then obtain q where q: "q \<in> set (test_runs t)" "same_run q r"
    "finished (trn_status r) \<longrightarrow> q = r \<and> cases_of r (test_case_results t) = cases_of r (test_case_results s)"
    using assms(1) by (auto simp: kept_def)
  then obtain p where "p \<in> set (test_runs u)" "same_run p q"
    "finished (trn_status q) \<longrightarrow> p = q \<and> cases_of q (test_case_results u) = cases_of q (test_case_results t)"
    using assms(2) by (auto simp: kept_def)
  then show "\<exists>p\<in>set (test_runs u). same_run p r
      \<and> (finished (trn_status r) \<longrightarrow> p = r \<and> cases_of r (test_case_results u) = cases_of r (test_case_results s))"
    using q by (intro bexI[of _ p]) (auto simp: same_run_def)
qed

lemma kept_same: "same_execution s t \<Longrightarrow> kept s t"
  by (auto simp: kept_def same_execution_def same_job_def same_run_def)

lemma kept_new_run:
  assumes "test_runs t = test_runs s @ [r]" "test_case_results t = test_case_results s @ new"
    and "\<forall>x\<in>set new. tcr_test_run_id x = trn_id r" "trn_id r \<notin> trn_id ` set (test_runs s)"
    and "\<forall>j\<in>set (test_jobs s). \<exists>k\<in>set (test_jobs t). same_job k j \<and> (tjb_status j \<noteq> JOB_SCHEDULED \<longrightarrow> k = j)"
  shows "kept s t"
proof -
  have "cases_of q (test_case_results t) = cases_of q (test_case_results s)" if "q \<in> set (test_runs s)" for q
  proof -
    have "cases_of q new = []" using assms(3,4) that by (intro cases_of_other) (metis imageI)
    then show ?thesis by (simp add: assms(2) cases_of_append)
  qed
  then show ?thesis using assms(1,5) by (auto simp: kept_def same_run_def)
qed

lemma kept_new_version:
  assumes ok: "test_ok s" and r: "r \<in> set (test_runs s)" "\<not> finished (trn_status r)" "same_run r' r"
    and t: "test_runs t = update_row trn_run_id r' (test_runs s)" "test_jobs t = test_jobs s"
    and others: "\<And>q. trn_id q \<noteq> trn_id r \<Longrightarrow> cases_of q (test_case_results t) = cases_of q (test_case_results s)"
  shows "kept s t"
proof -
  have "\<exists>p\<in>set (test_runs t). same_run p q
      \<and> (finished (trn_status q) \<longrightarrow> p = q \<and> cases_of q (test_case_results t) = cases_of q (test_case_results s))"
    if q: "q \<in> set (test_runs s)" for q
  proof (cases "q = r")
    case True
    then show ?thesis using r t update_row_hit[of r "test_runs s" trn_run_id r'] by (auto simp: same_run_def)
  next
    case False
    have d: "distinct (map trn_id (test_runs s))" "distinct (map trn_run_id (test_runs s))" using ok by (simp_all add: test_inv)
    have "trn_id q \<noteq> trn_id r" "trn_run_id q \<noteq> trn_run_id r'"
      using unique_row[OF d(1) q r(1)] unique_row[OF d(2) q r(1)] False r(3) by (auto simp: same_run_def)
    then show ?thesis using update_row_miss[OF q, of trn_run_id r'] others t by (auto simp: same_run_def)
  qed
  then show ?thesis using t(2) by (auto simp: kept_def same_job_def)
qed

text \<open>A scheduled job is replaced; the others stay.\<close>

lemma jobs_replaced:
  assumes ok: "test_ok s" and j: "j \<in> set (test_jobs s)" "tjb_status j = JOB_SCHEDULED" "same_job j' j"
  shows "\<forall>x\<in>set (test_jobs s). \<exists>k\<in>set (update_row tjb_job_id j' (test_jobs s)). same_job k x \<and> (tjb_status x \<noteq> JOB_SCHEDULED \<longrightarrow> k = x)"
proof
  fix x assume x: "x \<in> set (test_jobs s)"
  show "\<exists>k\<in>set (update_row tjb_job_id j' (test_jobs s)). same_job k x \<and> (tjb_status x \<noteq> JOB_SCHEDULED \<longrightarrow> k = x)"
  proof (cases "x = j")
    case True
    then show ?thesis using j update_row_hit[of j "test_jobs s" tjb_job_id j'] by (auto simp: same_job_def)
  next
    case False
    have "distinct (map tjb_job_id (test_jobs s))" using ok by (simp add: test_inv)
    from unique_row[OF this x j(1)] have "tjb_job_id x \<noteq> tjb_job_id j'" using False j(3) by (auto simp: same_job_def)
    then show ?thesis using update_row_miss[OF x] by (auto simp: same_job_def)
  qed
qed

lemma dispatched_kept:
  assumes ok: "test_ok s" and j: "j \<in> set (test_jobs s)" "tjb_status j = JOB_SCHEDULED" and t: "dispatched ids now j s t"
  shows "kept s t"
proof (rule kept_new_run)
  show "test_runs t = test_runs s @ [run_of_job (ids 0) now j]" "test_case_results t = test_case_results s @ job_cases ids now j"
    using t by (simp_all add: dispatched_def)
  show "\<forall>x\<in>set (job_cases ids now j). tcr_test_run_id x = trn_id (run_of_job (ids 0) now j)"
    using pending_cases_run by (auto simp: job_cases_def run_of_job_def split: option.splits)
  show "trn_id (run_of_job (ids 0) now j) \<notin> trn_id ` set (test_runs s)"
    using t by (auto simp: dispatched_def insert_run_def insert_unless_Some)
  have "same_job (dispatched_job (ids 0) now j) j" by (simp add: same_job_def dispatched_job_def)
  from jobs_replaced[OF ok j this] show "\<forall>x\<in>set (test_jobs s). \<exists>k\<in>set (test_jobs t). same_job k x \<and> (tjb_status x \<noteq> JOB_SCHEDULED \<longrightarrow> k = x)"
    using t by (simp add: dispatched_def)
qed

lemma dispatch_loop_kept:
  "dispatch_loop ids now rows s = Inr t \<Longrightarrow> test_ok s \<Longrightarrow> queue_ok rows s \<Longrightarrow> kept s t"
proof (induction ids now rows s rule: dispatch_loop.induct)
  case (1 ids now s)
  then show ?case using kept_refl by simp
next
  case (2 ids now x xs s)
  obtain j v where x: "x = (j, v)" by (cases x)
  obtain u where u: "dispatch_job (ids 0) now (j, v) s = Inr u" "dispatch_loop (\<lambda>n. ids (Suc n)) now xs u = Inr t"
    using "2.prems"(1) x by (auto simp: ok_simps)
  have j: "j \<in> set (test_jobs s)" "tjb_status j = JOB_SCHEDULED" using "2.prems"(3) by (auto simp: queue_ok_def x)
  note d = dispatch_job_effect[OF u(1)]
  have "kept u t" using "2.IH"[of u] u x queue_next[OF "2.prems"(3)[unfolded x] d] dispatched_ok[OF "2.prems"(2) j d] by simp
  then show ?case using kept_trans dispatched_kept[OF "2.prems"(2) j d] by blast
qed

lemma step_kept: "service_step s s' \<Longrightarrow> test_ok s \<Longrightarrow> kept s s'"
proof (induction rule: service_step.induct)
  case (vehicle s v)
  show ?case by (rule kept_same) (auto simp: same_execution_def)
next
  case (definition_created e c s x s')
  then show ?case using definition_effect kept_same by blast
next
  case (suite_created e c s x s')
  then show ?case using suite_effect kept_same by blast
next
  case (definition_moved i s d e m y s')
  then show ?case using moved_effect kept_same by blast
next
  case (suite_moved i s u e m y s')
  then have "u \<in> set (test_suites s)" by (auto simp: find_suite_def dest: select_SomeD)
  then show ?case using suite_moved_effect[OF suite_moved(2)] kept_same by blast
next
  case (profile_created e p s z s')
  then show ?case using profile_effect kept_same by blast
next
  case (profile_moved i s q e k z s')
  then show ?case using profile_moved_effect kept_same by blast
next
  case (run_created e ids now r s w s')
  obtain q d where "w = (q, d)" by (cases w)
  with run_created(1) obtain v profile suite where "create_test_run e ids now v profile suite r s = Inr ((q, d), s')"
    by (auto elim: run_endpoint)
  from create_run_effect[OF this] show ?case
  proof (elim disjE exE conjE)
    assume "s' = s"
    then show ?thesis using kept_refl by simp
  next
    fix new assume "test_runs s' = test_runs s @ [q]" "test_case_results s' = test_case_results s @ new"
      "\<forall>x\<in>set new. tcr_test_run_id x = trn_id q" "trn_id q \<notin> trn_id ` set (test_runs s)" "test_jobs s' = test_jobs s"
    then show ?thesis by (intro kept_new_run[of s' s q new]) (auto simp: same_job_def)
  qed
next
  case (run_moved e now i b s w s')
  obtain r' d where "w = (r', d)" by (cases w)
  with run_moved(1) obtain r v where "find_run i s = Some r" and run: "update_test_run_status e now r v b s = Inr ((r', d), s')"
    by (auto elim: status_endpoint)
  then have r: "r \<in> set (test_runs s)" using find_run_in by blast
  show ?case
  proof (cases d)
    case True
    then show ?thesis using status_effect[OF run] kept_refl by simp
  next
    case False
    then show ?thesis using status_effect[OF run] by (intro kept_new_version[OF run_moved(2) r]) simp_all
  qed
next
  case (result_recorded e now i n a s o' s')
  obtain y d where "o' = (y, d)" by (cases o')
  with result_recorded(1) obtain r v x where q: "find_run i s = Some r" "case_key x = (trn_id r, n)"
    and run: "update_case_result e now r v x a s = Inr ((y, d), s')"
    by (auto elim: result_endpoint)
  have r: "r \<in> set (test_runs s)" "tcr_test_run_id x = trn_id r" using q find_run_in by (auto simp: case_key_def)
  show ?case
  proof (cases d)
    case True
    then show ?thesis using result_effect[OF run r(2)] kept_refl by simp
  next
    case False
    then obtain r' where "\<not> finished (trn_status r)" "same_run r' r" "test_runs s' = update_row trn_run_id r' (test_runs s)"
      "test_jobs s' = test_jobs s" "test_case_results s' = update_row case_key y (test_case_results s)" "tcr_test_run_id y = trn_id r"
      using result_effect[OF run r(2)] by auto
    then show ?thesis using r by (intro kept_new_version[OF result_recorded(2)]) (auto simp: cases_of_update)
  qed
next
  case (job_created e now j s h s')
  obtain k d where "h = (k, d)" by (cases h)
  with job_created(1) obtain v profile suite where "create_test_job e now v profile suite j s = Inr ((k, d), s')"
    by (auto elim: job_endpoint)
  from create_job_effect[OF this] show ?case by (auto simp: kept_refl) (auto simp: kept_def same_job_def same_run_def)
next
  case (job_cancelled e now i g s h s')
  obtain k d where "h = (k, d)" by (cases h)
  with job_cancelled(1) obtain j v where "find_job i s = Some j" and run: "cancel_test_job e now j v g s = Inr ((k, d), s')"
    by (auto elim: cancel_endpoint)
  then have j: "j \<in> set (test_jobs s)" using find_job_in by blast
  from cancel_effect[OF run] show ?case
  proof (elim disjE conjE)
    assume "s' = s"
    then show ?thesis using kept_refl by simp
  next
    assume "tjb_status j = JOB_SCHEDULED" "test_jobs s' = update_row tjb_job_id k (test_jobs s)" "same_job k j"
      "test_runs s' = test_runs s" "test_case_results s' = test_case_results s"
    then show ?thesis using jobs_replaced[OF job_cancelled(2) j, of k] by (auto simp: kept_def same_run_def)
  qed
next
  case (jobs_dispatched stock now limit s amount s')
  show ?case by (rule dispatch_loop_kept[OF dispatch_endpoint[OF jobs_dispatched(1)] jobs_dispatched(2)
        queue_take[OF due_queue[OF jobs_dispatched(2)]]])
qed

lemma steps_kept: "test_steps s t \<Longrightarrow> test_ok s \<Longrightarrow> kept s t"
  unfolding test_steps_def
proof (induction rule: rtranclp_induct)
  case (step t u)
  then have "test_ok t" using steps_ok by (auto simp: test_steps_def)
  then show ?case using step kept_trans step_kept by blast
qed (rule kept_refl)

section \<open>What it means for jobs and runs\<close>

lemma run_cases_of: "run_cases (trn_id r) s = cases_of r (test_case_results s)"
  by (simp add: run_cases_def cases_of_def)

lemma kept_jobs:
  assumes "kept s t" "test_ok t"
  shows "\<forall>j\<in>set (test_jobs s). \<exists>k\<in>set (test_jobs t). tjb_job_id k = tjb_job_id j \<and> tjb_run_id k = tjb_run_id j
        \<and> tjb_selection_snapshot k = tjb_selection_snapshot j \<and> tjb_scheduled_for k = tjb_scheduled_for j
        \<and> (tjb_status j \<noteq> JOB_SCHEDULED \<longrightarrow> k = j)
        \<and> (tjb_status k = JOB_DISPATCHED \<longrightarrow> (\<exists>r\<in>set (test_runs t). trn_run_id r = tjb_run_id j
              \<and> trn_catalog_suite_snapshot r = tjb_selection_snapshot j))"
proof
  fix j assume "j \<in> set (test_jobs s)"
  then obtain k where k: "k \<in> set (test_jobs t)" "same_job k j" "tjb_status j \<noteq> JOB_SCHEDULED \<longrightarrow> k = j"
    using assms(1) by (auto simp: kept_def)
  then have "job_ok (vehicles t) (test_runs t) k" using assms(2) by (simp add: test_inv)
  then have "tjb_status k = JOB_DISPATCHED \<longrightarrow> (\<exists>r\<in>set (test_runs t). trn_run_id r = tjb_run_id j
      \<and> trn_catalog_suite_snapshot r = tjb_selection_snapshot j)"
    using k(2) unfolding job_ok_def same_job_def by metis
  then show "\<exists>k\<in>set (test_jobs t). tjb_job_id k = tjb_job_id j \<and> tjb_run_id k = tjb_run_id j
        \<and> tjb_selection_snapshot k = tjb_selection_snapshot j \<and> tjb_scheduled_for k = tjb_scheduled_for j
        \<and> (tjb_status j \<noteq> JOB_SCHEDULED \<longrightarrow> k = j)
        \<and> (tjb_status k = JOB_DISPATCHED \<longrightarrow> (\<exists>r\<in>set (test_runs t). trn_run_id r = tjb_run_id j
              \<and> trn_catalog_suite_snapshot r = tjb_selection_snapshot j))"
    using k by (intro bexI[of _ k]) (simp_all add: same_job_def)
qed

lemma kept_cancelled:
  assumes "kept s t" "test_ok t"
  shows "\<forall>j\<in>set (test_jobs s). tjb_status j = JOB_CANCELLED \<longrightarrow> tjb_run_id j \<notin> trn_run_id ` set (test_runs t)"
proof (intro ballI impI)
  fix j assume "j \<in> set (test_jobs s)" "tjb_status j = JOB_CANCELLED"
  then have "j \<in> set (test_jobs t)" using assms(1) by (force simp: kept_def)
  then have "job_ok (vehicles t) (test_runs t) j" using assms(2) by (simp add: test_inv)
  then show "tjb_run_id j \<notin> trn_run_id ` set (test_runs t)"
    using \<open>tjb_status j = JOB_CANCELLED\<close> by (simp add: job_ok_def)
qed

lemma kept_finished:
  "kept s t \<Longrightarrow> \<forall>r\<in>set (test_runs s). finished (trn_status r) \<longrightarrow> r \<in> set (test_runs t) \<and> run_cases (trn_id r) t = run_cases (trn_id r) s"
  unfolding kept_def run_cases_of by blast

text \<open>The verdict, case by case.\<close>

lemma complete_all: "complete_count xs = int (length xs) \<longleftrightarrow> (\<forall>x\<in>set xs. terminal (tcr_status x))"
  unfolding complete_count_def of_nat_eq_iff by (metis filter_True length_filter_less less_irrefl)

lemma not_failing: "\<forall>x\<in>set xs. terminal (tcr_status x) \<Longrightarrow>
    \<not> failing xs \<longleftrightarrow> (\<forall>x\<in>set xs. tcr_required x \<longrightarrow> tcr_status x = CASE_PASSED)"
  by (fastforce simp: failing_def list_ex_iff terminal_def)

lemma verdict_spelled:
  assumes "verdict xs r" "ready = length (filter (\<lambda>x. terminal (tcr_status x)) xs)"
  shows "case trn_status r of
         RUN_QUEUED \<Rightarrow> trn_progress_percent r = 0 \<and> (\<forall>x\<in>set xs. tcr_status x = CASE_PENDING)
       | RUN_RUNNING \<Rightarrow> trn_progress_percent r = int ready * 100 div int (length xs) \<and> ready < length xs
       | RUN_PASSED \<Rightarrow> trn_progress_percent r = 100 \<and> (\<forall>x\<in>set xs. terminal (tcr_status x))
           \<and> (\<forall>x\<in>set xs. tcr_required x \<longrightarrow> tcr_status x = CASE_PASSED)
       | RUN_FAILED \<Rightarrow> trn_progress_percent r = 100 \<and> (\<forall>x\<in>set xs. terminal (tcr_status x))
           \<and> (\<exists>x\<in>set xs. tcr_required x \<and> tcr_status x \<in> {CASE_FAILED, CASE_SKIPPED})
       | RUN_CANCELLED \<Rightarrow> ready < length xs"
proof -
  have "complete_count xs = int ready" by (simp add: complete_count_def assms(2))
  then show ?thesis
    using assms(1) complete_all[of xs] not_failing[of xs]
    by (cases "trn_status r") (auto simp: verdict_def failing_def list_ex_iff)
qed

lemma plan_results:
  assumes "plan_ok ps" "list_all2 same_plan ps xs"
  shows "xs \<noteq> []" "list_all2 (\<lambda>x q. tcr_case_id q = tic_definition_id x
    \<and> tcr_definition_version q = sca_definition_version x \<and> tcr_required q = tic_required x) ps xs"
  using assms by (auto simp: plan_ok_def same_plan_def elim: list_all2_mono)

end
