(* ===== verification/TestProgress.thy ===== *)
theory TestProgress
  imports TestHistory
begin

text \<open>
  Progress of the test services: a cycle of the scheduler dispatches the jobs that are due, in the
  order of their schedule, whatever else is stored; and the commands of one run run out.
\<close>

section \<open>One turn of the dispatch loop\<close>

text \<open>The database never gives an identifier twice.\<close>

definition fresh_ids :: "(nat \<Rightarrow> nat \<Rightarrow> uuid) \<Rightarrow> 'a test_store_scheme \<Rightarrow> bool" where
  "fresh_ids ids s \<longleftrightarrow> inj (\<lambda>n. ids n 0) \<and> (\<forall>n. ids n 0 \<notin> trn_id ` set (test_runs s))"

lemma fresh_next: "fresh_ids ids s \<Longrightarrow> dispatched (ids 0) now j s t \<Longrightarrow> fresh_ids (\<lambda>n. ids (Suc n)) t"
  by (auto simp: fresh_ids_def dispatched_def run_of_job_def inj_def)

lemma jobs_with_vehicles_update:
  fixes f :: "test_job \<Rightarrow> vehicle option"
  assumes "\<not> P (j', w)" "f j' = Some w"
  shows "filter P (List.map_filter (\<lambda>x. map_option (Pair x) (f x)) (update_row tjb_job_id j' js))
    = filter (\<lambda>(x, v). tjb_job_id x \<noteq> tjb_job_id j') (filter P (List.map_filter (\<lambda>x. map_option (Pair x) (f x)) js))"
  using assms by (induction js) (auto simp: update_row_def List.map_filter_simps split: option.splits)

lemma due_after:
  assumes t: "dispatched ids now j s t" and v: "vehicle_by_id (tjb_vehicle_id j) s = Some v"
  shows "due_jobs instant t = filter (\<lambda>(x, v). tjb_job_id x \<noteq> tjb_job_id j) (due_jobs instant s)"
proof -
  let ?P = "\<lambda>(j, v :: vehicle). tjb_status j = JOB_SCHEDULED \<and> tjb_scheduled_for j \<le> instant"
  let ?j = "dispatched_job (ids 0) now j"
  have same: "vehicle_by_id i t = vehicle_by_id i s" for i using t by (simp add: vehicle_by_id_def dispatched_def)
  have "filter ?P (jobs_with_vehicles t)
      = filter (\<lambda>(x, v). tjb_job_id x \<noteq> tjb_job_id ?j) (filter ?P (jobs_with_vehicles s))"
    unfolding jobs_with_vehicles_def same using t v
    by (simp add: dispatched_def jobs_with_vehicles_update[of _ _ v] dispatched_job_def)
  then show ?thesis by (simp add: due_jobs_def by_schedule_def filter_sort dispatched_job_def)
qed

section \<open>The loop\<close>

text \<open>The run of a job waits to be executed.\<close>

definition queued :: "test_job \<Rightarrow> 'a test_store_scheme \<Rightarrow> bool" where
  "queued j t \<longleftrightarrow> (\<exists>k\<in>set (test_jobs t). same_job k j \<and> tjb_status k = JOB_DISPATCHED)
     \<and> (\<exists>r\<in>set (test_runs t). trn_run_id r = tjb_run_id j \<and> trn_status r = RUN_QUEUED
          \<and> trn_catalog_suite_snapshot r = tjb_selection_snapshot j)"

lemma dispatched_queued:
  assumes "dispatched ids now j s t" "j \<in> set (test_jobs s)" shows "queued j t"
proof -
  have "dispatched_job (ids 0) now j \<in> set (test_jobs t)"
    using assms update_row_hit[of j "test_jobs s" tjb_job_id "dispatched_job (ids 0) now j"]
    by (simp add: dispatched_def dispatched_job_def)
  moreover have "run_of_job (ids 0) now j \<in> set (test_runs t)" using assms by (simp add: dispatched_def)
  ultimately show ?thesis unfolding queued_def
    by (intro conjI bexI[of _ "dispatched_job (ids 0) now j"] bexI[of _ "run_of_job (ids 0) now j"])
      (simp_all add: same_job_def dispatched_job_def run_of_job_def)
qed

lemma dispatch_loop_runs_grow: "dispatch_loop ids now rows s = Inr t \<Longrightarrow> set (test_runs s) \<subseteq> set (test_runs t)"
proof (induction ids now rows s rule: dispatch_loop.induct)
  case (2 ids now x xs s)
  then obtain u where u: "dispatch_job (ids 0) now x s = Inr u" "dispatch_loop (\<lambda>n. ids (Suc n)) now xs u = Inr t"
    by (auto simp: ok_simps)
  then have "set (test_runs s) \<subseteq> set (test_runs u)"
    using dispatch_job_effect[of "ids 0" now "fst x" "snd x" s u] by (auto simp: dispatched_def)
  then show ?case using "2.IH"[OF u(2)] by blast
qed simp

lemma subset_step: "A \<subseteq> B \<union> R' \<Longrightarrow> B \<subseteq> S \<union> {i} \<Longrightarrow> i \<in> R \<Longrightarrow> R' \<subseteq> R \<Longrightarrow> A \<subseteq> S \<union> R"
  by blast

lemma dispatch_loop_runs:
  assumes "test_ok s" "queue_ok rows s" "fresh_ids ids s"
    and "\<forall>(j, v)\<in>set rows. vehicle_by_id (tjb_vehicle_id j) s = Some v"
  shows "\<exists>t. dispatch_loop ids now rows s = Inr t \<and> (\<forall>(j, v)\<in>set rows. queued j t)
    \<and> due_jobs instant t = filter (\<lambda>(x, v). tjb_job_id x \<notin> (tjb_job_id \<circ> fst) ` set rows) (due_jobs instant s)
    \<and> trn_id ` set (test_runs t) \<subseteq> trn_id ` set (test_runs s) \<union> range (\<lambda>n. ids n 0)"
  using assms
proof (induction ids now rows s rule: dispatch_loop.induct)
  case (2 ids now x xs s)
  obtain j v where x: "x = (j, v)" by (cases x)
  have j: "j \<in> set (test_jobs s)" "tjb_status j = JOB_SCHEDULED" "vehicle_by_id (tjb_vehicle_id j) s = Some v"
    using "2.prems"(2,4) by (auto simp: queue_ok_def x)
  obtain u where u: "dispatch_job (ids 0) now (j, v) s = Inr u"
    using dispatch_job_runs[OF "2.prems"(1) j(1,2), of "ids 0" now v] "2.prems"(3) unfolding fresh_ids_def by blast
  note d = dispatch_job_effect[OF u]
  have ok: "test_ok u" "queue_ok xs u" "fresh_ids (\<lambda>n. ids (Suc n)) u"
    using dispatched_ok[OF "2.prems"(1) j(1,2) d] queue_next[OF "2.prems"(2)[unfolded x] d] fresh_next[OF "2.prems"(3) d] by auto
  have "\<forall>(j, v)\<in>set xs. vehicle_by_id (tjb_vehicle_id j) u = Some v"
    using "2.prems"(4) d by (auto simp: vehicle_by_id_def dispatched_def)
  from "2.IH"[OF ok this] obtain t where t: "dispatch_loop (\<lambda>n. ids (Suc n)) now xs u = Inr t"
    "\<forall>(j, v)\<in>set xs. queued j t"
    "due_jobs instant t = filter (\<lambda>(x, v). tjb_job_id x \<notin> (tjb_job_id \<circ> fst) ` set xs) (due_jobs instant u)"
    "trn_id ` set (test_runs t) \<subseteq> trn_id ` set (test_runs u) \<union> range (\<lambda>n. ids (Suc n) 0)" by blast
  have "queued j t"
  proof -
    have q: "queued j u" by (rule dispatched_queued[OF d j(1)])
    moreover have "kept u t" by (rule dispatch_loop_kept[OF t(1) ok(1,2)])
    ultimately show ?thesis using dispatch_loop_runs_grow[OF t(1)] unfolding queued_def kept_def by fastforce
  qed
  moreover have "trn_id ` set (test_runs t) \<subseteq> trn_id ` set (test_runs s) \<union> range (\<lambda>n. ids n 0)"
  proof (rule subset_step[OF t(4)])
    show "trn_id ` set (test_runs u) \<subseteq> trn_id ` set (test_runs s) \<union> {ids 0 0}"
      using d by (simp add: dispatched_def run_of_job_def)
    show "ids 0 0 \<in> range (\<lambda>n. ids n 0)" by blast
    show "range (\<lambda>n. ids (Suc n) 0) \<subseteq> range (\<lambda>n. ids n 0)" by blast
  qed
  ultimately show ?case
    using u t(1-3) due_after[OF d j(3), of instant] by (auto simp: x intro!: filter_cong)
qed (auto intro!: exI filter_True[symmetric])

lemma in_due: "(j, v) \<in> set (due_jobs now s) \<Longrightarrow> j \<in> set (test_jobs s) \<and> vehicle_by_id (tjb_vehicle_id j) s = Some v"
  by (auto simp: due_jobs_def by_schedule_def in_jobs_with_vehicles)

text \<open>
  The jobs that are due at an instant come first among those that are due later; the first of distinct
  keys are filtered out.
\<close>

lemma sorted_prefix: "sorted (map f xs) \<Longrightarrow> \<exists>ys. xs = filter (\<lambda>x. f x \<le> (k :: int)) xs @ ys"
proof (induction xs)
  case (Cons x xs)
  then obtain ys where ys: "xs = filter (\<lambda>x. f x \<le> k) xs @ ys" by auto
  show ?case
  proof (cases "f x \<le> k")
    case False
    then have "filter (\<lambda>x. f x \<le> k) (x # xs) = []" using Cons.prems by (auto simp: filter_empty_conv)
    then show ?thesis by simp
  qed (use ys in auto)
qed simp

lemma due_prefix: assumes "instant \<le> now" shows "\<exists>later. due_jobs now s = due_jobs instant s @ later"
proof -
  let ?f = "\<lambda>(j, v :: vehicle). tjb_scheduled_for j"
  have "sorted (map ?f (due_jobs now s))" by (simp add: due_jobs_def by_schedule_def)
  moreover have "due_jobs instant s = filter (\<lambda>x. ?f x \<le> instant) (due_jobs now s)"
    unfolding due_jobs_def by_schedule_def filter_sort filter_filter
    by (intro arg_cong[of _ _ "sort_key _"] filter_cong) (use assms in auto)
  ultimately show ?thesis using sorted_prefix[of ?f "due_jobs now s" instant] by simp
qed

lemma filter_prefix:
  "distinct (map f (xs @ ys)) \<Longrightarrow> filter (\<lambda>x. f x \<notin> f ` set (take n (xs @ ys))) xs = drop n xs"
proof (induction xs arbitrary: n)
  case (Cons x xs)
  show ?case
  proof (cases n)
    case 0
    then show ?thesis by simp
  next
    case (Suc m)
    then have "filter (\<lambda>y. f y \<notin> f ` set (take n (x # xs @ ys))) xs = filter (\<lambda>y. f y \<notin> f ` set (take m (xs @ ys))) xs"
      using Cons.prems by (intro filter_cong) (auto simp: image_iff)
    then show ?thesis using Cons Suc by simp
  qed
qed simp

section \<open>Cycles\<close>

lemma dispatch_cycle:
  assumes "test_ok s" "fresh_ids ids s" "instant \<le> now"
  shows "\<exists>t. dispatch_due_test_jobs ids now limit s = Inr (int (min limit (length (due_jobs now s))), t)
    \<and> due_jobs instant t = drop limit (due_jobs instant s) \<and> (\<forall>(j, v)\<in>set (take limit (due_jobs now s)). queued j t)
    \<and> trn_id ` set (test_runs t) \<subseteq> trn_id ` set (test_runs s) \<union> range (\<lambda>n. ids n 0)"
proof -
  let ?rows = "take limit (due_jobs now s)"
  have q: "queue_ok ?rows s" by (rule queue_take[OF due_queue[OF assms(1)]])
  have "\<forall>(j, v)\<in>set ?rows. vehicle_by_id (tjb_vehicle_id j) s = Some v" using in_due in_set_takeD by fast
  from dispatch_loop_runs[OF assms(1) q assms(2) this, of now instant]
  obtain t where t: "dispatch_loop ids now ?rows s = Inr t" "\<forall>(j, v)\<in>set ?rows. queued j t"
    "due_jobs instant t = filter (\<lambda>(x, v). tjb_job_id x \<notin> (tjb_job_id \<circ> fst) ` set ?rows) (due_jobs instant s)"
    "trn_id ` set (test_runs t) \<subseteq> trn_id ` set (test_runs s) \<union> range (\<lambda>n. ids n 0)" by blast
  obtain later where later: "due_jobs now s = due_jobs instant s @ later" using due_prefix[OF assms(3)] by blast
  have "due_jobs instant t = drop limit (due_jobs instant s)"
    using filter_prefix[of "tjb_job_id \<circ> fst" "due_jobs instant s" later limit] due_queue[OF assms(1), of now] t(3)
    by (simp add: queue_ok_def case_prod_unfold later)
  then show ?thesis using t by (simp add: dispatch_due_test_jobs_def Let_def min.commute)
qed

definition fresh_stock :: "(nat \<Rightarrow> nat \<Rightarrow> nat \<Rightarrow> uuid) \<Rightarrow> 'a test_store_scheme \<Rightarrow> bool" where
  "fresh_stock stock s \<longleftrightarrow> inj (\<lambda>(m, n). stock m n 0) \<and> (\<forall>m n. stock m n 0 \<notin> trn_id ` set (test_runs s))"

lemma fresh_first: "fresh_stock stock s \<Longrightarrow> fresh_ids (stock 0) s"
  by (auto simp: fresh_stock_def fresh_ids_def inj_def)

lemma fresh_stock_next:
  assumes "fresh_stock stock s" "trn_id ` set (test_runs t) \<subseteq> trn_id ` set (test_runs s) \<union> range (\<lambda>n. stock 0 n 0)"
  shows "fresh_stock (\<lambda>m. stock (Suc m)) t"
proof -
  have i: "stock m n 0 = stock m' n' 0 \<Longrightarrow> m = m' \<and> n = n'" for m n m' n'
    using assms(1) by (auto simp: fresh_stock_def inj_def)
  have "stock (Suc m) n 0 \<notin> trn_id ` set (test_runs t)" for m n
  proof
    assume "stock (Suc m) n 0 \<in> trn_id ` set (test_runs t)"
    then have "stock (Suc m) n 0 \<in> trn_id ` set (test_runs s) \<or> stock (Suc m) n 0 \<in> range (\<lambda>n. stock 0 n 0)"
      using assms(2) by blast
    then show False using assms(1) i[of "Suc m" n 0] unfolding fresh_stock_def by blast
  qed
  then show ?thesis using i by (fastforce simp: fresh_stock_def inj_def)
qed

lemma queued_kept: "queued j s \<Longrightarrow> kept s t \<Longrightarrow> set (test_runs s) \<subseteq> set (test_runs t) \<Longrightarrow> queued j t"
  unfolding queued_def kept_def by fastforce

lemma scheduler_drains:
  assumes "test_ok s" "fresh_stock stock s" "\<forall>now\<in>set nows. instant \<le> now"
  shows "due_jobs instant (scheduler_cycles stock limit nows s) = drop (length nows * limit) (due_jobs instant s)
    \<and> kept s (scheduler_cycles stock limit nows s) \<and> set (test_runs s) \<subseteq> set (test_runs (scheduler_cycles stock limit nows s))
    \<and> (\<forall>(j, v)\<in>set (take (length nows * limit) (due_jobs instant s)). queued j (scheduler_cycles stock limit nows s))"
  using assms
proof (induction stock limit nows s rule: scheduler_cycles.induct)
  case (1 stock limit s)
  then show ?case using kept_refl by simp
next
  case (2 stock limit now nows s)
  have "instant \<le> now" using "2.prems"(3) by simp
  from dispatch_cycle[OF "2.prems"(1) fresh_first[OF "2.prems"(2)] this, of limit]
  obtain t where t: "dispatch_due_test_jobs (stock 0) now limit s = Inr (int (min limit (length (due_jobs now s))), t)"
    "due_jobs instant t = drop limit (due_jobs instant s)" "\<forall>(j, v)\<in>set (take limit (due_jobs now s)). queued j t"
    "trn_id ` set (test_runs t) \<subseteq> trn_id ` set (test_runs s) \<union> range (\<lambda>n. stock 0 n 0)" by blast
  have ok: "test_ok t" and st: "kept s t" "set (test_runs s) \<subseteq> set (test_runs t)"
    using dispatch_loop_ok[OF dispatch_endpoint[OF t(1)]] dispatch_loop_kept[OF dispatch_endpoint[OF t(1)]]
      dispatch_loop_runs_grow[OF dispatch_endpoint[OF t(1)]] "2.prems"(1) queue_take[OF due_queue[OF "2.prems"(1)]]
    by simp_all
  let ?u = "scheduler_cycles (\<lambda>n. stock (Suc n)) limit nows t"
  have u: "due_jobs instant ?u = drop (length nows * limit) (due_jobs instant t)" "kept t ?u" "set (test_runs t) \<subseteq> set (test_runs ?u)"
    "\<forall>(j, v)\<in>set (take (length nows * limit) (due_jobs instant t)). queued j ?u"
    using "2.IH" t(1) ok fresh_stock_next[OF "2.prems"(2) t(4)] "2.prems"(3) by simp_all
  obtain later where later: "due_jobs now s = due_jobs instant s @ later" using due_prefix[OF \<open>instant \<le> now\<close>] by blast
  have "queued j ?u" if "(j, v) \<in> set (take (limit + length nows * limit) (due_jobs instant s))" for j v
  proof -
    have "(j, v) \<in> set (take limit (due_jobs instant s)) \<or> (j, v) \<in> set (take (length nows * limit) (due_jobs instant t))"
      using that by (simp add: take_add t(2))
    then show ?thesis using bspec[OF u(4), of "(j, v)"] bspec[OF t(3), of "(j, v)"] queued_kept[OF _ u(2,3), of j] later by auto
  qed
  then show ?case using t(1,2) u st kept_trans[OF st(1) u(2)] by (auto simp: add.commute)
qed

section \<open>The commands of one run\<close>

datatype run_request = MoveRun test_run_status_update | RecordCase string test_case_result_update

text \<open>A command that is refused leaves the store; a repeated one is recognised and changes nothing.\<close>

definition execute_request :: "env \<Rightarrow> int \<Rightarrow> string \<Rightarrow> run_request \<Rightarrow> 'a test_store_scheme \<Rightarrow> bool \<times> 'a test_store_scheme" where
  "execute_request e now i c s = (case c of
     MoveRun m \<Rightarrow> (case update_test_run_status_endpoint e now i m s of
       Inl _ \<Rightarrow> (False, s) | Inr ((r, replayed), t) \<Rightarrow> (\<not> replayed, t))
   | RecordCase k m \<Rightarrow> (case update_test_case_result_endpoint e now i k m s of
       Inl _ \<Rightarrow> (False, s) | Inr ((x, replayed), t) \<Rightarrow> (\<not> replayed, t)))"

fun run_commands ::
  "string \<Rightarrow> (env \<times> int \<times> run_request) list \<Rightarrow> 'a test_store_scheme \<Rightarrow> nat \<times> 'a test_store_scheme" where
  "run_commands i [] s = (0, s)"
| "run_commands i ((e, now, c) # cs) s = (let (effective, t) = execute_request e now i c s; (n, u) = run_commands i cs t
     in ((if effective then Suc n else n), u))"

text \<open>How many of them can have an effect.\<close>

definition run_budget :: "test_run \<Rightarrow> int" where
  "run_budget r = (case trn_catalog_suite_snapshot r of None \<Rightarrow> 2 | Some x \<Rightarrow> 2 * int (length (ssn_cases x)))"

lemma case_version: "case_ok x \<Longrightarrow> tcr_version x \<le> (if terminal (tcr_status x) then 3 else 2)"
  by (cases "tcr_status x") (auto simp: case_ok_def terminal_def)

lemma effort_le: "list_all case_ok xs \<Longrightarrow> effort xs \<le> int (length xs) + complete_count xs"
proof (induction xs)
  case (Cons x xs)
  then show ?case using case_version[of x] by (auto simp: effort_def complete_count_def split: if_splits)
qed (simp add: effort_def complete_count_def)

lemma run_version_le:
  assumes "run_ok all r" shows "trn_version r \<le> 1 + run_budget r"
proof (cases "trn_catalog_suite_snapshot r")
  case None
  then show ?thesis using assms by (cases "trn_status r") (auto simp: run_ok_def run_budget_def)
next
  case (Some x)
  let ?xs = "cases_of r all"
  have "length ?xs = length (ssn_cases x)" "list_all case_ok ?xs" "verdict ?xs r"
    "trn_version r = 1 + effort ?xs + (if trn_status r = RUN_CANCELLED then 1 else 0)"
    using assms Some by (auto simp: run_ok_def list_all2_lengthD)
  then show ?thesis using effort_le[of ?xs] complete_count_le[of ?xs]
    by (cases "trn_status r") (auto simp: verdict_def run_budget_def Some)
qed

lemma effort_nonneg: "list_all case_ok xs \<Longrightarrow> 0 \<le> effort xs"
proof (induction xs)
  case (Cons x xs)
  then show ?case by (cases "tcr_status x") (auto simp: effort_def case_ok_def)
qed (simp add: effort_def)

lemma run_version_ge:
  assumes "run_ok all r" shows "1 \<le> trn_version r"
  using assms effort_nonneg[of "cases_of r all"]
  by (cases "trn_status r"; cases "trn_catalog_suite_snapshot r") (auto simp: run_ok_def)

lemma pending_effort: "list_all case_ok xs \<Longrightarrow> \<forall>x\<in>set xs. tcr_status x = CASE_PENDING \<Longrightarrow> effort xs = 0"
  by (induction xs) (auto simp: effort_def case_ok_def)

text \<open>A run whose commands are used up is finished.\<close>

lemma budget_used:
  assumes "run_ok all r" "trn_version r = 1 + run_budget r" shows "finished (trn_status r)"
proof (cases "trn_catalog_suite_snapshot r")
  case None
  then show ?thesis using assms by (cases "trn_status r") (auto simp: run_ok_def run_budget_def finished_def)
next
  case (Some x)
  let ?xs = "cases_of r all"
  have o: "ssn_cases x \<noteq> []" "length ?xs = length (ssn_cases x)" "list_all case_ok ?xs" "verdict ?xs r"
    "trn_version r = 1 + effort ?xs + (if trn_status r = RUN_CANCELLED then 1 else 0)"
    using assms(1) Some by (auto simp: run_ok_def plan_ok_def list_all2_lengthD)
  then have "0 < length (ssn_cases x)" by simp
  then show ?thesis using o assms(2) effort_le[of ?xs] pending_effort[of ?xs]
    by (cases "trn_status r") (auto simp: verdict_def run_budget_def Some finished_def)
qed

lemma found_run:
  assumes "find_run i t = Some q" "test_ok t"
  shows "1 \<le> trn_version q" "trn_version q \<le> 1 + run_budget q"
    "trn_version q = 1 + run_budget q \<Longrightarrow> finished (trn_status q)"
proof -
  have "run_ok (test_case_results t) q" using assms find_run_in[OF assms(1)] by (simp add: test_inv)
  then show "1 \<le> trn_version q" "trn_version q \<le> 1 + run_budget q"
    "trn_version q = 1 + run_budget q \<Longrightarrow> finished (trn_status q)"
    using run_version_ge run_version_le budget_used by blast+
qed

text \<open>A command that has an effect counts the version of the run up; the others leave the run.\<close>

lemma new_version:
  assumes "test_ok t" "find_run i s = Some r" "test_runs t = update_row trn_run_id r' (test_runs s)" "same_run r' r"
  shows "find_run i t = Some r'"
proof -
  have "r' \<in> set (test_runs t)" "trn_run_id r' = i"
    using assms find_run_in[OF assms(2)] update_row_hit[of r "test_runs s" trn_run_id r'] by (auto simp: same_run_def)
  then show ?thesis using find_run_unique[OF assms(1)] by blast
qed

lemma execute_request_version:
  assumes "test_ok s" "find_run i s = Some r" "execute_request e now i c s = (effective, t)"
  shows "test_ok t \<and> (\<exists>q. find_run i t = Some q \<and> run_budget q = run_budget r
    \<and> trn_version q = trn_version r + (if effective then 1 else 0))"
proof (cases "(effective, t) = (False, s)")
  case True
  then show ?thesis using assms by simp
next
  case False
  have changed: "test_ok t" if "service_step s t" using step_ok that assms(1) by blast
  have "\<exists>r'. service_step s t \<and> test_runs t = update_row trn_run_id r' (test_runs s) \<and> same_run r' r \<and> trn_version r' = trn_version r + 1
      \<and> effective"
  proof (cases c)
    case (MoveRun m)
    then obtain q d where e: "update_test_run_status_endpoint e now i m s = Inr ((q, d), t)" "effective \<longleftrightarrow> \<not> d"
      using assms(3) False by (auto simp: execute_request_def split: sum.splits)
    then obtain v where "update_test_run_status e now r v m s = Inr ((q, d), t)"
      using assms(2) status_endpoint[OF e(1)] by (metis option.inject)
    from status_effect[OF this] show ?thesis using e False service_step.run_moved[OF e(1)] by (auto split: if_splits)
  next
    case (RecordCase k m)
    then obtain y d where e: "update_test_case_result_endpoint e now i k m s = Inr ((y, d), t)" "effective \<longleftrightarrow> \<not> d"
      using assms(3) False by (auto simp: execute_request_def split: sum.splits)
    then obtain v x where "case_key x = (trn_id r, k)" "update_case_result e now r v x m s = Inr ((y, d), t)"
      using assms(2) result_endpoint[OF e(1)] by (metis option.inject)
    from result_effect[OF this(2)] this(1) show ?thesis
      using e False service_step.result_recorded[OF e(1)] by (auto simp: case_key_def split: if_splits)
  qed
  then obtain r' where r': "service_step s t" "test_runs t = update_row trn_run_id r' (test_runs s)" "same_run r' r"
    "trn_version r' = trn_version r + 1" "effective" by blast
  then have "find_run i t = Some r'" using new_version[OF changed assms(2)] by blast
  then show ?thesis using r' changed by (auto simp: run_budget_def same_run_def)
qed

lemma run_commands_version:
  "test_ok s \<Longrightarrow> find_run i s = Some r \<Longrightarrow> run_commands i cs s = (n, t)
    \<Longrightarrow> test_ok t \<and> (\<exists>q. find_run i t = Some q \<and> run_budget q = run_budget r \<and> trn_version q = trn_version r + int n)"
proof (induction i cs s arbitrary: r n rule: run_commands.induct)
  case (2 i e now c cs s)
  obtain effective u where c: "execute_request e now i c s = (effective, u)" by fastforce
  obtain m where m: "run_commands i cs u = (m, t)" "n = (if effective then Suc m else m)"
    using "2.prems"(3) c by (auto split: prod.splits)
  from execute_request_version[OF "2.prems"(1,2) c] obtain q where q: "test_ok u" "find_run i u = Some q"
    "run_budget q = run_budget r" "trn_version q = trn_version r + (if effective then 1 else 0)" by blast
  from "2.IH"[OF c[symmetric] refl q(1,2) m(1)] show ?case using q m by auto
qed simp

end
