(* ===== verification/TestExample.thy ===== *)
theory TestExample
  imports TestProgress
begin

text \<open>
  A platform on which the properties of the test services are witnessed: a vehicle, two active
  definitions, a suite of them, a run of the suite and scheduled jobs.
\<close>

section \<open>Requests\<close>

definition tx_vehicle :: vehicle where
  "tx_vehicle = \<lparr>veh_id = ''v1'', veh_identifier = ''car-1''\<rparr>"

definition tx_env :: "uuid \<Rightarrow> env" where
  "tx_env i = \<lparr>env_actor = ''u1'', env_correlation = None, env_new_id = i\<rparr>"

definition tx_definition :: "string \<Rightarrow> test_definition" where
  "tx_definition i = \<lparr>tdf_id = i, tdf_definition_id = i, tdf_created_by_user_id = ''u1'', tdf_name = ''Test'',
     tdf_description = '''', tdf_domain = ECU_DOMAIN, tdf_level = SYSTEM_LEVEL, tdf_automation_mode = AUTOMATED,
     tdf_timeout_seconds = 60, tdf_tags = [],
     tdf_preconditions = [], tdf_steps = [\<lparr>tst_step_id = ''s1'', tst_action = ''send'', tst_target = ''ecu'', tst_inputs = [],
       tst_expected = ''ok''\<rparr>], tdf_status = ACTIVE, tdf_version = 2\<rparr>"

definition tx_start :: test_store where
  "tx_start = \<lparr>outbox = [], audit_log = [], vehicles = [tx_vehicle],
     test_definitions = [tx_definition ''brake-01'', tx_definition ''horn-001''], test_suites = [], environment_profiles = [],
     test_runs = [], test_case_results = [], test_jobs = []\<rparr>"

definition tx_item :: "string \<Rightarrow> int \<Rightarrow> bool \<Rightarrow> test_suite_item_create" where
  "tx_item i n required = \<lparr>tic_definition_id = i, tic_order = n, tic_required = required, tic_parameter_overrides = []\<rparr>"

definition tx_suite :: test_suite_create where
  "tx_suite = \<lparr>tsc_suite_id = ''suite-01'', tsc_name = ''Smoke'', tsc_description = '''', tsc_suite_type = SMOKE_TYPE,
     tsc_cases = [tx_item ''horn-001'' 2 False, tx_item ''brake-01'' 1 True], tsc_tags = []\<rparr>"

definition tx_run :: test_run_create where
  "tx_run = \<lparr>trc_run_id = ''run-0001'', trc_vehicle_id = ''car-1'', trc_environment_profile_id = None,
     trc_catalog_suite_id = Some ''suite-01'', trc_name = ''Nightly'', trc_suite = SMOKE, trc_metadata = []\<rparr>"

definition tx_result :: "int \<Rightarrow> TestCaseStatus \<Rightarrow> test_case_result_update" where
  "tx_result n status = \<lparr>tcu_expected_version = n, tcu_status = status, tcu_attempt = 1, tcu_duration_ms = None,
     tcu_observed = None, tcu_evidence_refs = []\<rparr>"

definition tx_job :: "string \<Rightarrow> string \<Rightarrow> int \<Rightarrow> test_job_create" where
  "tx_job i run instant = \<lparr>tjc_job_id = i, tjc_run_id = run, tjc_vehicle_id = ''car-1'', tjc_environment_profile_id = None,
     tjc_catalog_suite_id = Some ''suite-01'', tjc_selection_policy = Some SMOKE_POLICY, tjc_name = ''Job'', tjc_suite = SMOKE,
     tjc_metadata = [], tjc_scheduled_for = instant\<rparr>"

definition tx_ids :: "nat \<Rightarrow> nat \<Rightarrow> nat \<Rightarrow> uuid" where
  "tx_ids m n k = replicate m (CHR ''a'') @ CHR ''b'' # replicate n (CHR ''a'') @ CHR ''b'' # replicate k (CHR ''a'')"

section \<open>Stores\<close>

text \<open>The store after a request that succeeds.\<close>

definition reply :: "'e + 'r \<times> 's \<Rightarrow> 's" where
  "reply m = snd (projr m)"

lemma replied_step:
  "\<not> isl m \<Longrightarrow> (\<And>r t. m = Inr (r, t) \<Longrightarrow> service_step u t) \<Longrightarrow> service_step u (reply m)"
  by (cases m) (auto simp: reply_def)

definition tx_suites :: test_store where
  "tx_suites = (let s = reply (create_suite (tx_env ''s1'') tx_suite tx_start)
     in reply (update_status (tx_env ''x'') (SuiteResource (the (find_suite ''suite-01'' s)))
          \<lparr>csu_expected_version = 1, csu_status = ACTIVE\<rparr> s))"

definition tx_queued :: test_store where
  "tx_queued = reply (create_test_run_endpoint (tx_env ''r1'') (\<lambda>n. replicate (Suc n) (CHR ''c'')) 10 tx_run tx_suites)"

definition tx_commands :: "(env \<times> int \<times> run_request) list" where
  "tx_commands = [(tx_env ''x'', 20, RecordCase ''brake-01'' (tx_result 1 CASE_RUNNING)),
     (tx_env ''x'', 21, RecordCase ''brake-01'' (tx_result 1 CASE_RUNNING)),
     (tx_env ''x'', 22, RecordCase ''brake-01'' (tx_result 2 CASE_PASSED))]"

definition tx_started :: test_store where
  "tx_started = reply (update_test_case_result_endpoint (tx_env ''x'') 20 ''run-0001'' ''brake-01'' (tx_result 1 CASE_RUNNING)
     tx_queued)"

definition tx_half :: test_store where
  "tx_half = reply (update_test_case_result_endpoint (tx_env ''x'') 22 ''run-0001'' ''brake-01'' (tx_result 2 CASE_PASSED)
     tx_started)"

definition tx_one_job :: test_store where
  "tx_one_job = reply (create_test_job_endpoint (tx_env ''j1'') 1 (tx_job ''job-0001'' ''run-0001'' 30) tx_suites)"

definition tx_jobs :: test_store where
  "tx_jobs = reply (create_test_job_endpoint (tx_env ''j2'') 2 (tx_job ''job-0002'' ''run-0002'' 20) tx_one_job)"

definition tx_cancelled :: test_store where
  "tx_cancelled = reply (cancel_test_job_endpoint (tx_env ''x'') 3 ''job-0001'' \<lparr>tjx_expected_version = 1, tjx_reason = None\<rparr>
     tx_jobs)"

definition tx_dispatched :: test_store where
  "tx_dispatched = reply (dispatch_due_test_jobs (tx_ids 0) 40 10 tx_cancelled)"

section \<open>Their tables\<close>

definition tx_composition :: "suite_case list" where
  "tx_composition = [composed_case (tx_item ''brake-01'' 1 True) (tx_definition ''brake-01''),
     composed_case (tx_item ''horn-001'' 2 False) (tx_definition ''horn-001'')]"

definition tx_row :: test_suite_row where
  "tx_row = (suite_of (tx_env ''s1'') tx_suite tx_composition)\<lparr>tsu_status := ACTIVE, tsu_version := 2\<rparr>"

definition tx_job_row :: "uuid \<Rightarrow> int \<Rightarrow> test_job_create \<Rightarrow> test_job" where
  "tx_job_row i now c = job_of (tx_env i) now tx_vehicle None (Some tx_row) c"

lemma tx_suites_tables [simp]:
  "vehicles tx_suites = [tx_vehicle]" "test_suites tx_suites = [tx_row]" "test_runs tx_suites = []"
  "test_case_results tx_suites = []" "test_jobs tx_suites = []"
  by code_simp+

lemma tx_row_fields [simp]:
  "tsu_suite_id tx_row = ''suite-01''" "tsu_status tx_row = ACTIVE" "tsu_suite_type tx_row = SMOKE_TYPE"
  "tsu_composition tx_row = tx_composition" "tsu_id tx_row = ''s1''"
  by code_simp+

lemmas tx_defs = tx_vehicle_def tx_env_def tx_job_def tx_run_def tx_result_def tx_job_row_def
lemmas tx_lookups = require_vehicle_def require_catalog_suite_def find_suite_def find_job_def find_run_def
  reserved_run_id_def select_def optional_def insert_unless_def vehicle_by_id_def

lemma tx_one_job_tables:
  "\<not> isl (create_test_job_endpoint (tx_env ''j1'') 1 (tx_job ''job-0001'' ''run-0001'' 30) tx_suites)"
  "vehicles tx_one_job = [tx_vehicle]" "test_suites tx_one_job = [tx_row]" "test_runs tx_one_job = []"
  "test_case_results tx_one_job = []" "test_jobs tx_one_job = [tx_job_row ''j1'' 1 (tx_job ''job-0001'' ''run-0001'' 30)]"
  by (simp_all add: tx_one_job_def reply_def create_test_job_endpoint_def create_test_job_def tx_lookups tx_defs Let_def
      job_of_def)

lemma tx_jobs_tables:
  "\<not> isl (create_test_job_endpoint (tx_env ''j2'') 2 (tx_job ''job-0002'' ''run-0002'' 20) tx_one_job)"
  "vehicles tx_jobs = [tx_vehicle]" "test_suites tx_jobs = [tx_row]" "test_runs tx_jobs = []"
  "test_case_results tx_jobs = []" "test_jobs tx_jobs = [tx_job_row ''j1'' 1 (tx_job ''job-0001'' ''run-0001'' 30),
     tx_job_row ''j2'' 2 (tx_job ''job-0002'' ''run-0002'' 20)]"
  by (simp_all add: tx_jobs_def reply_def create_test_job_endpoint_def create_test_job_def tx_lookups tx_defs Let_def
      job_of_def tx_one_job_tables)

lemma tx_cancelled_tables:
  "\<not> isl (cancel_test_job_endpoint (tx_env ''x'') 3 ''job-0001'' \<lparr>tjx_expected_version = 1, tjx_reason = None\<rparr> tx_jobs)"
  "vehicles tx_cancelled = [tx_vehicle]" "test_runs tx_cancelled = []" "test_case_results tx_cancelled = []"
  "test_jobs tx_cancelled = [cancelled_job 3 None (tx_job_row ''j1'' 1 (tx_job ''job-0001'' ''run-0001'' 30)),
     tx_job_row ''j2'' 2 (tx_job ''job-0002'' ''run-0002'' 20)]"
  by (simp_all add: tx_cancelled_def reply_def cancel_test_job_endpoint_def cancel_test_job_def require_test_job_def tx_lookups
      tx_defs Let_def job_of_def tx_jobs_tables save_job_def update_row_def cancelled_job_def)

lemma tx_due [simp]:
  "due_jobs 30 tx_jobs = [(tx_job_row ''j2'' 2 (tx_job ''job-0002'' ''run-0002'' 20), tx_vehicle),
     (tx_job_row ''j1'' 1 (tx_job ''job-0001'' ''run-0001'' 30), tx_vehicle)]"
  "due_jobs 40 tx_cancelled = [(tx_job_row ''j2'' 2 (tx_job ''job-0002'' ''run-0002'' 20), tx_vehicle)]"
  by (simp_all add: due_jobs_def by_schedule_def jobs_with_vehicles_def List.map_filter_simps tx_jobs_tables tx_cancelled_tables
      vehicle_by_id_def select_def tx_defs job_of_def cancelled_job_def)

lemma tx_cases [simp]:
  "insert_rows case_key (pending_cases ids run now tx_composition) [] = Some (pending_cases ids run now tx_composition)"
proof -
  have "plan_ok tx_composition" by code_simp
  then show ?thesis using pending_cases_inserted[of tx_composition run "[]"] by simp
qed

lemma tx_dispatched_tables:
  "\<not> isl (dispatch_due_test_jobs (tx_ids 0) 40 10 tx_cancelled)"
  "map trn_run_id (test_runs tx_dispatched) = [''run-0002'']"
  "map (\<lambda>j. (tjb_job_id j, tjb_status j)) (test_jobs tx_dispatched) = [(''job-0001'', JOB_CANCELLED), (''job-0002'', JOB_DISPATCHED)]"
  by (simp_all add: tx_dispatched_def reply_def dispatch_due_test_jobs_def dispatch_job_def insert_run_def tx_cancelled_tables
      run_of_job_def insert_unless_def Let_def tx_job_row_def job_of_def selection_snapshot_def
      save_job_def update_row_def dispatched_job_def cancelled_job_def tx_job_def)

definition tx_case :: "nat \<Rightarrow> test_case_result" where
  "tx_case n = pending_case (replicate (Suc n) (CHR ''c'')) ''r1'' 10 (tx_composition ! n)"

lemma tx_case_fields [simp]:
  "tcr_test_run_id (tx_case n) = ''r1''" "tcr_status (tx_case n) = CASE_PENDING" "tcr_version (tx_case n) = 1"
  "tcr_case_id (tx_case 0) = ''brake-01''" "tcr_case_id (tx_case (Suc 0)) = ''horn-001''"
  by (simp_all add: tx_case_def pending_case_def tx_composition_def composed_case_def tx_item_def)

lemma tx_queued_tables:
  "\<not> isl (create_test_run_endpoint (tx_env ''r1'') (\<lambda>n. replicate (Suc n) (CHR ''c'')) 10 tx_run tx_suites)"
  "vehicles tx_queued = [tx_vehicle]" "test_runs tx_queued = [run_of (tx_env ''r1'') 10 tx_vehicle None (Some tx_row) tx_run]"
  "test_case_results tx_queued = [tx_case 0, tx_case 1]"
proof -
  have "pending_cases (\<lambda>n. replicate (Suc n) (CHR ''c'')) ''r1'' 10 tx_composition = [tx_case 0, tx_case 1]"
    by (simp add: pending_cases_def tx_case_def tx_composition_def)
  then show "\<not> isl (create_test_run_endpoint (tx_env ''r1'') (\<lambda>n. replicate (Suc n) (CHR ''c'')) 10 tx_run tx_suites)"
    "vehicles tx_queued = [tx_vehicle]" "test_runs tx_queued = [run_of (tx_env ''r1'') 10 tx_vehicle None (Some tx_row) tx_run]"
    "test_case_results tx_queued = [tx_case 0, tx_case 1]"
    by (simp_all add: tx_queued_def reply_def create_test_run_endpoint_def create_test_run_def insert_run_def tx_lookups tx_defs
        Let_def run_of_def del: replicate.simps)
qed

definition tx_run_row :: "TestRunStatus \<Rightarrow> int \<Rightarrow> int \<Rightarrow> int \<Rightarrow> test_run" where
  "tx_run_row status n percent now = (run_of (tx_env ''r1'') 10 tx_vehicle None (Some tx_row) tx_run)
     \<lparr>trn_status := status, trn_version := n, trn_progress_percent := percent, trn_started_at := Some 20, trn_updated_at := now\<rparr>"

lemmas tx_recording = reply_def update_test_case_result_endpoint_def update_case_result_def require_test_run_def
  require_case_result_def find_run_def vehicle_by_id_def select_def case_key_def same_case_result_def finished_def Let_def
  refreshed_run_def run_cases_def complete_count_def terminal_def save_run_def update_row_def recorded_def tx_run_row_def
  run_of_def tx_result_def tx_run_def tx_env_def tx_vehicle_def

lemma tx_started_tables:
  "\<not> isl (update_test_case_result_endpoint (tx_env ''x'') 20 ''run-0001'' ''brake-01'' (tx_result 1 CASE_RUNNING) tx_queued)"
  "vehicles tx_started = [tx_vehicle]" "test_runs tx_started = [tx_run_row RUN_RUNNING 2 0 20]"
  "test_case_results tx_started = [recorded 20 (tx_result 1 CASE_RUNNING) (tx_case 0), tx_case 1]"
  by (simp_all add: tx_started_def tx_queued_tables tx_recording)

lemma tx_half_tables:
  "\<not> isl (update_test_case_result_endpoint (tx_env ''x'') 22 ''run-0001'' ''brake-01'' (tx_result 2 CASE_PASSED) tx_started)"
  "test_runs tx_half = [tx_run_row RUN_RUNNING 3 50 22]"
  by (simp_all add: tx_half_def tx_started_tables tx_recording)

lemma tx_commands_effective: "fst (run_commands ''run-0001'' tx_commands tx_queued) = 2"
  by (simp add: tx_commands_def execute_request_def tx_queued_tables tx_recording)

section \<open>They are reachable\<close>

lemma next_step: "test_steps s t \<Longrightarrow> service_step t u \<Longrightarrow> test_steps s u"
  unfolding test_steps_def by (rule rtranclp.rtrancl_into_rtrancl)

lemma tx_suites_reached: "test_steps tx_start tx_suites"
proof -
  let ?s = "reply (create_suite (tx_env ''s1'') tx_suite tx_start)"
  have "service_step tx_start ?s"
  proof (rule replied_step)
    show "\<not> isl (create_suite (tx_env ''s1'') tx_suite tx_start)" by code_simp
    have "test_suite_create_ok tx_suite" by code_simp
    then show "create_suite (tx_env ''s1'') tx_suite tx_start = Inr (r, t) \<Longrightarrow> service_step tx_start t" for r t
      by (rule service_step.suite_created[rotated])
  qed
  moreover have "service_step ?s tx_suites" unfolding tx_suites_def Let_def
  proof (rule replied_step)
    have "find_suite ''suite-01'' ?s \<noteq> None" by code_simp
    then have u: "find_suite ''suite-01'' ?s = Some (the (find_suite ''suite-01'' ?s))" by simp
    show "\<not> isl (update_status (tx_env ''x'') (SuiteResource (the (find_suite ''suite-01'' ?s)))
      \<lparr>csu_expected_version = 1, csu_status = ACTIVE\<rparr> ?s)" by code_simp
    show "update_status (tx_env ''x'') (SuiteResource (the (find_suite ''suite-01'' ?s)))
      \<lparr>csu_expected_version = 1, csu_status = ACTIVE\<rparr> ?s = Inr (r, t) \<Longrightarrow> service_step ?s t" for r t
      by (rule service_step.suite_moved[OF u])
  qed
  ultimately show ?thesis by (simp add: test_steps_def)
qed

lemma tx_queued_reached: "test_steps tx_start tx_queued"
  unfolding tx_queued_def
  by (rule next_step[OF tx_suites_reached], rule replied_step, rule tx_queued_tables, erule service_step.run_created)

lemma tx_started_reached: "test_steps tx_start tx_started"
  unfolding tx_started_def
  by (rule next_step[OF tx_queued_reached], rule replied_step, rule tx_started_tables, erule service_step.result_recorded)

lemma tx_half_reached: "test_steps tx_start tx_half"
  unfolding tx_half_def
  by (rule next_step[OF tx_started_reached], rule replied_step, rule tx_half_tables, erule service_step.result_recorded)

lemma tx_one_job_reached: "test_steps tx_start tx_one_job"
  unfolding tx_one_job_def
  by (rule next_step[OF tx_suites_reached], rule replied_step, rule tx_one_job_tables, erule service_step.job_created)

lemma tx_jobs_reached: "test_steps tx_start tx_jobs"
  unfolding tx_jobs_def
  by (rule next_step[OF tx_one_job_reached], rule replied_step, rule tx_jobs_tables, erule service_step.job_created)

lemma tx_cancelled_reached: "test_steps tx_start tx_cancelled"
  unfolding tx_cancelled_def
  by (rule next_step[OF tx_jobs_reached], rule replied_step, rule tx_cancelled_tables, erule service_step.job_cancelled)

lemma tx_dispatched_reached: "test_steps tx_cancelled tx_dispatched"
  unfolding tx_dispatched_def
  by (rule next_step[of tx_cancelled tx_cancelled], simp add: test_steps_def, rule replied_step, rule tx_dispatched_tables,
      erule service_step.jobs_dispatched)

lemma tx_ids_fresh: assumes "test_runs s = []" shows "fresh_stock tx_ids s"
proof -
  have "takeWhile (\<lambda>c. c = CHR ''a'') (tx_ids m n k) = replicate m (CHR ''a'')"
    "takeWhile (\<lambda>c. c = CHR ''a'') (drop (Suc m) (tx_ids m n k)) = replicate n (CHR ''a'')" for m n k
    by (simp_all add: tx_ids_def takeWhile_append)
  then have "tx_ids m n 0 = tx_ids m' n' 0 \<Longrightarrow> m = m' \<and> n = n'" for m n m' n'
    by (metis length_replicate)
  then show ?thesis using assms by (auto simp: fresh_stock_def inj_def)
qed

end
