(* ===== verification/TestProperties.thy ===== *)
theory TestProperties
  imports TestExample
begin

text \<open>
  What the test services promise: the verdict of a run of a suite is that of its cases, jobs that are
  due are dispatched, a run absorbs a bounded number of commands, and what is decided stays.
\<close>

text \<open>C37: The status and progress of a run of a suite are those of its cases, in every store that requests and
  scheduler cycles can reach. The run has one result per case of the suite as it was when the run was
  created, in its order. It has passed only when every case is over and no required case failed or was
  skipped, and failed only when all are over and a required one did; while it runs, its progress is the
  share of cases that are over, rounded down; a cancelled run has a case that is not over.\<close>
theorem verdict_follows_cases:
  assumes "test_steps s t" and "test_runs s = []" "test_case_results s = []" "test_jobs s = []" "test_suites s = []"
    and "r \<in> set (test_runs t)" "trn_catalog_suite_snapshot r = Some p" "xs = run_cases (trn_id r) t"
    and "ready = length (filter (\<lambda>x. terminal (tcr_status x)) xs)"
  shows "xs \<noteq> [] \<and> list_all2 (\<lambda>x q. tcr_case_id q = tic_definition_id x
        \<and> tcr_definition_version q = sca_definition_version x \<and> tcr_required q = tic_required x) (ssn_cases p) xs
    \<and> (case trn_status r of
         RUN_QUEUED \<Rightarrow> trn_progress_percent r = 0 \<and> (\<forall>x\<in>set xs. tcr_status x = CASE_PENDING)
       | RUN_RUNNING \<Rightarrow> trn_progress_percent r = int ready * 100 div int (length xs) \<and> ready < length xs
       | RUN_PASSED \<Rightarrow> trn_progress_percent r = 100 \<and> (\<forall>x\<in>set xs. terminal (tcr_status x))
           \<and> (\<forall>x\<in>set xs. tcr_required x \<longrightarrow> tcr_status x = CASE_PASSED)
       | RUN_FAILED \<Rightarrow> trn_progress_percent r = 100 \<and> (\<forall>x\<in>set xs. terminal (tcr_status x))
           \<and> (\<exists>x\<in>set xs. tcr_required x \<and> tcr_status x \<in> {CASE_FAILED, CASE_SKIPPED})
       | RUN_CANCELLED \<Rightarrow> ready < length xs)"
proof -
  have "run_ok (test_case_results t) r"
    using steps_ok[OF assms(1) nothing_run_ok[OF assms(2-5)]] assms(6) by (simp add: test_ok_def list_all_iff)
  then have "plan_ok (ssn_cases p)" "list_all2 same_plan (ssn_cases p) xs" "verdict xs r"
    using assms(7,8) by (simp_all add: run_ok_def run_cases_of)
  then show ?thesis using verdict_spelled[OF _ assms(9)] plan_results by blast
qed

theorem verdict_follows_cases_witness:
  "\<exists>r. r \<in> set (test_runs tx_half) \<and> trn_status r = RUN_RUNNING \<and> trn_progress_percent r = 50
    \<and> length (filter (\<lambda>x. terminal (tcr_status x)) (run_cases (trn_id r) tx_half)) < length (run_cases (trn_id r) tx_half)"
proof -
  let ?r = "tx_run_row RUN_RUNNING 3 50 22"
  have r: "?r \<in> set (test_runs tx_half)" "trn_catalog_suite_snapshot ?r = Some (run_suite_snapshot tx_row)"
    "trn_status ?r = RUN_RUNNING" "trn_progress_percent ?r = 50"
    by (simp_all add: tx_half_tables tx_run_row_def run_of_def)
  from verdict_follows_cases[OF tx_half_reached _ _ _ _ r(1,2) refl refl] show ?thesis
    using r by (intro exI[of _ ?r]) (simp add: tx_start_def)
qed

text \<open>C38: Every job that is due is dispatched, and in time. In a reachable store a cycle of the scheduler never
  fails: it dispatches the jobs that are due, at most as many as its limit, those scheduled first before
  the others. So after as many later cycles as the jobs due at an instant need, at whatever instants they
  take place and whatever else becomes due meanwhile, each of these jobs is dispatched and its run waits
  to be executed, with the selection of the job.\<close>
theorem due_jobs_dispatched:
  assumes "test_steps s0 s" and "test_runs s0 = []" "test_case_results s0 = []" "test_jobs s0 = []" "test_suites s0 = []"
    and "fresh_stock stock s" "\<forall>now\<in>set nows. instant \<le> now" "t = scheduler_cycles stock limit nows s"
  shows "(\<exists>u. dispatch_due_test_jobs (stock 0) instant limit s = Inr (int (min limit (length (due_jobs instant s))), u))
    \<and> due_jobs instant t = drop (length nows * limit) (due_jobs instant s)
    \<and> (\<forall>(j, v)\<in>set (take (length nows * limit) (due_jobs instant s)).
         (\<exists>k\<in>set (test_jobs t). tjb_job_id k = tjb_job_id j \<and> tjb_run_id k = tjb_run_id j \<and> tjb_status k = JOB_DISPATCHED)
         \<and> (\<exists>r\<in>set (test_runs t). trn_run_id r = tjb_run_id j \<and> trn_status r = RUN_QUEUED
              \<and> trn_catalog_suite_snapshot r = tjb_selection_snapshot j))
    \<and> (length (due_jobs instant s) \<le> length nows * limit \<longrightarrow> due_jobs instant t = [])"
proof -
  have ok: "test_ok s" by (rule steps_ok[OF assms(1) nothing_run_ok[OF assms(2-5)]])
  show ?thesis
    using scheduler_drains[OF ok assms(6,7), of limit] dispatch_cycle[OF ok fresh_first[OF assms(6)] order_refl, of instant limit]
    unfolding assms(8) queued_def same_job_def by fastforce
qed

theorem due_jobs_dispatched_witness:
  "map (\<lambda>(j, v). tjb_job_id j) (due_jobs 30 tx_jobs) = [''job-0002'', ''job-0001''] \<and> due_jobs 30 (scheduler_cycles tx_ids 1 [30, 90] tx_jobs) = []"
proof -
  have "test_runs tx_jobs = []" by (simp add: tx_jobs_tables)
  from due_jobs_dispatched[OF tx_jobs_reached _ _ _ _ tx_ids_fresh[OF this] _ refl, of "[30, 90]" 30 1]
  show ?thesis by (simp add: tx_start_def tx_job_row_def job_of_def tx_job_def)
qed

text \<open>C39: The commands of a run run out. Whatever commands clients send to a run, in any order and with any
  versions, only a bounded number changes anything: two for each case of its suite, and two for a run
  without a suite. The version of the run counts them, and a run that has used them all is finished.\<close>
theorem run_effort_bounded:
  assumes "test_steps s0 s" and "test_runs s0 = []" "test_case_results s0 = []" "test_jobs s0 = []" "test_suites s0 = []"
    and "find_run i s = Some r" "run_commands i cs s = (n, t)"
    and "budget = (case trn_catalog_suite_snapshot r of None \<Rightarrow> 2 | Some p \<Rightarrow> 2 * length (ssn_cases p))"
  shows "n \<le> budget \<and> (\<exists>q. find_run i t = Some q \<and> trn_version q = trn_version r + int n \<and> trn_version q \<le> 1 + int budget
    \<and> (trn_version q = 1 + int budget \<longrightarrow> finished (trn_status q)))"
proof -
  have ok: "test_ok s" by (rule steps_ok[OF assms(1) nothing_run_ok[OF assms(2-5)]])
  have b: "int budget = run_budget r" using assms(8) by (simp add: run_budget_def split: option.splits)
  obtain q where q: "test_ok t" "find_run i t = Some q" "run_budget q = run_budget r" "trn_version q = trn_version r + int n"
    using run_commands_version[OF ok assms(6,7)] by blast
  show ?thesis
    using found_run[OF q(2,1)] found_run[OF assms(6) ok] q b by (intro conjI exI[of _ q]) auto
qed

theorem run_effort_bounded_witness:
  "fst (run_commands ''run-0001'' tx_commands tx_queued) = 2 \<and> fst (run_commands ''run-0001'' tx_commands tx_queued) \<le> 4"
proof -
  have r: "find_run ''run-0001'' tx_queued = Some (run_of (tx_env ''r1'') 10 tx_vehicle None (Some tx_row) tx_run)"
    by (simp add: find_run_def select_def tx_queued_tables run_of_def tx_run_def)
  from run_effort_bounded[OF tx_queued_reached _ _ _ _ this surjective_pairing refl, of tx_commands] show ?thesis
    using tx_commands_effective by (simp add: tx_start_def run_of_def run_suite_snapshot_def tx_composition_def)
qed

text \<open>C40: What is decided stays decided, whatever requests and cycles follow. A job keeps its identifiers, its
  schedule and the selection it was created with; one that was dispatched has a run of exactly this
  selection; one that was cancelled never gets a run. A finished run and the results of its cases never
  change again.\<close>
theorem decided_stays:
  assumes "test_steps s0 s" and "test_runs s0 = []" "test_case_results s0 = []" "test_jobs s0 = []" "test_suites s0 = []"
    and "test_steps s t"
  shows "(\<forall>j\<in>set (test_jobs s). \<exists>k\<in>set (test_jobs t). tjb_job_id k = tjb_job_id j \<and> tjb_run_id k = tjb_run_id j
        \<and> tjb_selection_snapshot k = tjb_selection_snapshot j \<and> tjb_scheduled_for k = tjb_scheduled_for j
        \<and> (tjb_status j \<noteq> JOB_SCHEDULED \<longrightarrow> k = j)
        \<and> (tjb_status k = JOB_DISPATCHED \<longrightarrow> (\<exists>r\<in>set (test_runs t). trn_run_id r = tjb_run_id j
              \<and> trn_catalog_suite_snapshot r = tjb_selection_snapshot j)))
    \<and> (\<forall>j\<in>set (test_jobs s). tjb_status j = JOB_CANCELLED \<longrightarrow> tjb_run_id j \<notin> trn_run_id ` set (test_runs t))
    \<and> (\<forall>r\<in>set (test_runs s). finished (trn_status r) \<longrightarrow> r \<in> set (test_runs t) \<and> run_cases (trn_id r) t = run_cases (trn_id r) s)"
proof -
  have ok: "test_ok s" by (rule steps_ok[OF assms(1) nothing_run_ok[OF assms(2-5)]])
  then have later: "test_ok t" by (rule steps_ok[OF assms(6)])
  have k: "kept s t" by (rule steps_kept[OF assms(6) ok])
  show ?thesis using kept_jobs[OF k later] kept_cancelled[OF k later] kept_finished[OF k] by blast
qed

theorem decided_stays_witness:
  "map (\<lambda>j. (tjb_job_id j, tjb_status j)) (test_jobs tx_cancelled) = [(''job-0001'', JOB_CANCELLED), (''job-0002'', JOB_SCHEDULED)]
    \<and> map (\<lambda>j. (tjb_job_id j, tjb_status j)) (test_jobs tx_dispatched) = [(''job-0001'', JOB_CANCELLED), (''job-0002'', JOB_DISPATCHED)]
    \<and> ''run-0001'' \<notin> trn_run_id ` set (test_runs tx_dispatched)"
proof -
  have "''run-0001'' \<notin> trn_run_id ` set (test_runs tx_dispatched)"
    using decided_stays[OF tx_cancelled_reached _ _ _ _ tx_dispatched_reached]
    by (simp add: tx_start_def tx_cancelled_tables cancelled_job_def tx_job_row_def job_of_def tx_job_def)
  then show ?thesis
    by (simp add: tx_dispatched_tables tx_cancelled_tables cancelled_job_def tx_job_row_def job_of_def tx_job_def)
qed

end
