(* ===== verification/Spec2Isabelle.thy ===== *)
theory Spec2Isabelle
  imports CodecProperties CanProperties EcuProperties CanSystemProperties CanBusProperties EcuFaultProperties EcuSystemProperties DiagProperties ErrorBodies TestUpdates TestProperties
begin

text \<open>
  A model of the simulation services of the automotive test engineering platform, with the theorems
  that make them correct. The sources are the Python package \<open>src/src/atep\<close>.

  \<^bold>\<open>The program.\<close> The platform simulates vehicles for test engineers. A web service takes commands,
  runs each in one database transaction against the rows of a vehicle, and leaves behind the changed
  row, an execution row, one event in the outbox and one audit record. Four subsystems are modelled.
  The CAN simulation (\<open>can_network\<close>) keeps one network per vehicle: frame contracts, submission of
  frames, error counters and bus-off, non-destructive arbitration, DBC encoding, gateways to LIN and
  Ethernet and multi-bus campaigns. The ECU simulation (\<open>ecus\<close>) keeps the control units of a vehicle:
  memory and its regions, faults, signals, cyclic tasks, behaviour state, snapshots, signal routes and
  scenarios. The diagnostic services (\<open>diagnostics\<close>) speak UDS to a control unit: sessions, security
  access, reset, flash programming, routines, data identifiers and trouble codes, with an OBD-II view
  and campaigns; their rows hang on the unit, and a reset runs the reset of the simulation. The test
  execution (\<open>test_catalog\<close>, \<open>environment_profiles\<close>, \<open>test_runs\<close>, \<open>test_jobs\<close>) keeps definitions and suites of
  tests, the runs of suites with the results of their cases, and jobs that a scheduler turns into runs
  when they are due. Handlers of all four follow one contract: a command carries an identifier chosen
  by the client, which makes it replayable, and the version it was prepared against, which makes lost
  updates impossible; in the test execution the identifier is that of the row, and an update that finds
  its effect already there is recognised as a repetition.

  \<^bold>\<open>Shared theories.\<close> \<open>AtepPrelude\<close>: error values (\<open>core/errors.py\<close>), the error monad, tables as lists
  with unique keys, the outbox and the audit log. \<open>ErrorBodies\<close>: how an error value is answered.
  \<open>AtepText\<close>, \<open>JsonText\<close>: Python's string methods, decimal text, SHA-256 and canonical JSON.
  \<open>Numerics\<close>: binary64 and 28-digit decimal rounding.
  \<open>Replay\<close>: the locales \<open>idempotent\<close> and \<open>versioned\<close>, the contract of a command handler, with its
  consequences proved once.

  \<^bold>\<open>CAN.\<close> \<open>CanSchemas\<close> and \<open>CanModels\<close> hold commands, rows and the store (\<open>schemas.py\<close>,
  \<open>models.py\<close>); \<open>CanHandler\<close> what the handlers share; \<open>CanCore\<close>, \<open>CanFaults\<close>, \<open>CanArbitration\<close> with
  \<open>CanArbiter\<close>, \<open>CanDbc\<close> with \<open>CanCodec\<close>, \<open>CanMultibus\<close> and \<open>CanCampaign\<close> the services of the same
  names. Each interprets the handler contract on its own handlers. \<open>CanSchedule\<close> is the abstract
  specification of a bus, which the arbitration loop refines. \<open>CanInvariants\<close>, \<open>CanSystem\<close> and
  \<open>CanReach\<close> define the transition system of all requests and the invariant of every reachable store.
  \<open>CanBusOff\<close> shows what a bus-off node can still do, \<open>CanLatency\<close> what a campaign sums up and that
  its percentile is a nearest rank, \<open>CanArbitrated\<close> which rows an arbitration stores. The results are
  stated in \<open>CanProperties\<close> (schedules and timing), \<open>CodecProperties\<close> (bit layout and round trips),
  \<open>CanSystemProperties\<close> (invariant, replay, versions, acceptance, error states) and
  \<open>CanBusProperties\<close> (routes, campaigns, stored arbitrations).

  \<^bold>\<open>ECU.\<close> \<open>EcuSchemas\<close> and \<open>EcuModels\<close>: documents with their validators, rows and the store;
  \<open>EcuProfiles\<close>: \<open>profiles.py\<close>; \<open>EcuHandler\<close>: the contract \<open>unit_handler\<close> of a command of one unit;
  \<open>EcuState\<close>, \<open>EcuClock\<close>, \<open>EcuMemory\<close>, \<open>EcuFaults\<close>, \<open>EcuRouting\<close>: the parts of \<open>service.py\<close>;
  \<open>EcuScenario\<close>: \<open>scenario_service.py\<close>. \<open>EcuValid\<close> shows that validation is idempotent, \<open>EcuReadable\<close>
  which changes keep a stored state valid, \<open>EcuTime\<close> and \<open>EcuMemoryFacts\<close> what time and memory
  operations compute, \<open>EcuSystem\<close> and \<open>EcuReach\<close> the transition system of all requests.
  \<open>EcuProperties\<close>, \<open>EcuFaultProperties\<close> and \<open>EcuSystemProperties\<close> state the results over the small
  fleet of \<open>EcuExample\<close>.

  \<^bold>\<open>Diagnostics.\<close> \<open>DiagModels\<close>: commands, definitions and rows (\<open>schemas.py\<close>, \<open>models.py\<close>); its store
  extends that of the control units. \<open>DiagHandler\<close>: the helpers of \<open>service.py\<close> that all its handlers
  share; \<open>DiagSecurity\<close>, \<open>DiagFlash\<close>, \<open>DiagRoutine\<close> and \<open>DiagData\<close>: its handlers, with the one endpoint of
  \<open>router.py\<close> that commits after an error. \<open>DiagViews\<close> and \<open>DiagEffects\<close> show which rows a request
  touches; \<open>DiagSystem\<close> puts the ten requests behind one function \<open>serve\<close> and interprets the contract
  \<open>diag_handler\<close> on all of them; \<open>DiagReach\<close> has the steps of the whole system, including those of the
  simulation, and their invariant; \<open>DiagServes\<close> says when requests succeed and follows a transfer block
  by block, \<open>DiagHex\<close> relates bytes to their text, \<open>DiagWedge\<close> follows a transfer that cannot end.
  \<open>DiagProperties\<close> states the results.

  \<^bold>\<open>Test execution.\<close> \<open>TestModels\<close>: enumerations, commands and rows (\<open>schemas.py\<close>, \<open>models.py\<close> of the four
  packages), Python's equality of JSON values and instants as text; an instant is the number of its
  microseconds in UTC, so the time zone a client wrote is not kept. \<open>TestCatalog\<close>: the catalogue and the
  environment profiles; \<open>TestRuns\<close>: runs and case results; \<open>TestJobs\<close>: jobs, their dispatch and the cycles
  of \<open>scheduler.py\<close>, both with the endpoints of \<open>router.py\<close> that change them; the identifiers that the
  database gives to the rows of a cycle are an argument. \<open>TestUpdates\<close>: the contract \<open>guarded_update\<close> of
  all updates, interpreted on the five handlers.
  \<open>TestReach\<close> has the steps of the system and the invariant of every reachable store, \<open>TestHistory\<close> what
  no later step can change, \<open>TestProgress\<close> what cycles and commands achieve and how many of them can have
  an effect, \<open>TestExample\<close> a small platform. \<open>TestProperties\<close> states the results.

  \<^bold>\<open>Conventions.\<close> A handler is a function from the environment (acting user, correlation identifier,
  the identifier the database gives to the new row), the command and the store to an error or a
  result with the new store; a raised exception is \<open>Inl\<close>, and the transaction it rolls back leaves
  the old store. All loops of the sources are recursion over lists or terminate by a measure; no fuel
  is used anywhere. A character is a Latin-1 code point; floating-point numbers are the rationals a
  binary64 can hold, without infinities, NaN and overflow; UUIDs are texts; rows are listed in the
  order of their insertion, which is that of their creation times. The texts of the pydantic errors
  about violated field bounds are abstracted to the name of the field. JSON columns hold the typed
  documents they serialize, and an assigned attribute is written. \<open>StopIteration\<close> and
  \<open>AssertionError\<close> are errors like others.

  \<^bold>\<open>Deviations.\<close> Three findings of the modelling are not visible in the model itself. The corruption of
  a memory assigns a list whose cells were changed in place, which the object-relational mapper may
  not notice: the model stores it as the code intends. A replayed publication and a replayed
  diagnostic request are compared with Python's equality, which takes \<open>True\<close>, \<open>1\<close> and \<open>1.0\<close> for equal.
  The details of a negative response (its counters and times) are left out of the error.

  \<^bold>\<open>Not modelled.\<close> The routers but for the endpoints named above, response projections, identity and
  sessions, the message broker, the stream of run updates and object storage are input and output
  around the services. Transactions are sequential: locks and the rows a scheduler skips because
  another one holds them do not appear. The electric-vehicle, ADAS and AI engines are numerical
  simulations on floating-point elementary functions, which the library used here does not model.
  Vehicles beyond their identity, the module registry, fault campaigns and mutation analysis are
  record keeping of the same kind as the handlers here and are not modelled.
\<close>

end
